(* ===== verification/Prelude.thy ===== *)
theory Prelude imports Complex_Main "HOL-Library.AList" "HOL-Library.Sublist" "HOL-Library.Char_ord"
  "HOL-Library.List_Lexorder" "HOL-Library.Word"
begin

text \<open>
  Shared vocabulary of the development: time, byte strings, decoded JSON values, keyed
  stores, and the generic lemmas on them that the component theories rely on.

  \<^item> Go's \<open>time.Time\<close> and \<open>time.Duration\<close> are integers counting
    nanoseconds; the zero time is 0.
  \<^item> Go strings are byte sequences: \<open>string\<close> (a list of 8-bit \<open>char\<close>).
    Text outside ASCII is written as its UTF-8 bytes with \<open>utf8\<close>.
  \<^item> \<open>map[string]any\<close> as produced by \<open>encoding/json\<close> is a map from keys to
    \<open>json\<close>; a JSON number is a Go \<open>float64\<close>, hence a rational.
  \<^item> A Go map that the code ranges over is an association list with distinct keys
    (\<open>AList.update\<close> keeps the place of a key, \<open>map_of\<close> looks it up).
\<close>

section \<open>Hint collections\<close>

named_theorems store_simps \<open>lookup and domain equations of keyed stores\<close>
named_theorems frame_simps \<open>fields an operation leaves alone\<close>
named_theorems inv_intros \<open>preservation of component invariants\<close>

section \<open>Time\<close>

type_synonym gotime = int

abbreviation (input) zero_time :: gotime where "zero_time \<equiv> 0"

definition ns_second :: int where "ns_second = 1000000000"

definition ns_minute :: int where "ns_minute = 60 * ns_second"

definition ns_hour :: int where "ns_hour = 60 * ns_minute"

lemma ns_pos [simp]: "0 < ns_second" "0 < ns_minute" "0 < ns_hour"
  by (simp_all add: ns_second_def ns_minute_def ns_hour_def)

text \<open>\<open>int32(i)\<close> keeps the low 32 bits.\<close>

definition int32 :: "int \<Rightarrow> int" where
  "int32 i = (i + 2 ^ 31) mod 2 ^ 32 - 2 ^ 31"

section \<open>Byte strings\<close>

definition utf8 :: "nat list \<Rightarrow> string" where
  "utf8 bs = map char_of bs"

definition trim_prefix :: "string \<Rightarrow> string \<Rightarrow> string" where
  "trim_prefix p s = (if prefix p s then drop (length p) s else s)"

definition trim_suffix :: "string \<Rightarrow> string \<Rightarrow> string" where
  "trim_suffix p s = (if suffix p s then take (length s - length p) s else s)"

lemma trim_prefix_length: "length (trim_prefix p s) \<le> length s"
  by (simp add: trim_prefix_def)

lemma trim_prefix_shorter:
  "prefix p s \<Longrightarrow> p \<noteq> [] \<Longrightarrow> length (trim_prefix p s) < length s"
  by (auto simp: trim_prefix_def prefix_def)

text \<open>\<open>fmt.Sprintf\<close> with a decimal verb.\<close>

fun nat_digits :: "nat \<Rightarrow> string" where
  "nat_digits n = (if n < 10 then [char_of (48 + n)] else nat_digits (n div 10) @ [char_of (48 + n mod 10)])"

declare nat_digits.simps [simp del]

definition int_digits :: "int \<Rightarrow> string" where
  "int_digits i = (if i < 0 then CHR ''-'' # nat_digits (nat (- i)) else nat_digits (nat i))"

section \<open>Decoded JSON\<close>

datatype json =
    JNull
  | JBool bool
  | JNum rat
  | JStr string
  | JArr "json list"
  | JObj "(string \<times> json) list"

type_synonym jmap = "string \<rightharpoonup> json"

text \<open>\<open>s, _ := m[k].(string)\<close>: the empty string when the key is missing or not a string.\<close>

definition jstr :: "jmap \<Rightarrow> string \<Rightarrow> string" where
  "jstr m k = (case m k of Some (JStr s) \<Rightarrow> s | _ \<Rightarrow> [])"

text \<open>\<open>s, ok := m[k].(string)\<close>.\<close>

definition jstr_ok :: "jmap \<Rightarrow> string \<Rightarrow> string option" where
  "jstr_ok m k = (case m k of Some (JStr s) \<Rightarrow> Some s | _ \<Rightarrow> None)"

definition jnum_ok :: "jmap \<Rightarrow> string \<Rightarrow> rat option" where
  "jnum_ok m k = (case m k of Some (JNum q) \<Rightarrow> Some q | _ \<Rightarrow> None)"

text \<open>\<open>v, _ := m[k].([]any)\<close>, then the elements that are strings, in order.\<close>

definition jarr :: "jmap \<Rightarrow> string \<Rightarrow> json list" where
  "jarr m k = (case m k of Some (JArr xs) \<Rightarrow> xs | _ \<Rightarrow> [])"

fun only_strings :: "json list \<Rightarrow> string list" where
  "only_strings [] = []"
| "only_strings (JStr s # xs) = s # only_strings xs"
| "only_strings (_ # xs) = only_strings xs"

text \<open>\<open>int(f)\<close> of a \<open>float64\<close> truncates towards zero.\<close>

definition trunc_rat :: "rat \<Rightarrow> int" where
  "trunc_rat q = (if q < 0 then - \<lfloor>- q\<rfloor> else \<lfloor>q\<rfloor>)"

lemma trunc_rat_of_int [simp]: "trunc_rat (of_int i) = i"
  by (cases "i < 0") (simp_all add: trunc_rat_def floor_minus)

section \<open>Results of RPC handlers\<close>

text \<open>\<open>(value, error)\<close> of a handler: \<open>Inl\<close> a \<open>status.Error\<close>, or \<open>Inr\<close> the value.\<close>

datatype grpc_code = InvalidArgument | NotFound | AlreadyExists | FailedPrecondition | PermissionDenied
  | Unauthenticated | ResourceExhausted | Unimplemented | Unavailable | DeadlineExceeded | Aborted
  | Internal | Unknown

type_synonym grpc_error = "grpc_code \<times> string"

section \<open>Keyed stores\<close>

abbreviation keys :: "('k \<times> 'v) list \<Rightarrow> 'k list" where
  "keys m \<equiv> map fst m"

lemma map_of_update [store_simps]: "map_of (AList.update k v m) = (map_of m)(k \<mapsto> v)"
  by (rule update_conv')

lemma map_of_delete [store_simps]: "map_of (AList.delete k m) = (map_of m)(k := None)"
  by (rule delete_conv')

lemma keys_update_set [store_simps]: "set (keys (AList.update k v m)) = insert k (set (keys m))"
  by (simp add: dom_update)

lemma distinct_keys_update [intro]: "distinct (keys m) \<Longrightarrow> distinct (keys (AList.update k v m))"
  by (rule distinct_update)

lemma distinct_keys_delete [intro]: "distinct (keys m) \<Longrightarrow> distinct (keys (AList.delete k m))"
  by (rule distinct_delete)

lemma keys_update_known:
  "map_of m k \<noteq> None \<Longrightarrow> keys (AList.update k v m) = keys m"
  by (induction m) (auto split: if_splits)

lemma keys_update_fresh:
  "map_of m k = None \<Longrightarrow> keys (AList.update k v m) = keys m @ [k]"
  by (induction m) (auto split: if_splits)

lemma map_of_Some_key: "map_of m k = Some v \<Longrightarrow> k \<in> set (keys m)"
  by (auto dest: map_of_SomeD intro: rev_image_eqI)

lemma map_of_None_key: "map_of m k = None \<longleftrightarrow> k \<notin> set (keys m)"
  by (simp add: map_of_eq_None_iff)

lemma update_twice [store_simps]: "AList.update k a (AList.update k b m) = AList.update k a m"
  by (induction m) auto

end
