(* ===== verification/GoText.thy ===== *)
theory GoText imports Main Prelude begin

text \<open>
  The parts of Go's \<open>strings\<close>, \<open>unicode/utf8\<close> and \<open>strconv\<close> packages
  that the modelled code calls, on byte strings: searching, splitting, joining, trimming,
  replacing, quoting, and the conversion between strings and runes.

  \<open>go_quote\<close> takes every rune outside ASCII to be printable (the standard library
  consults Unicode tables there).
\<close>

section \<open>Searching and splitting\<close>

text \<open>\<open>strings.Index\<close> (\<open>None\<close> for -1).\<close>

fun str_index :: "string \<Rightarrow> string \<Rightarrow> nat option" where
  "str_index [] p = (if p = [] then Some 0 else None)"
| "str_index (c # cs) p = (if prefix p (c # cs) then Some 0 else map_option Suc (str_index cs p))"

definition str_contains :: "string \<Rightarrow> string \<Rightarrow> bool" where
  "str_contains s p \<longleftrightarrow> str_index s p \<noteq> None"

text \<open>\<open>strings.LastIndex\<close>.\<close>

fun str_last_index :: "string \<Rightarrow> string \<Rightarrow> nat option" where
  "str_last_index [] p = (if p = [] then Some 0 else None)"
| "str_last_index (c # cs) p =
    (case str_last_index cs p of Some i \<Rightarrow> Some (Suc i)
     | None \<Rightarrow> if prefix p (c # cs) then Some 0 else None)"

text \<open>\<open>strings.Split\<close> by one byte.\<close>

fun split_on :: "char \<Rightarrow> string \<Rightarrow> string list" where
  "split_on d [] = [[]]"
| "split_on d (c # cs) =
    (if c = d then [] # split_on d cs
     else case split_on d cs of [] \<Rightarrow> [[c]] | s # ss \<Rightarrow> (c # s) # ss)"

text \<open>\<open>strings.Join\<close>.\<close>

fun join_with :: "string \<Rightarrow> string list \<Rightarrow> string" where
  "join_with sep [] = []"
| "join_with sep [s] = s"
| "join_with sep (s # t # ss) = s @ sep @ join_with sep (t # ss)"

text \<open>\<open>strings.CutPrefix\<close>.\<close>

definition cut_prefix :: "string \<Rightarrow> string \<Rightarrow> string option" where
  "cut_prefix s p = (if prefix p s then Some (drop (length p) s) else None)"

text \<open>\<open>strings.Count\<close> of a single byte.\<close>

definition count_char :: "string \<Rightarrow> char \<Rightarrow> nat" where
  "count_char s c = length (filter ((=) c) s)"

text \<open>\<open>strings.ReplaceAll\<close> for a non-empty pattern: leftmost, not overlapping.\<close>

function replace_all :: "string \<Rightarrow> string \<Rightarrow> string \<Rightarrow> string" where
  "replace_all p r s =
    (case s of [] \<Rightarrow> []
     | c # cs \<Rightarrow> if p \<noteq> [] \<and> prefix p s then r @ replace_all p r (drop (length p) s)
                else c # replace_all p r cs)"
  by pat_completeness auto
termination
  by (relation "measure (\<lambda>(p, r, s). length s)") (auto simp: prefix_def)

declare replace_all.simps [simp del]

section \<open>Runes\<close>

abbreviation byte :: "char \<Rightarrow> nat" where "byte c \<equiv> of_char c"

definition cont_byte :: "nat \<Rightarrow> bool" where
  "cont_byte b \<longleftrightarrow> 128 \<le> b \<and> b < 192"

text \<open>
  \<open>utf8.DecodeRune\<close>: the first rune and the number of bytes it takes; 65533 with width 1
  for an invalid encoding. The ranges of the second byte exclude overlong encodings,
  surrogates and values above 0x10FFFF.
\<close>

definition second_ok :: "nat \<Rightarrow> nat \<Rightarrow> bool" where
  "second_ok b0 b1 \<longleftrightarrow>
    (if b0 = 224 then 160 \<le> b1 \<and> b1 < 192
     else if b0 = 237 then 128 \<le> b1 \<and> b1 < 160
     else if b0 = 240 then 144 \<le> b1 \<and> b1 < 192
     else if b0 = 244 then 128 \<le> b1 \<and> b1 < 144
     else cont_byte b1)"

definition decode_rune :: "nat list \<Rightarrow> nat \<times> nat" where
  "decode_rune bs =
    (case bs of
       [] \<Rightarrow> (65533, 0)
     | b0 # r0 \<Rightarrow>
         if b0 < 128 then (b0, 1)
         else if b0 < 194 \<or> 245 \<le> b0 then (65533, 1)
         else case r0 of [] \<Rightarrow> (65533, 1)
         | b1 # r1 \<Rightarrow>
             if \<not> second_ok b0 b1 then (65533, 1)
             else if b0 < 224 then ((b0 mod 32) * 64 + b1 mod 64, 2)
             else case r1 of [] \<Rightarrow> (65533, 1)
             | b2 # r2 \<Rightarrow>
                 if \<not> cont_byte b2 then (65533, 1)
                 else if b0 < 240 then ((b0 mod 16) * 4096 + (b1 mod 64) * 64 + b2 mod 64, 3)
                 else case r2 of [] \<Rightarrow> (65533, 1)
                 | b3 # _ \<Rightarrow>
                     if \<not> cont_byte b3 then (65533, 1)
                     else ((b0 mod 8) * 262144 + (b1 mod 64) * 4096 + (b2 mod 64) * 64 + b3 mod 64, 4))"

lemma decode_rune_width: "bs \<noteq> [] \<Longrightarrow> 1 \<le> snd (decode_rune bs) \<and> snd (decode_rune bs) \<le> 4"
  by (simp add: decode_rune_def split: list.split)

text \<open>A string cut into its runes, each with its bytes: what \<open>range\<close> and
  \<open>[]rune(s)\<close> read.\<close>

function rune_segs :: "string \<Rightarrow> (nat \<times> string) list" where
  "rune_segs s =
    (if s = [] then []
     else let (r, w) = decode_rune (map byte s)
          in (r, take w s) # rune_segs (drop w s))"
  by pat_completeness auto
termination
proof (relation "measure length", simp, goal_cases)
  case (1 s x r w)
  then have "w = snd (decode_rune (map byte s))" by (metis snd_conv)
  then show ?case using 1 decode_rune_width[of "map byte s"] by simp
qed

declare rune_segs.simps [simp del]

definition runes :: "string \<Rightarrow> nat list" where
  "runes s = map fst (rune_segs s)"

text \<open>\<open>string(r)\<close> of a rune.\<close>

definition encode_rune :: "nat \<Rightarrow> string" where
  "encode_rune r =
    (let r' = (if r \<ge> 1114112 \<or> (55296 \<le> r \<and> r < 57344) then 65533 else r)
     in if r' < 128 then utf8 [r']
        else if r' < 2048 then utf8 [192 + r' div 64, 128 + r' mod 64]
        else if r' < 65536 then utf8 [224 + r' div 4096, 128 + r' div 64 mod 64, 128 + r' mod 64]
        else utf8 [240 + r' div 262144, 128 + r' div 4096 mod 64, 128 + r' div 64 mod 64, 128 + r' mod 64])"

definition string_of_runes :: "nat list \<Rightarrow> string" where
  "string_of_runes rs = concat (map encode_rune rs)"

section \<open>Trimming\<close>

text \<open>\<open>unicode.IsSpace\<close>.\<close>

definition is_space :: "nat \<Rightarrow> bool" where
  "is_space r \<longleftrightarrow> r \<in> {9, 10, 11, 12, 13, 32, 133, 160, 5760, 8232, 8233, 8239, 8287, 12288} \<or>
     (8192 \<le> r \<and> r \<le> 8202)"

definition TrimSpace :: "string \<Rightarrow> string" where
  "TrimSpace s =
    (let left = dropWhile (is_space \<circ> fst) (rune_segs s)
     in concat (map snd (rev (dropWhile (is_space \<circ> fst) (rev left)))))"

section \<open>Quoting\<close>

definition hex_digit :: "nat \<Rightarrow> char" where
  "hex_digit n = (if n < 10 then char_of (48 + n) else char_of (87 + n))"

definition hex2 :: "nat \<Rightarrow> string" where
  "hex2 n = [hex_digit (n div 16), hex_digit (n mod 16)]"

definition quote_byte :: "nat \<Rightarrow> string" where
  "quote_byte b =
    (if b = 34 then [CHR 0x5C, CHR 0x22] else if b = 92 then [CHR 0x5C, CHR 0x5C]
     else if b = 7 then [CHR 0x5C, CHR ''a''] else if b = 8 then [CHR 0x5C, CHR ''b'']
     else if b = 12 then [CHR 0x5C, CHR ''f''] else if b = 10 then [CHR 0x5C, CHR ''n'']
     else if b = 13 then [CHR 0x5C, CHR ''r''] else if b = 9 then [CHR 0x5C, CHR ''t'']
     else if b = 11 then [CHR 0x5C, CHR ''v'']
     else if b < 32 \<or> b = 127 then CHR 0x5C # CHR ''x'' # hex2 b
     else [char_of b])"

text \<open>\<open>strconv.Quote\<close>, the verb \<open>%q\<close>.\<close>

definition go_quote :: "string \<Rightarrow> string" where
  "go_quote s =
    CHR 0x22 # concat (map (\<lambda>(r, seg).
       if r = 65533 \<and> length seg = 1 then CHR 0x5C # CHR ''x'' # hex2 (byte (hd seg))
       else if r < 128 then quote_byte r else seg) (rune_segs s)) @ [CHR 0x22]"

section \<open>Facts\<close>

lemma rune_segs_Nil [simp]: "rune_segs [] = []"
  by (simp add: rune_segs.simps)

lemma rune_segs_step:
  "s \<noteq> [] \<Longrightarrow> rune_segs s = (fst (decode_rune (map byte s)), take (snd (decode_rune (map byte s))) s) #
     rune_segs (drop (snd (decode_rune (map byte s))) s)"
  by (subst rune_segs.simps) (simp add: split_beta Let_def)

lemma rune_segs_concat: "concat (map snd (rune_segs s)) = s"
proof (induction s rule: length_induct)
  case (1 s)
  show ?case
  proof (cases "s = []")
    case False
    then have "length (drop (snd (decode_rune (map byte s))) s) < length s"
      using decode_rune_width[of "map byte s"] by simp
    then show ?thesis using 1 False by (simp add: rune_segs_step)
  qed simp
qed

lemma runes_length: "length (runes s) \<le> length s"
proof (induction s rule: length_induct)
  case (1 s)
  show ?case
  proof (cases "s = []")
    case False
    let ?t = "drop (snd (decode_rune (map byte s))) s"
    have "length ?t < length s" using False decode_rune_width[of "map byte s"] by simp
    then have "length (runes ?t) \<le> length ?t" "length ?t < length s" using 1 by blast+
    then show ?thesis using False by (simp add: runes_def rune_segs_step)
  qed (simp add: runes_def)
qed

lemma rune_segs_ascii: "byte c < (128::nat) \<Longrightarrow> rune_segs (c # cs) = (byte c, [c]) # rune_segs cs"
  by (subst rune_segs_step) (simp_all add: decode_rune_def)

lemma TrimSpace_Nil [simp]: "TrimSpace [] = []"
  by (simp add: TrimSpace_def)

end
