(* ===== verification/TaskFsm.thy ===== *)
theory TaskFsm imports Main Prelude begin

text \<open>
  The task state machine of \<open>task-service/internal/statemachine/statemachine.go\<close>:
  the status enum, the transition table the constructor registers, and the queries on it.
  A transition table is the Go map of maps \<open>transitions[from][to] = rpc\<close>, as nested
  association lists. The methods take the read lock for their whole body, so each is one
  atomic function of the table.
\<close>

section \<open>Model\<close>

datatype task_status =
    TS_UNSPECIFIED | TS_CREATED | TS_PENDING | TS_QUEUED | TS_RUNNING | TS_COMPLETED
  | TS_FAILED | TS_CANCELLED | TS_TIMEOUT | TS_DEAD | TS_PAUSED

fun status_String :: "task_status \<Rightarrow> string" where
  "status_String TS_UNSPECIFIED = ''TASK_STATUS_UNSPECIFIED''"
| "status_String TS_CREATED = ''TASK_STATUS_CREATED''"
| "status_String TS_PENDING = ''TASK_STATUS_PENDING''"
| "status_String TS_QUEUED = ''TASK_STATUS_QUEUED''"
| "status_String TS_RUNNING = ''TASK_STATUS_RUNNING''"
| "status_String TS_COMPLETED = ''TASK_STATUS_COMPLETED''"
| "status_String TS_FAILED = ''TASK_STATUS_FAILED''"
| "status_String TS_CANCELLED = ''TASK_STATUS_CANCELLED''"
| "status_String TS_TIMEOUT = ''TASK_STATUS_TIMEOUT''"
| "status_String TS_DEAD = ''TASK_STATUS_DEAD''"
| "status_String TS_PAUSED = ''TASK_STATUS_PAUSED''"

type_synonym transitions = "(task_status \<times> (task_status \<times> string) list) list"

definition addTransition :: "task_status \<Rightarrow> task_status \<Rightarrow> string \<Rightarrow> transitions \<Rightarrow> transitions" where
  "addTransition f t rpc tr =
     (let inner = (case map_of tr f of None \<Rightarrow> [] | Some m \<Rightarrow> m)
      in AList.update f (AList.update t rpc inner) tr)"

text \<open>The loop of \<open>registerTransitions\<close> over the statuses that may be cancelled.\<close>

definition cancellable :: "task_status list" where
  "cancellable = [TS_CREATED, TS_PENDING, TS_QUEUED, TS_RUNNING, TS_FAILED, TS_TIMEOUT, TS_DEAD]"

definition registerTransitions :: "transitions \<Rightarrow> transitions" where
  "registerTransitions tr0 =
    (let tr1 = addTransition TS_CREATED TS_RUNNING ''StartTask'' tr0;
         tr2 = addTransition TS_QUEUED TS_RUNNING ''StartTask'' tr1;
         tr3 = addTransition TS_RUNNING TS_COMPLETED ''CompleteTask'' tr2;
         tr4 = addTransition TS_RUNNING TS_FAILED ''FailTask'' tr3;
         tr5 = addTransition TS_FAILED TS_QUEUED ''AutoRetry'' tr4;
         tr6 = addTransition TS_FAILED TS_DEAD ''RetryExhausted'' tr5;
         tr7 = addTransition TS_RUNNING TS_TIMEOUT ''ReconcileTimeout'' tr6;
         tr8 = fold (\<lambda>s tr. addTransition s TS_CANCELLED ''CancelScanTask'' tr) cancellable tr7;
         tr9 = addTransition TS_RUNNING TS_PAUSED ''PauseTask'' tr8;
         tr10 = addTransition TS_PAUSED TS_RUNNING ''ResumeTask'' tr9
     in addTransition TS_PAUSED TS_CANCELLED ''CancelScanTask'' tr10)"

definition new_sm :: transitions where
  "new_sm = registerTransitions []"

definition CanTransition :: "transitions \<Rightarrow> task_status \<Rightarrow> task_status \<Rightarrow> bool" where
  "CanTransition tr f t =
    (if f = TS_UNSPECIFIED then False
     else if f = t then False
     else case map_of tr f of
       None \<Rightarrow> False
     | Some allowed \<Rightarrow> (case map_of allowed t of None \<Rightarrow> False | Some _ \<Rightarrow> True))"

definition GetTransitionRPC :: "transitions \<Rightarrow> task_status \<Rightarrow> task_status \<Rightarrow> string \<times> bool" where
  "GetTransitionRPC tr f t =
    (case map_of tr f of
       None \<Rightarrow> ([], False)
     | Some allowed \<Rightarrow> (case map_of allowed t of None \<Rightarrow> ([], False) | Some rpc \<Rightarrow> (rpc, True)))"

text \<open>The one error of the state machine: gRPC \<open>FAILED_PRECONDITION\<close> with both names.\<close>

datatype sm_error = TransitionRefused string string

definition ValidateTransition ::
  "transitions \<Rightarrow> task_status \<Rightarrow> task_status \<Rightarrow> sm_error option" where
  "ValidateTransition tr f t =
    (if \<not> CanTransition tr f t then Some (TransitionRefused (status_String f) (status_String t))
     else None)"

definition GetAllowedTransitions :: "transitions \<Rightarrow> task_status \<Rightarrow> task_status list" where
  "GetAllowedTransitions tr f =
    (case map_of tr f of None \<Rightarrow> [] | Some allowed \<Rightarrow> map fst allowed)"

definition IsTerminal :: "task_status \<Rightarrow> bool" where
  "IsTerminal s = (case s of
      TS_COMPLETED \<Rightarrow> True | TS_CANCELLED \<Rightarrow> True | TS_TIMEOUT \<Rightarrow> True | TS_DEAD \<Rightarrow> True
    | _ \<Rightarrow> False)"

definition sm_String :: "transitions \<Rightarrow> string" where
  "sm_String tr = ''StateMachine Transitions:'' @ [char_of (10::nat)] @
    concat (map (\<lambda>(f, targets). concat (map (\<lambda>(t, rpc).
      ''  '' @ status_String f @ '' --['' @ rpc @ '']--> '' @ status_String t @ [char_of (10::nat)])
      targets)) tr)"

section \<open>The registered table\<close>

lemma new_sm_table:
  "new_sm =
    [(TS_CREATED, [(TS_RUNNING, ''StartTask''), (TS_CANCELLED, ''CancelScanTask'')]),
     (TS_QUEUED, [(TS_RUNNING, ''StartTask''), (TS_CANCELLED, ''CancelScanTask'')]),
     (TS_RUNNING, [(TS_COMPLETED, ''CompleteTask''), (TS_FAILED, ''FailTask''),
        (TS_TIMEOUT, ''ReconcileTimeout''), (TS_CANCELLED, ''CancelScanTask''), (TS_PAUSED, ''PauseTask'')]),
     (TS_FAILED, [(TS_QUEUED, ''AutoRetry''), (TS_DEAD, ''RetryExhausted''), (TS_CANCELLED, ''CancelScanTask'')]),
     (TS_PENDING, [(TS_CANCELLED, ''CancelScanTask'')]),
     (TS_TIMEOUT, [(TS_CANCELLED, ''CancelScanTask'')]),
     (TS_DEAD, [(TS_CANCELLED, ''CancelScanTask'')]),
     (TS_PAUSED, [(TS_RUNNING, ''ResumeTask''), (TS_CANCELLED, ''CancelScanTask'')])]"
  by code_simp

section \<open>The lifecycle the table implements\<close>

text \<open>
  The intended lifecycle as a relation labelled with the triggering call: the specification
  against which the table is checked.
\<close>

inductive lifecycle :: "task_status \<Rightarrow> string \<Rightarrow> task_status \<Rightarrow> bool" where
  start: "s \<in> {TS_CREATED, TS_QUEUED} \<Longrightarrow> lifecycle s ''StartTask'' TS_RUNNING"
| complete: "lifecycle TS_RUNNING ''CompleteTask'' TS_COMPLETED"
| fail: "lifecycle TS_RUNNING ''FailTask'' TS_FAILED"
| timeout: "lifecycle TS_RUNNING ''ReconcileTimeout'' TS_TIMEOUT"
| pause: "lifecycle TS_RUNNING ''PauseTask'' TS_PAUSED"
| resume: "lifecycle TS_PAUSED ''ResumeTask'' TS_RUNNING"
| retry: "lifecycle TS_FAILED ''AutoRetry'' TS_QUEUED"
| exhaust: "lifecycle TS_FAILED ''RetryExhausted'' TS_DEAD"
| cancel: "s \<notin> {TS_UNSPECIFIED, TS_COMPLETED, TS_CANCELLED} \<Longrightarrow>
    lifecycle s ''CancelScanTask'' TS_CANCELLED"

inductive_simps lifecycle_simps: "lifecycle f rpc t"

inductive_cases lifecycle_from_completed: "lifecycle TS_COMPLETED rpc t"

text \<open>One status change that the service accepts.\<close>

inductive task_step :: "task_status \<Rightarrow> task_status \<Rightarrow> bool" where
  "ValidateTransition new_sm f t = None \<Longrightarrow> task_step f t"

inductive_simps task_step_simps: "task_step f t"

lemma rpc_iff_lifecycle: "GetTransitionRPC new_sm f t = (rpc, True) \<longleftrightarrow> lifecycle f rpc t"
  unfolding GetTransitionRPC_def new_sm_table lifecycle_simps
  by (cases f; cases t; simp add: eq_commute)

lemma can_iff_rpc: "CanTransition new_sm f t \<longleftrightarrow> (\<exists>rpc. GetTransitionRPC new_sm f t = (rpc, True))"
  by (cases f; cases t) (simp_all add: GetTransitionRPC_def CanTransition_def new_sm_table)

lemma allowed_iff_can: "t \<in> set (GetAllowedTransitions new_sm f) \<longleftrightarrow> CanTransition new_sm f t"
  by (cases f; cases t; simp add: GetAllowedTransitions_def CanTransition_def new_sm_table)

lemma can_iff_lifecycle: "CanTransition new_sm f t \<longleftrightarrow> (\<exists>rpc. lifecycle f rpc t)"
  by (simp add: can_iff_rpc rpc_iff_lifecycle)

lemma step_iff_lifecycle: "task_step f t \<longleftrightarrow> (\<exists>rpc. lifecycle f rpc t)"
  by (simp add: task_step_simps ValidateTransition_def can_iff_lifecycle)

lemma step_from_terminal: "IsTerminal f \<Longrightarrow> task_step f t \<Longrightarrow> f \<in> {TS_TIMEOUT, TS_DEAD} \<and> t = TS_CANCELLED"
  by (cases f) (auto simp: step_iff_lifecycle lifecycle_simps IsTerminal_def)

lemma closed_steps: "task_step\<^sup>*\<^sup>* f t \<Longrightarrow> f \<in> {TS_CANCELLED, TS_COMPLETED} \<Longrightarrow> t = f"
  by (induction rule: rtranclp.induct) (auto simp: step_iff_lifecycle lifecycle_simps)

section \<open>Properties\<close>

text \<open>The table registered by the constructor accepts a transition exactly when the
  lifecycle has an edge between the two statuses, whichever table query is asked, the
  reported call is the edge's label, and a rejected transition is the FAILED_PRECONDITION
  error carrying both status names. (The comment of T10 wants an edge to CANCELLED from every status; there is
  none from COMPLETED.)\<close>

theorem transition_table_exact:
  "(CanTransition new_sm f t \<longleftrightarrow> (\<exists>rpc. lifecycle f rpc t)) \<and>
   (GetTransitionRPC new_sm f t = (rpc, True) \<longleftrightarrow> lifecycle f rpc t) \<and>
   (t \<in> set (GetAllowedTransitions new_sm f) \<longleftrightarrow> CanTransition new_sm f t) \<and>
   ValidateTransition new_sm f t =
     (if \<exists>rpc. lifecycle f rpc t then None
      else Some (TransitionRefused (status_String f) (status_String t)))"
  by (simp add: can_iff_lifecycle rpc_iff_lifecycle allowed_iff_can ValidateTransition_def)

text \<open>C5. A task that starts in CREATED never becomes PENDING or UNSPECIFIED; once its status is
  terminal, the only status it can ever have besides that one is CANCELLED, and COMPLETED
  and CANCELLED are final.
\<close>

theorem terminal_statuses_absorb:
  assumes "task_step\<^sup>*\<^sup>* TS_CREATED s" and "task_step\<^sup>*\<^sup>* s t"
  shows "s \<notin> {TS_UNSPECIFIED, TS_PENDING} \<and> (IsTerminal s \<longrightarrow> t = s \<or> t = TS_CANCELLED) \<and>
    (s \<in> {TS_COMPLETED, TS_CANCELLED} \<longrightarrow> t = s)"
proof -
  have "s \<notin> {TS_UNSPECIFIED, TS_PENDING}"
    using assms(1) by (induction rule: rtranclp_induct) (auto simp: step_iff_lifecycle lifecycle_simps)
  moreover have "t = s \<or> t = TS_CANCELLED" if "IsTerminal s"
    using assms(2) that
  proof (induction rule: converse_rtranclp_induct)
    case (step y z)
    then have "z = TS_CANCELLED" using step_from_terminal by blast
    with step.hyps(2) show ?case using closed_steps by blast
  qed simp
  moreover have "t = s" if "s \<in> {TS_COMPLETED, TS_CANCELLED}"
    using assms(2) that closed_steps by blast
  ultimately show ?thesis by blast
qed

text \<open>A failed task that is retried, runs again and completes.\<close>

theorem terminal_statuses_absorb_witness:
  "IsTerminal TS_COMPLETED \<and> task_step\<^sup>*\<^sup>* TS_CREATED TS_COMPLETED \<and>
   (TS_COMPLETED :: task_status) \<notin> {TS_UNSPECIFIED, TS_PENDING}"
proof -
  have a: "task_step TS_CREATED TS_RUNNING" "task_step TS_RUNNING TS_FAILED"
    "task_step TS_FAILED TS_QUEUED" "task_step TS_QUEUED TS_RUNNING" "task_step TS_RUNNING TS_COMPLETED"
    by (simp_all add: step_iff_lifecycle lifecycle_simps)
  have r: "task_step\<^sup>*\<^sup>* TS_CREATED TS_COMPLETED"
    using a by (meson converse_rtranclp_into_rtranclp r_into_rtranclp)
  have "TS_COMPLETED \<notin> {TS_UNSPECIFIED, TS_PENDING}"
    using terminal_statuses_absorb[OF r rtranclp.rtrancl_refl] by blast
  with r show ?thesis by (simp add: IsTerminal_def)
qed

end
