(* ===== verification/GraphState.thy ===== *)
theory GraphState imports Main Prelude begin

text \<open>
  The materialised view of a graph task:
  \<open>runtime-service/internal/sandbox/graph_state.go\<close> and the event vocabulary of
  \<open>graph_events.go\<close>. A state is folded from the event log by \<open>graph_apply\<close>, one event
  at a time, by the live loop and by \<open>ReplayGraphLog\<close> alike.

  Clock reads are the argument \<open>now\<close>; \<open>time.Parse\<close> of the standard library is the
  argument \<open>parse_time\<close> (\<open>None\<close> is a parse error), about which nothing is
  assumed. A log line is what \<open>json.Unmarshal\<close> made of it. \<open>nodes\<close> is the Go map
  as an association list; \<open>order\<close> lists the same keys (invariant \<open>graph_wf\<close>), so
  reading a node of \<open>order\<close> never meets a nil pointer.
\<close>

section \<open>Events\<close>

datatype event_kind =
    EvDeclared | EvStarted | EvResult | EvPlanTriggered | EvPaused | EvConverged | EvSeeded
  | EvClaimed | EvReleased | EvLeaseExpired | EvReopened | EvHumanMessage | EvUnknown

fun event_name :: "event_kind \<Rightarrow> string" where
  "event_name EvDeclared = ''graph.node_declared''"
| "event_name EvStarted = ''graph.node_started''"
| "event_name EvResult = ''graph.node_result''"
| "event_name EvPlanTriggered = ''graph.plan_triggered''"
| "event_name EvPaused = ''graph.paused''"
| "event_name EvConverged = ''graph.converged''"
| "event_name EvSeeded = ''graph.node_seeded''"
| "event_name EvClaimed = ''graph.node_claimed''"
| "event_name EvReleased = ''graph.node_released''"
| "event_name EvLeaseExpired = ''graph.node_lease_expired''"
| "event_name EvReopened = ''graph.node_reopened''"
| "event_name EvHumanMessage = ''graph.human_message''"
| "event_name EvUnknown = []"

definition known_events :: "event_kind list" where
  "known_events = [EvClaimed, EvReleased, EvLeaseExpired, EvReopened, EvHumanMessage, EvDeclared,
     EvStarted, EvResult, EvPlanTriggered, EvPaused, EvSeeded, EvConverged]"

text \<open>The \<open>switch env.Type\<close> of the folds: which case a type string selects.\<close>

definition kind_of :: "string \<Rightarrow> event_kind" where
  "kind_of ty = (case find (\<lambda>k. event_name k = ty) known_events of Some k \<Rightarrow> k | None \<Rightarrow> EvUnknown)"

datatype outcome = OCompleted | OFailed | ORejected | OIndeterminate

definition outcome_of :: "string \<Rightarrow> outcome option" where
  "outcome_of s =
    (if s = ''completed'' then Some OCompleted
     else if s = ''failed'' then Some OFailed
     else if s = ''rejected'' then Some ORejected
     else if s = ''indeterminate'' then Some OIndeterminate
     else None)"

fun outcome_name :: "outcome \<Rightarrow> string" where
  "outcome_name OCompleted = ''completed''"
| "outcome_name OFailed = ''failed''"
| "outcome_name ORejected = ''rejected''"
| "outcome_name OIndeterminate = ''indeterminate''"

definition triggerInitial :: string where "triggerInitial = ''initial''"

definition triggerNewEvidence :: string where "triggerNewEvidence = ''new_evidence''"

definition triggerOpenDrained :: string where "triggerOpenDrained = ''open_drained''"

record graph_envelope =
  eType :: string
  eSeq :: int
  eTime :: string
  eData :: jmap

lemma outcome_of_name [simp]: "outcome_of (outcome_name oc) = Some oc"
  by (cases oc) (simp_all add: outcome_of_def)

lemma kind_of_name [simp]: "k \<noteq> EvUnknown \<Longrightarrow> kind_of (event_name k) = k"
  by (cases k) (simp_all add: kind_of_def known_events_def)

section \<open>Nodes and the state\<close>

datatype node_status = StDeclared | StRunning | StCompleted | StFailed | StRejected

definition terminal :: "node_status \<Rightarrow> bool" where
  "terminal s \<longleftrightarrow> s = StCompleted \<or> s = StFailed \<or> s = StRejected"

record graph_node =
  nID :: string
  nType :: string
  nIntent :: string
  nStatus :: node_status
  nDeclaredBy :: string
  nFrom :: "string list"
  nResultRef :: string
  nAttempts :: int
  nCreatedAt :: gotime
  nUpdatedAt :: gotime
  nCompletedAt :: gotime
  nCompletedOrd :: int
  nHolder :: string
  nLeaseUntil :: gotime

definition SessionID :: "graph_node \<Rightarrow> string" where
  "SessionID n = ''g-'' @ nID n"

record graph_state =
  nodes :: "(string \<times> graph_node) list"
  order :: "string list"
  nodeSeq :: int
  lastSeq :: int
  plannerRuns :: int
  converged :: bool
  lines :: int
  pausedMark :: int
  hasPausedMark :: bool
  droppedLines :: int
  recoveredNodes :: "string list"

definition newGraphState :: graph_state where
  "newGraphState = \<lparr>nodes = [], order = [], nodeSeq = 0, lastSeq = 0, plannerRuns = 0,
     converged = False, lines = 0, pausedMark = 0, hasPausedMark = False, droppedLines = 0,
     recoveredNodes = []\<rparr>"

definition put_node :: "string \<Rightarrow> graph_node \<Rightarrow> graph_state \<Rightarrow> graph_state" where
  "put_node k n st = st\<lparr>nodes := AList.update k n (nodes st)\<rparr>"

definition ordered_nodes :: "graph_state \<Rightarrow> graph_node list" where
  "ordered_nodes st = List.map_filter (map_of (nodes st)) (order st)"

section \<open>Node numbers\<close>

text \<open>Go's \<open>int\<close> has 64 bits: an increment wraps.\<close>

definition wrap64 :: "int \<Rightarrow> int" where
  "wrap64 i = (i + 2 ^ 63) mod 2 ^ 64 - 2 ^ 63"

definition pad0 :: "nat \<Rightarrow> string \<Rightarrow> string" where
  "pad0 w s = replicate (w - length s) (CHR ''0'') @ s"

text \<open>\<open>fmt.Sprintf("n%03d", seq)\<close>: the sign counts towards the width.\<close>

definition node_id :: "int \<Rightarrow> string" where
  "node_id i = CHR ''n'' # (if i < 0 then CHR ''-'' # pad0 2 (nat_digits (nat (- i)))
                            else pad0 3 (nat_digits (nat i)))"

definition nextNodeID :: "graph_state \<Rightarrow> string \<times> graph_state" where
  "nextNodeID st = (let s = wrap64 (nodeSeq st + 1) in (node_id s, st\<lparr>nodeSeq := s\<rparr>))"

definition digit_val :: "char \<Rightarrow> nat option" where
  "digit_val c = (let k = (of_char c :: nat) in if 48 \<le> k \<and> k \<le> 57 then Some (k - 48) else None)"

fun digits_val :: "nat \<Rightarrow> string \<Rightarrow> nat option" where
  "digits_val acc [] = Some acc"
| "digits_val acc (c # cs) = (case digit_val c of None \<Rightarrow> None | Some d \<Rightarrow> digits_val (10 * acc + d) cs)"

text \<open>\<open>strconv.Atoi\<close>: an optional sign, at least one digit, the 64-bit range.\<close>

definition atoi :: "string \<Rightarrow> int option" where
  "atoi s =
    (let neg = (s \<noteq> [] \<and> hd s = CHR ''-'');
         body = (if s \<noteq> [] \<and> (hd s = CHR ''-'' \<or> hd s = CHR ''+'') then tl s else s)
     in if body = [] then None
        else case digits_val 0 body of
          None \<Rightarrow> None
        | Some v \<Rightarrow> let i = (if neg then - int v else int v)
                    in if - (2 ^ 63) \<le> i \<and> i < 2 ^ 63 then Some i else None)"

definition nodeSeqOf :: "string \<Rightarrow> int" where
  "nodeSeqOf s =
    (if length s < 2 \<or> hd s \<noteq> CHR ''n'' then 0
     else case atoi (tl s) of None \<Rightarrow> 0 | Some i \<Rightarrow> i)"

section \<open>Declaration and scheduling queries\<close>

definition declare_node ::
  "gotime \<Rightarrow> string \<Rightarrow> string \<Rightarrow> string \<Rightarrow> string list \<Rightarrow> graph_state \<Rightarrow> graph_node \<times> graph_state" where
  "declare_node now typ intent declaredBy from st =
    (let (id, st1) = nextNodeID st;
         n = \<lparr>nID = id, nType = typ, nIntent = intent, nStatus = StDeclared, nDeclaredBy = declaredBy,
              nFrom = from, nResultRef = [], nAttempts = 0, nCreatedAt = now, nUpdatedAt = now,
              nCompletedAt = zero_time, nCompletedOrd = 0, nHolder = [], nLeaseUntil = zero_time\<rparr>;
         st2 = put_node id n st1
     in (n, st2\<lparr>order := order st2 @ [id]\<rparr>))"

definition nextOpen :: "graph_state \<Rightarrow> graph_node option" where
  "nextOpen st = find (\<lambda>n. nStatus n = StDeclared) (ordered_nodes st)"

definition lease_expired :: "gotime \<Rightarrow> graph_node \<Rightarrow> bool" where
  "lease_expired now n \<longleftrightarrow> nHolder n \<noteq> [] \<and> nLeaseUntil n \<noteq> zero_time \<and> now > nLeaseUntil n"

definition deps_ready :: "graph_state \<Rightarrow> graph_node \<Rightarrow> bool" where
  "deps_ready st n \<longleftrightarrow>
    list_all (\<lambda>dep. case map_of (nodes st) dep of None \<Rightarrow> False | Some d \<Rightarrow> terminal (nStatus d)) (nFrom n)"

definition is_ready :: "graph_state \<Rightarrow> graph_node \<Rightarrow> bool" where
  "is_ready st n \<longleftrightarrow> nStatus n = StDeclared \<and> nHolder n = [] \<and> deps_ready st n"

text \<open>
  The two scans of \<open>claimableReady\<close>: the expired leases, and the claimable nodes in
  declaration order, cut at \<open>maxParallel\<close> when that is positive.
\<close>

definition claimableReady ::
  "int \<Rightarrow> gotime \<Rightarrow> graph_state \<Rightarrow> graph_node list \<times> graph_node list" where
  "claimableReady maxParallel now st =
    (let ns = ordered_nodes st;
         rdy = filter (is_ready st) ns
     in (if maxParallel > 0 then take (nat maxParallel) rdy else rdy,
         filter (lease_expired now) ns))"

definition claimNode :: "graph_node \<Rightarrow> string \<Rightarrow> gotime \<Rightarrow> graph_state \<Rightarrow> graph_state" where
  "claimNode n holder leaseUntil st =
    put_node (nID n) (n\<lparr>nHolder := holder, nLeaseUntil := leaseUntil\<rparr>) st"

definition releaseNode :: "graph_node \<Rightarrow> graph_state \<Rightarrow> graph_state" where
  "releaseNode n st = put_node (nID n) (n\<lparr>nHolder := [], nLeaseUntil := zero_time\<rparr>) st"

definition reopened :: "gotime \<Rightarrow> graph_node \<Rightarrow> graph_node" where
  "reopened now n =
    (if terminal (nStatus n) then n\<lparr>nStatus := StDeclared, nResultRef := [], nUpdatedAt := now\<rparr> else n)"

definition reopenNode :: "gotime \<Rightarrow> graph_node \<Rightarrow> graph_state \<Rightarrow> graph_state" where
  "reopenNode now n st = put_node (nID n) (reopened now n) st"

definition openIDs :: "graph_state \<Rightarrow> string list" where
  "openIDs st = filter (\<lambda>id. case map_of (nodes st) id of Some n \<Rightarrow> nStatus n = StDeclared | None \<Rightarrow> False)
                  (order st)"

definition count_status :: "node_status \<Rightarrow> graph_state \<Rightarrow> nat" where
  "count_status s st = length (filter (\<lambda>(_, n). nStatus n = s) (nodes st))"

text \<open>\<open>counts\<close>: total, completed, failed, rejected, open.\<close>

definition counts :: "graph_state \<Rightarrow> nat \<times> nat \<times> nat \<times> nat \<times> nat" where
  "counts st = (length (nodes st), count_status StCompleted st, count_status StFailed st,
     count_status StRejected st, count_status StDeclared st)"

definition hasFailureHistory :: "graph_state \<Rightarrow> bool" where
  "hasFailureHistory st \<longleftrightarrow>
    recoveredNodes st \<noteq> [] \<or>
    list_ex (\<lambda>(_, n). nStatus n = StFailed \<or> nStatus n = StRejected \<or> nAttempts n > 0) (nodes st)"

definition replayCompletedSince :: "int \<Rightarrow> graph_state \<Rightarrow> nat" where
  "replayCompletedSince mark st =
    length (filter (\<lambda>(_, n). nStatus n = StCompleted \<and> nCompletedOrd n > mark) (nodes st))"

section \<open>Folding one event\<close>

text \<open>
  The errors carry what the messages print, first the line number. A failing
  \<open>graph_apply\<close> keeps what it had written before the error (the line count, the sequence
  number, the result reference of a result with a bad outcome), so it returns the state
  beside the error: the live loop of \<open>graph.go\<close> goes on with that state.
\<close>

datatype graph_error =
    BadSeq int int
  | Undeclared int string
  | ClaimNotDeclared int string node_status
  | ReleasedUnclaimed int string
  | NotReopenable int string node_status
  | HumanMessageNoNode int
  | DeclaredMissingField int
  | RedeclaredTerminal int string
  | OutcomeNotInEnum int string
  | UnknownEventType int string
  | ScanError

type_synonym applied = "graph_state \<times> graph_error option"

definition nodeOf :: "jmap \<Rightarrow> graph_state \<Rightarrow> graph_error + graph_node" where
  "nodeOf data st =
    (let k = jstr data ''nodeId''
     in case map_of (nodes st) k of None \<Rightarrow> Inl (Undeclared (lines st) k) | Some n \<Rightarrow> Inr n)"

text \<open>The handlers of node events: find the node, or stop; then write it back.\<close>

definition on_node :: "jmap \<Rightarrow> (graph_node \<Rightarrow> graph_state \<Rightarrow> applied) \<Rightarrow> graph_state \<Rightarrow> applied" where
  "on_node data f st = (case nodeOf data st of Inl e \<Rightarrow> (st, Some e) | Inr n \<Rightarrow> f n st)"

definition store_node :: "jmap \<Rightarrow> graph_node \<Rightarrow> graph_state \<Rightarrow> graph_state" where
  "store_node data n st = put_node (jstr data ''nodeId'') n st"

definition parseGraphTime :: "(string \<Rightarrow> gotime option) \<Rightarrow> jmap \<Rightarrow> string \<Rightarrow> gotime" where
  "parseGraphTime parse_time data k =
    (case parse_time (jstr data k) of None \<Rightarrow> zero_time | Some t \<Rightarrow> t)"

definition apply_claimed :: "(string \<Rightarrow> gotime option) \<Rightarrow> jmap \<Rightarrow> graph_state \<Rightarrow> applied" where
  "apply_claimed parse_time data = on_node data (\<lambda>n st.
    if nStatus n \<noteq> StDeclared then (st, Some (ClaimNotDeclared (lines st) (nID n) (nStatus n)))
    else
      let n1 = n\<lparr>nHolder := jstr data ''holder''\<rparr>;
          lu = jstr data ''leaseUntil'';
          n2 = (if lu \<noteq> [] then (case parse_time lu of None \<Rightarrow> n1 | Some t \<Rightarrow> n1\<lparr>nLeaseUntil := t\<rparr>) else n1)
      in (store_node data n2 st, None))"

definition clear_holder :: "graph_node \<Rightarrow> graph_node" where
  "clear_holder n = n\<lparr>nHolder := [], nLeaseUntil := zero_time\<rparr>"

definition apply_released :: "jmap \<Rightarrow> graph_state \<Rightarrow> applied" where
  "apply_released data = on_node data (\<lambda>n st.
    if nHolder n = [] then (st, Some (ReleasedUnclaimed (lines st) (nID n)))
    else (store_node data (clear_holder n) st, None))"

definition apply_lease_expired :: "jmap \<Rightarrow> graph_state \<Rightarrow> applied" where
  "apply_lease_expired data = on_node data (\<lambda>n st. (store_node data (clear_holder n) st, None))"

definition apply_reopened :: "gotime \<Rightarrow> jmap \<Rightarrow> graph_state \<Rightarrow> applied" where
  "apply_reopened now data = on_node data (\<lambda>n st.
    if \<not> terminal (nStatus n) \<and> nStatus n \<noteq> StDeclared
    then (st, Some (NotReopenable (lines st) (nID n) (nStatus n)))
    else (store_node data (reopened now n) st, None))"

definition apply_human_message :: "jmap \<Rightarrow> graph_state \<Rightarrow> applied" where
  "apply_human_message data st =
    (case jstr_ok data ''nodeId'' of None \<Rightarrow> (st, Some (HumanMessageNoNode (lines st))) | Some _ \<Rightarrow> (st, None))"

definition apply_declared :: "(string \<Rightarrow> gotime option) \<Rightarrow> gotime \<Rightarrow> jmap \<Rightarrow> graph_state \<Rightarrow> applied" where
  "apply_declared parse_time now data st =
    (let k = jstr data ''nodeId''; typ = jstr data ''type''; intent = jstr data ''intent'';
         declaredBy = jstr data ''declaredBy''; from = only_strings (jarr data ''from'')
     in if k = [] \<or> typ = [] \<or> intent = [] then (st, Some (DeclaredMissingField (lines st)))
        else case map_of (nodes st) k of
          Some ex \<Rightarrow>
            if nStatus ex = StDeclared then (st, None) else (st, Some (RedeclaredTerminal (lines st) k))
        | None \<Rightarrow>
            let n = \<lparr>nID = k, nType = typ, nIntent = intent, nStatus = StDeclared,
                     nDeclaredBy = declaredBy, nFrom = from, nResultRef = [], nAttempts = 0,
                     nCreatedAt = parseGraphTime parse_time data ''declaredAt'', nUpdatedAt = now,
                     nCompletedAt = zero_time, nCompletedOrd = 0, nHolder = [], nLeaseUntil = zero_time\<rparr>;
                st1 = put_node k n st;
                st2 = st1\<lparr>order := order st1 @ [k]\<rparr>
            in (if nodeSeqOf k > nodeSeq st2 then st2\<lparr>nodeSeq := nodeSeqOf k\<rparr> else st2, None))"

definition apply_started :: "gotime \<Rightarrow> jmap \<Rightarrow> graph_state \<Rightarrow> applied" where
  "apply_started now data = on_node data (\<lambda>n st.
    (store_node data (n\<lparr>nStatus := StRunning, nUpdatedAt := now\<rparr>) st, None))"

text \<open>The inner switch on the outcome: the node it leaves, \<open>ord\<close> the length of \<open>order\<close>.\<close>

fun node_outcome :: "gotime \<Rightarrow> int \<Rightarrow> outcome \<Rightarrow> graph_node \<Rightarrow> graph_node" where
  "node_outcome now ord OCompleted n =
    n\<lparr>nStatus := StCompleted, nCompletedAt := now, nCompletedOrd := ord\<rparr>"
| "node_outcome now ord OFailed n = n\<lparr>nStatus := StFailed, nCompletedAt := now\<rparr>"
| "node_outcome now ord ORejected n = n\<lparr>nStatus := StRejected, nCompletedAt := now\<rparr>"
| "node_outcome now ord OIndeterminate n = n\<lparr>nAttempts := wrap64 (nAttempts n + 1), nStatus := StDeclared\<rparr>"

definition apply_result :: "gotime \<Rightarrow> jmap \<Rightarrow> graph_state \<Rightarrow> applied" where
  "apply_result now data = on_node data (\<lambda>n st.
    let oc = jstr data ''outcome'';
        n1 = (case jstr_ok data ''resultRef'' of None \<Rightarrow> n | Some ref \<Rightarrow> n\<lparr>nResultRef := ref\<rparr>);
        n2 = n1\<lparr>nUpdatedAt := now\<rparr>
    in case outcome_of oc of
         None \<Rightarrow> (store_node data n2 st, Some (OutcomeNotInEnum (lines st) oc))
       | Some o' \<Rightarrow> (store_node data (node_outcome now (int (length (order st))) o' n2) st, None))"

definition apply_plan_triggered :: "jmap \<Rightarrow> graph_state \<Rightarrow> applied" where
  "apply_plan_triggered data st =
    (if jstr data ''trigger'' \<noteq> triggerInitial
     then (st\<lparr>plannerRuns := wrap64 (plannerRuns st + 1)\<rparr>, None) else (st, None))"

definition apply_paused :: "jmap \<Rightarrow> graph_state \<Rightarrow> applied" where
  "apply_paused data st =
    (case jnum_ok data ''plannerMark'' of
       None \<Rightarrow> (st, None)
     | Some q \<Rightarrow> (st\<lparr>pausedMark := trunc_rat q, hasPausedMark := True\<rparr>, None))"

definition apply_seeded :: "jmap \<Rightarrow> graph_state \<Rightarrow> applied" where
  "apply_seeded data = on_node data (\<lambda>n st. (st, None))"

fun apply_event ::
  "(string \<Rightarrow> gotime option) \<Rightarrow> gotime \<Rightarrow> event_kind \<Rightarrow> string \<Rightarrow> jmap \<Rightarrow> graph_state \<Rightarrow> applied" where
  "apply_event pt now EvClaimed ty data st = apply_claimed pt data st"
| "apply_event pt now EvReleased ty data st = apply_released data st"
| "apply_event pt now EvLeaseExpired ty data st = apply_lease_expired data st"
| "apply_event pt now EvReopened ty data st = apply_reopened now data st"
| "apply_event pt now EvHumanMessage ty data st = apply_human_message data st"
| "apply_event pt now EvDeclared ty data st = apply_declared pt now data st"
| "apply_event pt now EvStarted ty data st = apply_started now data st"
| "apply_event pt now EvResult ty data st = apply_result now data st"
| "apply_event pt now EvPlanTriggered ty data st = apply_plan_triggered data st"
| "apply_event pt now EvPaused ty data st = apply_paused data st"
| "apply_event pt now EvSeeded ty data st = apply_seeded data st"
| "apply_event pt now EvConverged ty data st = (st\<lparr>converged := True\<rparr>, None)"
| "apply_event pt now EvUnknown ty data st = (st, Some (UnknownEventType (lines st) ty))"

definition count_line :: "graph_state \<Rightarrow> graph_state" where
  "count_line st = st\<lparr>lines := wrap64 (lines st + 1)\<rparr>"

definition saw_seq :: "int \<Rightarrow> graph_state \<Rightarrow> graph_state" where
  "saw_seq s st = (if s > lastSeq st then st\<lparr>lastSeq := s\<rparr> else st)"

definition graph_apply :: "(string \<Rightarrow> gotime option) \<Rightarrow> gotime \<Rightarrow> graph_envelope \<Rightarrow> graph_state \<Rightarrow> applied" where
  "graph_apply pt now env st =
    (let st1 = count_line st
     in if eSeq env \<le> 0 then (st1, Some (BadSeq (lines st1) (eSeq env)))
        else apply_event pt now (kind_of (eType env)) (eType env) (eData env) (saw_seq (eSeq env) st1))"

section \<open>Replay\<close>

text \<open>
  A line of the log as the scanner loop sees it: blank after trimming, not a JSON envelope, or
  an envelope; \<open>scan_error\<close> is the scanner's own error at the end (an over-long line,
  a read error). \<open>clock\<close> gives the time read while a line is folded.
\<close>

datatype log_line = BlankLine | TornLine | EnvLine graph_envelope

fun replay_lines ::
  "(string \<Rightarrow> gotime option) \<Rightarrow> (int \<Rightarrow> gotime) \<Rightarrow> log_line list \<Rightarrow> graph_state \<Rightarrow> graph_error + graph_state" where
  "replay_lines pt clock [] st = Inr st"
| "replay_lines pt clock (BlankLine # ls) st = replay_lines pt clock ls st"
| "replay_lines pt clock (TornLine # ls) st =
    replay_lines pt clock ls (st\<lparr>droppedLines := wrap64 (droppedLines st + 1)\<rparr>)"
| "replay_lines pt clock (EnvLine env # ls) st =
    (case graph_apply pt (clock (lines st)) env st of
       (st', None) \<Rightarrow> replay_lines pt clock ls st'
     | (_, Some e) \<Rightarrow> Inl e)"

definition orphan_back :: "gotime \<Rightarrow> graph_node \<Rightarrow> graph_node" where
  "orphan_back now n = n\<lparr>nStatus := StDeclared, nAttempts := wrap64 (nAttempts n + 1), nUpdatedAt := now\<rparr>"

fun recover_in :: "gotime \<Rightarrow> string list \<Rightarrow> graph_state \<Rightarrow> graph_state" where
  "recover_in now [] st = st"
| "recover_in now (k # ks) st =
    (case map_of (nodes st) k of
       Some n \<Rightarrow>
         if nStatus n \<noteq> StRunning then recover_in now ks st
         else recover_in now ks
                ((put_node k (orphan_back now n) st)\<lparr>recoveredNodes := recoveredNodes st @ [k]\<rparr>)
     | None \<Rightarrow> recover_in now ks st)"

definition recoverRunningOrphans :: "gotime \<Rightarrow> graph_state \<Rightarrow> graph_state" where
  "recoverRunningOrphans now st = recover_in now (order st) st"

definition ReplayGraphLog ::
  "(string \<Rightarrow> gotime option) \<Rightarrow> (int \<Rightarrow> gotime) \<Rightarrow> bool \<Rightarrow> log_line list \<Rightarrow> graph_error + graph_state" where
  "ReplayGraphLog pt clock scan_error ls =
    (case replay_lines pt clock ls newGraphState of
       Inl e \<Rightarrow> Inl e
     | Inr st \<Rightarrow> if scan_error then Inl ScanError else Inr (recoverRunningOrphans (clock (lines st)) st))"

end
