(* ===== verification/GraphInv.thy ===== *)
theory GraphInv imports Main GraphState begin

text \<open>
  Correctness of the graph state of \<open>GraphState\<close>: the invariant of the node table
  and its preservation by every event and by replay, the round trip of node numbers and the
  freshness of the next one, recovery of orphans at the end of a replay, tolerance of torn
  lines, and the wave that \<open>claimableReady\<close> computes.
\<close>

section \<open>Node numbers\<close>

lemma digit_val_digit [simp]: "d < 10 \<Longrightarrow> digit_val (char_of (48 + d)) = Some d"
  by (simp add: digit_val_def Let_def)

lemma digits_val_append:
  "digits_val a (xs @ ys) = (case digits_val a xs of None \<Rightarrow> None | Some v \<Rightarrow> digits_val v ys)"
  by (induction xs arbitrary: a) (auto split: option.splits)

lemma digits_val_zeros: "digits_val 0 (replicate k (CHR ''0'') @ s) = digits_val 0 s"
proof (induction k)
  case (Suc k)
  have "digit_val (CHR ''0'') = Some 0" by (simp add: digit_val_def)
  then show ?case using Suc by simp
qed simp

lemma nat_digits_nonempty [simp]: "nat_digits n \<noteq> []"
  by (subst nat_digits.simps) simp

lemma digits_val_nat_digits: "digits_val 0 (nat_digits n) = Some n"
proof (induction n rule: nat_digits.induct)
  case (1 n)
  show ?case
  proof (cases "n < 10")
    case True
    then show ?thesis by (subst nat_digits.simps) simp
  next
    case False
    then show ?thesis using 1 by (subst nat_digits.simps) (simp add: digits_val_append)
  qed
qed

lemma nat_digits_all: "c \<in> set (nat_digits n) \<Longrightarrow> digit_val c \<noteq> None"
proof (induction n rule: nat_digits.induct)
  case (1 n)
  have d: "digit_val (char_of (48 + n mod 10)) = Some (n mod 10)" by simp
  show ?case
  proof (cases "n < 10")
    case True
    then show ?thesis using 1(2) by (subst (asm) nat_digits.simps) auto
  next
    case False
    then show ?thesis using 1 d by (subst (asm) (2) nat_digits.simps) (auto split: if_splits)
  qed
qed

lemma digit_signs [simp]: "digit_val (CHR ''-'') = None" "digit_val (CHR ''+'') = None"
    "digit_val (CHR ''0'') = Some 0"
  by (simp_all add: digit_val_def)

lemma atoi_digits:
  assumes "s \<noteq> []" "\<And>c. c \<in> set s \<Longrightarrow> digit_val c \<noteq> None" "digits_val 0 s = Some v" "int v < 2 ^ 63"
  shows "atoi s = Some (int v)"
proof -
  have "hd s \<in> set s" using assms(1) by simp
  then have "hd s \<noteq> CHR ''-''" "hd s \<noteq> CHR ''+''" using assms(2) digit_signs(1,2) by metis+
  then show ?thesis using assms by (simp add: atoi_def Let_def)
qed

lemma pad0_all: "(\<And>c. c \<in> set s \<Longrightarrow> digit_val c \<noteq> None) \<Longrightarrow> c \<in> set (pad0 w s) \<Longrightarrow> digit_val c \<noteq> None"
  by (auto simp: pad0_def)

lemma pad0_digits_val: "digits_val 0 (pad0 w s) = digits_val 0 s"
  by (simp add: pad0_def digits_val_zeros)

lemma nodeSeqOf_node_id:
  assumes "0 \<le> i" "i < 2 ^ 63"
  shows "nodeSeqOf (node_id i) = i"
proof -
  let ?s = "pad0 3 (nat_digits (nat i))"
  have ne: "?s \<noteq> []" by (simp add: pad0_def)
  have "atoi ?s = Some (int (nat i))"
    using assms ne by (intro atoi_digits)
      (auto simp: pad0_digits_val digits_val_nat_digits dest!: pad0_all[rotated] nat_digits_all)
  then show ?thesis using assms ne by (cases ?s) (simp_all add: nodeSeqOf_def node_id_def)
qed

lemma node_id_nonempty [simp]: "node_id i \<noteq> []"
  by (simp add: node_id_def)

section \<open>The node table\<close>

text \<open>
  Keys of the map and the declaration order are the same list without repetition, every node is
  filed under its own, non-empty id, and no number in use exceeds the allocation counter.
\<close>

definition graph_wf :: "graph_state \<Rightarrow> bool" where
  "graph_wf st \<longleftrightarrow> keys (nodes st) = order st \<and> distinct (order st) \<and> 0 \<le> nodeSeq st \<and>
    (\<forall>k n. map_of (nodes st) k = Some n \<longrightarrow> nID n = k \<and> k \<noteq> [] \<and> nodeSeqOf k \<le> nodeSeq st)"

lemma graph_wf_new [simp]: "graph_wf newGraphState"
  by (simp add: graph_wf_def newGraphState_def)

lemma wf_nID: "graph_wf st \<Longrightarrow> map_of (nodes st) k = Some n \<Longrightarrow> nID n = k"
  by (simp add: graph_wf_def)

lemma wf_order_map: "graph_wf st \<Longrightarrow> k \<in> set (order st) \<longleftrightarrow> map_of (nodes st) k \<noteq> None"
  by (metis graph_wf_def map_of_None_key)

lemma put_node_simps [frame_simps]:
  "order (put_node k n st) = order st" "nodeSeq (put_node k n st) = nodeSeq st"
  "lastSeq (put_node k n st) = lastSeq st" "plannerRuns (put_node k n st) = plannerRuns st"
  "converged (put_node k n st) = converged st" "lines (put_node k n st) = lines st"
  "droppedLines (put_node k n st) = droppedLines st"
  "recoveredNodes (put_node k n st) = recoveredNodes st"
  "map_of (nodes (put_node k n st)) = (map_of (nodes st))(k \<mapsto> n)"
  by (simp_all add: put_node_def store_simps)

lemma put_known_keys:
  "map_of (nodes st) k = Some m \<Longrightarrow> keys (nodes (put_node k n st)) = keys (nodes st)"
  by (simp add: put_node_def keys_update_known)

lemma wf_put_known [inv_intros]:
  "graph_wf st \<Longrightarrow> map_of (nodes st) k = Some m \<Longrightarrow> nID n = nID m \<Longrightarrow> graph_wf (put_node k n st)"
  by (simp add: graph_wf_def put_known_keys frame_simps)

lemma wf_put_fresh:
  assumes "graph_wf st" "map_of (nodes st) k = None" "nID n = k" "k \<noteq> []"
    "nodeSeqOf k \<le> q" "nodeSeq st \<le> q"
  shows "graph_wf ((put_node k n st)\<lparr>order := order st @ [k], nodeSeq := q\<rparr>)"
proof -
  have "k \<notin> set (order st)" using assms(1,2) by (simp add: wf_order_map)
  moreover have "keys (nodes (put_node k n st)) = order st @ [k]"
    using assms(1,2) by (simp add: put_node_def keys_update_fresh graph_wf_def)
  ultimately show ?thesis
    using assms by (force simp: graph_wf_def frame_simps split: if_splits)
qed

lemma wf_put_fresh_same:
  assumes "graph_wf st" "map_of (nodes st) k = None" "nID n = k" "k \<noteq> []" "nodeSeqOf k \<le> nodeSeq st"
  shows "graph_wf ((put_node k n st)\<lparr>order := order st @ [k]\<rparr>)"
  using wf_put_fresh[OF assms order_refl] by (simp add: graph_wf_def frame_simps)

text \<open>The fields outside the node table do not matter to the invariant.\<close>

lemma wf_table_only [simp]:
  "graph_wf (st\<lparr>plannerRuns := a\<rparr>) = graph_wf st"
  "graph_wf (st\<lparr>converged := b\<rparr>) = graph_wf st"
  "graph_wf (st\<lparr>lines := a\<rparr>) = graph_wf st"
  "graph_wf (st\<lparr>lastSeq := a\<rparr>) = graph_wf st"
  "graph_wf (st\<lparr>pausedMark := a, hasPausedMark := b\<rparr>) = graph_wf st"
  "graph_wf (st\<lparr>droppedLines := a\<rparr>) = graph_wf st"
  "graph_wf (st\<lparr>recoveredNodes := ks\<rparr>) = graph_wf st"
  by (simp_all add: graph_wf_def)

lemma wf_field_order:
  "graph_wf (st\<lparr>nodeSeq := q, nodes := m, order := ks\<rparr>) = graph_wf (st\<lparr>nodes := m, order := ks, nodeSeq := q\<rparr>)"
  by (simp add: graph_wf_def)

section \<open>Folding preserves it\<close>

text \<open>
  A node handler: whatever it writes keeps the node's id. \<open>on_node_induct\<close> reduces a
  property of a handler to the case in which the node was found.
\<close>

lemma on_node_cases:
  assumes "\<And>e. nodeOf data st = Inl e \<Longrightarrow> P (st, Some e)"
    and "\<And>n. map_of (nodes st) (jstr data ''nodeId'') = Some n \<Longrightarrow> P (f n st)"
  shows "P (on_node data f st)"
  using assms by (auto simp: on_node_def nodeOf_def Let_def split: option.splits)

lemmas handler_defs = apply_claimed_def apply_released_def apply_lease_expired_def
  apply_reopened_def apply_started_def apply_result_def apply_seeded_def

lemma node_outcome_nID [simp]: "nID (node_outcome now i oc n) = nID n"
  by (cases oc) simp_all

lemma node_updates_nID [simp]: "nID (clear_holder n) = nID n" "nID (reopened now n) = nID n"
    "nID (orphan_back now n) = nID n"
  by (simp_all add: clear_holder_def reopened_def orphan_back_def)

lemma wf_store_known:
  "graph_wf st \<Longrightarrow> map_of (nodes st) (jstr data ''nodeId'') = Some m \<Longrightarrow> nID n = nID m
    \<Longrightarrow> graph_wf (store_node data n st)"
  by (simp add: store_node_def wf_put_known)

lemma wf_on_node:
  assumes "graph_wf st"
    and "\<And>n. map_of (nodes st) (jstr data ''nodeId'') = Some n \<Longrightarrow> graph_wf (fst (f n st))"
  shows "graph_wf (fst (on_node data f st))"
  by (rule on_node_cases) (use assms in auto)

lemma wf_apply_declared: "graph_wf st \<Longrightarrow> graph_wf (fst (apply_declared pt now data st))"
proof -
  assume wf: "graph_wf st"
  let ?k = "jstr data ''nodeId''"
  show ?thesis
  proof (cases "map_of (nodes st) ?k")
    case (Some ex)
    then show ?thesis using wf by (simp add: apply_declared_def Let_def)
  next
    case None
    show ?thesis
    proof (cases "nodeSeq st < nodeSeqOf ?k")
      case True
      then show ?thesis using None wf wf_put_fresh[OF wf None, where q = "nodeSeqOf ?k"]
        by (simp add: apply_declared_def Let_def frame_simps)
    next
      case False
      then show ?thesis using None wf wf_put_fresh_same[OF wf None]
        by (simp add: apply_declared_def Let_def frame_simps)
    qed
  qed
qed

lemma wf_node_handlers:
  assumes "graph_wf st"
  shows "graph_wf (fst (apply_claimed pt data st))" "graph_wf (fst (apply_released data st))"
    "graph_wf (fst (apply_lease_expired data st))" "graph_wf (fst (apply_reopened now data st))"
    "graph_wf (fst (apply_started now data st))" "graph_wf (fst (apply_seeded data st))"
    "graph_wf (fst (apply_result now data st))"
proof -
  note w = wf_store_known[OF assms]
  show "graph_wf (fst (apply_claimed pt data st))"
    unfolding apply_claimed_def
    by (rule wf_on_node[OF assms], auto simp: Let_def assms intro!: w split: option.split)
  show "graph_wf (fst (apply_released data st))"
    unfolding apply_released_def by (rule wf_on_node[OF assms], auto simp: assms intro!: w)
  show "graph_wf (fst (apply_lease_expired data st))"
    unfolding apply_lease_expired_def by (rule wf_on_node[OF assms], auto intro!: w)
  show "graph_wf (fst (apply_reopened now data st))"
    unfolding apply_reopened_def by (rule wf_on_node[OF assms], auto simp: assms intro!: w)
  show "graph_wf (fst (apply_started now data st))"
    unfolding apply_started_def by (rule wf_on_node[OF assms], auto intro!: w)
  show "graph_wf (fst (apply_seeded data st))"
    unfolding apply_seeded_def by (rule wf_on_node[OF assms], simp add: assms)
  show "graph_wf (fst (apply_result now data st))"
    unfolding apply_result_def
    by (rule wf_on_node[OF assms], auto simp: Let_def intro!: w split: option.split)
qed

lemma wf_apply_event: "graph_wf st \<Longrightarrow> graph_wf (fst (apply_event pt now kd ty data st))"
  by (cases kd)
    (simp_all add: wf_node_handlers wf_apply_declared apply_human_message_def
       apply_plan_triggered_def apply_paused_def split: option.split)

lemma wf_count_saw [simp]: "graph_wf (count_line st) = graph_wf st" "graph_wf (saw_seq i st) = graph_wf st"
  by (simp_all add: count_line_def saw_seq_def)

text \<open>C4. The invariant of the node table survives every event, of whatever kind and content,
  also one that ends in an error.\<close>

theorem graph_apply_wf:
  assumes "graph_wf st"
  shows "graph_wf (fst (graph_apply pt now env st))"
  using assms by (simp add: graph_apply_def Let_def wf_apply_event)

theorem graph_apply_wf_witness:
  "graph_wf newGraphState \<and>
   graph_wf (fst (graph_apply (\<lambda>s. None) 7
     \<lparr>eType = ''graph.node_declared'', eSeq = 1, eTime = [],
      eData = [''nodeId'' \<mapsto> JStr ''n001'', ''type'' \<mapsto> JStr ''executor'', ''intent'' \<mapsto> JStr ''scan'']\<rparr>
     newGraphState))"
  using graph_apply_wf[OF graph_wf_new] by simp

section \<open>Replay\<close>

lemma replay_lines_wf:
  "replay_lines pt clock ls st = Inr st' \<Longrightarrow> graph_wf st \<Longrightarrow> graph_wf st'"
proof (induction pt clock ls st rule: replay_lines.induct)
  case (4 pt clock env ls st)
  have "graph_wf (fst (graph_apply pt (clock (lines st)) env st))"
    using 4(3) wf_apply_event by (simp add: graph_apply_def Let_def)
  then show ?case using 4 by (auto split: prod.splits option.splits)
qed auto

definition running_in :: "graph_state \<Rightarrow> string \<Rightarrow> bool" where
  "running_in st k \<longleftrightarrow> (case map_of (nodes st) k of Some n \<Rightarrow> nStatus n = StRunning | None \<Rightarrow> False)"

lemma running_in_simps [simp]:
  "map_of (nodes st) k = Some n \<Longrightarrow> running_in st k = (nStatus n = StRunning)"
  "map_of (nodes st) k = None \<Longrightarrow> \<not> running_in st k"
  by (simp_all add: running_in_def)

definition recovered_node :: "gotime \<Rightarrow> graph_node \<Rightarrow> graph_node" where
  "recovered_node now n =
    (if nStatus n = StRunning
     then n\<lparr>nStatus := StDeclared, nAttempts := wrap64 (nAttempts n + 1), nUpdatedAt := now\<rparr> else n)"

lemma recover_in_frame [frame_simps]:
  "order (recover_in now ks st) = order st \<and> nodeSeq (recover_in now ks st) = nodeSeq st \<and>
   lastSeq (recover_in now ks st) = lastSeq st \<and> droppedLines (recover_in now ks st) = droppedLines st \<and>
   plannerRuns (recover_in now ks st) = plannerRuns st \<and> converged (recover_in now ks st) = converged st \<and>
   lines (recover_in now ks st) = lines st"
  by (induction now ks st rule: recover_in.induct) (auto simp: frame_simps split: option.splits)

lemma recover_in_wf: "graph_wf st \<Longrightarrow> graph_wf (recover_in now ks st)"
proof (induction now ks st rule: recover_in.induct)
  case (2 now k ks st)
  then show ?case using wf_put_known[of st k] by (auto split: option.splits)
qed simp

lemma recovered_node_idem:
  "nStatus n = StRunning \<Longrightarrow> recovered_node now n = orphan_back now n"
  "nStatus n \<noteq> StRunning \<Longrightarrow> recovered_node now n = n"
  "recovered_node now (orphan_back now n) = orphan_back now n"
  by (simp_all add: recovered_node_def orphan_back_def)

lemma recover_in_nodes:
  "map_of (nodes (recover_in now ks st)) k =
    (if k \<in> set ks then map_option (recovered_node now) (map_of (nodes st) k) else map_of (nodes st) k)"
  by (induction now ks st arbitrary: rule: recover_in.induct)
    (auto simp: frame_simps recovered_node_idem split: option.splits)

lemma recover_in_recovered:
  "distinct ks \<Longrightarrow> recoveredNodes (recover_in now ks st) = recoveredNodes st @ filter (running_in st) ks"
proof (induction now ks st rule: recover_in.induct)
  case (2 now k ks st)
  have same: "filter (running_in ((put_node k n st)\<lparr>recoveredNodes := r\<rparr>)) ks = filter (running_in st) ks" for n r
    using 2(4) by (intro filter_cong) (auto simp: running_in_def frame_simps)
  show ?case using 2 same by (cases "map_of (nodes st) k") simp_all
qed simp

lemma handlers_recovered [frame_simps]:
  "recoveredNodes (fst (graph_apply pt now env st)) = recoveredNodes st"
proof -
  have on: "recoveredNodes (fst (on_node data f s)) = recoveredNodes s"
    if "\<And>n. recoveredNodes (fst (f n s)) = recoveredNodes s" for data f s
    by (rule on_node_cases) (use that in auto)
  have "recoveredNodes (fst (apply_event pt now kd ty data s)) = recoveredNodes s" for kd ty data s
    by (cases kd)
      (simp_all add: handler_defs apply_declared_def apply_human_message_def apply_plan_triggered_def
         apply_paused_def Let_def store_node_def frame_simps on split: option.split)
  then show ?thesis by (simp add: graph_apply_def Let_def count_line_def saw_seq_def)
qed

lemma replay_lines_recovered:
  "replay_lines pt clock ls st = Inr st' \<Longrightarrow> recoveredNodes st' = recoveredNodes st"
proof (induction pt clock ls st rule: replay_lines.induct)
  case (4 pt clock env ls st)
  then show ?case using handlers_recovered[of pt "clock (lines st)" env st]
    by (auto split: prod.splits option.splits)
qed auto

lemma ReplayGraphLog_cases:
  assumes "ReplayGraphLog pt clock e ls = Inr st"
  obtains st0 where "replay_lines pt clock ls newGraphState = Inr st0" "graph_wf st0"
    "recoveredNodes st0 = []" "st = recover_in (clock (lines st0)) (order st0) st0" "\<not> e"
proof -
  obtain st0 where "replay_lines pt clock ls newGraphState = Inr st0"
    using assms by (auto simp: ReplayGraphLog_def split: sum.splits)
  moreover have "recoveredNodes newGraphState = []" by (simp add: newGraphState_def)
  ultimately show thesis using assms that replay_lines_wf[of pt clock ls newGraphState st0]
      replay_lines_recovered[of pt clock ls newGraphState st0]
    by (auto simp: ReplayGraphLog_def recoverRunningOrphans_def split: if_splits)
qed

lemma ReplayGraphLog_wf: "ReplayGraphLog pt clock e ls = Inr st \<Longrightarrow> graph_wf st"
  by (erule ReplayGraphLog_cases) (simp add: recover_in_wf)

lemma recover_nodes_wf:
  "graph_wf st0 \<Longrightarrow> map_of (nodes (recover_in now (order st0) st0)) k =
    map_option (recovered_node now) (map_of (nodes st0) k)"
  using wf_order_map[of st0 k] by (simp add: recover_in_nodes)

lemma recovered_not_running: "nStatus (recovered_node now n) \<noteq> StRunning"
  by (simp add: recovered_node_def orphan_back_def)

text \<open>C2. A replay ends with no running node: exactly the nodes the log leaves running go
  back to declared with one attempt more (in 64 bits), stamped with the time of the recovery and otherwise
  unchanged; they are listed in declaration order, every other node and the declaration order are untouched,
  and the node table is well formed.\<close>

theorem replay_recovers_orphans:
  assumes "ReplayGraphLog pt clock e ls = Inr st"
  shows "graph_wf st \<and> (\<forall>k. \<not> running_in st k) \<and>
    (\<exists>st0. replay_lines pt clock ls newGraphState = Inr st0 \<and> order st = order st0 \<and>
       recoveredNodes st = filter (running_in st0) (order st0) \<and>
       (\<forall>k. map_of (nodes st) k = map_option
          (\<lambda>n. if nStatus n = StRunning
               then n\<lparr>nStatus := StDeclared, nAttempts := wrap64 (nAttempts n + 1), nUpdatedAt := clock (lines st0)\<rparr>
               else n) (map_of (nodes st0) k)))"
proof -
  from assms obtain st0 where r: "replay_lines pt clock ls newGraphState = Inr st0" "graph_wf st0"
    "recoveredNodes st0 = []" "st = recover_in (clock (lines st0)) (order st0) st0"
    by (rule ReplayGraphLog_cases)
  have n: "map_of (nodes st) k = map_option (recovered_node (clock (lines st0))) (map_of (nodes st0) k)" for k
    using r by (simp add: recover_nodes_wf)
  have "\<not> running_in st k" for k
    using n[of k] by (cases "map_of (nodes st0) k") (simp_all add: recovered_not_running)
  moreover have "recoveredNodes st = filter (running_in st0) (order st0)"
    using r by (simp add: recover_in_recovered graph_wf_def)
  moreover have "recovered_node t = (\<lambda>n. if nStatus n = StRunning
      then n\<lparr>nStatus := StDeclared, nAttempts := wrap64 (nAttempts n + 1), nUpdatedAt := t\<rparr> else n)" for t
    by (simp add: fun_eq_iff recovered_node_def)
  ultimately show ?thesis using r n recover_in_wf[OF r(2)]
    by (auto simp: frame_simps)
qed

definition demo_env :: "event_kind \<Rightarrow> int \<Rightarrow> (string \<times> json) list \<Rightarrow> log_line" where
  "demo_env k s d = EnvLine \<lparr>eType = event_name k, eSeq = s, eTime = [], eData = map_of d\<rparr>"

definition demo_log :: "log_line list" where
  "demo_log =
    [demo_env EvDeclared 1 [(''nodeId'', JStr ''n001''), (''type'', JStr ''executor''), (''intent'', JStr ''scan'')],
     BlankLine,
     demo_env EvClaimed 2 [(''nodeId'', JStr ''n001''), (''holder'', JStr ''engine-worker'')],
     TornLine,
     demo_env EvStarted 3 [(''nodeId'', JStr ''n001'')]]"

definition demo_end :: graph_state where
  "demo_end = (case ReplayGraphLog (\<lambda>_. None) (\<lambda>_. 7) False demo_log of Inr st \<Rightarrow> st | Inl _ \<Rightarrow> newGraphState)"

lemma demo_replay: "ReplayGraphLog (\<lambda>_. None) (\<lambda>_. 7) False demo_log = Inr demo_end"
  by code_simp

lemma demo_facts: "nodeSeq demo_end = 1" "recoveredNodes demo_end = [''n001'']"
    "map_option nAttempts (map_of (nodes demo_end) ''n001'') = Some 1"
  by code_simp+

theorem replay_recovers_orphans_witness:
  "graph_wf demo_end \<and> recoveredNodes demo_end = [''n001''] \<and> \<not> running_in demo_end ''n001'' \<and>
   map_option nAttempts (map_of (nodes demo_end) ''n001'') = Some 1"
  using replay_recovers_orphans[OF demo_replay] demo_facts by simp

lemma fresh_number:
  assumes "graph_wf st" "nodeSeq st < 2 ^ 63 - 1"
  shows "wrap64 (nodeSeq st + 1) = nodeSeq st + 1"
    "nodeSeqOf (node_id (nodeSeq st + 1)) = nodeSeq st + 1"
    "map_of (nodes st) (node_id (nodeSeq st + 1)) = None"
proof -
  have q: "0 \<le> nodeSeq st + 1" "nodeSeq st + 1 < 2 ^ 63" using assms by (simp_all add: graph_wf_def)
  then show "wrap64 (nodeSeq st + 1) = nodeSeq st + 1"
    and s: "nodeSeqOf (node_id (nodeSeq st + 1)) = nodeSeq st + 1" by (simp_all add: wrap64_def nodeSeqOf_node_id)
  then show "map_of (nodes st) (node_id (nodeSeq st + 1)) = None"
    using assms(1) by (cases "map_of (nodes st) (node_id (nodeSeq st + 1))") (fastforce simp: graph_wf_def)+
qed

definition new_node :: "gotime \<Rightarrow> string \<Rightarrow> string \<Rightarrow> string \<Rightarrow> string \<Rightarrow> string list \<Rightarrow> graph_node" where
  "new_node now k typ intent declaredBy from =
    \<lparr>nID = k, nType = typ, nIntent = intent, nStatus = StDeclared, nDeclaredBy = declaredBy,
     nFrom = from, nResultRef = [], nAttempts = 0, nCreatedAt = now, nUpdatedAt = now,
     nCompletedAt = zero_time, nCompletedOrd = 0, nHolder = [], nLeaseUntil = zero_time\<rparr>"

lemma new_node_simps [simp]:
  "nID (new_node now k typ intent by' from) = k" "nType (new_node now k typ intent by' from) = typ"
  "nIntent (new_node now k typ intent by' from) = intent"
  "nStatus (new_node now k typ intent by' from) = StDeclared"
  "nDeclaredBy (new_node now k typ intent by' from) = by'" "nFrom (new_node now k typ intent by' from) = from"
  "nHolder (new_node now k typ intent by' from) = []" "nAttempts (new_node now k typ intent by' from) = 0"
  by (simp_all add: new_node_def)

lemma declare_node_eq:
  assumes "graph_wf st" "nodeSeq st < 2 ^ 63 - 1"
  shows "declare_node now typ intent by' from st =
    (let k = node_id (nodeSeq st + 1); n = new_node now k typ intent by' from
     in (n, (put_node k n st)\<lparr>order := order st @ [k], nodeSeq := nodeSeq st + 1\<rparr>))"
  using fresh_number(1)[OF assms]
  by (simp add: declare_node_def nextNodeID_def Let_def put_node_def new_node_def)

lemma declare_node_wf:
  assumes "graph_wf st" "nodeSeq st < 2 ^ 63 - 1"
  shows "graph_wf (snd (declare_node now typ intent by' from st))"
  unfolding declare_node_eq[OF assms] Let_def snd_conv
  using fresh_number[OF assms] by (intro wf_put_fresh[OF assms(1)]) simp_all

text \<open>The node that \<open>declare\<close> makes gets a number no node in use has: ids stay
  unique also after a resume, whatever ids the log declared, up to the end of 64-bit counting.\<close>

theorem declare_fresh:
  assumes "graph_wf st" "nodeSeq st < 2 ^ 63 - 1"
  shows "nID (fst (declare_node now typ intent by' from st)) \<notin> set (order st) \<and>
    order (snd (declare_node now typ intent by' from st)) =
      order st @ [nID (fst (declare_node now typ intent by' from st))] \<and>
    nodeSeq (snd (declare_node now typ intent by' from st)) = nodeSeq st + 1 \<and>
    graph_wf (snd (declare_node now typ intent by' from st))"
  using declare_node_wf[OF assms, of now "typ" intent by' "from"] fresh_number(3)[OF assms] wf_order_map[OF assms(1)]
  by (simp add: declare_node_eq[OF assms] Let_def)

theorem declare_fresh_witness:
  "nodeSeq demo_end = 1 \<and> nID (fst (declare_node 9 ''planner'' ''p'' ''pack'' [] demo_end)) \<notin> set (order demo_end)"
  using declare_fresh[OF ReplayGraphLog_wf[OF demo_replay]] demo_facts by simp

section \<open>Torn lines\<close>

text \<open>No handler reads or writes the count of dropped lines.\<close>

abbreviation dropping :: "int \<Rightarrow> graph_state \<Rightarrow> graph_state" where
  "dropping d st \<equiv> st\<lparr>droppedLines := d\<rparr>"

lemma dropping_frame [frame_simps]:
  "put_node k n (dropping d st) = dropping d (put_node k n st)"
  "store_node data n (dropping d st) = dropping d (store_node data n st)"
  "nodeOf data (dropping d st) = nodeOf data st"
  "count_line (dropping d st) = dropping d (count_line st)"
  "saw_seq i (dropping d st) = dropping d (saw_seq i st)"
  by (simp_all add: put_node_def store_node_def nodeOf_def count_line_def saw_seq_def Let_def split: option.split)

lemma on_node_dropping:
  assumes "\<And>n. f n (dropping d st) = apfst (dropping d) (f n st)"
  shows "on_node data f (dropping d st) = apfst (dropping d) (on_node data f st)"
  using assms by (simp add: on_node_def frame_simps split: sum.split)

lemma node_handlers_dropping:
  "apply_claimed pt data (dropping d st) = apfst (dropping d) (apply_claimed pt data st)"
  "apply_released data (dropping d st) = apfst (dropping d) (apply_released data st)"
  "apply_lease_expired data (dropping d st) = apfst (dropping d) (apply_lease_expired data st)"
  "apply_reopened now data (dropping d st) = apfst (dropping d) (apply_reopened now data st)"
  "apply_started now data (dropping d st) = apfst (dropping d) (apply_started now data st)"
  "apply_seeded data (dropping d st) = apfst (dropping d) (apply_seeded data st)"
  "apply_result now data (dropping d st) = apfst (dropping d) (apply_result now data st)"
  unfolding handler_defs
  by (rule on_node_dropping, simp add: Let_def frame_simps split: option.split)+

lemma apply_declared_dropping:
  "apply_declared pt now data (dropping d st) = apfst (dropping d) (apply_declared pt now data st)"
proof (cases "map_of (nodes st) (jstr data ''nodeId'')")
  case None
  then show ?thesis by (simp add: apply_declared_def Let_def frame_simps)
qed (simp add: apply_declared_def Let_def)

lemma apply_event_dropping:
  "apply_event pt now kd ty data (dropping d st) = apfst (dropping d) (apply_event pt now kd ty data st)"
  by (cases kd)
    (simp_all add: node_handlers_dropping apply_declared_dropping apply_human_message_def
       apply_plan_triggered_def apply_paused_def split: option.split)

lemma graph_apply_dropping:
  "graph_apply pt now env (dropping d st) = apfst (dropping d) (graph_apply pt now env st)"
  by (simp add: graph_apply_def Let_def frame_simps apply_event_dropping)

fun is_env :: "log_line \<Rightarrow> bool" where
  "is_env (EnvLine _) = True"
| "is_env _ = False"

lemma graph_apply_dropped: "droppedLines (fst (graph_apply pt now env st)) = droppedLines st"
  using arg_cong[OF graph_apply_dropping[of pt now env "droppedLines st" st], of "\<lambda>r. droppedLines (fst r)"]
  by simp

lemma replay_lines_dropping:
  "int (d + length (filter ((=) TornLine) ls)) < 2 ^ 63 \<Longrightarrow>
   replay_lines pt clock ls (dropping (int d) st) =
     (case replay_lines pt clock (filter is_env ls) st of Inl e \<Rightarrow> Inl e
      | Inr st' \<Rightarrow> Inr (dropping (int (d + length (filter ((=) TornLine) ls))) st'))"
proof (induction ls arbitrary: d st)
  case Nil
  then show ?case by simp
next
  case (Cons l ls)
  show ?case
  proof (cases l)
    case TornLine
    have "wrap64 (int d + 1) = int (Suc d)" using Cons(2) TornLine by (simp add: wrap64_def)
    then show ?thesis using TornLine Cons(1)[of "Suc d" st] Cons(2)
      by (simp split: sum.split)
  next
    case (EnvLine env)
    show ?thesis
    proof (cases "graph_apply pt (clock (lines st)) env st")
      case (Pair s err)
      then show ?thesis using EnvLine Cons(1)[of d s] Cons(2)
        by (cases err) (simp_all add: graph_apply_dropping split: sum.split)
    qed
  next
    case BlankLine
    then show ?thesis using Cons(1)[of d st] Cons(2) by (simp split: sum.split)
  qed
qed

lemma recover_in_dropping:
  "recover_in now ks (dropping d st) = dropping d (recover_in now ks st)"
proof (induction now ks st rule: recover_in.induct)
  case (2 now k ks st)
  have "(put_node k n (dropping d st))\<lparr>recoveredNodes := r\<rparr> = dropping d ((put_node k n st)\<lparr>recoveredNodes := r\<rparr>)"
    for n r by (simp add: put_node_def)
  then show ?case using 2 by (auto split: option.split)
qed simp

text \<open>Blank and torn lines change nothing but the count of dropped lines: a replay succeeds
  with them exactly when it succeeds without them, with the same error or the same state.\<close>

theorem replay_tolerates_torn_lines:
  assumes "int (length ls) < 2 ^ 63"
  shows "ReplayGraphLog pt clock e ls =
    (case ReplayGraphLog pt clock e (filter is_env ls) of Inl err \<Rightarrow> Inl err
     | Inr st \<Rightarrow> Inr (st\<lparr>droppedLines := int (length (filter ((=) TornLine) ls))\<rparr>))"
proof -
  have "newGraphState = dropping (int 0) newGraphState" by (simp add: newGraphState_def)
  moreover have "int (0 + length (filter ((=) TornLine) ls)) < 2 ^ 63"
    using assms length_filter_le[of "(=) TornLine" ls] by linarith
  ultimately have "replay_lines pt clock ls newGraphState =
     (case replay_lines pt clock (filter is_env ls) newGraphState of Inl e \<Rightarrow> Inl e
      | Inr st' \<Rightarrow> Inr (dropping (int (length (filter ((=) TornLine) ls))) st'))"
    using replay_lines_dropping[of 0 ls pt clock newGraphState] by (metis add_0)
  then show ?thesis
    by (simp add: ReplayGraphLog_def recoverRunningOrphans_def recover_in_dropping split: sum.split)
qed

lemma demo_length: "int (length demo_log) < 2 ^ 63"
  by (simp add: demo_log_def)

lemma demo_lines: "int (length (filter ((=) TornLine) demo_log)) = 1"
  by (simp add: demo_log_def demo_env_def)

theorem replay_tolerates_torn_lines_witness:
  "ReplayGraphLog (\<lambda>_. None) (\<lambda>_. 7) False demo_log =
    (case ReplayGraphLog (\<lambda>_. None) (\<lambda>_. 7) False (filter is_env demo_log) of Inl err \<Rightarrow> Inl err
     | Inr st \<Rightarrow> Inr (st\<lparr>droppedLines := 1\<rparr>))"
  using replay_tolerates_torn_lines[of demo_log "\<lambda>_. None" "\<lambda>_. 7" False, OF demo_length]
  by (simp only: demo_lines)

section \<open>The wave\<close>

text \<open>A node may join a wave: declared, unclaimed, all its inputs known and finished.\<close>

definition claimable :: "graph_state \<Rightarrow> string \<Rightarrow> bool" where
  "claimable st k \<longleftrightarrow>
    (\<exists>n. map_of (nodes st) k = Some n \<and> nStatus n = StDeclared \<and> nHolder n = [] \<and>
       (\<forall>dep\<in>set (nFrom n). \<exists>d. map_of (nodes st) dep = Some d \<and> terminal (nStatus d)))"

lemma deps_ready_iff:
  "deps_ready st n \<longleftrightarrow> (\<forall>dep\<in>set (nFrom n). \<exists>d. map_of (nodes st) dep = Some d \<and> terminal (nStatus d))"
  by (auto simp: deps_ready_def list_all_iff split: option.splits)

lemma map_filter_nodes:
  assumes "\<forall>k\<in>set ks. \<exists>n. map_of m k = Some n \<and> nID n = k"
  shows "map nID (filter P (List.map_filter (map_of m) ks)) = filter (\<lambda>k. P (the (map_of m k))) ks"
  using assms by (induction ks) (auto simp: map_filter_simps split: option.splits)

lemma wf_order_nodes: "graph_wf st \<Longrightarrow> \<forall>k\<in>set (order st). \<exists>n. map_of (nodes st) k = Some n \<and> nID n = k"
  using wf_order_map wf_nID by blast

lemma in_map_filter: "y \<in> set (List.map_filter f xs) \<longleftrightarrow> (\<exists>x\<in>set xs. f x = Some y)"
  by (induction xs) (auto simp: map_filter_simps split: option.splits)

lemma in_ordered_nodes:
  assumes "graph_wf st"
  shows "n \<in> set (ordered_nodes st) \<longleftrightarrow> map_of (nodes st) (nID n) = Some n"
  unfolding ordered_nodes_def in_map_filter
  using wf_nID[OF assms] wf_order_map[OF assms] by fastforce

lemma ready_ids:
  assumes "graph_wf st"
  shows "map nID (filter (is_ready st) (ordered_nodes st)) = filter (claimable st) (order st)"
  unfolding ordered_nodes_def map_filter_nodes[OF wf_order_nodes[OF assms]]
  using wf_order_nodes[OF assms]
  by (intro filter_cong) (auto simp: claimable_def is_ready_def deps_ready_iff)

text \<open>C3. The wave is sound, ordered and capped: it holds the nodes that are declared, unclaimed
  and have every input finished, each once and in declaration order; all of them when there
  is no cap, the first \<open>maxParallel\<close> of them otherwise; the expired list holds exactly the
  nodes whose lease ran out.\<close>

theorem claimableReady_spec:
  assumes "graph_wf st"
  shows "map nID (fst (claimableReady mp now st)) =
      (if 0 < mp then take (nat mp) (filter (claimable st) (order st)) else filter (claimable st) (order st)) \<and>
    distinct (map nID (fst (claimableReady mp now st))) \<and>
    (\<forall>n\<in>set (fst (claimableReady mp now st)). map_of (nodes st) (nID n) = Some n \<and> claimable st (nID n)) \<and>
    (\<forall>n. n \<in> set (snd (claimableReady mp now st)) \<longleftrightarrow>
       map_of (nodes st) (nID n) = Some n \<and> nHolder n \<noteq> [] \<and> nLeaseUntil n \<noteq> zero_time \<and> nLeaseUntil n < now)"
proof -
  have d: "distinct (filter (claimable st) (order st))" using assms by (simp add: graph_wf_def)
  note o = in_ordered_nodes[OF assms]
  have r: "n \<in> set (fst (claimableReady mp now st)) \<Longrightarrow> n \<in> set (ordered_nodes st) \<and> is_ready st n" for n
    by (auto simp: claimableReady_def Let_def split: if_splits dest: in_set_takeD)
  have m: "map nID (fst (claimableReady mp now st)) =
      (if 0 < mp then take (nat mp) (filter (claimable st) (order st)) else filter (claimable st) (order st))"
    using ready_ids[OF assms] by (simp add: claimableReady_def Let_def take_map[symmetric])
  have "distinct (map nID (fst (claimableReady mp now st)))" unfolding m using d by simp
  moreover have "map_of (nodes st) (nID n) = Some n \<and> claimable st (nID n)"
    if "n \<in> set (fst (claimableReady mp now st))" for n
    using r[OF that] o by (simp add: claimable_def is_ready_def deps_ready_iff)
  moreover have "n \<in> set (snd (claimableReady mp now st)) \<longleftrightarrow>
       map_of (nodes st) (nID n) = Some n \<and> nHolder n \<noteq> [] \<and> nLeaseUntil n \<noteq> zero_time \<and> nLeaseUntil n < now" for n
    by (simp add: claimableReady_def Let_def o lease_expired_def)
  ultimately show ?thesis using m by blast
qed

theorem claimableReady_spec_witness:
  "\<forall>mp now. distinct (map nID (fst (claimableReady mp now demo_end)))"
  using claimableReady_spec[OF ReplayGraphLog_wf[OF demo_replay]] by blast

text \<open>C7. A resume can strand a node: replaying a log that stops after an engine claim and a
  start leaves the node declared and still held by the engine worker without a lease, so at no
  time and under no cap it is ready or expired, while \<open>nextOpen\<close> keeps finding it; the
  main loop then only sleeps. \<open>recoverRunningOrphans\<close> resets the status but not the
  holder.\<close>

theorem resume_strands_claimed_node:
  "ReplayGraphLog (\<lambda>_. None) (\<lambda>_. 7) False demo_log = Inr demo_end \<and>
   (\<forall>mp now. claimableReady mp now demo_end = ([], [])) \<and>
   map_option (\<lambda>n. (nID n, nStatus n, nHolder n)) (nextOpen demo_end) =
     Some (''n001'', StDeclared, ''engine-worker'')"
proof -
  have "ordered_nodes demo_end =
      [\<lparr>nID = ''n001'', nType = ''executor'', nIntent = ''scan'', nStatus = StDeclared, nDeclaredBy = [],
        nFrom = [], nResultRef = [], nAttempts = 1, nCreatedAt = 0, nUpdatedAt = 7, nCompletedAt = 0,
        nCompletedOrd = 0, nHolder = ''engine-worker'', nLeaseUntil = 0\<rparr>]"
    by code_simp
  then show ?thesis
    by (simp add: demo_replay claimableReady_def is_ready_def lease_expired_def nextOpen_def)
qed

section \<open>Crash loops\<close>

definition crash_log :: "nat \<Rightarrow> log_line list" where
  "crash_log n =
    demo_env EvDeclared 1 [(''nodeId'', JStr ''n001''), (''type'', JStr ''planner''), (''intent'', JStr ''plan'')] #
    map (\<lambda>i. demo_env EvStarted (2 + int i) [(''nodeId'', JStr ''n001'')]) [0..<Suc n]"

lemma apply_started_env:
  assumes "map_of (nodes st) ''n001'' = Some n" "0 < q"
  shows "graph_apply pt t \<lparr>eType = event_name EvStarted, eSeq = q, eTime = [],
      eData = map_of [(''nodeId'', JStr ''n001'')]\<rparr> st =
    (put_node ''n001'' (n\<lparr>nStatus := StRunning, nUpdatedAt := t\<rparr>) (saw_seq q (count_line st)), None)"
  using assms by (simp add: graph_apply_def Let_def apply_started_def on_node_def nodeOf_def store_node_def jstr_def
      saw_seq_def count_line_def put_node_def del: event_name.simps)

lemma replay_starts:
  assumes "map_of (nodes st) ''n001'' = Some n" "order st = [''n001'']" "recoveredNodes st = []"
    "is = [] \<longrightarrow> nStatus n = StRunning"
  shows "\<exists>st' n'. replay_lines pt clock (map (\<lambda>i. demo_env EvStarted (2 + int i) [(''nodeId'', JStr ''n001'')]) is) st = Inr st' \<and>
    order st' = [''n001''] \<and> map_of (nodes st') ''n001'' = Some n' \<and> nStatus n' = StRunning \<and> nAttempts n' = nAttempts n"
  using assms
proof (induction "is" arbitrary: st n)
  case Nil
  then show ?case by simp
next
  case (Cons i is')
  let ?q = "2 + int i"
  let ?n = "n\<lparr>nStatus := StRunning, nUpdatedAt := clock (lines st)\<rparr>"
  let ?st = "put_node ''n001'' ?n (saw_seq ?q (count_line st))"
  have "map_of (nodes ?st) ''n001'' = Some ?n" "order ?st = [''n001'']" "recoveredNodes ?st = []"
    "is' = [] \<longrightarrow> nStatus ?n = StRunning"
    using Cons(3,4) by (simp_all add: frame_simps saw_seq_def count_line_def)
  from Cons(1)[OF this] Cons(2) show ?case
    by (simp add: demo_env_def apply_started_env[simplified])
qed

text \<open>A crash loop is not counted: however many times the engine crashed with the node
  running, a replay finds one attempt, because the attempt of a recovered orphan is never
  written to the log; \<open>MaxAttemptsPerNode\<close> does not cap restarts.\<close>

theorem crash_loop_counts_once:
  "\<exists>st. ReplayGraphLog pt clock False (crash_log n) = Inr st \<and>
    map_option nAttempts (map_of (nodes st) ''n001'') = Some 1 \<and> recoveredNodes st = [''n001'']"
proof -
  let ?d = "\<lparr>eType = event_name EvDeclared, eSeq = 1, eTime = [],
    eData = map_of [(''nodeId'', JStr ''n001''), (''type'', JStr ''planner''), (''intent'', JStr ''plan'')]\<rparr>"
  obtain st1 n1 where 1: "graph_apply pt (clock 0) ?d newGraphState = (st1, None)" "map_of (nodes st1) ''n001'' = Some n1"
    "order st1 = [''n001'']" "recoveredNodes st1 = []" "nAttempts n1 = 0"
    by (auto simp: graph_apply_def Let_def apply_declared_def newGraphState_def count_line_def saw_seq_def
        put_node_def jstr_def simp del: event_name.simps)
  obtain st2 n2 where 2: "replay_lines pt clock (map (\<lambda>i. demo_env EvStarted (2 + int i) [(''nodeId'', JStr ''n001'')]) [0..<Suc n]) st1 = Inr st2"
    "order st2 = [''n001'']" "map_of (nodes st2) ''n001'' = Some n2" "nStatus n2 = StRunning" "nAttempts n2 = 0"
    using replay_starts[OF 1(2,3,4), of "[0..<Suc n]" pt clock] 1(5) by auto
  have r: "replay_lines pt clock (crash_log n) newGraphState = Inr st2"
    using 1(1) 2(1) by (simp add: crash_log_def demo_env_def newGraphState_def)
  have "recoveredNodes st2 = []" using replay_lines_recovered[OF r] by (simp add: newGraphState_def)
  then show ?thesis using r 2
    by (simp add: ReplayGraphLog_def recoverRunningOrphans_def frame_simps orphan_back_def wrap64_def)
qed

end
