(* ===== verification/GraphOps.thy ===== *)
theory GraphOps imports Main GraphState GoText begin

text \<open>
  The pure part of \<open>runtime-service/internal/sandbox/graph.go\<close>: the task
  specification and its defaults, the collection of a node's result, the planner's
  declarations, the text extraction helpers and the queries on the graph state.

  Code outside is a parameter: \<open>json.Unmarshal\<close> of the planner's text
  (\<open>unmarshal\<close>), the parser of submitted findings (\<open>parse_findings\<close>), the
  agent. Message texts outside ASCII are given by their UTF-8 bytes.
\<close>

section \<open>Specification\<close>

definition graphMaxNodesDefault :: int where "graphMaxNodesDefault = 24"

definition graphMaxPlannerReplansDefault :: int where "graphMaxPlannerReplansDefault = 5"

definition graphMaxAttemptsPerNodeDefault :: int where "graphMaxAttemptsPerNodeDefault = 2"

definition graphPlannerTimeoutDefault :: int where "graphPlannerTimeoutDefault = 180 * ns_second"

definition graphExecutorTimeoutDefault :: int where "graphExecutorTimeoutDefault = 900 * ns_second"

definition graphVerifierTimeoutDefault :: int where "graphVerifierTimeoutDefault = 300 * ns_second"

definition graphProjectionMaxNodes :: nat where "graphProjectionMaxNodes = 8"

definition graphResultRefMaxRunes :: nat where "graphResultRefMaxRunes = 200"

text \<open>\<open>AllowedTypes\<close> is a Go set (\<open>map[string]bool\<close>): an association list.\<close>

record graph_task_spec =
  gTaskID :: string
  gGoal :: string
  gSeedIntents :: "string list"
  gMaxNodes :: int
  gMaxParallel :: int
  gAllowedTypes :: "(string \<times> bool) list"
  gMaxPlannerReplans :: int
  gMaxAttemptsPerNode :: int
  gPlannerTimeout :: int
  gExecutorTimeout :: int
  gVerifierTimeout :: int

definition type_allowed :: "graph_task_spec \<Rightarrow> string \<Rightarrow> bool" where
  "type_allowed sp ty = (map_of (gAllowedTypes sp) ty = Some True)"

definition default_goal :: string where
  "default_goal = (utf8 [229, 174, 140, 230, 136, 144, 230, 156, 172] @ '' pack '' @ utf8 [229, 163,
      176, 230, 152, 142, 231, 154, 132, 232, 180, 159, 232, 189, 189, 231, 155, 174, 230, 160, 135])"

definition or_default :: "int \<Rightarrow> int \<Rightarrow> int" where
  "or_default v d = (if v \<le> 0 then d else v)"

definition normalize :: "graph_task_spec \<Rightarrow> graph_task_spec" where
  "normalize s = s\<lparr>
     gMaxNodes := or_default (gMaxNodes s) graphMaxNodesDefault,
     gMaxPlannerReplans := or_default (gMaxPlannerReplans s) graphMaxPlannerReplansDefault,
     gMaxAttemptsPerNode := or_default (gMaxAttemptsPerNode s) graphMaxAttemptsPerNodeDefault,
     gPlannerTimeout := or_default (gPlannerTimeout s) graphPlannerTimeoutDefault,
     gExecutorTimeout := or_default (gExecutorTimeout s) graphExecutorTimeoutDefault,
     gVerifierTimeout := or_default (gVerifierTimeout s) graphVerifierTimeoutDefault,
     gAllowedTypes := (if gAllowedTypes s = []
        then [(''planner'', True), (''executor'', True), (''verifier'', True)] else gAllowedTypes s),
     gGoal := (if TrimSpace (gGoal s) = [] then default_goal else gGoal s)\<rparr>"

definition timeoutFor :: "graph_task_spec \<Rightarrow> string \<Rightarrow> int" where
  "timeoutFor s nodeType =
    (if nodeType = ''planner'' then gPlannerTimeout s
     else if nodeType = ''verifier'' then gVerifierTimeout s
     else gExecutorTimeout s)"

section \<open>Texts\<close>

definition truncateRunes :: "string \<Rightarrow> nat \<Rightarrow> string" where
  "truncateRunes s mx =
    (let r = runes s in if length r \<le> mx then s else string_of_runes (take mx r) @ (utf8 [226, 128,
        166]))"

definition fence3 :: string where "fence3 = replicate 3 (CHR 0x60)"

definition extractJSON :: "string \<Rightarrow> string" where
  "extractJSON text =
    (let s = TrimSpace text in
     case str_index s (fence3 @ ''json'') of
       Some i \<Rightarrow>
         (let s = drop (i + length (fence3 @ ''json'')) s;
              s = (case str_index s fence3 of Some j \<Rightarrow> take j s | None \<Rightarrow> s)
          in TrimSpace s)
     | None \<Rightarrow>
         (case str_index s fence3 of
            Some i \<Rightarrow>
              (let s = drop (i + 3) s;
                   s = (case str_index s fence3 of Some j \<Rightarrow> take j s | None \<Rightarrow> s)
               in TrimSpace s)
          | None \<Rightarrow> s))"

fun refused_lines :: "string list \<Rightarrow> string" where
  "refused_lines [] = []"
| "refused_lines (l # ls) =
    (let line = TrimSpace l
     in if line = [] then refused_lines ls
        else case cut_prefix line ''REFUSED:'' of Some rest \<Rightarrow> TrimSpace rest | None \<Rightarrow> [])"

definition refusedOf :: "string \<Rightarrow> string" where
  "refusedOf text = refused_lines (split_on (CHR 0x0A) text)"

section \<open>Submitted findings\<close>

record tool_call =
  tcName :: string
  tcArguments :: string

record finding =
  fTitle :: string
  fDescription :: string
  fSeverity :: string
  fCweID :: string
  fFilePath :: string
  fStartLine :: int
  fConfidence :: rat
  fReasoning :: string
  fFixSuggestion :: string
  fDiffPatch :: string

definition SubmitFindingsTool :: string where "SubmitFindingsTool = ''submit_findings''"

definition SubmitPatchesTool :: string where "SubmitPatchesTool = ''submit_patches''"

definition expectedSubmitCaptured :: "tool_call list \<Rightarrow> bool \<Rightarrow> bool" where
  "expectedSubmitCaptured calls patchRound =
    (let tool = (if patchRound then SubmitPatchesTool else SubmitFindingsTool)
     in list_ex (\<lambda>c. tcName c = tool) calls)"

definition finding_key :: "finding \<Rightarrow> string" where
  "finding_key f = fTitle f @ ''|'' @ fFilePath f @ ''|'' @ int_digits (fStartLine f)"

text \<open>The merge of one batch: findings whose key was seen are skipped.\<close>

fun merge_batch :: "finding list \<Rightarrow> string list \<times> finding list \<Rightarrow> string list \<times> finding list" where
  "merge_batch [] acc = acc"
| "merge_batch (f # fs) (seen, merged) =
    (if finding_key f \<in> set seen then merge_batch fs (seen, merged)
     else merge_batch fs (finding_key f # seen, merged @ [f]))"

fun merge_calls ::
  "(string \<Rightarrow> string + finding list) \<Rightarrow> tool_call list \<Rightarrow> bool \<Rightarrow> string list \<times> finding list
    \<Rightarrow> bool \<times> finding list" where
  "merge_calls parse_findings [] parsed acc = (parsed, snd acc)"
| "merge_calls parse_findings (c # cs) parsed acc =
    (if tcName c \<noteq> SubmitFindingsTool then merge_calls parse_findings cs parsed acc
     else case parse_findings (tcArguments c) of
       Inl _ \<Rightarrow> merge_calls parse_findings cs parsed acc
     | Inr fs \<Rightarrow> merge_calls parse_findings cs True (merge_batch fs acc))"

text \<open>The findings and the channel they came through.\<close>

definition parseAuditResult ::
  "(string \<Rightarrow> string + finding list) \<Rightarrow> string \<Rightarrow> tool_call list \<Rightarrow> string + finding list \<times> string" where
  "parseAuditResult parse_findings finalText calls =
    (case merge_calls parse_findings calls False ([], []) of
       (True, merged) \<Rightarrow> Inr (merged, SubmitFindingsTool)
     | (False, _) \<Rightarrow>
         (case parse_findings finalText of Inl e \<Rightarrow> Inl e | Inr fs \<Rightarrow> Inr (fs, ''text-fence'')))"

section \<open>Collecting a node\<close>

text \<open>A dispatched turn: final text, tool calls, turns so far, or an error text.\<close>

record turn_out =
  tText :: string
  tCalls :: "tool_call list"
  tTurns :: rat
  tErr :: "string option"

definition attemptExhausted :: "graph_node \<Rightarrow> graph_task_spec \<Rightarrow> bool" where
  "attemptExhausted n sp \<longleftrightarrow> wrap64 (nAttempts n + 1) \<ge> gMaxAttemptsPerNode sp"

definition collectGraphNode ::
  "(string \<Rightarrow> string + finding list) \<Rightarrow> graph_task_spec \<Rightarrow> graph_node \<Rightarrow> string \<Rightarrow> tool_call list \<Rightarrow>
    string option \<Rightarrow> outcome \<times> string \<times> finding list" where
  "collectGraphNode parse_findings sp n text calls derr =
    (case derr of
       Some e \<Rightarrow>
         if attemptExhausted n sp
         then (OFailed, truncateRunes ((utf8 [229, 176, 157, 232, 175, 149, 228, 184, 138, 233, 153,
             144] @ '' '') @ int_digits (gMaxAttemptsPerNode sp) @
                 ('' '' @ utf8 [229, 134, 133, 230, 156, 170, 230, 148, 182, 230, 149, 155, 239, 188,
                     154]) @ e) graphResultRefMaxRunes, [])
         else (OIndeterminate, truncateRunes e graphResultRefMaxRunes, [])
     | None \<Rightarrow>
         (let reason = refusedOf text in
          if reason \<noteq> [] then (ORejected, truncateRunes ((utf8 [230, 139, 146, 231, 173, 148,
              239, 188, 154]) @ reason) graphResultRefMaxRunes, [])
          else if nType n = ''executor'' then
            (case parseAuditResult parse_findings text calls of
               Inl perr \<Rightarrow>
                 if attemptExhausted n sp
                 then (OFailed, truncateRunes ((''findings '' @ utf8 [232, 167, 163, 230, 158, 144,
                     229, 164, 177, 232, 180, 165, 239, 188, 136, 232, 190, 190, 229, 176, 157, 232,
                     175, 149, 228, 184, 138, 233, 153, 144, 239, 188, 137, 239, 188, 154]) @ perr)
                         graphResultRefMaxRunes, [])
                 else (OIndeterminate, truncateRunes ((''findings '' @ utf8 [232, 167, 163, 230, 158,
                     144, 229, 164, 177, 232, 180, 165, 239, 188, 154]) @ perr)
                         graphResultRefMaxRunes, [])
             | Inr (fs, _) \<Rightarrow> (OCompleted, (''submit_findings'' @ utf8 [195, 151]) @
                 nat_digits (length fs), fs))
          else if nType n = ''verifier'' then (OCompleted, truncateRunes text graphResultRefMaxRunes, [])
          else (OCompleted, (''intents '' @ utf8 [229, 190, 133, 229, 163, 176, 230, 152, 142]), [])))"

text \<open>
  The concluding turn: asked exactly once, of an executor that came back without an error and
  without a submission, when the agent has the capability. \<open>conclude\<close> is its answer.
\<close>

definition needConclude :: "bool \<Rightarrow> graph_node \<Rightarrow> turn_out \<Rightarrow> bool" where
  "needConclude concludeCap n o' \<longleftrightarrow>
    tErr o' = None \<and> nType n = ''executor'' \<and> concludeCap \<and> \<not> expectedSubmitCaptured (tCalls o') False"

definition with_conclusion :: "bool \<Rightarrow> graph_node \<Rightarrow> turn_out \<Rightarrow> turn_out \<Rightarrow> turn_out" where
  "with_conclusion concludeCap n conclude o' =
    (if needConclude concludeCap n o' then
       (case tErr conclude of
          Some _ \<Rightarrow> o'
        | None \<Rightarrow> o'\<lparr>tText := (if tText conclude \<noteq> [] then tText conclude else tText o'),
                      tCalls := tCalls o' @ tCalls conclude\<rparr>)
     else o')"

section \<open>Planner output\<close>

record planner_intent =
  piType :: string
  piIntent :: string
  piFrom :: "string list"

definition validateIntent :: "graph_task_spec \<Rightarrow> graph_state \<Rightarrow> planner_intent \<Rightarrow> string" where
  "validateIntent sp st it =
    (if \<not> type_allowed sp (piType it)
     then ''type '' @ go_quote (piType it) @ ('' '' @ utf8 [228, 184, 141, 229, 156, 168] @
         '' allowed_types'')
     else if TrimSpace (piIntent it) = [] then (''intent '' @ utf8 [228, 184, 186, 231, 169, 186])
     else if int (length (nodes st)) \<ge> gMaxNodes sp
     then ''max_nodes='' @ int_digits (gMaxNodes sp) @ ('' '' @ utf8 [229, 183, 178, 230, 187, 161,
         239, 188, 136, 229, 144, 171, 229, 183, 178, 229, 163, 176, 230, 152, 142, 239, 188, 137])
     else case find (\<lambda>f. map_of (nodes st) f = None) (piFrom it) of
       Some f \<Rightarrow> (''from '' @ utf8 [229, 188, 149, 231, 148, 168] @ '' '') @ go_quote f @
           ('' '' @ utf8 [228, 184, 141, 229, 173, 152, 229, 156, 168])
     | None \<Rightarrow> [])"

section \<open>Queries\<close>

definition is_planner :: "graph_node \<Rightarrow> bool" where
  "is_planner n \<longleftrightarrow> nType n = ''planner''"

definition nonPlannerTerminals :: "graph_state \<Rightarrow> nat" where
  "nonPlannerTerminals st = length (filter (\<lambda>(_, n). \<not> is_planner n \<and> terminal (nStatus n)) (nodes st))"

definition count_non_planner :: "(node_status \<Rightarrow> bool) \<Rightarrow> graph_state \<Rightarrow> nat" where
  "count_non_planner P st = length (filter (\<lambda>(_, n). \<not> is_planner n \<and> P (nStatus n)) (nodes st))"

definition situation :: "graph_state \<Rightarrow> string \<times> string" where
  "situation st =
    (let failures = count_non_planner (\<lambda>s. s = StFailed \<or> s = StRejected) st;
         completes = count_non_planner (\<lambda>s. s = StCompleted) st
     in if failures > 0
        then (triggerOpenDrained, (utf8 [229, 164, 177, 232, 180, 165] @ ''/'' @ utf8 [230, 139, 146,
            231, 173, 148] @ '' '') @ nat_digits failures @ ('' '' @ utf8 [233, 161, 185, 232, 135,
            180] @ '' open '' @ utf8 [230, 142, 146, 231, 169, 186, 239, 188, 140, 232, 175, 183, 230,
            177, 130, 230, 141, 162, 232, 183, 175, 230, 136, 150, 230, 148, 182, 230, 149, 155]))
        else (triggerNewEvidence, (utf8 [230, 150, 176, 229, 162, 158] @ '' completed '') @
            nat_digits completes @ ('' '' @ utf8 [233, 161, 185])))"

definition countBy :: "graph_state \<Rightarrow> node_status \<Rightarrow> nat" where
  "countBy st s = length (filter (\<lambda>(_, n). nStatus n = s) (nodes st))"

definition claimableCap :: "graph_node list \<Rightarrow> int \<Rightarrow> graph_node list" where
  "claimableCap ns maxParallel =
    (if maxParallel \<le> 0 \<or> int (length ns) \<le> maxParallel then ns else take (nat maxParallel) ns)"

definition filterNonPlanner :: "graph_node list \<Rightarrow> graph_node list" where
  "filterNonPlanner ns = filter (\<lambda>n. nType n \<noteq> ''planner'') ns"

definition fromRecent :: "graph_state \<Rightarrow> string list" where
  "fromRecent st =
    (case find (\<lambda>n. terminal (nStatus n)) (rev (ordered_nodes st)) of
       Some n \<Rightarrow> [nID n]
     | None \<Rightarrow> [])"

text \<open>
  \<open>projectionOf\<close>: the scan from the newest node, stopped at eight lines, restored to
  declaration order.
\<close>

definition projected :: "graph_node \<Rightarrow> graph_node \<Rightarrow> bool" where
  "projected self n \<longleftrightarrow> nID n \<noteq> nID self \<and> nResultRef n \<noteq> [] \<and> terminal (nStatus n)"

definition projection_line :: "graph_node \<Rightarrow> string" where
  "projection_line n =
    ''- ['' @ nID n @ '' '' @ nType n @ ''] '' @
    (if nStatus n = StFailed then ''[FAILED] '' else if nStatus n = StRejected then ''[REJECTED] '' else []) @
    truncateRunes (nResultRef n) graphResultRefMaxRunes"

definition projection_nodes :: "graph_node \<Rightarrow> graph_state \<Rightarrow> graph_node list" where
  "projection_nodes self st =
    rev (take graphProjectionMaxNodes (filter (projected self) (rev (ordered_nodes st))))"

definition projectionOf :: "graph_node \<Rightarrow> graph_state \<Rightarrow> string" where
  "projectionOf self st = join_with [CHR 0x0A] (map projection_line (projection_nodes self st))"

section \<open>The prompt of a node\<close>

definition contract_text :: "graph_node \<Rightarrow> bool \<Rightarrow> string" where
  "contract_text n structured =
    (if nType n = ''executor'' then
       (if structured then (utf8 [232, 176, 131, 231, 148, 168] @ '' submit_findings '' @ utf8 [230,
           143, 144, 228, 186, 164, 229, 133, 168, 233, 131, 168, 229, 143, 145, 231, 142, 176, 239,
           188, 136, 228, 190, 166, 229, 175, 159, 232, 167, 130, 229, 175, 159, 228, 187, 165] @
           '' severity=INFO '' @ utf8 [230, 144, 186, 229, 184, 166, 239, 188, 155, 230, 188, 143, 230,
           180, 158, 230, 140, 137, 228, 184, 165, 233, 135, 141, 229, 186, 166, 229, 136, 134, 231,
           186, 167, 239, 188, 137, 227, 128, 130, 229, 136, 134, 230, 137, 185, 230, 143, 144, 228,
           186, 164, 239, 188, 140, 229, 141, 149, 230, 137, 185, 229, 143, 130, 230, 149, 176, 229,
           139, 191, 232, 191, 135, 233, 149, 191, 227, 128, 130, 10]) else (utf8 [228, 187, 165] @
           '' '' @ ''```'' @ ''json '' @ utf8 [229, 155, 180, 230, 160, 143, 232, 190, 147, 229, 135,
           186, 229, 133, 168, 233, 131, 168, 229, 143, 145, 231, 142, 176, 239, 188, 136, 230, 156,
           128, 229, 144, 142, 228, 184, 128, 230, 157, 161, 230, 182, 136, 230, 129, 175] @ '','' @
           utf8 [230, 173, 163, 230, 150, 135, 229, 148, 175, 228, 184, 128, 229, 155, 180, 230, 160,
           143, 239, 188, 137] @ '':'' @ utf8 [10, 96, 96, 96] @ ''json'' @ utf8 [10] @ ''{'' @
           utf8 [10] @ ''  '' @ utf8 [34] @ ''findings'' @ utf8 [34] @ '': ['' @ utf8 [10] @
           ''    {'' @ utf8 [10] @ ''      '' @ utf8 [34] @ ''title'' @ utf8 [34] @ '': '' @ utf8 [34,
           231, 174, 128, 231, 159, 173, 230, 188, 143, 230, 180, 158, 230, 160, 135, 233, 162, 152,
           34] @ '','' @ utf8 [10] @ ''      '' @ utf8 [34] @ ''description'' @ utf8 [34] @ '': '' @
           utf8 [34, 233, 151, 174, 233, 162, 152, 228, 184, 142, 229, 189, 177, 229, 147, 141, 232,
           175, 180, 230, 152, 142, 34] @ '','' @ utf8 [10] @ ''      '' @ utf8 [34] @ ''severity'' @
           utf8 [34] @ '': '' @ utf8 [34] @
           ''SEVERITY_CRITICAL|SEVERITY_HIGH|SEVERITY_MEDIUM|SEVERITY_LOW|SEVERITY_INFO'' @ utf8 [34] @
           '','' @ utf8 [10] @ ''      '' @ utf8 [34] @ ''cwe_id'' @ utf8 [34] @ '': '' @ utf8 [34] @
           ''CWE-XXX '' @ utf8 [230, 136, 150, 231, 169, 186, 229, 173, 151, 231, 172, 166, 228, 184,
           178, 34] @ '','' @ utf8 [10] @ ''      '' @ utf8 [34] @ ''file_path'' @ utf8 [34] @ '': '' @
           utf8 [34, 233, 161, 185, 231, 155, 174, 229, 134, 133, 231, 155, 184, 229, 175, 185, 232,
           183, 175, 229, 190, 132, 34] @ '','' @ utf8 [10] @ ''      '' @ utf8 [34] @ ''start_line'' @
           utf8 [34] @ '': '' @ utf8 [232, 161, 140, 229, 143, 183, 230, 149, 180, 230, 149, 176] @
           '','' @ utf8 [10] @ ''      '' @ utf8 [34] @ ''confidence'' @ utf8 [34] @ '': 0.0'' @
           utf8 [229, 136, 176] @ ''1.0'' @ utf8 [231, 154, 132, 229, 176, 143, 230, 149, 176] @
           '','' @ utf8 [10] @ ''      '' @ utf8 [34] @ ''reasoning'' @ utf8 [34] @ '': '' @ utf8 [34,
           229, 136, 164, 229, 174, 154, 231, 144, 134, 231, 148, 177, 239, 188, 136, 229, 188, 149,
           231, 148, 168, 228, 187, 163, 231, 160, 129, 232, 175, 129, 230, 141, 174, 239, 188, 137,
           34] @ '','' @ utf8 [10] @ ''      '' @ utf8 [34] @ ''fix_suggestion'' @ utf8 [34] @ '': '' @
           utf8 [34, 228, 191, 174, 229, 164, 141, 232, 175, 180, 230, 152, 142, 239, 188, 136, 230,
           151, 160, 230, 138, 138, 230, 143, 161, 229, 143, 175, 231, 169, 186, 229, 173, 151, 231,
           172, 166, 228, 184, 178, 239, 188, 137, 34, 10] @ ''    }'' @ utf8 [10] @ ''  ]'' @
           utf8 [10] @ ''}'' @ utf8 [10, 96, 96, 96, 10, 239, 188, 136, 228, 190, 166, 229, 175, 159,
           232, 167, 130, 229, 175, 159, 228, 187, 165] @ '' SEVERITY_INFO '' @ utf8 [230, 144, 186,
           229, 184, 166, 239, 188, 155, 230, 188, 143, 230, 180, 158, 230, 140, 137, 228, 184, 165,
           233, 135, 141, 229, 186, 166, 229, 136, 134, 231, 186, 167] @ '';'' @ utf8 [233, 155, 182,
           229, 143, 145, 231, 142, 176, 232, 190, 147, 229, 135, 186, 231, 169, 186, 230, 149, 176,
           231, 187, 132, 227, 128, 130, 239, 188, 137, 10]))
     else if nType n = ''planner'' then (utf8 [229, 143, 170, 232, 190, 147, 229, 135, 186] @
         '' JSON'' @ utf8 [239, 188, 136, 230, 151, 160, 229, 133, 182, 228, 187, 150, 230, 173, 163,
         230, 150, 135, 239, 188, 137, 239, 188, 154] @ ''{'' @ utf8 [34] @ ''nodes'' @ utf8 [34] @
         '':[{'' @ utf8 [34] @ ''type'' @ utf8 [34] @ '':'' @ utf8 [34] @
         ''planner|executor|verifier'' @ utf8 [34] @ '','' @ utf8 [34] @ ''intent'' @ utf8 [34] @
         '':'' @ utf8 [34, 228, 184, 128, 229, 143, 165, 232, 175, 157, 34] @ '','' @ utf8 [34] @
         ''from'' @ utf8 [34] @ '':['' @ utf8 [34] @ ''n001'' @ utf8 [34] @ '']}]}'' @ utf8 [10, 228,
         190, 157, 230, 141, 174, 230, 150, 176, 230, 128, 129, 229, 138, 191, 230, 137, 169, 229, 177,
         149, 232, 138, 130, 231, 130, 185, 239, 188, 155, 229, 155, 190, 229, 183, 178, 232, 182, 179,
         229, 164, 159, 229, 136, 153, 232, 190, 147, 229, 135, 186] @ '' {'' @ utf8 [34] @ ''nodes'' @
         utf8 [34] @ '':[]}'' @ utf8 [227, 128, 130, 10])
     else if nType n = ''verifier'' then (utf8 [232, 190, 147, 229, 135, 186, 232, 163, 129, 229, 134,
         179, 230, 150, 135, 230, 156, 172, 239, 188, 154, 231, 187, 147, 232, 174, 186, 239, 188, 136,
         231, 161, 174, 232, 174, 164] @ ''/'' @ utf8 [232, 175, 129, 228, 188, 170] @ ''/'' @
         utf8 [229, 173, 152, 231, 150, 145, 239, 188, 137] @ ''+'' @ utf8 [228, 190, 157, 230, 141,
         174, 239, 188, 136, 229, 188, 149, 231, 148, 168, 229, 137, 141, 229, 186, 143, 232, 138, 130,
         231, 130, 185, 231, 187, 147, 230, 158, 156, 239, 188, 137] @ ''+'' @ utf8 [229, 144, 142,
         231, 187, 173, 229, 187, 186, 232, 174, 174, 227, 128, 130, 10])
     else [])"

definition buildGraphNodePrompt ::
  "graph_task_spec \<Rightarrow> graph_node \<Rightarrow> graph_state \<Rightarrow> string \<Rightarrow> bool \<Rightarrow> string" where
  "buildGraphNodePrompt sp n st seed structured =
    (''# '' @ utf8 [229, 155, 190, 232, 138, 130, 231, 130, 185, 228, 187, 187, 229, 138, 161, 239,
        188, 136]) @ nID n @ ('' '' @ utf8 [194, 183] @ '' '') @ nType n @ (utf8 [239, 188, 137, 10,
        10] @ ''## '' @ utf8 [228, 187, 187, 229, 138, 161, 231, 155, 174, 230, 160, 135, 10]) @
        gGoal sp @ (utf8 [10, 10] @ ''## '' @ utf8 [230, 156, 172, 232, 138, 130, 231, 130, 185, 230,
        132, 143, 229, 155, 190, 10]) @ nIntent n @ [CHR 0x0A] @
    (if seed \<noteq> [] then (utf8 [10] @ ''## '' @ utf8 [229, 137, 141, 228, 187, 187, 229, 164, 177,
        232, 180, 165, 232, 166, 129, 231, 130, 185, 239, 188, 136] @ ''baton '' @ utf8 [231, 167, 141,
        229, 173, 144, 229, 136, 135, 231, 137, 135, 226, 128, 148, 226, 128, 148, 233, 135, 141, 230,
        180, 190, 229, 137, 141, 229, 191, 133, 232, 175, 187, 239, 188, 140, 229, 133, 136, 233, 170,
        140, 232, 175, 129, 229, 137, 175, 228, 189, 156, 231, 148, 168, 229, 134, 141, 232, 161, 140,
        229, 138, 168, 239, 188, 137, 10]) @ seed @ [CHR 0x0A] else []) @
    (let from = projectionOf n st in if from \<noteq> [] then (utf8 [10] @ ''## '' @ utf8 [229, 183,
        178, 231, 161, 174, 232, 174, 164, 228, 186, 139, 229, 174, 158, 239, 188, 136, 229, 137, 141,
        229, 186, 143, 232, 138, 130, 231, 130, 185, 231, 187, 147, 230, 158, 156, 230, 145, 152, 232,
        166, 129, 239, 188, 137, 10]) @ from else []) @
    (utf8 [10] @ ''## '' @ utf8 [231, 187, 147, 230, 158, 156, 229, 165, 145, 231, 186, 166, 10]) @
        contract_text n structured @ (utf8 [10, 232, 139, 165, 230, 151, 160, 230, 179, 149, 230, 137,
        167, 232, 161, 140, 230, 156, 172, 232, 138, 130, 231, 130, 185, 239, 188, 136, 230, 142, 136,
        230, 157, 131, 232, 140, 131, 229, 155, 180, 229, 164, 150] @ ''/'' @ utf8 [230, 157, 144, 230,
        150, 153, 228, 184, 141, 232, 182, 179, 239, 188, 137, 239, 188, 140, 229, 155, 158, 229, 164,
        141, 233, 166, 150, 232, 161, 140] @ '' '' @ utf8 [34] @ ''REFUSED: <'' @ utf8 [229, 142, 159,
        229, 155, 160] @ ''>'' @ utf8 [34, 226, 128, 148, 226, 128, 148, 230, 139, 146, 231, 173, 148,
        228, 184, 141, 230, 152, 175, 229, 164, 177, 232, 180, 165, 239, 188, 140, 228, 184, 141, 228,
        188, 154, 232, 162, 171, 229, 136, 164, 229, 164, 177, 232, 180, 165, 239, 188, 140, 229, 134,
        183, 229, 141, 180, 229, 144, 142, 228, 188, 154, 233, 135, 141, 230, 150, 176, 232, 167, 132,
        229, 136, 146, 227, 128, 130, 10])"

end
