(* ===== verification/GraphRun.thy ===== *)
theory GraphRun imports Main GraphOps begin

text \<open>
  The engine of \<open>runtime-service/internal/sandbox/graph.go\<close>: the emitter of
  \<open>graph_events.go\<close>, the main loop of \<open>RunGraph\<close> cut at the points where
  its lock is free, and the operations a human has on a running graph
  (\<open>graph_inject.go\<close>, the closures \<open>RunGraph\<close> registers). The whole is the
  step relation \<open>run_step\<close>.

  \<^item> \<open>world\<close> collects the parameters of a run: time parsing and formatting, the digest of
    \<open>crypto/sha256\<close>, the decoders of planner output and findings, and the agent's
    capabilities. What an agent answers is arbitrary: each step takes it as an argument.
  \<^item> \<open>json.Marshal\<close> of an event cannot fail (strings, numbers and lists only) and a line
    decodes to the event it was made from; this takes texts to be valid UTF-8.
  \<^item> Between two windows of the lock any human operation may come. In \<open>run_step\<close> a human operation is
    one step; the code changes the node, writes the line and folds it in three, and \<open>window_step\<close> lets anything
    happen in between.
  \<^item> The serial dispatch of one node (\<open>dispatch_start\<close>, \<open>dispatch_finish\<close>) reads and folds partly without the
    lock; each is one step here, so races of memory within them are not modelled.
    The same holds for the declarations at the start, before which the human operations are already registered.
\<close>

section \<open>Emitter\<close>

record world =
  wParse :: "string \<Rightarrow> gotime option"
  wFormat :: "gotime \<Rightarrow> string"
  wFormatSec :: "gotime \<Rightarrow> string"
  wDigest :: "string \<Rightarrow> string"
  wFindings :: "string \<Rightarrow> string + finding list"
  wUnmarshal :: "string \<Rightarrow> planner_intent list option"
  wConclude :: bool
  wStructured :: bool

text \<open>\<open>eSeqNo\<close> and \<open>eOut\<close> are the emitter (its counter and the lines it wrote),
  \<open>eMark\<close> is \<open>plannerMark\<close>, \<open>eFindings\<close> the findings of the result.\<close>

record engine =
  eGst :: graph_state
  eSeqNo :: int
  eOut :: "graph_envelope list"
  eMark :: int
  eFindings :: "finding list"

definition emit :: "world \<Rightarrow> gotime \<Rightarrow> event_kind \<Rightarrow> jmap \<Rightarrow> engine \<Rightarrow> engine" where
  "emit w now kind data e =
    (let s = wrap64 (eSeqNo e + 1)
     in e\<lparr>eSeqNo := s,
          eOut := eOut e @ [\<lparr>eType = event_name kind, eSeq = s, eTime = wFormat w now, eData = data\<rparr>]\<rparr>)"

definition apply_live :: "world \<Rightarrow> gotime \<Rightarrow> event_kind \<Rightarrow> jmap \<Rightarrow> engine \<Rightarrow> engine" where
  "apply_live w now kind data e =
    e\<lparr>eGst := fst (graph_apply (wParse w) now
        \<lparr>eType = event_name kind, eSeq = eSeqNo e, eTime = [], eData = data\<rparr> (eGst e))\<rparr>"

definition emitApply :: "world \<Rightarrow> gotime \<Rightarrow> event_kind \<Rightarrow> jmap \<Rightarrow> engine \<Rightarrow> engine" where
  "emitApply w now kind data e = apply_live w now kind data (emit w now kind data e)"

text \<open>Changing the node a pointer names.\<close>

definition with_node :: "string \<Rightarrow> (graph_node \<Rightarrow> graph_state \<Rightarrow> graph_state) \<Rightarrow> engine \<Rightarrow> engine" where
  "with_node k f e =
    (case map_of (nodes (eGst e)) k of None \<Rightarrow> e | Some n \<Rightarrow> e\<lparr>eGst := f n (eGst e)\<rparr>)"

section \<open>Event data\<close>

definition declared_data :: "graph_node \<Rightarrow> jmap" where
  "declared_data n =
    [''nodeId'' \<mapsto> JStr (nID n), ''type'' \<mapsto> JStr (nType n), ''intent'' \<mapsto> JStr (nIntent n),
     ''declaredBy'' \<mapsto> JStr (nDeclaredBy n), ''from'' \<mapsto> JArr (map JStr (nFrom n))]"

definition holder_data :: "string \<Rightarrow> string \<Rightarrow> jmap" where
  "holder_data k h = [''nodeId'' \<mapsto> JStr k, ''holder'' \<mapsto> JStr h]"

definition released_data :: "string \<Rightarrow> string \<Rightarrow> string \<Rightarrow> jmap" where
  "released_data k h reason = (holder_data k h)(''reason'' \<mapsto> JStr reason)"

definition claimed_data :: "string \<Rightarrow> string \<Rightarrow> string \<Rightarrow> jmap" where
  "claimed_data k h lease = (holder_data k h)(''leaseUntil'' \<mapsto> JStr lease)"

definition started_data :: "graph_node \<Rightarrow> jmap" where
  "started_data n = [''nodeId'' \<mapsto> JStr (nID n), ''sessionId'' \<mapsto> JStr (SessionID n), ''turnRef'' \<mapsto> JStr (SessionID n)]"

definition result_data :: "string \<Rightarrow> outcome \<Rightarrow> string \<Rightarrow> jmap" where
  "result_data k oc ref =
    [''nodeId'' \<mapsto> JStr k, ''outcome'' \<mapsto> JStr (outcome_name oc), ''resultRef'' \<mapsto> JStr ref]"

definition with_usage :: "rat \<Rightarrow> jmap \<Rightarrow> jmap" where
  "with_usage turns m = m(''usageEstimate'' \<mapsto> JObj [(''turns'', JNum turns)])"

definition trigger_data :: "string \<Rightarrow> string \<Rightarrow> jmap" where
  "trigger_data tr detail = [''trigger'' \<mapsto> JStr tr, ''detail'' \<mapsto> JStr detail]"

definition converged_data :: "string \<Rightarrow> jmap" where
  "converged_data summary = [''summary'' \<mapsto> JStr summary, ''openRemaining'' \<mapsto> JNum 0]"

section \<open>Declaring\<close>

definition declare_emit ::
  "world \<Rightarrow> gotime \<Rightarrow> string \<Rightarrow> string \<Rightarrow> string \<Rightarrow> string list \<Rightarrow> engine \<Rightarrow> engine" where
  "declare_emit w now typ intent declaredBy from e =
    (let (n, st) = declare_node now typ intent declaredBy from (eGst e)
     in emit w now EvDeclared (declared_data n) (e\<lparr>eGst := st\<rparr>))"

definition declare_seeds :: "world \<Rightarrow> gotime \<Rightarrow> string list \<Rightarrow> engine \<Rightarrow> engine" where
  "declare_seeds w now intents e =
    fold (\<lambda>intent. declare_emit w now ''executor'' intent ''pack'' []) intents e"

definition initial_intent :: string where
  "initial_intent = (utf8 [229, 136, 157, 229, 167, 139, 232, 167, 132, 229, 136, 146, 239, 188, 154,
      228, 190, 157, 230, 141, 174, 228, 187, 187, 229, 138, 161, 231, 155, 174, 230, 160, 135, 228,
      184, 142, 230, 151, 162, 230, 156, 137, 230, 142, 136, 230, 157, 131, 232, 140, 131, 229, 155,
      180, 231, 187, 153, 229, 135, 186, 230, 137, 167, 232, 161, 140, 232, 174, 161, 229, 136, 146])"

definition replan_intent :: string where
  "replan_intent = (utf8 [233, 135, 141, 232, 167, 132, 229, 136, 146, 239, 188, 154, 228, 190, 157,
      230, 141, 174, 230, 150, 176, 230, 128, 129, 229, 138, 191, 231, 187, 153, 229, 135, 186, 229,
      144, 142, 231, 187, 173, 232, 138, 130, 231, 130, 185, 230, 136, 150, 230, 148, 182, 230, 149, 155])"

text \<open>The initialisation: seeds, or the first planner; then the mark, taken from the last
  pause when the log has one.\<close>

definition initialize :: "world \<Rightarrow> gotime \<Rightarrow> graph_task_spec \<Rightarrow> engine \<Rightarrow> engine" where
  "initialize w now sp e =
    (let e1 = (if nodes (eGst e) \<noteq> [] then e
               else if gSeedIntents sp \<noteq> [] then declare_seeds w now (gSeedIntents sp) e
               else declare_emit w now ''planner'' initial_intent ''pack'' []
                      (emit w now EvPlanTriggered (trigger_data triggerInitial (utf8 [230, 151, 160,
                          231, 167, 141, 229, 173, 144, 239, 188, 154, 232, 181, 183, 229, 136, 157,
                          229, 167, 139] @ '' planner'')) e))
     in e1\<lparr>eMark := (if hasPausedMark (eGst e1) then pausedMark (eGst e1)
                     else int (nonPlannerTerminals (eGst e1)))\<rparr>)"

definition new_engine :: "graph_state \<Rightarrow> engine" where
  "new_engine st = \<lparr>eGst = st, eSeqNo = lastSeq st, eOut = [], eMark = 0, eFindings = []\<rparr>"

text \<open>\<open>declareFromPlanner\<close>: the valid intents are declared one by one, each checked
  against the state its predecessors left; the rest are refused by name.\<close>

fun declare_intents ::
  "world \<Rightarrow> gotime \<Rightarrow> graph_task_spec \<Rightarrow> string \<Rightarrow> planner_intent list \<Rightarrow> engine \<times> nat \<times> string list
    \<Rightarrow> engine \<times> nat \<times> string list" where
  "declare_intents w now sp planner [] acc = acc"
| "declare_intents w now sp planner (it # its) (e, declared, rejections) =
    (let reason = validateIntent sp (eGst e) it
     in if reason \<noteq> [] then declare_intents w now sp planner its (e, declared, rejections @ [reason])
        else declare_intents w now sp planner its
               (declare_emit w now (piType it) (piIntent it) planner (piFrom it) e, declared + 1, rejections))"

definition declareFromPlanner ::
  "world \<Rightarrow> gotime \<Rightarrow> graph_task_spec \<Rightarrow> string \<Rightarrow> string \<Rightarrow> engine \<Rightarrow> engine \<times> string" where
  "declareFromPlanner w now sp planner text e =
    (case wUnmarshal w (extractJSON text) of
       None \<Rightarrow> (e, (''planner '' @ utf8 [232, 190, 147, 229, 135, 186, 233, 157, 158] @
           '' schema '' @ utf8 [229, 189, 162, 231, 138, 182, 239, 188, 136] @ ''intents JSON '' @
           utf8 [232, 167, 163, 230, 158, 144, 229, 164, 177, 232, 180, 165, 239, 188, 137]))
     | Some its \<Rightarrow>
         (let (e', declared, rejections) = declare_intents w now sp planner its (e, 0, [])
          in if rejections \<noteq> []
             then (e', (utf8 [229, 163, 176, 230, 152, 142] @ '' '') @ nat_digits declared @ ('' '' @
                 utf8 [232, 138, 130, 231, 130, 185, 239, 188, 155, 230, 139, 146, 231, 187, 157] @
                 '' '') @ nat_digits (length rejections) @
                       ('' '' @ utf8 [233, 161, 185, 239, 188, 154]) @ join_with (utf8 [239, 188,
                           155]) rejections)
             else (e', (utf8 [229, 163, 176, 230, 152, 142] @ '' '') @ nat_digits declared @ ('' '' @
                 utf8 [232, 138, 130, 231, 130, 185]))))"

section \<open>The wave\<close>

definition expire_one :: "world \<Rightarrow> gotime \<Rightarrow> graph_node \<Rightarrow> engine \<Rightarrow> engine" where
  "expire_one w now en e =
    with_node (nID en) releaseNode (emitApply w now EvLeaseExpired (holder_data (nID en) (nHolder en)) e)"

definition engine_worker :: string where "engine_worker = ''engine-worker''"

definition claim_one :: "world \<Rightarrow> gotime \<Rightarrow> graph_node \<Rightarrow> engine \<Rightarrow> engine" where
  "claim_one w now n e =
    emitApply w now EvClaimed (holder_data (nID n) engine_worker)
      (with_node (nID n) (\<lambda>m. claimNode m engine_worker zero_time) e)"

text \<open>The first lock window: both scans, the expired leases reclaimed, the wave claimed.\<close>

definition assemble_wave :: "world \<Rightarrow> gotime \<Rightarrow> graph_task_spec \<Rightarrow> engine \<Rightarrow> engine \<times> string list" where
  "assemble_wave w now sp e =
    (let (ready, expired) = claimableReady 0 now (eGst e);
         e1 = fold (expire_one w now) expired e;
         wave = claimableCap (filterNonPlanner ready) (gMaxParallel sp)
     in (fold (claim_one w now) wave e1, map nID wave))"

text \<open>
  \<open>seedTextFor\<close>: the text of the seed slice, with its event, when the graph has a
  failure history and the slice (\<open>brief\<close>; \<open>None\<close> when not configured) is not blank.
\<close>

definition seeded_data :: "world \<Rightarrow> string \<Rightarrow> string \<Rightarrow> jmap" where
  "seeded_data w k seed =
    [''nodeId'' \<mapsto> JStr k, ''digest'' \<mapsto> JStr (wDigest w seed),
     ''lines'' \<mapsto> JNum (of_nat (1 + count_char seed (CHR 0x0A)))]"

definition seedTextFor :: "world \<Rightarrow> gotime \<Rightarrow> string option \<Rightarrow> string \<Rightarrow> engine \<Rightarrow> engine \<times> string" where
  "seedTextFor w now brief k e =
    (case brief of
       None \<Rightarrow> (e, [])
     | Some b \<Rightarrow>
         if \<not> hasFailureHistory (eGst e) then (e, [])
         else let seed = TrimSpace b
              in if seed = [] then (e, []) else (emit w now EvSeeded (seeded_data w k seed) e, seed))"

definition the_node :: "graph_node \<Rightarrow> graph_node option \<Rightarrow> graph_node" where
  "the_node n r = (case r of Some m \<Rightarrow> m | None \<Rightarrow> n)"

text \<open>The start of one wave node: the seed, the event, the prompt.\<close>

definition start_one ::
  "world \<Rightarrow> gotime \<Rightarrow> graph_task_spec \<Rightarrow> string option \<Rightarrow> string \<Rightarrow> engine \<Rightarrow> engine \<times> string" where
  "start_one w now sp brief k e =
    (let (e1, seed) = seedTextFor w now brief k e
     in case map_of (nodes (eGst e1)) k of
          None \<Rightarrow> (e1, [])
        | Some n \<Rightarrow>
            let e2 = emitApply w now EvStarted (started_data n) e1;
                m = the_node n (map_of (nodes (eGst e2)) k)
            in (e2, buildGraphNodePrompt sp m (eGst e2) seed (wStructured w)))"

text \<open>The end of one wave node: the concluding turn, the result, the release of the claim.\<close>

definition collect_one ::
  "world \<Rightarrow> gotime \<Rightarrow> graph_task_spec \<Rightarrow> turn_out \<Rightarrow> turn_out \<Rightarrow> string \<Rightarrow> engine \<Rightarrow> engine" where
  "collect_one w now sp out0 conclude k e =
    (case map_of (nodes (eGst e)) k of
       None \<Rightarrow> e
     | Some n \<Rightarrow>
         let out1 = with_conclusion (wConclude w) n conclude out0;
             (oc, ref, fs) = collectGraphNode (wFindings w) sp n (tText out1) (tCalls out1) (tErr out1);
             e1 = e\<lparr>eFindings := eFindings e @ fs\<rparr>;
             e2 = emitApply w now EvResult (with_usage (tTurns out1) (result_data k oc ref)) e1
         in emitApply w now EvReleased (released_data k engine_worker ''wave_done'')
              (with_node k releaseNode e2))"

section \<open>Planners, convergence\<close>

text \<open>The serial dispatch of one node (a planner, or a node whose inputs never finish).\<close>

definition dispatch_start ::
  "world \<Rightarrow> gotime \<Rightarrow> graph_task_spec \<Rightarrow> string option \<Rightarrow> graph_node \<Rightarrow> engine \<Rightarrow> engine \<times> string" where
  "dispatch_start w now sp brief n e =
    (let (e1, seed) = seedTextFor w now brief (nID n) e;
         e2 = apply_live w now EvStarted [''nodeId'' \<mapsto> JStr (nID n)] (emit w now EvStarted (started_data n) e1);
         m = the_node n (map_of (nodes (eGst e2)) (nID n))
     in (e2, buildGraphNodePrompt sp m (eGst e2) seed (wStructured w)))"

definition dispatch_finish ::
  "world \<Rightarrow> gotime \<Rightarrow> graph_task_spec \<Rightarrow> turn_out \<Rightarrow> turn_out \<Rightarrow> string \<Rightarrow> engine \<Rightarrow> engine" where
  "dispatch_finish w now sp out0 conclude k e =
    (case map_of (nodes (eGst e)) k of
       None \<Rightarrow> e
     | Some n \<Rightarrow>
         let out1 = with_conclusion (wConclude w) n conclude out0;
             (oc, ref0, fs) = collectGraphNode (wFindings w) sp n (tText out1) (tCalls out1) (tErr out1);
             (e1, ref) = (if is_planner n \<and> oc = OCompleted
                          then declareFromPlanner w now sp k (tText out1) e else (e, ref0));
             e2 = e1\<lparr>eFindings := eFindings e1 @ fs\<rparr>
         in apply_live w now EvResult (result_data k oc ref)
              (emit w now EvResult (with_usage (tTurns out1) (result_data k oc ref)) e2))"

definition count_summary :: "graph_state \<Rightarrow> string" where
  "count_summary st = ''completed='' @ nat_digits (countBy st StCompleted) @
     '' failed='' @ nat_digits (countBy st StFailed) @ '' rejected='' @ nat_digits (countBy st StRejected)"

text \<open>How an iteration of the loop goes on; the wave carries the ids to start.\<close>

datatype phase =
    Looping
  | Starting "string list" "string list"
  | Collecting "string list"
  | Dispatched string
  | RunPaused
  | RunConverged
  | RunCancelled

text \<open>The part of an iteration in which no node is open.\<close>

definition drained :: "world \<Rightarrow> gotime \<Rightarrow> graph_task_spec \<Rightarrow> engine \<Rightarrow> phase \<times> engine" where
  "drained w now sp e =
    (let st = eGst e; terminals = int (nonPlannerTerminals st)
     in if terminals > eMark e \<and> plannerRuns st < gMaxPlannerReplans sp \<and> type_allowed sp ''planner''
        then if int (length (nodes st)) \<ge> gMaxNodes sp
             then (RunConverged, emit w now EvConverged (converged_data
                     (''max_nodes='' @ int_digits (gMaxNodes sp) @ ('' '' @ utf8 [229, 183, 178, 230,
                         187, 161, 239, 188, 140, 233, 135, 141, 232, 167, 132, 229, 136, 146, 230,
                         139, 146, 231, 187, 157, 239, 188, 136]) @
                      count_summary st @ (utf8 [239, 188, 137]))) e)
             else (let (trigger, detail) = situation st;
                       e1 = e\<lparr>eMark := terminals\<rparr>;
                       e2 = emit w now EvPlanTriggered (trigger_data trigger detail) e1
                   in (Looping, declare_emit w now ''planner'' replan_intent ''pack'' (fromRecent (eGst e2)) e2))
        else (RunConverged, emit w now EvConverged (converged_data
               ((''open '' @ utf8 [230, 142, 146, 231, 169, 186, 228, 184, 148, 230, 151, 160, 230,
                   150, 176, 230, 128, 129, 229, 138, 191, 239, 188, 154]) @ count_summary st @
                (if terminals > eMark e
                 then (utf8 [239, 188, 136] @ ''planner '' @ utf8 [233, 162, 132, 231, 174, 151, 232,
                     128, 151, 229, 176, 189, 239, 188, 154]) @ int_digits (plannerRuns st) @ ''/'' @
                      int_digits (gMaxPlannerReplans sp) @ (utf8 [239, 188, 137]) else []))) e))"

definition paused_data :: "engine \<Rightarrow> jmap" where
  "paused_data e =
    [''reason'' \<mapsto> JStr ''task_pause'', ''openNodeIds'' \<mapsto> JArr (map JStr (openIDs (eGst e))),
     ''plannerMark'' \<mapsto> JNum (of_int (eMark e))]"

text \<open>
  One iteration up to where it dispatches, sleeps or ends; \<open>frozen\<close> is the answer of the
  pause gate.
\<close>

definition iterate ::
  "world \<Rightarrow> gotime \<Rightarrow> graph_task_spec \<Rightarrow> bool \<Rightarrow> string option \<Rightarrow> engine \<Rightarrow> phase \<times> engine" where
  "iterate w now sp frozen brief e =
    (if frozen then (RunPaused, emit w now EvPaused (paused_data e) e)
     else
       let (e1, wave) = assemble_wave w now sp e
       in if wave \<noteq> [] then (Starting wave wave, e1)
          else case nextOpen (eGst e1) of
            Some n \<Rightarrow> if nHolder n \<noteq> [] then (Looping, e1)
                      else (Dispatched (nID n), fst (dispatch_start w now sp brief n e1))
          | None \<Rightarrow> drained w now sp e1)"

section \<open>Human operations\<close>

datatype op_error = NoNode string | NotClaimable string node_status | NotHeld string | NotRunning string node_status

definition human_claim :: "world \<Rightarrow> gotime \<Rightarrow> string \<Rightarrow> int \<Rightarrow> engine \<Rightarrow> engine \<times> (op_error + string)" where
  "human_claim w now k ttlS e =
    (case map_of (nodes (eGst e)) k of
       None \<Rightarrow> (e, Inl (NoNode k))
     | Some n \<Rightarrow>
         if nStatus n \<noteq> StDeclared \<or> nHolder n \<noteq> [] then (e, Inl (NotClaimable k (nStatus n)))
         else let ttl = (if ttlS \<le> 0 then 1800 else ttlS);
                  until = now + wrap64 (ttl * ns_second);
                  lease = wFormatSec w until
              in (emitApply w now EvClaimed (claimed_data k ''human'' lease)
                    (e\<lparr>eGst := claimNode n ''human'' until (eGst e)\<rparr>), Inr lease))"

definition human_release :: "world \<Rightarrow> gotime \<Rightarrow> string \<Rightarrow> engine \<Rightarrow> engine \<times> op_error option" where
  "human_release w now k e =
    (case map_of (nodes (eGst e)) k of
       None \<Rightarrow> (e, Some (NoNode k))
     | Some n \<Rightarrow>
         if nHolder n = [] then (e, Some (NotHeld k))
         else (emitApply w now EvReleased (released_data k (nHolder n) ''human_release'')
                 (e\<lparr>eGst := releaseNode n (eGst e)\<rparr>), None))"

definition human_inject :: "world \<Rightarrow> gotime \<Rightarrow> string \<Rightarrow> string \<Rightarrow> engine \<Rightarrow> engine \<times> op_error option" where
  "human_inject w now k message e =
    (case map_of (nodes (eGst e)) k of
       None \<Rightarrow> (e, Some (NoNode k))
     | Some n \<Rightarrow>
         if nStatus n \<noteq> StRunning then (e, Some (NotRunning k (nStatus n)))
         else (emit w now EvHumanMessage
                 [''nodeId'' \<mapsto> JStr k, ''actor'' \<mapsto> JStr ''human'', ''digest'' \<mapsto> JStr (wDigest w message),
                  ''bytes'' \<mapsto> JNum (of_nat (length message))] e, None))"

text \<open>
  The same two operations as the code cuts them: the first lock window checks and changes the node and leaves
  a line to write; the line is written without the lock; the last window folds it.
\<close>

datatype pending = ToWrite event_kind jmap | ToFold event_kind jmap

definition claim_open :: "world \<Rightarrow> gotime \<Rightarrow> string \<Rightarrow> int \<Rightarrow> engine \<Rightarrow> op_error + (string \<times> pending \<times> engine)" where
  "claim_open w now k ttlS e =
    (case map_of (nodes (eGst e)) k of
       None \<Rightarrow> Inl (NoNode k)
     | Some n \<Rightarrow>
         if nStatus n \<noteq> StDeclared \<or> nHolder n \<noteq> [] then Inl (NotClaimable k (nStatus n))
         else let ttl = (if ttlS \<le> 0 then 1800 else ttlS);
                  until = now + wrap64 (ttl * ns_second);
                  lease = wFormatSec w until
              in Inr (lease, ToWrite EvClaimed (claimed_data k ''human'' lease),
                      e\<lparr>eGst := claimNode n ''human'' until (eGst e)\<rparr>))"

definition release_open :: "string \<Rightarrow> engine \<Rightarrow> op_error + (pending \<times> engine)" where
  "release_open k e =
    (case map_of (nodes (eGst e)) k of
       None \<Rightarrow> Inl (NoNode k)
     | Some n \<Rightarrow>
         if nHolder n = [] then Inl (NotHeld k)
         else Inr (ToWrite EvReleased (released_data k (nHolder n) ''human_release''),
                   e\<lparr>eGst := releaseNode n (eGst e)\<rparr>))"

text \<open>What a pending operation does next, and what it then has left to do.\<close>

fun human_next :: "world \<Rightarrow> gotime \<Rightarrow> pending \<Rightarrow> engine \<Rightarrow> engine \<times> pending list" where
  "human_next w now (ToWrite kd d) e = (emit w now kd d e, [ToFold kd d])"
| "human_next w now (ToFold kd d) e = (apply_live w now kd d e, [])"

section \<open>The run\<close>

definition held_by_human :: "engine \<Rightarrow> string \<Rightarrow> bool" where
  "held_by_human e k \<longleftrightarrow> map_option nHolder (map_of (nodes (eGst e)) k) = Some ''human''"

text \<open>The registered operations live while the run does.\<close>

definition run_active :: "phase \<Rightarrow> bool" where
  "run_active ph \<longleftrightarrow> ph \<noteq> RunPaused \<and> ph \<noteq> RunConverged \<and> ph \<noteq> RunCancelled"

text \<open>
  The steps of a run. With \<open>strict\<close> humans release only what a human holds; without it any
  release that the code lets through is a step.
\<close>

inductive run_step ::
  "bool \<Rightarrow> world \<Rightarrow> graph_task_spec \<Rightarrow> phase \<times> engine \<Rightarrow> phase \<times> engine \<Rightarrow> bool"
  for strict w sp
where
  iterate: "run_step strict w sp (Looping, e) (iterate w now sp frozen brief e)"
| cancel: "run_step strict w sp (Looping, e) (RunCancelled, e)"
| start: "run_step strict w sp (Starting (k # ks) wave, e) (Starting ks wave, fst (start_one w now sp brief k e))"
| started: "run_step strict w sp (Starting [] wave, e) (Collecting wave, e)"
| collect: "run_step strict w sp (Collecting (k # ks), e) (Collecting ks, collect_one w now sp out0 conclude k e)"
| collected: "run_step strict w sp (Collecting [], e) (Looping, e)"
| dispatched: "run_step strict w sp (Dispatched k, e) (Looping, dispatch_finish w now sp out0 conclude k e)"
| claim: "run_active ph \<Longrightarrow> run_step strict w sp (ph, e) (ph, fst (human_claim w now k ttlS e))"
| release: "run_active ph \<Longrightarrow> strict \<longrightarrow> held_by_human e k \<Longrightarrow> run_step strict w sp (ph, e) (ph, fst (human_release w now k e))"
| inject: "run_active ph \<Longrightarrow> run_step strict w sp (ph, e) (ph, fst (human_inject w now k message e))"

definition run_start :: "world \<Rightarrow> gotime \<Rightarrow> graph_task_spec \<Rightarrow> graph_state \<Rightarrow> phase \<times> engine" where
  "run_start w now sp st =
    (if converged st then (RunConverged, new_engine st) else (Looping, initialize w now (normalize sp) (new_engine st)))"

definition run_reaches ::
  "bool \<Rightarrow> world \<Rightarrow> gotime \<Rightarrow> graph_task_spec \<Rightarrow> graph_state \<Rightarrow> phase \<times> engine \<Rightarrow> bool" where
  "run_reaches strict w now sp st s \<longleftrightarrow>
    (run_step strict w (normalize sp))\<^sup>*\<^sup>* (run_start w now sp st) s"

text \<open>
  The run with the human operations cut into their windows: a state carries what pending operations have left to
  do. In a \<open>calm\<close> run nothing else happens while an operation is pending, and humans release only what a human
  holds; otherwise everything may happen in between.
\<close>

inductive window_step ::
  "bool \<Rightarrow> world \<Rightarrow> graph_task_spec \<Rightarrow> (phase \<times> engine) \<times> pending list \<Rightarrow> (phase \<times> engine) \<times> pending list \<Rightarrow> bool"
  for calm w sp
where
  whole: "run_step calm w sp s s' \<Longrightarrow> calm \<longrightarrow> ps = [] \<Longrightarrow> window_step calm w sp (s, ps) (s', ps)"
| claim_opens: "run_active ph \<Longrightarrow> calm \<longrightarrow> ps = [] \<Longrightarrow> claim_open w now k ttlS e = Inr (lease, p, e') \<Longrightarrow>
    window_step calm w sp ((ph, e), ps) ((ph, e'), ps @ [p])"
| release_opens: "run_active ph \<Longrightarrow> calm \<longrightarrow> ps = [] \<and> held_by_human e k \<Longrightarrow> release_open k e = Inr (p, e') \<Longrightarrow>
    window_step calm w sp ((ph, e), ps) ((ph, e'), ps @ [p])"
| goes_on: "human_next w now p e = (e', qs) \<Longrightarrow>
    window_step calm w sp ((ph, e), ps @ p # rs) ((ph, e'), ps @ qs @ rs)"

definition window_reaches ::
  "bool \<Rightarrow> world \<Rightarrow> gotime \<Rightarrow> graph_task_spec \<Rightarrow> graph_state \<Rightarrow> (phase \<times> engine) \<times> pending list \<Rightarrow> bool" where
  "window_reaches calm w now sp st s \<longleftrightarrow>
    (window_step calm w (normalize sp))\<^sup>*\<^sup>* (run_start w now sp st, []) s"

text \<open>The response: total, completed, failed, rejected, open.\<close>

definition run_counts :: "phase \<times> engine \<Rightarrow> nat \<times> nat \<times> nat \<times> nat \<times> nat" where
  "run_counts s = counts (eGst (snd s))"

section \<open>Reopening from the log\<close>

datatype reopen_error = ReplayFailed graph_error | ReopenNoNode string | ReopenNotTerminal string node_status

definition BuildGraphReopened ::
  "world \<Rightarrow> (int \<Rightarrow> gotime) \<Rightarrow> gotime \<Rightarrow> bool \<Rightarrow> log_line list \<Rightarrow> string \<Rightarrow> string \<Rightarrow> reopen_error + graph_envelope" where
  "BuildGraphReopened w clock now scan_error ls k reason =
    (case ReplayGraphLog (wParse w) clock scan_error ls of
       Inl e \<Rightarrow> Inl (ReplayFailed e)
     | Inr st \<Rightarrow>
         (case map_of (nodes st) k of
            None \<Rightarrow> Inl (ReopenNoNode k)
          | Some n \<Rightarrow>
              if \<not> terminal (nStatus n) then Inl (ReopenNotTerminal k (nStatus n))
              else Inr \<lparr>eType = event_name EvReopened, eSeq = wrap64 (lastSeq st + 1), eTime = wFormat w now,
                        eData = [''nodeId'' \<mapsto> JStr k, ''reason'' \<mapsto> JStr reason, ''by'' \<mapsto> JStr ''human'']\<rparr>))"

text \<open>The registry of running graphs: the lookup both RPCs and the probe make.\<close>

definition registerGraphOps :: "string \<Rightarrow> 'ops \<Rightarrow> (string \<times> 'ops) list \<Rightarrow> (string \<times> 'ops) list" where
  "registerGraphOps task ops reg = AList.update task ops reg"

definition unregisterGraphOps :: "string \<Rightarrow> (string \<times> 'ops) list \<Rightarrow> (string \<times> 'ops) list" where
  "unregisterGraphOps task reg = AList.delete task reg"

definition lookupGraphOps :: "string \<Rightarrow> (string \<times> 'ops) list \<Rightarrow> 'ops option" where
  "lookupGraphOps task reg = map_of reg task"

definition GraphInjectActive :: "string \<Rightarrow> (string \<times> 'ops) list \<Rightarrow> bool" where
  "GraphInjectActive task reg \<longleftrightarrow> map_of reg task \<noteq> None"

end
