(* ===== verification/GraphSim.thy ===== *)
theory GraphSim imports Main GraphInv GraphRun begin

text \<open>
  The log and the live graph agree. \<open>same\<close> compares two graph states up to clock readings
  (and the counters of lines, planner runs and the like). Folding an event respects it, every
  live operation of the engine matches the event it writes, and so at every point of a run,
  whatever the agents answer and however human operations interleave, replaying the written
  log gives the live node table.
\<close>

section \<open>States up to clock readings\<close>

definition core_node :: "graph_node \<Rightarrow> graph_node" where
  "core_node n = n\<lparr>nCreatedAt := 0, nUpdatedAt := 0, nCompletedAt := 0, nLeaseUntil := 0\<rparr>"

definition same :: "graph_state \<Rightarrow> graph_state \<Rightarrow> bool" where
  "same r s \<longleftrightarrow> (\<forall>k. map_option core_node (map_of (nodes r) k) = map_option core_node (map_of (nodes s) k)) \<and>
    order r = order s \<and> nodeSeq r = nodeSeq s"

lemma core_eq_iff:
  "core_node n = core_node m \<longleftrightarrow> nID n = nID m \<and> nType n = nType m \<and> nIntent n = nIntent m \<and>
     nStatus n = nStatus m \<and> nDeclaredBy n = nDeclaredBy m \<and> nFrom n = nFrom m \<and>
     nResultRef n = nResultRef m \<and> nAttempts n = nAttempts m \<and> nCompletedOrd n = nCompletedOrd m \<and>
     nHolder n = nHolder m"
  by (cases n; cases m) (auto simp: core_node_def)

lemma same_refl [simp]: "same s s"
  by (simp add: same_def)

lemma same_trans: "same r s \<Longrightarrow> same s t \<Longrightarrow> same r t"
  by (simp add: same_def)

lemma same_node:
  assumes "same r s"
  shows "map_of (nodes r) k = None \<longleftrightarrow> map_of (nodes s) k = None"
    and "map_of (nodes r) k = Some n \<Longrightarrow> \<exists>m. map_of (nodes s) k = Some m \<and> core_node n = core_node m"
    and "map_of (nodes s) k = Some m \<Longrightarrow> \<exists>n. map_of (nodes r) k = Some n \<and> core_node n = core_node m"
proof -
  have e: "map_option core_node (map_of (nodes r) k) = map_option core_node (map_of (nodes s) k)"
    using assms by (simp add: same_def)
  show "map_of (nodes r) k = None \<longleftrightarrow> map_of (nodes s) k = None"
    using e by (metis option.map_disc_iff)
  show "map_of (nodes r) k = Some n \<Longrightarrow> \<exists>m. map_of (nodes s) k = Some m \<and> core_node n = core_node m"
    using e by (cases "map_of (nodes s) k") auto
  show "map_of (nodes s) k = Some m \<Longrightarrow> \<exists>n. map_of (nodes r) k = Some n \<and> core_node n = core_node m"
    using e by (cases "map_of (nodes r) k") auto
qed

lemma same_put: "same r s \<Longrightarrow> core_node n = core_node m \<Longrightarrow> same (put_node k n r) (put_node k m s)"
  by (simp add: same_def frame_simps)

lemma same_order: "same r s \<Longrightarrow> order r = order s" "same r s \<Longrightarrow> nodeSeq r = nodeSeq s"
  by (simp_all add: same_def)

lemma same_fields [simp]:
  "same (r\<lparr>lines := a\<rparr>) s = same r s" "same r (s\<lparr>lines := a\<rparr>) = same r s"
  "same (r\<lparr>lastSeq := a\<rparr>) s = same r s" "same r (s\<lparr>lastSeq := a\<rparr>) = same r s"
  "same (r\<lparr>plannerRuns := a\<rparr>) s = same r s" "same r (s\<lparr>plannerRuns := a\<rparr>) = same r s"
  "same (r\<lparr>converged := b\<rparr>) s = same r s" "same r (s\<lparr>converged := b\<rparr>) = same r s"
  "same (r\<lparr>pausedMark := a, hasPausedMark := b\<rparr>) s = same r s"
  "same r (s\<lparr>pausedMark := a, hasPausedMark := b\<rparr>) = same r s"
  by (simp_all add: same_def)

section \<open>Folding respects it\<close>

definition same_applied :: "applied \<Rightarrow> applied \<Rightarrow> bool" where
  "same_applied a b \<longleftrightarrow> same (fst a) (fst b) \<and> (snd a = None \<longleftrightarrow> snd b = None)"

lemma same_appliedI: "same r s \<Longrightarrow> (e = None \<longleftrightarrow> e' = None) \<Longrightarrow> same_applied (r, e) (s, e')"
  by (simp add: same_applied_def)

lemma same_on_node:
  assumes "same r s"
    and "\<And>n m. map_of (nodes r) (jstr data ''nodeId'') = Some n \<Longrightarrow> core_node n = core_node m
           \<Longrightarrow> same_applied (f n r) (g m s)"
  shows "same_applied (on_node data f r) (on_node data g s)"
proof (cases "map_of (nodes r) (jstr data ''nodeId'')")
  case None
  then have "map_of (nodes s) (jstr data ''nodeId'') = None" using same_node(1)[OF assms(1)] by blast
  then show ?thesis using None assms(1) by (simp add: on_node_def nodeOf_def Let_def same_applied_def)
next
  case (Some n)
  then obtain m where "map_of (nodes s) (jstr data ''nodeId'') = Some m" "core_node n = core_node m"
    using same_node(2)[OF assms(1)] by blast
  then show ?thesis using Some assms(2) by (simp add: on_node_def nodeOf_def Let_def)
qed

lemma same_store:
  "same r s \<Longrightarrow> core_node n = core_node m \<Longrightarrow> same (store_node data n r) (store_node data m s)"
  by (simp add: store_node_def same_put)

lemma same_handlers:
  assumes "same r s"
  shows "same_applied (apply_claimed p data r) (apply_claimed p' data s)"
    "same_applied (apply_released data r) (apply_released data s)"
    "same_applied (apply_lease_expired data r) (apply_lease_expired data s)"
    "same_applied (apply_reopened t data r) (apply_reopened t' data s)"
    "same_applied (apply_started t data r) (apply_started t' data s)"
    "same_applied (apply_seeded data r) (apply_seeded data s)"
proof -
  show "same_applied (apply_claimed p data r) (apply_claimed p' data s)"
    unfolding apply_claimed_def
    by (rule same_on_node[OF assms])
      (auto simp: Let_def assms core_eq_iff intro!: same_appliedI same_store split: option.split)
  show "same_applied (apply_released data r) (apply_released data s)"
    unfolding apply_released_def
    by (rule same_on_node[OF assms])
      (auto simp: clear_holder_def assms core_eq_iff intro!: same_appliedI same_store)
  show "same_applied (apply_lease_expired data r) (apply_lease_expired data s)"
    unfolding apply_lease_expired_def
    by (rule same_on_node[OF assms])
      (auto simp: clear_holder_def assms core_eq_iff intro!: same_appliedI same_store)
  show "same_applied (apply_reopened t data r) (apply_reopened t' data s)"
    unfolding apply_reopened_def
    by (rule same_on_node[OF assms])
      (auto simp: reopened_def assms core_eq_iff intro!: same_appliedI same_store)
  show "same_applied (apply_started t data r) (apply_started t' data s)"
    unfolding apply_started_def
    by (rule same_on_node[OF assms])
      (auto simp: assms core_eq_iff intro!: same_appliedI same_store)
  show "same_applied (apply_seeded data r) (apply_seeded data s)"
    unfolding apply_seeded_def
    by (rule same_on_node[OF assms]) (simp add: assms same_appliedI)
qed

lemma core_node_outcome:
  "core_node n = core_node m \<Longrightarrow> core_node (node_outcome t i oc n) = core_node (node_outcome t' i oc m)"
  by (cases oc) (simp_all add: core_eq_iff)

lemma same_result:
  assumes "same r s"
  shows "same_applied (apply_result t data r) (apply_result t' data s)"
  unfolding apply_result_def
proof (rule same_on_node[OF assms], goal_cases)
  case (1 n m)
  let ?upd = "\<lambda>x t. (case jstr_ok data ''resultRef'' of None \<Rightarrow> x | Some ref \<Rightarrow> x\<lparr>nResultRef := ref\<rparr>)\<lparr>nUpdatedAt := t\<rparr>"
  have "core_node (?upd n t) = core_node (?upd m t')"
    using 1(2) by (simp add: core_eq_iff split: option.split)
  then show ?case
    using assms same_order[OF assms]
    by (auto simp: Let_def intro!: same_appliedI same_store core_node_outcome split: option.split)
qed

lemma same_declared:
  assumes "same r s"
  shows "same_applied (apply_declared p t data r) (apply_declared p' t' data s)"
proof (cases "map_of (nodes r) (jstr data ''nodeId'')")
  case None
  then have ns: "map_of (nodes s) (jstr data ''nodeId'') = None" using same_node(1)[OF assms] by blast
  have "same ((put_node k n r)\<lparr>order := order r @ [k], nodeSeq := q\<rparr>)
             ((put_node k m s)\<lparr>order := order s @ [k], nodeSeq := q\<rparr>)"
       "same ((put_node k n r)\<lparr>order := order r @ [k]\<rparr>) ((put_node k m s)\<lparr>order := order s @ [k]\<rparr>)"
    if "core_node n = core_node m" for k n m q
    using same_put[OF assms that, of k] same_order[OF assms] by (simp_all add: same_def frame_simps)
  then show ?thesis using None ns assms same_order[OF assms]
    by (simp add: apply_declared_def Let_def frame_simps core_eq_iff same_appliedI)
next
  case (Some n)
  then obtain m where "map_of (nodes s) (jstr data ''nodeId'') = Some m" "core_node n = core_node m"
    using same_node(2)[OF assms] by blast
  then show ?thesis using Some assms
    by (auto simp: apply_declared_def Let_def core_eq_iff intro!: same_appliedI)
qed

lemma same_apply_event:
  assumes "same r s"
  shows "same_applied (apply_event p t kd ty data r) (apply_event p' t' kd ty data s)"
  using assms
  by (cases kd)
    (simp_all add: same_handlers same_result same_declared apply_human_message_def apply_plan_triggered_def
       apply_paused_def same_appliedI split: option.split)

lemma same_graph_apply:
  assumes "same r s"
  shows "same_applied (graph_apply p t env r) (graph_apply p' t' env s)"
proof -
  have "same (saw_seq q (count_line r)) (saw_seq q (count_line s))" for q
    using assms by (simp add: saw_seq_def count_line_def)
  then show ?thesis using assms
    by (simp add: graph_apply_def Let_def same_apply_event same_appliedI) (simp add: count_line_def same_appliedI)
qed

section \<open>Logs in step with the live graph\<close>

lemma replay_lines_append:
  "replay_lines p clock (xs @ ys) r =
    (case replay_lines p clock xs r of Inl e \<Rightarrow> Inl e | Inr r' \<Rightarrow> replay_lines p clock ys r')"
  by (induction p clock xs r rule: replay_lines.induct) (auto split: prod.splits option.splits)

text \<open>
  As long as 64-bit sequence numbers last, the lines written so far continue the log the run
  started from (whose fold is \<open>base\<close>) and fold to the live graph.
\<close>

definition seq_room :: "graph_state \<Rightarrow> engine \<Rightarrow> bool" where
  "seq_room base e \<longleftrightarrow> lastSeq base + int (length (eOut e)) < 2 ^ 63"

definition in_sync :: "world \<Rightarrow> (int \<Rightarrow> gotime) \<Rightarrow> graph_state \<Rightarrow> engine \<Rightarrow> bool" where
  "in_sync w clock base e \<longleftrightarrow> graph_wf (eGst e) \<and> 0 \<le> lastSeq base \<and>
    (seq_room base e \<longrightarrow> eSeqNo e = lastSeq base + int (length (eOut e)) \<and>
      (\<forall>i<length (eOut e). eSeq (eOut e ! i) = lastSeq base + 1 + int i) \<and>
      (\<exists>r. replay_lines (wParse w) clock (map EnvLine (eOut e)) base = Inr r \<and> same r (eGst e)))"

lemma in_sync_wf: "in_sync w clock base e \<Longrightarrow> graph_wf (eGst e)"
  by (simp add: in_sync_def)

lemma graph_apply_known:
  assumes "same r s" "0 < q" "kd \<noteq> EvUnknown"
  shows "same_applied (graph_apply p t \<lparr>eType = event_name kd, eSeq = q, eTime = tm, eData = data\<rparr> r)
           (apply_event p' t' kd (event_name kd) data s)"
proof -
  have "same (saw_seq q (count_line r)) s" using assms(1) by (simp add: saw_seq_def count_line_def)
  then show ?thesis using assms(2,3) by (simp add: graph_apply_def Let_def same_apply_event)
qed

lemma emit_simps [frame_simps]:
  "eGst (emit w now kd data e) = eGst e" "eMark (emit w now kd data e) = eMark e"
  "eFindings (emit w now kd data e) = eFindings e"
  "eOut (emit w now kd data e) = eOut e @ [\<lparr>eType = event_name kd, eSeq = wrap64 (eSeqNo e + 1),
     eTime = wFormat w now, eData = data\<rparr>]"
  "eSeqNo (emit w now kd data e) = wrap64 (eSeqNo e + 1)"
  by (simp_all add: emit_def Let_def)

lemma sync_emit:
  assumes sync: "in_sync w clock base e" and kd: "kd \<noteq> EvUnknown"
    and ok: "snd (apply_event p t kd (event_name kd) data (eGst e)) = None"
    and g: "0 < eSeqNo e' \<Longrightarrow> same (fst (apply_event p t kd (event_name kd) data (eGst e))) g'" "graph_wf g'"
    and e': "eOut e' = eOut (emit w now kd data e)" "eSeqNo e' = wrap64 (eSeqNo e + 1)" "eGst e' = g'"
  shows "in_sync w clock base e'"
proof -
  have "\<exists>r. replay_lines (wParse w) clock (map EnvLine (eOut e')) base = Inr r \<and> same r g'"
    and "eSeqNo e' = lastSeq base + int (length (eOut e'))"
    and "\<forall>i<length (eOut e'). eSeq (eOut e' ! i) = lastSeq base + 1 + int i" if room: "seq_room base e'"
  proof -
    have "seq_room base e" using room e' by (simp add: seq_room_def frame_simps)
    with sync obtain r where seq: "eSeqNo e = lastSeq base + int (length (eOut e))"
      and nums: "\<forall>i<length (eOut e). eSeq (eOut e ! i) = lastSeq base + 1 + int i"
      and r: "replay_lines (wParse w) clock (map EnvLine (eOut e)) base = Inr r" "same r (eGst e)"
      by (auto simp: in_sync_def)
    have w: "wrap64 (eSeqNo e + 1) = eSeqNo e + 1" and pos: "0 < eSeqNo e + 1"
      using seq room sync e' by (simp_all add: seq_room_def in_sync_def frame_simps wrap64_def)
    show "eSeqNo e' = lastSeq base + int (length (eOut e'))" using w seq e' by (simp add: frame_simps)
    show "\<forall>i<length (eOut e'). eSeq (eOut e' ! i) = lastSeq base + 1 + int i"
      using nums w seq e' by (auto simp: frame_simps nth_append less_Suc_eq)
    let ?env = "\<lparr>eType = event_name kd, eSeq = eSeqNo e + 1, eTime = wFormat w now, eData = data\<rparr>"
    have "same_applied (graph_apply (wParse w) (clock (lines r)) ?env r)
             (apply_event p t kd (event_name kd) data (eGst e))"
      by (rule graph_apply_known[OF r(2) pos kd])
    then obtain r' where "graph_apply (wParse w) (clock (lines r)) ?env r = (r', None)"
      "same r' (fst (apply_event p t kd (event_name kd) data (eGst e)))"
      using ok by (cases "graph_apply (wParse w) (clock (lines r)) ?env r") (auto simp: same_applied_def)
    then show "\<exists>r. replay_lines (wParse w) clock (map EnvLine (eOut e')) base = Inr r \<and> same r g'"
      using r(1) w g(1) pos same_trans e' by (auto simp: replay_lines_append frame_simps)
  qed
  then show ?thesis using sync g(2) e' by (simp add: in_sync_def)
qed

lemma apply_live_simps [frame_simps]:
  "eOut (apply_live w now kd data e) = eOut e" "eSeqNo (apply_live w now kd data e) = eSeqNo e"
  "eMark (apply_live w now kd data e) = eMark e" "eFindings (apply_live w now kd data e) = eFindings e"
  by (simp_all add: apply_live_def)

text \<open>What the live fold of an event does to the table, whether or not it reports an error.\<close>

lemma wf_graph_apply: "graph_wf s \<Longrightarrow> graph_wf (fst (graph_apply p t env s))"
  by (simp add: graph_apply_def Let_def wf_apply_event)

lemma same_live:
  assumes "kd \<noteq> EvUnknown" "0 < eSeqNo e"
  shows "same (eGst (apply_live w now kd data e)) (fst (apply_event p t kd (event_name kd) data (eGst e)))"
  using graph_apply_known[OF same_refl assms(2,1), of "wParse w" now "[]" data "eGst e" p t]
  by (simp add: apply_live_def same_applied_def)

section \<open>Handlers on a known node\<close>

lemma on_node_some: "map_of (nodes s) (jstr data ''nodeId'') = Some n \<Longrightarrow> on_node data f s = f n s"
  by (simp add: on_node_def nodeOf_def Let_def)

definition parse_if :: "(string \<Rightarrow> gotime option) \<Rightarrow> string \<Rightarrow> gotime option" where
  "parse_if p lu = (if lu \<noteq> [] then p lu else None)"

lemma apply_claimed_known:
  assumes "map_of (nodes s) (jstr data ''nodeId'') = Some n" "nStatus n = StDeclared"
  shows "\<exists>l. apply_claimed p data s =
    (put_node (jstr data ''nodeId'') (n\<lparr>nHolder := jstr data ''holder'', nLeaseUntil := l\<rparr>) s, None)"
proof -
  have "n\<lparr>nHolder := h, nLeaseUntil := nLeaseUntil n\<rparr> = n\<lparr>nHolder := h\<rparr>" for h by (cases n) simp
  then show ?thesis using assms
    by (intro exI[of _ "case parse_if p (jstr data ''leaseUntil'') of None \<Rightarrow> nLeaseUntil n | Some t \<Rightarrow> t"])
      (simp add: apply_claimed_def on_node_some store_node_def Let_def parse_if_def split: option.split)
qed

lemma apply_released_known:
  assumes "map_of (nodes s) (jstr data ''nodeId'') = Some n" "nHolder n \<noteq> []"
  shows "apply_released data s = (put_node (jstr data ''nodeId'') (clear_holder n) s, None)"
  using assms by (simp add: apply_released_def on_node_some store_node_def)

lemma apply_released_unheld:
  assumes "map_of (nodes s) (jstr data ''nodeId'') = Some n" "nHolder n = []"
  shows "apply_released data s = (s, Some (ReleasedUnclaimed (lines s) (nID n)))"
  using assms by (simp add: apply_released_def on_node_some)

lemma apply_lease_expired_known:
  assumes "map_of (nodes s) (jstr data ''nodeId'') = Some n"
  shows "apply_lease_expired data s = (put_node (jstr data ''nodeId'') (clear_holder n) s, None)"
  using assms by (simp add: apply_lease_expired_def on_node_some store_node_def)

lemma apply_started_known:
  assumes "map_of (nodes s) (jstr data ''nodeId'') = Some n"
  shows "apply_started t data s =
    (put_node (jstr data ''nodeId'') (n\<lparr>nStatus := StRunning, nUpdatedAt := t\<rparr>) s, None)"
  using assms by (simp add: apply_started_def on_node_some store_node_def)

lemma apply_result_known:
  assumes "map_of (nodes s) (jstr data ''nodeId'') = Some n" "jstr data ''outcome'' = outcome_name oc"
    "jstr_ok data ''resultRef'' = Some ref"
  shows "apply_result t data s =
    (put_node (jstr data ''nodeId'')
       (node_outcome t (int (length (order s))) oc (n\<lparr>nResultRef := ref, nUpdatedAt := t\<rparr>)) s, None)"
  using assms by (simp add: apply_result_def on_node_some store_node_def Let_def)

lemma data_simps [simp]:
  "jstr (holder_data k h) ''nodeId'' = k" "jstr (holder_data k h) ''holder'' = h"
  "jstr (released_data k h m) ''nodeId'' = k" "jstr (claimed_data k h l) ''nodeId'' = k"
  "jstr (claimed_data k h l) ''holder'' = h" "jstr (started_data n) ''nodeId'' = nID n"
  "jstr (result_data k oc ref) ''nodeId'' = k" "jstr (result_data k oc ref) ''outcome'' = outcome_name oc"
  "jstr_ok (result_data k oc ref) ''resultRef'' = Some ref"
  "jstr (with_usage q (result_data k oc ref)) ''nodeId'' = k"
  "jstr (with_usage q (result_data k oc ref)) ''outcome'' = outcome_name oc"
  "jstr_ok (with_usage q (result_data k oc ref)) ''resultRef'' = Some ref"
  "jstr (declared_data n) ''nodeId'' = nID n" "jstr (declared_data n) ''type'' = nType n"
  "jstr (declared_data n) ''intent'' = nIntent n" "jstr (declared_data n) ''declaredBy'' = nDeclaredBy n"
  "jstr (seeded_data w k seed) ''nodeId'' = k"
  by (simp_all add: jstr_def jstr_ok_def holder_data_def released_data_def claimed_data_def started_data_def
      result_data_def with_usage_def declared_data_def seeded_data_def)

lemma only_strings_JStr [simp]: "only_strings (map JStr xs) = xs"
  by (induction xs) simp_all

lemma declared_from [simp]: "only_strings (jarr (declared_data n) ''from'') = nFrom n"
  by (simp add: jarr_def declared_data_def)

section \<open>Live operations\<close>

lemma put_put_same:
  "core_node n = core_node m \<Longrightarrow> same (put_node k n s) (put_node k m (put_node k n' s))"
  by (simp add: same_def frame_simps)

lemma claim_release_put:
  "claimNode n h l s = put_node (nID n) (n\<lparr>nHolder := h, nLeaseUntil := l\<rparr>) s"
  "releaseNode n s = put_node (nID n) (clear_holder n) s"
  by (simp_all add: claimNode_def releaseNode_def clear_holder_def)

lemma wf_claim_release:
  assumes "graph_wf s" "map_of (nodes s) k = Some n"
  shows "graph_wf (claimNode n h l s)" "graph_wf (releaseNode n s)"
  using assms wf_nID[OF assms] by (simp_all add: claim_release_put wf_put_known)

lemma sync_apply:
  assumes "in_sync w clock base e" "kd \<noteq> EvUnknown"
    "snd (apply_event (wParse w) now kd (event_name kd) data (eGst e)) = None"
  shows "in_sync w clock base (emitApply w now kd data e)"
  unfolding emitApply_def
proof (rule sync_emit[OF assms])
  show "0 < eSeqNo (apply_live w now kd data (emit w now kd data e)) \<Longrightarrow>
      same (fst (apply_event (wParse w) now kd (event_name kd) data (eGst e)))
        (eGst (apply_live w now kd data (emit w now kd data e)))"
    using graph_apply_known[OF same_refl _ assms(2), of "eSeqNo (emit w now kd data e)" "wParse w" now "[]"
        data "eGst e" "wParse w" now]
    by (simp add: apply_live_def frame_simps same_applied_def same_def)
  show "graph_wf (eGst (apply_live w now kd data (emit w now kd data e)))"
    using in_sync_wf[OF assms(1)] by (simp add: apply_live_def wf_graph_apply frame_simps)
qed (simp_all add: frame_simps)

lemma sync_started:
  assumes "in_sync w clock base e" "map_of (nodes (eGst e)) k = Some n"
  shows "in_sync w clock base (emitApply w now EvStarted (started_data n) e)"
proof (rule sync_apply[OF assms(1)])
  have "nID n = k" using wf_nID[OF in_sync_wf[OF assms(1)] assms(2)] .
  then show "snd (apply_event (wParse w) now EvStarted (event_name EvStarted) (started_data n) (eGst e)) = None"
    using assms(2) by (simp add: apply_started_known)
qed simp

lemma sync_result:
  assumes "in_sync w clock base e" "map_of (nodes (eGst e)) k = Some n"
  shows "in_sync w clock base (emitApply w now EvResult (with_usage q (result_data k oc ref)) e)"
  by (rule sync_apply[OF assms(1)])
    (simp_all add: apply_result_known[OF _ _ _, of "eGst e" "with_usage q (result_data k oc ref)" n oc ref] assms(2))

section \<open>Operations of the engine\<close>

text \<open>A change of the node table, then its event applied to the changed table.\<close>

lemma sync_changed_apply:
  assumes sync: "in_sync w clock base e" and kd: "kd \<noteq> EvUnknown"
    and ok: "snd (apply_event (wParse w) now kd (event_name kd) data (eGst e)) = None"
    and g: "same (fst (apply_event (wParse w) now kd (event_name kd) data (eGst e)))
              (fst (apply_event (wParse w) now kd (event_name kd) data g'))" "graph_wf g'"
  shows "in_sync w clock base (emitApply w now kd data (e\<lparr>eGst := g'\<rparr>))"
  unfolding emitApply_def
proof (rule sync_emit[OF sync kd ok])
  let ?e' = "apply_live w now kd data (emit w now kd data (e\<lparr>eGst := g'\<rparr>))"
  show "0 < eSeqNo ?e' \<Longrightarrow> same (fst (apply_event (wParse w) now kd (event_name kd) data (eGst e))) (eGst ?e')"
    using graph_apply_known[OF same_refl _ kd, of "eSeqNo (emit w now kd data (e\<lparr>eGst := g'\<rparr>))" "wParse w" now "[]"
        data g' "wParse w" now] same_trans[OF g(1)]
    by (simp add: apply_live_def frame_simps same_applied_def same_def)
  show "graph_wf (eGst ?e')" using g(2) by (simp add: apply_live_def wf_graph_apply frame_simps)
qed (simp_all add: frame_simps emit_def Let_def)

lemma sync_claim:
  assumes sync: "in_sync w clock base e" and n: "map_of (nodes (eGst e)) k = Some n"
    and d: "nStatus n = StDeclared" "jstr data ''nodeId'' = k" "jstr data ''holder'' = h"
  shows "in_sync w clock base (emitApply w now EvClaimed data (e\<lparr>eGst := claimNode n h l (eGst e)\<rparr>))"
proof (rule sync_changed_apply[OF sync])
  note wf = in_sync_wf[OF sync]
  note k = wf_nID[OF wf n]
  let ?g = "claimNode n h l (eGst e)"
  obtain l1 where 1: "apply_claimed (wParse w) data (eGst e) =
      (put_node k (n\<lparr>nHolder := h, nLeaseUntil := l1\<rparr>) (eGst e), None)"
    using apply_claimed_known[of "eGst e" data n "wParse w"] n d by auto
  have "map_of (nodes ?g) k = Some (n\<lparr>nHolder := h, nLeaseUntil := l\<rparr>)"
    using k by (simp add: claim_release_put frame_simps)
  then obtain l2 where 2: "apply_claimed (wParse w) data ?g =
      (put_node k (n\<lparr>nHolder := h, nLeaseUntil := l2\<rparr>) ?g, None)"
    using apply_claimed_known[of ?g data _ "wParse w"] d by fastforce
  show "snd (apply_event (wParse w) now EvClaimed (event_name EvClaimed) data (eGst e)) = None"
    using 1 by simp
  show "same (fst (apply_event (wParse w) now EvClaimed (event_name EvClaimed) data (eGst e)))
          (fst (apply_event (wParse w) now EvClaimed (event_name EvClaimed) data ?g))"
    using 1 2 k by (simp add: claim_release_put put_put_same core_eq_iff)
  show "graph_wf ?g" using wf n by (rule wf_claim_release)
qed simp

lemma sync_release:
  assumes sync: "in_sync w clock base e" and n: "map_of (nodes (eGst e)) k = Some n"
    and d: "nHolder n \<noteq> []" "jstr data ''nodeId'' = k"
  shows "in_sync w clock base (emitApply w now EvReleased data (e\<lparr>eGst := releaseNode n (eGst e)\<rparr>))"
proof (rule sync_changed_apply[OF sync])
  note wf = in_sync_wf[OF sync]
  note k = wf_nID[OF wf n]
  let ?g = "releaseNode n (eGst e)"
  have 1: "apply_released data (eGst e) = (put_node k (clear_holder n) (eGst e), None)"
    using apply_released_known[of "eGst e" data n] n d by auto
  have "map_of (nodes ?g) k = Some (clear_holder n)"
    using k by (simp add: claim_release_put frame_simps)
  then have 2: "\<exists>err. apply_released data ?g = (?g, Some err)"
    using apply_released_unheld[of ?g data "clear_holder n"] d by (simp add: clear_holder_def)
  show "snd (apply_event (wParse w) now EvReleased (event_name EvReleased) data (eGst e)) = None"
    using 1 by simp
  show "same (fst (apply_event (wParse w) now EvReleased (event_name EvReleased) data (eGst e)))
          (fst (apply_event (wParse w) now EvReleased (event_name EvReleased) data ?g))"
    using 1 2 k by (auto simp: claim_release_put)
  show "graph_wf ?g" using wf n by (rule wf_claim_release)
qed simp

lemma sync_noop:
  assumes "in_sync w clock base e" "kd \<noteq> EvUnknown"
    "\<exists>g. apply_event (wParse w) now kd (event_name kd) data (eGst e) = (g, None) \<and> same g (eGst e)"
    "eOut e' = eOut (emit w now kd data e)" "eSeqNo e' = wrap64 (eSeqNo e + 1)" "eGst e' = eGst e"
  shows "in_sync w clock base e'"
proof (rule sync_emit[OF assms(1,2), where p = "wParse w" and t = now and data = data and now = now and g' = "eGst e"])
qed (use assms in_sync_wf[OF assms(1)] in auto)

lemma put_order_comm:
  "(put_node k n st)\<lparr>nodeSeq := q, order := ks\<rparr> = (put_node k n st)\<lparr>order := ks, nodeSeq := q\<rparr>"
  by (simp add: put_node_def)

lemma same_put_fields:
  "core_node n = core_node m \<Longrightarrow>
    same ((put_node k n s)\<lparr>order := ks, nodeSeq := q\<rparr>) ((put_node k m s)\<lparr>order := ks, nodeSeq := q\<rparr>)"
  by (simp add: same_def frame_simps)

lemma sync_declare:
  assumes sync: "in_sync w clock base e" and f: "typ \<noteq> []" "intent \<noteq> []"
    and room: "nodeSeq (eGst e) < 2 ^ 63 - 1"
  shows "in_sync w clock base (declare_emit w now typ intent by' from e)"
proof -
  note wf = in_sync_wf[OF sync]
  let ?s = "eGst e" and ?k = "node_id (nodeSeq (eGst e) + 1)"
  let ?n = "new_node now ?k typ intent by' from"
  let ?g = "(put_node ?k ?n ?s)\<lparr>order := order ?s @ [?k], nodeSeq := nodeSeq ?s + 1\<rparr>"
  note fr = fresh_number[OF wf room]
  have d: "declare_emit w now typ intent by' from e = emit w now EvDeclared (declared_data ?n) (e\<lparr>eGst := ?g\<rparr>)"
    by (simp add: declare_emit_def declare_node_eq[OF wf room] Let_def)
  have g: "graph_wf ?g" using declare_node_wf[OF wf room, of now "typ" intent by' "from"]
    by (simp add: declare_node_eq[OF wf room] Let_def)
  have a: "\<exists>t. apply_declared (wParse w) now (declared_data ?n) ?s =
      ((put_node ?k (?n\<lparr>nCreatedAt := t\<rparr>) ?s)\<lparr>order := order ?s @ [?k], nodeSeq := nodeSeq ?s + 1\<rparr>, None)"
    using fr f by (auto simp: apply_declared_def Let_def frame_simps new_node_def)
  show ?thesis unfolding d
  proof (rule sync_emit[OF sync, where kd = EvDeclared and data = "declared_data ?n" and g' = ?g and now = now
        and p = "wParse w" and t = now])
    show "same (fst (apply_event (wParse w) now EvDeclared (event_name EvDeclared) (declared_data ?n) ?s)) ?g"
      using a by (auto intro!: same_put_fields simp: core_eq_iff)
  qed (use a g in \<open>auto simp: emit_def Let_def\<close>)
qed

end
