(* ===== verification/GraphDemo.thy ===== *)
theory GraphDemo imports Main GraphSim begin

text \<open>
  One concrete run of the engine, evaluated: a single seed, an agent that answers in text
  without submitting. The states are given in full and shown to be what the definitions of
  \<open>GraphRun\<close> compute; the witnesses of the run theorems use them.
\<close>

section \<open>World and states\<close>

definition demo_world :: world where
  "demo_world = \<lparr>wParse = (\<lambda>_. None), wFormat = (\<lambda>_. []), wFormatSec = (\<lambda>_. ''t''), wDigest = (\<lambda>_. ''d''),
     wFindings = (\<lambda>_. Inl ''no JSON''), wUnmarshal = (\<lambda>_. None), wConclude = False, wStructured = True\<rparr>"

definition demo_spec :: graph_task_spec where
  "demo_spec = \<lparr>gTaskID = ''t'', gGoal = ''g'', gSeedIntents = [''scan''], gMaxNodes = 0, gMaxParallel = 0,
     gAllowedTypes = [], gMaxPlannerReplans = 0, gMaxAttemptsPerNode = 0, gPlannerTimeout = 0,
     gExecutorTimeout = 0, gVerifierTimeout = 0\<rparr>"
lemma node1: "node_id 1 = ''n001''" by code_simp


definition demo_node :: "node_status \<Rightarrow> string \<Rightarrow> string \<Rightarrow> int \<Rightarrow> gotime \<Rightarrow> graph_node" where
  "demo_node s h ref att upd = \<lparr>nID = ''n001'', nType = ''executor'', nIntent = ''scan'', nStatus = s,
     nDeclaredBy = ''pack'', nFrom = [], nResultRef = ref, nAttempts = att, nCreatedAt = 5, nUpdatedAt = upd,
     nCompletedAt = 0, nCompletedOrd = 0, nHolder = h, nLeaseUntil = 0\<rparr>"

definition demo_gst :: "graph_node \<Rightarrow> int \<Rightarrow> int \<Rightarrow> graph_state" where
  "demo_gst n l q = newGraphState\<lparr>nodes := [(''n001'', n)], order := [''n001''], nodeSeq := 1, lastSeq := q, lines := l\<rparr>"

definition demo_line :: "event_kind \<Rightarrow> int \<Rightarrow> jmap \<Rightarrow> graph_envelope" where
  "demo_line k q d = \<lparr>eType = event_name k, eSeq = q, eTime = [], eData = d\<rparr>"

definition demo_e0 :: engine where
  "demo_e0 = \<lparr>eGst = demo_gst (demo_node StDeclared [] [] 0 5) 0 0, eSeqNo = 1,
     eOut = [demo_line EvDeclared 1 (declared_data (demo_node StDeclared [] [] 0 5))], eMark = 0, eFindings = []\<rparr>"

definition demo_e1 :: engine where
  "demo_e1 = demo_e0\<lparr>eGst := demo_gst (demo_node StDeclared engine_worker [] 0 5) 1 2, eSeqNo := 2,
     eOut := eOut demo_e0 @ [demo_line EvClaimed 2 (holder_data ''n001'' engine_worker)]\<rparr>"

definition demo_e2 :: engine where
  "demo_e2 = demo_e1\<lparr>eGst := demo_gst (demo_node StRunning engine_worker [] 0 7) 2 3, eSeqNo := 3,
     eOut := eOut demo_e1 @ [demo_line EvStarted 3 (started_data (demo_node StDeclared engine_worker [] 0 5))]\<rparr>"

lemmas demo_defs = demo_node_def demo_gst_def demo_line_def demo_e0_def demo_e1_def demo_e2_def
  newGraphState_def

lemma demo_world_simps: "wParse demo_world = (\<lambda>_. None)" "wFormat demo_world = (\<lambda>_. [])"
    "wConclude demo_world = False"
  by (simp_all add: demo_world_def)

lemma demo_e0: "run_start demo_world 5 demo_spec newGraphState = (Looping, demo_e0)"
  by (simp add: demo_defs demo_world_simps demo_spec_def run_start_def new_engine_def initialize_def normalize_def declare_seeds_def
    declare_emit_def declare_node_def nextNodeID_def put_node_def emit_def Let_def wrap64_def node1
    nonPlannerTerminals_def terminal_def)

lemma demo_norm: "gMaxParallel (normalize demo_spec) = 0" "gMaxAttemptsPerNode (normalize demo_spec) = 2"
  by (simp_all add: normalize_def demo_spec_def or_default_def graphMaxAttemptsPerNodeDefault_def)

lemmas step_defs = emitApply_def apply_live_def emit_def graph_apply_def count_line_def saw_seq_def wrap64_def
  put_node_def on_node_def nodeOf_def store_node_def with_node_def Let_def

lemma demo_e1: "iterate demo_world 6 (normalize demo_spec) False None demo_e0 = (Starting [''n001''] [''n001''], demo_e1)"
  by (simp add: demo_defs demo_world_simps iterate_def assemble_wave_def claimableReady_def ordered_nodes_def map_filter_simps
     is_ready_def deps_ready_def lease_expired_def filterNonPlanner_def claimableCap_def claim_one_def
     claimNode_def apply_claimed_def step_defs jstr_def holder_data_def del: event_name.simps)

lemma demo_e2: "fst (start_one demo_world 7 (normalize demo_spec) None ''n001'' demo_e1) = demo_e2"
  by (simp add: demo_defs demo_world_simps start_one_def seedTextFor_def apply_started_def step_defs jstr_def started_data_def del: event_name.simps)

definition demo_turn :: turn_out where
  "demo_turn = \<lparr>tText = ''done'', tCalls = [], tTurns = 1, tErr = None\<rparr>"

definition demo_ref :: string where
  "demo_ref = (''findings '' @ utf8 [232, 167, 163, 230, 158, 144, 229, 164, 177, 232, 180, 165, 239,
      188, 154]) @ ''no JSON''"

definition demo_e3 :: engine where
  "demo_e3 = demo_e2\<lparr>eGst := demo_gst (demo_node StDeclared [] demo_ref 1 8) 4 5, eSeqNo := 5,
     eOut := eOut demo_e2 @ [demo_line EvResult 4 (with_usage 1 (result_data ''n001'' OIndeterminate demo_ref)),
       demo_line EvReleased 5 (released_data ''n001'' engine_worker ''wave_done'')]\<rparr>"

definition demo_released :: engine where
  "demo_released = demo_e2\<lparr>eGst := demo_gst (demo_node StRunning [] [] 0 7) 3 4, eSeqNo := 4,
     eOut := eOut demo_e2 @ [demo_line EvReleased 4 (released_data ''n001'' engine_worker ''human_release'')]\<rparr>"

definition demo_poisoned :: engine where
  "demo_poisoned = demo_released\<lparr>eGst := demo_gst (demo_node StDeclared [] demo_ref 1 9) 5 6, eSeqNo := 6,
     eOut := eOut demo_released @ [demo_line EvResult 5 (with_usage 1 (result_data ''n001'' OIndeterminate demo_ref)),
       demo_line EvReleased 6 (released_data ''n001'' engine_worker ''wave_done'')]\<rparr>"

lemma truncate_short: "length s \<le> mx \<Longrightarrow> truncateRunes s mx = s"
  using runes_length[of s] by (simp add: truncateRunes_def Let_def)

lemma demo_texts: "refusedOf ''done'' = []" 
  "truncateRunes demo_ref graphResultRefMaxRunes = demo_ref"
proof -
  show "refusedOf ''done'' = []"
    by (simp add: refusedOf_def TrimSpace_def rune_segs_ascii is_space_def cut_prefix_def)
  have "length demo_ref \<le> graphResultRefMaxRunes" by (simp add: demo_ref_def utf8_def graphResultRefMaxRunes_def)
  then show "truncateRunes demo_ref graphResultRefMaxRunes = demo_ref" by (rule truncate_short)
qed


lemma demo_parse: "parseAuditResult (wFindings demo_world) ''done'' [] = Inl ''no JSON''"
  by (simp add: parseAuditResult_def demo_world_def)
lemma demo_att: "nAttempts n = 0 \<Longrightarrow> \<not> attemptExhausted n (normalize demo_spec)"
  by (simp add: attemptExhausted_def demo_norm wrap64_def)

lemma demo_collect:
  assumes "nType n = ''executor''" "nAttempts n = 0"
  shows "collectGraphNode (wFindings demo_world) (normalize demo_spec) n ''done'' [] None = (OIndeterminate, demo_ref, [])"
  unfolding collectGraphNode_def demo_parse option.case sum.case demo_texts Let_def simp_thms if_False assms
    not_False_eq_True
  using demo_att[OF assms(2)] demo_texts(2) 
  by (simp only: if_False if_True simp_thms demo_ref_def[symmetric] refl)


lemma nodeSeqOf_n001: "nodeSeqOf ''n001'' = 1"
  by code_simp

lemma gst_simps [simp]:
  "map_of (nodes (demo_gst n l q)) ''n001'' = Some n" "put_node ''n001'' m (demo_gst n l q) = demo_gst m l q"
  "lines (demo_gst n l q) = l" "lastSeq (demo_gst n l q) = q" "order (demo_gst n l q) = [''n001'']"
  by (simp_all add: demo_gst_def put_node_def newGraphState_def)

lemma gst_count [simp]: "0 \<le> l \<Longrightarrow> l < 100 \<Longrightarrow> count_line (demo_gst n l q) = demo_gst n (l + 1) q"
  "q < r \<Longrightarrow> saw_seq r (demo_gst n l q) = demo_gst n l r"
  by (simp_all add: demo_gst_def count_line_def saw_seq_def wrap64_def)

lemma gst_result:
  assumes "0 \<le> l" "l < 100" "q < r" "0 < r" "jstr d ''nodeId'' = ''n001''" "jstr d ''outcome'' = outcome_name OIndeterminate"
    "jstr_ok d ''resultRef'' = Some ref" "nAttempts n = 0"
  shows "graph_apply p t \<lparr>eType = event_name EvResult, eSeq = r, eTime = tm, eData = d\<rparr> (demo_gst n l q) =
    (demo_gst (n\<lparr>nResultRef := ref, nUpdatedAt := t, nAttempts := 1, nStatus := StDeclared\<rparr>) (l + 1) r, None)"
  using assms by (simp add: graph_apply_def Let_def apply_result_known[of _ d n OIndeterminate ref] wrap64_def del: event_name.simps outcome_name.simps)

lemma gst_released:
  assumes "0 \<le> l" "l < 100" "q < r" "0 < r" "jstr d ''nodeId'' = ''n001''"
  shows "graph_apply p t \<lparr>eType = event_name EvReleased, eSeq = r, eTime = tm, eData = d\<rparr> (demo_gst n l q) =
    (if nHolder n = [] then (demo_gst n (l + 1) r, Some (ReleasedUnclaimed (l + 1) (nID n)))
     else (demo_gst (clear_holder n) (l + 1) r, None))"
  using assms by (simp add: graph_apply_def Let_def apply_released_known[of _ d n] apply_released_unheld[of _ d n] del: event_name.simps)

lemma demo_node_simps [simp]:
  "nID (demo_node s h ref a u) = ''n001''" "nHolder (demo_node s h ref a u) = h" "nAttempts (demo_node s h ref a u) = a"
  "nType (demo_node s h ref a u) = ''executor''"
  "clear_holder (demo_node s h ref a u) = demo_node s [] ref a u"
  "(demo_node s h ref a u)\<lparr>nHolder := [], nLeaseUntil := 0\<rparr> = demo_node s [] ref a u"
  "(demo_node s h ref a u)\<lparr>nResultRef := ref', nUpdatedAt := u', nAttempts := a', nStatus := s'\<rparr> = demo_node s' h ref' a' u'"
  by (simp_all add: demo_node_def clear_holder_def)

lemma demo_engines:
  "eGst demo_e2 = demo_gst (demo_node StRunning engine_worker [] 0 7) 2 3" "eSeqNo demo_e2 = 3"
  "eGst demo_released = demo_gst (demo_node StRunning [] [] 0 7) 3 4" "eSeqNo demo_released = 4"
  by (simp_all add: demo_e2_def demo_released_def)

lemma releaseNode_gst: "releaseNode (demo_node s h ref a u) (demo_gst n l q) = demo_gst (demo_node s [] ref a u) l q"
  by (simp add: releaseNode_def)

lemma demo_e3: "collect_one demo_world 8 (normalize demo_spec) demo_turn demo_turn ''n001'' demo_e2 = demo_e3"
  by (simp add: demo_engines collect_one_def with_conclusion_def needConclude_def demo_turn_def demo_collect
      emitApply_def apply_live_def emit_def demo_world_simps Let_def wrap64_def gst_result gst_released with_node_def
      releaseNode_gst del: event_name.simps outcome_name.simps)
    (simp add: demo_e3_def demo_line_def engine_worker_def demo_engines demo_e2_def demo_e1_def demo_e0_def del: event_name.simps outcome_name.simps)

lemma demo_released: "human_release demo_world 8 ''n001'' demo_e2 = (demo_released, None)"
  by (simp add: demo_engines human_release_def emitApply_def apply_live_def emit_def demo_world_simps Let_def
      wrap64_def gst_released releaseNode_gst engine_worker_def del: event_name.simps)
    (simp add: demo_released_def demo_e2_def demo_line_def engine_worker_def del: event_name.simps)

lemma demo_poisoned: "collect_one demo_world 9 (normalize demo_spec) demo_turn demo_turn ''n001'' demo_released = demo_poisoned"
  by (simp add: demo_engines collect_one_def with_conclusion_def needConclude_def demo_turn_def demo_collect
      emitApply_def apply_live_def emit_def demo_world_simps Let_def wrap64_def gst_result gst_released with_node_def
      releaseNode_gst del: event_name.simps outcome_name.simps)
    (simp add: demo_poisoned_def demo_released_def demo_line_def engine_worker_def demo_e2_def demo_e1_def demo_e0_def del: event_name.simps outcome_name.simps)

definition demo_rnode :: graph_node where
  "demo_rnode = (demo_node StRunning engine_worker [] 0 0)\<lparr>nCreatedAt := 0\<rparr>"

lemma demo_log3: "replay_lines (wParse demo_world) (\<lambda>_. 0) (map EnvLine (eOut demo_e2)) newGraphState = Inr (demo_gst demo_rnode 3 3)"
  by (simp add: demo_defs demo_world_simps demo_rnode_def apply_declared_def parseGraphTime_def nodeSeqOf_n001
     apply_claimed_def apply_started_def step_defs del: event_name.simps)

lemma demo_poisoned_log:
  "ReplayGraphLog (wParse demo_world) (\<lambda>_. 0) False (map EnvLine (eOut demo_poisoned)) = Inl (ReleasedUnclaimed 6 ''n001'')"
proof -
  have "nHolder demo_rnode \<noteq> []" "nAttempts demo_rnode = 0" "nID demo_rnode = ''n001''" by (simp_all add: demo_rnode_def engine_worker_def)
  then show ?thesis
    by (simp add: ReplayGraphLog_def demo_poisoned_def demo_released_def demo_log3[unfolded demo_world_simps] replay_lines_append demo_line_def
      gst_released gst_result demo_world_simps clear_holder_def del: event_name.simps outcome_name.simps)
qed

section \<open>The run\<close>

lemma demo_collecting: "run_reaches strict demo_world 5 demo_spec newGraphState (Collecting [''n001''], demo_e2)"
proof -
  let ?R = "run_step strict demo_world (normalize demo_spec)"
  have "?R (Looping, demo_e0) (Starting [''n001''] [''n001''], demo_e1)"
    using run_step.iterate[of strict demo_world "normalize demo_spec" demo_e0 6 False None] demo_e1 by simp
  moreover have "?R (Starting [''n001''] [''n001''], demo_e1) (Starting [] [''n001''], demo_e2)"
    using run_step.start[of strict demo_world "normalize demo_spec" "''n001''" "[]" "[''n001'']" demo_e1 7 None] demo_e2
    by simp
  moreover have "?R (Starting [] [''n001''], demo_e2) (Collecting [''n001''], demo_e2)" by (rule run_step.started)
  ultimately show ?thesis unfolding run_reaches_def demo_e0
    by (meson converse_rtranclp_into_rtranclp rtranclp.rtrancl_refl)
qed

lemma demo_reaches: "run_reaches strict demo_world 5 demo_spec newGraphState (Looping, demo_e3)"
proof -
  let ?R = "run_step strict demo_world (normalize demo_spec)"
  have "?R (Collecting [''n001''], demo_e2) (Collecting [], demo_e3)"
    using run_step.collect[of strict demo_world "normalize demo_spec" "''n001''" "[]" demo_e2 8 demo_turn demo_turn] demo_e3
    by simp
  moreover have "?R (Collecting [], demo_e3) (Looping, demo_e3)" by (rule run_step.collected)
  ultimately show ?thesis using demo_collecting[of strict] unfolding run_reaches_def
    by (meson rtranclp.rtrancl_into_rtrancl)
qed

lemma demo_poisoned_reaches:
  "run_reaches False demo_world 5 demo_spec newGraphState (Collecting [], demo_poisoned)"
proof -
  let ?R = "run_step False demo_world (normalize demo_spec)"
  have "?R (Collecting [''n001''], demo_e2) (Collecting [''n001''], demo_released)"
    using run_step.release[of "Collecting [''n001'']" False demo_e2 "''n001''" demo_world "normalize demo_spec" 8] demo_released
    by (simp add: run_active_def)
  moreover have "?R (Collecting [''n001''], demo_released) (Collecting [], demo_poisoned)"
    using run_step.collect[of False demo_world "normalize demo_spec" "''n001''" "[]" demo_released 9 demo_turn demo_turn] demo_poisoned
    by simp
  ultimately show ?thesis using demo_collecting[of False] unfolding run_reaches_def
    by (meson rtranclp.rtrancl_into_rtrancl)
qed

lemma demo_start: "ReplayGraphLog (wParse demo_world) (\<lambda>_. 0) False [] = Inr newGraphState"
  by (simp add: ReplayGraphLog_def recoverRunningOrphans_def newGraphState_def)

lemma demo_run_facts: "recoveredNodes newGraphState = []" "length (eOut demo_e3) = 5" "lastSeq newGraphState = 0"
  by (simp_all add: newGraphState_def demo_e3_def demo_e2_def demo_e1_def demo_e0_def)

end
