(* ===== verification/GraphRefine.thy ===== *)
theory GraphRefine imports Main GraphDemo begin

text \<open>
  The invariant of whole runs of the engine: the log written so far replays to the live node table, its lines
  are numbered without gaps, the planner budget is never counted. GraphWindows draws the theorems about the log and
  the size of the graph from it.
  \<open>keeps\<close> is the frame of an operation on existing nodes; \<open>run_inv\<close> is the
  invariant of the step relation.
\<close>

section \<open>Frames\<close>

definition keeps :: "string set \<Rightarrow> graph_state \<Rightarrow> graph_state \<Rightarrow> bool" where
  "keeps K s s' \<longleftrightarrow> nodeSeq s' = nodeSeq s \<and> keys (nodes s') = keys (nodes s) \<and> plannerRuns s' = plannerRuns s \<and>
    (\<forall>k. k \<notin> K \<longrightarrow> map_option core_node (map_of (nodes s') k) = map_option core_node (map_of (nodes s) k))"

lemma keeps_refl [simp]: "keeps K s s"
  by (simp add: keeps_def)

lemma keeps_trans: "keeps K s s' \<Longrightarrow> keeps L s' s'' \<Longrightarrow> keeps (K \<union> L) s s''"
  by (simp add: keeps_def)

lemma keeps_trans_same: "keeps K s s' \<Longrightarrow> keeps K s' s'' \<Longrightarrow> keeps K s s''"
  using keeps_trans[of K s s' K s''] by simp

lemma keeps_mono: "keeps K s s' \<Longrightarrow> K \<subseteq> L \<Longrightarrow> keeps L s s'"
  by (auto simp: keeps_def)

lemma keeps_dom: "keeps K s s' \<Longrightarrow> map_of (nodes s') k = None \<longleftrightarrow> map_of (nodes s) k = None"
  by (simp add: keeps_def map_of_None_key)

lemma keeps_put: "map_of (nodes s) k = Some m \<Longrightarrow> keeps {k} s (put_node k n s)"
  by (auto simp: keeps_def frame_simps put_known_keys)

lemma keeps_node:
  assumes "keeps K s s'" "k \<notin> K" "map_of (nodes s) k = Some n"
  obtains m where "map_of (nodes s') k = Some m" "core_node m = core_node n"
  using assms by (cases "map_of (nodes s') k") (auto simp: keeps_def)

lemma keeps_on_node:
  assumes "\<And>n. map_of (nodes s) (jstr data ''nodeId'') = Some n \<Longrightarrow> keeps {jstr data ''nodeId''} s (fst (f n s))"
  shows "keeps {jstr data ''nodeId''} s (fst (on_node data f s))"
  by (rule on_node_cases) (use assms in auto)

lemma keeps_store:
  "map_of (nodes s) (jstr data ''nodeId'') = Some n \<Longrightarrow> keeps {jstr data ''nodeId''} s (store_node data m s)"
  by (simp add: store_node_def keeps_put)

lemma keeps_handlers:
  "keeps {jstr data ''nodeId''} s (fst (apply_claimed p data s))"
  "keeps {jstr data ''nodeId''} s (fst (apply_released data s))"
  "keeps {jstr data ''nodeId''} s (fst (apply_lease_expired data s))"
  "keeps {jstr data ''nodeId''} s (fst (apply_started t data s))"
  "keeps {jstr data ''nodeId''} s (fst (apply_result t data s))"
proof -
  show "keeps {jstr data ''nodeId''} s (fst (apply_claimed p data s))"
    unfolding apply_claimed_def by (rule keeps_on_node) (auto simp: Let_def keeps_store split: option.split)
  show "keeps {jstr data ''nodeId''} s (fst (apply_released data s))"
    unfolding apply_released_def by (rule keeps_on_node) (auto simp: keeps_store)
  show "keeps {jstr data ''nodeId''} s (fst (apply_lease_expired data s))"
    unfolding apply_lease_expired_def by (rule keeps_on_node) (auto simp: keeps_store)
  show "keeps {jstr data ''nodeId''} s (fst (apply_started t data s))"
    unfolding apply_started_def by (rule keeps_on_node) (auto simp: keeps_store)
  show "keeps {jstr data ''nodeId''} s (fst (apply_result t data s))"
    unfolding apply_result_def by (rule keeps_on_node) (auto simp: Let_def keeps_store split: option.split)
qed

lemma keeps_table_only:
  "keeps K s (count_line s)" "keeps K s (saw_seq q s)"
  by (simp_all add: keeps_def count_line_def saw_seq_def)

text \<open>The events the engine folds as it runs.\<close>

definition live_kind :: "event_kind \<Rightarrow> bool" where
  "live_kind kd \<longleftrightarrow> kd \<in> {EvClaimed, EvReleased, EvLeaseExpired, EvStarted, EvResult}"

lemma keeps_graph_apply:
  assumes "live_kind kd"
  shows "keeps {jstr data ''nodeId''} s
    (fst (graph_apply p t \<lparr>eType = event_name kd, eSeq = q, eTime = tm, eData = data\<rparr> s))"
proof -
  have "keeps {jstr data ''nodeId''} s' (fst (apply_event p t kd (event_name kd) data s'))" for s'
    using assms by (auto simp: live_kind_def keeps_handlers)
  moreover have "keeps {jstr data ''nodeId''} s (saw_seq q (count_line s))"
    by (simp add: keeps_def count_line_def saw_seq_def)
  moreover have "kd \<noteq> EvUnknown" using assms by (auto simp: live_kind_def)
  ultimately show ?thesis
    by (auto simp: graph_apply_def Let_def keeps_table_only intro: keeps_trans_same)
qed

lemma keeps_apply_live: "live_kind kd \<Longrightarrow> jstr data ''nodeId'' = k \<Longrightarrow> keeps {k} (eGst e) (eGst (apply_live w now kd data e))"
  using keeps_graph_apply[of kd data] by (auto simp: apply_live_def)

lemma keeps_emitApply: "live_kind kd \<Longrightarrow> jstr data ''nodeId'' = k \<Longrightarrow> keeps {k} (eGst e) (eGst (emitApply w now kd data e))"
  using keeps_apply_live[of kd data k "emit w now kd data e" w now] by (simp add: emitApply_def frame_simps)

lemma live_kinds [simp]: "live_kind EvClaimed" "live_kind EvReleased" "live_kind EvLeaseExpired"
    "live_kind EvStarted" "live_kind EvResult"
  by (simp_all add: live_kind_def)

lemma keeps_claim_release:
  assumes "graph_wf s" "map_of (nodes s) k = Some n"
  shows "keeps {k} s (claimNode n h l s)" "keeps {k} s (releaseNode n s)"
  using assms keeps_put wf_nID[OF assms] by (auto simp: claim_release_put)

section \<open>Holders\<close>

definition held :: "graph_state \<Rightarrow> string \<Rightarrow> bool" where
  "held s k \<longleftrightarrow> map_option nHolder (map_of (nodes s) k) = Some engine_worker"

lemma keeps_held: "keeps K s s' \<Longrightarrow> k \<notin> K \<Longrightarrow> held s k \<Longrightarrow> held s' k"
  unfolding held_def
  by (cases "map_of (nodes s) k") (auto elim!: keeps_node simp: core_eq_iff)

lemma held_node: "held s k \<Longrightarrow> \<exists>n. map_of (nodes s) k = Some n \<and> nHolder n = engine_worker"
  by (auto simp: held_def)

lemma node_outcome_holder [simp]: "nHolder (node_outcome t i oc n) = nHolder n"
  by (cases oc) simp_all

text \<open>Starting and finishing a node leave every holder as it is.\<close>

lemma holder_live:
  assumes "kd = EvStarted \<or> kd = EvResult"
  shows "map_option nHolder (map_of (nodes (eGst (apply_live w now kd data e))) k) =
    map_option nHolder (map_of (nodes (eGst e)) k)"
proof -
  have on: "map_option nHolder (map_of (nodes (fst (on_node data f s))) k) = map_option nHolder (map_of (nodes s) k)"
    if "\<And>n. map_of (nodes s) (jstr data ''nodeId'') = Some n \<Longrightarrow> \<exists>m. nodes (fst (f n s)) = nodes (store_node data m s) \<and> nHolder m = nHolder n"
    for f s
    by (rule on_node_cases) (use that in \<open>fastforce simp: store_node_def frame_simps\<close>)+
  have st: "map_option nHolder (map_of (nodes (fst (apply_started t data s))) k) = map_option nHolder (map_of (nodes s) k)" for t s
    unfolding apply_started_def by (rule on) auto
  have re: "map_option nHolder (map_of (nodes (fst (apply_result t data s))) k) = map_option nHolder (map_of (nodes s) k)" for t s
    unfolding apply_result_def by (rule on) (auto simp: Let_def split: option.split)
  have tab: "nodes (saw_seq q (count_line s)) = nodes s" "nodes (count_line s) = nodes s" for q s
    by (simp_all add: saw_seq_def count_line_def)
  show ?thesis using assms
    by (auto simp: apply_live_def graph_apply_def Let_def st re tab simp del: event_name.simps)
qed

section \<open>Operations\<close>

lemma with_node_simps [frame_simps]:
  "eOut (with_node k f e) = eOut e" "eSeqNo (with_node k f e) = eSeqNo e"
  by (simp_all add: with_node_def split: option.split)

lemma sync_same:
  assumes "in_sync w clock base e" "eOut e' = eOut e" "eSeqNo e' = eSeqNo e" "graph_wf (eGst e')"
    "0 < eSeqNo e \<Longrightarrow> same (eGst e) (eGst e')" "eOut e \<noteq> []"
  shows "in_sync w clock base e'"
  using assms same_trans by (cases "eOut e") (fastforce simp: in_sync_def seq_room_def)+

lemma expire_one_inv:
  assumes sync: "in_sync w clock base e" and n: "map_of (nodes (eGst e)) (nID en) = Some n"
  shows "in_sync w clock base (expire_one w now en e)"
    "keeps {nID en} (eGst e) (eGst (expire_one w now en e))"
proof -
  let ?k = "nID en" and ?d = "holder_data (nID en) (nHolder en)"
  let ?e1 = "emitApply w now EvLeaseExpired ?d e"
  have kp: "keeps {?k} (eGst e) (eGst ?e1)" by (rule keeps_emitApply) simp_all
  have s1: "in_sync w clock base ?e1"
    by (rule sync_apply[OF sync]) (simp_all add: apply_lease_expired_known n)
  note wf1 = in_sync_wf[OF s1]
  obtain m where m: "map_of (nodes (eGst ?e1)) ?k = Some m"
    using keeps_dom[OF kp, of ?k] n by (cases "map_of (nodes (eGst ?e1)) ?k") auto
  have d: "expire_one w now en e = ?e1\<lparr>eGst := releaseNode m (eGst ?e1)\<rparr>"
    by (simp add: expire_one_def with_node_def m)
  have cleared: "nHolder m = []" if pos: "0 < eSeqNo ?e1"
  proof -
    have "same (eGst ?e1) (put_node ?k (clear_holder n) (eGst e))"
      using graph_apply_known[OF same_refl[of "eGst e"] _ _, of "eSeqNo ?e1" EvLeaseExpired "wParse w" now "[]" ?d "wParse w" now] pos
      by (simp add: emitApply_def apply_live_def frame_simps apply_lease_expired_known n same_applied_def)
    from same_node(2)[OF this m] show ?thesis by (auto simp: frame_simps clear_holder_def core_eq_iff)
  qed
  show "keeps {?k} (eGst e) (eGst (expire_one w now en e))"
    unfolding d using kp keeps_claim_release(2)[OF wf1 m] by (simp add: keeps_trans_same)
  show "in_sync w clock base (expire_one w now en e)"
    unfolding d
  proof (rule sync_same[OF s1])
    show "0 < eSeqNo ?e1 \<Longrightarrow> same (eGst ?e1) (eGst (?e1\<lparr>eGst := releaseNode m (eGst ?e1)\<rparr>))"
      using cleared m wf_nID[OF wf1 m]
      by (simp add: claim_release_put same_def frame_simps core_eq_iff clear_holder_def core_node_def)
  qed (use wf_claim_release[OF wf1 m] in \<open>simp_all add: emitApply_def frame_simps\<close>)
qed

lemma claim_one_inv:
  assumes sync: "in_sync w clock base e" and n: "map_of (nodes (eGst e)) (nID c) = Some n" "nStatus n = StDeclared"
  shows "in_sync w clock base (claim_one w now c e)"
    "keeps {nID c} (eGst e) (eGst (claim_one w now c e))" "held (eGst (claim_one w now c e)) (nID c)"
proof -
  note wf = in_sync_wf[OF sync]
  note k = wf_nID[OF wf n(1)]
  let ?g = "claimNode n engine_worker zero_time (eGst e)" and ?d = "holder_data (nID c) engine_worker"
  have d: "claim_one w now c e = emitApply w now EvClaimed ?d (e\<lparr>eGst := ?g\<rparr>)"
    by (simp add: claim_one_def with_node_def n)
  show "in_sync w clock base (claim_one w now c e)"
    unfolding d by (rule sync_claim[OF sync n]) simp_all
  have "keeps {nID c} ?g (eGst (claim_one w now c e))"
    unfolding d using keeps_emitApply[of EvClaimed ?d "nID c" "e\<lparr>eGst := ?g\<rparr>" w now] by simp
  then show "keeps {nID c} (eGst e) (eGst (claim_one w now c e))"
    using keeps_claim_release(1)[OF wf n(1)] keeps_trans_same by blast
  have g: "map_of (nodes ?g) (nID c) = Some (n\<lparr>nHolder := engine_worker, nLeaseUntil := zero_time\<rparr>)"
    using k by (simp add: claim_release_put frame_simps)
  have tab: "nodes (saw_seq q (count_line s)) = nodes s" "nodes (count_line s) = nodes s" for q s
    by (simp_all add: saw_seq_def count_line_def)
  have "held (fst (apply_claimed (wParse w) ?d s)) (nID c)"
    if "map_of (nodes s) (nID c) = Some (n\<lparr>nHolder := engine_worker, nLeaseUntil := zero_time\<rparr>)" for s
    using apply_claimed_known[of s ?d "n\<lparr>nHolder := engine_worker, nLeaseUntil := zero_time\<rparr>" "wParse w"] n(2) that
    by (auto simp: held_def frame_simps)
  then show "held (eGst (claim_one w now c e)) (nID c)"
    unfolding d using g kind_of_name[of EvClaimed]
    by (simp add: emitApply_def apply_live_def frame_simps graph_apply_def Let_def held_def tab del: event_name.simps)
qed

lemma fold_expire_inv:
  assumes "in_sync w clock base e" "\<forall>en\<in>set ens. map_of (nodes (eGst e)) (nID en) \<noteq> None"
  shows "in_sync w clock base (fold (expire_one w now) ens e) \<and>
    keeps (nID ` set ens) (eGst e) (eGst (fold (expire_one w now) ens e))"
  using assms
proof (induction ens arbitrary: e)
  case (Cons en ens)
  then obtain n where n: "map_of (nodes (eGst e)) (nID en) = Some n" by auto
  note one = expire_one_inv[OF Cons(2) n, of now]
  have "\<forall>x\<in>set ens. map_of (nodes (eGst (expire_one w now en e))) (nID x) \<noteq> None"
    using Cons(3) keeps_dom[OF one(2)] by simp
  from Cons(1)[OF one(1) this] show ?case using keeps_trans[OF one(2)] by fastforce
qed simp

lemma fold_claim_inv:
  assumes "in_sync w clock base e" "distinct (map nID cs)"
    "\<forall>c\<in>set cs. \<exists>n. map_of (nodes (eGst e)) (nID c) = Some n \<and> nStatus n = StDeclared"
  shows "in_sync w clock base (fold (claim_one w now) cs e) \<and>
    keeps (nID ` set cs) (eGst e) (eGst (fold (claim_one w now) cs e)) \<and>
    (\<forall>c\<in>set cs. held (eGst (fold (claim_one w now) cs e)) (nID c))"
  using assms
proof (induction cs arbitrary: e)
  case (Cons c cs)
  then obtain n where n: "map_of (nodes (eGst e)) (nID c) = Some n" "nStatus n = StDeclared" by auto
  note one = claim_one_inv[OF Cons(2) n, of now]
  let ?e1 = "claim_one w now c e"
  have fresh: "nID c \<notin> nID ` set cs" using Cons(3) by simp
  have "\<forall>x\<in>set cs. \<exists>m. map_of (nodes (eGst ?e1)) (nID x) = Some m \<and> nStatus m = StDeclared"
  proof
    fix x assume x: "x \<in> set cs"
    then obtain m where m: "map_of (nodes (eGst e)) (nID x) = Some m" "nStatus m = StDeclared" using Cons(4) by auto
    have "nID x \<notin> {nID c}" using fresh x by (metis imageI singletonD)
    from keeps_node[OF one(2) this m(1)] show "\<exists>m. map_of (nodes (eGst ?e1)) (nID x) = Some m \<and> nStatus m = StDeclared"
      using m(2) by (metis core_eq_iff)
  qed
  with Cons(1)[OF one(1)] Cons(3) have ih: "in_sync w clock base (fold (claim_one w now) cs ?e1)"
    "keeps (nID ` set cs) (eGst ?e1) (eGst (fold (claim_one w now) cs ?e1))"
    "\<forall>x\<in>set cs. held (eGst (fold (claim_one w now) cs ?e1)) (nID x)" by simp_all
  have "keeps (insert (nID c) (nID ` set cs)) (eGst e) (eGst (fold (claim_one w now) cs ?e1))"
    using keeps_trans[OF one(2) ih(2)] by simp
  moreover have "held (eGst (fold (claim_one w now) cs ?e1)) (nID c)"
    using keeps_held[OF ih(2) fresh one(3)] .
  ultimately show ?case using ih by simp
qed simp

lemma claimable_lists:
  assumes "graph_wf s"
  shows "\<forall>n\<in>set (fst (claimableReady 0 now s)).
      map_of (nodes s) (nID n) = Some n \<and> nStatus n = StDeclared \<and> nHolder n = []"
    "\<forall>n\<in>set (snd (claimableReady 0 now s)). map_of (nodes s) (nID n) = Some n \<and> nHolder n \<noteq> []"
    "distinct (map nID (fst (claimableReady 0 now s)))"
proof -
  note o = in_ordered_nodes[OF assms]
  show "\<forall>n\<in>set (fst (claimableReady 0 now s)).
      map_of (nodes s) (nID n) = Some n \<and> nStatus n = StDeclared \<and> nHolder n = []"
    by (auto simp: claimableReady_def Let_def o is_ready_def)
  show "\<forall>n\<in>set (snd (claimableReady 0 now s)). map_of (nodes s) (nID n) = Some n \<and> nHolder n \<noteq> []"
    by (auto simp: claimableReady_def Let_def o lease_expired_def)
  show "distinct (map nID (fst (claimableReady 0 now s)))"
    using ready_ids[OF assms] assms by (simp add: claimableReady_def Let_def graph_wf_def)
qed

definition wave_nodes :: "gotime \<Rightarrow> graph_task_spec \<Rightarrow> graph_state \<Rightarrow> graph_node list" where
  "wave_nodes now sp s = claimableCap (filterNonPlanner (fst (claimableReady 0 now s))) (gMaxParallel sp)"

lemma wave_nodes_facts:
  assumes "graph_wf s"
  shows "\<forall>n\<in>set (wave_nodes now sp s). map_of (nodes s) (nID n) = Some n \<and> nStatus n = StDeclared \<and> nHolder n = []"
    "distinct (map nID (wave_nodes now sp s))"
proof -
  have sub: "set (wave_nodes now sp s) \<subseteq> set (fst (claimableReady 0 now s))"
    by (auto simp: wave_nodes_def claimableCap_def filterNonPlanner_def dest: in_set_takeD)
  show "\<forall>n\<in>set (wave_nodes now sp s). map_of (nodes s) (nID n) = Some n \<and> nStatus n = StDeclared \<and> nHolder n = []"
    using sub claimable_lists(1)[OF assms] by blast
  have "distinct (map nID (filterNonPlanner (fst (claimableReady 0 now s))))"
    using claimable_lists(3)[OF assms] by (simp add: filterNonPlanner_def distinct_map_filter)
  then show "distinct (map nID (wave_nodes now sp s))"
    by (simp add: wave_nodes_def claimableCap_def take_map[symmetric])
qed

lemma assemble_wave_eq:
  "assemble_wave w now sp e =
    (fold (claim_one w now) (wave_nodes now sp (eGst e))
       (fold (expire_one w now) (snd (claimableReady 0 now (eGst e))) e),
     map nID (wave_nodes now sp (eGst e)))"
  by (simp add: assemble_wave_def wave_nodes_def Let_def split: prod.split)

lemma assemble_wave_inv:
  assumes sync: "in_sync w clock base e"
  shows "in_sync w clock base (fst (assemble_wave w now sp e))"
    "keeps UNIV (eGst e) (eGst (fst (assemble_wave w now sp e)))"
    "distinct (snd (assemble_wave w now sp e))"
    "\<forall>k\<in>set (snd (assemble_wave w now sp e)). held (eGst (fst (assemble_wave w now sp e))) k"
proof -
  note wf = in_sync_wf[OF sync]
  let ?ens = "snd (claimableReady 0 now (eGst e))" and ?cs = "wave_nodes now sp (eGst e)"
  let ?e1 = "fold (expire_one w now) ?ens e"
  have "\<forall>en\<in>set ?ens. map_of (nodes (eGst e)) (nID en) \<noteq> None" using claimable_lists(2)[OF wf] by auto
  with fold_expire_inv[OF sync] have x: "in_sync w clock base ?e1" "keeps (nID ` set ?ens) (eGst e) (eGst ?e1)" by blast+
  have "\<exists>n. map_of (nodes (eGst ?e1)) (nID c) = Some n \<and> nStatus n = StDeclared" if c: "c \<in> set ?cs" for c
  proof -
    have m: "map_of (nodes (eGst e)) (nID c) = Some c" "nStatus c = StDeclared" "nHolder c = []"
      using wave_nodes_facts(1)[OF wf] c by auto
    then have "nID c \<notin> nID ` set ?ens" using claimable_lists(2)[OF wf] by fastforce
    from keeps_node[OF x(2) this m(1)] show ?thesis using m(2) by (metis core_eq_iff)
  qed
  with fold_claim_inv[OF x(1) wave_nodes_facts(2)[OF wf, of now sp], of now]
  have c: "in_sync w clock base (fold (claim_one w now) ?cs ?e1)"
    "keeps (nID ` set ?cs) (eGst ?e1) (eGst (fold (claim_one w now) ?cs ?e1))"
    "\<forall>c\<in>set ?cs. held (eGst (fold (claim_one w now) ?cs ?e1)) (nID c)" by blast+
  show "in_sync w clock base (fst (assemble_wave w now sp e))" using c by (simp add: assemble_wave_eq)
  show "keeps UNIV (eGst e) (eGst (fst (assemble_wave w now sp e)))"
    using keeps_mono[OF keeps_trans[OF x(2) c(2)]] by (simp add: assemble_wave_eq)
  show "distinct (snd (assemble_wave w now sp e))" using wave_nodes_facts(2)[OF wf] by (simp add: assemble_wave_eq)
  show "\<forall>k\<in>set (snd (assemble_wave w now sp e)). held (eGst (fst (assemble_wave w now sp e))) k"
    using c by (simp add: assemble_wave_eq)
qed

lemma seedText_inv:
  assumes "in_sync w clock base e" "map_of (nodes (eGst e)) k \<noteq> None"
  shows "in_sync w clock base (fst (seedTextFor w now brief k e))" "eGst (fst (seedTextFor w now brief k e)) = eGst e"
proof -
  show "eGst (fst (seedTextFor w now brief k e)) = eGst e"
    by (simp add: seedTextFor_def Let_def frame_simps split: option.split)
  obtain n where n: "map_of (nodes (eGst e)) k = Some n" using assms(2) by blast
  have "in_sync w clock base (emit w now EvSeeded (seeded_data w k seed) e)" for seed
    by (rule sync_noop[OF assms(1), where kd = EvSeeded and data = "seeded_data w k seed" and now = now])
      (simp_all add: apply_seeded_def on_node_some n frame_simps)
  then show "in_sync w clock base (fst (seedTextFor w now brief k e))"
    using assms(1) by (simp add: seedTextFor_def Let_def split: option.split)
qed

lemma the_node_same [simp]: "the_node n (Some m) = m"
  by (simp add: the_node_def)

lemma held_holder_eq:
  "(\<And>k. map_option nHolder (map_of (nodes s') k) = map_option nHolder (map_of (nodes s) k)) \<Longrightarrow> held s' k = held s k"
  by (simp add: held_def)

lemma start_one_inv:
  assumes sync: "in_sync w clock base e" and h: "held (eGst e) k"
  shows "in_sync w clock base (fst (start_one w now sp brief k e))"
    "keeps {k} (eGst e) (eGst (fst (start_one w now sp brief k e)))"
    "held (eGst (fst (start_one w now sp brief k e))) j = held (eGst e) j"
proof -
  let ?e1 = "fst (seedTextFor w now brief k e)"
  obtain n where n: "map_of (nodes (eGst e)) k = Some n" using held_node[OF h] by blast
  have s1: "in_sync w clock base ?e1" "eGst ?e1 = eGst e" using seedText_inv[OF sync] n by simp_all
  have k: "nID n = k" using wf_nID[OF in_sync_wf[OF sync] n] .
  have d: "fst (start_one w now sp brief k e) = emitApply w now EvStarted (started_data n) ?e1"
    using n s1(2) by (simp add: start_one_def Let_def split: prod.split) (metis fst_conv option.simps(5))
  show "in_sync w clock base (fst (start_one w now sp brief k e))"
    unfolding d using sync_started[OF s1(1)] n s1(2) by simp
  show "keeps {k} (eGst e) (eGst (fst (start_one w now sp brief k e)))"
    unfolding d using keeps_emitApply[of EvStarted "started_data n" k ?e1] k s1(2) by simp
  show "held (eGst (fst (start_one w now sp brief k e))) j = held (eGst e) j"
    unfolding d emitApply_def
    by (rule held_holder_eq) (simp add: holder_live frame_simps s1(2))
qed

lemma release_inv:
  assumes "in_sync w clock base e" "map_of (nodes (eGst e)) k = Some n" "nHolder n \<noteq> []" "jstr data ''nodeId'' = k"
  shows "in_sync w clock base (emitApply w now EvReleased data (e\<lparr>eGst := releaseNode n (eGst e)\<rparr>))"
    "keeps {k} (eGst e) (eGst (emitApply w now EvReleased data (e\<lparr>eGst := releaseNode n (eGst e)\<rparr>)))"
proof -
  show "in_sync w clock base (emitApply w now EvReleased data (e\<lparr>eGst := releaseNode n (eGst e)\<rparr>))"
    by (rule sync_release[OF assms])
  show "keeps {k} (eGst e) (eGst (emitApply w now EvReleased data (e\<lparr>eGst := releaseNode n (eGst e)\<rparr>)))"
    using keeps_claim_release(2)[OF in_sync_wf[OF assms(1)] assms(2)]
      keeps_emitApply[of EvReleased data k "e\<lparr>eGst := releaseNode n (eGst e)\<rparr>" w now] assms(4)
    by (simp add: keeps_trans_same)
qed

lemma in_sync_findings: "in_sync w clock base (e\<lparr>eFindings := fs\<rparr>) = in_sync w clock base e"
    "in_sync w clock base (e\<lparr>eMark := m\<rparr>) = in_sync w clock base e"
  by (simp_all add: in_sync_def seq_room_def)

lemma engine_worker_nonempty [simp]: "engine_worker \<noteq> []"
  by (simp add: engine_worker_def)

lemma collect_one_inv:
  assumes sync: "in_sync w clock base e" and h: "held (eGst e) k"
  shows "in_sync w clock base (collect_one w now sp out0 conclude k e)"
    "keeps {k} (eGst e) (eGst (collect_one w now sp out0 conclude k e))"
proof -
  obtain n where n: "map_of (nodes (eGst e)) k = Some n" using held_node[OF h] by blast
  let ?out = "with_conclusion (wConclude w) n conclude out0" and ?q = "tTurns (with_conclusion (wConclude w) n conclude out0)"
  obtain oc ref fs where c: "collectGraphNode (wFindings w) sp n (tText ?out) (tCalls ?out) (tErr ?out) = (oc, ref, fs)"
    by (rule prod_cases3)
  have d: "collect_one w now sp out0 conclude k e =
      emitApply w now EvReleased (released_data k engine_worker ''wave_done'')
        (with_node k releaseNode (emitApply w now EvResult (with_usage ?q (result_data k oc ref))
           (e\<lparr>eFindings := eFindings e @ fs\<rparr>)))"
    using n c by (simp add: collect_one_def Let_def)
  let ?e1 = "e\<lparr>eFindings := eFindings e @ fs\<rparr>"
  let ?e2 = "emitApply w now EvResult (with_usage ?q (result_data k oc ref)) ?e1"
  have s2: "in_sync w clock base ?e2" using sync_result[of w clock base ?e1 k n now ?q oc ref] sync n by (simp add: in_sync_findings)
  have k2: "keeps {k} (eGst e) (eGst ?e2)" using keeps_emitApply[of EvResult "with_usage ?q (result_data k oc ref)" k ?e1 w now] by simp
  have "held (eGst ?e2) k = held (eGst ?e1) k"
    unfolding emitApply_def by (rule held_holder_eq) (simp add: holder_live frame_simps)
  then obtain m where m: "map_of (nodes (eGst ?e2)) k = Some m" "nHolder m = engine_worker"
    using h held_node by fastforce
  have w2: "with_node k releaseNode ?e2 = ?e2\<lparr>eGst := releaseNode m (eGst ?e2)\<rparr>" by (simp add: with_node_def m)
  have ne: "nHolder m \<noteq> []" using m by simp
  show "in_sync w clock base (collect_one w now sp out0 conclude k e)"
    unfolding d w2 by (rule release_inv(1)[OF s2 m(1) ne]) simp
  show "keeps {k} (eGst e) (eGst (collect_one w now sp out0 conclude k e))"
    unfolding d w2 using k2 release_inv(2)[OF s2 m(1) ne, of "released_data k engine_worker ''wave_done''" now]
    by (simp add: keeps_trans_same)
qed

lemma sync_emit_live:
  assumes sync: "in_sync w clock base e" and kd: "kd \<noteq> EvUnknown"
    and ok: "snd (apply_event (wParse w) now kd (event_name kd) data (eGst e)) = None"
    and d: "apply_event (wParse w) now kd (event_name kd) data' (eGst e) =
              apply_event (wParse w) now kd (event_name kd) data (eGst e)"
  shows "in_sync w clock base (apply_live w now kd data' (emit w now kd data e))"
proof (rule sync_emit[OF sync kd ok])
  let ?e' = "apply_live w now kd data' (emit w now kd data e)"
  show "0 < eSeqNo ?e' \<Longrightarrow> same (fst (apply_event (wParse w) now kd (event_name kd) data (eGst e))) (eGst ?e')"
    using graph_apply_known[OF same_refl _ kd, of "eSeqNo (emit w now kd data e)" "wParse w" now "[]"
        data' "eGst e" "wParse w" now] d
    by (simp add: apply_live_def frame_simps same_applied_def same_def)
  show "graph_wf (eGst ?e')"
    using in_sync_wf[OF sync] by (simp add: apply_live_def wf_graph_apply frame_simps)
qed (simp_all add: frame_simps)

lemma dispatch_start_inv:
  assumes sync: "in_sync w clock base e" and n: "map_of (nodes (eGst e)) (nID c) = Some n" "nID c = nID n"
  shows "in_sync w clock base (fst (dispatch_start w now sp brief c e))"
    "keeps {nID c} (eGst e) (eGst (fst (dispatch_start w now sp brief c e)))"
proof -
  let ?e1 = "fst (seedTextFor w now brief (nID c) e)" and ?d = "[''nodeId'' \<mapsto> JStr (nID c)]"
  have s1: "in_sync w clock base ?e1" "eGst ?e1 = eGst e" using seedText_inv[OF sync] n by simp_all
  have d: "fst (dispatch_start w now sp brief c e) = apply_live w now EvStarted ?d (emit w now EvStarted (started_data c) ?e1)"
    by (simp add: dispatch_start_def Let_def split: prod.split)
  have j: "jstr ?d ''nodeId'' = nID c" by (simp add: jstr_def)
  show "in_sync w clock base (fst (dispatch_start w now sp brief c e))"
    unfolding d by (rule sync_emit_live[OF s1(1)]) (simp_all add: apply_started_known[of _ _ n] n(1) s1(2) j)
  show "keeps {nID c} (eGst e) (eGst (fst (dispatch_start w now sp brief c e)))"
    unfolding d using keeps_apply_live[of EvStarted ?d "nID c" "emit w now EvStarted (started_data c) ?e1" w now] j s1(2)
    by (simp add: frame_simps)
qed

section \<open>Size\<close>

text \<open>
  \<open>run_ok\<close>: in step with the log, node numbers a constant above the node count, the
  node count within \<open>M\<close>, the count of planner runs unchanged.
\<close>

definition run_ok :: "world \<Rightarrow> (int \<Rightarrow> gotime) \<Rightarrow> graph_state \<Rightarrow> int \<Rightarrow> engine \<Rightarrow> bool" where
  "run_ok w clock base M e \<longleftrightarrow> in_sync w clock base e \<and>
    nodeSeq (eGst e) - int (length (nodes (eGst e))) = nodeSeq base - int (length (nodes base)) \<and>
    int (length (nodes (eGst e))) \<le> M \<and> plannerRuns (eGst e) = plannerRuns base"

lemma run_ok_sync: "run_ok w clock base M e \<Longrightarrow> in_sync w clock base e"
  by (simp add: run_ok_def)

lemma keeps_length: "keeps K s s' \<Longrightarrow> length (nodes s') = length (nodes s)"
  by (metis keeps_def length_map)

lemma run_ok_keeps:
  "run_ok w clock base M e \<Longrightarrow> in_sync w clock base e' \<Longrightarrow> keeps K (eGst e) (eGst e') \<Longrightarrow> run_ok w clock base M e'"
  by (simp add: run_ok_def keeps_length) (simp add: keeps_def)

lemma run_ok_same_gst:
  "run_ok w clock base M e \<Longrightarrow> in_sync w clock base e' \<Longrightarrow> eGst e' = eGst e \<Longrightarrow> run_ok w clock base M e'"
  by (simp add: run_ok_def)

definition number_room :: "graph_state \<Rightarrow> int \<Rightarrow> bool" where
  "number_room base M \<longleftrightarrow> nodeSeq base - int (length (nodes base)) + M < 2 ^ 63"

lemma declare_inv:
  assumes ok: "run_ok w clock base M e" and room: "number_room base M" "int (length (nodes (eGst e))) < M"
    and f: "typ \<noteq> []" "intent \<noteq> []"
  shows "run_ok w clock base M (declare_emit w now typ intent by' from e)"
    "length (nodes (eGst (declare_emit w now typ intent by' from e))) = Suc (length (nodes (eGst e)))"
proof -
  note sync = run_ok_sync[OF ok] and wf = in_sync_wf[OF run_ok_sync[OF ok]]
  have r: "nodeSeq (eGst e) < 2 ^ 63 - 1" using ok room by (simp add: run_ok_def number_room_def)
  have l: "length (AList.update (node_id (nodeSeq (eGst e) + 1)) n (nodes (eGst e))) = Suc (length (nodes (eGst e)))" for n
    using arg_cong[OF keys_update_fresh[OF fresh_number(3)[OF wf r], of n], of length] by simp
  have g: "eGst (declare_emit w now typ intent by' from e) = snd (declare_node now typ intent by' from (eGst e))"
    by (simp add: declare_emit_def Let_def frame_simps split: prod.split)
  show len: "length (nodes (eGst (declare_emit w now typ intent by' from e))) = Suc (length (nodes (eGst e)))"
    unfolding g declare_node_eq[OF wf r] by (simp add: Let_def put_node_def l)
  have "nodeSeq (eGst (declare_emit w now typ intent by' from e)) = nodeSeq (eGst e) + 1"
    "plannerRuns (eGst (declare_emit w now typ intent by' from e)) = plannerRuns (eGst e)"
    unfolding g declare_node_eq[OF wf r] by (simp_all add: Let_def put_node_def)
  with len sync_declare[OF sync f r] ok room(2) show "run_ok w clock base M (declare_emit w now typ intent by' from e)"
    by (simp add: run_ok_def)
qed

lemma validateIntent_ok:
  assumes "validateIntent sp st it = []"
  shows "type_allowed sp (piType it)" "TrimSpace (piIntent it) \<noteq> []" "int (length (nodes st)) < gMaxNodes sp"
    "\<forall>f\<in>set (piFrom it). map_of (nodes st) f \<noteq> None"
proof -
  show "type_allowed sp (piType it)" "TrimSpace (piIntent it) \<noteq> []" "int (length (nodes st)) < gMaxNodes sp"
    using assms by (auto simp: validateIntent_def utf8_def split: if_splits)
  show "\<forall>f\<in>set (piFrom it). map_of (nodes st) f \<noteq> None"
    using assms by (auto simp: validateIntent_def utf8_def find_None_iff split: if_splits option.splits)
qed

lemma declare_intents_inv:
  assumes "run_ok w clock base M (fst acc)" "number_room base M" "gMaxNodes sp \<le> M" "\<not> type_allowed sp []"
  shows "run_ok w clock base M (fst (declare_intents w now sp planner its acc))"
  using assms
proof (induction w now sp planner its acc rule: declare_intents.induct)
  case (2 w now sp planner it its e declared rejections)
  show ?case
  proof (cases "validateIntent sp (eGst e) it = []")
    case True
    note v = validateIntent_ok[OF True]
    have "int (length (nodes (eGst e))) < M" "piType it \<noteq> []" "piIntent it \<noteq> []"
      using v 2(5,6) by (auto simp del: not_None_eq)
    from declare_inv(1)[OF _ 2(4) this] 2(3)
    have "run_ok w clock base M (fst (declare_emit w now (piType it) (piIntent it) planner (piFrom it) e,
        declared + 1, rejections))" by simp
    from 2(2)[OF refl _ this 2(4,5,6)] show ?thesis using True by (simp add: Let_def)
  next
    case False
    then show ?thesis using 2(1)[OF refl] 2(3,4,5,6) by (simp add: Let_def)
  qed
qed simp

lemma declareFromPlanner_inv:
  assumes "run_ok w clock base M e" "number_room base M" "gMaxNodes sp \<le> M" "\<not> type_allowed sp []"
  shows "run_ok w clock base M (fst (declareFromPlanner w now sp planner text e))"
proof (cases "wUnmarshal w (extractJSON text)")
  case (Some its)
  obtain e' d r where r: "declare_intents w now sp planner its (e, 0, []) = (e', d, r)" by (rule prod_cases3)
  have "run_ok w clock base M e'"
    using declare_intents_inv[of w clock base M "(e, 0, [])" sp now planner its] assms r by simp
  then show ?thesis using Some r by (simp add: declareFromPlanner_def Let_def)
qed (use assms in \<open>simp add: declareFromPlanner_def\<close>)

text \<open>Nodes are never removed: a planner's own node survives its declarations.\<close>

lemma declare_keeps_node:
  assumes "graph_wf (eGst e)" "nodeSeq (eGst e) < 2 ^ 63 - 1" "map_of (nodes (eGst e)) k \<noteq> None"
  shows "map_of (nodes (eGst (declare_emit w now typ intent by' from e))) k \<noteq> None"
proof -
  have "eGst (declare_emit w now typ intent by' from e) = snd (declare_node now typ intent by' from (eGst e))"
    by (simp add: declare_emit_def Let_def frame_simps split: prod.split)
  then show ?thesis using assms(3) by (simp add: declare_node_eq[OF assms(1,2)] Let_def frame_simps)
qed

lemma declare_intents_keep_node:
  assumes "run_ok w clock base M (fst acc)" "number_room base M" "gMaxNodes sp \<le> M" "\<not> type_allowed sp []"
    "map_of (nodes (eGst (fst acc))) k \<noteq> None"
  shows "map_of (nodes (eGst (fst (declare_intents w now sp planner its acc)))) k \<noteq> None"
  using assms
proof (induction w now sp planner its acc rule: declare_intents.induct)
  case (2 w now sp planner it its e declared rejections)
  show ?case
  proof (cases "validateIntent sp (eGst e) it = []")
    case True
    note v = validateIntent_ok[OF True]
    have m: "int (length (nodes (eGst e))) < M" "piType it \<noteq> []" "piIntent it \<noteq> []"
      using v 2(5,6) by (auto simp del: not_None_eq)
    have ok: "run_ok w clock base M e" using 2(3) by simp
    have r: "nodeSeq (eGst e) < 2 ^ 63 - 1" using ok m(1) 2(4) by (simp add: run_ok_def number_room_def)
    have "run_ok w clock base M (fst (declare_emit w now (piType it) (piIntent it) planner (piFrom it) e,
        declared + 1, rejections))"
      using declare_inv(1)[OF ok 2(4) m] by simp
    moreover have "map_of (nodes (eGst (declare_emit w now (piType it) (piIntent it) planner (piFrom it) e))) k \<noteq> None"
      using 2(7) by (intro declare_keeps_node in_sync_wf[OF run_ok_sync[OF ok]] r) simp
    ultimately show ?thesis using True 2(2)[OF refl] 2(4,5,6) by (simp add: Let_def)
  next
    case False
    then show ?thesis using 2(1)[OF refl] 2(3,4,5,6,7) by (simp add: Let_def)
  qed
qed simp

lemma declareFromPlanner_keeps_node:
  assumes "run_ok w clock base M e" "number_room base M" "gMaxNodes sp \<le> M" "\<not> type_allowed sp []"
    "map_of (nodes (eGst e)) k \<noteq> None"
  shows "map_of (nodes (eGst (fst (declareFromPlanner w now sp planner text e)))) k \<noteq> None"
proof (cases "wUnmarshal w (extractJSON text)")
  case (Some its)
  obtain e' d r where r: "declare_intents w now sp planner its (e, 0, []) = (e', d, r)" by (rule prod_cases3)
  have "map_of (nodes (eGst e')) k \<noteq> None"
    using declare_intents_keep_node[of w clock base M "(e, 0, [])" sp k now planner its] assms r by simp
  then show ?thesis using Some r by (simp add: declareFromPlanner_def Let_def)
qed (use assms in \<open>simp add: declareFromPlanner_def\<close>)

lemma run_ok_fields [simp]: "run_ok w clock base M (e\<lparr>eFindings := fs\<rparr>) = run_ok w clock base M e"
    "run_ok w clock base M (e\<lparr>eMark := m\<rparr>) = run_ok w clock base M e"
  by (simp_all add: run_ok_def in_sync_findings)

lemma finish_result_inv:
  assumes ok: "run_ok w clock base M e" and n: "map_of (nodes (eGst e)) k \<noteq> None"
  shows "run_ok w clock base M (apply_live w now EvResult (result_data k oc ref)
      (emit w now EvResult (with_usage q (result_data k oc ref)) e))"
proof -
  obtain n where n: "map_of (nodes (eGst e)) k = Some n" using n by blast
  have "in_sync w clock base (apply_live w now EvResult (result_data k oc ref)
      (emit w now EvResult (with_usage q (result_data k oc ref)) e))"
    by (rule sync_emit_live[OF run_ok_sync[OF ok]]) (simp_all add: apply_result_known[of _ _ n oc ref] n)
  then show ?thesis using ok keeps_apply_live[of EvResult "result_data k oc ref" k
        "emit w now EvResult (with_usage q (result_data k oc ref)) e" w now]
    by (simp add: frame_simps run_ok_keeps)
qed

lemma dispatch_finish_inv:
  assumes ok: "run_ok w clock base M e" "number_room base M" "gMaxNodes sp \<le> M" "\<not> type_allowed sp []"
    and n: "map_of (nodes (eGst e)) k = Some n"
  shows "run_ok w clock base M (dispatch_finish w now sp out0 conclude k e)"
proof -
  let ?out = "with_conclusion (wConclude w) n conclude out0"
  obtain oc ref0 fs where c: "collectGraphNode (wFindings w) sp n (tText ?out) (tCalls ?out) (tErr ?out) = (oc, ref0, fs)"
    by (rule prod_cases3)
  obtain e1 ref where e1: "(if is_planner n \<and> oc = OCompleted
      then declareFromPlanner w now sp k (tText ?out) e else (e, ref0)) = (e1, ref)" by (rule prod.exhaust)
  have d: "dispatch_finish w now sp out0 conclude k e = apply_live w now EvResult (result_data k oc ref)
      (emit w now EvResult (with_usage (tTurns ?out) (result_data k oc ref)) (e1\<lparr>eFindings := eFindings e1 @ fs\<rparr>))"
    using n c e1 by (simp add: dispatch_finish_def Let_def)
  have "run_ok w clock base M e1 \<and> map_of (nodes (eGst e1)) k \<noteq> None"
    using e1 ok n declareFromPlanner_inv[OF ok, of now k "tText ?out"]
      declareFromPlanner_keeps_node[OF ok, of k now k "tText ?out"]
    by (auto split: if_splits)
  then show ?thesis unfolding d by (intro finish_result_inv) simp_all
qed

section \<open>Steps\<close>

lemma emit_noop:
  assumes ok: "run_ok w clock base M e" and kd: "kd \<in> {EvPlanTriggered, EvConverged, EvPaused}"
  shows "run_ok w clock base M (emit w now kd data e)"
proof -
  have "in_sync w clock base (emit w now kd data e)"
  proof (rule sync_noop[OF run_ok_sync[OF ok], where kd = kd and data = data and now = now])
    show "\<exists>g. apply_event (wParse w) now kd (event_name kd) data (eGst e) = (g, None) \<and> same g (eGst e)"
      using kd by (auto simp: apply_plan_triggered_def apply_paused_def split: option.split)
  qed (use kd in \<open>auto simp: frame_simps\<close>)
  then show ?thesis using ok by (simp add: run_ok_same_gst frame_simps)
qed

lemma drained_inv:
  assumes ok: "run_ok w clock base M e" "number_room base M" "gMaxNodes sp \<le> M"
  shows "run_ok w clock base M (snd (drained w now sp e))"
proof -
  have "run_ok w clock base M (emit w now EvConverged d e)" for d using ok(1) by (rule emit_noop) simp
  moreover have "run_ok w clock base M (declare_emit w now ''planner'' replan_intent ''pack'' f
      (emit w now EvPlanTriggered d (e\<lparr>eMark := m\<rparr>)))" if "int (length (nodes (eGst e))) < gMaxNodes sp" for d f m
    using that ok emit_noop[of w clock base M "e\<lparr>eMark := m\<rparr>" EvPlanTriggered now d]
    by (intro declare_inv(1)) (simp_all add: frame_simps replan_intent_def utf8_def)
  ultimately show ?thesis by (auto simp: drained_def Let_def split: prod.splits)
qed

definition phase_inv :: "phase \<times> engine \<Rightarrow> bool" where
  "phase_inv s = (case fst s of
      Starting ks wave \<Rightarrow> distinct wave \<and> set ks \<subseteq> set wave \<and> (\<forall>k\<in>set wave. held (eGst (snd s)) k)
    | Collecting ks \<Rightarrow> distinct ks \<and> (\<forall>k\<in>set ks. held (eGst (snd s)) k)
    | Dispatched k \<Rightarrow> map_of (nodes (eGst (snd s))) k \<noteq> None
    | _ \<Rightarrow> True)"

definition run_inv :: "world \<Rightarrow> (int \<Rightarrow> gotime) \<Rightarrow> graph_state \<Rightarrow> int \<Rightarrow> phase \<times> engine \<Rightarrow> bool" where
  "run_inv w clock base M s \<longleftrightarrow> run_ok w clock base M (snd s) \<and> phase_inv s"

lemma nextOpen_node:
  "graph_wf s \<Longrightarrow> nextOpen s = Some n \<Longrightarrow> map_of (nodes s) (nID n) = Some n \<and> nStatus n = StDeclared"
  unfolding nextOpen_def find_Some_iff using in_ordered_nodes by force

lemma drained_phase: "phase_inv (drained w now sp e)"
  by (simp add: drained_def Let_def phase_inv_def split: prod.split)

lemma iterate_inv:
  assumes ok: "run_ok w clock base M e" "number_room base M" "gMaxNodes sp \<le> M"
  shows "run_inv w clock base M (iterate w now sp frozen brief e)"
proof (cases frozen)
  case True
  then show ?thesis using emit_noop[OF ok(1), of EvPaused now "paused_data e"]
    by (simp add: iterate_def run_inv_def phase_inv_def)
next
  case False
  obtain e1 wave where a: "assemble_wave w now sp e = (e1, wave)" by (rule prod.exhaust)
  note i = assemble_wave_inv[OF run_ok_sync[OF ok(1)], of now sp, unfolded a fst_conv snd_conv]
  have ok1: "run_ok w clock base M e1" by (rule run_ok_keeps[OF ok(1) i(1,2)])
  show ?thesis
  proof (cases "nextOpen (eGst e1)")
    case None
    then have "iterate w now sp frozen brief e = (if wave \<noteq> [] then (Starting wave wave, e1) else drained w now sp e1)"
      using False a by (simp add: iterate_def)
    moreover have "run_inv w clock base M (drained w now sp e1)"
      using drained_inv[OF ok1 ok(2,3)] drained_phase by (simp add: run_inv_def)
    moreover have "run_inv w clock base M (Starting wave wave, e1)"
      using ok1 i by (simp add: run_inv_def phase_inv_def)
    ultimately show ?thesis by simp
  next
    case (Some n)
    note n = nextOpen_node[OF in_sync_wf[OF i(1)] Some]
    have d: "in_sync w clock base (fst (dispatch_start w now sp brief n e1))"
      "keeps {nID n} (eGst e1) (eGst (fst (dispatch_start w now sp brief n e1)))"
      using dispatch_start_inv[OF i(1), of n n now sp brief] n by simp_all
    have "map_of (nodes (eGst (fst (dispatch_start w now sp brief n e1)))) (nID n) \<noteq> None"
      using keeps_dom[OF d(2), of "nID n"] n by simp
    then show ?thesis using False a i ok1 Some run_ok_keeps[OF ok1 d]
      by (auto simp: iterate_def run_inv_def phase_inv_def)
  qed
qed

text \<open>Human operations leave what the engine holds alone, if they release only what humans hold.\<close>

lemma human_claimed_inv:
  assumes ok: "run_ok w clock base M e" and n: "map_of (nodes (eGst e)) k = Some n" "nStatus n = StDeclared" "nHolder n = []"
  shows "run_ok w clock base M (emitApply w t EvClaimed (claimed_data k ''human'' l) (e\<lparr>eGst := claimNode n ''human'' u (eGst e)\<rparr>)) \<and>
    (\<exists>K. keeps K (eGst e) (eGst (emitApply w t EvClaimed (claimed_data k ''human'' l)
        (e\<lparr>eGst := claimNode n ''human'' u (eGst e)\<rparr>))) \<and> (\<forall>j\<in>K. \<not> held (eGst e) j))"
proof -
  let ?e = "emitApply w t EvClaimed (claimed_data k ''human'' l) (e\<lparr>eGst := claimNode n ''human'' u (eGst e)\<rparr>)"
  note sync = run_ok_sync[OF ok] and wf = in_sync_wf[OF run_ok_sync[OF ok]]
  have s: "in_sync w clock base ?e" by (intro sync_claim[OF sync n(1,2)]) simp_all
  have k: "keeps {k} (eGst e) (eGst ?e)"
    using keeps_trans_same[OF keeps_claim_release(1)[OF wf n(1), of "''human''" u]]
      keeps_emitApply[of EvClaimed "claimed_data k ''human'' l" k "e\<lparr>eGst := claimNode n ''human'' u (eGst e)\<rparr>" w t]
    by simp
  have "\<not> held (eGst e) k" using n by (simp add: held_def engine_worker_def)
  then show ?thesis using run_ok_keeps[OF ok s k] k by blast
qed

lemma human_claim_inv:
  assumes ok: "run_ok w clock base M e"
  shows "run_ok w clock base M (fst (human_claim w now k ttlS e)) \<and>
    (\<exists>K. keeps K (eGst e) (eGst (fst (human_claim w now k ttlS e))) \<and> (\<forall>j\<in>K. \<not> held (eGst e) j))"
  using ok human_claimed_inv[OF ok, of k]
  by (auto simp: human_claim_def Let_def intro: exI[of _ "{}"] split: option.split)

lemma human_release_inv:
  assumes ok: "run_ok w clock base M e" and h: "held_by_human e k"
  shows "run_ok w clock base M (fst (human_release w now k e)) \<and>
    (\<exists>K. keeps K (eGst e) (eGst (fst (human_release w now k e))) \<and> (\<forall>j\<in>K. \<not> held (eGst e) j))"
proof -
  obtain n where n: "map_of (nodes (eGst e)) k = Some n" "nHolder n = ''human''"
    using h by (auto simp: held_by_human_def)
  have ne: "nHolder n \<noteq> []" using n by simp
  have d: "fst (human_release w now k e) = emitApply w now EvReleased (released_data k (nHolder n) ''human_release'')
      (e\<lparr>eGst := releaseNode n (eGst e)\<rparr>)"
    using n by (simp add: human_release_def)
  note r = release_inv[OF run_ok_sync[OF ok] n(1) ne, of "released_data k (nHolder n) ''human_release''" now]
  have "\<not> held (eGst e) k" using n by (simp add: held_def engine_worker_def)
  then show ?thesis unfolding d using r run_ok_keeps[OF ok r] by auto
qed

lemma human_inject_inv:
  assumes ok: "run_ok w clock base M e"
  shows "run_ok w clock base M (fst (human_inject w now k message e)) \<and>
    eGst (fst (human_inject w now k message e)) = eGst e"
proof -
  have g: "eGst (fst (human_inject w now k message e)) = eGst e"
    by (simp add: human_inject_def frame_simps split: option.split)
  have "in_sync w clock base (emit w now EvHumanMessage d e)" if "jstr_ok d ''nodeId'' = Some k" for d
    by (rule sync_noop[OF run_ok_sync[OF ok], where kd = EvHumanMessage and data = d and now = now])
      (simp_all add: apply_human_message_def that frame_simps)
  then have "in_sync w clock base (fst (human_inject w now k message e))"
    using run_ok_sync[OF ok] by (simp add: human_inject_def jstr_ok_def split: option.split)
  then show ?thesis using g run_ok_same_gst[OF ok] by blast
qed

lemma phase_inv_ops:
  assumes "phase_inv (ph, e)" "keeps K (eGst e) (eGst e')" "\<forall>j\<in>K. \<not> held (eGst e) j"
  shows "phase_inv (ph, e')"
proof -
  have h: "held (eGst e') j" if "held (eGst e) j" for j
    using that assms(2,3) by (meson keeps_held)
  show ?thesis
    using assms(1) h keeps_dom[OF assms(2)] by (cases ph) (auto simp: phase_inv_def)
qed

lemma run_step_inv:
  assumes step: "run_step True w sp s s'" and inv: "run_inv w clock base M s"
    and room: "number_room base M" "gMaxNodes sp \<le> M" "\<not> type_allowed sp []"
  shows "run_inv w clock base M s'"
  using step inv
proof (cases rule: run_step.cases)
  case (iterate e now frozen brief)
  then show ?thesis using inv iterate_inv[OF _ room(1,2), of w clock e now frozen brief] by (simp add: run_inv_def)
next
  case (cancel e)
  then show ?thesis using inv by (simp add: run_inv_def phase_inv_def)
next
  case (start k ks wave e now brief)
  have h: "held (eGst e) k" "run_ok w clock base M e" using inv start by (simp_all add: run_inv_def phase_inv_def)
  note i = start_one_inv[OF run_ok_sync[OF h(2)] h(1), of now sp brief]
  show ?thesis using inv start run_ok_keeps[OF h(2) i(1,2)] i(3) by (simp add: run_inv_def phase_inv_def)
next
  case (started wave e)
  then show ?thesis using inv by (simp add: run_inv_def phase_inv_def)
next
  case (collect k ks e now out0 conclude)
  have h: "held (eGst e) k" "run_ok w clock base M e" "distinct (k # ks)" "\<forall>j\<in>set ks. held (eGst e) j"
    using inv collect by (simp_all add: run_inv_def phase_inv_def)
  note i = collect_one_inv[OF run_ok_sync[OF h(2)] h(1), of now sp out0 conclude]
  have "held (eGst (collect_one w now sp out0 conclude k e)) j" if "j \<in> set ks" for j
    using keeps_held[OF i(2), of j] h(3,4) that by (metis distinct.simps(2) singletonD)
  then show ?thesis using collect run_ok_keeps[OF h(2) i(1,2)] h(3) by (simp add: run_inv_def phase_inv_def)
next
  case (collected e)
  then show ?thesis using inv by (simp add: run_inv_def phase_inv_def)
next
  case (dispatched k e now out0 conclude)
  then show ?thesis using inv dispatch_finish_inv[OF _ room] by (auto simp: run_inv_def phase_inv_def)
next
  case (claim ph e now k ttlS)
  then show ?thesis using inv human_claim_inv[of w clock base M e now k ttlS] phase_inv_ops
    by (simp add: run_inv_def) blast
next
  case (release ph e k now)
  then show ?thesis using inv human_release_inv[of w clock base M e k now] phase_inv_ops
    by (simp add: run_inv_def) blast
next
  case (inject ph e now k message)
  then show ?thesis using inv human_inject_inv[of w clock base M e now k message] phase_inv_ops[of ph e "{}"]
    by (simp add: run_inv_def)
qed

section \<open>Start\<close>

lemma fold_declare_inv:
  assumes "run_ok w clock base M e" "number_room base M" "int (length (nodes (eGst e))) + int (length intents) \<le> M"
    "[] \<notin> set intents"
  shows "run_ok w clock base M (fold (\<lambda>i. declare_emit w now ''executor'' i ''pack'' []) intents e)"
  using assms
proof (induction intents arbitrary: e)
  case (Cons i intents)
  have i: "int (length (nodes (eGst e))) < M" "''executor'' \<noteq> []" "i \<noteq> []" using Cons(4,5) by auto
  note d = declare_inv[OF Cons(2,3) i, of now "''pack''" "[]"]
  show ?case using Cons(1)[OF d(1) Cons(3)] Cons(4,5) d(2) by simp
qed simp

lemma initialize_inv:
  assumes ok: "run_ok w clock base M e" "number_room base M" "1 \<le> M" "int (length (gSeedIntents sp)) \<le> M"
    "[] \<notin> set (gSeedIntents sp)"
  shows "run_ok w clock base M (initialize w now sp e)"
proof -
  have "run_ok w clock base M (declare_seeds w now (gSeedIntents sp) e)" if "nodes (eGst e) = []"
    unfolding declare_seeds_def using that assms by (intro fold_declare_inv) simp_all
  moreover have "run_ok w clock base M (declare_emit w now ''planner'' initial_intent ''pack'' []
      (emit w now EvPlanTriggered d e))" if "nodes (eGst e) = []" for d
    using that assms emit_noop[OF ok(1), of EvPlanTriggered now d]
    by (intro declare_inv(1)) (simp_all add: frame_simps initial_intent_def utf8_def)
  ultimately show ?thesis using ok(1) by (simp add: initialize_def Let_def)
qed

lemma new_engine_ok:
  assumes "graph_wf base" "0 \<le> lastSeq base" "int (length (nodes base)) \<le> M"
  shows "run_ok w clock base M (new_engine base)"
  using assms by (simp add: run_ok_def in_sync_def new_engine_def)

lemma normalize_fields [simp]:
  "gSeedIntents (normalize sp) = gSeedIntents sp"
  "gMaxNodes (normalize sp) = (if gMaxNodes sp \<le> 0 then 24 else gMaxNodes sp)"
  by (simp_all add: normalize_def or_default_def graphMaxNodesDefault_def)

lemma normalize_types:
  "type_allowed (normalize sp) ty \<longleftrightarrow> (if gAllowedTypes sp = [] then ty \<in> {''planner'', ''executor'', ''verifier''} else type_allowed sp ty)"
  by (auto simp: normalize_def type_allowed_def)

lemma handlers_lastSeq: "0 \<le> lastSeq st \<Longrightarrow> 0 \<le> lastSeq (fst (graph_apply pt now env st))"
proof -
  have on: "lastSeq (fst (on_node data f s)) = lastSeq s"
    if "\<And>n. lastSeq (fst (f n s)) = lastSeq s" for data f s
    by (rule on_node_cases) (use that in auto)
  have "lastSeq (fst (apply_event pt now kd ty data s)) = lastSeq s" for kd ty data s
    by (cases kd)
      (simp_all add: handler_defs apply_declared_def apply_human_message_def apply_plan_triggered_def
         apply_paused_def Let_def store_node_def frame_simps on split: option.split)
  then show "0 \<le> lastSeq st \<Longrightarrow> ?thesis" by (simp add: graph_apply_def Let_def count_line_def saw_seq_def)
qed

lemma replay_lines_lastSeq:
  "replay_lines pt clock ls st = Inr st' \<Longrightarrow> 0 \<le> lastSeq st \<Longrightarrow> 0 \<le> lastSeq st'"
proof (induction pt clock ls st rule: replay_lines.induct)
  case (4 pt clock env ls st)
  then show ?case using handlers_lastSeq[of st pt "clock (lines st)" env]
    by (auto split: prod.splits option.splits)
qed auto

lemma recover_none: "\<forall>k\<in>set ks. \<not> running_in st k \<Longrightarrow> recover_in now ks st = st"
  by (induction now ks st rule: recover_in.induct) (auto split: option.split)

text \<open>A resume without orphans starts from the fold of its log.\<close>

lemma clean_resume:
  assumes "ReplayGraphLog pt clock err ls = Inr base" "recoveredNodes base = []"
  shows "replay_lines pt clock ls newGraphState = Inr base" "graph_wf base" "0 \<le> lastSeq base"
proof -
  from assms(1) obtain st0 where r: "replay_lines pt clock ls newGraphState = Inr st0" "graph_wf st0"
    "recoveredNodes st0 = []" "base = recover_in (clock (lines st0)) (order st0) st0"
    by (rule ReplayGraphLog_cases)
  have "filter (running_in st0) (order st0) = []"
    using r assms(2) by (simp add: recover_in_recovered graph_wf_def)
  then have "base = st0" using r(4) by (simp add: recover_none filter_empty_conv)
  then show "replay_lines pt clock ls newGraphState = Inr base" "graph_wf base" "0 \<le> lastSeq base"
    using r replay_lines_lastSeq[OF r(1)] by (simp_all add: newGraphState_def)
qed

definition run_cap :: "graph_task_spec \<Rightarrow> graph_state \<Rightarrow> int" where
  "run_cap sp base = max (max (gMaxNodes (normalize sp)) (int (length (nodes base))))
     (max 1 (int (length (gSeedIntents sp))))"

text \<open>A specification whose declarations always make valid lines, and numbers that last.\<close>

definition spec_ok :: "graph_task_spec \<Rightarrow> graph_state \<Rightarrow> bool" where
  "spec_ok sp base \<longleftrightarrow> number_room base (run_cap sp base) \<and> \<not> type_allowed sp [] \<and> [] \<notin> set (gSeedIntents sp)"

lemma run_reaches_inv:
  assumes reach: "run_reaches True w now sp base s"
    and base: "graph_wf base" "0 \<le> lastSeq base" and ok: "spec_ok sp base"
  shows "run_inv w clock base (run_cap sp base) s"
proof -
  let ?M = "run_cap sp base"
  have e: "run_ok w clock base ?M (new_engine base)"
    by (rule new_engine_ok[OF base]) (simp add: run_cap_def)
  have "run_ok w clock base ?M (initialize w now (normalize sp) (new_engine base))"
    using ok by (intro initialize_inv[OF e]) (simp_all add: spec_ok_def run_cap_def)
  then have start: "run_inv w clock base ?M (run_start w now sp base)"
    using e by (simp add: run_start_def run_inv_def phase_inv_def)
  have room: "number_room base ?M" "gMaxNodes (normalize sp) \<le> ?M" "\<not> type_allowed (normalize sp) []"
    using ok by (simp_all add: spec_ok_def run_cap_def normalize_types)
  from reach[unfolded run_reaches_def] show ?thesis
    by (induction rule: rtranclp_induct) (auto intro: start run_step_inv[OF _ _ room])
qed

text \<open>The lines a run writes are numbered without gap or repetition, from the last number
  of the log it resumed.\<close>

theorem emitted_seqs_consecutive:
  assumes "ReplayGraphLog (wParse w) clock err ls = Inr base" "recoveredNodes base = []" "spec_ok sp base"
    and "run_reaches True w now sp base (ph, e)" "lastSeq base + int (length (eOut e)) < 2 ^ 63"
    and "i < length (eOut e)"
  shows "eSeq (eOut e ! i) = lastSeq base + 1 + int i"
proof -
  note b = clean_resume[OF assms(1,2)]
  have "in_sync w clock base e"
    using run_reaches_inv[OF assms(4) b(2,3) assms(3)] by (simp add: run_inv_def run_ok_def)
  then show ?thesis using assms(5,6) by (simp add: in_sync_def seq_room_def)
qed

text \<open>The planner budget is not enforced within a run: the counter the replan guard
  compares with \<open>MaxPlannerReplans\<close> keeps the value it had at the start, because
  \<open>plan_triggered\<close> is emitted and never folded.\<close>

theorem planner_runs_never_counted:
  assumes "ReplayGraphLog (wParse w) clock err ls = Inr base" "recoveredNodes base = []" "spec_ok sp base"
    and "run_reaches True w now sp base s"
  shows "plannerRuns (eGst (snd s)) = plannerRuns base"
proof -
  note b = clean_resume[OF assms(1,2)]
  show ?thesis using run_reaches_inv[OF assms(4) b(2,3) assms(3)] by (simp add: run_inv_def run_ok_def)
qed

section \<open>Witnesses\<close>

lemma demo_spec_ok: "spec_ok demo_spec newGraphState"
  by (simp add: spec_ok_def demo_spec_def number_room_def run_cap_def type_allowed_def newGraphState_def)

theorem emitted_seqs_consecutive_witness: "eSeq (eOut demo_e3 ! 4) = 5"
  using emitted_seqs_consecutive[OF demo_start demo_run_facts(1) demo_spec_ok demo_reaches, of 4] demo_run_facts by simp

theorem planner_runs_never_counted_witness: "plannerRuns (eGst demo_e3) = plannerRuns newGraphState"
  using planner_runs_never_counted[OF demo_start demo_run_facts(1) demo_spec_ok demo_reaches] by simp

text \<open>A human release of a running node poisons the log: the operation checks that the
  node is held, not by whom nor that it is still open, so the engine's own release at the end
  of the wave is the second in the log, and the log no longer replays. The live loop
  ignores the same error.\<close>

theorem human_release_breaks_replay:
  "run_reaches False demo_world 5 demo_spec newGraphState (Collecting [], demo_poisoned) \<and>
   snd (human_release demo_world 8 ''n001'' demo_e2) = None \<and>
   ReplayGraphLog (wParse demo_world) (\<lambda>_. 0) False (map EnvLine (eOut demo_poisoned)) =
     Inl (ReleasedUnclaimed 6 ''n001'')"
  using demo_poisoned_reaches demo_released demo_poisoned_log by simp

end
