(* ===== verification/GraphWindows.thy ===== *)
theory GraphWindows imports Main GraphRefine begin

text \<open>
  Runs in which the human operations are cut into their windows. In a calm run the log replays to the live
  graph whenever no operation is pending; in any run the graph stays within its cap; and one run in which a wave
  takes a node between the windows of a release writes a log that no resume can read.
\<close>

section \<open>Calm runs\<close>











section \<open>Size, whatever interrupts what\<close>

text \<open>What declares nothing keeps the node table: the same keys, the same counter.\<close>

definition stays :: "engine \<Rightarrow> engine \<Rightarrow> bool" where
  "stays e e' \<longleftrightarrow> (graph_wf (eGst e) \<longrightarrow> graph_wf (eGst e') \<and> keeps UNIV (eGst e) (eGst e'))"

named_theorems staying \<open>operations that declare nothing\<close>

lemma stays_same [staying]: "eGst e' = eGst e \<Longrightarrow> stays e e'"
  by (simp add: stays_def)

lemma stays_trans: "stays e e' \<Longrightarrow> stays e' e'' \<Longrightarrow> stays e e''"
  by (auto simp: stays_def intro: keeps_trans_same)

lemma stays_live [staying]: "live_kind kd \<Longrightarrow> stays e (apply_live w now kd d e)"
  using keeps_mono[OF keeps_apply_live[of kd d _ e w now], where L = UNIV]
  by (simp add: stays_def apply_live_def wf_graph_apply)

lemma stays_emit [staying]: "stays e (emit w now kd d e)"
  by (rule stays_same) (simp add: frame_simps)

lemma stays_emitApply [staying]: "live_kind kd \<Longrightarrow> stays e (emitApply w now kd d e)"
  unfolding emitApply_def by (rule stays_trans[OF stays_emit stays_live])

lemma stays_claimed [staying]: "map_of (nodes (eGst e)) k = Some n \<Longrightarrow> stays e (e\<lparr>eGst := claimNode n h l (eGst e)\<rparr>)"
  using keeps_mono[OF keeps_claim_release(1), of "eGst e" k n, where L = UNIV] wf_claim_release[of "eGst e" k n]
  by (simp add: stays_def)

lemma stays_freed [staying]: "map_of (nodes (eGst e)) k = Some n \<Longrightarrow> stays e (e\<lparr>eGst := releaseNode n (eGst e)\<rparr>)"
  using keeps_mono[OF keeps_claim_release(2), of "eGst e" k n, where L = UNIV] wf_claim_release[of "eGst e" k n]
  by (simp add: stays_def)

lemma stays_with_node [staying]:
  "stays e (with_node k (\<lambda>m. claimNode m h l) e)" "stays e (with_node k releaseNode e)"
  by (auto simp: with_node_def stays_claimed stays_freed stays_same split: option.split)

lemma stays_fold: "(\<And>x e. stays e (f x e)) \<Longrightarrow> stays e (fold f xs e)"
  by (induction xs arbitrary: e) (auto intro: stays_same stays_trans)

lemma stays_wave [staying]: "stays e (fst (assemble_wave w now sp e))"
  unfolding assemble_wave_eq fst_conv
  by (intro stays_trans[OF stays_fold stays_fold])
    (auto simp: expire_one_def claim_one_def intro!: stays_trans[OF stays_emitApply stays_with_node(2)]
       stays_trans[OF stays_with_node(1) stays_emitApply])

lemma stays_seed [staying]: "stays e (fst (seedTextFor w now brief k e))"
  by (rule stays_same) (simp add: seedTextFor_def Let_def frame_simps split: option.split)

lemma stays_start_one [staying]: "stays e (fst (start_one w now sp brief k e))"
  using stays_seed[of e w now brief k]
  by (auto simp: start_one_def Let_def intro: stays_trans[OF _ stays_emitApply] split: prod.split option.split)

lemma stays_dispatch [staying]: "stays e (fst (dispatch_start w now sp brief n e))"
  using stays_seed[of e w now brief "nID n"]
  by (auto simp: dispatch_start_def Let_def intro: stays_trans[OF _ stays_trans[OF stays_emit stays_live]] split: prod.split)

lemma stays_collect [staying]: "stays e (collect_one w now sp out0 conclude k e)"
proof (cases "map_of (nodes (eGst e)) k")
  case (Some n)
  have "stays e (emitApply w now EvReleased d (with_node k releaseNode (emitApply w now EvResult d' (e\<lparr>eFindings := fs\<rparr>))))"
    for d d' fs
    by (rule stays_trans[OF stays_trans[OF stays_trans[OF stays_same stays_emitApply] stays_with_node(2)] stays_emitApply])
      simp_all
  then show ?thesis using Some by (simp add: collect_one_def Let_def split: prod.split)
qed (simp add: collect_one_def stays_same)

lemma stays_human [staying]:
  "stays e (fst (human_claim w now k ttlS e))" "stays e (fst (human_release w now k e))"
  "stays e (fst (human_inject w now k message e))"
proof -
  have c: "stays e (emitApply w now EvClaimed d (e\<lparr>eGst := claimNode n h l (eGst e)\<rparr>))"
    and r: "stays e (emitApply w now EvReleased d (e\<lparr>eGst := releaseNode n (eGst e)\<rparr>))"
    if "map_of (nodes (eGst e)) k = Some n" for n d h l
    using that by (auto intro: stays_trans[OF stays_claimed stays_emitApply] stays_trans[OF stays_freed stays_emitApply])
  show "stays e (fst (human_claim w now k ttlS e))" "stays e (fst (human_release w now k e))"
    "stays e (fst (human_inject w now k message e))"
    using c r by (auto simp: human_claim_def human_release_def human_inject_def Let_def stays_same stays_emit split: option.split)
qed

text \<open>\<open>sized\<close>: well formed, with at most \<open>M\<close> nodes, the counter of nodes ahead of their number by the same.\<close>

definition sized :: "graph_state \<Rightarrow> int \<Rightarrow> engine \<Rightarrow> bool" where
  "sized base M e \<longleftrightarrow> graph_wf (eGst e) \<and> int (length (nodes (eGst e))) \<le> M \<and>
    nodeSeq (eGst e) - int (length (nodes (eGst e))) = nodeSeq base - int (length (nodes base))"

lemma sized_stays: "sized base M e \<Longrightarrow> stays e e' \<Longrightarrow> sized base M e'"
  using keeps_length[of UNIV "eGst e" "eGst e'"] by (auto simp: sized_def stays_def keeps_def)

lemma sized_same: "sized base M e \<Longrightarrow> eGst e' = eGst e \<Longrightarrow> sized base M e'"
  by (simp add: sized_def)

lemma sized_declare:
  assumes s: "sized base M e" and room: "number_room base M" "int (length (nodes (eGst e))) < M"
  shows "sized base M (declare_emit w now typ intent by' from e)"
    "length (nodes (eGst (declare_emit w now typ intent by' from e))) = Suc (length (nodes (eGst e)))"
proof -
  have wf: "graph_wf (eGst e)" and r: "nodeSeq (eGst e) < 2 ^ 63 - 1"
    using s room by (auto simp: sized_def number_room_def)
  have l: "length (AList.update (node_id (nodeSeq (eGst e) + 1)) n (nodes (eGst e))) = Suc (length (nodes (eGst e)))" for n
    using arg_cong[OF keys_update_fresh[OF fresh_number(3)[OF wf r], of n], of length] by simp
  have g: "eGst (declare_emit w now typ intent by' from e) = snd (declare_node now typ intent by' from (eGst e))"
    by (simp add: declare_emit_def Let_def frame_simps split: prod.split)
  show len: "length (nodes (eGst (declare_emit w now typ intent by' from e))) = Suc (length (nodes (eGst e)))"
    unfolding g declare_node_eq[OF wf r] by (simp add: Let_def put_node_def l)
  have "nodeSeq (eGst (declare_emit w now typ intent by' from e)) = nodeSeq (eGst e) + 1"
    unfolding g declare_node_eq[OF wf r] by (simp add: Let_def put_node_def)
  with len declare_node_wf[OF wf r] s room(2) g show "sized base M (declare_emit w now typ intent by' from e)"
    by (simp add: sized_def)
qed

lemma sized_intents:
  assumes "sized base M (fst acc)" "number_room base M" "gMaxNodes sp \<le> M"
  shows "sized base M (fst (declare_intents w now sp planner its acc))"
  using assms
proof (induction w now sp planner its acc rule: declare_intents.induct)
  case (2 w now sp planner it its e declared rejections)
  show ?case
  proof (cases "validateIntent sp (eGst e) it = []")
    case True
    have "int (length (nodes (eGst e))) < M" using validateIntent_ok(3)[OF True] 2(5) by simp
    then show ?thesis using 2(2)[OF refl _ _ 2(4,5)] sized_declare(1)[OF _ 2(4)] 2(3) True by (simp add: Let_def)
  next
    case False
    then show ?thesis using 2(1)[OF refl] 2(3,4,5) by (simp add: Let_def)
  qed
qed simp

lemma sized_planner:
  assumes "sized base M e" "number_room base M" "gMaxNodes sp \<le> M"
  shows "sized base M (fst (declareFromPlanner w now sp planner text e))"
proof (cases "wUnmarshal w (extractJSON text)")
  case (Some its)
  obtain e' d r where r: "declare_intents w now sp planner its (e, 0, []) = (e', d, r)" by (rule prod_cases3)
  have "sized base M e'" using sized_intents[of base M "(e, 0, [])" sp w now planner its] assms r by simp
  then show ?thesis using Some r by (simp add: declareFromPlanner_def Let_def)
qed (use assms in \<open>simp add: declareFromPlanner_def\<close>)

lemma sized_finish:
  assumes s: "sized base M e" "number_room base M" "gMaxNodes sp \<le> M"
  shows "sized base M (dispatch_finish w now sp out0 conclude k e)"
proof -
  have r: "sized base M e1 \<Longrightarrow> sized base M (apply_live w now EvResult d (emit w now EvResult d' (e1\<lparr>eFindings := fs\<rparr>)))"
    for e1 d d' fs
    by (erule sized_stays) (intro stays_trans[OF _ stays_trans[OF stays_emit stays_live]] stays_same, simp_all)
  show ?thesis
    using s r sized_planner[OF s]
    by (auto simp: dispatch_finish_def Let_def split: option.split prod.split) (metis fst_conv)
qed

lemma sized_drained:
  assumes s: "sized base M e" "number_room base M" "gMaxNodes sp \<le> M"
  shows "sized base M (snd (drained w now sp e))"
proof -
  have "sized base M (declare_emit w now ''planner'' replan_intent ''pack'' f
      (emit w now EvPlanTriggered d (e\<lparr>eMark := m\<rparr>)))" if "int (length (nodes (eGst e))) < gMaxNodes sp" for d f m
    using that s by (intro sized_declare(1)) (simp_all add: frame_simps sized_same[of base M e])
  then show ?thesis
    using sized_stays[OF s(1) stays_emit] by (auto simp: drained_def Let_def split: prod.splits)
qed

lemma sized_iterate:
  assumes s: "sized base M e" "number_room base M" "gMaxNodes sp \<le> M"
  shows "sized base M (snd (iterate w now sp frozen brief e))"
proof -
  obtain e1 wave where a: "assemble_wave w now sp e = (e1, wave)" by (rule prod.exhaust)
  have s1: "sized base M e1" using sized_stays[OF s(1) stays_wave[of e w now sp]] a by simp
  show ?thesis
    using s1 sized_drained[OF s1 s(2,3)] sized_stays[OF s1 stays_dispatch] sized_stays[OF s(1) stays_emit]
    by (simp add: iterate_def a split: option.split)
qed

lemma sized_step:
  assumes "run_step calm w sp s s'" "sized base M (snd s)" "number_room base M" "gMaxNodes sp \<le> M"
  shows "sized base M (snd s')"
  using assms(1,2)
  by cases (auto simp: sized_iterate sized_finish assms(3,4) intro: sized_stays stays_start_one stays_collect stays_human)

definition pending_live :: "pending \<Rightarrow> bool" where
  "pending_live p \<longleftrightarrow> (case p of ToWrite kd d \<Rightarrow> live_kind kd | ToFold kd d \<Rightarrow> live_kind kd)"

lemma sized_window_step:
  assumes "window_step calm w sp s s'" "sized base M (snd (fst s))" "\<forall>p\<in>set (snd s). pending_live p"
    "number_room base M" "gMaxNodes sp \<le> M"
  shows "sized base M (snd (fst s')) \<and> (\<forall>p\<in>set (snd s'). pending_live p)"
  using assms(1,2,3)
proof cases
  case (whole s1 s2 ps)
  then show ?thesis using assms(2,3) sized_step[OF _ _ assms(4,5)] by auto
next
  case (claim_opens ph ps now k ttlS e lease p e')
  then show ?thesis using assms(2,3)
    by (auto simp: claim_open_def Let_def pending_live_def intro: sized_stays stays_claimed split: option.splits if_splits)
next
  case (release_opens ph ps e k p e')
  then show ?thesis using assms(2,3)
    by (auto simp: release_open_def Let_def pending_live_def intro: sized_stays stays_freed split: option.splits if_splits)
next
  case (goes_on now p e e' qs ph ps rs)
  then have "pending_live p" "sized base M e" using assms(2,3) by auto
  then have "sized base M e'" "\<forall>q\<in>set qs. pending_live q"
    using goes_on(3) by (cases p; auto simp: pending_live_def intro: sized_stays stays_emit stays_live)+
  then show ?thesis using goes_on assms(3) by auto
qed

lemma sized_start:
  assumes wf: "graph_wf base" and len: "int (length (nodes base)) \<le> M" "nodes base = [] \<longrightarrow> int (length (gSeedIntents sp)) \<le> M"
    and M: "1 \<le> M" "number_room base M"
  shows "sized base M (snd (run_start w now sp base))"
proof -
  have e: "sized base M (new_engine base)" using wf len by (simp add: sized_def new_engine_def)
  have seeds: "sized base M (fold (\<lambda>i. declare_emit w now ''executor'' i ''pack'' []) is e)"
    if "sized base M e" "int (length (nodes (eGst e))) + int (length is) \<le> M" for "is" e
    using that
  proof (induction "is" arbitrary: e)
    case (Cons i js)
    have "int (length (nodes (eGst e))) < M" using Cons(3) by simp
    note d = sized_declare[OF Cons(2) M(2) this]
    show ?case using Cons(1)[OF d(1)] Cons(3) d(2) by simp
  qed simp
  have "sized base M (declare_emit w now ''planner'' initial_intent ''pack'' [] (emit w now EvPlanTriggered d (new_engine base)))"
    if "nodes base = []" for d
    using that M sized_stays[OF e stays_emit] by (intro sized_declare(1)) (simp_all add: frame_simps new_engine_def)
  then have "sized base M (initialize w now (normalize sp) (new_engine base))"
    using seeds[OF e] e len(2)
    by (auto simp: initialize_def declare_seeds_def Let_def new_engine_def sized_def)
  then show ?thesis using e by (simp add: run_start_def)
qed

text \<open>C6. The graph stays within \<open>MaxNodes\<close> (24 when the specification gives none). Let the log a run resumes from hold no
  more nodes than that, the seeds of a fresh graph be no more than that, and the numbers of nodes fit in 63 bits. Then,
  whatever planners ask for and however human operations interleave, interrupted between their windows or
  not, no run ever holds more, and no node is declared twice. A log or seeds beyond the cap are not cut down by the code.\<close>

theorem node_cap_respected:
  assumes "ReplayGraphLog (wParse w) clock err ls = Inr base" "window_reaches calm w now sp base ((ph, e), ps)"
    and "cap = (if gMaxNodes sp \<le> 0 then 24 else gMaxNodes sp)"
    and "int (length (nodes base)) \<le> cap" "nodes base = [] \<longrightarrow> int (length (gSeedIntents sp)) \<le> cap"
    and "number_room base cap"
  shows "int (length (nodes (eGst e))) \<le> cap \<and> distinct (order (eGst e))"
proof -
  have start: "sized base cap (snd (run_start w now sp base))"
    using ReplayGraphLog_wf[OF assms(1)] assms(3-6) by (intro sized_start) auto
  have "sized base cap (snd (fst ((ph, e), ps))) \<and> (\<forall>p\<in>set (snd ((ph, e), ps)). pending_live p)"
    using assms(2)[unfolded window_reaches_def]
  proof (induction rule: rtranclp_induct)
    case base
    show ?case using start by simp
  next
    case (step s s')
    then show ?case using sized_window_step[OF step(2) _ _ assms(6)] assms(3) by simp
  qed
  then show ?thesis by (simp add: sized_def graph_wf_def)
qed

section \<open>A release that races with a wave\<close>

definition race_node :: graph_node where
  "race_node = (demo_node StDeclared ''human'' [] 0 5)\<lparr>nLeaseUntil := 6 + 1800 * ns_second\<rparr>"

text \<open>A human has claimed the seed and releases it; the wave takes it before the release is written.\<close>

definition race_claimed :: engine where
  "race_claimed = demo_e0\<lparr>eGst := demo_gst race_node 1 2, eSeqNo := 2,
     eOut := eOut demo_e0 @ [demo_line EvClaimed 2 (claimed_data ''n001'' ''human'' ''t'')]\<rparr>"

definition race_open :: engine where
  "race_open = race_claimed\<lparr>eGst := demo_gst (demo_node StDeclared [] [] 0 5) 1 2\<rparr>"

definition race_wave :: engine where
  "race_wave = race_open\<lparr>eGst := demo_gst (demo_node StDeclared engine_worker [] 0 5) 2 3, eSeqNo := 3,
     eOut := eOut race_open @ [demo_line EvClaimed 3 (holder_data ''n001'' engine_worker)]\<rparr>"

definition race_data :: jmap where
  "race_data = released_data ''n001'' ''human'' ''human_release''"

definition race_folded :: engine where
  "race_folded = race_wave\<lparr>eGst := demo_gst (demo_node StDeclared [] [] 0 5) 3 4, eSeqNo := 4,
     eOut := eOut race_wave @ [demo_line EvReleased 4 race_data]\<rparr>"

definition race_started :: engine where
  "race_started = race_folded\<lparr>eGst := demo_gst (demo_node StRunning [] [] 0 8) 4 5, eSeqNo := 5,
     eOut := eOut race_folded @ [demo_line EvStarted 5 (started_data (demo_node StDeclared [] [] 0 5))]\<rparr>"

definition race_end :: engine where
  "race_end = race_started\<lparr>eGst := demo_gst (demo_node StDeclared [] demo_ref 1 9) 6 7, eSeqNo := 7,
     eOut := eOut race_started @ [demo_line EvResult 6 (with_usage 1 (result_data ''n001'' OIndeterminate demo_ref)),
       demo_line EvReleased 7 (released_data ''n001'' engine_worker ''wave_done'')]\<rparr>"

lemmas race_defs = race_claimed_def race_open_def race_wave_def race_folded_def race_started_def race_end_def

lemma race_claimed: "human_claim demo_world 6 ''n001'' 0 demo_e0 = (race_claimed, Inr ''t'')"
  by (simp add: human_claim_def race_defs demo_defs race_node_def demo_world_def step_defs claimNode_def apply_claimed_def
      jstr_def claimed_data_def holder_data_def ns_second_def del: event_name.simps)

lemma race_open: "release_open ''n001'' race_claimed = Inr (ToWrite EvReleased race_data, race_open)"
  by (simp add: release_open_def race_defs demo_defs race_node_def race_data_def releaseNode_def put_node_def)

lemma race_wave: "iterate demo_world 7 (normalize demo_spec) False None race_open = (Starting [''n001''] [''n001''], race_wave)"
  by (simp add: race_defs demo_defs demo_world_simps iterate_def assemble_wave_def claimableReady_def ordered_nodes_def
     map_filter_simps is_ready_def deps_ready_def lease_expired_def filterNonPlanner_def claimableCap_def claim_one_def
     claimNode_def apply_claimed_def step_defs jstr_def holder_data_def del: event_name.simps)

lemma race_released: "apply_live demo_world 8 EvReleased race_data (emit demo_world 8 EvReleased race_data race_wave) = race_folded"
  by (simp add: race_defs demo_defs demo_world_simps apply_released_def clear_holder_def step_defs jstr_def race_data_def
      released_data_def holder_data_def engine_worker_def del: event_name.simps)

lemma race_started: "fst (start_one demo_world 8 (normalize demo_spec) None ''n001'' race_folded) = race_started"
  by (simp add: race_defs demo_defs demo_world_simps start_one_def seedTextFor_def apply_started_def step_defs jstr_def
      started_data_def del: event_name.simps)

lemma race_engines:
  "eGst race_started = demo_gst (demo_node StRunning [] [] 0 8) 4 5" "eSeqNo race_started = 5"
  by (simp_all add: race_started_def)

lemma race_end: "collect_one demo_world 9 (normalize demo_spec) demo_turn demo_turn ''n001'' race_started = race_end"
  by (simp add: race_engines collect_one_def with_conclusion_def needConclude_def demo_turn_def demo_collect
      emitApply_def apply_live_def emit_def demo_world_simps Let_def wrap64_def gst_result gst_released with_node_def
      releaseNode_gst del: event_name.simps outcome_name.simps)
    (simp add: race_defs demo_line_def del: event_name.simps outcome_name.simps)

lemma only_goes_on:
  "human_next w now p e = (e', qs) \<Longrightarrow> window_step calm w sp ((ph, e), [p]) ((ph, e'), qs)"
  using window_step.goes_on[of w now p e e' qs calm sp ph "[]" "[]"] by simp

lemma race_reaches: "window_reaches False demo_world 5 demo_spec newGraphState ((Collecting [], race_end), [])"
proof -
  let ?W = "window_step False demo_world (normalize demo_spec)" and ?ps = "[ToWrite EvReleased race_data]"
  have "?W ((Looping, demo_e0), []) ((Looping, race_claimed), [])"
    using window_step.whole[OF run_step.claim[of Looping False demo_world "normalize demo_spec" demo_e0 6 "''n001''" 0]] race_claimed
    by (simp add: run_active_def)
  moreover have "?W ((Looping, race_claimed), []) ((Looping, race_open), ?ps)"
    using window_step.release_opens[OF _ _ race_open, of Looping False "[]"] by (simp add: run_active_def)
  moreover have "?W ((Looping, race_open), ?ps) ((Starting [''n001''] [''n001''], race_wave), ?ps)"
    using window_step.whole[OF run_step.iterate[of False demo_world "normalize demo_spec" race_open 7 False None]] race_wave by simp
  moreover have "?W ((Starting [''n001''] [''n001''], race_wave), ?ps)
      ((Starting [''n001''] [''n001''], emit demo_world 8 EvReleased race_data race_wave), [ToFold EvReleased race_data])"
    by (rule only_goes_on) (rule human_next.simps)
  moreover have "?W ((Starting [''n001''] [''n001''], emit demo_world 8 EvReleased race_data race_wave), [ToFold EvReleased race_data])
      ((Starting [''n001''] [''n001''], race_folded), [])"
    by (rule only_goes_on[where now = 8]) (simp add: race_released)
  moreover have "?W ((Starting [''n001''] [''n001''], race_folded), []) ((Starting [] [''n001''], race_started), [])"
    using window_step.whole[OF run_step.start[of False demo_world "normalize demo_spec" "''n001''" "[]" "[''n001'']" race_folded 8 None]] race_started
    by simp
  moreover have "?W ((Starting [] [''n001''], race_started), []) ((Collecting [''n001''], race_started), [])"
    by (rule window_step.whole[OF run_step.started]) simp
  moreover have "?W ((Collecting [''n001''], race_started), []) ((Collecting [], race_end), [])"
    using window_step.whole[OF run_step.collect[of False demo_world "normalize demo_spec" "''n001''" "[]" race_started 9 demo_turn demo_turn]] race_end
    by simp
  ultimately show ?thesis unfolding window_reaches_def demo_e0
    by (meson converse_rtranclp_into_rtranclp rtranclp.rtrancl_refl)
qed

definition race_rnode :: graph_node where
  "race_rnode = (demo_node StRunning [] [] 0 0)\<lparr>nCreatedAt := 0\<rparr>"

lemma race_log5: "replay_lines (wParse demo_world) (\<lambda>_. 0) (map EnvLine (eOut race_started)) newGraphState = Inr (demo_gst race_rnode 5 5)"
  by (simp add: race_defs demo_defs demo_world_simps race_rnode_def apply_declared_def parseGraphTime_def nodeSeqOf_n001
     apply_claimed_def apply_started_def apply_released_def clear_holder_def race_data_def step_defs del: event_name.simps)

lemma race_log:
  "ReplayGraphLog (wParse demo_world) (\<lambda>_. 0) False (map EnvLine (eOut race_end)) = Inl (ReleasedUnclaimed 7 ''n001'')"
proof -
  have "nHolder race_rnode = []" "nAttempts race_rnode = 0" "nID race_rnode = ''n001''" by (simp_all add: race_rnode_def)
  then show ?thesis
    by (simp add: ReplayGraphLog_def race_end_def race_log5[unfolded demo_world_simps] replay_lines_append demo_line_def
      gst_released gst_result demo_world_simps clear_holder_def del: event_name.simps outcome_name.simps)
qed

text \<open>A release that a wave overtakes writes a log no resume can read. A human claims a node and releases it,
  as he may; between the window that frees the node and the line that says so the wave takes the node. The release
  then frees the wave's node, the loop ignores the error of its own release at the end, and that second release is fatal to every later
  replay of the log.\<close>

theorem race_breaks_replay:
  "human_claim demo_world 6 ''n001'' 0 demo_e0 = (race_claimed, Inr ''t'') \<and> held_by_human race_claimed ''n001'' \<and>
   (\<exists>p e. release_open ''n001'' race_claimed = Inr (p, e)) \<and>
   window_reaches False demo_world 5 demo_spec newGraphState ((Collecting [], race_end), []) \<and>
   ReplayGraphLog (wParse demo_world) (\<lambda>_. 0) False (map EnvLine (eOut race_end)) = Inl (ReleasedUnclaimed 7 ''n001'')"
proof -
  have "held_by_human race_claimed ''n001''" by (simp add: held_by_human_def race_claimed_def race_node_def)
  then show ?thesis using race_claimed race_open race_reaches race_log by simp
qed

section \<open>Witnesses\<close>





theorem node_cap_respected_witness:
  "int (length (nodes (eGst race_end))) \<le> 24 \<and> distinct (order (eGst race_end))"
  using node_cap_respected[OF demo_start race_reaches, of 24]
  by (simp add: demo_spec_def newGraphState_def number_room_def)

end
