(* ===== verification/GraphView.thy ===== *)
theory GraphView imports Main GraphInv GoText begin

text \<open>
  The read side of a graph task: \<open>task-service/internal/service/graph_view.go\<close> folds the
  same log as the engine into the view the web client shows. The decoder of a line is the
  parameter \<open>decode\<close>, the file read is \<open>read_file\<close>, as \<open>interactionDir\<close> is
  \<open>dir\<close>. A line that does not decode is \<open>TornLine\<close>; an empty last line counts
  as one, as in the code. \<open>int32\<close> counters wrap at 32 bits.

  The theorem: on every log the engine can replay, the view shows the engine's nodes.
\<close>

section \<open>The view\<close>

record tg_node =
  tgId :: string
  tgType :: string
  tgIntent :: string
  tgDeclaredBy :: string
  tgFrom :: "string list"
  tgStatus :: string
  tgDeclaredSeq :: int
  tgStartedAt :: string
  tgEndedAt :: string
  tgResultRef :: string
  tgAttempts :: int
  tgHolder :: string
  tgLeaseUntil :: string

record tg_trigger =
  ptTrigger :: string
  ptDetail :: string
  ptAt :: string
  ptSeq :: int

record task_graph =
  vgTaskId :: string
  vgNodes :: "tg_node list"
  vgTriggers :: "tg_trigger list"
  vgPaused :: bool
  vgPauseReason :: string
  vgConverged :: bool
  vgConvergeSummary :: string
  vgOpenRemaining :: int
  vgOpenNodeIds :: "string list"
  vgUpdatedAt :: string

definition empty_graph :: "string \<Rightarrow> task_graph" where
  "empty_graph t = \<lparr>vgTaskId = t, vgNodes = [], vgTriggers = [], vgPaused = False, vgPauseReason = [],
     vgConverged = False, vgConvergeSummary = [], vgOpenRemaining = 0, vgOpenNodeIds = [], vgUpdatedAt = []\<rparr>"

text \<open>The local variables of the fold; warnings are counted by kind, with the node concerned.\<close>

datatype view_warning = BadLine | RedeclaredAfterEnd string | OutcomeUnknown | OrphanReturned string

record view_state =
  vG :: task_graph
  vWarnings :: "view_warning list"
  vNodes :: "(string \<times> tg_node) list"
  vOrder :: "string list"
  vLastTime :: string

definition view_start :: view_state where
  "view_start = \<lparr>vG = empty_graph [], vWarnings = [], vNodes = [], vOrder = [], vLastTime = []\<rparr>"

definition view_warn :: "view_warning \<Rightarrow> view_state \<Rightarrow> view_state" where
  "view_warn x v = v\<lparr>vWarnings := vWarnings v @ [x]\<rparr>"

text \<open>\<open>if n := nodes[str(data, "nodeId")]; n != nil { ... }\<close>.\<close>

definition view_node :: "jmap \<Rightarrow> (tg_node \<Rightarrow> tg_node) \<Rightarrow> view_state \<Rightarrow> view_state" where
  "view_node data f v =
    (case map_of (vNodes v) (jstr data ''nodeId'') of
       None \<Rightarrow> v
     | Some n \<Rightarrow> v\<lparr>vNodes := AList.update (jstr data ''nodeId'') (f n) (vNodes v)\<rparr>)"

definition view_declared :: "graph_envelope \<Rightarrow> view_state \<Rightarrow> view_state" where
  "view_declared env v =
    (let data = eData env; k = jstr data ''nodeId''
     in if k = [] then v
        else case map_of (vNodes v) k of
          Some ex \<Rightarrow> if tgStatus ex \<noteq> ''declared'' then view_warn (RedeclaredAfterEnd k) v else v
        | None \<Rightarrow>
            v\<lparr>vNodes := AList.update k
                \<lparr>tgId = k, tgType = jstr data ''type'', tgIntent = jstr data ''intent'',
                 tgDeclaredBy = jstr data ''declaredBy'', tgFrom = only_strings (jarr data ''from''),
                 tgStatus = ''declared'', tgDeclaredSeq = int32 (eSeq env), tgStartedAt = [], tgEndedAt = [],
                 tgResultRef = [], tgAttempts = 0, tgHolder = [], tgLeaseUntil = []\<rparr> (vNodes v),
              vOrder := vOrder v @ [k]\<rparr>)"

definition is_end :: "string \<Rightarrow> bool" where
  "is_end s \<longleftrightarrow> s = ''completed'' \<or> s = ''failed'' \<or> s = ''rejected''"

definition view_result :: "graph_envelope \<Rightarrow> view_state \<Rightarrow> view_state" where
  "view_result env v =
    (let data = eData env; oc = jstr data ''outcome''
     in case map_of (vNodes v) (jstr data ''nodeId'') of
          None \<Rightarrow> v
        | Some n \<Rightarrow>
            (let v1 = view_node data (\<lambda>n. n\<lparr>tgResultRef := jstr data ''resultRef'', tgEndedAt := eTime env\<rparr>) v
             in if is_end oc then view_node data (\<lambda>n. n\<lparr>tgStatus := oc\<rparr>) v1
                else if oc = ''indeterminate''
                then view_node data (\<lambda>n. n\<lparr>tgAttempts := int32 (tgAttempts n + 1), tgStatus := ''declared''\<rparr>) v1
                else view_warn OutcomeUnknown v1))"

definition view_reopened :: "tg_node \<Rightarrow> tg_node" where
  "view_reopened n =
    (if is_end (tgStatus n) then n\<lparr>tgStatus := ''declared'', tgResultRef := [], tgEndedAt := []\<rparr> else n)"

definition view_converged :: "jmap \<Rightarrow> task_graph \<Rightarrow> task_graph" where
  "view_converged data g =
    (let g1 = g\<lparr>vgConverged := True, vgConvergeSummary := jstr data ''summary''\<rparr>
     in case jnum_ok data ''openRemaining'' of None \<Rightarrow> g1 | Some q \<Rightarrow> g1\<lparr>vgOpenRemaining := int32 (trunc_rat q)\<rparr>)"

fun view_event :: "event_kind \<Rightarrow> graph_envelope \<Rightarrow> view_state \<Rightarrow> view_state" where
  "view_event EvDeclared env v = view_declared env v"
| "view_event EvStarted env v =
    view_node (eData env) (\<lambda>n. n\<lparr>tgStatus := ''running'', tgStartedAt := eTime env\<rparr>) v"
| "view_event EvResult env v = view_result env v"
| "view_event EvPlanTriggered env v =
    v\<lparr>vG := (vG v)\<lparr>vgTriggers := vgTriggers (vG v) @
      [\<lparr>ptTrigger = jstr (eData env) ''trigger'', ptDetail = jstr (eData env) ''detail'',
        ptAt = eTime env, ptSeq = int32 (eSeq env)\<rparr>]\<rparr>\<rparr>"
| "view_event EvClaimed env v =
    view_node (eData env) (\<lambda>n. n\<lparr>tgHolder := jstr (eData env) ''holder'',
      tgLeaseUntil := jstr (eData env) ''leaseUntil''\<rparr>) v"
| "view_event EvReleased env v = view_node (eData env) (\<lambda>n. n\<lparr>tgHolder := [], tgLeaseUntil := []\<rparr>) v"
| "view_event EvLeaseExpired env v = view_node (eData env) (\<lambda>n. n\<lparr>tgHolder := [], tgLeaseUntil := []\<rparr>) v"
| "view_event EvReopened env v = view_node (eData env) view_reopened v"
| "view_event EvHumanMessage env v = v"
| "view_event EvPaused env v =
    v\<lparr>vG := (vG v)\<lparr>vgPaused := True, vgPauseReason := jstr (eData env) ''reason''\<rparr>\<rparr>"
| "view_event EvConverged env v = v\<lparr>vG := view_converged (eData env) (vG v)\<rparr>"
| "view_event EvSeeded env v = v"
| "view_event EvUnknown env v = v"

fun view_line :: "log_line \<Rightarrow> view_state \<Rightarrow> view_state" where
  "view_line (EnvLine env) v =
    (if eType env = [] then view_warn BadLine v
     else view_event (kind_of (eType env)) env (v\<lparr>vLastTime := eTime env\<rparr>))"
| "view_line BlankLine v = view_warn BadLine v"
| "view_line TornLine v = view_warn BadLine v"

definition view_orphan :: "string \<Rightarrow> view_state \<Rightarrow> view_state" where
  "view_orphan k v =
    (case map_of (vNodes v) k of
       Some n \<Rightarrow>
         if tgStatus n \<noteq> ''running'' then v
         else view_warn (OrphanReturned k)
                (v\<lparr>vNodes := AList.update k (n\<lparr>tgStatus := ''declared'', tgAttempts := int32 (tgAttempts n + 1)\<rparr>) (vNodes v)\<rparr>)
     | None \<Rightarrow> v)"

definition view_collect :: "view_state \<Rightarrow> task_graph" where
  "view_collect v =
    (let g = vG v; ns = List.map_filter (map_of (vNodes v)) (vOrder v);
         open = filter (\<lambda>k. map_option tgStatus (map_of (vNodes v) k) = Some ''declared'') (vOrder v)
     in g\<lparr>vgNodes := vgNodes g @ ns,
          vgOpenRemaining := int32 (vgOpenRemaining g + int (length open)),
          vgOpenNodeIds := vgOpenNodeIds g @ open,
          vgTriggers := sort_key ptSeq (vgTriggers g),
          vgUpdatedAt := vLastTime v\<rparr>)"

definition foldGraphLog :: "log_line list \<Rightarrow> task_graph \<times> view_warning list" where
  "foldGraphLog ls =
    (let v = fold view_line ls view_start;
         v' = fold view_orphan (vOrder v) v
     in (view_collect v', vWarnings v'))"

section \<open>The RPC\<close>

datatype view_error = TaskIdTooLong | TaskIdIllegal nat | TaskIdDotDot

definition path_rune :: "nat \<Rightarrow> bool" where
  "path_rune r \<longleftrightarrow> 97 \<le> r \<and> r \<le> 122 \<or> 65 \<le> r \<and> r \<le> 90 \<or> 48 \<le> r \<and> r \<le> 57 \<or> r = 45 \<or> r = 95 \<or> r = 46"

definition validateTaskIDForGraphPath :: "string \<Rightarrow> view_error option" where
  "validateTaskIDForGraphPath taskID =
    (if length taskID > 128 then Some TaskIdTooLong
     else case find (\<lambda>r. \<not> path_rune r) (runes taskID) of
       Some r \<Rightarrow> Some (TaskIdIllegal r)
     | None \<Rightarrow> if str_contains taskID ''..'' then Some TaskIdDotDot else None)"

text \<open>The lines of a file: those ended by a newline when not blank, and what follows the last one.\<close>

definition view_lines :: "string \<Rightarrow> string list" where
  "view_lines raw =
    (let parts = split_on (CHR 0x0A) raw
     in filter (\<lambda>l. l \<noteq> []) (map TrimSpace (butlast parts)) @
        (if last parts \<noteq> [] then [TrimSpace (last parts)] else []))"

definition decode_line :: "(string \<Rightarrow> graph_envelope option) \<Rightarrow> string \<Rightarrow> log_line" where
  "decode_line decode l = (case decode l of None \<Rightarrow> TornLine | Some env \<Rightarrow> EnvLine env)"

definition GetTaskGraph ::
  "(string \<Rightarrow> graph_envelope option) \<Rightarrow> string \<Rightarrow> (string \<Rightarrow> string option) \<Rightarrow> string \<Rightarrow> view_error + task_graph" where
  "GetTaskGraph decode dir read_file taskID =
    (if taskID = [] then Inr (empty_graph taskID)
     else case validateTaskIDForGraphPath taskID of
       Some e \<Rightarrow> Inl e
     | None \<Rightarrow>
         if dir = [] then Inr (empty_graph taskID)
         else case read_file (taskID @ ''.graph.log'') of
           None \<Rightarrow> Inr (empty_graph taskID)
         | Some raw \<Rightarrow>
             Inr ((fst (foldGraphLog (map (decode_line decode) (view_lines raw))))\<lparr>vgTaskId := taskID\<rparr>))"

section \<open>Agreement with the engine\<close>

fun status_name :: "node_status \<Rightarrow> string" where
  "status_name StDeclared = ''declared''"
| "status_name StRunning = ''running''"
| "status_name StCompleted = ''completed''"
| "status_name StFailed = ''failed''"
| "status_name StRejected = ''rejected''"

text \<open>A view node shows an engine node; with \<open>refs\<close> also its result reference.\<close>

definition shows_node :: "bool \<Rightarrow> graph_node \<Rightarrow> tg_node \<Rightarrow> bool" where
  "shows_node refs n t \<longleftrightarrow> tgId t = nID n \<and> tgType t = nType n \<and> tgIntent t = nIntent n \<and>
     tgDeclaredBy t = nDeclaredBy n \<and> tgFrom t = nFrom n \<and> tgStatus t = status_name (nStatus n) \<and>
     tgAttempts t = int32 (nAttempts n) \<and> tgHolder t = nHolder n \<and> (refs \<longrightarrow> tgResultRef t = nResultRef n)"

definition view_sim :: "bool \<Rightarrow> graph_state \<Rightarrow> view_state \<Rightarrow> bool" where
  "view_sim refs st v \<longleftrightarrow> vOrder v = order st \<and> vgConverged (vG v) = converged st \<and>
     vgNodes (vG v) = [] \<and> vgOpenNodeIds (vG v) = [] \<and>
     (\<forall>k. rel_option (shows_node refs) (map_of (nodes st) k) (map_of (vNodes v) k))"

text \<open>Every result line carries its reference, as the engine writes them.\<close>

fun has_ref :: "log_line \<Rightarrow> bool" where
  "has_ref (EnvLine env) \<longleftrightarrow> (kind_of (eType env) = EvResult \<longrightarrow> jstr_ok (eData env) ''resultRef'' \<noteq> None)"
| "has_ref _ \<longleftrightarrow> True"

lemma status_names [simp]:
  "is_end (status_name s) \<longleftrightarrow> terminal s" "status_name s = ''declared'' \<longleftrightarrow> s = StDeclared"
  "status_name s = ''running'' \<longleftrightarrow> s = StRunning"
  by (cases s; simp add: is_end_def terminal_def)+

lemma int32_wrap: "int32 (int32 a + 1) = int32 (wrap64 (a + 1))"
proof -
  have "wrap64 (a + 1) mod 2 ^ 32 = (a + 1) mod 2 ^ 32"
  proof -
    have "(2::int) ^ 32 dvd 2 ^ 64" by simp
    then have "(a + 1 + 2 ^ 63) mod 2 ^ 64 mod 2 ^ 32 = (a + 1 + 2 ^ 63) mod (2 ^ 32 :: int)" by (rule mod_mod_cancel)
    then show ?thesis unfolding wrap64_def by (metis (no_types, opaque_lifting) add_diff_cancel_right' mod_diff_left_eq)
  qed
  moreover have "int32 x = int32 y" if "x mod 2 ^ 32 = y mod (2 ^ 32 :: int)" for x y
    unfolding int32_def using that by (metis mod_add_left_eq)
  moreover have "(int32 a + 1) mod 2 ^ 32 = (a + 1) mod 2 ^ 32"
    unfolding int32_def by (metis (no_types, opaque_lifting) add.commute add_diff_cancel_left' diff_add_cancel mod_add_left_eq mod_diff_left_eq)
  ultimately show ?thesis by metis
qed

lemma view_node_none: "map_of (vNodes v) (jstr data ''nodeId'') = None \<Longrightarrow> view_node data f v = v"
  by (simp add: view_node_def)

lemma view_node_some:
  "map_of (vNodes v) (jstr data ''nodeId'') = Some t \<Longrightarrow>
    view_node data f v = v\<lparr>vNodes := AList.update (jstr data ''nodeId'') (f t) (vNodes v)\<rparr>"
  by (simp add: view_node_def)

lemma view_sim_put:
  assumes "view_sim refs st v" "map_of (nodes st) k = Some n" "shows_node refs n' t'"
  shows "view_sim refs (put_node k n' st) (v\<lparr>vNodes := AList.update k t' (vNodes v)\<rparr>)"
  using assms by (simp add: view_sim_def frame_simps store_simps)

lemma view_sim_some:
  assumes "view_sim refs st v" "map_of (nodes st) k = Some n"
  obtains t where "map_of (vNodes v) k = Some t" "shows_node refs n t"
  using assms unfolding view_sim_def by (metis option.rel_cases option.distinct(1) option.inject)

lemma view_sim_none:
  assumes "view_sim refs st v" "map_of (nodes st) k = None"
  shows "map_of (vNodes v) k = None"
  using assms unfolding view_sim_def by (metis option.rel_distinct(1) option.exhaust)

lemma view_sim_fields [simp]:
  "view_sim refs (st\<lparr>lines := a\<rparr>) v = view_sim refs st v" "view_sim refs (st\<lparr>lastSeq := a\<rparr>) v = view_sim refs st v"
  "view_sim refs (st\<lparr>plannerRuns := a\<rparr>) v = view_sim refs st v"
  "view_sim refs (st\<lparr>droppedLines := a\<rparr>) v = view_sim refs st v"
  "view_sim refs (st\<lparr>recoveredNodes := ks\<rparr>) v = view_sim refs st v"
  "view_sim refs (st\<lparr>pausedMark := a, hasPausedMark := b\<rparr>) v = view_sim refs st v"
  "view_sim refs st (v\<lparr>vLastTime := tm\<rparr>) = view_sim refs st v"
  "view_sim refs st (view_warn x v) = view_sim refs st v"
  by (simp_all add: view_sim_def view_warn_def)

text \<open>A node handler of the engine that succeeds against the view's change of the same node.\<close>

lemma view_on_node:
  assumes sim: "view_sim refs st v" and ok: "on_node data f st = (st', None)"
    and step: "\<And>n t. map_of (nodes st) (jstr data ''nodeId'') = Some n \<Longrightarrow> shows_node refs n t \<Longrightarrow> f n st = (st', None) \<Longrightarrow>
       \<exists>n'. st' = put_node (jstr data ''nodeId'') n' st \<and> shows_node refs n' (g t)"
  shows "view_sim refs st' (view_node data g v)"
proof (cases "map_of (nodes st) (jstr data ''nodeId'')")
  case None
  then show ?thesis using ok by (simp add: on_node_def nodeOf_def Let_def)
next
  case (Some n)
  obtain t where t: "map_of (vNodes v) (jstr data ''nodeId'') = Some t" "shows_node refs n t"
    using view_sim_some[OF sim Some] by blast
  have "f n st = (st', None)" using ok Some by (simp add: on_node_def nodeOf_def Let_def)
  from step[OF Some t(2) this] obtain n' where "st' = put_node (jstr data ''nodeId'') n' st" "shows_node refs n' (g t)" by blast
  then show ?thesis using view_sim_put[OF sim Some] by (simp add: view_node_some[OF t(1)])
qed

lemma view_node_compose:
  "view_node data f (view_node data g v) = view_node data (\<lambda>t. f (g t)) v"
  by (auto simp: view_node_def store_simps split: option.split)

fun shown_outcome :: "outcome \<Rightarrow> tg_node \<Rightarrow> tg_node" where
  "shown_outcome OIndeterminate t = t\<lparr>tgAttempts := int32 (tgAttempts t + 1), tgStatus := ''declared''\<rparr>"
| "shown_outcome oc t = t\<lparr>tgStatus := outcome_name oc\<rparr>"

lemma outcome_of_Some: "outcome_of s = Some oc \<Longrightarrow> s = outcome_name oc"
  by (auto simp: outcome_of_def split: if_splits)

lemma view_result_known:
  assumes "jstr (eData env) ''outcome'' = outcome_name oc"
  shows "view_result env v = view_node (eData env)
    (\<lambda>t. shown_outcome oc (t\<lparr>tgResultRef := jstr (eData env) ''resultRef'', tgEndedAt := eTime env\<rparr>)) v"
  using assms by (cases oc; cases "map_of (vNodes v) (jstr (eData env) ''nodeId'')")
    (simp_all add: view_result_def Let_def is_end_def view_node_compose view_node_none)

lemma jstr_of_ok: "jstr_ok d k = Some r \<Longrightarrow> jstr d k = r" "jstr_ok d k = None \<Longrightarrow> jstr d k = []"
  by (auto simp: jstr_ok_def jstr_def split: option.splits json.splits)

lemma view_sim_result:
  assumes sim: "view_sim refs st v" and ok: "apply_result now (eData env) st = (st', None)"
    and ref: "refs \<longrightarrow> jstr_ok (eData env) ''resultRef'' \<noteq> None"
  shows "view_sim refs st' (view_result env v)"
proof (cases "outcome_of (jstr (eData env) ''outcome'')")
  case None
  then show ?thesis using ok
    by (auto simp: apply_result_def on_node_def Let_def split: sum.splits)
next
  case (Some oc)
  note oc = outcome_of_Some[OF Some]
  show ?thesis unfolding view_result_known[OF oc]
  proof (rule view_on_node[OF sim ok[unfolded apply_result_def]])
    fix n t assume n: "map_of (nodes st) (jstr (eData env) ''nodeId'') = Some n" and sh: "shows_node refs n t"
    let ?n1 = "(case jstr_ok (eData env) ''resultRef'' of None \<Rightarrow> n | Some ref \<Rightarrow> n\<lparr>nResultRef := ref\<rparr>)\<lparr>nUpdatedAt := now\<rparr>"
    have "shows_node refs ?n1 (t\<lparr>tgResultRef := jstr (eData env) ''resultRef'', tgEndedAt := eTime env\<rparr>)"
      using sh ref by (auto simp: shows_node_def jstr_of_ok split: option.split)
    then have m: "shows_node refs (node_outcome now i oc ?n1)
        (shown_outcome oc (t\<lparr>tgResultRef := jstr (eData env) ''resultRef'', tgEndedAt := eTime env\<rparr>))" for i
      by (cases oc) (simp_all add: shows_node_def int32_wrap)
    assume "(let oc' = jstr (eData env) ''outcome'';
         n1 = (case jstr_ok (eData env) ''resultRef'' of None \<Rightarrow> n | Some ref \<Rightarrow> n\<lparr>nResultRef := ref\<rparr>);
         n2 = n1\<lparr>nUpdatedAt := now\<rparr>
       in case outcome_of oc' of None \<Rightarrow> (store_node (eData env) n2 st, Some (OutcomeNotInEnum (lines st) oc'))
          | Some o' \<Rightarrow> (store_node (eData env) (node_outcome now (int (length (order st))) o' n2) st, None)) = (st', None)"
    then have "st' = put_node (jstr (eData env) ''nodeId'') (node_outcome now (int (length (order st))) oc ?n1) st"
      using Some by (simp add: Let_def store_node_def)
    then show "\<exists>n'. st' = put_node (jstr (eData env) ''nodeId'') n' st \<and>
        shows_node refs n' (shown_outcome oc (t\<lparr>tgResultRef := jstr (eData env) ''resultRef'', tgEndedAt := eTime env\<rparr>))"
      using m by blast
  qed
qed

lemma view_sim_node_events:
  assumes sim: "view_sim refs st v"
  shows "apply_claimed pt (eData env) st = (st', None) \<Longrightarrow> view_sim refs st' (view_event EvClaimed env v)"
    "apply_released (eData env) st = (st', None) \<Longrightarrow> view_sim refs st' (view_event EvReleased env v)"
    "apply_lease_expired (eData env) st = (st', None) \<Longrightarrow> view_sim refs st' (view_event EvLeaseExpired env v)"
    "apply_reopened now (eData env) st = (st', None) \<Longrightarrow> view_sim refs st' (view_event EvReopened env v)"
    "apply_started now (eData env) st = (st', None) \<Longrightarrow> view_sim refs st' (view_event EvStarted env v)"
    "apply_seeded (eData env) st = (st', None) \<Longrightarrow> view_sim refs st' (view_event EvSeeded env v)"
proof -
  show "apply_claimed pt (eData env) st = (st', None) \<Longrightarrow> view_sim refs st' (view_event EvClaimed env v)"
    unfolding apply_claimed_def view_event.simps
    by (erule view_on_node[OF sim])
      (fastforce simp: Let_def store_node_def shows_node_def split: if_splits option.splits)
  show "apply_released (eData env) st = (st', None) \<Longrightarrow> view_sim refs st' (view_event EvReleased env v)"
    unfolding apply_released_def view_event.simps
    by (erule view_on_node[OF sim]) (fastforce simp: store_node_def shows_node_def clear_holder_def split: if_splits)
  show "apply_lease_expired (eData env) st = (st', None) \<Longrightarrow> view_sim refs st' (view_event EvLeaseExpired env v)"
    unfolding apply_lease_expired_def view_event.simps
    by (erule view_on_node[OF sim]) (fastforce simp: store_node_def shows_node_def clear_holder_def)
  show "apply_reopened now (eData env) st = (st', None) \<Longrightarrow> view_sim refs st' (view_event EvReopened env v)"
    unfolding apply_reopened_def view_event.simps
    by (erule view_on_node[OF sim])
      (fastforce simp: store_node_def shows_node_def reopened_def view_reopened_def split: if_splits)
  show "apply_started now (eData env) st = (st', None) \<Longrightarrow> view_sim refs st' (view_event EvStarted env v)"
    unfolding apply_started_def view_event.simps
    by (erule view_on_node[OF sim]) (fastforce simp: store_node_def shows_node_def)
  show "apply_seeded (eData env) st = (st', None) \<Longrightarrow> view_sim refs st' (view_event EvSeeded env v)"
    unfolding apply_seeded_def using sim by (auto simp: on_node_def split: sum.splits)
qed

lemma view_sim_declared:
  assumes sim: "view_sim refs st v" and ok: "apply_declared pt now (eData env) st = (st', None)"
  shows "view_sim refs st' (view_declared env v)"
proof (cases "map_of (nodes st) (jstr (eData env) ''nodeId'')")
  case None
  note vn = view_sim_none[OF sim None]
  have o: "vOrder v = order st" using sim by (simp add: view_sim_def)
  show ?thesis using None vn ok sim o
    by (auto simp: apply_declared_def view_declared_def Let_def view_sim_def frame_simps store_simps
        shows_node_def int32_def split: if_splits)
next
  case (Some n)
  obtain t where t: "map_of (vNodes v) (jstr (eData env) ''nodeId'') = Some t" "shows_node refs n t"
    using view_sim_some[OF sim Some] by blast
  then have "tgStatus t = status_name (nStatus n)" by (simp add: shows_node_def)
  then show ?thesis using Some t(1) ok sim
    by (auto simp: apply_declared_def view_declared_def Let_def split: if_splits)
qed

lemma view_sim_event:
  assumes sim: "view_sim refs st v" and ok: "apply_event pt now kd ty (eData env) st = (st', None)"
    and ref: "refs \<longrightarrow> kd = EvResult \<longrightarrow> jstr_ok (eData env) ''resultRef'' \<noteq> None"
  shows "view_sim refs st' (view_event kd env v)"
proof (cases kd)
  case EvResult
  then show ?thesis using view_sim_result[OF sim] ok ref by simp
next
  case EvDeclared
  then show ?thesis using view_sim_declared[OF sim] ok by simp
next
  case EvPlanTriggered
  then show ?thesis using sim ok by (auto simp: apply_plan_triggered_def view_sim_def split: if_splits)
next
  case EvPaused
  then show ?thesis using sim ok by (auto simp: apply_paused_def view_sim_def split: option.splits)
next
  case EvConverged
  then show ?thesis using sim ok by (auto simp: view_sim_def view_converged_def Let_def split: option.splits)
next
  case EvHumanMessage
  then show ?thesis using sim ok by (auto simp: apply_human_message_def split: option.splits)
qed (use view_sim_node_events[OF sim] ok in \<open>simp_all del: view_event.simps\<close>)

lemma view_sim_line:
  assumes sim: "view_sim refs st v" and ok: "graph_apply pt now env st = (st', None)"
    and ref: "refs \<longrightarrow> has_ref (EnvLine env)"
  shows "view_sim refs st' (view_line (EnvLine env) v)"
proof -
  let ?kd = "kind_of (eType env)"
  have kd: "apply_event pt now ?kd (eType env) (eData env) (saw_seq (eSeq env) (count_line st)) = (st', None)"
    using ok by (simp add: graph_apply_def Let_def split: if_splits)
  have "eType env \<noteq> []"
  proof
    assume "eType env = []"
    then have "?kd = EvUnknown" by (simp add: kind_of_def known_events_def)
    then show False using kd by simp
  qed
  moreover have "view_sim refs (saw_seq (eSeq env) (count_line st)) (v\<lparr>vLastTime := eTime env\<rparr>)"
    using sim by (simp add: saw_seq_def count_line_def)
  ultimately show ?thesis using view_sim_event[OF _ kd] ref by simp
qed

lemma view_sim_replay:
  "replay_lines pt clock ls st = Inr st' \<Longrightarrow> view_sim refs st v \<Longrightarrow> refs \<longrightarrow> list_all has_ref ls \<Longrightarrow>
    view_sim refs st' (fold view_line ls v)"
proof (induction pt clock ls st arbitrary: v rule: replay_lines.induct)
  case (4 pt clock env ls st)
  obtain st1 where st1: "graph_apply pt (clock (lines st)) env st = (st1, None)"
    using 4(2) by (auto split: prod.splits option.splits)
  from view_sim_line[OF 4(3) this] 4(4) have "view_sim refs st1 (view_line (EnvLine env) v)" by simp
  then show ?case using 4(1)[OF st1[symmetric] refl] 4(2,4) st1 by simp
qed auto

lemma view_sim_recover:
  assumes "view_sim refs st v"
  shows "view_sim refs (recover_in now ks st) (fold view_orphan ks v)"
  using assms
proof (induction now ks st arbitrary: v rule: recover_in.induct)
  case (2 now k ks st)
  show ?case
  proof (cases "map_of (nodes st) k")
    case None
    then show ?thesis using 2(1)[OF None] 2(4) view_sim_none[OF 2(4) None] by (simp add: view_orphan_def)
  next
    case (Some n)
    obtain t where t: "map_of (vNodes v) k = Some t" "shows_node refs n t" using view_sim_some[OF 2(4) Some] by blast
    show ?thesis
    proof (cases "nStatus n = StRunning")
      case True
      have "shows_node refs (orphan_back now n) (t\<lparr>tgStatus := ''declared'', tgAttempts := int32 (tgAttempts t + 1)\<rparr>)"
        using t(2) by (simp add: shows_node_def orphan_back_def int32_wrap)
      from view_sim_put[OF 2(4) Some this] show ?thesis using 2(3)[OF Some] Some t True
        by (simp add: view_orphan_def shows_node_def)
    next
      case False
      then show ?thesis using 2(2)[OF Some] 2(4) Some t by (simp add: view_orphan_def shows_node_def)
    qed
  qed
qed simp

lemma view_sim_start: "view_sim refs newGraphState view_start"
  by (simp add: view_sim_def newGraphState_def view_start_def empty_graph_def)

lemma rel_option_map_filter:
  assumes "\<forall>k\<in>set ks. rel_option R (f k) (g k)"
  shows "list_all2 R (List.map_filter f ks) (List.map_filter g ks)"
  using assms
proof (induction ks)
  case (Cons k ks)
  then show ?case by (cases "f k"; cases "g k") (auto simp: map_filter_simps)
qed (simp add: map_filter_simps)

text \<open>C8. The view is the engine's graph: on every log the engine replays, the endpoint shows the
  same nodes in the same order, with the same type, intent, origin, inputs, status, holder and
  attempts (at 32 bits), the same open set and the same convergence; also the same results,
  when result lines carry a reference as the engine's do.\<close>

theorem view_agrees_with_engine:
  assumes "ReplayGraphLog pt clock e ls = Inr st" and "refs \<longrightarrow> list_all has_ref ls"
  shows "list_all2 (shows_node refs) (ordered_nodes st) (vgNodes (fst (foldGraphLog ls))) \<and>
    vgOpenNodeIds (fst (foldGraphLog ls)) = openIDs st \<and> vgConverged (fst (foldGraphLog ls)) = converged st"
proof -
  from assms(1) obtain st0 where r: "replay_lines pt clock ls newGraphState = Inr st0"
    "st = recover_in (clock (lines st0)) (order st0) st0"
    by (rule ReplayGraphLog_cases)
  have s0: "view_sim refs st0 (fold view_line ls view_start)"
    by (rule view_sim_replay[OF r(1) view_sim_start assms(2)])
  let ?v = "fold view_orphan (vOrder (fold view_line ls view_start)) (fold view_line ls view_start)"
  have "vOrder (fold view_line ls view_start) = order st0" using s0 by (simp add: view_sim_def)
  then have s: "view_sim refs st ?v" using view_sim_recover[OF s0] r(2) by simp
  have f: "fst (foldGraphLog ls) = view_collect ?v" by (simp add: foldGraphLog_def Let_def)
  have rel: "rel_option (shows_node refs) (map_of (nodes st) k) (map_of (vNodes ?v) k)" for k
    using s by (simp add: view_sim_def)
  have "map_option tgStatus (map_of (vNodes ?v) k) = Some ''declared'' \<longleftrightarrow>
      (case map_of (nodes st) k of Some n \<Rightarrow> nStatus n = StDeclared | None \<Rightarrow> False)" for k
    using rel[of k] by (cases "map_of (nodes st) k"; cases "map_of (vNodes ?v) k") (auto simp: shows_node_def)
  moreover have "list_all2 (shows_node refs) (List.map_filter (map_of (nodes st)) (order st))
      (List.map_filter (map_of (vNodes ?v)) (order st))"
    by (rule rel_option_map_filter) (use rel in blast)
  ultimately show ?thesis unfolding f using s
    by (simp add: view_collect_def Let_def view_sim_def ordered_nodes_def openIDs_def)
qed

theorem view_agrees_with_engine_witness:
  "list_all2 (shows_node True) (ordered_nodes demo_end) (vgNodes (fst (foldGraphLog demo_log))) \<and>
   vgOpenNodeIds (fst (foldGraphLog demo_log)) = openIDs demo_end"
proof -
  have "list_all has_ref demo_log"
    by (simp add: demo_log_def demo_env_def del: event_name.simps)
  then show ?thesis using view_agrees_with_engine[OF demo_replay, of True] by blast
qed

section \<open>Paths\<close>

lemma decode_rune_small: "fst (decode_rune (b # bs)) < 128 \<Longrightarrow> decode_rune (b # bs) = (b, 1)"
proof (cases "b < 128")
  case False
  have m: "(k * n + d) mod n = d" if "d < n" for k n d :: nat using that by simp
  have two: "128 \<le> b mod 32 * 64 + x mod 64" if "\<not> b < 194" "b < 224" for x :: nat
    using m[of "b - 192" 32 6] that by simp
  have three: "128 \<le> b mod 16 * 4096 + x mod 64 * 64 + y mod 64" if "second_ok b x" "\<not> b < 224" "b < 240" for x y :: nat
  proof (cases "b = 224")
    case True
    then have "32 \<le> x mod 64" using that m[of "x - 128" 64 2] by (simp add: second_ok_def) linarith
    then show ?thesis by simp
  next
    case False
    then have "1 \<le> b mod 16" using that m[of "b - 224" 16 14] by simp
    then show ?thesis by simp
  qed
  have four: "128 \<le> b mod 8 * 262144 + x mod 64 * 4096 + y mod 64 * 64 + z mod 64"
    if "second_ok b x" "\<not> b < 240" "b < 245" for x y z :: nat
  proof (cases "b = 240")
    case True
    then have "16 \<le> x mod 64" using that m[of "x - 128" 64 2] by (simp add: second_ok_def) linarith
    then show ?thesis by simp
  next
    case False
    then have "1 \<le> b mod 8" using that m[of "b - 240" 8 30] by simp
    then show ?thesis by simp
  qed
  have "\<not> fst (decode_rune (b # bs)) < 128"
    using False two three four by (simp add: decode_rune_def not_less split: list.split)
  then show "fst (decode_rune (b # bs)) < 128 \<Longrightarrow> ?thesis" by contradiction
qed (simp add: decode_rune_def)

lemma path_runes_bytes: "list_all path_rune (runes s) \<longleftrightarrow> list_all (\<lambda>c. path_rune (byte c)) s"
proof (induction s rule: length_induct)
  case (1 s)
  show ?case
  proof (cases s)
    case Nil
    then show ?thesis by (simp add: runes_def)
  next
    case (Cons c cs)
    show ?thesis
    proof (cases "byte c < (128::nat)")
      case True
      then show ?thesis using 1 Cons by (simp add: runes_def rune_segs_ascii)
    next
      case False
      have "\<not> fst (decode_rune (map byte s)) < 128"
        using decode_rune_small[of "byte c" "map byte cs"] False Cons by auto
      then have "\<not> list_all path_rune (runes s)"
        using Cons by (auto simp: runes_def rune_segs_step path_rune_def)
      moreover have "\<not> path_rune (byte c)" using False by (auto simp: path_rune_def)
      ultimately show ?thesis using Cons by simp
    qed
  qed
qed

text \<open>A task id the endpoint accepts is a plain file name: at most 128 bytes, only letters,
  digits, dot, dash and underscore (so no separator), and no two dots in a row; every such
  id is accepted.\<close>

theorem graph_path_safe:
  "validateTaskIDForGraphPath s = None \<longleftrightarrow>
    length s \<le> 128 \<and> list_all (\<lambda>c. path_rune (byte c)) s \<and> \<not> str_contains s ''..''"
proof -
  have "find (\<lambda>r. \<not> path_rune r) (runes s) = None \<longleftrightarrow> list_all path_rune (runes s)"
    by (auto simp: find_None_iff list_all_iff)
  then show ?thesis
    by (auto simp: validateTaskIDForGraphPath_def path_runes_bytes split: option.split)
qed

end
