(* ===== verification/Idem.thy ===== *)
theory Idem imports Main Prelude begin

text \<open>
  Idempotency keys of the write RPCs: the contract (\<open>idem_store\<close>) and the three
  in-memory stores that provide it, \<open>project-service/internal/idempotency/store.go\<close>,
  \<open>runtime-service/internal/service/idem_store.go\<close> and the idempotency part of
  \<open>storage-service/internal/repo/memory.go\<close>.

  A check answers: new (go on), replay the stored response, or conflict (the key was used
  with another body). Keys count for a 24 hour window; beyond 10000 keys the oldest inserted
  one is dropped. Each method runs under the store's lock, hence is one step; the check of the
  first and third store takes the lock twice, so it is a read and a purge, and the purge deletes
  only the entry that was read.
\<close>

section \<open>The contract\<close>

datatype 'v idem_answer = IdemNew | IdemReplay 'v | IdemConflict

datatype 'v idem_op = OpCheck gotime string string | OpSave gotime string string 'v

text \<open>A history of a store: the checks and saves of its callers, in the order the lock serves them.\<close>

fun idem_run :: "(gotime \<Rightarrow> string \<Rightarrow> string \<Rightarrow> 's \<Rightarrow> 'v idem_answer \<times> 's) \<Rightarrow>
    (gotime \<Rightarrow> string \<Rightarrow> string \<Rightarrow> 'v \<Rightarrow> 's \<Rightarrow> 's) \<Rightarrow> 'v idem_op list \<Rightarrow> 's \<Rightarrow> 's" where
  "idem_run check save [] s = s"
| "idem_run check save (OpCheck now k h # ops) s = idem_run check save ops (snd (check now k h s))"
| "idem_run check save (OpSave now k h v # ops) s = idem_run check save ops (save now k h v s)"

fun saves_key :: "string \<Rightarrow> 'v idem_op \<Rightarrow> bool" where
  "saves_key k (OpSave _ j _ _) = (j = k)"
| "saves_key k (OpCheck _ _ _) = False"

text \<open>
  \<open>entry s k\<close> is what the store remembers of a key: body, response and time of saving;
  \<open>size_of\<close> counts its keys.
\<close>

locale idem_store =
  fixes chk :: "gotime \<Rightarrow> string \<Rightarrow> string \<Rightarrow> 's \<Rightarrow> 'v idem_answer \<times> 's"
    and sav :: "gotime \<Rightarrow> string \<Rightarrow> string \<Rightarrow> 'v \<Rightarrow> 's \<Rightarrow> 's"
    and inv :: "'s \<Rightarrow> bool"
    and entry :: "'s \<Rightarrow> string \<Rightarrow> (string \<times> 'v \<times> gotime) option"
    and size_of :: "'s \<Rightarrow> nat"
    and window :: int
    and cap :: nat
  assumes inv_chk: "inv s \<Longrightarrow> inv (snd (chk now k h s))"
    and inv_sav: "inv s \<Longrightarrow> inv (sav now k h v s)"
    and bounded: "inv s \<Longrightarrow> size_of s \<le> cap"
    and chk_unknown: "inv s \<Longrightarrow> entry s k = None \<Longrightarrow> fst (chk now k h s) = IdemNew"
    and chk_known: "inv s \<Longrightarrow> entry s k = Some (h', v, t) \<Longrightarrow>
      fst (chk now k h s) = (if now - t > window then IdemNew else if h = h' then IdemReplay v else IdemConflict)"
    and chk_entry: "inv s \<Longrightarrow> entry (snd (chk now k h s)) j = entry s j \<or>
      (j = k \<and> entry (snd (chk now k h s)) j = None \<and> (\<forall>h' v t. entry s j = Some (h', v, t) \<longrightarrow> now - t > window))"
    and sav_entry: "inv s \<Longrightarrow> 0 < cap \<Longrightarrow> entry (sav now k h v s) k = Some (h, v, now)"
    and sav_other: "inv s \<Longrightarrow> j \<noteq> k \<Longrightarrow> entry (sav now k h v s) j = entry s j \<or>
      (entry (sav now k h v s) j = None \<and> size_of s = cap)"
begin

lemma run_Cons: "idem_run chk sav (op # ops) s = idem_run chk sav ops (case op of
    OpCheck now k h \<Rightarrow> snd (chk now k h s) | OpSave now k h v \<Rightarrow> sav now k h v s)"
  by (cases op) simp_all

lemma run_inv: "inv s \<Longrightarrow> inv (idem_run chk sav ops s)"
  by (induction ops arbitrary: s) (simp_all add: run_Cons inv_chk inv_sav split: idem_op.split)

lemma run_bounded: "inv s \<Longrightarrow> size_of (idem_run chk sav ops s) \<le> cap"
  by (rule bounded[OF run_inv])

lemma run_none:
  "inv s \<Longrightarrow> entry s k = None \<Longrightarrow> list_all (\<lambda>op. \<not> saves_key k op) ops \<Longrightarrow>
    entry (idem_run chk sav ops s) k = None"
proof (induction ops arbitrary: s)
  case (Cons op ops)
  show ?case
  proof (cases op)
    case (OpCheck now j h)
    then show ?thesis using Cons chk_entry[OF Cons(2), of now j h k] inv_chk by auto
  next
    case (OpSave now j h v)
    then show ?thesis using Cons sav_other[OF Cons(2), of k j now h v] inv_sav by auto
  qed
qed simp

text \<open>Whatever else happens, the memory of a key is the saved one or gone.\<close>

lemma run_entry:
  "inv s \<Longrightarrow> entry s k = Some e \<Longrightarrow> list_all (\<lambda>op. \<not> saves_key k op) ops \<Longrightarrow>
    entry (idem_run chk sav ops s) k = Some e \<or> entry (idem_run chk sav ops s) k = None"
proof (induction ops arbitrary: s)
  case (Cons op ops)
  show ?case
  proof (cases op)
    case (OpCheck now j h)
    then show ?thesis using Cons chk_entry[OF Cons(2), of now j h k] inv_chk run_none by fastforce
  next
    case (OpSave now j h v)
    then show ?thesis using Cons sav_other[OF Cons(2), of k j now h v] inv_sav run_none by fastforce
  qed
qed simp

lemma answer_after_save:
  assumes "inv s" "0 < cap" "list_all (\<lambda>op. \<not> saves_key k op) ops"
  shows "fst (chk now' k h' (idem_run chk sav ops (sav now k h v s))) \<in>
    (if h' = h then {IdemReplay v, IdemNew} else {IdemConflict, IdemNew})"
proof -
  let ?s = "idem_run chk sav ops (sav now k h v s)"
  have i: "inv ?s" using assms(1) by (simp add: run_inv inv_sav)
  have "entry ?s k = Some (h, v, now) \<or> entry ?s k = None"
    using run_entry[OF inv_sav[OF assms(1)] sav_entry[OF assms(1,2)] assms(3)] .
  then show ?thesis using chk_known[OF i] chk_unknown[OF i] by (cases "entry ?s k") auto
qed

lemma replay_at_once:
  assumes "inv s" "0 < cap" "now' - now \<le> window"
  shows "fst (chk now' k h' (sav now k h v s)) = (if h' = h then IdemReplay v else IdemConflict)"
  using chk_known[OF inv_sav[OF assms(1)] sav_entry[OF assms(1,2)], where h = h' and now = now'] assms(3) by auto

lemma expired_is_new:
  assumes "inv s" "0 < cap" "window < now' - now"
  shows "fst (chk now' k h' (sav now k h v s)) = IdemNew"
  using chk_known[OF inv_sav[OF assms(1)] sav_entry[OF assms(1,2)], where h = h' and now = now'] assms(3) by auto

end

section \<open>Bounded first-in first-out tables\<close>

text \<open>A map and the insertion order of its keys, as all three stores keep them.\<close>

type_synonym 'e fifo = "(string \<times> 'e) list \<times> string list"

definition fifo_inv :: "nat \<Rightarrow> 'e fifo \<Rightarrow> bool" where
  "fifo_inv c t \<longleftrightarrow> distinct (keys (fst t)) \<and> distinct (snd t) \<and> set (keys (fst t)) = set (snd t) \<and> length (snd t) \<le> c"

text \<open>\<open>for len(s.order) > max { oldest := s.order[0]; ... }\<close>.\<close>

fun fifo_trim :: "nat \<Rightarrow> 'e fifo \<Rightarrow> 'e fifo" where
  "fifo_trim c (m, []) = (m, [])"
| "fifo_trim c (m, k # ks) = (if length (k # ks) > c then fifo_trim c (AList.delete k m, ks) else (m, k # ks))"

definition fifo_remove :: "string \<Rightarrow> 'e fifo \<Rightarrow> 'e fifo" where
  "fifo_remove k t = (AList.delete k (fst t), remove1 k (snd t))"

definition fifo_put :: "nat \<Rightarrow> string \<Rightarrow> 'e \<Rightarrow> 'e fifo \<Rightarrow> 'e fifo" where
  "fifo_put c k e t =
    (let ord = (if map_of (fst t) k = None then snd t @ [k] else snd t)
     in fifo_trim c (AList.update k e (fst t), ord))"

lemma fifo_trim_id: "length ks \<le> c \<Longrightarrow> fifo_trim c (m, ks) = (m, ks)"
  by (cases ks) auto

lemma keys_delete_set: "set (keys (AList.delete k m)) = set (keys m) - {k}"
  by (induction m) auto

lemma fifo_remove_inv: "fifo_inv c t \<Longrightarrow> fifo_inv c (fifo_remove k t)"
  by (auto simp: fifo_inv_def fifo_remove_def keys_delete_set length_remove1 simp del: set_map)

lemma fifo_known: "fifo_inv c t \<Longrightarrow> map_of (fst t) k = None \<longleftrightarrow> k \<notin> set (snd t)"
  by (simp add: fifo_inv_def map_of_None_key del: set_map)

lemma fifo_put_cases:
  assumes "fifo_inv c t"
  shows "fifo_put c k e t =
    (if map_of (fst t) k \<noteq> None then (AList.update k e (fst t), snd t)
     else if length (snd t) < c then (AList.update k e (fst t), snd t @ [k])
     else (AList.delete (hd (snd t @ [k])) (AList.update k e (fst t)), tl (snd t @ [k])))"
proof -
  have len: "length (snd t) \<le> c" using assms by (simp add: fifo_inv_def)
  show ?thesis
  proof (cases "map_of (fst t) k = None \<and> \<not> length (snd t) < c")
    case True
    then have "length (snd t) = c" using len by simp
    then show ?thesis using True by (cases "snd t") (simp_all add: fifo_put_def fifo_trim_id)
  next
    case False
    then show ?thesis using len by (auto simp: fifo_put_def fifo_trim_id)
  qed
qed

lemma fifo_put_inv: "fifo_inv c t \<Longrightarrow> fifo_inv c (fifo_put c k e t)"
proof -
  assume inv: "fifo_inv c t"
  note new = fifo_known[OF inv, of k]
  show ?thesis
  proof (cases "map_of (fst t) k = None")
    case False
    then show ?thesis using inv new
      by (auto simp: fifo_put_cases[OF inv] fifo_inv_def keys_update_set distinct_keys_update simp del: set_map)
  next
    case True
    have d: "distinct (snd t @ [k])" using inv new True by (simp add: fifo_inv_def)
    show ?thesis
    proof (cases "length (snd t) < c")
      case True
      then show ?thesis using inv d \<open>map_of (fst t) k = None\<close>
        by (auto simp: fifo_put_cases[OF inv] fifo_inv_def keys_update_set distinct_keys_update simp del: set_map)
    next
      case False
      have "length (snd t) = c" using inv False by (simp add: fifo_inv_def)
      moreover have "set (tl (snd t @ [k])) = insert k (set (snd t)) - {hd (snd t @ [k])}"
        using d by (cases "snd t") auto
      ultimately show ?thesis using inv d True False
        by (auto simp: fifo_put_cases[OF inv] fifo_inv_def keys_update_set keys_delete_set distinct_keys_update
            distinct_keys_delete distinct_tl simp del: set_map)
    qed
  qed
qed

lemma fifo_put_lookup:
  assumes "fifo_inv c t" "0 < c"
  shows "map_of (fst (fifo_put c k e t)) k = Some e"
proof (cases "map_of (fst t) k = None \<and> \<not> length (snd t) < c")
  case True
  then have "k \<notin> set (snd t)" "snd t \<noteq> []" using assms fifo_known[OF assms(1), of k] by auto
  then have "hd (snd t @ [k]) \<noteq> k" by (cases "snd t") auto
  then show ?thesis using True by (simp add: fifo_put_cases[OF assms(1)] store_simps)
next
  case False
  then show ?thesis by (auto simp: fifo_put_cases[OF assms(1)] store_simps)
qed

lemma fifo_put_other:
  assumes "fifo_inv c t" "j \<noteq> k"
  shows "map_of (fst (fifo_put c k e t)) j = map_of (fst t) j \<or>
    (map_of (fst (fifo_put c k e t)) j = None \<and> length (snd t) = c)"
  using assms by (auto simp: fifo_put_cases[OF assms(1)] store_simps fifo_inv_def)

lemma fifo_remove_lookup: "map_of (fst (fifo_remove k t)) j = (if j = k then None else map_of (fst t) j)"
  by (simp add: fifo_remove_def store_simps)

section \<open>project-service\<close>

definition dedupWindow :: int where "dedupWindow = 24 * ns_hour"

definition maxEntries :: nat where "maxEntries = 10000"

record 'v proj_entry =
  pBodyHash :: string
  pResult :: "'v option"
  pSavedAt :: gotime

record 'v proj_store =
  psEntries :: "(string \<times> 'v proj_entry) list"
  psOrder :: "string list"

definition new_proj_store :: "'v proj_store" where
  "new_proj_store = \<lparr>psEntries = [], psOrder = []\<rparr>"

definition proj_fifo :: "'v proj_store \<Rightarrow> 'v proj_entry fifo" where
  "proj_fifo s = (psEntries s, psOrder s)"

definition deleteLocked :: "string \<Rightarrow> 'v proj_store \<Rightarrow> 'v proj_store" where
  "deleteLocked requestID s =
    s\<lparr>psEntries := AList.delete requestID (psEntries s), psOrder := remove1 requestID (psOrder s)\<rparr>"

text \<open>\<open>(*Result, error)\<close>: a result to replay, or the id of the \<open>ErrAlreadyExists\<close>.\<close>

definition idem_purge :: "string \<Rightarrow> 'v proj_entry \<Rightarrow> 'v proj_store \<Rightarrow> 'v proj_store" where
  "idem_purge requestID existing s =
    (if map_of (psEntries s) requestID = Some existing then deleteLocked requestID s else s)"

definition idem_Check ::
  "gotime \<Rightarrow> string \<Rightarrow> string \<Rightarrow> 'v proj_store \<Rightarrow> ('v option \<times> string option) \<times> 'v proj_store" where
  "idem_Check now requestID bodyHash s =
    (case map_of (psEntries s) requestID of
       None \<Rightarrow> ((None, None), s)
     | Some existing \<Rightarrow>
         if now - pSavedAt existing > dedupWindow then ((None, None), idem_purge requestID existing s)
         else if pBodyHash existing = bodyHash then ((pResult existing, None), s)
         else ((None, Some requestID), s))"

definition idem_Save :: "gotime \<Rightarrow> string \<Rightarrow> string \<Rightarrow> 'v option \<Rightarrow> 'v proj_store \<Rightarrow> 'v proj_store" where
  "idem_Save now requestID bodyHash res s =
    (let ord = (if map_of (psEntries s) requestID = None then psOrder s @ [requestID] else psOrder s);
         ents = AList.update requestID \<lparr>pBodyHash = bodyHash, pResult = res, pSavedAt = now\<rparr> (psEntries s);
         (ents', ord') = fifo_trim maxEntries (ents, ord)
     in s\<lparr>psEntries := ents', psOrder := ord'\<rparr>)"

text \<open>How a handler reads the answer.\<close>

definition proj_answer :: "('v option \<times> string option) \<times> 's \<Rightarrow> 'v idem_answer \<times> 's" where
  "proj_answer r = (case r of ((Some v, None), s) \<Rightarrow> (IdemReplay v, s) | ((None, None), s) \<Rightarrow> (IdemNew, s)
     | ((_, Some _), s) \<Rightarrow> (IdemConflict, s))"

definition proj_chk :: "gotime \<Rightarrow> string \<Rightarrow> string \<Rightarrow> 'v proj_store \<Rightarrow> 'v idem_answer \<times> 'v proj_store" where
  "proj_chk now k h s = proj_answer (idem_Check now k h s)"

definition proj_inv :: "'v proj_store \<Rightarrow> bool" where
  "proj_inv s \<longleftrightarrow> fifo_inv maxEntries (proj_fifo s) \<and> (\<forall>k e. map_of (psEntries s) k = Some e \<longrightarrow> pResult e \<noteq> None)"

definition proj_entry_of :: "'v proj_store \<Rightarrow> string \<Rightarrow> (string \<times> 'v \<times> gotime) option" where
  "proj_entry_of s k = map_option (\<lambda>e. (pBodyHash e, the (pResult e), pSavedAt e)) (map_of (psEntries s) k)"

lemma proj_fifo_delete: "proj_fifo (deleteLocked k s) = fifo_remove k (proj_fifo s)"
  by (simp add: proj_fifo_def deleteLocked_def fifo_remove_def)

lemma proj_fifo_save:
  "proj_fifo (idem_Save now k h r s) = fifo_put maxEntries k \<lparr>pBodyHash = h, pResult = r, pSavedAt = now\<rparr> (proj_fifo s)"
  by (simp add: proj_fifo_def idem_Save_def fifo_put_def Let_def split: prod.split)

lemma idem_purge_found: "map_of (psEntries s) k = Some e \<Longrightarrow> idem_purge k e s = deleteLocked k s"
  by (simp add: idem_purge_def)

lemma proj_entries_fifo: "psEntries s = fst (proj_fifo s)"
  by (simp add: proj_fifo_def)

lemma maxEntries_pos: "0 < maxEntries"
  by (simp add: maxEntries_def)

lemma proj_inv_delete: "proj_inv s \<Longrightarrow> proj_inv (deleteLocked k s)"
  by (auto simp: proj_inv_def proj_entries_fifo proj_fifo_delete fifo_remove_inv fifo_remove_lookup split: if_splits)

lemma proj_inv_save:
  assumes "proj_inv s"
  shows "proj_inv (idem_Save now k h (Some v) s)"
proof -
  let ?e = "\<lparr>pBodyHash = h, pResult = Some v, pSavedAt = now\<rparr>"
  have f: "fifo_inv maxEntries (proj_fifo s)" using assms by (simp add: proj_inv_def)
  have "pResult e \<noteq> None" if e: "map_of (fst (fifo_put maxEntries k ?e (proj_fifo s))) j = Some e" for j e
  proof (cases "j = k")
    case True
    then show ?thesis using e fifo_put_lookup[OF f maxEntries_pos, of k] by auto
  next
    case False
    then have "map_of (psEntries s) j = Some e"
      using e fifo_put_other[OF f False, of ?e] by (auto simp: proj_entries_fifo)
    then show ?thesis using assms by (simp add: proj_inv_def)
  qed
  then show ?thesis unfolding proj_inv_def proj_entries_fifo proj_fifo_save using fifo_put_inv[OF f] by blast
qed

lemma proj_save_own: "proj_inv s \<Longrightarrow> proj_entry_of (idem_Save now k h (Some v) s) k = Some (h, v, now)"
  by (simp add: proj_entry_of_def proj_entries_fifo proj_fifo_save proj_inv_def fifo_put_lookup maxEntries_pos)

lemma proj_save_other:
  assumes "proj_inv s" "j \<noteq> k"
  shows "proj_entry_of (idem_Save now k h r s) j = proj_entry_of s j \<or>
    (proj_entry_of (idem_Save now k h r s) j = None \<and> length (psOrder s) = maxEntries)"
proof -
  have f: "fifo_inv maxEntries (proj_fifo s)" using assms by (simp add: proj_inv_def)
  show ?thesis using fifo_put_other[OF f assms(2), of "\<lparr>pBodyHash = h, pResult = r, pSavedAt = now\<rparr>"]
    unfolding proj_entry_of_def proj_entries_fifo proj_fifo_save by (auto simp: proj_fifo_def)
qed

lemma proj_chk_cases:
  "proj_chk now k h s = (case map_of (psEntries s) k of None \<Rightarrow> (IdemNew, s) | Some e \<Rightarrow>
     if now - pSavedAt e > dedupWindow then (IdemNew, deleteLocked k s)
     else if pBodyHash e = h then (case pResult e of Some v \<Rightarrow> (IdemReplay v, s) | None \<Rightarrow> (IdemNew, s))
     else (IdemConflict, s))"
  by (auto simp: proj_chk_def proj_answer_def idem_Check_def idem_purge_found split: option.split)

interpretation proj: idem_store proj_chk "\<lambda>now k h v. idem_Save now k h (Some v)" proj_inv proj_entry_of
  "\<lambda>s. length (psOrder s)" dedupWindow maxEntries
proof (unfold_locales, goal_cases)
  case (1 s now k h)
  then show ?case by (simp add: proj_chk_cases proj_inv_delete split: option.split)
next
  case (2 s now k h v)
  then show ?case by (rule proj_inv_save)
next
  case (3 s)
  then show ?case by (simp add: proj_inv_def fifo_inv_def proj_fifo_def)
next
  case (4 s k now h)
  then show ?case by (simp add: proj_chk_cases proj_entry_of_def)
next
  case (5 s k h' v t now h)
  then obtain e where "map_of (psEntries s) k = Some e" "pBodyHash e = h'" "pResult e = Some v" "pSavedAt e = t"
    by (auto simp: proj_entry_of_def proj_inv_def)
  then show ?case by (auto simp: proj_chk_cases)
next
  case (6 s now k h j)
  then show ?case
    by (auto simp: proj_chk_cases proj_entry_of_def deleteLocked_def store_simps split: option.splits if_splits)
next
  case (7 s now k h v)
  then show ?case by (simp add: proj_save_own)
next
  case (8 s j k now h v)
  then show ?case by (rule proj_save_other)
qed

text \<open>The purge of a check cannot drop an entry saved between its read and its purge.\<close>

lemma purge_keeps_newer:
  "proj_inv s \<Longrightarrow> pSavedAt e \<noteq> now \<Longrightarrow>
    proj_entry_of (idem_purge k e (idem_Save now k h (Some v) s)) k = Some (h, v, now)"
  using proj_save_own[of s now k h v] by (auto simp: idem_purge_def proj_entry_of_def)

text \<open>C9. After a response was saved under a key, and whatever other checks and saves follow as long as
  none saves that key, the same body is either answered with the saved response or treated as new,
  and another body is either refused or treated as new: a check never replays a response for a body
  it was not saved for, nor refuses the body it was saved for.\<close>

theorem project_replays_only_same_body:
  assumes "proj_inv s" "list_all (\<lambda>op. \<not> saves_key k op) ops"
  shows "fst (proj_chk now' k h' (idem_run proj_chk (\<lambda>now k h v. idem_Save now k h (Some v)) ops
      (idem_Save now k h (Some v) s)))
    \<in> (if h' = h then {IdemReplay v, IdemNew} else {IdemConflict, IdemNew})"
  by (rule proj.answer_after_save[OF assms(1) maxEntries_pos assms(2)])

lemma proj_inv_new: "proj_inv new_proj_store"
  by (simp add: proj_inv_def new_proj_store_def proj_fifo_def fifo_inv_def)

theorem project_replays_only_same_body_witness:
  "fst (proj_chk 9 ''r1'' ''hB'' (idem_run proj_chk (\<lambda>now k h v. idem_Save now k h (Some v))
      [OpSave 6 ''r2'' ''hC'' ''w'', OpCheck 7 ''r1'' ''hA''] (idem_Save 5 ''r1'' ''hA'' (Some ''v'') new_proj_store)))
    \<in> {IdemConflict, IdemNew}"
  using project_replays_only_same_body[OF proj_inv_new,
    of "''r1''" "[OpSave 6 ''r2'' ''hC'' ''w'', OpCheck 7 ''r1'' ''hA'']" 9 "''hB''" 5 "''hA''" "''v''"] by simp

end
