(* ===== verification/RuntimeIdem.thy ===== *)
theory RuntimeIdem imports Main Prelude GoText Idem begin

text \<open>
  runtime-service: the in-process idempotency store (\<open>internal/service/idem_store.go\<close>,
  \<open>memIdemStore\<close>) and the RPC that uses it, \<open>RunGraphTask\<close> of
  \<open>internal/service/dsh_agent.go\<close>.

  Both methods of the store hold its lock, so each is one step; the RPC holds no lock between its
  check and its save, so it is modelled as two steps around the run of the sandbox. The Redis
  variant keeps the same table on a server and is not modelled. The sandbox run and the JSON
  encoder and decoder are arguments.
\<close>

section \<open>memIdemStore\<close>

datatype idemState = idemNew | idemReplay | idemConflict

record memEntry =
  meFp :: string
  meResp :: string
  meSavedAt :: gotime

record memIdemStore =
  miM :: "(string \<times> memEntry) list"
  miOrder :: "string list"

definition mem_idemWindow :: int where "mem_idemWindow = 24 * ns_hour"

definition idemMaxEntries :: nat where "idemMaxEntries = 10000"

definition newMemIdemStore :: memIdemStore where
  "newMemIdemStore = \<lparr>miM = [], miOrder = []\<rparr>"

definition mem_check :: "gotime \<Rightarrow> string \<Rightarrow> string \<Rightarrow> memIdemStore \<Rightarrow> idemState \<times> string" where
  "mem_check now requestID fingerprint s =
    (case map_of (miM s) requestID of
       None \<Rightarrow> (idemNew, [])
     | Some e \<Rightarrow> if now - meSavedAt e > mem_idemWindow then (idemNew, [])
         else if meFp e \<noteq> fingerprint then (idemConflict, [])
         else (idemReplay, meResp e))"

definition mem_save :: "gotime \<Rightarrow> string \<Rightarrow> string \<Rightarrow> string \<Rightarrow> memIdemStore \<Rightarrow> memIdemStore" where
  "mem_save now requestID fingerprint resp s =
    (let (m, ord) =
       (if map_of (miM s) requestID = None
        then (let ord1 = miOrder s @ [requestID]
              in if length ord1 > idemMaxEntries then (AList.delete (hd ord1) (miM s), tl ord1) else (miM s, ord1))
        else (miM s, miOrder s))
     in s\<lparr>miM := AList.update requestID \<lparr>meFp = fingerprint, meResp = resp, meSavedAt = now\<rparr> m, miOrder := ord\<rparr>)"

definition mem_inv :: "memIdemStore \<Rightarrow> bool" where
  "mem_inv s \<longleftrightarrow> fifo_inv idemMaxEntries (miM s, miOrder s)"

definition mem_entry :: "memIdemStore \<Rightarrow> string \<Rightarrow> (string \<times> string \<times> gotime) option" where
  "mem_entry s k = map_option (\<lambda>e. (meFp e, meResp e, meSavedAt e)) (map_of (miM s) k)"

definition mem_chk :: "gotime \<Rightarrow> string \<Rightarrow> string \<Rightarrow> memIdemStore \<Rightarrow> string idem_answer \<times> memIdemStore" where
  "mem_chk now k h s = (case mem_check now k h s of
     (idemNew, _) \<Rightarrow> (IdemNew, s) | (idemReplay, r) \<Rightarrow> (IdemReplay r, s) | (idemConflict, _) \<Rightarrow> (IdemConflict, s))"

lemma idemMaxEntries_pos: "0 < idemMaxEntries"
  by (simp add: idemMaxEntries_def)

lemma update_fresh_append: "map_of m k = None \<Longrightarrow> AList.update k e m = m @ [(k, e)]"
  by (induction m) (auto split: if_splits)

lemma delete_update_swap:
  "map_of m k = None \<Longrightarrow> j \<noteq> k \<Longrightarrow> AList.delete j (AList.update k e m) = AList.update k e (AList.delete j m)"
  by (induction m) (auto split: if_splits)

text \<open>Dropping the oldest key before the write is the table operation of the other stores.\<close>

lemma mem_save_fifo:
  assumes "mem_inv s"
  shows "(miM (mem_save now k h r s), miOrder (mem_save now k h r s)) =
    fifo_put idemMaxEntries k \<lparr>meFp = h, meResp = r, meSavedAt = now\<rparr> (miM s, miOrder s)"
proof -
  have f: "fifo_inv idemMaxEntries (miM s, miOrder s)" using assms by (simp add: mem_inv_def)
  have "hd (miOrder s @ [k]) \<noteq> k" if "map_of (miM s) k = None" "\<not> length (miOrder s) < idemMaxEntries"
    using that fifo_known[OF f, of k] idemMaxEntries_pos by (cases "miOrder s") auto
  then show ?thesis
    by (auto simp: mem_save_def Let_def fifo_put_cases[OF f] delete_update_swap)
qed

lemma mem_inv_save: "mem_inv s \<Longrightarrow> mem_inv (mem_save now k h r s)"
  using fifo_put_inv[of idemMaxEntries "(miM s, miOrder s)"] by (simp add: mem_inv_def mem_save_fifo)

lemma mem_lookup_save:
  "mem_inv s \<Longrightarrow> map_of (miM (mem_save now k h r s)) =
     map_of (fst (fifo_put idemMaxEntries k \<lparr>meFp = h, meResp = r, meSavedAt = now\<rparr> (miM s, miOrder s)))"
  by (metis mem_save_fifo fst_conv)

lemma mem_save_own: "mem_inv s \<Longrightarrow> mem_entry (mem_save now k h r s) k = Some (h, r, now)"
  by (simp add: mem_entry_def mem_lookup_save fifo_put_lookup idemMaxEntries_pos mem_inv_def)

lemma mem_save_other:
  assumes "mem_inv s" "j \<noteq> k"
  shows "mem_entry (mem_save now k h r s) j = mem_entry s j \<or>
    (mem_entry (mem_save now k h r s) j = None \<and> length (miOrder s) = idemMaxEntries)"
  using fifo_put_other[OF assms(1)[unfolded mem_inv_def] assms(2), of "\<lparr>meFp = h, meResp = r, meSavedAt = now\<rparr>"]
  by (auto simp: mem_entry_def mem_lookup_save[OF assms(1)])

lemma mem_chk_cases:
  "mem_chk now k h s = (case map_of (miM s) k of None \<Rightarrow> (IdemNew, s) | Some e \<Rightarrow>
     if now - meSavedAt e > mem_idemWindow then (IdemNew, s)
     else if meFp e \<noteq> h then (IdemConflict, s) else (IdemReplay (meResp e), s))"
  by (simp add: mem_chk_def mem_check_def split: option.split)

interpretation memory: idem_store mem_chk mem_save mem_inv mem_entry "\<lambda>s. length (miOrder s)" mem_idemWindow idemMaxEntries
proof (unfold_locales, goal_cases)
  case (1 s now k h)
  then show ?case by (simp add: mem_chk_cases split: option.split)
next
  case (2 s now k h v)
  then show ?case by (rule mem_inv_save)
next
  case (3 s)
  then show ?case by (simp add: mem_inv_def fifo_inv_def)
next
  case (4 s k now h)
  then show ?case by (simp add: mem_chk_cases mem_entry_def)
next
  case (5 s k h' v t now h)
  then show ?case by (auto simp: mem_chk_cases mem_entry_def)
next
  case (6 s now k h j)
  then show ?case by (simp add: mem_chk_cases split: option.split)
next
  case (7 s now k h v)
  then show ?case by (simp add: mem_save_own)
next
  case (8 s j k now h v)
  then show ?case by (rule mem_save_other)
qed

section \<open>RunGraphTask\<close>

record graph_request =
  grRequestId :: string
  grTaskId :: string
  grProjectPath :: string
  grGraph :: string

text \<open>The request's graph is kept as the text \<open>%v\<close> prints of it.\<close>

definition graph_fingerprint :: "graph_request \<Rightarrow> string" where
  "graph_fingerprint req = grTaskId req @ ''|'' @ grProjectPath req @ ''|'' @ grGraph req"

text \<open>The answer a call gives at once, or that it goes on to run the task.\<close>

datatype 'r graph_start = StartDone "grpc_error + 'r" | StartRun

definition run_graph_start ::
  "(string \<Rightarrow> 'r option) \<Rightarrow> gotime \<Rightarrow> graph_request \<Rightarrow> memIdemStore \<Rightarrow> 'r graph_start" where
  "run_graph_start dec now req s =
    (if grRequestId req = [] then StartDone (Inl (InvalidArgument, ''RequestMetadata.request_id is required (R4)''))
     else
       (let go = (if grTaskId req = [] then StartDone (Inl (InvalidArgument, ''task_id is required'')) else StartRun)
        in case mem_check now (grRequestId req) (graph_fingerprint req) s of
             (idemReplay, cached) \<Rightarrow> (case dec cached of Some out \<Rightarrow> StartDone (Inr out) | None \<Rightarrow> go)
           | (idemConflict, _) \<Rightarrow> StartDone (Inl (AlreadyExists,
               ''request_id used with a different request body (03 '' @ utf8 [194, 167] @ ''2)''))
           | (idemNew, _) \<Rightarrow> go))"

definition run_graph_finish ::
  "('r \<Rightarrow> string option) \<Rightarrow> gotime \<Rightarrow> graph_request \<Rightarrow> grpc_error + 'r \<Rightarrow> memIdemStore \<Rightarrow>
    (grpc_error + 'r) \<times> memIdemStore" where
  "run_graph_finish enc now req result s =
    (case result of
       Inl e \<Rightarrow> (Inl e, s)
     | Inr resp \<Rightarrow> (case enc resp of
         Some raw \<Rightarrow> (Inr resp, mem_save now (grRequestId req) (graph_fingerprint req) raw s)
       | None \<Rightarrow> (Inr resp, s)))"

text \<open>A completed run is answered from the store for 24 hours: whatever other requests are saved in between
  as long as fewer than 10000 keys are remembered, the same request is answered with the same
  response and does not start a second run.\<close>

theorem completed_run_is_replayed:
  assumes "mem_inv s" "dec raw = Some resp" "enc resp = Some raw" "grRequestId req \<noteq> []"
    and "t2 - t1 \<le> mem_idemWindow"
    and "list_all (\<lambda>op. \<not> saves_key (grRequestId req) op) ops"
    and "mem_entry (idem_run mem_chk mem_save ops (snd (run_graph_finish enc t1 req (Inr resp) s))) (grRequestId req) \<noteq> None"
  shows "run_graph_start dec t2 req (idem_run mem_chk mem_save ops (snd (run_graph_finish enc t1 req (Inr resp) s))) =
    StartDone (Inr resp)"
proof -
  let ?k = "grRequestId req" and ?h = "graph_fingerprint req"
  let ?s = "idem_run mem_chk mem_save ops (mem_save t1 ?k ?h raw s)"
  have "mem_entry ?s ?k = Some (?h, raw, t1)"
    using memory.run_entry[OF mem_inv_save[OF assms(1)] mem_save_own[OF assms(1)] assms(6), of t1 ?h raw] assms(3,7)
    by (auto simp: run_graph_finish_def)
  then have "mem_check t2 ?k ?h ?s = (idemReplay, raw)"
    using assms(5) by (auto simp: mem_entry_def mem_check_def)
  then show ?thesis using assms(2,3,4) by (simp add: run_graph_start_def run_graph_finish_def)
qed

definition demo_request :: graph_request where
  "demo_request = \<lparr>grRequestId = ''r1'', grTaskId = ''t1'', grProjectPath = ''/p'', grGraph = ''g''\<rparr>"

lemma mem_inv_new: "mem_inv newMemIdemStore"
  by (simp add: mem_inv_def newMemIdemStore_def fifo_inv_def)

theorem completed_run_is_replayed_witness:
  "run_graph_start (Some :: string \<Rightarrow> string option) 9 demo_request
     (idem_run mem_chk mem_save [OpSave 5 ''r2'' ''f'' ''w'']
       (snd (run_graph_finish Some 3 demo_request (Inr ''out'') newMemIdemStore))) = StartDone (Inr ''out'')"
  by (rule completed_run_is_replayed[where raw = "''out''", OF mem_inv_new])
    (simp_all add: demo_request_def mem_idemWindow_def ns_hour_def ns_minute_def ns_second_def run_graph_finish_def
      mem_save_def newMemIdemStore_def idemMaxEntries_def mem_entry_def)

end
