(* ===== verification/Storage.thy ===== *)
theory Storage imports Main Prelude GoText Idem begin

text \<open>
  storage-service: the in-memory store of files, notifications and idempotency keys
  (\<open>internal/repo/memory.go\<close>), chunked upload and download (\<open>internal/service/storage.go\<close>,
  \<open>internal/handler/storage.go\<close>) and notifications with their Kafka entry
  (\<open>internal/service/notification.go\<close>).

  Each method runs under the store's lock and is one step. The clock, the random bytes of an id
  and the SHA-256 digest are arguments. A Go map is an association list: the order in which a
  listing ranges over it is unspecified in Go, and the properties speak of the set listed.
  Log lines are left out.
\<close>

section \<open>Data\<close>

record stored_file =
  FileId :: string
  FilePath :: string
  SizeBytes :: int
  ContentType :: string
  ChecksumSha256 :: string
  fCreatedAt :: gotime

datatype notification_type = TypeUnspecified | TypeEmail | TypeWebhook | TypeInApp

datatype notification_event = EventUnspecified | TaskCreated | TaskCompleted | TaskFailed
  | HighSeverityFound | ReportReady

record notification =
  NotificationId :: string
  UserId :: string
  nType :: notification_type
  nEvent :: notification_event
  Title :: string
  Body :: string
  Payload :: "(string \<times> string) list"
  nCreatedAt :: "gotime option"
  Read :: bool

text \<open>
  The code keeps pointers to entries and compares them (\<open>cur == entry\<close>); \<open>ieAddr\<close> is
  the address of an entry, taken from a counter at each \<open>&IdempotencyEntry\<close>.
\<close>

record 'v idempotency_entry =
  ieAddr :: nat
  ieBodyHash :: string
  ieResponse :: 'v
  ieCreatedAt :: gotime

record 'v memory_store =
  files :: "(string \<times> stored_file) list"
  fileData :: "(string \<times> string) list"
  notifications :: "(string \<times> notification) list"
  idempotencyKeys :: "(string \<times> 'v idempotency_entry) list"
  idempotencyOrd :: "string list"
  nextAddr :: nat

definition idemWindow :: int where "idemWindow = 24 * ns_hour"

definition idemMaxKeys :: nat where "idemMaxKeys = 10000"

definition NewMemoryStore :: "'v memory_store" where
  "NewMemoryStore = \<lparr>files = [], fileData = [], notifications = [], idempotencyKeys = [],
     idempotencyOrd = [], nextAddr = 0\<rparr>"

section \<open>The store\<close>

definition store_SaveFile :: "gotime \<Rightarrow> stored_file \<Rightarrow> string \<Rightarrow> 'v memory_store \<Rightarrow> 'v memory_store" where
  "store_SaveFile now file data m =
    m\<lparr>files := AList.update (FileId file) (file\<lparr>fCreatedAt := now\<rparr>) (files m),
      fileData := AList.update (FileId file) data (fileData m)\<rparr>"

definition store_GetFile :: "string \<Rightarrow> 'v memory_store \<Rightarrow> stored_file option" where
  "store_GetFile fid m = map_of (files m) fid"

definition store_GetFileData :: "string \<Rightarrow> 'v memory_store \<Rightarrow> string option" where
  "store_GetFileData fid m = map_of (fileData m) fid"

definition store_DeleteFile :: "string \<Rightarrow> 'v memory_store \<Rightarrow> 'v memory_store" where
  "store_DeleteFile fid m = m\<lparr>files := AList.delete fid (files m), fileData := AList.delete fid (fileData m)\<rparr>"

definition startsWith :: "string \<Rightarrow> string \<Rightarrow> bool" where
  "startsWith s p \<longleftrightarrow> length s \<ge> length p \<and> take (length p) s = p"

definition store_ListFiles :: "string \<Rightarrow> 'v memory_store \<Rightarrow> stored_file list" where
  "store_ListFiles p m = filter (\<lambda>f. p = [] \<or> startsWith (FilePath f) p) (map snd (files m))"

definition SaveNotification :: "gotime \<Rightarrow> notification \<Rightarrow> 'v memory_store \<Rightarrow> 'v memory_store" where
  "SaveNotification now n m =
    (let n' = (if nCreatedAt n = None then n\<lparr>nCreatedAt := Some now\<rparr> else n)
     in m\<lparr>notifications := AList.update (NotificationId n') n' (notifications m)\<rparr>)"

definition GetNotification :: "string \<Rightarrow> 'v memory_store \<Rightarrow> notification option" where
  "GetNotification i m = map_of (notifications m) i"

definition MarkRead :: "string \<Rightarrow> 'v memory_store \<Rightarrow> notification option \<times> 'v memory_store" where
  "MarkRead i m = (case map_of (notifications m) i of
     None \<Rightarrow> (None, m)
   | Some n \<Rightarrow> (Some (n\<lparr>Read := True\<rparr>), m\<lparr>notifications := AList.update i (n\<lparr>Read := True\<rparr>) (notifications m)\<rparr>))"

definition store_ListNotifications :: "string \<Rightarrow> bool \<Rightarrow> 'v memory_store \<Rightarrow> notification list" where
  "store_ListNotifications userID unreadOnly m =
    filter (\<lambda>n. UserId n = userID \<and> \<not> (unreadOnly \<and> Read n)) (map snd (notifications m))"

section \<open>Idempotency keys of the store\<close>

definition purge_expired :: "string \<Rightarrow> 'v idempotency_entry \<Rightarrow> 'v memory_store \<Rightarrow> 'v memory_store" where
  "purge_expired requestID entry m =
    (case map_of (idempotencyKeys m) requestID of
       Some cur \<Rightarrow> if ieAddr cur = ieAddr entry
         then m\<lparr>idempotencyKeys := AList.delete requestID (idempotencyKeys m),
                idempotencyOrd := remove1 requestID (idempotencyOrd m)\<rparr>
         else m
     | None \<Rightarrow> m)"

text \<open>\<open>(entry, hit, error)\<close>: \<open>Inl ()\<close> is \<open>ErrAlreadyExists\<close>.\<close>

definition CheckIdempotency ::
  "gotime \<Rightarrow> string \<Rightarrow> string \<Rightarrow> 'v memory_store \<Rightarrow> (unit + 'v idempotency_entry option) \<times> 'v memory_store" where
  "CheckIdempotency now requestID bodyHash m =
    (case map_of (idempotencyKeys m) requestID of
       None \<Rightarrow> (Inr None, m)
     | Some entry \<Rightarrow>
         if now - ieCreatedAt entry > idemWindow then (Inr None, purge_expired requestID entry m)
         else if ieBodyHash entry = bodyHash then (Inr (Some entry), m)
         else (Inl (), m))"

definition SetIdempotency :: "gotime \<Rightarrow> string \<Rightarrow> string \<Rightarrow> 'v \<Rightarrow> 'v memory_store \<Rightarrow> 'v memory_store" where
  "SetIdempotency now requestID bodyHash response m =
    (let ord = (if map_of (idempotencyKeys m) requestID = None then idempotencyOrd m @ [requestID] else idempotencyOrd m);
         e = \<lparr>ieAddr = nextAddr m, ieBodyHash = bodyHash, ieResponse = response, ieCreatedAt = now\<rparr>;
         (ks, ord') = fifo_trim idemMaxKeys (AList.update requestID e (idempotencyKeys m), ord)
     in m\<lparr>idempotencyKeys := ks, idempotencyOrd := ord', nextAddr := Suc (nextAddr m)\<rparr>)"

definition st_fifo :: "'v memory_store \<Rightarrow> 'v idempotency_entry fifo" where
  "st_fifo m = (idempotencyKeys m, idempotencyOrd m)"

definition st_inv :: "'v memory_store \<Rightarrow> bool" where
  "st_inv m \<longleftrightarrow> fifo_inv idemMaxKeys (st_fifo m)"

definition st_entry :: "'v memory_store \<Rightarrow> string \<Rightarrow> (string \<times> 'v \<times> gotime) option" where
  "st_entry m k = map_option (\<lambda>e. (ieBodyHash e, ieResponse e, ieCreatedAt e)) (map_of (idempotencyKeys m) k)"

definition st_chk :: "gotime \<Rightarrow> string \<Rightarrow> string \<Rightarrow> 'v memory_store \<Rightarrow> 'v idem_answer \<times> 'v memory_store" where
  "st_chk now k h m = (case CheckIdempotency now k h m of
     (Inr None, m') \<Rightarrow> (IdemNew, m') | (Inr (Some e), m') \<Rightarrow> (IdemReplay (ieResponse e), m')
   | (Inl _, m') \<Rightarrow> (IdemConflict, m'))"

lemma idemMaxKeys_pos: "0 < idemMaxKeys"
  by (simp add: idemMaxKeys_def)

lemma st_keys_fifo: "idempotencyKeys m = fst (st_fifo m)"
  by (simp add: st_fifo_def)

lemma purge_found:
  "map_of (idempotencyKeys m) k = Some e \<Longrightarrow> st_fifo (purge_expired k e m) = fifo_remove k (st_fifo m)"
  by (simp add: purge_expired_def st_fifo_def fifo_remove_def)

lemma set_fifo:
  "st_fifo (SetIdempotency now k h r m) =
    fifo_put idemMaxKeys k \<lparr>ieAddr = nextAddr m, ieBodyHash = h, ieResponse = r, ieCreatedAt = now\<rparr> (st_fifo m)"
  by (simp add: st_fifo_def SetIdempotency_def fifo_put_def Let_def split: prod.split)

lemma set_frame [frame_simps]:
  "notifications (SetIdempotency now k h r m) = notifications m"
  "files (SetIdempotency now k h r m) = files m"
  "fileData (SetIdempotency now k h r m) = fileData m"
  by (simp_all add: SetIdempotency_def Let_def split: prod.split)

lemma st_chk_cases:
  "st_chk now k h m = (case map_of (idempotencyKeys m) k of None \<Rightarrow> (IdemNew, m) | Some e \<Rightarrow>
     if now - ieCreatedAt e > idemWindow then (IdemNew, purge_expired k e m)
     else if ieBodyHash e = h then (IdemReplay (ieResponse e), m) else (IdemConflict, m))"
  by (simp add: st_chk_def CheckIdempotency_def split: option.split)

lemma st_inv_set: "st_inv m \<Longrightarrow> st_inv (SetIdempotency now k h r m)"
  by (simp add: st_inv_def set_fifo fifo_put_inv)

lemma st_inv_purge: "st_inv m \<Longrightarrow> map_of (idempotencyKeys m) k = Some e \<Longrightarrow> st_inv (purge_expired k e m)"
  by (simp add: st_inv_def purge_found fifo_remove_inv)

lemma st_set_own: "st_inv m \<Longrightarrow> st_entry (SetIdempotency now k h r m) k = Some (h, r, now)"
  by (simp add: st_entry_def st_keys_fifo set_fifo st_inv_def fifo_put_lookup idemMaxKeys_pos)

lemma st_set_other:
  assumes "st_inv m" "j \<noteq> k"
  shows "st_entry (SetIdempotency now k h r m) j = st_entry m j \<or>
    (st_entry (SetIdempotency now k h r m) j = None \<and> length (idempotencyOrd m) = idemMaxKeys)"
  using fifo_put_other[OF assms(1)[unfolded st_inv_def] assms(2),
      of "\<lparr>ieAddr = nextAddr m, ieBodyHash = h, ieResponse = r, ieCreatedAt = now\<rparr>"]
  unfolding st_entry_def st_keys_fifo set_fifo by (auto simp: st_fifo_def)

lemma st_purge_entry:
  "map_of (idempotencyKeys m) k = Some e \<Longrightarrow>
    st_entry (purge_expired k e m) j = (if j = k then None else st_entry m j)"
  by (simp add: st_entry_def st_keys_fifo purge_found fifo_remove_lookup)

interpretation stored: idem_store st_chk SetIdempotency st_inv st_entry
  "\<lambda>m. length (idempotencyOrd m)" idemWindow idemMaxKeys
proof (unfold_locales, goal_cases)
  case (1 s now k h)
  then show ?case by (simp add: st_chk_cases st_inv_purge split: option.split)
next
  case (2 s now k h v)
  then show ?case by (rule st_inv_set)
next
  case (3 s)
  then show ?case by (simp add: st_inv_def fifo_inv_def st_fifo_def)
next
  case (4 s k now h)
  then show ?case by (simp add: st_chk_cases st_entry_def)
next
  case (5 s k h' v t now h)
  then show ?case by (auto simp: st_chk_cases st_entry_def)
next
  case (6 s now k h j)
  show ?case
  proof (cases "map_of (idempotencyKeys s) k")
    case (Some a)
    then have "st_entry s k = Some (ieBodyHash a, ieResponse a, ieCreatedAt a)" by (simp add: st_entry_def)
    then show ?thesis using Some by (auto simp: st_chk_cases st_purge_entry)
  qed (simp add: st_chk_cases)
next
  case (7 s now k h v)
  then show ?case by (simp add: st_set_own)
next
  case (8 s j k now h v)
  then show ?case by (rule st_set_other)
qed

text \<open>A purge deletes only the entry it read: when the key was saved again between the read and the
  purge of an expired check, the new entry stays.\<close>

theorem purge_spares_a_newer_entry:
  assumes "st_inv m" "map_of (idempotencyKeys m) k = Some e" "ieAddr e < nextAddr m"
  shows "st_entry (purge_expired k e (SetIdempotency now k h r m)) k = Some (h, r, now)"
proof -
  let ?e = "\<lparr>ieAddr = nextAddr m, ieBodyHash = h, ieResponse = r, ieCreatedAt = now\<rparr>"
  have "map_of (idempotencyKeys (SetIdempotency now k h r m)) k = Some ?e"
    using assms(1) by (simp add: st_keys_fifo set_fifo st_inv_def fifo_put_lookup idemMaxKeys_pos)
  then have "purge_expired k e (SetIdempotency now k h r m) = SetIdempotency now k h r m"
    using assms(3) by (simp add: purge_expired_def)
  then show ?thesis using st_set_own[OF assms(1)] by simp
qed

lemma st_inv_new: "st_inv NewMemoryStore"
  by (simp add: st_inv_def st_fifo_def fifo_inv_def NewMemoryStore_def)

theorem purge_spares_a_newer_entry_witness:
  "st_entry (purge_expired ''r'' \<lparr>ieAddr = 0, ieBodyHash = ''a'', ieResponse = (), ieCreatedAt = 1\<rparr>
     (SetIdempotency 90 ''r'' ''b'' () (SetIdempotency 1 ''r'' ''a'' () NewMemoryStore))) ''r'' = Some (''b'', (), 90)"
  by (rule purge_spares_a_newer_entry[OF st_inv_set[OF st_inv_new]])
    (simp_all add: SetIdempotency_def NewMemoryStore_def idemMaxKeys_def)

section \<open>Files: chunked upload and download\<close>

record upload_chunk =
  ucData :: string
  ucFilePath :: string
  ucContentType :: string
  ucFirstChunk :: bool

text \<open>What \<open>stream.Recv\<close> returns: a chunk or an error; the end of the list is \<open>io.EOF\<close>.\<close>

datatype recv = RecvChunk upload_chunk | RecvError string

definition maxAssembleBytes :: int where "maxAssembleBytes = 512 * 2 ^ 20"

record assembly =
  asBuf :: string
  asFilePath :: string
  asContentType :: string

fun assemble_loop :: "int \<Rightarrow> recv list \<Rightarrow> assembly \<Rightarrow> grpc_error + assembly" where
  "assemble_loop limit [] a = Inr a"
| "assemble_loop limit (RecvError e # rs) a = Inl (Internal, ''failed to receive chunk: '' @ e)"
| "assemble_loop limit (RecvChunk c # rs) a =
    (let a1 = (if ucFirstChunk c then a\<lparr>asFilePath := ucFilePath c, asContentType := ucContentType c\<rparr> else a);
         a2 = a1\<lparr>asBuf := asBuf a1 @ ucData c\<rparr>
     in if int (length (asBuf a2)) > limit
        then Inl (ResourceExhausted, ''object exceeds assemble limit '' @ int_digits limit @ '' bytes (R62)'')
        else assemble_loop limit rs a2)"

text \<open>\<open>GenerateID\<close>: a time stamp and 8 random bytes in hexadecimal.\<close>

definition hex_digit :: "nat \<Rightarrow> char" where
  "hex_digit n = (if n < 10 then char_of (48 + n) else char_of (87 + n))"

definition hex_string :: "8 word list \<Rightarrow> string" where
  "hex_string bs = concat (map (\<lambda>b. [hex_digit (unat b div 16), hex_digit (unat b mod 16)]) bs)"

definition GenerateID :: "string \<Rightarrow> string \<Rightarrow> 8 word list option \<Rightarrow> string" where
  "GenerateID p stamp rnd = (case rnd of
     Some b \<Rightarrow> p @ ''-'' @ stamp @ ''-'' @ hex_string b
   | None \<Rightarrow> p @ ''-'' @ stamp)"

definition AssembleChunks ::
  "(string \<Rightarrow> string) \<Rightarrow> gotime \<Rightarrow> string \<Rightarrow> int \<Rightarrow> recv list \<Rightarrow> grpc_error + (stored_file \<times> string)" where
  "AssembleChunks sha256Hex now fileID limit rs =
    (case assemble_loop limit rs \<lparr>asBuf = [], asFilePath = [], asContentType = []\<rparr> of
       Inl e \<Rightarrow> Inl e
     | Inr a \<Rightarrow>
         if asFilePath a = [] then Inl (InvalidArgument, ''first chunk must set file_path'')
         else Inr (\<lparr>FileId = fileID, FilePath = asFilePath a, SizeBytes = int (length (asBuf a)),
                     ContentType = asContentType a, ChecksumSha256 = sha256Hex (asBuf a), fCreatedAt = now\<rparr>, asBuf a))"

definition UploadFile ::
  "(string \<Rightarrow> string) \<Rightarrow> gotime \<Rightarrow> string \<Rightarrow> int \<Rightarrow> recv list \<Rightarrow> 'v memory_store \<Rightarrow>
    (grpc_error + stored_file) \<times> 'v memory_store" where
  "UploadFile sha256Hex now fileID limit rs m = (case AssembleChunks sha256Hex now fileID limit rs of
     Inl e \<Rightarrow> (Inl e, m)
   | Inr (file, data) \<Rightarrow> (Inr (file\<lparr>fCreatedAt := now\<rparr>), store_SaveFile now file data m))"

definition svc_GetFile :: "string \<Rightarrow> 'v memory_store \<Rightarrow> grpc_error + stored_file" where
  "svc_GetFile fid m = (case store_GetFile fid m of
     None \<Rightarrow> Inl (NotFound, ''file '' @ fid @ '' not found'') | Some f \<Rightarrow> Inr f)"

definition svc_GetFileData :: "string \<Rightarrow> 'v memory_store \<Rightarrow> grpc_error + string" where
  "svc_GetFileData fid m = (case store_GetFileData fid m of
     None \<Rightarrow> Inl (NotFound, ''file '' @ fid @ '' not found'') | Some d \<Rightarrow> Inr d)"

definition chunkSize :: nat where "chunkSize = 64 * 1024"

text \<open>The chunks a download sends, from an offset on.\<close>

function send_chunks :: "nat \<Rightarrow> string \<Rightarrow> string list" where
  "send_chunks off data =
    (if off < length data
     then (let e = (if off + chunkSize > length data then length data else off + chunkSize)
           in take (e - off) (drop off data) # send_chunks (off + chunkSize) data)
     else [])"
  by pat_completeness auto
termination by (relation "measure (\<lambda>(off, data). length data - off)") (auto simp: chunkSize_def)

declare send_chunks.simps [simp del]

definition DownloadFile :: "string \<Rightarrow> 'v memory_store \<Rightarrow> grpc_error + string list" where
  "DownloadFile fid m =
    (if fid = [] then Inl (InvalidArgument, ''file_id is required'')
     else (case svc_GetFileData fid m of Inl e \<Rightarrow> Inl e | Inr data \<Rightarrow> Inr (send_chunks 0 data)))"

definition GetFileInfo :: "string \<Rightarrow> 'v memory_store \<Rightarrow> grpc_error + stored_file" where
  "GetFileInfo fid m = (if fid = [] then Inl (InvalidArgument, ''file_id is required'') else svc_GetFile fid m)"

definition svc_DeleteFile :: "string \<Rightarrow> 'v memory_store \<Rightarrow> grpc_error option \<times> 'v memory_store" where
  "svc_DeleteFile fid m = (case store_GetFile fid m of
     None \<Rightarrow> (Some (NotFound, ''file '' @ fid @ '' not found''), m)
   | Some _ \<Rightarrow> (None, store_DeleteFile fid m))"

definition handler_DeleteFile :: "string \<Rightarrow> 'v memory_store \<Rightarrow> grpc_error option \<times> 'v memory_store" where
  "handler_DeleteFile fid m =
    (if fid = [] then (Some (InvalidArgument, ''file_id is required''), m) else svc_DeleteFile fid m)"

lemma send_chunks_drop: "concat (send_chunks off data) = drop off data"
proof (induction off data rule: send_chunks.induct)
  case (1 off data)
  show ?case
  proof (cases "off < length data")
    case True
    have "take chunkSize (drop off data) @ drop (off + chunkSize) data = drop off data"
      by (metis add.commute append_take_drop_id drop_drop)
    then show ?thesis using 1 True by (subst send_chunks.simps) (simp add: Let_def min_def)
  next
    case False
    then show ?thesis by (subst send_chunks.simps) simp
  qed
qed

lemma send_chunks_step:
  "send_chunks off data =
    (if off < length data then take chunkSize (drop off data) # send_chunks (off + chunkSize) data else [])"
  by (subst send_chunks.simps) (simp add: Let_def)

lemma send_chunks_size: "\<forall>c \<in> set (send_chunks off data). c \<noteq> [] \<and> length c \<le> chunkSize"
proof (induction off data rule: send_chunks.induct)
  case (1 off data)
  have pos: "0 < chunkSize" by (simp add: chunkSize_def)
  show ?case
  proof (cases "off < length data")
    case True
    then show ?thesis using 1 pos by (subst send_chunks_step) (simp del: length_greater_0_conv)
  next
    case False
    then show ?thesis by (subst send_chunks_step) simp
  qed
qed

lemma assemble_data:
  "list_all (\<lambda>r. case r of RecvChunk c \<Rightarrow> True | RecvError _ \<Rightarrow> False) rs \<Longrightarrow>
   assemble_loop limit rs a = Inr b \<Longrightarrow>
   asBuf b = asBuf a @ concat (map (\<lambda>r. case r of RecvChunk c \<Rightarrow> ucData c | RecvError _ \<Rightarrow> []) rs)"
  by (induction limit rs a rule: assemble_loop.induct) (auto simp: Let_def split: if_splits)

lemma assemble_ok:
  assumes "\<forall>c \<in> set cs. \<not> ucFirstChunk c"
    and "int (length (asBuf a) + length (concat (map ucData cs))) \<le> limit"
  shows "assemble_loop limit (map RecvChunk cs) a = Inr (a\<lparr>asBuf := asBuf a @ concat (map ucData cs)\<rparr>)"
  using assms by (induction cs arbitrary: a) (auto simp: Let_def)

lemma assemble_first:
  assumes "ucFirstChunk c" "\<forall>d \<in> set cs. \<not> ucFirstChunk d"
    and "int (length (concat (map ucData (c # cs)))) \<le> limit"
  shows "assemble_loop limit (map RecvChunk (c # cs)) \<lparr>asBuf = [], asFilePath = [], asContentType = []\<rparr> =
    Inr \<lparr>asBuf = concat (map ucData (c # cs)), asFilePath = ucFilePath c, asContentType = ucContentType c\<rparr>"
  using assms assemble_ok[OF assms(2), of "\<lparr>asBuf = ucData c, asFilePath = ucFilePath c, asContentType = ucContentType c\<rparr>" limit]
  by (simp add: Let_def)

text \<open>C10. An upload whose first chunk names a path and whose bytes stay within the limit succeeds, and a
  download of its id then streams exactly the uploaded bytes, in non-empty pieces of at most 64 KiB,
  while the file's record reports their number.\<close>

theorem upload_download_roundtrip:
  assumes "ucFirstChunk c" "ucFilePath c \<noteq> []" "\<forall>d \<in> set cs. \<not> ucFirstChunk d"
    and "int (length (concat (map ucData (c # cs)))) \<le> limit" "fid \<noteq> []"
  shows "\<exists>file out. fst (UploadFile sha256Hex now fid limit (map RecvChunk (c # cs)) m) = Inr file \<and>
    DownloadFile fid (snd (UploadFile sha256Hex now fid limit (map RecvChunk (c # cs)) m)) = Inr out \<and>
    concat out = concat (map ucData (c # cs)) \<and> (\<forall>p \<in> set out. p \<noteq> [] \<and> length p \<le> chunkSize) \<and>
    GetFileInfo fid (snd (UploadFile sha256Hex now fid limit (map RecvChunk (c # cs)) m)) = Inr file \<and>
    SizeBytes file = int (length (concat out))"
proof -
  let ?d = "concat (map ucData (c # cs))"
  let ?f = "\<lparr>FileId = fid, FilePath = ucFilePath c, SizeBytes = int (length ?d), ContentType = ucContentType c,
    ChecksumSha256 = sha256Hex ?d, fCreatedAt = now\<rparr>"
  have "AssembleChunks sha256Hex now fid limit (map RecvChunk (c # cs)) = Inr (?f, ?d)"
    unfolding AssembleChunks_def assemble_first[OF assms(1,3,4)] using assms(2) by simp
  then have up: "UploadFile sha256Hex now fid limit (map RecvChunk (c # cs)) m = (Inr ?f, store_SaveFile now ?f ?d m)"
    by (simp add: UploadFile_def)
  have "DownloadFile fid (store_SaveFile now ?f ?d m) = Inr (send_chunks 0 ?d)"
    using assms(5) by (simp add: DownloadFile_def svc_GetFileData_def store_GetFileData_def store_SaveFile_def store_simps)
  moreover have "GetFileInfo fid (store_SaveFile now ?f ?d m) = Inr ?f"
    using assms(5) by (simp add: GetFileInfo_def svc_GetFile_def store_GetFile_def store_SaveFile_def store_simps)
  moreover have "concat (send_chunks 0 ?d) = ?d" by (simp add: send_chunks_drop)
  ultimately show ?thesis unfolding up using send_chunks_size[of 0 ?d] by auto
qed

theorem upload_download_roundtrip_witness:
  "\<exists>file out. fst (UploadFile (\<lambda>_. ''sum'') 5 ''file-1'' 4 (map RecvChunk
      [\<lparr>ucData = ''ab'', ucFilePath = ''reports/r'', ucContentType = ''text'', ucFirstChunk = True\<rparr>,
       \<lparr>ucData = ''cd'', ucFilePath = [], ucContentType = [], ucFirstChunk = False\<rparr>]) (NewMemoryStore :: unit memory_store)) = Inr file
    \<and> concat out = ''abcd'' \<and> SizeBytes file = 4"
  using upload_download_roundtrip[of "\<lparr>ucData = ''ab'', ucFilePath = ''reports/r'', ucContentType = ''text'', ucFirstChunk = True\<rparr>"
      "[\<lparr>ucData = ''cd'', ucFilePath = [], ucContentType = [], ucFirstChunk = False\<rparr>]" 4 "''file-1''" "\<lambda>_. ''sum''" 5
      "NewMemoryStore :: unit memory_store"] by auto

section \<open>Notifications\<close>

fun type_num :: "notification_type \<Rightarrow> int" where
  "type_num TypeUnspecified = 0" | "type_num TypeEmail = 1" | "type_num TypeWebhook = 2" | "type_num TypeInApp = 3"

fun event_num :: "notification_event \<Rightarrow> int" where
  "event_num EventUnspecified = 0" | "event_num TaskCreated = 1" | "event_num TaskCompleted = 2"
| "event_num TaskFailed = 3" | "event_num HighSeverityFound = 4" | "event_num ReportReady = 5"

definition notificationHash :: "(string \<Rightarrow> string) \<Rightarrow> notification \<Rightarrow> string" where
  "notificationHash sha256Hex n = sha256Hex
    (int_digits (type_num (nType n)) @ ''|'' @ int_digits (event_num (nEvent n)) @ ''|'' @ UserId n @ ''|'' @
     Title n @ ''|'' @ Body n)"

definition batchNotificationHash :: "(string \<Rightarrow> string) \<Rightarrow> notification list \<Rightarrow> string" where
  "batchNotificationHash sha256Hex ns = sha256Hex (concat (map (\<lambda>n. notificationHash sha256Hex n @ ''|'') ns))"

definition idem_refused :: grpc_error where
  "idem_refused = (AlreadyExists, ''idempotency key already used with different body'')"

definition no_request_id :: grpc_error where
  "no_request_id = (InvalidArgument, ''RequestMetadata.request_id is required (03 '' @ utf8 [194,
      167] @ ''2)'')"

definition with_id_and_time :: "gotime \<Rightarrow> string \<Rightarrow> notification \<Rightarrow> notification" where
  "with_id_and_time now newid n =
    (let n1 = (if NotificationId n = [] then n\<lparr>NotificationId := newid\<rparr> else n)
     in if nCreatedAt n1 = None then n1\<lparr>nCreatedAt := Some now\<rparr> else n1)"

text \<open>A missing \<open>RequestMetadata\<close> is an empty request id, which the code refuses alike.\<close>

definition SendNotification ::
  "(string \<Rightarrow> string) \<Rightarrow> gotime \<Rightarrow> string \<Rightarrow> string \<Rightarrow> notification \<Rightarrow> unit memory_store \<Rightarrow>
    (grpc_error + unit) \<times> unit memory_store" where
  "SendNotification sha256Hex now newid requestId n m =
    (if requestId = [] then (Inl no_request_id, m)
     else let bodyHash = notificationHash sha256Hex n
     in case CheckIdempotency now requestId bodyHash m of
          (Inl _, m1) \<Rightarrow> (Inl idem_refused, m1)
        | (Inr (Some entry), m1) \<Rightarrow> (Inr (ieResponse entry), m1)
        | (Inr None, m1) \<Rightarrow>
            (Inr (), SetIdempotency now requestId bodyHash () (SaveNotification now (with_id_and_time now newid n) m1)))"

fun save_batch :: "gotime \<Rightarrow> (string \<times> notification) list \<Rightarrow> 'v memory_store \<Rightarrow> 'v memory_store" where
  "save_batch now [] m = m"
| "save_batch now ((newid, n) # ns) m = save_batch now ns (SaveNotification now (with_id_and_time now newid n) m)"

definition SendBatchNotification ::
  "(string \<Rightarrow> string) \<Rightarrow> gotime \<Rightarrow> string \<Rightarrow> (string \<times> notification) list \<Rightarrow> unit memory_store \<Rightarrow>
    (grpc_error + unit) \<times> unit memory_store" where
  "SendBatchNotification sha256Hex now requestId ns m =
    (if requestId = [] then (Inl no_request_id, m)
     else let bodyHash = batchNotificationHash sha256Hex (map snd ns)
     in case CheckIdempotency now requestId bodyHash m of
          (Inl _, m1) \<Rightarrow> (Inl idem_refused, m1)
        | (Inr (Some entry), m1) \<Rightarrow> (Inr (ieResponse entry), m1)
        | (Inr None, m1) \<Rightarrow> (Inr (), SetIdempotency now requestId bodyHash () (save_batch now ns m1)))"

definition svc_ListNotifications :: "string \<Rightarrow> bool \<Rightarrow> 'v memory_store \<Rightarrow> grpc_error + notification list" where
  "svc_ListNotifications userId unreadOnly m =
    (if userId = [] then Inl (InvalidArgument, ''user_id is required'') else Inr (store_ListNotifications userId unreadOnly m))"

definition MarkNotificationRead :: "string \<Rightarrow> 'v memory_store \<Rightarrow> (grpc_error + notification) \<times> 'v memory_store" where
  "MarkNotificationRead i m =
    (if i = [] then (Inl (InvalidArgument, ''notification_id is required''), m)
     else case MarkRead i m of
            (None, m1) \<Rightarrow> (Inl (NotFound, ''notification '' @ i @ '' not found''), m1)
          | (Some n, m1) \<Rightarrow> (Inr n, m1))"

definition publish_notification :: "gotime \<Rightarrow> string \<Rightarrow> notification \<Rightarrow> 'v memory_store \<Rightarrow> 'v memory_store" where
  "publish_notification now newid n m = SaveNotification now (with_id_and_time now newid n) m"

record event_payload =
  epTaskID :: string
  epProjectID :: string
  epStatus :: string
  epCreatedBy :: string
  epUserID :: string
  epUpdatedBy :: string
  epSeverity :: string
  epFindingID :: string
  epNewVerdict :: string

fun firstNonEmpty :: "string list \<Rightarrow> string" where
  "firstNonEmpty [] = []"
| "firstNonEmpty (v # vs) = (if v \<noteq> [] then v else firstNonEmpty vs)"

definition containsFailed :: "string \<Rightarrow> bool" where
  "containsFailed st \<longleftrightarrow> st \<noteq> [] \<and> (st = ''TASK_STATUS_FAILED'' \<or> st = ''FAILED'' \<or> st = ''TASK_STATUS_DEAD'')"

definition isHighSeverity :: "string \<Rightarrow> bool" where
  "isHighSeverity sev \<longleftrightarrow> sev \<in> {''SEVERITY_HIGH'', ''HIGH'', ''SEVERITY_CRITICAL'', ''CRITICAL''}"

text \<open>Event, title and body of a topic, or the reason to skip it.\<close>

definition event_text :: "string \<Rightarrow> event_payload \<Rightarrow> string + (notification_event \<times> string \<times> string)" where
  "event_text topic p =
    (if topic = ''task.created'' then
       Inr (TaskCreated, (utf8 [228, 187, 187, 229, 138, 161, 229, 183, 178, 229, 136, 155, 229, 187,
           186]), (utf8 [228, 187, 187, 229, 138, 161] @ '' '') @ epTaskID p @ ('' '' @ utf8 [229, 183,
           178, 229, 136, 155, 229, 187, 186]))
     else if topic = ''task.completed'' then
       (if containsFailed (epStatus p) then Inr (TaskFailed, (utf8 [228, 187, 187, 229, 138, 161, 229,
           164, 177, 232, 180, 165]), (utf8 [228, 187, 187, 229, 138, 161] @ '' '') @ epTaskID p @
           ('' '' @ utf8 [230, 137, 167, 232, 161, 140, 229, 164, 177, 232, 180, 165]))
        else Inr (TaskCompleted, (utf8 [228, 187, 187, 229, 138, 161, 229, 174, 140, 230, 136, 144]),
            (utf8 [228, 187, 187, 229, 138, 161] @ '' '') @ epTaskID p @ ('' '' @ utf8 [229, 183, 178,
            229, 174, 140, 230, 136, 144])))
     else if topic = ''finding.created'' then
       (if \<not> isHighSeverity (epSeverity p) then Inl ''severity below HIGH threshold''
        else Inr (HighSeverityFound, (utf8 [233, 171, 152, 229, 141, 177, 229, 143, 145, 231, 142,
            176]), (utf8 [228, 187, 187, 229, 138, 161] @ '' '') @ epTaskID p @ ('' '' @ utf8 [229,
            143, 145, 231, 142, 176, 233, 171, 152, 229, 141, 177, 233, 151, 174, 233, 162, 152])))
     else if topic = ''task.stage.completed'' \<or> topic = ''finding.verdict.updated'' then
       Inl ''topic has no NotificationEvent enum mapping (logged only)''
     else Inl ''unknown topic'')"

text \<open>
  The payload is what \<open>json.Unmarshal\<close> made of the message (all fields empty when it failed).
  The result is the reason to skip, or the notification and its idempotency key.
\<close>

definition MapEventToNotification ::
  "string \<Rightarrow> string \<Rightarrow> string \<Rightarrow> event_payload \<Rightarrow> string + (notification \<times> string)" where
  "MapEventToNotification newid topic key p =
    (let recipient = firstNonEmpty [epCreatedBy p, epUserID p, epUpdatedBy p]
     in case event_text topic p of
          Inl reason \<Rightarrow> Inl reason
        | Inr (ev, t, b) \<Rightarrow>
            if recipient = [] then Inl ''no recipient in event payload (created_by/user_id/updated_by all empty)''
            else if ev = EventUnspecified then Inl ''unspecified event''
            else Inr (\<lparr>NotificationId = newid, UserId = recipient, nType = TypeInApp, nEvent = ev, Title = t, Body = b,
                       Payload = [(''task_id'', epTaskID p), (''project_id'', epProjectID p), (''finding_id'', epFindingID p)],
                       nCreatedAt = None, Read = False\<rparr>, ''event:'' @ topic @ '':'' @ key))"

definition PublishFromEvent ::
  "gotime \<Rightarrow> string \<Rightarrow> notification \<Rightarrow> string \<Rightarrow> unit memory_store \<Rightarrow> unit memory_store" where
  "PublishFromEvent now newid n idemKey m =
    (if idemKey \<noteq> [] then
       (case CheckIdempotency now idemKey idemKey m of
          (Inr (Some _), m1) \<Rightarrow> m1
        | (_, m1) \<Rightarrow> SetIdempotency now idemKey idemKey () (publish_notification now newid n m1))
     else publish_notification now newid n m)"

text \<open>The consumer's callback (\<open>cmd/main.go\<close>): map, then publish or skip.\<close>

definition consume_event ::
  "gotime \<Rightarrow> string \<Rightarrow> string \<Rightarrow> string \<Rightarrow> event_payload \<Rightarrow> unit memory_store \<Rightarrow> unit memory_store" where
  "consume_event now newid topic key p m =
    (case MapEventToNotification newid topic key p of
       Inr (n, idemKey) \<Rightarrow> PublishFromEvent now newid n idemKey m
     | Inl _ \<Rightarrow> m)"

section \<open>What the notification service promises\<close>

lemma save_notification_frame [frame_simps]:
  "idempotencyKeys (SaveNotification now n m) = idempotencyKeys m"
  "idempotencyOrd (SaveNotification now n m) = idempotencyOrd m"
  by (simp_all add: SaveNotification_def Let_def)

lemma st_save_notification [frame_simps]:
  "st_inv (SaveNotification now n m) = st_inv m" "st_entry (SaveNotification now n m) k = st_entry m k"
  by (simp_all add: st_inv_def st_fifo_def st_entry_def frame_simps)

lemma st_publish [frame_simps]:
  "st_inv (publish_notification now i n m) = st_inv m" "st_entry (publish_notification now i n m) k = st_entry m k"
  by (simp_all add: publish_notification_def frame_simps)

text \<open>A check of a key known to be fresh leaves the store as it is.\<close>

lemma check_of_entry:
  assumes "st_entry m k = Some (h, r, t)" "now - t \<le> idemWindow"
  shows "\<exists>e. CheckIdempotency now k h' m = (if h' = h then Inr (Some e) else Inl (), m) \<and> ieResponse e = r"
  using assms by (auto simp: st_entry_def CheckIdempotency_def)

lemma check_new: "st_entry m k = None \<Longrightarrow> CheckIdempotency now k h m = (Inr None, m)"
  by (simp add: st_entry_def CheckIdempotency_def)

lemma publish_new:
  assumes "st_inv m" "st_entry m k = None" "k \<noteq> []"
  shows "PublishFromEvent now newid n k m = SetIdempotency now k k () (publish_notification now newid n m)"
  using assms by (simp add: PublishFromEvent_def check_new)

lemma publish_known:
  assumes "st_entry m k = Some (k, (), t)" "now - t \<le> idemWindow" "k \<noteq> []"
  shows "PublishFromEvent now newid n k m = m"
proof -
  obtain e where "CheckIdempotency now k k m = (Inr (Some e), m)"
    using check_of_entry[OF assms(1,2), of k] by auto
  then show ?thesis using assms(3) by (simp add: PublishFromEvent_def)
qed

text \<open>A notification request that was accepted is remembered for 24 hours: a later request with the same
  id is answered without touching the store, with success for the same body digest and with
  ALREADY_EXISTS for another.\<close>

theorem send_notification_idempotent:
  assumes "st_inv m" "st_entry m rid = None" "rid \<noteq> []" "t2 - t1 \<le> idemWindow"
  shows "SendNotification sha256Hex t2 id2 rid n2 (snd (SendNotification sha256Hex t1 id1 rid n1 m)) =
    (if notificationHash sha256Hex n2 = notificationHash sha256Hex n1 then Inr () else Inl idem_refused,
     snd (SendNotification sha256Hex t1 id1 rid n1 m))"
proof -
  let ?h = "notificationHash sha256Hex n1"
  let ?m1 = "snd (SendNotification sha256Hex t1 id1 rid n1 m)"
  have m1: "?m1 = SetIdempotency t1 rid ?h () (SaveNotification t1 (with_id_and_time t1 id1 n1) m)"
    using assms by (simp add: SendNotification_def check_new Let_def)
  have "st_entry ?m1 rid = Some (?h, (), t1)" unfolding m1 using assms by (simp add: st_set_own frame_simps)
  from check_of_entry[OF this assms(4), of "notificationHash sha256Hex n2"]
  show ?thesis using assms(3) by (auto simp: SendNotification_def Let_def split: if_splits)
qed

definition demo_notification :: notification where
  "demo_notification = \<lparr>NotificationId = ''n1'', UserId = ''u1'', nType = TypeInApp, nEvent = TaskCreated,
     Title = ''t'', Body = ''b'', Payload = [], nCreatedAt = None, Read = False\<rparr>"

lemma st_entry_new: "st_entry NewMemoryStore k = None"
  by (simp add: st_entry_def NewMemoryStore_def)

theorem send_notification_idempotent_witness:
  "fst (SendNotification id 9 ''x'' ''r1'' (demo_notification\<lparr>Title := ''other''\<rparr>)
     (snd (SendNotification id 3 ''y'' ''r1'' demo_notification NewMemoryStore))) = Inl idem_refused"
proof -
  have "9 - 3 \<le> idemWindow" by (simp add: idemWindow_def ns_hour_def ns_minute_def ns_second_def)
  moreover have "notificationHash id (demo_notification\<lparr>Title := ''other''\<rparr>) \<noteq> notificationHash id demo_notification"
    by (simp add: notificationHash_def demo_notification_def)
  ultimately show ?thesis using send_notification_idempotent[OF st_inv_new st_entry_new, of "''r1''" 9 3 "id"]
    by simp
qed

lemma map_completed_key:
  "MapEventToNotification newid ''task.completed'' key p = Inr (n, k) \<Longrightarrow> k = ''event:task.completed:'' @ key"
  by (auto simp: MapEventToNotification_def Let_def split: sum.splits if_splits)

lemma map_completed_some:
  assumes "firstNonEmpty [epCreatedBy p, epUserID p, epUpdatedBy p] \<noteq> []"
  shows "\<exists>n. MapEventToNotification newid ''task.completed'' key p = Inr (n, ''event:task.completed:'' @ key)"
proof -
  obtain ev t b where "event_text ''task.completed'' p = Inr (ev, t, b)" "ev \<noteq> EventUnspecified"
    by (cases "containsFailed (epStatus p)") (simp_all add: event_text_def)
  then show ?thesis using assms by (simp add: MapEventToNotification_def Let_def del: firstNonEmpty.simps)
qed

text \<open>A task's outcome is announced once per 24 hours: after the completion event of a task was consumed,
  a further completion event with the same Kafka key (the producer uses the task id) is dropped, whatever
  its status, so a task that failed, was retried and then succeeded is never announced as completed.\<close>

theorem second_outcome_not_announced:
  assumes "st_inv m" "st_entry m (''event:task.completed:'' @ key) = None"
    and "firstNonEmpty [epCreatedBy p1, epUserID p1, epUpdatedBy p1] \<noteq> []" "t2 - t1 \<le> idemWindow"
  shows "consume_event t2 id2 ''task.completed'' key p2 (consume_event t1 id1 ''task.completed'' key p1 m) =
    consume_event t1 id1 ''task.completed'' key p1 m"
proof -
  let ?k = "''event:task.completed:'' @ key"
  let ?m1 = "consume_event t1 id1 ''task.completed'' key p1 m"
  obtain n1 where "MapEventToNotification id1 ''task.completed'' key p1 = Inr (n1, ?k)"
    using map_completed_some[OF assms(3)] by blast
  then have "?m1 = SetIdempotency t1 ?k ?k () (publish_notification t1 id1 n1 m)"
    using assms(1,2) by (simp add: consume_event_def publish_new)
  then have e: "st_entry ?m1 ?k = Some (?k, (), t1)" using assms(1) by (simp add: st_set_own frame_simps)
  show ?thesis
  proof (cases "MapEventToNotification id2 ''task.completed'' key p2")
    case (Inl r)
    then show ?thesis by (subst consume_event_def) simp
  next
    case (Inr b)
    then obtain n2 where "MapEventToNotification id2 ''task.completed'' key p2 = Inr (n2, ?k)"
      using map_completed_key by (cases b) fastforce
    then show ?thesis using publish_known[OF e assms(4)] by (subst consume_event_def) simp
  qed
qed

definition demo_payload :: event_payload where
  "demo_payload = \<lparr>epTaskID = ''t1'', epProjectID = ''p1'', epStatus = ''TASK_STATUS_FAILED'', epCreatedBy = ''u1'',
     epUserID = [], epUpdatedBy = [], epSeverity = [], epFindingID = [], epNewVerdict = []\<rparr>"

theorem second_outcome_not_announced_witness:
  "consume_event 9 ''n2'' ''task.completed'' ''t1'' (demo_payload\<lparr>epStatus := ''TASK_STATUS_SUCCESS''\<rparr>)
     (consume_event 3 ''n1'' ''task.completed'' ''t1'' demo_payload NewMemoryStore) =
   consume_event 3 ''n1'' ''task.completed'' ''t1'' demo_payload NewMemoryStore"
  by (rule second_outcome_not_announced[OF st_inv_new st_entry_new])
    (simp_all add: demo_payload_def idemWindow_def ns_hour_def ns_minute_def ns_second_def)

end
