(* ===== verification/Findings.thy ===== *)
theory Findings imports Main Prelude begin

text \<open>
  The finding that the SAST adapter, the verification and the result services pass around:
  the fields of the message \<open>UnifiedFinding\<close> that the modelled code reads or writes.
  Line numbers are \<open>int32\<close>; confidences are \<open>float32\<close>, kept as rationals, with the
  rounding of float arithmetic a parameter where the code computes.
\<close>

datatype severity = SevUnspecified | SevCritical | SevHigh | SevMedium | SevLow | SevInfo

datatype verdict_direction = DirUnspecified | DirTrue | DirFalse

datatype verdict_tier = TierUnspecified | TierDefinite | TierLikely

record unified_finding =
  ufId :: string
  ufSourceTool :: string
  ufFilePath :: string
  ufStartLine :: "32 word"
  ufEndLine :: "32 word"
  ufSeverity :: severity
  ufConfidence :: rat
  ufDirection :: verdict_direction
  ufTier :: verdict_tier
  ufAiConfidence :: rat
  ufMatched :: "string list"
  ufUnique :: bool
  ufDedupGroup :: string

end
