(* ===== verification/Fusion.thy ===== *)
theory Fusion imports Main Prelude GoText Findings begin

text \<open>
  The fusion of tool and AI findings (\<open>sast-adapter-service/internal/fusion\<close>): five stages that
  share one context and change findings through pointers.

  A finding pointer is an address, and the heap maps addresses to findings; the lists of the
  context hold addresses, so a change made through one list is seen through the others, as in
  the code. Pointers are never nil. A panic of a stage is an error value, which \<open>runStage\<close>
  turns into an error anyway. Float arithmetic rounds with a parameter \<open>rnd\<close>.
  The clock only measures the duration, which is left out.
\<close>

section \<open>The context\<close>

type_synonym addr = nat

type_synonym heap = "addr \<Rightarrow> unified_finding"

record merge_group =
  mgGroupId :: string
  mgMerged :: "string list"
  mgPrimary :: string
  mgReason :: string

record conflict_item =
  ciFindingIds :: "string list"
  ciType :: string
  ciResolution :: string

record filtered_item =
  fiFindingId :: string
  fiReason :: string

record fusion_metrics =
  fmInputSAST :: int
  fmInputAI :: int
  fmOutput :: int
  fmMerged :: int
  fmRemoved :: int
  fmAddedAI :: int

record fusion_context =
  fcHeap :: heap
  fcSAST :: "addr list"
  fcAI :: "addr list"
  fcFilteredSAST :: "addr list"
  fcFilteredAI :: "addr list"
  fcGroups :: "merge_group list"
  fcConflicts :: "conflict_item list"
  fcFiltered :: "filtered_item list"
  fcFused :: "addr list"
  fcMetrics :: "fusion_metrics option"

definition no_metrics :: fusion_metrics where
  "no_metrics = \<lparr>fmInputSAST = 0, fmInputAI = 0, fmOutput = 0, fmMerged = 0, fmRemoved = 0, fmAddedAI = 0\<rparr>"

type_synonym stage = "string \<times> (fusion_context \<Rightarrow> grpc_error + fusion_context)"

section \<open>Stage 1: false positives\<close>

text \<open>The constant \<open>0.8\<close> is a \<open>float32\<close>: the nearest one is 13421773/16777216.\<close>

definition is_false_positive :: "unified_finding \<Rightarrow> bool" where
  "is_false_positive f \<longleftrightarrow> ufDirection f = DirFalse \<and> ufTier f = TierDefinite \<and> ufAiConfidence f > 13421773 / 16777216"

definition filter_Execute :: "fusion_context \<Rightarrow> grpc_error + fusion_context" where
  "filter_Execute c =
    (let h = fcHeap c;
         dropped = filter (\<lambda>a. is_false_positive (h a)) (fcSAST c)
     in Inr (c\<lparr>fcFilteredSAST := filter (\<lambda>a. \<not> is_false_positive (h a)) (fcSAST c),
               fcFilteredAI := fcAI c,
               fcFiltered := map (\<lambda>a. \<lparr>fiFindingId = ufId (h a), fiReason = ''AI verdict: FALSE_POSITIVE with high confidence''\<rparr>) dropped,
               fcMetrics := Some (no_metrics\<lparr>fmInputSAST := int32 (int (length (fcSAST c))),
                 fmInputAI := int32 (int (length (fcAI c))), fmRemoved := int32 (int (length dropped))\<rparr>)\<rparr>))"

section \<open>Stage 2: merge by location\<close>

function strip_dot_slash :: "string \<Rightarrow> string" where
  "strip_dot_slash p = (if prefix ''./'' p then strip_dot_slash (trim_prefix ''./'' p) else p)"
  by pat_completeness auto
termination by (relation "measure length") (auto intro: trim_prefix_shorter)

declare strip_dot_slash.simps [simp del]

definition normalizeRelPath :: "string \<Rightarrow> string" where
  "normalizeRelPath p = trim_prefix ''/'' (strip_dot_slash (map (\<lambda>c. if c = CHR 0x5C then CHR ''/'' else c) p))"

definition sameVulnFile :: "string \<Rightarrow> string \<Rightarrow> bool" where
  "sameVulnFile sastPath aiPath =
    (let s = normalizeRelPath sastPath; a = normalizeRelPath aiPath
     in s = a \<or> suffix (''/'' @ a) s)"

definition same_location :: "unified_finding \<Rightarrow> unified_finding \<Rightarrow> bool" where
  "same_location sf aiF \<longleftrightarrow> ufStartLine sf = ufStartLine aiF \<and> sameVulnFile (ufFilePath sf) (ufFilePath aiF)"

record merge_state =
  msHeap :: heap
  msGroups :: "merge_group list"
  msMerged :: "string set"

fun note_matches :: "string \<Rightarrow> addr list \<Rightarrow> merge_state \<Rightarrow> merge_state" where
  "note_matches aid [] m = m"
| "note_matches aid (a # as) m =
    (let f = msHeap m a
     in note_matches aid as (m\<lparr>msHeap := (msHeap m)(a := f\<lparr>ufMatched := ufMatched f @ [aid]\<rparr>),
                               msMerged := insert (ufId f) (msMerged m)\<rparr>))"

definition merge_one :: "addr list \<Rightarrow> addr \<Rightarrow> merge_state \<Rightarrow> merge_state" where
  "merge_one sast ai m =
    (let h = msHeap m; sastMatches = filter (\<lambda>a. same_location (h a) (h ai)) sast
     in case sastMatches of
          [] \<Rightarrow> m
        | s0 # _ \<Rightarrow>
            (let ids = ufId (h ai) # map (\<lambda>a. ufId (h a)) sastMatches;
                 g = \<lparr>mgGroupId = ''group_'' @ nat_digits (Suc (length (msGroups m))), mgMerged = ids,
                      mgPrimary = ufId (h s0), mgReason = ''same_location_match''\<rparr>;
                 m1 = note_matches (ufId (h ai)) sastMatches (m\<lparr>msGroups := msGroups m @ [g]\<rparr>);
                 f = msHeap m1 ai
             in m1\<lparr>msHeap := (msHeap m1)(ai := f\<lparr>ufMatched := ufMatched f @ [ufId (h s0)]\<rparr>),
                   msMerged := insert (ufId (h ai)) (msMerged m1)\<rparr>))"

fun mark_unique :: "string set \<Rightarrow> addr list \<Rightarrow> heap \<Rightarrow> heap" where
  "mark_unique merged [] h = h"
| "mark_unique merged (a # as) h =
    mark_unique merged as (if ufId (h a) \<notin> merged then h(a := (h a)\<lparr>ufUnique := True\<rparr>) else h)"

definition merge_Execute :: "fusion_context \<Rightarrow> grpc_error + fusion_context" where
  "merge_Execute c =
    (let m = fold (merge_one (fcFilteredSAST c)) (fcFilteredAI c) \<lparr>msHeap = fcHeap c, msGroups = [], msMerged = {}\<rparr>;
         h = mark_unique (msMerged m) (fcFilteredSAST c @ fcFilteredAI c) (msHeap m)
     in case fcMetrics c of
          None \<Rightarrow> Inl (Internal, ''fusion stage merge panic: nil pointer'')
        | Some k \<Rightarrow> Inr (c\<lparr>fcHeap := h, fcGroups := msGroups m,
                            fcMetrics := Some (k\<lparr>fmMerged := int32 (int (length (msGroups m)))\<rparr>)\<rparr>))"

section \<open>Stage 3: deduplicate\<close>

record dedup_plan =
  dpGroupOf :: "string \<Rightarrow> string option"
  dpRemove :: "string set"
  dpCounter :: nat

fun dedup_members :: "string \<Rightarrow> string \<Rightarrow> string list \<Rightarrow> dedup_plan \<Rightarrow> dedup_plan" where
  "dedup_members gid primary [] d = d"
| "dedup_members gid primary (k # ks) d =
    dedup_members gid primary ks
      (if k = primary
       then (if dpGroupOf d k \<in> {None, Some []} then d\<lparr>dpGroupOf := (dpGroupOf d)(k \<mapsto> gid)\<rparr> else d)
       else d\<lparr>dpGroupOf := (dpGroupOf d)(k \<mapsto> gid), dpRemove := insert k (dpRemove d)\<rparr>)"

definition dedup_group :: "merge_group \<Rightarrow> dedup_plan \<Rightarrow> dedup_plan" where
  "dedup_group g d =
    (if length (mgMerged g) < 2 then d
     else (let n = Suc (dpCounter d);
               gid = (if mgGroupId g = [] then ''dedup_'' @ nat_digits n else mgGroupId g);
               primary = (if mgPrimary g = [] then hd (mgMerged g) else mgPrimary g)
           in dedup_members gid primary (mgMerged g) (d\<lparr>dpCounter := n\<rparr>)))"

fun dedup_append :: "dedup_plan \<Rightarrow> addr list \<Rightarrow> heap \<Rightarrow> string set \<Rightarrow> addr list \<Rightarrow> heap \<times> addr list" where
  "dedup_append d [] h seen out = (h, out)"
| "dedup_append d (a # as) h seen out =
    (let k = ufId (h a)
     in if k \<in> seen \<or> k \<in> dpRemove d then dedup_append d as h seen out
        else (let h1 = (if ufDedupGroup (h a) = []
                        then (case dpGroupOf d k of Some gid \<Rightarrow> h(a := (h a)\<lparr>ufDedupGroup := gid\<rparr>) | None \<Rightarrow> h)
                        else h)
              in dedup_append d as h1 (insert k seen) (out @ [a])))"

definition dedup_Execute :: "fusion_context \<Rightarrow> grpc_error + fusion_context" where
  "dedup_Execute c =
    (let d = fold dedup_group (fcGroups c) \<lparr>dpGroupOf = Map.empty, dpRemove = {}, dpCounter = 0\<rparr>;
         (h, out) = dedup_append d (fcFilteredSAST c @ fcFilteredAI c) (fcHeap c) {} []
     in Inr (c\<lparr>fcHeap := h, fcFused := out\<rparr>))"

section \<open>Stage 4: conflicts\<close>

text \<open>A map from id to pointer: the last finding with an id wins.\<close>

definition by_id :: "heap \<Rightarrow> addr list \<Rightarrow> string \<Rightarrow> addr option" where
  "by_id h as = map_of (rev (map (\<lambda>a. (ufId (h a), a)) as))"

definition isAI :: "unified_finding \<Rightarrow> bool" where
  "isAI f \<longleftrightarrow> ufSourceTool f = ''ai_agent''"

definition first_of :: "heap \<Rightarrow> (string \<Rightarrow> addr option) \<Rightarrow> (unified_finding \<Rightarrow> bool) \<Rightarrow> string list \<Rightarrow> addr option" where
  "first_of h byID P ids = find (\<lambda>a. P (h a)) (List.map_filter byID ids)"

definition resolve_severity :: "string list \<Rightarrow> addr \<Rightarrow> addr \<Rightarrow> heap \<times> conflict_item list \<Rightarrow> heap \<times> conflict_item list" where
  "resolve_severity ids s a hc = (case hc of (h, cs) \<Rightarrow>
    if ufSeverity (h s) \<noteq> ufSeverity (h a)
    then (h(a := (h a)\<lparr>ufSeverity := ufSeverity (h s)\<rparr>),
          cs @ [\<lparr>ciFindingIds = ids, ciType = ''severity_mismatch'', ciResolution = ''use_sast_severity''\<rparr>])
    else (h, cs))"

definition resolve_verdict :: "string list \<Rightarrow> addr \<Rightarrow> addr \<Rightarrow> heap \<times> conflict_item list \<Rightarrow> heap \<times> conflict_item list" where
  "resolve_verdict ids s a hc = (case hc of (h, cs) \<Rightarrow>
    if ufDirection (h s) \<noteq> DirUnspecified \<and> ufDirection (h a) \<noteq> DirUnspecified \<and>
       (ufDirection (h s) \<noteq> ufDirection (h a) \<or> ufTier (h s) \<noteq> ufTier (h a))
    then (h(s := (h s)\<lparr>ufDirection := ufDirection (h a), ufTier := ufTier (h a)\<rparr>),
          cs @ [\<lparr>ciFindingIds = ids, ciType = ''verdict_mismatch'', ciResolution = ''use_ai_verdict''\<rparr>])
    else (h, cs))"

definition resolve_group :: "(string \<Rightarrow> addr option) \<Rightarrow> merge_group \<Rightarrow> heap \<times> conflict_item list \<Rightarrow> heap \<times> conflict_item list" where
  "resolve_group byID g hc =
    (if length (mgMerged g) < 2 then hc
     else case (first_of (fst hc) byID (\<lambda>f. \<not> isAI f) (mgMerged g), first_of (fst hc) byID isAI (mgMerged g)) of
            (Some s, Some a) \<Rightarrow> resolve_verdict (mgMerged g) s a (resolve_severity (mgMerged g) s a hc)
          | _ \<Rightarrow> hc)"

definition conflict_Execute :: "fusion_context \<Rightarrow> grpc_error + fusion_context" where
  "conflict_Execute c =
    (let byID = by_id (fcHeap c) (fcFilteredSAST c @ fcFilteredAI c);
         (h, cs) = fold (resolve_group byID) (fcGroups c) (fcHeap c, [])
     in Inr (c\<lparr>fcHeap := h, fcConflicts := cs\<rparr>))"

section \<open>Stage 5: confidence\<close>

text \<open>\<open>boost = 1.0 + 0.1*float32(count-1)\<close>, every operation rounded.\<close>

definition fused_confidence :: "(rat \<Rightarrow> rat) \<Rightarrow> rat list \<Rightarrow> rat" where
  "fused_confidence rnd cs =
    (let total = fold (\<lambda>c t. rnd (t + c)) cs 0;
         avg = rnd (total / of_nat (length cs));
         boost = (if length cs > 1 then rnd (1 + rnd (rnd (1 / 10) * of_nat (length cs - 1))) else 1);
         fused = rnd (avg * boost)
     in if fused > 1 then 1 else fused)"

definition confidence_group :: "(rat \<Rightarrow> rat) \<Rightarrow> addr list \<Rightarrow> addr list \<Rightarrow> merge_group \<Rightarrow> heap \<Rightarrow> heap" where
  "confidence_group rnd filtered fused g h =
    (if length (mgMerged g) < 2 then h
     else case find (\<lambda>a. ufId (h a) = mgPrimary g) fused of
            None \<Rightarrow> h
          | Some p \<Rightarrow>
              (let cs = map (\<lambda>a. ufConfidence (h a)) (List.map_filter (by_id h filtered) (mgMerged g))
               in if cs \<noteq> [] then h(p := (h p)\<lparr>ufConfidence := fused_confidence rnd cs\<rparr>) else h))"

definition confidence_Execute :: "(rat \<Rightarrow> rat) \<Rightarrow> fusion_context \<Rightarrow> grpc_error + fusion_context" where
  "confidence_Execute rnd c =
    Inr (c\<lparr>fcHeap := fold (confidence_group rnd (fcFilteredSAST c @ fcFilteredAI c) (fcFused c)) (fcGroups c) (fcHeap c)\<rparr>)"

section \<open>The pipeline\<close>

definition NewFusionPipeline :: "(rat \<Rightarrow> rat) \<Rightarrow> stage list" where
  "NewFusionPipeline rnd =
    [(''false_positive_filter'', filter_Execute), (''merge'', merge_Execute), (''dedup_align'', dedup_Execute),
     (''conflict_resolve'', conflict_Execute), (''confidence_fusion'', confidence_Execute rnd)]"

record fusion_result =
  frIds :: "string list"
  frTotal :: int
  frRemoved :: int
  frAddedAI :: int
  frMetrics :: fusion_metrics
  frGroups :: "merge_group list"
  frConflicts :: "conflict_item list"
  frFiltered :: "filtered_item list"

definition start_context :: "heap \<Rightarrow> addr list \<Rightarrow> addr list \<Rightarrow> fusion_context" where
  "start_context h sast ai = \<lparr>fcHeap = h, fcSAST = sast, fcAI = ai, fcFilteredSAST = [], fcFilteredAI = [],
     fcGroups = [], fcConflicts = [], fcFiltered = [], fcFused = [], fcMetrics = None\<rparr>"

definition buildResult :: "fusion_context \<Rightarrow> fusion_metrics \<Rightarrow> fusion_result" where
  "buildResult c k =
    (let ids = map (\<lambda>a. ufId (fcHeap c a)) (fcFused c);
         merged = concat (map mgMerged (fcGroups c));
         added = int32 (int (length (filter (\<lambda>a. ufId (fcHeap c a) \<notin> set merged) (fcAI c))))
     in \<lparr>frIds = ids, frTotal = int32 (int (length ids)), frRemoved = fmRemoved k, frAddedAI = added,
         frMetrics = \<lparr>fmInputSAST = fmInputSAST k, fmInputAI = fmInputAI k, fmOutput = int32 (int (length ids)),
                      fmMerged = fmMerged k, fmRemoved = fmRemoved k, fmAddedAI = added\<rparr>,
         frGroups = fcGroups c, frConflicts = fcConflicts c, frFiltered = fcFiltered c\<rparr>)"

definition buildFallbackResult :: "fusion_context \<Rightarrow> fusion_result" where
  "buildFallbackResult c =
    (let ids = map (\<lambda>a. ufId (fcHeap c a)) (fcSAST c @ fcAI c)
     in \<lparr>frIds = ids, frTotal = int32 (int (length ids)), frRemoved = 0, frAddedAI = 0,
         frMetrics = no_metrics\<lparr>fmInputSAST := int32 (int (length (fcSAST c))),
           fmInputAI := int32 (int (length (fcAI c))), fmOutput := int32 (int (length ids))\<rparr>,
         frGroups = [], frConflicts = [], frFiltered = []\<rparr>)"

text \<open>
  The stages in order. \<open>expired n\<close> is whether the deadline has passed before stage \<open>n\<close>.
  A stage that fails leaves no context behind, so the fallback starts from the inputs; what a
  failing stage wrote through pointers before it failed is outside the model.
\<close>

fun run_stages :: "(nat \<Rightarrow> bool) \<Rightarrow> nat \<Rightarrow> stage list \<Rightarrow> fusion_context \<Rightarrow> grpc_error + fusion_context option" where
  "run_stages expired n [] c = Inr (Some c)"
| "run_stages expired n ((nm, ex) # ss) c =
    (if expired n then Inl (DeadlineExceeded, ''fusion pipeline timeout'')
     else case ex c of Inl _ \<Rightarrow> Inr None | Inr c' \<Rightarrow> run_stages expired (Suc n) ss c')"

definition Execute :: "(nat \<Rightarrow> bool) \<Rightarrow> stage list \<Rightarrow> heap \<Rightarrow> addr list \<Rightarrow> addr list \<Rightarrow> grpc_error + fusion_result" where
  "Execute expired stages h sast ai =
    (case run_stages expired 0 stages (start_context h sast ai) of
       Inl e \<Rightarrow> Inl e
     | Inr None \<Rightarrow> Inr (buildFallbackResult (start_context h sast ai))
     | Inr (Some c) \<Rightarrow> (case fcMetrics c of
         Some k \<Rightarrow> Inr (buildResult c k)
       | None \<Rightarrow> Inl (Internal, ''nil pointer dereference'')))"

section \<open>Frames: what the stages leave alone\<close>

definition located :: "unified_finding \<Rightarrow> string \<times> 32 word \<times> string" where
  "located f = (ufId f, ufStartLine f, ufFilePath f)"

definition same_place :: "heap \<Rightarrow> heap \<Rightarrow> bool" where
  "same_place h h' \<longleftrightarrow> (\<forall>a. located (h' a) = located (h a))"

lemma same_place_refl [simp]: "same_place h h"
  by (simp add: same_place_def)

lemma same_place_trans: "same_place h h1 \<Longrightarrow> same_place h1 h2 \<Longrightarrow> same_place h h2"
  by (simp add: same_place_def)

lemma same_place_upd: "same_place h h1 \<Longrightarrow> located f = located (h1 a) \<Longrightarrow> same_place h (h1(a := f))"
  by (simp add: same_place_def)

lemma same_place_id: "same_place h h' \<Longrightarrow> ufId (h' a) = ufId (h a)"
  by (simp add: same_place_def located_def)

lemma same_place_ids: "same_place h h' \<Longrightarrow> map (\<lambda>a. ufId (h' a)) as = map (\<lambda>a. ufId (h a)) as"
  by (simp add: same_place_id)

lemma same_place_location: "same_place h h' \<Longrightarrow> same_location (h' a) (h' b) = same_location (h a) (h b)"
  by (simp add: same_place_def located_def same_location_def)

lemma same_place_set: "located f = located (h a) \<Longrightarrow> same_place (h(a := f)) h' \<Longrightarrow> same_place h h'"
  by (erule same_place_trans[OF same_place_upd[OF same_place_refl], rotated])

lemma note_matches_frame:
  "same_place (msHeap m) (msHeap (note_matches k as m)) \<and> msGroups (note_matches k as m) = msGroups m"
proof (induction k as m rule: note_matches.induct)
  case (2 k a as m)
  let ?f = "(msHeap m a)\<lparr>ufMatched := ufMatched (msHeap m a) @ [k]\<rparr>"
  show ?case using 2[OF refl] same_place_set[of ?f "msHeap m" a] by (simp add: Let_def located_def del: fun_upd_apply)
qed simp

lemma mark_unique_frame: "same_place h (mark_unique ids as h)"
proof (induction ids as h rule: mark_unique.induct)
  case (2 ids a as h)
  show ?case
  proof (cases "ufId (h a) \<in> ids")
    case False
    then show ?thesis using 2 same_place_set[of "(h a)\<lparr>ufUnique := True\<rparr>" h a]
      by (simp add: located_def del: fun_upd_apply)
  qed (use 2 in simp)
qed simp

lemma dedup_append_frame: "same_place h (fst (dedup_append d as h seen out))"
proof (induction d as h seen out rule: dedup_append.induct)
  case (2 d a as h seen out)
  show ?case
  proof (cases "ufId (h a) \<in> seen \<or> ufId (h a) \<in> dpRemove d")
    case False
    define h1 where "h1 = (if ufDedupGroup (h a) = [] then (case dpGroupOf d (ufId (h a)) of
      Some gid \<Rightarrow> h(a := (h a)\<lparr>ufDedupGroup := gid\<rparr>) | None \<Rightarrow> h) else h)"
    have "same_place h h1" by (auto simp: h1_def located_def intro!: same_place_upd split: option.split)
    moreover have "same_place h1 (fst (dedup_append d as h1 (insert (ufId (h a)) seen) (out @ [a])))"
      by (rule "2.IH"(2)[OF refl False h1_def])
    moreover have "dedup_append d (a # as) h seen out = dedup_append d as h1 (insert (ufId (h a)) seen) (out @ [a])"
      using False by (simp add: h1_def Let_def)
    ultimately show ?thesis using same_place_trans by simp
  qed (use 2 in simp)
qed simp

lemma resolve_group_frame: "same_place (fst hc) (fst (resolve_group byID g hc))"
  by (cases hc) (auto simp: resolve_group_def resolve_severity_def resolve_verdict_def located_def Let_def
      intro!: same_place_upd split: option.split prod.split)

lemma resolve_groups_frame: "same_place (fst hc) (fst (fold (resolve_group byID) gs hc))"
proof (induction gs arbitrary: hc)
  case (Cons g gs)
  then show ?case using same_place_trans[OF resolve_group_frame] by (metis fold_simps(2))
qed simp

lemma confidence_group_frame: "same_place h (confidence_group rnd filtered fused g h)"
  by (auto simp: confidence_group_def located_def Let_def intro!: same_place_upd split: option.split)

lemma confidence_groups_frame: "same_place h (fold (confidence_group rnd filtered fused) gs h)"
proof (induction gs arbitrary: h)
  case (Cons g gs)
  then show ?case using same_place_trans[OF confidence_group_frame] by (metis fold_simps(2))
qed simp

section \<open>What the merge groups are\<close>

text \<open>The members and the primary of the group an AI finding gives, when it has tool findings at its place.\<close>

definition group_of :: "heap \<Rightarrow> addr list \<Rightarrow> addr \<Rightarrow> (string list \<times> string) option" where
  "group_of h sast ai =
    (case filter (\<lambda>a. same_location (h a) (h ai)) sast of
       [] \<Rightarrow> None
     | s0 # ss \<Rightarrow> Some (ufId (h ai) # map (\<lambda>a. ufId (h a)) (s0 # ss), ufId (h s0)))"

abbreviation shape :: "merge_group \<Rightarrow> string list \<times> string" where
  "shape g \<equiv> (mgMerged g, mgPrimary g)"

lemma group_of_same: "same_place h h' \<Longrightarrow> group_of h' sast = group_of h sast"
  by (intro ext) (simp add: group_of_def same_place_location same_place_id cong: list.case_cong)

lemma merge_one_frame:
  "same_place (msHeap m) (msHeap (merge_one sast ai m)) \<and>
   map shape (msGroups (merge_one sast ai m)) =
     map shape (msGroups m) @ (case group_of (msHeap m) sast ai of None \<Rightarrow> [] | Some x \<Rightarrow> [x])"
proof (cases "filter (\<lambda>a. same_location (msHeap m a) (msHeap m ai)) sast")
  case Nil
  then show ?thesis by (simp add: merge_one_def group_of_def Let_def)
next
  case (Cons s0 ss)
  define g where "g = \<lparr>mgGroupId = ''group_'' @ nat_digits (Suc (length (msGroups m))),
    mgMerged = ufId (msHeap m ai) # map (\<lambda>a. ufId (msHeap m a)) (s0 # ss),
    mgPrimary = ufId (msHeap m s0), mgReason = ''same_location_match''\<rparr>"
  note fr = note_matches_frame[of "m\<lparr>msGroups := msGroups m @ [g]\<rparr>" "ufId (msHeap m ai)" "s0 # ss"]
  show ?thesis using fr Cons
    by (auto simp: merge_one_def group_of_def Let_def g_def located_def simp del: note_matches.simps
        intro!: same_place_upd)
qed

lemma merge_fold:
  "same_place (msHeap m) (msHeap (fold (merge_one sast) ais m)) \<and>
   map shape (msGroups (fold (merge_one sast) ais m)) =
     map shape (msGroups m) @ List.map_filter (group_of (msHeap m) sast) ais"
proof (induction ais arbitrary: m)
  case (Cons ai ais)
  have fr: "same_place (msHeap m) (msHeap (merge_one sast ai m))" using merge_one_frame by blast
  then have "List.map_filter (group_of (msHeap (merge_one sast ai m)) sast) ais =
      List.map_filter (group_of (msHeap m) sast) ais"
    by (simp add: group_of_same)
  moreover note Cons[of "merge_one sast ai m"] merge_one_frame[of m sast ai]
  ultimately show ?case using fr
    by (auto simp: map_filter_simps intro: same_place_trans split: option.split)
qed (simp add: map_filter_simps)

section \<open>What deduplication keeps\<close>

lemma dedup_members_remove:
  "dpRemove (dedup_members gid p ks d) = dpRemove d \<union> (set ks - {p})"
  by (induction gid p ks d rule: dedup_members.induct) auto

definition losers :: "string list \<times> string \<Rightarrow> string set" where
  "losers x = set (fst x) - {snd x}"

lemma dedup_group_remove:
  "length (mgMerged g) \<ge> 2 \<Longrightarrow> mgPrimary g \<noteq> [] \<Longrightarrow> dpRemove (dedup_group g d) = dpRemove d \<union> losers (shape g)"
  by (simp add: dedup_group_def dedup_members_remove losers_def Let_def)

lemma dedup_groups_remove:
  "\<forall>g \<in> set gs. length (mgMerged g) \<ge> 2 \<and> mgPrimary g \<noteq> [] \<Longrightarrow>
    dpRemove (fold dedup_group gs d) = dpRemove d \<union> (\<Union>g \<in> set gs. losers (shape g))"
  by (induction gs arbitrary: d) (auto simp: dedup_group_remove)

lemma dedup_append_ids:
  assumes "seen = set (map (\<lambda>a. ufId (h a)) out)" "distinct (map (\<lambda>a. ufId (h a)) out)"
  shows "set (map (\<lambda>a. ufId (h a)) (snd (dedup_append d as h seen out))) =
      seen \<union> (set (map (\<lambda>a. ufId (h a)) as) - dpRemove d) \<and>
    distinct (map (\<lambda>a. ufId (h a)) (snd (dedup_append d as h seen out)))"
  using assms
proof (induction d as h seen out rule: dedup_append.induct)
  case (2 d a as h seen out)
  show ?case
  proof (cases "ufId (h a) \<in> seen \<or> ufId (h a) \<in> dpRemove d")
    case True
    then show ?thesis using 2 by auto
  next
    case False
    define h1 where "h1 = (if ufDedupGroup (h a) = [] then (case dpGroupOf d (ufId (h a)) of
      Some gid \<Rightarrow> h(a := (h a)\<lparr>ufDedupGroup := gid\<rparr>) | None \<Rightarrow> h) else h)"
    have same: "ufId (h1 b) = ufId (h b)" for b by (simp add: h1_def split: option.split)
    have step: "dedup_append d (a # as) h seen out = dedup_append d as h1 (insert (ufId (h a)) seen) (out @ [a])"
      using False by (simp add: h1_def Let_def)
    show ?thesis unfolding step
      using "2.IH"(2)[OF refl False h1_def] 2(3,4) False by (auto simp: same)
  qed
qed simp

section \<open>The pipeline as a whole\<close>

definition clean :: "heap \<Rightarrow> addr list \<Rightarrow> addr list" where
  "clean h = filter (\<lambda>a. \<not> is_false_positive (h a))"

definition ids_of :: "heap \<Rightarrow> addr list \<Rightarrow> string list" where
  "ids_of h = map (\<lambda>a. ufId (h a))"

definition merge_shapes :: "heap \<Rightarrow> addr list \<Rightarrow> addr list \<Rightarrow> (string list \<times> string) list" where
  "merge_shapes h sast ai = List.map_filter (group_of h (clean h sast)) ai"

lemma same_place_ids_of: "same_place h h' \<Longrightarrow> ids_of h' = ids_of h"
  by (intro ext) (simp add: ids_of_def same_place_id)

lemma group_of_shape:
  assumes "group_of h sast ai = Some x" "\<forall>a \<in> set sast. ufId (h a) \<noteq> []"
  shows "length (fst x) \<ge> 2 \<and> snd x \<noteq> []"
proof -
  obtain s0 ss where "filter (\<lambda>a. same_location (h a) (h ai)) sast = s0 # ss"
    "x = (ufId (h ai) # map (\<lambda>a. ufId (h a)) (s0 # ss), ufId (h s0))"
    using assms(1) by (auto simp: group_of_def split: list.splits)
  moreover from this have "s0 \<in> set sast" by (metis (no_types, lifting) filter_eq_ConsD in_set_conv_decomp)
  ultimately show ?thesis using assms(2) by simp
qed

lemma filter_stage:
  "\<exists>c k. filter_Execute (start_context h sast ai) = Inr c \<and> fcHeap c = h \<and> fcFilteredSAST c = clean h sast \<and>
    fcFilteredAI c = ai \<and> fcAI c = ai \<and> fcMetrics c = Some k"
  by (simp add: filter_Execute_def start_context_def clean_def Let_def)

lemma merge_stage:
  assumes "fcMetrics c = Some k"
  shows "\<exists>c' k'. merge_Execute c = Inr c' \<and> same_place (fcHeap c) (fcHeap c') \<and>
    map shape (fcGroups c') = List.map_filter (group_of (fcHeap c) (fcFilteredSAST c)) (fcFilteredAI c) \<and>
    fcFilteredSAST c' = fcFilteredSAST c \<and> fcFilteredAI c' = fcFilteredAI c \<and> fcAI c' = fcAI c \<and> fcMetrics c' = Some k'"
proof -
  define m where "m = fold (merge_one (fcFilteredSAST c)) (fcFilteredAI c) \<lparr>msHeap = fcHeap c, msGroups = [], msMerged = {}\<rparr>"
  have "same_place (fcHeap c) (msHeap m) \<and>
      map shape (msGroups m) = List.map_filter (group_of (fcHeap c) (fcFilteredSAST c)) (fcFilteredAI c)"
    using merge_fold[of "\<lparr>msHeap = fcHeap c, msGroups = [], msMerged = {}\<rparr>" "fcFilteredSAST c" "fcFilteredAI c"]
    by (simp add: m_def)
  moreover have "same_place (msHeap m) (mark_unique (msMerged m) (fcFilteredSAST c @ fcFilteredAI c) (msHeap m))"
    by (rule mark_unique_frame)
  ultimately show ?thesis using assms same_place_trans by (simp add: merge_Execute_def Let_def flip: m_def) blast
qed

lemma dedup_stage:
  assumes "\<forall>g \<in> set (fcGroups c). length (mgMerged g) \<ge> 2 \<and> mgPrimary g \<noteq> []"
  shows "\<exists>c'. dedup_Execute c = Inr c' \<and> same_place (fcHeap c) (fcHeap c') \<and> fcGroups c' = fcGroups c \<and>
    set (ids_of (fcHeap c) (fcFused c')) =
      set (ids_of (fcHeap c) (fcFilteredSAST c @ fcFilteredAI c)) - (\<Union>g \<in> set (fcGroups c). losers (shape g)) \<and>
    distinct (ids_of (fcHeap c) (fcFused c')) \<and> fcAI c' = fcAI c \<and> fcMetrics c' = fcMetrics c"
proof -
  define d where "d = fold dedup_group (fcGroups c) \<lparr>dpGroupOf = Map.empty, dpRemove = {}, dpCounter = 0\<rparr>"
  let ?as = "fcFilteredSAST c @ fcFilteredAI c"
  let ?r = "dedup_append d ?as (fcHeap c) {} []"
  have "dpRemove d = (\<Union>g \<in> set (fcGroups c). losers (shape g))"
    using dedup_groups_remove[OF assms] by (simp add: d_def)
  moreover have "set (ids_of (fcHeap c) (snd ?r)) = {} \<union> (set (ids_of (fcHeap c) ?as) - dpRemove d) \<and>
      distinct (ids_of (fcHeap c) (snd ?r))"
    unfolding ids_of_def by (rule dedup_append_ids) simp_all
  moreover have "same_place (fcHeap c) (fst ?r)" by (rule dedup_append_frame)
  moreover have "dedup_Execute c = Inr (c\<lparr>fcHeap := fst ?r, fcFused := snd ?r\<rparr>)"
    by (simp add: dedup_Execute_def d_def Let_def split: prod.split)
  ultimately show ?thesis by simp
qed

lemma conflict_stage:
  "\<exists>c'. conflict_Execute c = Inr c' \<and> same_place (fcHeap c) (fcHeap c') \<and> fcGroups c' = fcGroups c \<and>
    fcFused c' = fcFused c \<and> fcAI c' = fcAI c \<and> fcMetrics c' = fcMetrics c"
  using resolve_groups_frame[of "(fcHeap c, [])"] by (simp add: conflict_Execute_def Let_def split: prod.split) (metis fst_conv)

lemma confidence_stage:
  "\<exists>c'. confidence_Execute rnd c = Inr c' \<and> same_place (fcHeap c) (fcHeap c') \<and> fcGroups c' = fcGroups c \<and>
    fcFused c' = fcFused c \<and> fcAI c' = fcAI c \<and> fcMetrics c' = fcMetrics c"
  by (simp add: confidence_Execute_def confidence_groups_frame)

lemma pipeline_result:
  assumes "\<forall>n < 5. \<not> expired n" "\<forall>a \<in> set sast. ufId (h a) \<noteq> []"
  shows "\<exists>c k. run_stages expired 0 (NewFusionPipeline rnd) (start_context h sast ai) = Inr (Some c) \<and>
    fcMetrics c = Some k \<and> same_place h (fcHeap c) \<and> map shape (fcGroups c) = merge_shapes h sast ai \<and>
    set (ids_of h (fcFused c)) =
      set (ids_of h (clean h sast @ ai)) - (\<Union>x \<in> set (merge_shapes h sast ai). losers x) \<and>
    distinct (ids_of h (fcFused c))"
proof -
  obtain c1 k1 where c1: "filter_Execute (start_context h sast ai) = Inr c1" "fcHeap c1 = h"
    "fcFilteredSAST c1 = clean h sast" "fcFilteredAI c1 = ai" "fcMetrics c1 = Some k1"
    using filter_stage by blast
  obtain c2 k2 where c2: "merge_Execute c1 = Inr c2" "same_place h (fcHeap c2)"
    "map shape (fcGroups c2) = merge_shapes h sast ai" "fcFilteredSAST c2 = clean h sast" "fcFilteredAI c2 = ai"
    "fcMetrics c2 = Some k2"
    using merge_stage[OF c1(5)] c1 by (auto simp: merge_shapes_def)
  have "length (fst x) \<ge> 2 \<and> snd x \<noteq> []" if "x \<in> set (merge_shapes h sast ai)" for x
    using that group_of_shape[of h "clean h sast" _ x] assms(2)
    by (auto simp: merge_shapes_def List.map_filter_def clean_def)
  then have "\<forall>g \<in> set (fcGroups c2). length (mgMerged g) \<ge> 2 \<and> mgPrimary g \<noteq> []"
    unfolding c2(3)[symmetric] by fastforce
  from dedup_stage[OF this] obtain c3 where c3: "dedup_Execute c2 = Inr c3" "same_place (fcHeap c2) (fcHeap c3)"
    "fcGroups c3 = fcGroups c2" "distinct (ids_of (fcHeap c2) (fcFused c3))" "fcMetrics c3 = Some k2"
    "set (ids_of (fcHeap c2) (fcFused c3)) =
      set (ids_of (fcHeap c2) (clean h sast @ ai)) - (\<Union>g \<in> set (fcGroups c2). losers (shape g))"
    using c2 by auto
  obtain c4 where c4: "conflict_Execute c3 = Inr c4" "same_place (fcHeap c3) (fcHeap c4)"
    "fcGroups c4 = fcGroups c2" "fcFused c4 = fcFused c3" "fcMetrics c4 = Some k2"
    using conflict_stage[of c3] c3 by auto
  obtain c5 where c5: "confidence_Execute rnd c4 = Inr c5" "same_place (fcHeap c4) (fcHeap c5)"
    "fcGroups c5 = fcGroups c2" "fcFused c5 = fcFused c3" "fcMetrics c5 = Some k2"
    using confidence_stage[of rnd c4] c4 by auto
  have ids: "ids_of (fcHeap c2) = ids_of h" using c2(2) by (rule same_place_ids_of)
  have "(\<Union>g \<in> set (fcGroups c2). losers (shape g)) = (\<Union>x \<in> set (merge_shapes h sast ai). losers x)"
    unfolding c2(3)[symmetric] by simp
  moreover have "run_stages expired 0 (NewFusionPipeline rnd) (start_context h sast ai) = Inr (Some c5)"
    using assms(1) c1(1) c2(1) c3(1) c4(1) c5(1) by (simp add: NewFusionPipeline_def)
  moreover have "same_place h (fcHeap c5)"
    using c2(2) c3(2) c4(2) c5(2) same_place_trans by blast
  ultimately show ?thesis using c2(3) c3(4,6) c5(3,4,5) unfolding ids by auto
qed

lemma Execute_result:
  assumes "\<forall>n < 5. \<not> expired n" "\<forall>a \<in> set sast. ufId (h a) \<noteq> []"
  shows "\<exists>r. Execute expired (NewFusionPipeline rnd) h sast ai = Inr r \<and>
    map shape (frGroups r) = merge_shapes h sast ai \<and>
    set (frIds r) = set (ids_of h (clean h sast @ ai)) - (\<Union>x \<in> set (merge_shapes h sast ai). losers x) \<and>
    distinct (frIds r)"
proof -
  obtain c k where c: "run_stages expired 0 (NewFusionPipeline rnd) (start_context h sast ai) = Inr (Some c)"
    "fcMetrics c = Some k" "same_place h (fcHeap c)" "map shape (fcGroups c) = merge_shapes h sast ai"
    "set (ids_of h (fcFused c)) = set (ids_of h (clean h sast @ ai)) - (\<Union>x \<in> set (merge_shapes h sast ai). losers x)"
    "distinct (ids_of h (fcFused c))"
    using pipeline_result[OF assms, of rnd ai] by (elim exE conjE) (rule that)
  have "frIds (buildResult c k) = ids_of h (fcFused c)" "frGroups (buildResult c k) = fcGroups c"
    using same_place_ids[OF c(3)] by (simp_all add: buildResult_def ids_of_def Let_def)
  then show ?thesis using c by (simp add: Execute_def)
qed

text \<open>C11. Without a timeout the pipeline answers, each group is one AI finding with all surviving tool findings
  at its place and the first of them as primary, in the order of the AI findings, and the fused ids
  are, each once, exactly the ids of the inputs less the confident false positives and less the
  members that are not the primary of their group.\<close>

theorem fusion_result_exact:
  assumes "\<forall>n < 5. \<not> expired n" "\<forall>a \<in> set sast. ufId (h a) \<noteq> []"
  shows "\<exists>r. Execute expired (NewFusionPipeline rnd) h sast ai = Inr r \<and>
    map (\<lambda>g. (mgMerged g, mgPrimary g)) (frGroups r) = merge_shapes h sast ai \<and>
    set (frIds r) = set (ids_of h (clean h sast @ ai)) - (\<Union>x \<in> set (merge_shapes h sast ai). set (fst x) - {snd x}) \<and>
    distinct (frIds r)"
  using Execute_result[OF assms] unfolding losers_def .

definition demo_finding :: "string \<Rightarrow> string \<Rightarrow> string \<Rightarrow> unified_finding" where
  "demo_finding k tool path = \<lparr>ufId = k, ufSourceTool = tool, ufFilePath = path, ufStartLine = 7, ufEndLine = 7,
     ufSeverity = SevHigh, ufConfidence = 1 / 2, ufDirection = DirUnspecified, ufTier = TierUnspecified,
     ufAiConfidence = 0, ufMatched = [], ufUnique = False, ufDedupGroup = []\<rparr>"

text \<open>Two tool findings in files of the same name, and an AI finding for each: one by name, one by path.\<close>

definition demo_fheap :: heap where
  "demo_fheap a = (if a = 0 then demo_finding ''s1'' ''semgrep'' ''x/b.go''
     else if a = 1 then demo_finding ''s2'' ''semgrep'' ''y/b.go''
     else if a = 2 then demo_finding ''a1'' ''ai_agent'' ''b.go''
     else demo_finding ''a2'' ''ai_agent'' ''y/b.go'')"

lemma strip_id: "\<not> prefix ''./'' p \<Longrightarrow> strip_dot_slash p = p"
  by (subst strip_dot_slash.simps) simp

lemma demo_paths:
  "sameVulnFile ''x/b.go'' ''b.go''" "sameVulnFile ''y/b.go'' ''b.go''"
  "\<not> sameVulnFile ''x/b.go'' ''y/b.go''" "sameVulnFile ''y/b.go'' ''y/b.go''"
  by (simp_all add: sameVulnFile_def normalizeRelPath_def strip_id trim_prefix_def suffix_Cons)

lemma demo_shapes:
  "merge_shapes demo_fheap [0, 1] [2, 3] = [([''a1'', ''s1'', ''s2''], ''s1''), ([''a2'', ''s2''], ''s2'')]"
  by (simp add: merge_shapes_def clean_def is_false_positive_def demo_fheap_def demo_finding_def group_of_def
      same_location_def demo_paths map_filter_simps)

theorem fusion_result_exact_witness:
  "\<exists>r. Execute (\<lambda>_. False) (NewFusionPipeline id) demo_fheap [0, 1] [2, 3] = Inr r \<and>
    set (frIds r) = {''s1''}"
proof -
  have c: "clean demo_fheap [0, 1] = [0, 1]"
    by (simp add: clean_def is_false_positive_def demo_fheap_def demo_finding_def)
  have "ids_of demo_fheap (clean demo_fheap [0, 1] @ [2, 3]) = [''s1'', ''s2'', ''a1'', ''a2'']"
    unfolding c by (simp add: ids_of_def demo_fheap_def demo_finding_def)
  moreover have "\<forall>a \<in> set [0, 1]. ufId (demo_fheap a) \<noteq> []" by (simp add: demo_fheap_def demo_finding_def)
  ultimately show ?thesis
    using fusion_result_exact[of "\<lambda>_. False" "[0, 1]" demo_fheap "id" "[2, 3]"] unfolding demo_shapes by auto
qed

text \<open>A group can lose its primary: an AI finding that names only a file matches the tool findings of all files of
  that name, so the second of two such files becomes a discarded member of its group; the AI finding
  on that second file then forms a group whose primary is already discarded, and neither it nor the
  tool finding it confirmed is in the result.\<close>

theorem fusion_drops_a_confirmed_finding:
  "\<exists>h sast ai r g. Execute (\<lambda>_. False) (NewFusionPipeline id) h sast ai = Inr r \<and>
    g \<in> set (frGroups r) \<and> set (mgMerged g) \<inter> set (frIds r) = {} \<and> length (mgMerged g) \<ge> 2"
proof -
  have ids: "\<forall>a \<in> set [0, 1]. ufId (demo_fheap a) \<noteq> []" by (simp add: demo_fheap_def demo_finding_def)
  have c: "clean demo_fheap [0, 1] = [0, 1]"
    by (simp add: clean_def is_false_positive_def demo_fheap_def demo_finding_def)
  have i: "ids_of demo_fheap (clean demo_fheap [0, 1] @ [2, 3]) = [''s1'', ''s2'', ''a1'', ''a2'']"
    unfolding c by (simp add: ids_of_def demo_fheap_def demo_finding_def)
  have never: "\<forall>n < 5. \<not> (\<lambda>_. False) (n :: nat)" by simp
  have "(\<Union>x \<in> set [([''a1'', ''s1'', ''s2''], ''s1''), ([''a2'', ''s2''], ''s2'')]. losers x) = {''a1'', ''s2'', ''a2''}"
    by (auto simp: losers_def)
  then obtain r where r: "Execute (\<lambda>_. False) (NewFusionPipeline id) demo_fheap [0, 1] [2, 3] = Inr r"
    "map shape (frGroups r) = [([''a1'', ''s1'', ''s2''], ''s1''), ([''a2'', ''s2''], ''s2'')]" "set (frIds r) = {''s1''}"
    using Execute_result[OF never ids, of "id" "[2, 3]"] unfolding demo_shapes i by (elim exE conjE) auto
  have "([''a2'', ''s2''], ''s2'') \<in> set (map shape (frGroups r))" unfolding r(2) by simp
  then obtain g where g: "g \<in> set (frGroups r)" "mgMerged g = [''a2'', ''s2'']" by auto
  have "set (mgMerged g) \<inter> set (frIds r) = {} \<and> length (mgMerged g) \<ge> 2" unfolding g(2) r(3) by simp
  then show ?thesis using r(1) g(1) by blast
qed

text \<open>The real stages never fail: the pipeline answers with an error exactly when its deadline passed before one
  of its five stages, and never falls back to unfused results.\<close>

theorem fusion_fails_only_on_deadline:
  assumes "\<forall>a \<in> set sast. ufId (h a) \<noteq> []"
  shows "(\<exists>e. Execute expired (NewFusionPipeline rnd) h sast ai = Inl e) \<longleftrightarrow>
    expired 0 \<or> expired 1 \<or> expired 2 \<or> expired 3 \<or> expired 4"
proof -
  have never: "\<forall>n < 5. \<not> (\<lambda>_. False) (n :: nat)" by simp
  obtain c where "run_stages (\<lambda>_. False) 0 (NewFusionPipeline rnd) (start_context h sast ai) = Inr (Some c)"
    "fcMetrics c \<noteq> None"
    using pipeline_result[OF never assms, of rnd ai] by fastforce
  then show ?thesis
    by (auto simp: NewFusionPipeline_def Execute_def numeral_eq_Suc split: sum.splits option.splits)
qed

theorem fusion_fails_only_on_deadline_witness:
  "\<exists>e. Execute (\<lambda>n. n = 3) (NewFusionPipeline id) demo_fheap [0, 1] [2, 3] = Inl e"
proof -
  have "\<forall>a \<in> set [0, 1]. ufId (demo_fheap a) \<noteq> []" by (simp add: demo_fheap_def demo_finding_def)
  from fusion_fails_only_on_deadline[OF this, of "\<lambda>n. n = 3"] show ?thesis by simp
qed

section \<open>The fused confidence\<close>

text \<open>The fused confidence of a group stays between its members' average and 1 (when the average is at most 1):
  further confirmations never lower it, for any monotone rounding that keeps 0 and 1 and the values
  it has rounded already.\<close>

theorem fused_confidence_bounds:
  assumes "mono rnd" "rnd 0 = 0" "rnd 1 = 1" "\<And>x. rnd (rnd x) = rnd x"
    and "cs \<noteq> []" "\<forall>c \<in> set cs. 0 \<le> c"
  shows "min 1 (rnd (fold (\<lambda>c t. rnd (t + c)) cs 0 / of_nat (length cs))) \<le> fused_confidence rnd cs \<and>
    fused_confidence rnd cs \<le> 1"
proof -
  let ?avg = "rnd (fold (\<lambda>c t. rnd (t + c)) cs 0 / of_nat (length cs))"
  let ?boost = "if length cs > 1 then rnd (1 + rnd (rnd (1 / 10) * of_nat (length cs - 1))) else 1"
  have nn: "0 \<le> rnd x" if "0 \<le> x" for x using monoD[OF assms(1) that] assms(2) by simp
  have "0 \<le> fold (\<lambda>c t. rnd (t + c)) cs t" if "0 \<le> t" for t
    using assms(6) that
  proof (induction cs arbitrary: t)
    case (Cons c cs)
    then show ?case using nn[of "t + c"] by simp
  qed simp
  then have avg: "0 \<le> ?avg" by (intro nn divide_nonneg_nonneg) auto
  have "0 \<le> rnd (rnd (1 / 10) * of_nat (length cs - 1))" by (intro nn mult_nonneg_nonneg) (auto intro: nn)
  then have "1 \<le> rnd (1 + rnd (rnd (1 / 10) * of_nat (length cs - 1)))"
    using monoD[OF assms(1), of 1] assms(3) by simp
  then have "1 \<le> ?boost" by (simp only: if_split) blast
  then have "?avg * 1 \<le> ?avg * ?boost" using avg by (intro mult_left_mono)
  then have "rnd ?avg \<le> rnd (?avg * ?boost)" using monoD[OF assms(1)] by simp
  then show ?thesis using assms(4) by (auto simp: fused_confidence_def Let_def simp del: fold_simps)
qed

theorem fused_confidence_bounds_witness:
  "min 1 (7 / 10) \<le> fused_confidence id [6 / 10, 8 / 10] \<and> fused_confidence id [6 / 10, 8 / 10] \<le> (1 :: rat)"
  using fused_confidence_bounds[of id "[6 / 10, 8 / 10 :: rat]"] by (simp add: mono_def)

end
