(* ===== verification/VerifyDedup.thy ===== *)
theory VerifyDedup imports Main Prelude GoText Findings "HOL-Library.Multiset" "HOL-Library.Product_Lexorder" begin

text \<open>
  Grouping findings before the sandbox verification and broadcasting a group's verdict
  (\<open>runtime-service/internal/service/verify_dedup.go\<close>). Nothing is written through the
  pointers, so findings are values. \<open>sort.SliceStable\<close> is a stable sort; line arithmetic is
  \<open>int32\<close>.
\<close>

section \<open>Grouping\<close>

definition segmentRadiusLines :: "32 word" where "segmentRadiusLines = 2"

record segment_group =
  sgRep :: unified_finding
  sgMembers :: "unified_finding list"

definition segRange :: "unified_finding \<Rightarrow> 32 word \<times> 32 word" where
  "segRange f =
    (let s = ufStartLine f; e = ufEndLine f
     in if sint e < sint s then (s, s) else (s, e))"

fun severityRank :: "severity \<Rightarrow> int" where
  "severityRank SevCritical = 5"
| "severityRank SevHigh = 4"
| "severityRank SevMedium = 3"
| "severityRank SevLow = 2"
| "severityRank SevInfo = 1"
| "severityRank SevUnspecified = 0"

definition better_rep :: "unified_finding \<Rightarrow> unified_finding \<Rightarrow> bool" where
  "better_rep f rep \<longleftrightarrow>
    severityRank (ufSeverity f) > severityRank (ufSeverity rep) \<or>
    (severityRank (ufSeverity f) = severityRank (ufSeverity rep) \<and> sint (ufStartLine f) < sint (ufStartLine rep))"

fun pickRepresentative :: "unified_finding list \<Rightarrow> unified_finding" where
  "pickRepresentative (m # ms) = fold (\<lambda>f rep. if better_rep f rep then f else rep) ms m"
| "pickRepresentative [] = undefined"

text \<open>The sweep over the findings of one file, with the open group and its last line.\<close>

definition flush_group :: "unified_finding list \<Rightarrow> segment_group list \<Rightarrow> segment_group list" where
  "flush_group cur gs = (if cur = [] then gs else gs @ [\<lparr>sgRep = pickRepresentative cur, sgMembers = cur\<rparr>])"

fun sweep :: "unified_finding list \<Rightarrow> unified_finding list \<Rightarrow> 32 word \<Rightarrow> segment_group list \<Rightarrow> segment_group list" where
  "sweep [] cur curEnd gs = flush_group cur gs"
| "sweep (f # fs) cur curEnd gs =
    (let (s, e) = segRange f
     in if cur = [] then sweep fs [f] e gs
        else if sint s \<le> sint (curEnd + segmentRadiusLines)
        then sweep fs (cur @ [f]) (if sint e > sint curEnd then e else curEnd) gs
        else sweep fs [f] e (flush_group cur gs))"

definition seg_key :: "unified_finding \<Rightarrow> int \<times> int" where
  "seg_key f = (sint (fst (segRange f)), sint (snd (segRange f)))"

definition file_order :: "unified_finding list \<Rightarrow> string list" where
  "file_order fs = rev (fold (\<lambda>f ps. if ufFilePath f = [] \<or> ufFilePath f \<in> set ps then ps else ufFilePath f # ps) fs [])"

definition of_file :: "string \<Rightarrow> unified_finding list \<Rightarrow> unified_finding list" where
  "of_file p = filter (\<lambda>f. ufFilePath f = p)"

definition groupSegments :: "unified_finding list \<Rightarrow> segment_group list" where
  "groupSegments fs =
    map (\<lambda>f. \<lparr>sgRep = f, sgMembers = [f]\<rparr>) (of_file [] fs) @
    concat (map (\<lambda>p. sweep (sort_key seg_key (of_file p fs)) [] 0 []) (file_order fs))"

section \<open>Broadcasting\<close>

record verified_finding =
  vfOriginalId :: string
  vfDirection :: verdict_direction
  vfConfidence :: rat
  vfReasoning :: string

definition shared_reason :: "unified_finding \<Rightarrow> verified_finding \<Rightarrow> string" where
  "shared_reason rep base = (utf8 [229, 144, 140, 230, 174, 181, 229, 136, 164, 229, 174, 154, 239,
      188, 136, 228, 184, 142] @ '' '') @ ufId rep @ ('' '' @ utf8 [229, 133, 177, 231, 148, 168, 228,
      184, 128, 232, 189, 174, 230, 178, 153, 231, 174, 177, 239, 188, 140] @ ''ADR-186'' @ utf8 [239,
      188, 137] @ '': '') @ vfReasoning base"

definition broadcastGroupVerdict ::
  "verified_finding \<Rightarrow> unified_finding \<Rightarrow> unified_finding list \<Rightarrow> verified_finding list" where
  "broadcastGroupVerdict base rep members =
    map (\<lambda>m. if ufId m = ufId rep then base
             else \<lparr>vfOriginalId = ufId m, vfDirection = vfDirection base, vfConfidence = vfConfidence base,
                   vfReasoning = shared_reason rep base\<rparr>) members"

section \<open>Lemmas\<close>

lemma rep_member: "ms \<noteq> [] \<Longrightarrow> pickRepresentative ms \<in> set ms"
proof (cases ms)
  case (Cons m fs)
  have "fold (\<lambda>f rep. if better_rep f rep then f else rep) fs m \<in> insert m (set fs)" for m fs
    by (induction fs arbitrary: m) (auto split: if_splits)
  then show ?thesis using Cons by auto
qed simp

lemma rep_best:
  assumes "ms \<noteq> []" "f \<in> set ms"
  shows "\<not> better_rep f (pickRepresentative ms)"
proof -
  have trans: "better_rep a b \<Longrightarrow> \<not> better_rep c b \<Longrightarrow> \<not> better_rep c a" for a b c
    by (auto simp: better_rep_def)
  have "\<not> better_rep f m \<or> f \<in> set fs \<Longrightarrow>
      \<not> better_rep f (fold (\<lambda>f rep. if better_rep f rep then f else rep) fs m)" for m fs
  proof (induction fs arbitrary: m)
    case (Cons a fs)
    have "\<not> better_rep f (if better_rep a m then a else m) \<or> f \<in> set fs"
      using Cons.prems trans[of a m f] by (auto simp: better_rep_def)
    from Cons.IH[OF this] show ?case by simp
  qed simp
  moreover obtain m fs where "ms = m # fs" using assms(1) by (cases ms) auto
  moreover have "\<not> better_rep m m" for m by (simp add: better_rep_def)
  ultimately show ?thesis using assms(2) by auto
qed

definition members_of :: "segment_group list \<Rightarrow> unified_finding list" where
  "members_of gs = concat (map sgMembers gs)"

definition group_ok :: "segment_group \<Rightarrow> bool" where
  "group_ok g \<longleftrightarrow> sgMembers g \<noteq> [] \<and> sgRep g = pickRepresentative (sgMembers g)"

lemma members_flush: "members_of (flush_group cur gs) = members_of gs @ cur"
  by (simp add: flush_group_def members_of_def)

lemma group_ok_flush: "list_all group_ok gs \<Longrightarrow> list_all group_ok (flush_group cur gs)"
  by (simp add: flush_group_def group_ok_def)

text \<open>The sweep keeps every finding, in order.\<close>

lemma sweep_members: "members_of (sweep fs cur e gs) = members_of gs @ cur @ fs"
  by (induction fs cur e gs rule: sweep.induct) (auto simp: members_flush Let_def split: prod.split)

lemma sweep_ok: "list_all group_ok gs \<Longrightarrow> list_all group_ok (sweep fs cur e gs)"
  by (induction fs cur e gs rule: sweep.induct) (auto simp: group_ok_flush Let_def split: prod.split)

lemma file_order_fold:
  "distinct ps \<Longrightarrow> [] \<notin> set ps \<Longrightarrow>
   (let r = fold (\<lambda>f ps. if ufFilePath f = [] \<or> ufFilePath f \<in> set ps then ps else ufFilePath f # ps) fs ps
    in distinct r \<and> set r = set ps \<union> (ufFilePath ` set fs - {[]}))"
  by (induction fs arbitrary: ps) (auto simp: Let_def)

lemma file_order_props: "distinct (file_order fs)" "set (file_order fs) = ufFilePath ` set fs - {[]}"
  using file_order_fold[of "[]" fs] by (simp_all add: file_order_def Let_def)

lemma mset_of_files:
  "distinct ps \<Longrightarrow> mset (concat (map (\<lambda>p. of_file p fs) ps)) = filter_mset (\<lambda>f. ufFilePath f \<in> set ps) (mset fs)"
proof (induction ps)
  case (Cons p ps)
  have "filter_mset (\<lambda>f. ufFilePath f = p \<or> ufFilePath f \<in> set ps) (mset fs) =
      filter_mset (\<lambda>f. ufFilePath f = p) (mset fs) + filter_mset (\<lambda>f. ufFilePath f \<in> set ps) (mset fs)"
    using Cons.prems by (induction fs) auto
  then show ?case using Cons by (simp add: of_file_def)
qed simp

lemma mset_concat_map: "(\<And>p. p \<in> set ps \<Longrightarrow> mset (f p) = mset (g p)) \<Longrightarrow>
  mset (concat (map f ps)) = mset (concat (map g ps))"
  by (induction ps) auto

lemma members_of_concat: "members_of (concat (map f ps)) = concat (map (\<lambda>p. members_of (f p)) ps)"
  by (induction ps) (simp_all add: members_of_def)

lemma members_of_append: "members_of (gs @ hs) = members_of gs @ members_of hs"
  by (simp add: members_of_def)

lemma members_of_single: "members_of (map (\<lambda>f. \<lparr>sgRep = f, sgMembers = [f]\<rparr>) fs) = fs"
  by (induction fs) (simp_all add: members_of_def)

lemma members_of_Nil [simp]: "members_of [] = []"
  by (simp add: members_of_def)

lemma groupSegments_members: "mset (members_of (groupSegments fs)) = mset fs"
proof -
  have "mset (members_of (groupSegments fs)) = mset (of_file [] fs) +
      mset (concat (map (\<lambda>p. sort_key seg_key (of_file p fs)) (file_order fs)))"
    by (simp add: groupSegments_def members_of_append members_of_single members_of_concat sweep_members)
  also have "\<dots> = mset (of_file [] fs) + mset (concat (map (\<lambda>p. of_file p fs) (file_order fs)))"
    using mset_concat_map[of "file_order fs" "\<lambda>p. sort_key seg_key (of_file p fs)" "\<lambda>p. of_file p fs"] by simp
  also have "\<dots> = filter_mset (\<lambda>f. ufFilePath f = []) (mset fs) + filter_mset (\<lambda>f. ufFilePath f \<in> set (file_order fs)) (mset fs)"
    by (simp only: mset_of_files[OF file_order_props(1)]) (simp add: of_file_def)
  also have "\<dots> = filter_mset (\<lambda>f. ufFilePath f = []) (mset fs) + filter_mset (\<lambda>f. ufFilePath f \<noteq> []) (mset fs)"
    by (intro arg_cong2[of _ _ _ _ "(+)"] refl filter_mset_cong) (auto simp: file_order_props(2))
  also have "\<dots> = mset fs" by (simp flip: multiset_partition)
  finally show ?thesis .
qed

lemma groupSegments_ok: "list_all group_ok (groupSegments fs)"
proof -
  have "list_all group_ok (sweep (sort_key seg_key (of_file p fs)) [] 0 [])" for p by (rule sweep_ok) simp
  then show ?thesis by (auto simp: groupSegments_def list_all_iff group_ok_def)
qed

text \<open>C12. Grouping loses and invents nothing: the members of all groups are the input findings, each as often as in
  the input, and each group's representative is a member that no member outranks by severity, then by
  smaller start line.\<close>

theorem groups_partition_findings:
  "mset (concat (map sgMembers (groupSegments fs))) = mset fs \<and>
   (\<forall>g \<in> set (groupSegments fs). sgRep g \<in> set (sgMembers g) \<and>
      (\<forall>f \<in> set (sgMembers g). \<not> better_rep f (sgRep g)))"
  using groupSegments_members[of fs] groupSegments_ok[of fs] rep_member rep_best
  by (auto simp: members_of_def list_all_iff group_ok_def)

text \<open>C13. When each group's base verdict is one for its representative, broadcasting the verdicts answers every input
  finding exactly as often as it occurs, and nothing else.\<close>

theorem broadcast_answers_every_finding:
  assumes "\<And>g. vfOriginalId (verdict g) = ufId (sgRep g)"
  shows "mset (map vfOriginalId (concat (map (\<lambda>g. broadcastGroupVerdict (verdict g) (sgRep g) (sgMembers g)) (groupSegments fs)))) =
    mset (map ufId fs)"
proof -
  have "map vfOriginalId (broadcastGroupVerdict (verdict g) (sgRep g) ms) = map ufId ms" for g ms
    by (auto simp: broadcastGroupVerdict_def assms)
  then have "map vfOriginalId (concat (map (\<lambda>g. broadcastGroupVerdict (verdict g) (sgRep g) (sgMembers g)) gs)) =
      map ufId (members_of gs)" for gs
    by (induction gs) (simp_all add: members_of_def)
  then show ?thesis using groupSegments_members[of fs] by (metis mset_map)
qed

definition demo_uf :: "string \<Rightarrow> 32 word \<Rightarrow> 32 word \<Rightarrow> unified_finding" where
  "demo_uf k s e = \<lparr>ufId = k, ufSourceTool = ''t'', ufFilePath = ''a.go'', ufStartLine = s, ufEndLine = e,
     ufSeverity = SevLow, ufConfidence = 0, ufDirection = DirTrue, ufTier = TierLikely,
     ufAiConfidence = 0, ufMatched = [], ufUnique = False, ufDedupGroup = []\<rparr>"

theorem broadcast_answers_every_finding_witness:
  "mset (map vfOriginalId (concat (map (\<lambda>g. broadcastGroupVerdict
     \<lparr>vfOriginalId = ufId (sgRep g), vfDirection = DirTrue, vfConfidence = 1, vfReasoning = []\<rparr> (sgRep g) (sgMembers g))
     (groupSegments [demo_uf ''a'' 3 4, demo_uf ''b'' 9 0])))) = {#''a'', ''b''#}"
  using broadcast_answers_every_finding[of "\<lambda>g. \<lparr>vfOriginalId = ufId (sgRep g), vfDirection = DirTrue,
    vfConfidence = 1, vfReasoning = []\<rparr>" "[demo_uf ''a'' 3 4, demo_uf ''b'' 9 0]"]
  by (simp add: demo_uf_def)

section \<open>Separation\<close>

definition apart :: "unified_finding \<Rightarrow> unified_finding \<Rightarrow> bool" where
  "apart f g \<longleftrightarrow> snd (seg_key f) + 2 < fst (seg_key g)"

definition groups_apart :: "segment_group \<Rightarrow> segment_group \<Rightarrow> bool" where
  "groups_apart g h \<longleftrightarrow> (\<forall>f \<in> set (sgMembers g). \<forall>f' \<in> set (sgMembers h).
     ufFilePath f = ufFilePath f' \<and> ufFilePath f \<noteq> [] \<longrightarrow> apart f f')"

definition small_lines :: "unified_finding \<Rightarrow> bool" where
  "small_lines f \<longleftrightarrow> snd (seg_key f) < 2 ^ 31 - 2"

lemma radius_no_wrap:
  fixes w :: "32 word"
  assumes "sint w < 2 ^ 31 - 2"
  shows "sint (w + segmentRadiusLines) = sint w + 2"
proof -
  have "sint (w + 2) = signed_take_bit 31 (sint w + sint (2 :: 32 word))" by (simp add: sint_word_ariths)
  moreover have "- (2 ^ 31) \<le> sint w" using sint_ge[of w] by simp
  ultimately show ?thesis using assms by (simp add: segmentRadiusLines_def signed_take_bit_int_eq_self)
qed

lemma groups_apartI:
  "(\<And>f f'. f \<in> set (sgMembers g) \<Longrightarrow> f' \<in> set (sgMembers h) \<Longrightarrow> apart f f') \<Longrightarrow> groups_apart g h"
  by (simp add: groups_apart_def)

lemma members_flush_set: "g \<in> set (flush_group cur gs) \<Longrightarrow> g \<in> set gs \<or> sgMembers g = cur"
  by (auto simp: flush_group_def split: if_splits)

lemma sweep_apart:
  assumes "sorted_wrt (\<lambda>f g. fst (seg_key f) \<le> fst (seg_key g)) fs"
    and "\<forall>f \<in> set (cur @ fs). small_lines f" "cur \<noteq> [] \<longrightarrow> sint e < 2 ^ 31 - 2"
    and "\<forall>f \<in> set cur. snd (seg_key f) \<le> sint e"
    and "\<forall>g \<in> set gs. \<forall>f \<in> set (sgMembers g). \<forall>f' \<in> set (cur @ fs). apart f f'"
    and "sorted_wrt groups_apart gs"
  shows "sorted_wrt groups_apart (sweep fs cur e gs)"
  using assms
proof (induction fs cur e gs rule: sweep.induct)
  case (1 cur e gs)
  then show ?case by (auto simp: flush_group_def sorted_wrt_append groups_apart_def)
next
  case (2 f fs cur e gs)
  obtain s t where r: "segRange f = (s, t)" by (cases "segRange f")
  have k: "seg_key f = (sint s, sint t)" by (simp add: seg_key_def r)
  have small: "sint t < 2 ^ 31 - 2" using 2(5) k by (simp add: small_lines_def)
  show ?case
  proof (cases "cur = []")
    case True
    have "sorted_wrt groups_apart (sweep fs [f] t gs)"
      using "2.prems" True k small by (intro "2.IH"(1)[OF r[symmetric] refl True]) auto
    then show ?thesis using True r by simp
  next
    case ne: False
    note wrap = radius_no_wrap[OF "2.prems"(3)[rule_format, OF ne]]
    show ?thesis
    proof (cases "sint s \<le> sint (e + segmentRadiusLines)")
      case True
      let ?e = "if sint t > sint e then t else e"
      have "sorted_wrt groups_apart (sweep fs (cur @ [f]) ?e gs)"
        using "2.prems" k small ne by (intro "2.IH"(2)[OF r[symmetric] refl ne True]) auto
      then show ?thesis using ne True r by simp
    next
      case False
      have gap: "sint e + 2 < sint s" using False wrap by simp
      have next_ap: "apart c f'" if "c \<in> set cur" "f' \<in> set (f # fs)" for c f'
        using that "2.prems"(1,4) gap k by (fastforce simp: apart_def)
      have "sorted_wrt groups_apart (flush_group cur gs)"
        using "2.prems"(5,6) by (auto simp: flush_group_def sorted_wrt_append intro!: groups_apartI)
      moreover have "\<forall>g \<in> set (flush_group cur gs). \<forall>c \<in> set (sgMembers g). \<forall>f' \<in> set ([f] @ fs). apart c f'"
        using "2.prems"(5) next_ap members_flush_set by fastforce
      ultimately have "sorted_wrt groups_apart (sweep fs [f] t (flush_group cur gs))"
        using "2.prems"(1,2) k small by (intro "2.IH"(3)[OF r[symmetric] refl ne False]) auto
      then show ?thesis using ne False r by simp
    qed
  qed
qed

lemma sort_seg_sorted: "sorted_wrt (\<lambda>f g. fst (seg_key f) \<le> fst (seg_key g)) (sort_key seg_key fs)"
proof -
  have "sorted_wrt (\<lambda>f g. seg_key f \<le> seg_key g) (sort_key seg_key fs)"
    using sorted_sort_key[of seg_key fs] by (simp add: sorted_map)
  then show ?thesis by (rule sorted_wrt_mono_rel[rotated]) (auto simp: less_eq_prod_def)
qed

lemma sweep_file_members:
  "g \<in> set (sweep (sort_key seg_key (of_file p fs)) [] 0 []) \<Longrightarrow> f \<in> set (sgMembers g) \<Longrightarrow> ufFilePath f = p"
  using arg_cong[OF sweep_members[of "sort_key seg_key (of_file p fs)" "[]" 0 "[]"], of set]
  by (auto simp: members_of_def of_file_def)

lemma sweeps_apart:
  assumes "distinct ps" "\<forall>f \<in> set fs. small_lines f"
  shows "sorted_wrt groups_apart (concat (map (\<lambda>p. sweep (sort_key seg_key (of_file p fs)) [] 0 []) ps))"
  using assms(1)
proof (induction ps)
  case (Cons p ps)
  have "sorted_wrt groups_apart (sweep (sort_key seg_key (of_file p fs)) [] 0 [])"
    by (rule sweep_apart[OF sort_seg_sorted]) (use assms(2) in \<open>auto simp: of_file_def\<close>)
  moreover have "groups_apart g h" if "g \<in> set (sweep (sort_key seg_key (of_file p fs)) [] 0 [])" "q \<in> set ps"
    "h \<in> set (sweep (sort_key seg_key (of_file q fs)) [] 0 [])" for g h q
  proof -
    have "p \<noteq> q" using Cons.prems that(2) by auto
    then show ?thesis
      using sweep_file_members[OF that(1)] sweep_file_members[OF that(3)] by (auto simp: groups_apart_def)
  qed
  ultimately show ?case using Cons by (auto simp: sorted_wrt_append)
qed simp

text \<open>Findings that are close share a round: two findings of the same file in different groups are more than two
  lines apart (for line numbers below the \<open>int32\<close> limit less two).\<close>

theorem different_groups_are_apart:
  assumes "\<forall>f \<in> set fs. snd (seg_key f) < 2 ^ 31 - 2"
    and "i < j" "j < length (groupSegments fs)"
    and "f \<in> set (sgMembers (groupSegments fs ! i))" "f' \<in> set (sgMembers (groupSegments fs ! j))"
    and "ufFilePath f = ufFilePath f'" "ufFilePath f \<noteq> []"
  shows "sint (snd (segRange f)) + 2 < sint (fst (segRange f'))"
proof -
  let ?one = "map (\<lambda>f. \<lparr>sgRep = f, sgMembers = [f]\<rparr>) (of_file [] fs)"
  have "groups_apart g h" if "g \<in> set ?one" for g h using that by (auto simp: groups_apart_def of_file_def)
  moreover from this have "sorted_wrt groups_apart ?one"
    by (auto simp: sorted_wrt_iff_nth_less)
  ultimately have "sorted_wrt groups_apart (groupSegments fs)"
    unfolding groupSegments_def using sweeps_apart[OF file_order_props(1)] assms(1)
    by (simp add: sorted_wrt_append small_lines_def)
  then have "groups_apart (groupSegments fs ! i) (groupSegments fs ! j)"
    using assms(2,3) by (simp add: sorted_wrt_iff_nth_less)
  then show ?thesis using assms(4-7) by (auto simp: groups_apart_def apart_def seg_key_def)
qed

lemma demo_groups: "groupSegments [demo_uf ''b'' 9 0, demo_uf ''a'' 3 4] =
  [\<lparr>sgRep = demo_uf ''a'' 3 4, sgMembers = [demo_uf ''a'' 3 4]\<rparr>, \<lparr>sgRep = demo_uf ''b'' 9 0, sgMembers = [demo_uf ''b'' 9 0]\<rparr>]"
  by (simp add: groupSegments_def of_file_def file_order_def demo_uf_def seg_key_def segRange_def flush_group_def
      segmentRadiusLines_def less_eq_prod_def less_prod_def)

theorem different_groups_are_apart_witness:
  "sint (snd (segRange (demo_uf ''a'' 3 4))) + 2 < sint (fst (segRange (demo_uf ''b'' 9 0)))"
  by (rule different_groups_are_apart[of "[demo_uf ''b'' 9 0, demo_uf ''a'' 3 4]" 0 1])
    (simp_all add: demo_groups, simp_all add: demo_uf_def seg_key_def segRange_def)

theorem groups_partition_findings_witness:
  "mset (concat (map sgMembers (groupSegments [demo_uf ''b'' 9 0, demo_uf ''a'' 3 4]))) =
      mset [demo_uf ''b'' 9 0, demo_uf ''a'' 3 4] \<and>
    \<not> better_rep (demo_uf ''a'' 3 4) (sgRep (groupSegments [demo_uf ''b'' 9 0, demo_uf ''a'' 3 4] ! 0))"
  using groups_partition_findings[of "[demo_uf ''b'' 9 0, demo_uf ''a'' 3 4]"] by (simp add: demo_groups)

end
