(* ===== verification/Pause.thy ===== *)
theory Pause imports Main Prelude GoText begin

text \<open>
  The pause gate of a task's agent session (\<open>runtime-service/internal/sandbox/pause.go\<close>): gates and
  their wake channels, the registry of gates by task, and the wait at a round boundary, which
  follows two channels, the local gate and the task's status on another service.

  A gate is an address and a channel a number; \<open>psClosed\<close> are the closed channels. Closing a
  closed channel panics, hence the option. Every method of the gate and the registry is one step
  under its lock. The wait is a step relation, interleaved with the operations of other threads
  at the points where it holds no lock. What the status query answers is an argument of each query.
\<close>

section \<open>Gates and their registry\<close>

definition gateKey :: "string \<Rightarrow> string" where
  "gateKey taskID =
    (if suffix ''-fix'' taskID \<and> trim_suffix ''-fix'' taskID \<noteq> [] then trim_suffix ''-fix'' taskID else taskID)"

record pause_gate =
  gPaused :: bool
  gWake :: nat

record pauses =
  psGate :: "nat \<Rightarrow> pause_gate"
  psNextGate :: nat
  psNextChan :: nat
  psClosed :: "nat set"
  psTable :: "(string \<times> nat) list"

definition no_pauses :: pauses where
  "no_pauses = \<lparr>psGate = (\<lambda>_. \<lparr>gPaused = False, gWake = 0\<rparr>), psNextGate = 0, psNextChan = 0, psClosed = {}, psTable = []\<rparr>"

definition NewPauseGate :: "pauses \<Rightarrow> nat \<times> pauses" where
  "NewPauseGate s = (psNextGate s,
     s\<lparr>psGate := (psGate s)(psNextGate s := \<lparr>gPaused = False, gWake = psNextChan s\<rparr>),
       psNextGate := Suc (psNextGate s), psNextChan := Suc (psNextChan s)\<rparr>)"

definition gate_Pause :: "nat \<Rightarrow> pauses \<Rightarrow> pauses" where
  "gate_Pause a s =
    (if \<not> gPaused (psGate s a)
     then s\<lparr>psGate := (psGate s)(a := \<lparr>gPaused = True, gWake = psNextChan s\<rparr>), psNextChan := Suc (psNextChan s)\<rparr>
     else s)"

definition close_chan :: "nat \<Rightarrow> pauses \<Rightarrow> pauses option" where
  "close_chan c s = (if c \<in> psClosed s then None else Some (s\<lparr>psClosed := insert c (psClosed s)\<rparr>))"

definition gate_Resume :: "nat \<Rightarrow> pauses \<Rightarrow> pauses option" where
  "gate_Resume a s =
    (if gPaused (psGate s a)
     then close_chan (gWake (psGate s a)) (s\<lparr>psGate := (psGate s)(a := (psGate s a)\<lparr>gPaused := False\<rparr>)\<rparr>)
     else Some s)"

definition GateFor :: "string \<Rightarrow> pauses \<Rightarrow> nat \<times> pauses" where
  "GateFor taskID s =
    (case map_of (psTable s) taskID of
       Some a \<Rightarrow> (a, s)
     | None \<Rightarrow> (let (a, s1) = NewPauseGate s in (a, s1\<lparr>psTable := AList.update taskID a (psTable s1)\<rparr>)))"

definition PauseSession :: "string \<Rightarrow> pauses \<Rightarrow> pauses" where
  "PauseSession taskID s =
    (case map_of (psTable s) taskID of
       Some a \<Rightarrow> gate_Pause a s
     | None \<Rightarrow> (let (a, s1) = NewPauseGate s in gate_Pause a (s1\<lparr>psTable := AList.update taskID a (psTable s1)\<rparr>)))"

definition ResumeSession :: "string \<Rightarrow> pauses \<Rightarrow> pauses option" where
  "ResumeSession taskID s = (case map_of (psTable s) taskID of Some a \<Rightarrow> gate_Resume a s | None \<Rightarrow> Some s)"

definition ClearSession :: "string \<Rightarrow> pauses \<Rightarrow> pauses" where
  "ClearSession taskID s = s\<lparr>psTable := AList.delete taskID (psTable s)\<rparr>"

datatype pause_op = OpPause string | OpResume string | OpGateFor string | OpClear string

fun do_pause_op :: "pause_op \<Rightarrow> pauses \<Rightarrow> pauses option" where
  "do_pause_op (OpPause t) s = Some (PauseSession t s)"
| "do_pause_op (OpResume t) s = ResumeSession t s"
| "do_pause_op (OpGateFor t) s = Some (snd (GateFor t s))"
| "do_pause_op (OpClear t) s = Some (ClearSession t s)"

fun pause_ops :: "pause_op list \<Rightarrow> pauses \<Rightarrow> pauses option" where
  "pause_ops [] s = Some s"
| "pause_ops (x # xs) s = (case do_pause_op x s of None \<Rightarrow> None | Some s1 \<Rightarrow> pause_ops xs s1)"

section \<open>Waiting at a round boundary\<close>

text \<open>What \<open>TaskStateFunc\<close> gives: not installed, a status, or an error.\<close>

datatype remote_view = Unassembled | StateIs string | Unreachable

fun taskPausedRemotely :: "remote_view \<Rightarrow> bool" where
  "taskPausedRemotely Unassembled = False"
| "taskPausedRemotely Unreachable = False"
| "taskPausedRemotely (StateIs st) = str_contains st ''PAUSED''"

fun remoteResume :: "remote_view \<Rightarrow> bool" where
  "remoteResume Unassembled = True"
| "remoteResume Unreachable = True"
| "remoteResume (StateIs st) = (\<not> str_contains st ''PAUSED'')"

text \<open>
  Where the waiter is: before its check, at the head of the loop, blocked in \<open>select\<close> on the
  channel it read, woken by that channel, or returned; and how often it ran the freeze callback.
\<close>

datatype wait_phase = Entering | Looping | Blocked nat | Woken | Passed | Cancelled

record waiter =
  wPhase :: wait_phase
  wFreezes :: nat

abbreviation at_phase :: "wait_phase \<Rightarrow> nat \<Rightarrow> waiter" where
  "at_phase p n \<equiv> \<lparr>wPhase = p, wFreezes = n\<rparr>"

inductive wait_step :: "(remote_view \<Rightarrow> bool) \<Rightarrow> nat \<Rightarrow> pauses \<times> waiter \<Rightarrow> pauses \<times> waiter \<Rightarrow> bool"
  for answers :: "remote_view \<Rightarrow> bool" and a :: nat where
  enter_pass: "\<not> gPaused (psGate s a) \<Longrightarrow> answers r \<Longrightarrow> \<not> taskPausedRemotely r \<Longrightarrow>
    wait_step answers a (s, at_phase Entering n) (s, at_phase Passed n)"
| enter_local: "gPaused (psGate s a) \<Longrightarrow>
    wait_step answers a (s, at_phase Entering n) (s, at_phase Looping (Suc n))"
| enter_remote: "\<not> gPaused (psGate s a) \<Longrightarrow> answers r \<Longrightarrow> taskPausedRemotely r \<Longrightarrow>
    wait_step answers a (s, at_phase Entering n) (s, at_phase Looping (Suc n))"
| block: "wait_step answers a (s, at_phase Looping n) (s, at_phase (Blocked (gWake (psGate s a))) n)"
| cancel: "wait_step answers a (s, at_phase (Blocked c) n) (s, at_phase Cancelled n)"
| wake: "c \<in> psClosed s \<Longrightarrow> wait_step answers a (s, at_phase (Blocked c) n) (s, at_phase Woken n)"
| woken_again: "gPaused (psGate s a) \<Longrightarrow> wait_step answers a (s, at_phase Woken n) (s, at_phase Looping n)"
| woken_pass: "\<not> gPaused (psGate s a) \<Longrightarrow> wait_step answers a (s, at_phase Woken n) (s, at_phase Passed n)"
| tick_pass: "answers r \<Longrightarrow> remoteResume r \<Longrightarrow>
    wait_step answers a (s, at_phase (Blocked c) n) (s, at_phase Passed n)"
| tick_again: "answers r \<Longrightarrow> \<not> remoteResume r \<Longrightarrow>
    wait_step answers a (s, at_phase (Blocked c) n) (s, at_phase Looping n)"
| others: "do_pause_op x s = Some s1 \<Longrightarrow> wait_step answers a (s, w) (s1, w)"

text \<open>\<open>WaitFrozen\<close> is a run of these steps from \<open>Entering\<close>.\<close>

abbreviation waits :: "(remote_view \<Rightarrow> bool) \<Rightarrow> nat \<Rightarrow> pauses \<times> waiter \<Rightarrow> pauses \<times> waiter \<Rightarrow> bool" where
  "waits answers a \<equiv> (wait_step answers a)\<^sup>*\<^sup>*"

section \<open>Channels are closed at most once\<close>

definition gates_ok :: "pauses \<Rightarrow> bool" where
  "gates_ok s \<longleftrightarrow>
    (\<forall>a < psNextGate s. gWake (psGate s a) < psNextChan s \<and>
       (gPaused (psGate s a) \<longrightarrow> gWake (psGate s a) \<notin> psClosed s) \<and>
       (\<forall>b < psNextGate s. gWake (psGate s a) = gWake (psGate s b) \<longrightarrow> a = b)) \<and>
    (\<forall>c \<in> psClosed s. c < psNextChan s) \<and>
    (\<forall>t a. map_of (psTable s) t = Some a \<longrightarrow> a < psNextGate s)"

lemma gates_ok_start: "gates_ok no_pauses"
  by (simp add: gates_ok_def no_pauses_def)

text \<open>Giving one gate a fresh channel, as a new gate and a pause do.\<close>

definition rewake :: "nat \<Rightarrow> bool \<Rightarrow> pauses \<Rightarrow> pauses" where
  "rewake a p s = s\<lparr>psGate := (psGate s)(a := \<lparr>gPaused = p, gWake = psNextChan s\<rparr>),
     psNextGate := max (psNextGate s) (Suc a), psNextChan := Suc (psNextChan s)\<rparr>"

lemma gates_ok_rewake:
  assumes "gates_ok s" "a \<le> psNextGate s"
  shows "gates_ok (rewake a p s)"
proof -
  let ?s = "rewake a p s"
  have w: "b < psNextGate s \<Longrightarrow> gWake (psGate s b) < psNextChan s" for b using assms(1) by (simp add: gates_ok_def)
  have known: "b < psNextGate s" if "b < psNextGate ?s" "b \<noteq> a" for b using that assms(2) by (auto simp: rewake_def)
  have g: "psGate ?s b = (if b = a then \<lparr>gPaused = p, gWake = psNextChan s\<rparr> else psGate s b)" for b
    by (simp add: rewake_def)
  have 1: "gWake (psGate ?s b) < psNextChan ?s" if "b < psNextGate ?s" for b
    using w known[OF that] by (auto simp: g rewake_def intro: less_SucI)
  have 2: "gWake (psGate ?s b) \<notin> psClosed ?s" if "b < psNextGate ?s" "gPaused (psGate ?s b)" for b
    using assms(1) known[OF that(1)] that(2) by (auto simp: g rewake_def gates_ok_def)
  have 3: "b = c" if "b < psNextGate ?s" "c < psNextGate ?s" "gWake (psGate ?s b) = gWake (psGate ?s c)" for b c
    using assms(1) known[OF that(1)] known[OF that(2)] that(3) w[of b] w[of c]
    by (cases "b = a"; cases "c = a") (auto simp: g gates_ok_def)
  have 4: "\<forall>c \<in> psClosed ?s. c < psNextChan ?s" using assms(1) by (auto simp: rewake_def gates_ok_def intro: less_SucI)
  have 5: "\<forall>t b. map_of (psTable ?s) t = Some b \<longrightarrow> b < psNextGate ?s"
    using assms(1) by (auto simp: rewake_def gates_ok_def less_max_iff_disj)
  show ?thesis unfolding gates_ok_def using 1 2 3 4 5 by blast
qed

lemma gates_ok_alloc: "gates_ok s \<Longrightarrow> NewPauseGate s = (a, s1) \<Longrightarrow> gates_ok s1 \<and> a < psNextGate s1 \<and> psTable s1 = psTable s"
  using gates_ok_rewake[of s "psNextGate s" False] by (auto simp: NewPauseGate_def rewake_def)

lemma gates_ok_table: "gates_ok s \<Longrightarrow> a < psNextGate s \<Longrightarrow> gates_ok (s\<lparr>psTable := AList.update t a (psTable s)\<rparr>)"
  unfolding gates_ok_def by (auto simp: store_simps split: if_splits)

lemma gates_ok_pause:
  assumes "gates_ok s" "a < psNextGate s"
  shows "gates_ok (gate_Pause a s)"
proof (cases "gPaused (psGate s a)")
  case False
  have "gate_Pause a s = rewake a True s" using False assms(2) by (simp add: gate_Pause_def rewake_def max_def)
  then show ?thesis using gates_ok_rewake[OF assms(1), of a True] assms(2) by simp
qed (use assms(1) in \<open>simp add: gate_Pause_def\<close>)

lemma gates_ok_resume:
  assumes "gates_ok s" "a < psNextGate s"
  shows "\<exists>s1. gate_Resume a s = Some s1 \<and> gates_ok s1 \<and> \<not> gPaused (psGate s1 a) \<and>
    (gPaused (psGate s a) \<longrightarrow> gWake (psGate s a) \<in> psClosed s1)"
proof (cases "gPaused (psGate s a)")
  case True
  let ?c = "gWake (psGate s a)"
  let ?s = "s\<lparr>psGate := (psGate s)(a := (psGate s a)\<lparr>gPaused := False\<rparr>), psClosed := insert ?c (psClosed s)\<rparr>"
  have c: "?c \<notin> psClosed s" "?c < psNextChan s" using assms True by (auto simp: gates_ok_def)
  have wake: "gWake (psGate ?s b) = gWake (psGate s b)" for b by simp
  have "gWake (psGate s b) \<noteq> ?c" if "b < psNextGate s" "b \<noteq> a" for b
    using assms that unfolding gates_ok_def by blast
  then have "gWake (psGate ?s b) \<notin> psClosed ?s" if "b < psNextGate s" "gPaused (psGate ?s b)" for b
    using assms(1) that unfolding gates_ok_def by (cases "b = a") auto
  moreover have "b = d" if "b < psNextGate s" "d < psNextGate s" "gWake (psGate ?s b) = gWake (psGate ?s d)" for b d
    using assms(1) that unfolding wake gates_ok_def by blast
  ultimately have "gates_ok ?s" using assms(1) c(2) unfolding gates_ok_def wake by simp
  moreover have "gate_Resume a s = Some ?s" using True c(1) by (simp add: gate_Resume_def close_chan_def)
  ultimately show ?thesis by simp
qed (use assms(1) in \<open>simp add: gate_Resume_def\<close>)

lemma gates_ok_clear: "gates_ok s \<Longrightarrow> gates_ok (ClearSession t s)"
  unfolding gates_ok_def ClearSession_def by (auto simp: store_simps split: if_splits)

lemma gates_ok_known: "gates_ok s \<Longrightarrow> map_of (psTable s) t = Some a \<Longrightarrow> a < psNextGate s"
  by (simp add: gates_ok_def)

lemma gates_ok_op: "gates_ok s \<Longrightarrow> \<exists>s1. do_pause_op x s = Some s1 \<and> gates_ok s1"
proof (cases x)
  case (OpPause t)
  assume ok: "gates_ok s"
  show ?thesis
  proof (cases "map_of (psTable s) t")
    case None
    obtain a s1 where n: "NewPauseGate s = (a, s1)" by fastforce
    have s1: "gates_ok s1" "a < psNextGate s1" using gates_ok_alloc[OF ok n] by auto
    have "gates_ok (gate_Pause a (s1\<lparr>psTable := AList.update t a (psTable s1)\<rparr>))"
      by (rule gates_ok_pause[OF gates_ok_table[OF s1]]) (simp add: s1)
    then show ?thesis using None OpPause n by (simp add: PauseSession_def)
  next
    case (Some a)
    then show ?thesis using ok OpPause gates_ok_pause gates_ok_known by (simp add: PauseSession_def)
  qed
next
  case (OpResume t)
  assume ok: "gates_ok s"
  show ?thesis using gates_ok_resume[OF ok gates_ok_known[OF ok]] ok OpResume
    by (cases "map_of (psTable s) t") (auto simp: ResumeSession_def)
next
  case (OpGateFor t)
  assume ok: "gates_ok s"
  obtain a s1 where n: "NewPauseGate s = (a, s1)" by fastforce
  have "gates_ok (s1\<lparr>psTable := AList.update t a (psTable s1)\<rparr>)"
    using gates_ok_alloc[OF ok n] by (intro gates_ok_table) auto
  then show ?thesis using ok OpGateFor n by (simp add: GateFor_def split: option.split)
next
  case (OpClear t)
  then show "gates_ok s \<Longrightarrow> ?thesis" by (simp add: gates_ok_clear)
qed

lemma gates_ok_ops: "gates_ok s \<Longrightarrow> \<exists>s1. pause_ops xs s = Some s1 \<and> gates_ok s1"
proof (induction xs arbitrary: s)
  case (Cons x xs)
  then show ?case using gates_ok_op[OF Cons.prems, of x] by auto
qed simp

text \<open>C14. Whatever sequence of pauses, resumes, gate requests and clean-ups runs, no wake channel is closed twice,
  so none of them panics.\<close>

theorem pause_operations_never_panic:
  "pause_ops xs no_pauses \<noteq> None"
  using gates_ok_ops[OF gates_ok_start, of xs] by auto

section \<open>The freeze callback\<close>

definition froze_once :: "waiter \<Rightarrow> bool" where
  "froze_once w \<longleftrightarrow> (case wPhase w of Entering \<Rightarrow> wFreezes w = 0 | Passed \<Rightarrow> wFreezes w \<le> 1 | _ \<Rightarrow> wFreezes w = 1)"

lemma froze_once_step: "wait_step answers a x y \<Longrightarrow> froze_once (snd x) \<Longrightarrow> froze_once (snd y)"
  by (induction rule: wait_step.induct) (auto simp: froze_once_def)

text \<open>A wait runs the freeze callback at most once however long it lasts, and exactly once before it blocks or
  is cancelled.\<close>

theorem freeze_runs_once:
  assumes "waits answers a (s, at_phase Entering 0) (s1, w)"
  shows "wFreezes w \<le> 1 \<and> (wPhase w \<notin> {Entering, Passed} \<longrightarrow> wFreezes w = 1)"
proof -
  have "froze_once (snd x)" if "waits answers a (s, at_phase Entering 0) x" for x
    using that
  proof (induction rule: rtranclp_induct)
    case base
    then show ?case by (simp add: froze_once_def)
  qed (rule froze_once_step)
  from this[OF assms] have "froze_once w" by simp
  then show ?thesis by (cases "wPhase w") (auto simp: froze_once_def)
qed

section \<open>Resuming\<close>

text \<open>C15. A resume reaches every waiter of the task: a waiter blocked on the channel of the task's paused gate can be
  woken right after \<open>ResumeSession\<close> and then passes.\<close>

theorem resume_releases_waiter:
  assumes "gates_ok s" "map_of (psTable s) t = Some a" "gPaused (psGate s a)"
  shows "\<exists>s1. ResumeSession t s = Some s1 \<and>
    waits answers a (s1, at_phase (Blocked (gWake (psGate s a))) n) (s1, at_phase Passed n)"
proof -
  obtain s1 where r: "gate_Resume a s = Some s1" "\<not> gPaused (psGate s1 a)" "gWake (psGate s a) \<in> psClosed s1"
    using gates_ok_resume[OF assms(1) gates_ok_known[OF assms(1,2)]] assms(3) by auto
  have "wait_step answers a (s1, at_phase (Blocked (gWake (psGate s a))) n) (s1, at_phase Woken n)"
    by (rule wait_step.wake[OF r(3)])
  moreover have "wait_step answers a (s1, at_phase Woken n) (s1, at_phase Passed n)"
    by (rule wait_step.woken_pass[OF r(2)])
  ultimately show ?thesis using r(1) assms(2) by (auto simp: ResumeSession_def intro: converse_rtranclp_into_rtranclp)
qed

section \<open>Two ways a pause is lost\<close>

text \<open>A gate that was once paused and resumed keeps its closed channel: when the task is later paused through
  another replica (the status says so at every query, the local gate is not paused), the wait ends at
  once, although nobody resumed the task.\<close>

theorem remote_pause_ignored_after_local_cycle:
  assumes "pause_ops [OpPause t, OpResume t] no_pauses = Some s" "map_of (psTable s) t = Some a"
  shows "waits (\<lambda>r. r = StateIs ''TASK_STATUS_PAUSED'') a (s, at_phase Entering 0) (s, at_phase Passed 1)"
proof -
  let ?r = "StateIs ''TASK_STATUS_PAUSED''" and ?W = "wait_step (\<lambda>r. r = StateIs ''TASK_STATUS_PAUSED'') a"
  have paused: "taskPausedRemotely ?r" by (simp add: str_contains_def)
  have g: "\<not> gPaused (psGate s a)" "gWake (psGate s a) \<in> psClosed s"
    using assms by (auto simp: PauseSession_def ResumeSession_def no_pauses_def NewPauseGate_def gate_Pause_def
        gate_Resume_def close_chan_def)
  have "?W (s, at_phase Entering 0) (s, at_phase Looping 1)"
    using wait_step.enter_remote[OF g(1), of "\<lambda>r. r = ?r" ?r 0] paused by simp
  moreover have "?W (s, at_phase Looping 1) (s, at_phase (Blocked (gWake (psGate s a))) 1)" by (rule wait_step.block)
  moreover have "?W (s, at_phase (Blocked (gWake (psGate s a))) 1) (s, at_phase Woken 1)" by (rule wait_step.wake[OF g(2)])
  moreover have "?W (s, at_phase Woken 1) (s, at_phase Passed 1)" by (rule wait_step.woken_pass[OF g(1)])
  ultimately show ?thesis by (meson converse_rtranclp_into_rtranclp rtranclp.rtrancl_refl)
qed

theorem remote_pause_ignored_after_local_cycle_witness:
  "\<exists>s. pause_ops [OpPause ''t'', OpResume ''t''] no_pauses = Some s \<and>
    waits (\<lambda>r. r = StateIs ''TASK_STATUS_PAUSED'') 0 (s, at_phase Entering 0) (s, at_phase Passed 1)"
proof -
  obtain s where s: "pause_ops [OpPause ''t'', OpResume ''t''] no_pauses = Some s" "map_of (psTable s) ''t'' = Some 0"
    by (auto simp: PauseSession_def ResumeSession_def no_pauses_def NewPauseGate_def gate_Pause_def
        gate_Resume_def close_chan_def)
  then show ?thesis using remote_pause_ignored_after_local_cycle[OF s] by blast
qed

text \<open>Without a status query installed (a single replica) a local pause holds only until the first poll: the
  wait passes while the gate is still paused.\<close>

theorem local_pause_ends_at_first_poll:
  assumes "gPaused (psGate s a)"
  shows "waits (\<lambda>r. r = Unassembled) a (s, at_phase Entering 0) (s, at_phase Passed 1)"
proof -
  let ?W = "wait_step (\<lambda>r. r = Unassembled) a"
  have "?W (s, at_phase Entering 0) (s, at_phase Looping 1)"
    using wait_step.enter_local[OF assms, of _ 0] by simp
  moreover have "?W (s, at_phase Looping 1) (s, at_phase (Blocked (gWake (psGate s a))) 1)" by (rule wait_step.block)
  moreover have "?W (s, at_phase (Blocked (gWake (psGate s a))) 1) (s, at_phase Passed 1)"
    by (rule wait_step.tick_pass[OF refl]) simp
  ultimately show ?thesis by (meson converse_rtranclp_into_rtranclp rtranclp.rtrancl_refl)
qed

definition demo_paused :: pauses where "demo_paused = PauseSession ''t'' no_pauses"

lemma demo_paused_facts: "gates_ok demo_paused" "map_of (psTable demo_paused) ''t'' = Some 0" "gPaused (psGate demo_paused 0)"
proof -
  show "gates_ok demo_paused" using gates_ok_op[OF gates_ok_start, of "OpPause ''t''"] by (simp add: demo_paused_def)
qed (simp_all add: demo_paused_def PauseSession_def no_pauses_def NewPauseGate_def gate_Pause_def)

theorem local_pause_ends_at_first_poll_witness:
  "waits (\<lambda>r. r = Unassembled) 0 (demo_paused, at_phase Entering 0) (demo_paused, at_phase Passed 1)"
  by (rule local_pause_ends_at_first_poll[OF demo_paused_facts(3)])

theorem resume_releases_waiter_witness:
  "\<exists>s1. ResumeSession ''t'' demo_paused = Some s1 \<and>
    waits (\<lambda>_. True) 0 (s1, at_phase (Blocked (gWake (psGate demo_paused 0))) 1) (s1, at_phase Passed 1)"
  by (rule resume_releases_waiter[OF demo_paused_facts])

theorem freeze_runs_once_witness:
  "wFreezes (at_phase Looping 1) = 1"
proof -
  have "wait_step (\<lambda>_. True) 0 (demo_paused, at_phase Entering 0) (demo_paused, at_phase Looping 1)"
    using wait_step.enter_local[OF demo_paused_facts(3), of _ 0] by simp
  then have "waits (\<lambda>_. True) 0 (demo_paused, at_phase Entering 0) (demo_paused, at_phase Looping 1)"
    by (rule r_into_rtranclp)
  from freeze_runs_once[OF this] show ?thesis by simp
qed

end
