(* ===== verification/TaskState.thy ===== *)
theory TaskState imports Main Prelude GoText TaskFsm begin

text \<open>
  The tasks of the task service (\<open>task-service/internal/service/task_service.go\<close>, \<open>task_logs.go\<close>):
  the entity, its stage board, the guarded status change, the execution log, and the RPCs that run
  in one critical section.

  The service holds one lock; every function here is a body run under it. The model is the
  service in its in-memory profile (no PostgreSQL mirror). The clock is an argument; the maps of
  the service are association lists. A task pointer is the entry of the task table with its id.
\<close>

section \<open>Entities\<close>

datatype stage_status = StUnspecified | StPending | StRunning | StCompleted | StFailed | StSkipped

datatype stage_type = TyUnspecified | TyCodeAnalysis | TySastScan | TyAiInference | TyResultFusion
  | TyReportGeneration | TyAiReview | TyGraph

datatype scan_mode = ModeUnspecified | SastOnly | AiOnly | Parallel | AiEnhancedSast | ModeCompare
  | TraditionalFirst | SastReview

record task_stage =
  tsId :: string
  tsType :: stage_type
  tsStatus :: stage_status
  tsStarted :: "gotime option"
  tsCompleted :: "gotime option"
  tsError :: string
  tsMeta :: "(string \<times> string) list"

record scan_task =
  tkId :: string
  tkProject :: string
  tkStatus :: task_status
  tkMode :: scan_mode
  tkError :: string
  tkRetry :: int
  tkAgent :: string
  tkCreatedBy :: string
  tkUpdatedAt :: gotime
  tkConfig :: "(string \<times> string) list"
  tkStages :: "task_stage list"

datatype log_level = LogInfo | LogWarn | LogError

record log_entry =
  leId :: int
  leTask :: string
  leTs :: int
  leLevel :: log_level
  leSource :: string
  leMessage :: string

record task_context =
  tcTask :: string
  tcConfig :: string
  tcCpg :: string
  tcSast :: "string list"
  tcAi :: "string list"

text \<open>
  \<open>svEvents\<close> are the tasks published under a topic and \<open>svUsage\<close> the tasks whose usage
  collection was started, both oldest first; the rest are the fields of \<open>TaskServiceImpl\<close>. A
  cancel entry is the number of its orchestration, a resume signal the number of its channel.
\<close>

record service =
  svTasks :: "(string \<times> scan_task) list"
  svLogs :: "(string \<times> log_entry list) list"
  svLogSeq :: int
  svLogIdem :: "(string \<times> int) list"
  svStageIdem :: "(string \<times> string) list"
  svPaths :: "(string \<times> string) list"
  svConfigs :: "(string \<times> (string \<times> string) list) list"
  svContexts :: "(string \<times> task_context) list"
  svIncremental :: "string list"
  svCancels :: "(string \<times> nat) list"
  svResumes :: "(string \<times> nat) list"
  svEvents :: "(string \<times> scan_task) list"
  svUsage :: "string list"

text \<open>\<open>m[k]\<close> of a map of strings: empty when missing.\<close>

definition cfg :: "(string \<times> string) list \<Rightarrow> string \<Rightarrow> string" where
  "cfg m k = (case map_of m k of Some v \<Rightarrow> v | None \<Rightarrow> [])"

section \<open>The execution log\<close>

definition logCapPerTask :: nat where "logCapPerTask = 500"

definition task_logs :: "string \<Rightarrow> service \<Rightarrow> log_entry list" where
  "task_logs k sv = (case map_of (svLogs sv) k of Some ls \<Rightarrow> ls | None \<Rightarrow> [])"

definition last_n :: "nat \<Rightarrow> 'a list \<Rightarrow> 'a list" where
  "last_n n xs = (if length xs > n then drop (length xs - n) xs else xs)"

definition appendLogLocked ::
  "gotime \<Rightarrow> string \<Rightarrow> log_level \<Rightarrow> string \<Rightarrow> string \<Rightarrow> service \<Rightarrow> log_entry \<times> service" where
  "appendLogLocked now taskID level source msg sv =
    (let n = svLogSeq sv + 1;
         entry = \<lparr>leId = n, leTask = taskID, leTs = now div 1000000, leLevel = level, leSource = source, leMessage = msg\<rparr>
     in (entry, sv\<lparr>svLogSeq := n,
          svLogs := AList.update taskID (last_n logCapPerTask (task_logs taskID sv @ [entry])) (svLogs sv)\<rparr>))"

abbreviation log_task :: "gotime \<Rightarrow> string \<Rightarrow> log_level \<Rightarrow> string \<Rightarrow> string \<Rightarrow> service \<Rightarrow> service" where
  "log_task now k lv src msg sv \<equiv> snd (appendLogLocked now k lv src msg sv)"

definition logsAfterLocked :: "string \<Rightarrow> int \<Rightarrow> int \<Rightarrow> service \<Rightarrow> log_entry list" where
  "logsAfterLocked taskID after limit sv =
    (let n = (if limit \<le> 0 then logCapPerTask else nat limit)
     in last_n n (filter (\<lambda>e. \<not> leId e \<le> after) (task_logs taskID sv)))"

definition AppendTaskLog ::
  "gotime \<Rightarrow> string \<Rightarrow> string \<Rightarrow> log_level \<Rightarrow> string \<Rightarrow> string \<Rightarrow> service \<Rightarrow> (grpc_error + log_entry) \<times> service" where
  "AppendTaskLog now requestId taskId level source msg sv =
    (if requestId = [] then (Inl (InvalidArgument, ''RequestMetadata.request_id is required (R4)''), sv)
     else if taskId = [] then (Inl (InvalidArgument, ''task_id is required''), sv)
     else if msg = [] then (Inl (InvalidArgument, ''message is required''), sv)
     else if map_of (svTasks sv) taskId = None then (Inl (NotFound, ''task '' @ taskId @ '' not found''), sv)
     else case map_of (svLogIdem sv) requestId of
            Some n \<Rightarrow> (case find (\<lambda>e. leId e = n) (task_logs taskId sv) of
                Some e \<Rightarrow> (Inr e, sv)
              | None \<Rightarrow> (Inr \<lparr>leId = n, leTask = taskId, leTs = 0, leLevel = LogInfo, leSource = [], leMessage = []\<rparr>, sv))
          | None \<Rightarrow> (let (e, sv1) = appendLogLocked now taskId level source msg sv
                     in (Inr e, sv1\<lparr>svLogIdem := AList.update requestId (leId e) (svLogIdem sv1)\<rparr>)))"

section \<open>The guarded status change\<close>

definition put_task :: "scan_task \<Rightarrow> service \<Rightarrow> service" where
  "put_task t sv = sv\<lparr>svTasks := AList.update (tkId t) t (svTasks sv)\<rparr>"

definition no_task :: "string \<Rightarrow> grpc_error" where
  "no_task k = (NotFound, ''task '' @ k @ '' not found'')"

definition collects_usage :: "task_status \<Rightarrow> bool" where
  "collects_usage to \<longleftrightarrow> IsTerminal to \<or> to = TS_FAILED"

definition transitionLocked ::
  "gotime \<Rightarrow> task_status \<Rightarrow> string \<Rightarrow> scan_task \<Rightarrow> service \<Rightarrow> grpc_error + (scan_task \<times> service)" where
  "transitionLocked now to rpc t sv =
    (case ValidateTransition new_sm (tkStatus t) to of
       Some _ \<Rightarrow> Inl (FailedPrecondition, ''cannot '' @ rpc @ '' task in state '' @ status_String (tkStatus t))
     | None \<Rightarrow>
         (let t1 = t\<lparr>tkStatus := to, tkUpdatedAt := now\<rparr>;
              sv1 = log_task now (tkId t) LogInfo ''task''
                ((utf8 [231, 138, 182, 230, 128, 129, 230, 181, 129, 232, 189, 172] @ '' '') @
                    status_String (tkStatus t) @ ('' '' @ utf8 [226, 134, 146] @ '' '') @
                    status_String to @ (utf8 [239, 188, 136]) @ rpc @ (utf8 [239, 188,
                    137])) (put_task t1 sv)
          in Inr (t1, if collects_usage to then sv1\<lparr>svUsage := svUsage sv1 @ [tkId t]\<rparr> else sv1)))"

text \<open>\<open>_ = s.transitionLocked(...)\<close>, or an error that is only logged.\<close>

definition try_transition ::
  "gotime \<Rightarrow> task_status \<Rightarrow> string \<Rightarrow> scan_task \<times> service \<Rightarrow> scan_task \<times> service" where
  "try_transition now to rpc x = (case transitionLocked now to rpc (fst x) (snd x) of Inl _ \<Rightarrow> x | Inr y \<Rightarrow> y)"

section \<open>The stage board\<close>

definition stageIDTypeHint :: "string \<Rightarrow> stage_type" where
  "stageIDTypeHint k = (if k = ''graph'' then TyGraph else TyUnspecified)"

definition blank_stage :: "string \<Rightarrow> stage_type \<Rightarrow> task_stage" where
  "blank_stage k ty = \<lparr>tsId = k, tsType = ty, tsStatus = StPending, tsStarted = None, tsCompleted = None,
     tsError = [], tsMeta = []\<rparr>"

text \<open>Changing the first stage with an id, which is appended when there is none.\<close>

fun findOrInsertStageLocked :: "string \<Rightarrow> (task_stage \<Rightarrow> task_stage) \<Rightarrow> task_stage list \<Rightarrow> task_stage list" where
  "findOrInsertStageLocked k f [] = [f (blank_stage k (stageIDTypeHint k))]"
| "findOrInsertStageLocked k f (s # ss) = (if tsId s = k then f s # ss else s # findOrInsertStageLocked k f ss)"

definition mode_stages :: "scan_mode \<Rightarrow> (string \<times> stage_type) list" where
  "mode_stages m = (case m of
     SastOnly \<Rightarrow> [(''sast'', TySastScan), (''fusion'', TyResultFusion), (''report'', TyReportGeneration)]
   | AiOnly \<Rightarrow> [(''analyze'', TyCodeAnalysis), (''ai'', TyAiInference), (''report'', TyReportGeneration)]
   | AiEnhancedSast \<Rightarrow> [(''sast'', TySastScan), (''ai'', TyAiInference), (''fusion'', TyResultFusion), (''report'', TyReportGeneration)]
   | Parallel \<Rightarrow> [(''sast'', TySastScan), (''ai'', TyAiInference), (''fusion'', TyResultFusion), (''report'', TyReportGeneration)]
   | ModeCompare \<Rightarrow> [(''sast'', TySastScan), (''ai'', TyAiInference), (''fusion'', TyResultFusion), (''report'', TyReportGeneration)]
   | TraditionalFirst \<Rightarrow> [(''sast'', TySastScan), (''analyze'', TyCodeAnalysis), (''ai'', TyAiInference),
       (''fusion'', TyResultFusion), (''report'', TyReportGeneration)]
   | SastReview \<Rightarrow> [(''sast'', TySastScan), (''review'', TyAiReview), (''report'', TyReportGeneration)]
   | ModeUnspecified \<Rightarrow> [])"

definition registerStagesLocked :: "scan_task \<Rightarrow> scan_task" where
  "registerStagesLocked t =
    (if tkStages t \<noteq> [] then t
     else t\<lparr>tkStages := map (\<lambda>(k, ty). blank_stage k ty)
       (if cfg (tkConfig t) ''execution'' = ''graph'' then [(''graph'', TyGraph), (''report'', TyReportGeneration)]
        else mode_stages (tkMode t))\<rparr>)"

definition reset_stage :: "task_stage \<Rightarrow> task_stage" where
  "reset_stage s = s\<lparr>tsStatus := StPending, tsError := [], tsStarted := None, tsCompleted := None\<rparr>"

definition resetStagesLocked :: "scan_task \<Rightarrow> scan_task" where
  "resetStagesLocked t = t\<lparr>tkStages := map reset_stage (tkStages t)\<rparr>"

text \<open>\<open>orchErr\<close> is \<open>nil\<close> or the text of the error.\<close>

definition finalize_stage :: "gotime \<Rightarrow> string option \<Rightarrow> task_stage \<Rightarrow> task_stage" where
  "finalize_stage now orchErr s =
    (if tsStatus s = StCompleted \<or> tsStatus s = StFailed then s
     else (let s1 = (case orchErr of
                Some e \<Rightarrow> if tsStarted s = None then s\<lparr>tsStatus := StSkipped\<rparr> else s\<lparr>tsStatus := StFailed, tsError := e\<rparr>
              | None \<Rightarrow> s\<lparr>tsStatus := StCompleted\<rparr>);
              s2 = (if tsStarted s1 = None then s1\<lparr>tsStarted := Some now\<rparr> else s1)
          in s2\<lparr>tsCompleted := Some now\<rparr>))"

definition finalizeStagesLocked :: "gotime \<Rightarrow> string option \<Rightarrow> scan_task \<Rightarrow> scan_task" where
  "finalizeStagesLocked now orchErr t = t\<lparr>tkStages := map (finalize_stage now orchErr) (tkStages t)\<rparr>"

text \<open>The event keys of the orchestrator.\<close>

definition stageEventStageID :: "string \<Rightarrow> string" where
  "stageEventStageID key =
    (if key = ''analyze'' then ''analyze''
     else if key = ''scans'' then ''sast''
     else if key \<in> {''ai'', ''verify'', ''missed''} then ''ai''
     else if key = ''review'' then ''review''
     else if key \<in> {''compare'', ''fusion'', ''S7''} then ''fusion''
     else if key = ''graph'' then ''graph''
     else if str_contains key ''report'' then ''report''
     else [])"

definition complete_one :: "gotime \<Rightarrow> string \<Rightarrow> task_stage \<Rightarrow> task_stage" where
  "complete_one now msg s =
    (if tsStatus s = StCompleted \<or> tsStatus s = StFailed then s
     else (let s1 = (if tsStarted s = None then s\<lparr>tsStarted := Some now\<rparr> else s);
              s2 = s1\<lparr>tsStatus := StCompleted, tsCompleted := Some now\<rparr>
          in if msg \<noteq> [] then s2\<lparr>tsMeta := AList.update ''message'' msg (tsMeta s2)\<rparr> else s2))"

fun complete_first :: "gotime \<Rightarrow> string \<Rightarrow> string \<Rightarrow> task_stage list \<Rightarrow> task_stage list" where
  "complete_first now k msg [] = []"
| "complete_first now k msg (s # ss) =
    (if tsId s \<noteq> k then s # complete_first now k msg ss else complete_one now msg s # ss)"

definition completeStage :: "gotime \<Rightarrow> string \<Rightarrow> string \<Rightarrow> string \<Rightarrow> service \<Rightarrow> service" where
  "completeStage now taskID stageID msg sv = (case map_of (svTasks sv) taskID of
     None \<Rightarrow> sv
   | Some t \<Rightarrow> put_task (t\<lparr>tkStages := complete_first now stageID msg (tkStages t)\<rparr>) sv)"

definition record_event :: "gotime \<Rightarrow> string \<Rightarrow> task_stage \<Rightarrow> task_stage" where
  "record_event now msg s =
    (let s1 = (if msg \<noteq> [] then
                 (let s0 = s\<lparr>tsMeta := AList.update ''message'' msg (tsMeta s)\<rparr>
                  in if prefix (''['' @ utf8 [233, 153, 141, 231, 186, 167] @
                      '']'') msg then s0\<lparr>tsMeta := AList.update ''degraded'' ''true'' (tsMeta s0)\<rparr> else s0)
               else s)
     in if tsStatus s1 = StPending then s1\<lparr>tsStatus := StRunning, tsStarted := Some now\<rparr> else s1)"

definition stageRecorder :: "gotime \<Rightarrow> string \<Rightarrow> string \<Rightarrow> string \<Rightarrow> service \<Rightarrow> service" where
  "stageRecorder now taskID eventKey msg sv =
    (if prefix ''done:'' eventKey then completeStage now taskID (trim_prefix ''done:'' eventKey) msg sv
     else if stageEventStageID eventKey = [] then sv
     else (case map_of (svTasks sv) taskID of
             None \<Rightarrow> sv
           | Some t \<Rightarrow> put_task (t\<lparr>tkStages :=
               findOrInsertStageLocked (stageEventStageID eventKey) (record_event now msg) (tkStages t)\<rparr>) sv))"

text \<open>Stages done and in total; the percentage is their rounded quotient times 100.\<close>

definition progressOf :: "scan_task \<Rightarrow> nat \<times> nat" where
  "progressOf t = (length (filter (\<lambda>s. tsStatus s = StCompleted \<or> tsStatus s = StSkipped) (tkStages t)), length (tkStages t))"

definition set_stage :: "gotime \<Rightarrow> stage_status \<Rightarrow> string \<Rightarrow> task_stage \<Rightarrow> task_stage" where
  "set_stage now st err s =
    (let s1 = s\<lparr>tsStatus := st, tsError := err\<rparr>;
         s2 = (if st \<in> {StRunning, StCompleted, StFailed, StSkipped} \<and> tsStarted s1 = None
               then s1\<lparr>tsStarted := Some now\<rparr> else s1)
     in if st \<in> {StCompleted, StFailed, StSkipped} then s2\<lparr>tsCompleted := Some now\<rparr> else s2)"

definition UpdateStageStatus ::
  "gotime \<Rightarrow> string \<Rightarrow> string \<Rightarrow> stage_status \<Rightarrow> string \<Rightarrow> service \<Rightarrow> (grpc_error + scan_task) \<times> service" where
  "UpdateStageStatus now taskId stageId st err sv =
    (if taskId = [] \<or> stageId = [] then (Inl (InvalidArgument, ''task_id and stage_id are required''), sv)
     else case map_of (svTasks sv) taskId of
       None \<Rightarrow> (Inl (no_task taskId), sv)
     | Some t \<Rightarrow>
         (let t1 = t\<lparr>tkStages := findOrInsertStageLocked stageId (set_stage now st err) (tkStages t), tkUpdatedAt := now\<rparr>
          in (Inr t1, put_task t1 sv)))"

section \<open>Stage reports\<close>

definition sortedKeys :: "(string \<times> string) list \<Rightarrow> string" where
  "sortedKeys m = join_with '';'' (map (\<lambda>k. k @ ''='' @ cfg m k) (sort (keys m)))"

definition stage_reported :: "gotime \<Rightarrow> stage_status \<Rightarrow> task_stage \<Rightarrow> task_stage" where
  "stage_reported now st s =
    (let s1 = s\<lparr>tsStatus := st\<rparr>;
         s2 = (if tsStarted s1 = None then s1\<lparr>tsStarted := Some now\<rparr> else s1)
     in s2\<lparr>tsCompleted := Some now\<rparr>)"

definition report_stage ::
  "gotime \<Rightarrow> string \<Rightarrow> string \<Rightarrow> string \<Rightarrow> string \<Rightarrow> (task_stage \<Rightarrow> task_stage) \<Rightarrow> service \<Rightarrow> (grpc_error + unit) \<times> service" where
  "report_stage now requestID fp taskId stageId f sv =
    (if requestID = [] then (Inl (InvalidArgument, ''RequestMetadata.request_id is required (R4)''), sv)
     else case map_of (svStageIdem sv) requestID of
       Some prev \<Rightarrow>
         (if prev = fp then Inr ()
          else Inl (AlreadyExists, ''request_id '' @ requestID @
              ('' already used with a different stage report (03 '' @ utf8 [194, 167] @ ''2)'')), sv)
     | None \<Rightarrow>
         (case map_of (svTasks sv) taskId of
            None \<Rightarrow> (Inl (no_task taskId), sv)
          | Some t \<Rightarrow>
              (Inr (), put_task (t\<lparr>tkStages := findOrInsertStageLocked stageId f (tkStages t), tkUpdatedAt := now\<rparr>)
                 (sv\<lparr>svStageIdem := AList.update requestID fp (svStageIdem sv)\<rparr>))))"

definition ReportStageComplete ::
  "gotime \<Rightarrow> string \<Rightarrow> string \<Rightarrow> string \<Rightarrow> (string \<times> string) list \<Rightarrow> service \<Rightarrow> (grpc_error + unit) \<times> service" where
  "ReportStageComplete now requestID taskId stageId refs =
    report_stage now requestID (taskId @ ''|'' @ stageId @ ''|'' @ sortedKeys refs) taskId stageId
      (\<lambda>s. let s1 = stage_reported now StCompleted s
           in s1\<lparr>tsMeta := fold (\<lambda>(k, v) m. AList.update k v m) refs (tsMeta s1)\<rparr>)"

definition ReportStageFailed ::
  "gotime \<Rightarrow> string \<Rightarrow> string \<Rightarrow> string \<Rightarrow> string \<Rightarrow> service \<Rightarrow> (grpc_error + unit) \<times> service" where
  "ReportStageFailed now requestID taskId stageId err =
    report_stage now requestID (taskId @ ''|'' @ stageId @ ''|'' @ err) taskId stageId
      (\<lambda>s. (stage_reported now StFailed s)\<lparr>tsError := err\<rparr>)"

section \<open>Status RPCs in one critical section\<close>

definition CompleteTask :: "gotime \<Rightarrow> string \<Rightarrow> service \<Rightarrow> (grpc_error + scan_task) \<times> service" where
  "CompleteTask now k sv = (case map_of (svTasks sv) k of
     None \<Rightarrow> (Inl (no_task k), sv)
   | Some t \<Rightarrow> (case transitionLocked now TS_COMPLETED ''complete'' t sv of
       Inl e \<Rightarrow> (Inl e, sv) | Inr (t1, sv1) \<Rightarrow> (Inr t1, sv1)))"

text \<open>The error message is written before the transition is validated, as in the code.\<close>

definition FailTask :: "int \<Rightarrow> gotime \<Rightarrow> string \<Rightarrow> string \<Rightarrow> bool \<Rightarrow> service \<Rightarrow> (grpc_error + scan_task) \<times> service" where
  "FailTask maxAutoRetries now k msg retryable sv = (case map_of (svTasks sv) k of
     None \<Rightarrow> (Inl (no_task k), sv)
   | Some t0 \<Rightarrow>
       (let t = t0\<lparr>tkError := msg\<rparr>; sv0 = put_task t sv
        in case transitionLocked now TS_FAILED ''fail'' t sv0 of
             Inl e \<Rightarrow> (Inl e, sv0)
           | Inr (t1, sv1) \<Rightarrow>
               (let sv2 = (if msg \<noteq> [] then log_task now k LogError ''orchestrator'' msg sv1 else sv1)
                in if retryable \<and> tkRetry t1 < maxAutoRetries
                   then (let t2 = t1\<lparr>tkRetry := int32 (tkRetry t1 + 1)\<rparr>; sv3 = put_task t2 sv2
                         in case transitionLocked now TS_QUEUED ''auto-retry'' t2 sv3 of
                              Inl e \<Rightarrow> (Inl e, sv3) | Inr (t3, sv4) \<Rightarrow> (Inr t3, sv4))
                   else if tkRetry t1 \<ge> maxAutoRetries
                   then (case transitionLocked now TS_DEAD ''retry-exhausted'' t1 sv2 of
                           Inl e \<Rightarrow> (Inl e, sv2) | Inr (t3, sv4) \<Rightarrow> (Inr t3, sv4))
                   else (Inr t1, sv2))))"

definition RetryScanTask :: "gotime \<Rightarrow> string \<Rightarrow> service \<Rightarrow> (grpc_error + scan_task) \<times> service" where
  "RetryScanTask now k sv = (case map_of (svTasks sv) k of
     None \<Rightarrow> (Inl (no_task k), sv)
   | Some t \<Rightarrow>
       if tkStatus t \<noteq> TS_DEAD
       then (Inl (FailedPrecondition, ''cannot retry task in state '' @ status_String (tkStatus t) @ '' (only DEAD)''), sv)
       else (let t1 = t\<lparr>tkStatus := TS_QUEUED, tkUpdatedAt := now, tkError := []\<rparr> in (Inr t1, put_task t1 sv)))"

definition validAgentID :: "string \<Rightarrow> bool" where
  "validAgentID a \<longleftrightarrow>
    a \<noteq> [] \<and> length a \<le> 63 \<and> CHR ''a'' \<le> hd a \<and> hd a \<le> CHR ''z'' \<and>
    list_all (\<lambda>c. (CHR ''a'' \<le> c \<and> c \<le> CHR ''z'') \<or> (CHR ''0'' \<le> c \<and> c \<le> CHR ''9'') \<or> c = CHR ''-'') a"

definition agentLabel :: "string \<Rightarrow> string" where
  "agentLabel a = (if a = [] then (utf8 [231, 188, 186, 231, 156, 129]) else a)"

definition agentSwitchPausedNote :: string where "agentSwitchPausedNote = (utf8 [239, 188, 136, 228,
    187, 187, 229, 138, 161, 229, 183, 178, 230, 154, 130, 229, 129, 156, 239, 188, 140, 231, 173, 137,
    229, 190, 133, 230, 142, 165, 231, 187, 173, 239, 188, 137])"

definition agentSwitchQueuedNote :: string where "agentSwitchQueuedNote = (utf8 [239, 188, 136, 230,
    142, 146, 233, 152, 159, 228, 184, 173, 239, 188, 140, 229, 144, 175, 229, 138, 168, 230, 151, 182,
    231, 148, 159, 230, 149, 136, 239, 188, 137])"

definition bad_agent :: "string \<Rightarrow> grpc_error" where
  "bad_agent a = (InvalidArgument, ''agent '' @ go_quote a @ ('' '' @ utf8 [228, 184, 141, 229, 144,
      136] @ '' DNS '' @ utf8 [233, 163, 142, 230, 160, 188, 239, 188, 136] @ ''descriptor '' @
      utf8 [230, 179, 168, 229, 134, 140, 232, 161, 168, 230, 160, 161, 233, 170, 140, 229, 156, 168] @
      '' runtime '' @ utf8 [232, 191, 144, 232, 161, 140, 230, 156, 159, 239, 188, 140, 229, 144, 140,
      229, 136, 155, 229, 187, 186, 233, 157, 162, 229, 143, 163, 229, 190, 132, 239, 188, 137]))"

text \<open>The switch of the agent and its log line.\<close>

definition switch_agent :: "gotime \<Rightarrow> string \<Rightarrow> string \<Rightarrow> scan_task \<Rightarrow> service \<Rightarrow> scan_task \<times> service" where
  "switch_agent now a note t sv =
    (let t1 = t\<lparr>tkAgent := a\<rparr>
     in (t1, log_task now (tkId t) LogInfo ''task'' ((utf8 [229, 136, 135, 230, 141, 162] @
         '' Agent'' @ utf8 [239, 188, 154]) @ agentLabel (tkAgent t) @ ('' '' @ utf8 [226, 134, 146] @
         '' '') @ a @ note) (put_task t1 sv)))"

text \<open>\<open>PauseTask\<close> after its call to the runtime; the first look-up is the second one's check.\<close>

definition PauseTask :: "gotime \<Rightarrow> string \<Rightarrow> string \<Rightarrow> service \<Rightarrow> (grpc_error + scan_task) \<times> service" where
  "PauseTask now k a sv = (case map_of (svTasks sv) k of
     None \<Rightarrow> (Inl (no_task k), sv)
   | Some t \<Rightarrow>
       if a \<noteq> [] \<and> \<not> validAgentID a then (Inl (bad_agent a), sv)
       else case transitionLocked now TS_PAUSED ''pause'' t sv of
              Inl e \<Rightarrow> (Inl e, sv)
            | Inr (t1, sv1) \<Rightarrow>
                (let (t2, sv2) = (if a \<noteq> [] then switch_agent now a agentSwitchPausedNote t1 sv1 else (t1, sv1));
                     t3 = t2\<lparr>tkUpdatedAt := now\<rparr>
                 in (Inr t3, put_task t3 sv2)))"

definition SetTaskAgent :: "gotime \<Rightarrow> string \<Rightarrow> string \<Rightarrow> service \<Rightarrow> (grpc_error + scan_task) \<times> service" where
  "SetTaskAgent now k a sv =
    (if k = [] \<or> a = [] then (Inl (InvalidArgument, (''task_id '' @ utf8 [228, 184, 142] @
        '' agent '' @ utf8 [229, 157, 135, 228, 184, 141, 229, 143, 175, 228, 184, 186, 231, 169,
        186])), sv)
     else if \<not> validAgentID a then (Inl (bad_agent a), sv)
     else case map_of (svTasks sv) k of
       None \<Rightarrow> (Inl (no_task k), sv)
     | Some t \<Rightarrow>
         if tkStatus t \<notin> {TS_PAUSED, TS_QUEUED}
         then (Inl (FailedPrecondition, ''cannot switch agent in state '' @ status_String (tkStatus t) @
                 (utf8 [239, 188, 136] @ ''RUNNING '' @ utf8 [232, 181, 176] @ '' pause?agent='' @
                     utf8 [239, 188, 155, 231, 187, 136, 230, 128, 129, 228, 184, 141, 229, 143, 175,
                     229, 136, 135, 230, 141, 162, 239, 188, 137])), sv)
         else if tkAgent t = a then (Inr t, sv)
         else (let (t1, sv1) = switch_agent now a (if tkStatus t = TS_QUEUED then agentSwitchQueuedNote else agentSwitchPausedNote) t sv
               in (Inr t1, sv1)))"

definition GetRunningTasks :: "service \<Rightarrow> scan_task list" where
  "GetRunningTasks sv = filter (\<lambda>t. tkStatus t = TS_RUNNING) (map snd (svTasks sv))"

text \<open>The reconciler's status change; the error of an unknown task is not a gRPC status.\<close>

definition UpdateTaskStatus :: "gotime \<Rightarrow> string \<Rightarrow> task_status \<Rightarrow> service \<Rightarrow> grpc_error option \<times> service" where
  "UpdateTaskStatus now k to sv = (case map_of (svTasks sv) k of
     None \<Rightarrow> (Some (Unknown, ''task '' @ k @ '' not found''), sv)
   | Some t \<Rightarrow> (case transitionLocked now to ''reconcile'' t sv of
       Inl e \<Rightarrow> (Some e, sv) | Inr (t1, sv1) \<Rightarrow> (None, sv1)))"

end
