(* ===== verification/TaskRun.thy ===== *)
theory TaskRun imports Main Prelude GoText TaskFsm TaskState begin

text \<open>
  Starting a task, its orchestration goroutine, cancelling and resuming
  (\<open>StartTask\<close>, \<open>runOrchestration\<close>, \<open>CancelScanTask\<close>, \<open>ResumeTask\<close>, \<open>awaitResume\<close> of
  \<open>task-service/internal/service/task_service.go\<close>), and the timeout scan of
  \<open>internal/reconciler/reconciler.go\<close>.

  The world is the service and its goroutines. A goroutine holds the lock from one blocking
  point to the next, and each such stretch is one step: between them, while \<open>Execute\<close> runs or a
  goroutine waits for a resume, every other operation may happen. What \<open>Execute\<close> returns is an
  argument of the step that collects it.
\<close>

section \<open>Goroutines\<close>

text \<open>What \<open>Execute\<close> returns: the summary, an error, or the sentinel of a frozen graph.\<close>

datatype orch_result = OrchOk jmap | OrchFailed string | OrchGraphPaused jmap

text \<open>
  Before an attempt, in \<open>Execute\<close>, on the way into \<open>awaitResume\<close>, waiting on a channel, woken
  again, returned.
\<close>

datatype orch_phase = OReady | OExecuting | OParking orch_result | OParked orch_result nat | OWoken orch_result | OExited

datatype prepare = PrepUpload string | PrepClone string string

record run_request =
  rrTask :: string
  rrRequest :: string
  rrAgent :: string
  rrPath :: string
  rrPrepare :: "prepare option"
  rrGraph :: "string option"
  rrIncremental :: bool

record orch =
  oReq :: run_request
  oAttempt :: nat
  oPhase :: orch_phase
  oCancelled :: bool

record task_world =
  wSv :: service
  wOrchs :: "orch list"
  wClosed :: "nat set"
  wNextChan :: nat

abbreviation on_sv :: "(service \<Rightarrow> 'r \<times> service) \<Rightarrow> task_world \<Rightarrow> 'r \<times> task_world" where
  "on_sv f w \<equiv> (let (r, sv) = f (wSv w) in (r, w\<lparr>wSv := sv\<rparr>))"

definition set_orch :: "nat \<Rightarrow> orch \<Rightarrow> task_world \<Rightarrow> task_world" where
  "set_orch i x w = w\<lparr>wOrchs := (wOrchs w)[i := x]\<rparr>"

definition set_phase :: "nat \<Rightarrow> orch_phase \<Rightarrow> task_world \<Rightarrow> task_world" where
  "set_phase i p w = set_orch i ((wOrchs w ! i)\<lparr>oPhase := p\<rparr>) w"

text \<open>The deferred clean-up of a goroutine.\<close>

definition orch_exit :: "nat \<Rightarrow> task_world \<Rightarrow> task_world" where
  "orch_exit i w =
    (let k = rrTask (oReq (wOrchs w ! i)); sv = wSv w;
         sv1 = (if map_of (svCancels sv) k = Some i then sv\<lparr>svCancels := AList.delete k (svCancels sv)\<rparr> else sv);
         sv2 = sv1\<lparr>svResumes := AList.delete k (svResumes sv1), svUsage := svUsage sv1 @ [k]\<rparr>
     in set_phase i OExited (w\<lparr>wSv := sv2\<rparr>))"

section \<open>Starting\<close>

text \<open>
  \<open>graphSpecFromTask\<close>: the registry's look-up of a pinned revision and the decoding of its
  specification (execution form and graph part) are arguments.
\<close>

definition graphSpecFromTask ::
  "(string \<Rightarrow> string option) \<Rightarrow> (string \<Rightarrow> (string \<times> string) option) \<Rightarrow> scan_task \<Rightarrow> string + string" where
  "graphSpecFromTask lookup decode t =
    (let revID = cfg (tkConfig t) ''pack_revision_id''
     in if revID = [] then Inl (''execution=graph '' @ utf8 [228, 189, 134] @ '' pack '' @ utf8 [228,
         191, 174, 232, 174, 162, 231, 188, 186, 229, 164, 177, 239, 188, 136] @
         ''pack_revision_id '' @ utf8 [231, 169, 186, 239, 188, 137])
        else case lookup revID of
          None \<Rightarrow> Inl (''pack '' @ utf8 [228, 191, 174, 232, 174, 162, 233, 135, 141, 232,
              175, 187] @ '': unknown revision'')
        | Some spec \<Rightarrow> (case decode spec of
            Some (execution, graph) \<Rightarrow>
              if execution \<noteq> ''graph'' then Inl (''pack '' @ utf8 [228, 191, 174, 232, 174, 162,
                  229, 134, 133, 229, 174, 185, 228, 184, 142] @ '' execution=graph '' @ utf8 [231,
                  159, 155, 231, 155, 190, 239, 188, 136, 230, 179, 168, 229, 134, 140, 232, 161, 168,
                  231, 138, 182, 230, 128, 129, 229, 188, 130, 229, 184, 184, 239, 188, 137]) else Inr graph
          | None \<Rightarrow> Inl (''pack '' @ utf8 [228, 191, 174, 232, 174, 162, 229, 134, 133, 229,
              174, 185, 228, 184, 142] @ '' execution=graph '' @ utf8 [231, 159, 155, 231, 155, 190,
              239, 188, 136, 230, 179, 168, 229, 134, 140, 232, 161, 168, 231, 138, 182, 230, 128, 129,
              229, 188, 130, 229, 184, 184, 239, 188, 137])))"

text \<open>\<open>storagePrepare\<close>: the source of the sources, or the message when no storage is configured.\<close>

definition storagePrepare :: "string \<Rightarrow> string \<Rightarrow> prepare option \<times> string" where
  "storagePrepare storageAddr uploadID =
    (if storageAddr = [] then (None, (''CODEAUDIT_STORAGE_ADDR '' @ utf8 [230, 156, 170, 233, 133, 141,
        231, 189, 174, 239, 188, 140, 230, 151, 160, 230, 179, 149, 228, 187, 142] @ '' storage '' @
        utf8 [230, 139, 137, 229, 143, 150, 228, 184, 138, 228, 188, 160, 228, 187, 182, 239, 188,
        136] @ ''ADR-200'' @ utf8 [239, 188, 137]))
     else (Some (PrepUpload uploadID), []))"

text \<open>An early failure: the message, FAILED, and the stages closed.\<close>

definition start_failed :: "gotime \<Rightarrow> string \<Rightarrow> scan_task \<Rightarrow> service \<Rightarrow> (grpc_error + 'r) \<times> service" where
  "start_failed now msg t sv =
    (let t1 = t\<lparr>tkError := msg\<rparr>;
         (t2, sv2) = try_transition now TS_FAILED ''start'' (t1, put_task t1 sv)
     in (Inl (FailedPrecondition, msg), put_task (finalizeStagesLocked now (Some msg) t2) sv2))"

datatype start_next = StartPending run_request bool

text \<open>The first critical section of \<open>StartTask\<close>: up to the project look-up.\<close>

definition start_begin ::
  "(scan_task \<Rightarrow> string + string) \<Rightarrow> string \<Rightarrow> gotime \<Rightarrow> string \<Rightarrow> service \<Rightarrow> (grpc_error + start_next) \<times> service" where
  "start_begin graphSpec storageAddr now k sv = (case map_of (svTasks sv) k of
     None \<Rightarrow> (Inl (no_task k), sv)
   | Some t0 \<Rightarrow> (case transitionLocked now TS_RUNNING ''start'' t0 sv of
       Inl e \<Rightarrow> (Inl e, sv)
     | Inr (t1, sv1) \<Rightarrow>
         (let t = resetStagesLocked (registerStagesLocked t1); sv2 = put_task t sv1;
              r = \<lparr>rrTask = k, rrRequest = ''orch-'' @ k, rrAgent = tkAgent t, rrPath = cfg (svPaths sv2) k,
                   rrPrepare = None, rrGraph = None, rrIncremental = False\<rparr>;
              g = (if cfg (tkConfig t) ''execution'' = ''graph'' then map_sum id Some (graphSpec t) else Inr None)
          in case g of
               Inl msg \<Rightarrow> start_failed now msg t sv2
             | Inr spec \<Rightarrow>
                 (let r1 = r\<lparr>rrGraph := spec\<rparr>; uploadID = cfg (tkConfig t) ''upload_file_id''
                  in if rrPath r1 = [] \<and> uploadID \<noteq> []
                     then (let (prep, msg) = storagePrepare storageAddr uploadID
                           in if msg \<noteq> [] then start_failed now msg t sv2
                              else (Inr (StartPending (r1\<lparr>rrPrepare := prep\<rparr>) False), sv2))
                     else (Inr (StartPending r1 (rrPath r1 = [] \<and> tkProject t \<noteq> [])), sv2)))))"

record project_lookup =
  plUpload :: string
  plUrl :: string
  plBranch :: string
  plError :: string

definition no_lookup :: project_lookup where
  "no_lookup = \<lparr>plUpload = [], plUrl = [], plBranch = [], plError = []\<rparr>"

definition project_upload :: "string \<Rightarrow> scan_task \<Rightarrow> service \<Rightarrow> scan_task \<times> service" where
  "project_upload uid t sv =
    (let k = tkId t;
         t1 = (if cfg (tkConfig t) ''upload_file_id'' = [] then t\<lparr>tkConfig := AList.update ''upload_file_id'' uid (tkConfig t)\<rparr> else t);
         c = (case map_of (svConfigs sv) k of Some c \<Rightarrow> c | None \<Rightarrow> []);
         c1 = (if cfg c ''upload_file_id'' = [] then AList.update ''upload_file_id'' uid c else c)
     in (t1, put_task t1 (sv\<lparr>svConfigs := AList.update k c1 (svConfigs sv)\<rparr>)))"

text \<open>
  The second critical section: with what the look-up gave (nothing when it was not needed), the
  override of the repository path, and the goroutine. A task that is no longer RUNNING is
  answered as it is.
\<close>

definition spawn :: "run_request \<Rightarrow> scan_task \<Rightarrow> task_world \<Rightarrow> (grpc_error + scan_task) \<times> task_world" where
  "spawn r t w =
    (let sv = wSv w; i = length (wOrchs w); inc = (cfg (tkConfig t) ''incremental'' = ''true'');
         sv1 = (if inc then sv\<lparr>svIncremental := rrTask r # svIncremental sv\<rparr> else sv)
     in (Inr t, w\<lparr>wSv := sv1\<lparr>svCancels := AList.update (rrTask r) i (svCancels sv1)\<rparr>,
         wOrchs := wOrchs w @ [\<lparr>oReq = r\<lparr>rrIncremental := inc\<rparr>, oAttempt = 0, oPhase = OReady, oCancelled = False\<rparr>]\<rparr>))"

text \<open>The message of a start with neither a path nor a source, with the error of the look-up.\<close>

definition no_source :: "string \<Rightarrow> string" where
  "no_source err =
    (''project_path '' @ utf8 [230, 156, 170, 233, 133, 141, 231, 189, 174, 239, 188, 154, 232, 175, 183,
        228, 184, 138, 228, 188, 160, 228, 187, 163, 231, 160, 129, 229, 142, 139, 231, 188, 169, 229,
        140, 133, 230, 136, 150, 228, 184, 186, 233, 161, 185, 231, 155, 174, 233, 133, 141, 231, 189,
        174] @ '' repo_url'' @ utf8 [239, 188, 136] @ ''ADR-148/ADR-163'' @ utf8 [239, 188, 137]) @
    (if err \<noteq> [] then utf8 [239, 188, 155] @ err else [])"

definition start_finish ::
  "string \<Rightarrow> string \<Rightarrow> gotime \<Rightarrow> run_request \<Rightarrow> bool \<Rightarrow> project_lookup \<Rightarrow> task_world \<Rightarrow> (grpc_error + scan_task) \<times> task_world" where
  "start_finish storageAddr repoPath now r need pl w = (case map_of (svTasks (wSv w)) (rrTask r) of
     None \<Rightarrow> (Inl (no_task (rrTask r)), w)
   | Some t \<Rightarrow>
       if tkStatus t \<noteq> TS_RUNNING then (Inr t, w)
       else
         (let (prep, msg) = (if need \<and> plUpload pl \<noteq> [] then storagePrepare storageAddr (plUpload pl) else (rrPrepare r, []))
          in if msg \<noteq> [] then on_sv (start_failed now msg t) w
             else
               (let (t1, sv1) = (if need \<and> plUpload pl \<noteq> [] then project_upload (plUpload pl) t (wSv w) else (t, wSv w));
                    prep1 = (if need \<and> prep = None \<and> plUrl pl \<noteq> [] then Some (PrepClone (plUrl pl) (plBranch pl)) else prep);
                    w1 = w\<lparr>wSv := sv1\<rparr>
                in if rrPath r = [] \<and> prep1 = None
                   then on_sv (start_failed now (no_source (plError pl)) t1) w1
                   else spawn (r\<lparr>rrPrepare := prep1, rrPath := (if repoPath \<noteq> [] then repoPath else rrPath r)\<rparr>) t1 w1)))"

section \<open>The loop of a goroutine\<close>

definition storeContextLocked ::
  "((string \<times> string) list \<Rightarrow> string) \<Rightarrow> (json \<Rightarrow> string) \<Rightarrow> jmap \<Rightarrow> scan_task \<Rightarrow> service \<Rightarrow> scan_task \<times> service" where
  "storeContextLocked marshal sprint summary t sv =
    (let k = tkId t;
         tc = \<lparr>tcTask = k, tcConfig = (case map_of (svConfigs sv) k of Some c \<Rightarrow> marshal c | None \<Rightarrow> ''{}''),
               tcCpg = jstr summary ''cpg_storage_path'', tcSast = only_strings (jarr summary ''sast_finding_ids''),
               tcAi = only_strings (jarr summary ''ai_finding_ids'')\<rparr>;
         c = fold (\<lambda>key c. case summary key of Some v \<Rightarrow> AList.update key (sprint v) c | None \<Rightarrow> c)
               [''graph_nodes_total'', ''graph_nodes_completed'', ''graph_nodes_failed'', ''graph_nodes_rejected'', ''graph_paused'']
               (tkConfig t);
         t1 = t\<lparr>tkConfig := c\<rparr>
     in (t1, put_task t1 (sv\<lparr>svContexts := AList.update k tc (svContexts sv)\<rparr>)))"

definition publish_task :: "string \<Rightarrow> scan_task \<Rightarrow> service \<Rightarrow> service" where
  "publish_task topic t sv = sv\<lparr>svEvents := svEvents sv @ [(topic, t)]\<rparr>"

text \<open>FAILED, QUEUED and RUNNING again: the first refusal is only logged, the others end the goroutine.\<close>

definition requeue :: "gotime \<Rightarrow> scan_task \<times> service \<Rightarrow> (scan_task \<times> service) + (scan_task \<times> service)" where
  "requeue now x =
    (case transitionLocked now TS_QUEUED ''auto-retry'' (fst x) (snd x) of
       Inl _ \<Rightarrow> Inl x
     | Inr y \<Rightarrow> (case transitionLocked now TS_RUNNING ''start'' (fst y) (snd y) of Inl _ \<Rightarrow> Inl y | Inr z \<Rightarrow> Inr z))"

definition err_text :: "orch_result \<Rightarrow> string" where
  "err_text r = (case r of OrchFailed e \<Rightarrow> e | _ \<Rightarrow> ''graph paused'')"

text \<open>After the waiting loop: the task is no longer PAUSED.\<close>

definition settle ::
  "((string \<times> string) list \<Rightarrow> string) \<Rightarrow> (json \<Rightarrow> string) \<Rightarrow> int \<Rightarrow> gotime \<Rightarrow> nat \<Rightarrow> orch_result \<Rightarrow> task_world \<Rightarrow> task_world" where
  "settle marshal sprint maxAutoRetries now i res w =
    (let x = wOrchs w ! i; sv = wSv w
     in case map_of (svTasks sv) (rrTask (oReq x)) of
          None \<Rightarrow> orch_exit i w
        | Some cur \<Rightarrow>
            if tkStatus cur = TS_RUNNING \<and> tkAgent cur \<noteq> rrAgent (oReq x) then
              (let w1 = set_orch i (x\<lparr>oReq := (oReq x)\<lparr>rrAgent := tkAgent cur\<rparr>\<rparr>) w
               in case requeue now (try_transition now TS_FAILED ''handoff-retry'' (cur, sv)) of
                    Inl (_, sv1) \<Rightarrow> orch_exit i (w1\<lparr>wSv := sv1\<rparr>)
                  | Inr (_, sv1) \<Rightarrow> set_phase i OReady (w1\<lparr>wSv := sv1\<rparr>))
            else if tkStatus cur \<noteq> TS_RUNNING then orch_exit i w
            else case res of
              OrchOk summary \<Rightarrow>
                (let (t1, sv1) = try_transition now TS_COMPLETED ''complete'' (cur, sv);
                     (t2, sv2) = storeContextLocked marshal sprint summary t1 sv1;
                     t3 = finalizeStagesLocked now None t2
                 in orch_exit i (w\<lparr>wSv := publish_task ''task.completed'' t3 (put_task t3 sv2)\<rparr>))
            | _ \<Rightarrow>
                (let e = err_text res; t0 = cur\<lparr>tkError := e\<rparr>;
                     (t1, sv1) = try_transition now TS_FAILED ''fail'' (t0, put_task t0 sv)
                 in if tkRetry cur < maxAutoRetries then
                      (let t2 = t1\<lparr>tkRetry := int32 (tkRetry t1 + 1)\<rparr>
                       in case requeue now (t2, put_task t2 sv1) of
                            Inl (_, sv3) \<Rightarrow> orch_exit i (w\<lparr>wSv := sv3\<rparr>)
                          | Inr (t3, sv3) \<Rightarrow>
                              set_phase i OReady (w\<lparr>wSv := put_task
                                (resetStagesLocked (registerStagesLocked (finalizeStagesLocked now (Some e) t3))) sv3\<rparr>))
                    else
                      (let (t2, sv2) = try_transition now TS_DEAD ''retry-exhausted'' (t1, sv1);
                           t3 = finalizeStagesLocked now (Some e) t2
                       in orch_exit i (w\<lparr>wSv := publish_task ''task.completed'' t3 (put_task t3 sv2)\<rparr>))))"

text \<open>The waiting loop's test: PAUSED leads into \<open>awaitResume\<close>.\<close>

definition settle_or_park ::
  "((string \<times> string) list \<Rightarrow> string) \<Rightarrow> (json \<Rightarrow> string) \<Rightarrow> int \<Rightarrow> gotime \<Rightarrow> nat \<Rightarrow> orch_result \<Rightarrow> task_world \<Rightarrow> task_world" where
  "settle_or_park marshal sprint maxAutoRetries now i res w =
    (case map_of (svTasks (wSv w)) (rrTask (oReq (wOrchs w ! i))) of
       Some cur \<Rightarrow> if tkStatus cur = TS_PAUSED then set_phase i (OParking res) w
         else settle marshal sprint maxAutoRetries now i res w
     | None \<Rightarrow> settle marshal sprint maxAutoRetries now i res w)"

definition collect_execute ::
  "((string \<times> string) list \<Rightarrow> string) \<Rightarrow> (json \<Rightarrow> string) \<Rightarrow> int \<Rightarrow> gotime \<Rightarrow> nat \<Rightarrow> orch_result \<Rightarrow> task_world \<Rightarrow> task_world" where
  "collect_execute marshal sprint maxAutoRetries now i res w =
    (case (res, map_of (svTasks (wSv w)) (rrTask (oReq (wOrchs w ! i)))) of
       (OrchGraphPaused summary, Some cur) \<Rightarrow>
         if tkStatus cur \<noteq> TS_RUNNING then orch_exit i w
         else (let (t1, sv1) = try_transition now TS_PAUSED ''graph-paused'' (cur, wSv w);
                   (_, sv2) = storeContextLocked marshal sprint summary t1 sv1
               in orch_exit i (w\<lparr>wSv := sv2\<rparr>))
     | _ \<Rightarrow> settle_or_park marshal sprint maxAutoRetries now i res w)"

definition await_resume :: "nat \<Rightarrow> orch_result \<Rightarrow> task_world \<Rightarrow> task_world" where
  "await_resume i res w =
    (let k = rrTask (oReq (wOrchs w ! i)); sv = wSv w
     in if map_option tkStatus (map_of (svTasks sv) k) \<noteq> Some TS_PAUSED then set_phase i (OWoken res) w
        else case map_of (svResumes sv) k of
          Some ch \<Rightarrow> set_phase i (OParked res ch) w
        | None \<Rightarrow> set_phase i (OParked res (wNextChan w))
            (w\<lparr>wSv := sv\<lparr>svResumes := AList.update k (wNextChan w) (svResumes sv)\<rparr>, wNextChan := Suc (wNextChan w)\<rparr>))"

text \<open>One step of goroutine \<open>i\<close>; \<open>None\<close> when it cannot move. \<open>cancel\<close> chooses the cancelled branch of a \<open>select\<close>.\<close>

definition orch_step ::
  "((string \<times> string) list \<Rightarrow> string) \<Rightarrow> (json \<Rightarrow> string) \<Rightarrow> int \<Rightarrow> gotime \<Rightarrow> nat \<Rightarrow> bool \<Rightarrow> orch_result \<Rightarrow> task_world \<Rightarrow> task_world option" where
  "orch_step marshal sprint maxAutoRetries now i cancel res w =
    (if i \<ge> length (wOrchs w) then None
     else let x = wOrchs w ! i
     in case oPhase x of
          OReady \<Rightarrow> if oCancelled x then Some (orch_exit i w)
            else Some (set_orch i (x\<lparr>oPhase := OExecuting, oAttempt := Suc (oAttempt x)\<rparr>) w)
        | OExecuting \<Rightarrow> Some (collect_execute marshal sprint maxAutoRetries now i res w)
        | OParking r \<Rightarrow> Some (await_resume i r w)
        | OParked r ch \<Rightarrow>
            if ch \<in> wClosed w \<and> \<not> cancel then Some (set_phase i (OWoken r) w)
            else if oCancelled x \<and> cancel then Some (orch_exit i w) else None
        | OWoken r \<Rightarrow> Some (settle_or_park marshal sprint maxAutoRetries now i r w)
        | OExited \<Rightarrow> None)"

section \<open>Cancelling and resuming\<close>

definition CancelScanTask :: "gotime \<Rightarrow> string \<Rightarrow> task_world \<Rightarrow> (grpc_error + scan_task) \<times> task_world" where
  "CancelScanTask now k w = (case map_of (svTasks (wSv w)) k of
     None \<Rightarrow> (Inl (no_task k), w)
   | Some t \<Rightarrow> (case transitionLocked now TS_CANCELLED ''cancel'' t (wSv w) of
       Inl e \<Rightarrow> (Inl e, w)
     | Inr (t1, sv1) \<Rightarrow> (case map_of (svCancels sv1) k of
         None \<Rightarrow> (Inr t1, w\<lparr>wSv := sv1\<rparr>)
       | Some i \<Rightarrow> (Inr t1, set_orch i ((wOrchs w ! i)\<lparr>oCancelled := True\<rparr>)
           (w\<lparr>wSv := sv1\<lparr>svCancels := AList.delete k (svCancels sv1)\<rparr>\<rparr>)))))"

text \<open>\<open>ResumeTask\<close> before its call to the runtime.\<close>

definition ResumeTask :: "gotime \<Rightarrow> string \<Rightarrow> task_world \<Rightarrow> (grpc_error + scan_task) \<times> task_world" where
  "ResumeTask now k w = (case map_of (svTasks (wSv w)) k of
     None \<Rightarrow> (Inl (no_task k), w)
   | Some t \<Rightarrow> (case transitionLocked now TS_RUNNING ''resume'' t (wSv w) of
       Inl e \<Rightarrow> (Inl e, w)
     | Inr (t1, sv1) \<Rightarrow> (case map_of (svResumes sv1) k of
         None \<Rightarrow> (Inr t1, w\<lparr>wSv := sv1\<rparr>)
       | Some ch \<Rightarrow> (Inr t1, w\<lparr>wSv := sv1\<lparr>svResumes := AList.delete k (svResumes sv1)\<rparr>, wClosed := insert ch (wClosed w)\<rparr>))))"

section \<open>The timeout scan\<close>

text \<open>\<open>activityLookup\<close>: not installed, or the last write to a task's interaction log.\<close>

definition last_activity :: "(string \<Rightarrow> gotime option) option \<Rightarrow> scan_task \<Rightarrow> gotime" where
  "last_activity probe t = (case probe of
     Some f \<Rightarrow> (case f (tkId t) of Some ts \<Rightarrow> if ts > tkUpdatedAt t then ts else tkUpdatedAt t | None \<Rightarrow> tkUpdatedAt t)
   | None \<Rightarrow> tkUpdatedAt t)"

definition timed_out :: "(string \<Rightarrow> gotime option) option \<Rightarrow> int \<Rightarrow> gotime \<Rightarrow> scan_task \<Rightarrow> bool" where
  "timed_out probe timeout now t \<longleftrightarrow> now - last_activity probe t > timeout"

text \<open>The scan over a snapshot of the running tasks: the tasks marked (and called back), in order.\<close>

fun reconcile_tasks ::
  "(string \<Rightarrow> gotime option) option \<Rightarrow> int \<Rightarrow> gotime \<Rightarrow> scan_task list \<Rightarrow> service \<Rightarrow> string list \<times> service" where
  "reconcile_tasks probe timeout now [] sv = ([], sv)"
| "reconcile_tasks probe timeout now (t # ts) sv =
    (if timed_out probe timeout now t
     then (case UpdateTaskStatus now (tkId t) TS_TIMEOUT sv of
             (Some _, sv1) \<Rightarrow> reconcile_tasks probe timeout now ts sv1
           | (None, sv1) \<Rightarrow> (let (ks, sv2) = reconcile_tasks probe timeout now ts sv1 in (tkId t # ks, sv2)))
     else reconcile_tasks probe timeout now ts sv)"

definition reconcile :: "(string \<Rightarrow> gotime option) option \<Rightarrow> int \<Rightarrow> gotime \<Rightarrow> service \<Rightarrow> string list \<times> service" where
  "reconcile probe timeout now sv = reconcile_tasks probe timeout now (GetRunningTasks sv) sv"

definition DefaultTaskTimeout :: int where "DefaultTaskTimeout = 30 * ns_minute"

end
