(* ===== verification/TaskRules.thy ===== *)
theory TaskRules imports Main Prelude GoText TaskFsm TaskState TaskRun begin

text \<open>
  What every operation of the task service keeps: the contract of an invariant of the service
  (\<open>task_invariant\<close>), its preservation by every operation and by every step of every goroutine,
  and two instances, the status history of the tasks and the execution log.
\<close>

section \<open>Calls\<close>

text \<open>
  The operations as values, one for each critical section. Between two of them any other may run:
  a sequence of calls is an interleaving of the service's clients, goroutines and timers.
\<close>

record task_env =
  teGraph :: "scan_task \<Rightarrow> string + string"
  teStorage :: string
  teRepo :: string
  teRetries :: int
  teMarshal :: "(string \<times> string) list \<Rightarrow> string"
  teSprint :: "json \<Rightarrow> string"

datatype task_call =
    CallLog string string log_level string string
  | CallStage string string stage_status string
  | CallStageDone string string string "(string \<times> string) list"
  | CallStageFailed string string string string
  | CallRecord string string string
  | CallComplete string
  | CallFail string string bool
  | CallRetry string
  | CallPause string string
  | CallSetAgent string string
  | CallStatus string task_status
  | CallReconcile "(string \<Rightarrow> gotime option) option" int
  | CallStartBegin string
  | CallStartFinish run_request bool project_lookup
  | CallCancel string
  | CallResume string
  | CallOrch nat bool orch_result

fun do_call :: "task_env \<Rightarrow> gotime \<Rightarrow> task_call \<Rightarrow> task_world \<Rightarrow> task_world" where
  "do_call e now (CallLog r k lv src msg) w = snd (on_sv (AppendTaskLog now r k lv src msg) w)"
| "do_call e now (CallStage k s st err) w = snd (on_sv (UpdateStageStatus now k s st err) w)"
| "do_call e now (CallStageDone r k s refs) w = snd (on_sv (ReportStageComplete now r k s refs) w)"
| "do_call e now (CallStageFailed r k s err) w = snd (on_sv (ReportStageFailed now r k s err) w)"
| "do_call e now (CallRecord k ev msg) w = w\<lparr>wSv := stageRecorder now k ev msg (wSv w)\<rparr>"
| "do_call e now (CallComplete k) w = snd (on_sv (CompleteTask now k) w)"
| "do_call e now (CallFail k msg retryable) w = snd (on_sv (FailTask (teRetries e) now k msg retryable) w)"
| "do_call e now (CallRetry k) w = snd (on_sv (RetryScanTask now k) w)"
| "do_call e now (CallPause k a) w = snd (on_sv (PauseTask now k a) w)"
| "do_call e now (CallSetAgent k a) w = snd (on_sv (SetTaskAgent now k a) w)"
| "do_call e now (CallStatus k st) w = snd (on_sv (UpdateTaskStatus now k st) w)"
| "do_call e now (CallReconcile probe timeout) w = snd (on_sv (reconcile probe timeout now) w)"
| "do_call e now (CallStartBegin k) w = snd (on_sv (start_begin (teGraph e) (teStorage e) now k) w)"
| "do_call e now (CallStartFinish r need pl) w = snd (start_finish (teStorage e) (teRepo e) now r need pl w)"
| "do_call e now (CallCancel k) w = snd (CancelScanTask now k w)"
| "do_call e now (CallResume k) w = snd (ResumeTask now k w)"
| "do_call e now (CallOrch i cancel res) w =
    (case orch_step (teMarshal e) (teSprint e) (teRetries e) now i cancel res w of Some w1 \<Rightarrow> w1 | None \<Rightarrow> w)"

definition run_calls :: "task_env \<Rightarrow> (gotime \<times> task_call) list \<Rightarrow> task_world \<Rightarrow> task_world" where
  "run_calls e cs w = fold (\<lambda>(now, c). do_call e now c) cs w"

section \<open>The contract\<close>

text \<open>A status change an operation may make: none, an edge of the table, or the human retry.\<close>

definition status_move :: "task_status \<Rightarrow> task_status \<Rightarrow> bool" where
  "status_move a b \<longleftrightarrow> a = b \<or> task_step a b \<or> (a = TS_DEAD \<and> b = TS_QUEUED)"

lemma status_move_refl [simp]: "status_move a a"
  by (simp add: status_move_def)

text \<open>A task value that a body holds agrees with the table on its status.\<close>

definition held :: "scan_task \<Rightarrow> service \<Rightarrow> bool" where
  "held t sv \<longleftrightarrow> map_option tkStatus (map_of (svTasks sv) (tkId t)) = Some (tkStatus t)"

definition same_base :: "service \<Rightarrow> service \<Rightarrow> bool" where
  "same_base a b \<longleftrightarrow> svTasks b = svTasks a \<and> svLogs b = svLogs a \<and> svLogSeq b = svLogSeq a"

lemma put_task_fields [frame_simps]:
  "map_of (svTasks (put_task t sv)) = (map_of (svTasks sv))(tkId t \<mapsto> t)" "svLogs (put_task t sv) = svLogs sv"
  "svLogSeq (put_task t sv) = svLogSeq sv" "svCancels (put_task t sv) = svCancels sv"
  "svResumes (put_task t sv) = svResumes sv"
  by (simp_all add: put_task_def store_simps)

lemma log_task_fields [frame_simps]:
  "svTasks (log_task now k lv src msg sv) = svTasks sv" "svCancels (log_task now k lv src msg sv) = svCancels sv"
  "svResumes (log_task now k lv src msg sv) = svResumes sv"
  by (simp_all add: appendLogLocked_def Let_def)

lemma board_same [simp]:
  "tkId (resetStagesLocked t) = tkId t" "tkStatus (resetStagesLocked t) = tkStatus t"
  "tkId (registerStagesLocked t) = tkId t" "tkStatus (registerStagesLocked t) = tkStatus t"
  "tkId (finalizeStagesLocked now err t) = tkId t" "tkStatus (finalizeStagesLocked now err t) = tkStatus t"
  by (simp_all add: resetStagesLocked_def registerStagesLocked_def finalizeStagesLocked_def)

lemma set_orch_sv [simp]: "wSv (set_orch i x w) = wSv w" "wSv (set_phase i ph w) = wSv w"
  by (simp_all add: set_orch_def set_phase_def)

lemma orch_exit_base [simp]: "same_base (wSv w) (wSv (orch_exit i w))"
  by (simp add: orch_exit_def same_base_def Let_def)

locale task_invariant =
  fixes I :: "service \<Rightarrow> bool"
  assumes keyed: "I sv \<Longrightarrow> map_of (svTasks sv) k = Some t \<Longrightarrow> tkId t = k"
    and put: "I sv \<Longrightarrow> map_of (svTasks sv) (tkId t) = Some t0 \<Longrightarrow> status_move (tkStatus t0) (tkStatus t) \<Longrightarrow> I (put_task t sv)"
    and log: "I sv \<Longrightarrow> I (log_task now k lv src msg sv)"
    and base: "I sv \<Longrightarrow> same_base sv sv1 \<Longrightarrow> I sv1"
begin

definition safe :: "scan_task \<times> service \<Rightarrow> bool" where
  "safe x \<longleftrightarrow> I (snd x) \<and> held (fst x) (snd x)"

lemma safe_I: "safe (t, sv) \<Longrightarrow> I sv"
  by (simp add: safe_def)

lemma safe_lookup: "I sv \<Longrightarrow> map_of (svTasks sv) k = Some t \<Longrightarrow> safe (t, sv)"
  using keyed[of sv k t] by (simp add: safe_def held_def)

lemma safe_local: "safe (t, sv) \<Longrightarrow> tkId u = tkId t \<Longrightarrow> tkStatus u = tkStatus t \<Longrightarrow> safe (u, sv)"
  by (simp add: safe_def held_def)

lemma safe_move:
  assumes "safe (t, sv)" "tkId u = tkId t" "status_move (tkStatus t) (tkStatus u)"
  shows "safe (u, put_task u sv)"
proof -
  from assms(1) obtain t0 where "map_of (svTasks sv) (tkId u) = Some t0" "tkStatus t0 = tkStatus t"
    using assms(2) by (auto simp: safe_def held_def)
  then show ?thesis using put[of sv u t0] assms by (auto simp: safe_def held_def frame_simps)
qed

lemma safe_put: "safe (t, sv) \<Longrightarrow> tkId u = tkId t \<Longrightarrow> tkStatus u = tkStatus t \<Longrightarrow> safe (u, put_task u sv)"
  by (rule safe_move[of t]) simp_all

lemma safe_log: "safe (t, sv) \<Longrightarrow> safe (t, log_task now k lv src msg sv)"
  using log by (simp add: safe_def held_def frame_simps)

lemma safe_base: "safe (t, sv) \<Longrightarrow> same_base sv sv1 \<Longrightarrow> safe (t, sv1)"
  using base[of sv sv1] by (auto simp: safe_def held_def same_base_def)

lemma safe_transition:
  assumes "safe (t, sv)" "transitionLocked now to rpc t sv = Inr y"
  shows "safe y"
proof -
  from assms(2) have step: "task_step (tkStatus t) to"
    by (auto simp: transitionLocked_def task_step_simps split: option.splits)
  let ?t = "t\<lparr>tkStatus := to, tkUpdatedAt := now\<rparr>"
  have put: "safe (?t, put_task ?t sv)"
    using step by (intro safe_move[OF assms(1)]) (simp_all add: status_move_def)
  show ?thesis using assms(2)
    by (auto simp: transitionLocked_def Let_def same_base_def
        intro: safe_log[OF put] safe_base[OF safe_log[OF put]] split: option.splits if_splits)
qed

lemma safe_try: "safe x \<Longrightarrow> safe (try_transition now to rpc x)"
  using safe_transition[of "fst x" "snd x"] by (auto simp: try_transition_def split: sum.split)

lemma safe_requeue:
  assumes "safe x"
  shows "case requeue now x of Inl y \<Rightarrow> safe y | Inr y \<Rightarrow> safe y"
proof (cases "transitionLocked now TS_QUEUED ''auto-retry'' (fst x) (snd x)")
  case (Inr y)
  have y: "safe y" using safe_transition[OF _ Inr] assms by simp
  then show ?thesis using safe_transition[of "fst y" "snd y" now TS_RUNNING "''start''"] Inr
    by (auto simp: requeue_def split: sum.split)
qed (use assms in \<open>simp add: requeue_def\<close>)

lemmas safe_intros = safe_lookup safe_log safe_try safe_base

section \<open>Operations on one service\<close>

lemma same_base_refl [simp]: "same_base sv sv"
  by (simp add: same_base_def)

lemma keep_put: "I sv \<Longrightarrow> map_of (svTasks sv) k = Some t \<Longrightarrow> tkId u = tkId t \<Longrightarrow> tkStatus u = tkStatus t \<Longrightarrow> I (put_task u sv)"
  using safe_put[OF safe_lookup] safe_I by blast

lemma keep_AppendTaskLog:
  assumes "I sv"
  shows "I (snd (AppendTaskLog now r k lv src msg sv))"
proof -
  obtain x s1 where a: "appendLogLocked now k lv src msg sv = (x, s1)" by fastforce
  have "I s1" using log[OF assms, of now k lv src msg] a by simp
  then have "I (s1\<lparr>svLogIdem := m\<rparr>)" for m by (rule base) (simp add: same_base_def)
  then show ?thesis using a assms by (simp add: AppendTaskLog_def split: option.split)
qed

lemma keep_UpdateStageStatus: "I sv \<Longrightarrow> I (snd (UpdateStageStatus now k s st err sv))"
  by (simp add: UpdateStageStatus_def Let_def keep_put split: option.split)

lemma keep_report_stage:
  assumes "I sv"
  shows "I (snd (report_stage now r fp k s f sv))"
proof -
  have "I (sv\<lparr>svStageIdem := m\<rparr>)" for m using assms by (rule base) (simp add: same_base_def)
  then have "I (put_task u (sv\<lparr>svStageIdem := m\<rparr>))"
    if "map_of (svTasks sv) k = Some t" "tkId u = tkId t" "tkStatus u = tkStatus t" for t u m
    using that by (intro keep_put[of _ k t]) simp_all
  then show ?thesis using assms by (simp add: report_stage_def split: option.split)
qed

lemma keep_stageRecorder: "I sv \<Longrightarrow> I (stageRecorder now k ev msg sv)"
  by (simp add: stageRecorder_def completeStage_def keep_put split: option.split)

lemma keep_transition:
  assumes "I sv" "map_of (svTasks sv) k = Some t" "transitionLocked now to rpc t sv = Inr (t1, sv1)"
  shows "safe (t1, sv1)" "I sv1"
  using safe_transition[OF safe_lookup[OF assms(1,2)] assms(3)] by (auto dest: safe_I)

lemma keep_CompleteTask: "I sv \<Longrightarrow> I (snd (CompleteTask now k sv))"
  by (auto simp: CompleteTask_def dest: keep_transition(2) split: option.split sum.split)

lemma keep_UpdateTaskStatus: "I sv \<Longrightarrow> I (snd (UpdateTaskStatus now k to sv))"
  by (auto simp: UpdateTaskStatus_def dest: keep_transition(2) split: option.split sum.split)

lemma keep_RetryScanTask:
  assumes "I sv"
  shows "I (snd (RetryScanTask now k sv))"
proof -
  have "I (put_task u sv)" if "map_of (svTasks sv) k = Some t" "tkStatus t = TS_DEAD" "tkId u = tkId t" "tkStatus u = TS_QUEUED" for t u
    using put[of sv u t] that keyed[OF assms that(1)] assms by (simp add: status_move_def)
  then show ?thesis using assms by (auto simp: RetryScanTask_def Let_def split: option.split)
qed

lemma safe_switch: "safe (t, sv) \<Longrightarrow> safe (switch_agent now a note t sv)"
  by (auto simp: switch_agent_def Let_def intro!: safe_log safe_put)

lemma keep_PauseTask:
  assumes "I sv"
  shows "I (snd (PauseTask now k a sv))"
proof -
  have fin: "I (put_task (t\<lparr>tkUpdatedAt := now\<rparr>) s)" if "safe (t, s)" for t s
    using safe_I[OF safe_put[OF that, of "t\<lparr>tkUpdatedAt := now\<rparr>"]] by simp
  have sw: "I (put_task (u\<lparr>tkUpdatedAt := now\<rparr>) s)" if "safe (t, s0)" "switch_agent now a nt t s0 = (u, s)" for t u s s0 nt
    using fin[of u s] safe_switch[OF that(1), of now a nt] that(2) by simp
  show ?thesis using assms
    by (auto simp: PauseTask_def Let_def split: option.split sum.split prod.split intro: fin sw dest: keep_transition(1))
qed

lemma keep_SetTaskAgent:
  assumes "I sv"
  shows "I (snd (SetTaskAgent now k a sv))"
proof -
  have sw: "I s" if "map_of (svTasks sv) k = Some t" "switch_agent now a nt t sv = (u, s)" for t u s nt
    using safe_switch[OF safe_lookup[OF assms that(1)], of now a nt] that(2) by (simp add: safe_def)
  show ?thesis using assms by (auto simp: SetTaskAgent_def split: option.split prod.split intro: sw)
qed

lemma safe_answer:
  assumes "safe (t, s)"
  shows "I (snd (case transitionLocked now to rpc t s of Inl e \<Rightarrow> (Inl e, s) | Inr (u, s1) \<Rightarrow> (Inr u, s1)))"
proof (cases "transitionLocked now to rpc t s")
  case (Inr y)
  show ?thesis using safe_transition[OF assms Inr] Inr by (cases y) (simp add: safe_def)
qed (use assms in \<open>simp add: safe_def\<close>)

lemma keep_FailTask:
  assumes "I sv"
  shows "I (snd (FailTask n now k msg retryable sv))"
proof (cases "map_of (svTasks sv) k")
  case (Some t0)
  let ?t = "t0\<lparr>tkError := msg\<rparr>"
  let ?s = "put_task ?t sv"
  have s0: "safe (?t, ?s)" using safe_put[OF safe_lookup[OF assms Some]] by simp
  show ?thesis
  proof (cases "transitionLocked now TS_FAILED ''fail'' ?t ?s")
    case (Inr y)
    obtain t1 s1 where y: "y = (t1, s1)" by fastforce
    let ?u = "t1\<lparr>tkRetry := int32 (tkRetry t1 + 1)\<rparr>"
    let ?l = "log_task now k LogError ''orchestrator'' msg s1"
    have s1: "safe (t1, s1)" using safe_transition[OF s0 Inr] y by simp
    then have l: "safe (t1, ?l)" by (rule safe_log)
    have u: "safe (?u, put_task ?u s1)" "safe (?u, put_task ?u ?l)" using safe_put[OF s1, of ?u] safe_put[OF l, of ?u] by simp_all
    show ?thesis using s1 l
      by (simp add: FailTask_def Some Inr y Let_def safe_answer[OF u(1)] safe_answer[OF u(2)] safe_answer[OF s1] safe_answer[OF l] safe_I)
  qed (use Some s0 in \<open>auto simp: FailTask_def dest: safe_I\<close>)
qed (use assms in \<open>simp add: FailTask_def\<close>)

lemma safe_finalize: "safe (t, s) \<Longrightarrow> I (put_task (finalizeStagesLocked now err t) s)"
  using safe_put[of t s "finalizeStagesLocked now err t"] by (simp add: safe_def)

lemma keep_start_failed:
  assumes "safe (t, sv)"
  shows "I (snd (start_failed now msg t sv))"
proof -
  have "safe (t\<lparr>tkError := msg\<rparr>, put_task (t\<lparr>tkError := msg\<rparr>) sv)" using safe_put[OF assms, of "t\<lparr>tkError := msg\<rparr>"] by simp
  from safe_try[OF this, of now TS_FAILED "''start''"] show ?thesis
    by (auto simp: start_failed_def Let_def split: prod.split dest: safe_finalize)
qed

lemma keep_start_begin:
  assumes "I sv"
  shows "I (snd (start_begin g addr now k sv))"
proof -
  have board: "safe (resetStagesLocked (registerStagesLocked t1), put_task (resetStagesLocked (registerStagesLocked t1)) s)"
    if "map_of (svTasks sv) k = Some t" "transitionLocked now TS_RUNNING ''start'' t sv = Inr (t1, s)" for t t1 s
    using that by (intro safe_put[OF keep_transition(1)[OF assms that(1,2)]]) simp_all
  have fail: "I (snd (start_failed now msg (resetStagesLocked (registerStagesLocked t1)) (put_task (resetStagesLocked (registerStagesLocked t1)) s)))"
    "I (put_task (resetStagesLocked (registerStagesLocked t1)) s)"
    if "map_of (svTasks sv) k = Some t" "transitionLocked now TS_RUNNING ''start'' t sv = Inr (t1, s)" for t t1 s msg
    using board[OF that] by (auto intro: keep_start_failed dest: safe_I)
  show ?thesis using assms
    by (auto simp: start_begin_def Let_def fail split: option.split sum.split prod.split)
qed

section \<open>Operations with goroutines\<close>

lemma keep_exit: "I (wSv w) \<Longrightarrow> I (wSv (orch_exit i w))"
  by (rule base[OF _ orch_exit_base])

lemma keep_exit_with: "I sv \<Longrightarrow> I (wSv (orch_exit i (w\<lparr>wSv := sv\<rparr>)))"
  by (rule keep_exit) simp

lemma safe_project_upload:
  assumes "safe (t, sv)"
  shows "safe (project_upload uid t sv)"
proof -
  have "safe (u, put_task u (sv\<lparr>svConfigs := c\<rparr>))" if "tkId u = tkId t" "tkStatus u = tkStatus t" for u c
    using that by (intro safe_put[OF safe_base[OF assms]]) (simp_all add: same_base_def)
  then show ?thesis by (simp add: project_upload_def Let_def)
qed

lemma keep_spawn: "I (wSv w) \<Longrightarrow> I (wSv (snd (spawn r t w)))"
  by (erule base) (simp add: spawn_def same_base_def Let_def)

lemma keep_start_finish:
  assumes "I (wSv w)"
  shows "I (wSv (snd (start_finish addr path now r need pl w)))"
proof (cases "map_of (svTasks (wSv w)) (rrTask r)")
  case (Some t)
  let ?x = "if need \<and> plUpload pl \<noteq> [] then project_upload (plUpload pl) t (wSv w) else (t, wSv w)"
  have s: "safe (t, wSv w)" by (rule safe_lookup[OF assms Some])
  then have x: "safe ?x" using safe_project_upload by simp
  have fail: "I (wSv (snd (case start_failed now msg u v of (a, s) \<Rightarrow> (a, w\<lparr>wSv := s\<rparr>))))" if "safe (u, v)" for msg u v
    using keep_start_failed[OF that] by (simp add: case_prod_beta)
  have go: "I (wSv (snd (spawn q u (w\<lparr>wSv := v\<rparr>))))" if "safe (u, v)" for q u v
    using that by (intro keep_spawn) (simp add: safe_def)
  obtain u v where uv: "?x = (u, v)" by fastforce
  obtain prep msg where p: "(if need \<and> plUpload pl \<noteq> [] then storagePrepare addr (plUpload pl) else (rrPrepare r, [])) = (prep, msg)"
    by fastforce
  have "safe (u, v)" using x uv by simp
  then show ?thesis using assms
    unfolding start_finish_def Some option.case p uv Let_def prod.case by (simp add: fail s go)
qed (use assms in \<open>simp add: start_finish_def\<close>)

lemma keep_CancelScanTask:
  assumes "I (wSv w)"
  shows "I (wSv (snd (CancelScanTask now k w)))"
proof -
  have "I (s\<lparr>svCancels := c\<rparr>)" if "I s" for s c using that by (rule base) (simp add: same_base_def)
  then show ?thesis using assms
    by (auto simp: CancelScanTask_def dest: keep_transition(2)[OF assms] split: option.split sum.split)
qed

lemma keep_ResumeTask:
  assumes "I (wSv w)"
  shows "I (wSv (snd (ResumeTask now k w)))"
proof -
  have "I (s\<lparr>svResumes := c\<rparr>)" if "I s" for s c using that by (rule base) (simp add: same_base_def)
  then show ?thesis using assms
    by (auto simp: ResumeTask_def dest: keep_transition(2)[OF assms] split: option.split sum.split)
qed

lemma keep_reconcile: "I sv \<Longrightarrow> I (snd (reconcile_tasks probe timeout now ts sv))"
proof (induction ts arbitrary: sv)
  case (Cons t ts)
  show ?case using Cons.IH Cons.prems keep_UpdateTaskStatus[OF Cons.prems, of now "tkId t" TS_TIMEOUT]
    by (auto split: prod.split option.split) (metis snd_conv)+
qed simp

lemma safe_storeContext: "safe (t, sv) \<Longrightarrow> safe (storeContextLocked m sp summary t sv)"
proof -
  assume s: "safe (t, sv)"
  have "safe (u, put_task u (sv\<lparr>svContexts := c\<rparr>))" if "tkId u = tkId t" "tkStatus u = tkStatus t" for u c
    using that by (intro safe_put[OF safe_base[OF s]]) (simp_all add: same_base_def)
  then show ?thesis by (simp add: storeContextLocked_def Let_def)
qed

lemma safe_requeue_into:
  assumes "safe x"
  shows "requeue now x = Inl y \<Longrightarrow> safe y" "requeue now x = Inr y \<Longrightarrow> safe y"
  using safe_requeue[OF assms, of now] by auto

lemma keep_publish: "I sv \<Longrightarrow> I (publish_task topic t sv)"
  by (erule base) (simp add: publish_task_def same_base_def)

lemma keep_closing:
  assumes "safe (t, sv)"
  shows "I (wSv (orch_exit i (w\<lparr>wSv := publish_task topic u (put_task (finalizeStagesLocked now err t) sv)\<rparr>)))"
  using assms by (intro keep_exit_with keep_publish safe_finalize)

lemma keep_settle:
  assumes "I (wSv w)"
  shows "I (wSv (settle m sp n now i res w))"
proof (cases "map_of (svTasks (wSv w)) (rrTask (oReq (wOrchs w ! i)))")
  case (Some cur)
  let ?r = "oReq (wOrchs w ! i)" and ?sv = "wSv w"
  have cur: "safe (cur, ?sv)" by (rule safe_lookup[OF assms Some])
  consider (handoff) "tkStatus cur = TS_RUNNING" "tkAgent cur \<noteq> rrAgent ?r" | (away) "tkStatus cur \<noteq> TS_RUNNING"
    | (ok) summary where "tkStatus cur = TS_RUNNING" "tkAgent cur = rrAgent ?r" "res = OrchOk summary"
    | (failed) "tkStatus cur = TS_RUNNING" "tkAgent cur = rrAgent ?r" "\<forall>s. res \<noteq> OrchOk s"
    by (cases res) auto
  then show ?thesis
  proof cases
    case handoff
    let ?q = "requeue now (try_transition now TS_FAILED ''handoff-retry'' (cur, ?sv))"
    have "I s" if "?q = Inl (u, s)" for u s using safe_requeue_into(1)[OF safe_try[OF cur] that] by (rule safe_I)
    moreover have "I s" if "?q = Inr (u, s)" for u s using safe_requeue_into(2)[OF safe_try[OF cur] that] by (rule safe_I)
    ultimately show ?thesis using handoff Some
      by (auto simp: settle_def Let_def intro: keep_exit_with split: sum.split prod.split)
  next
    case away
    then show ?thesis using Some keep_exit[OF assms] by (simp add: settle_def Let_def)
  next
    case ok
    obtain t1 s1 where y: "try_transition now TS_COMPLETED ''complete'' (cur, ?sv) = (t1, s1)" by fastforce
    obtain t2 s2 where z: "storeContextLocked m sp summary t1 s1 = (t2, s2)" by fastforce
    have "safe (t2, s2)" using safe_storeContext[of t1 s1] safe_try[OF cur] y z by metis
    then show ?thesis using ok Some y z by (simp add: settle_def Let_def keep_closing)
  next
    case failed
    let ?e = "err_text res"
    let ?t = "cur\<lparr>tkError := ?e\<rparr>"
    obtain t1 s1 where y: "try_transition now TS_FAILED ''fail'' (?t, put_task ?t ?sv) = (t1, s1)" by fastforce
    let ?u = "t1\<lparr>tkRetry := int32 (tkRetry t1 + 1)\<rparr>"
    have t: "safe (?t, put_task ?t ?sv)" using safe_put[OF cur, of ?t] by simp
    have s1: "safe (t1, s1)" using safe_try[OF t] y by metis
    have u: "safe (?u, put_task ?u s1)" using safe_put[OF s1, of ?u] by simp
    obtain t2 s2 where d: "try_transition now TS_DEAD ''retry-exhausted'' (t1, s1) = (t2, s2)" by fastforce
    have dead: "safe (t2, s2)" using safe_try[OF s1] d by metis
    let ?q = "requeue now (?u, put_task ?u s1)"
    have "I s" if "?q = Inl (v, s)" for v s using safe_requeue_into(1)[OF u that] by (rule safe_I)
    moreover have "I (put_task (resetStagesLocked (registerStagesLocked (finalizeStagesLocked now (Some ?e) v))) s)"
      if "?q = Inr (v, s)" for v s
      using safe_put[OF safe_requeue_into(2)[OF u that], of "resetStagesLocked (registerStagesLocked (finalizeStagesLocked now (Some ?e) v))"]
      by (simp add: safe_def)
    ultimately have q: "I (wSv (case ?q of Inl (_, s) \<Rightarrow> orch_exit i (w\<lparr>wSv := s\<rparr>)
      | Inr (v, s) \<Rightarrow> set_phase i OReady (w\<lparr>wSv := put_task
          (resetStagesLocked (registerStagesLocked (finalizeStagesLocked now (Some ?e) v))) s\<rparr>)))"
      by (auto intro: keep_exit_with split: sum.split)
    have res: "(case res of OrchOk s \<Rightarrow> A s | OrchFailed _ \<Rightarrow> B | OrchGraphPaused _ \<Rightarrow> B) = B" for A and B :: task_world
      using failed(3) by (cases res) auto
    show ?thesis using failed(1,2) Some q keep_closing[OF dead]
      by (simp add: settle_def Let_def res y d)
  qed
qed (use keep_exit[OF assms] in \<open>simp add: settle_def Let_def\<close>)

lemma keep_settle_or_park: "I (wSv w) \<Longrightarrow> I (wSv (settle_or_park m sp n now i res w))"
  by (simp add: settle_or_park_def keep_settle split: option.split)

lemma keep_collect_execute:
  assumes "I (wSv w)"
  shows "I (wSv (collect_execute m sp n now i res w))"
proof (cases res)
  case (OrchGraphPaused summary)
  show ?thesis
  proof (cases "map_of (svTasks (wSv w)) (rrTask (oReq (wOrchs w ! i)))")
    case (Some cur)
    obtain t1 s1 where y: "try_transition now TS_PAUSED ''graph-paused'' (cur, wSv w) = (t1, s1)" by fastforce
    obtain t2 s2 where z: "storeContextLocked m sp summary t1 s1 = (t2, s2)" by fastforce
    have "safe (t2, s2)" using safe_storeContext[of t1 s1] safe_try[OF safe_lookup[OF assms Some]] y z by metis
    then show ?thesis using OrchGraphPaused Some y z keep_exit[OF assms]
      by (auto simp: collect_execute_def Let_def intro: keep_exit_with dest: safe_I)
  qed (use assms OrchGraphPaused in \<open>simp add: collect_execute_def keep_settle_or_park\<close>)
qed (use assms in \<open>simp_all add: collect_execute_def keep_settle_or_park\<close>)

lemma keep_orch_step:
  assumes "I (wSv w)" "orch_step m sp n now i cancel res w = Some w1"
  shows "I (wSv w1)"
proof -
  have "I ((wSv w)\<lparr>svResumes := c\<rparr>)" for c using assms(1) by (rule base) (simp add: same_base_def)
  then have "I (wSv (await_resume i r w))" for r
    using assms(1) by (simp add: await_resume_def Let_def split: option.split)
  then show ?thesis using assms keep_exit keep_collect_execute keep_settle_or_park
    by (auto simp: orch_step_def Let_def split: if_splits orch_phase.splits)
qed

text \<open>Every call, and so every sequence of calls, keeps the invariant.\<close>

lemma keep_call: "I (wSv w) \<Longrightarrow> I (wSv (do_call e now c w))"
  by (cases c) (auto simp: case_prod_beta ReportStageComplete_def ReportStageFailed_def reconcile_def
      intro: keep_AppendTaskLog keep_UpdateStageStatus keep_report_stage keep_stageRecorder keep_CompleteTask keep_FailTask
        keep_RetryScanTask keep_PauseTask keep_SetTaskAgent keep_UpdateTaskStatus keep_reconcile keep_start_begin
        keep_start_finish keep_CancelScanTask keep_ResumeTask keep_orch_step split: option.split)

lemma keep_calls: "I (wSv w) \<Longrightarrow> I (wSv (run_calls e cs w))"
  unfolding run_calls_def by (induction cs arbitrary: w) (auto simp: keep_call)

end

section \<open>The status history of the tasks\<close>

definition keyed_tasks :: "service \<Rightarrow> bool" where
  "keyed_tasks sv \<longleftrightarrow> (\<forall>k t. map_of (svTasks sv) k = Some t \<longrightarrow> tkId t = k)"

lemma keyed_put: "keyed_tasks sv \<Longrightarrow> keyed_tasks (put_task t sv)"
  by (simp add: keyed_tasks_def frame_simps)

definition status_history :: "service \<Rightarrow> service \<Rightarrow> bool" where
  "status_history s0 sv \<longleftrightarrow> keyed_tasks sv \<and>
    (\<forall>k t0. map_of (svTasks s0) k = Some t0 \<longrightarrow>
      (\<exists>t. map_of (svTasks sv) k = Some t \<and> status_move\<^sup>*\<^sup>* (tkStatus t0) (tkStatus t)))"

interpretation history: task_invariant "status_history s0" for s0
proof
  fix sv :: service and t t0 :: scan_task
  assume h: "status_history s0 sv" "map_of (svTasks sv) (tkId t) = Some t0" "status_move (tkStatus t0) (tkStatus t)"
  have "status_move\<^sup>*\<^sup>* a (tkStatus t)" if "status_move\<^sup>*\<^sup>* a (tkStatus t0)" for a
    using that h(3) by (rule rtranclp.rtrancl_into_rtrancl)
  then show "status_history s0 (put_task t sv)" using h(1,2)
    unfolding status_history_def by (fastforce simp: frame_simps keyed_put)
qed (auto simp: status_history_def keyed_tasks_def same_base_def frame_simps)

lemma moves_final: "status_move\<^sup>*\<^sup>* a b \<Longrightarrow> a \<in> {TS_COMPLETED, TS_CANCELLED} \<Longrightarrow> b = a"
  by (induction rule: rtranclp_induct) (auto simp: status_move_def step_iff_lifecycle lifecycle_simps)

lemma moves_timeout: "status_move\<^sup>*\<^sup>* a b \<Longrightarrow> a = TS_TIMEOUT \<Longrightarrow> b \<in> {TS_TIMEOUT, TS_CANCELLED}"
  by (induction rule: rtranclp_induct) (auto simp: status_move_def step_iff_lifecycle lifecycle_simps)

text \<open>C16. Whatever calls, goroutine steps and timer scans run, in whatever order, a task is never lost, its status
  moves only along the table's edges and the human retry, and a completed or cancelled task keeps its
  status for ever; a task that timed out can only be cancelled.\<close>

theorem finished_tasks_keep_their_status:
  assumes "keyed_tasks (wSv w)" "map_of (svTasks (wSv w)) k = Some t"
  shows "\<exists>t1. map_of (svTasks (wSv (run_calls e cs w))) k = Some t1 \<and> tkId t1 = k \<and>
    status_move\<^sup>*\<^sup>* (tkStatus t) (tkStatus t1) \<and>
    (tkStatus t \<in> {TS_COMPLETED, TS_CANCELLED} \<longrightarrow> tkStatus t1 = tkStatus t) \<and>
    (tkStatus t = TS_TIMEOUT \<longrightarrow> tkStatus t1 \<in> {TS_TIMEOUT, TS_CANCELLED})"
proof -
  have "status_history (wSv w) (wSv w)" using assms(1) by (auto simp: status_history_def)
  then have h: "status_history (wSv w) (wSv (run_calls e cs w))" by (rule history.keep_calls)
  then obtain t1 where t1: "map_of (svTasks (wSv (run_calls e cs w))) k = Some t1" "status_move\<^sup>*\<^sup>* (tkStatus t) (tkStatus t1)"
    using assms(2) by (auto simp: status_history_def)
  then show ?thesis using history.keyed[OF h t1(1)] moves_final[OF t1(2)] moves_timeout[OF t1(2)] by auto
qed

section \<open>The execution log\<close>

definition log_ok :: "service \<Rightarrow> bool" where
  "log_ok sv \<longleftrightarrow> (\<forall>k. length (task_logs k sv) \<le> logCapPerTask \<and> sorted_wrt (<) (map leId (task_logs k sv)) \<and>
    (\<forall>e \<in> set (task_logs k sv). leTask e = k \<and> leId e \<le> svLogSeq sv))"

definition old_logs :: "int \<Rightarrow> string \<Rightarrow> service \<Rightarrow> log_entry list" where
  "old_logs n k sv = filter (\<lambda>e. leId e \<le> n) (task_logs k sv)"

text \<open>Since the state \<open>s0\<close>: entries are only added, and only the oldest of a full buffer are dropped.\<close>

definition log_history :: "service \<Rightarrow> service \<Rightarrow> bool" where
  "log_history s0 sv \<longleftrightarrow> log_ok sv \<and> svLogSeq s0 \<le> svLogSeq sv \<and>
    (\<forall>k. suffix (old_logs (svLogSeq s0) k sv) (task_logs k s0) \<and>
      (length (task_logs k sv) < logCapPerTask \<longrightarrow> old_logs (svLogSeq s0) k sv = task_logs k s0))"

lemma suffix_last_n: "suffix (last_n n xs) xs"
  by (simp add: last_n_def suffix_drop)

lemma length_last_n: "length (last_n n xs) = min n (length xs)"
  by (simp add: last_n_def)

lemma task_logs_append:
  "task_logs j (log_task now k lv src msg sv) =
    (if j = k then last_n logCapPerTask (task_logs k sv @ [fst (appendLogLocked now k lv src msg sv)]) else task_logs j sv)"
  by (simp add: task_logs_def appendLogLocked_def Let_def store_simps)

lemma append_entry:
  "leId (fst (appendLogLocked now k lv src msg sv)) = svLogSeq sv + 1" "leTask (fst (appendLogLocked now k lv src msg sv)) = k"
  "svLogSeq (log_task now k lv src msg sv) = svLogSeq sv + 1"
  by (simp_all add: appendLogLocked_def Let_def)

lemma sorted_wrt_suffix: "suffix ys xs \<Longrightarrow> sorted_wrt P xs \<Longrightarrow> sorted_wrt P ys"
  by (auto simp: suffix_def sorted_wrt_append)

lemma log_ok_append:
  assumes "log_ok sv"
  shows "log_ok (log_task now k lv src msg sv)"
  unfolding log_ok_def
proof (intro allI)
  fix j
  let ?s = "log_task now k lv src msg sv" and ?ls = "task_logs k sv @ [fst (appendLogLocked now k lv src msg sv)]"
  have old: "length (task_logs j sv) \<le> logCapPerTask" "sorted_wrt (<) (map leId (task_logs j sv))"
    "e \<in> set (task_logs j sv) \<Longrightarrow> leTask e = j \<and> leId e \<le> svLogSeq sv" for j e
    using assms by (auto simp: log_ok_def)
  have suf: "suffix (last_n logCapPerTask ?ls) ?ls" by (rule suffix_last_n)
  have "sorted_wrt (<) (map leId ?ls)"
    using old(2)[of k] old(3)[where j = k] by (auto simp: sorted_wrt_append append_entry intro: le_less_trans)
  then have srt: "sorted_wrt (<) (map leId (last_n logCapPerTask ?ls))"
    by (rule sorted_wrt_suffix[OF map_mono_suffix[OF suf]])
  have ent: "leTask e = k \<and> leId e \<le> svLogSeq ?s" if "e \<in> set (last_n logCapPerTask ?ls)" for e
    using set_mono_suffix[OF suf] that old(3)[where j = k and e = e] by (auto simp: append_entry)
  show "length (task_logs j ?s) \<le> logCapPerTask \<and> sorted_wrt (<) (map leId (task_logs j ?s)) \<and>
    (\<forall>e \<in> set (task_logs j ?s). leTask e = j \<and> leId e \<le> svLogSeq ?s)"
  proof (cases "j = k")
    case False
    have "leTask e = j \<and> leId e \<le> svLogSeq ?s" if "e \<in> set (task_logs j sv)" for e
      using old(3)[OF that] by (simp add: append_entry)
    then show ?thesis using False old(1,2)[of j] by (simp add: task_logs_append)
  qed (use srt ent in \<open>simp add: task_logs_append length_last_n\<close>)
qed

lemma old_logs_append:
  assumes "log_ok sv" "n \<le> svLogSeq sv"
  shows "suffix (old_logs n j (log_task now k lv src msg sv)) (old_logs n j sv)"
    "length (task_logs j (log_task now k lv src msg sv)) < logCapPerTask \<Longrightarrow>
      old_logs n j (log_task now k lv src msg sv) = old_logs n j sv"
proof -
  let ?e = "fst (appendLogLocked now k lv src msg sv)"
  have new: "filter (\<lambda>e. leId e \<le> n) [?e] = []" using assms(2) by (simp add: append_entry)
  obtain d where d: "last_n logCapPerTask (task_logs k sv @ [?e]) = drop d (task_logs k sv) @ drop (d - length (task_logs k sv)) [?e]"
    "d = length (task_logs k sv) + 1 - logCapPerTask"
    by (auto simp: last_n_def)
  have "length (task_logs k sv) \<le> logCapPerTask" using assms(1) by (simp add: log_ok_def)
  then have "d \<le> 1" using d(2) by simp
  then have "filter (\<lambda>e. leId e \<le> n) (drop (d - length (task_logs k sv)) [?e]) = []" using new by (auto simp: drop_Cons' split: if_splits)
  then have old: "old_logs n k (log_task now k lv src msg sv) = filter (\<lambda>e. leId e \<le> n) (drop d (task_logs k sv))"
    by (simp add: old_logs_def task_logs_append d(1))
  have "suffix (filter (\<lambda>e. leId e \<le> n) (drop d (task_logs k sv))) (old_logs n k sv)"
    using filter_mono_suffix[OF suffix_drop] by (simp add: old_logs_def)
  then show "suffix (old_logs n j (log_task now k lv src msg sv)) (old_logs n j sv)"
    using old by (cases "j = k") (simp_all add: old_logs_def task_logs_append)
  show "old_logs n j (log_task now k lv src msg sv) = old_logs n j sv"
    if "length (task_logs j (log_task now k lv src msg sv)) < logCapPerTask"
    using that old d(2) by (cases "j = k") (simp_all add: old_logs_def task_logs_append length_last_n)
qed

lemma log_history_append:
  assumes "log_history s0 sv"
  shows "log_history s0 (log_task now k lv src msg sv)"
proof -
  have sv: "log_ok sv" "svLogSeq s0 \<le> svLogSeq sv" using assms by (auto simp: log_history_def)
  have "suffix (old_logs (svLogSeq s0) j (log_task now k lv src msg sv)) (task_logs j s0)" for j
    using old_logs_append(1)[OF sv, of j now k lv src msg] assms by (auto simp: log_history_def intro: suffix_order.trans)
  moreover have "old_logs (svLogSeq s0) j (log_task now k lv src msg sv) = task_logs j s0"
    if "length (task_logs j (log_task now k lv src msg sv)) < logCapPerTask" for j
  proof -
    have "length (task_logs j sv) < logCapPerTask" using that by (auto simp: task_logs_append length_last_n split: if_splits)
    then show ?thesis using old_logs_append(2)[OF sv that] assms by (auto simp: log_history_def)
  qed
  ultimately show ?thesis using log_ok_append[OF sv(1)] sv(2) by (simp add: log_history_def append_entry)
qed

interpretation logging: task_invariant "\<lambda>sv. keyed_tasks sv \<and> log_history s0 sv" for s0
proof
  have same: "log_history s0 b" if "log_history s0 a" "svLogs b = svLogs a" "svLogSeq b = svLogSeq a" for a b
    using that by (simp add: log_history_def log_ok_def old_logs_def task_logs_def)
  show "keyed_tasks sv \<and> log_history s0 sv \<Longrightarrow> same_base sv sv1 \<Longrightarrow> keyed_tasks sv1 \<and> log_history s0 sv1" for sv sv1
    using same[of sv sv1] by (simp add: same_base_def keyed_tasks_def)
  show "keyed_tasks sv \<and> log_history s0 sv \<Longrightarrow> keyed_tasks (put_task t sv) \<and> log_history s0 (put_task t sv)" for sv t
    using same[of sv "put_task t sv"] by (simp add: keyed_put frame_simps)
qed (auto simp: keyed_tasks_def frame_simps log_history_append)

lemma log_history_start: "log_ok sv \<Longrightarrow> log_history sv sv"
proof -
  assume "log_ok sv"
  then have "old_logs (svLogSeq sv) k sv = task_logs k sv" for k
    by (simp add: old_logs_def log_ok_def)
  then show ?thesis using \<open>log_ok sv\<close> by (simp add: log_history_def)
qed

lemma split_sorted: "sorted_wrt (<) (map f xs) \<Longrightarrow> filter (\<lambda>e. f e \<le> (n::int)) xs @ filter (\<lambda>e. \<not> f e \<le> n) xs = xs"
proof (induction xs)
  case (Cons x xs)
  then have "filter (\<lambda>e. f e \<le> n) xs = []" if "\<not> f x \<le> n" using that by (fastforce simp: filter_empty_conv)
  then show ?case using Cons by auto
qed simp

text \<open>A reader that polls with the last number it has seen as its cursor gets, whatever happened in between, only
  entries of the task that were not there before, in the order of their numbers and at most 500; and
  unless the buffer is full, exactly the entries appended since: nothing is lost, repeated or rewritten.\<close>

theorem log_cursor_reads_only_new:
  assumes "keyed_tasks (wSv w)" "log_ok (wSv w)" "w1 = run_calls e cs w"
    "new = logsAfterLocked k (svLogSeq (wSv w)) 0 (wSv w1)"
  shows "sorted_wrt (<) (map leId new) \<and> length new \<le> logCapPerTask \<and>
    (\<forall>x \<in> set new. leTask x = k \<and> x \<notin> set (task_logs k (wSv w))) \<and>
    (length (task_logs k (wSv w1)) < logCapPerTask \<longrightarrow> task_logs k (wSv w1) = task_logs k (wSv w) @ new)"
proof -
  let ?n = "svLogSeq (wSv w)" and ?ls = "task_logs k (wSv w1)"
  have h: "log_history (wSv w) (wSv w1)"
    using logging.keep_calls[where w = w and ?s0.0 = "wSv w"] log_history_start[OF assms(2)] assms(1,3) by simp
  then have ok: "length ?ls \<le> logCapPerTask" "sorted_wrt (<) (map leId ?ls)" "\<And>x. x \<in> set ?ls \<Longrightarrow> leTask x = k"
    by (auto simp: log_history_def log_ok_def)
  have len: "length (filter (\<lambda>e. \<not> leId e \<le> ?n) ?ls) \<le> logCapPerTask" using ok(1) length_filter_le le_trans by blast
  then have new: "new = filter (\<lambda>e. \<not> leId e \<le> ?n) ?ls"
    by (simp add: assms(4) logsAfterLocked_def last_n_def)
  have "x \<notin> set (task_logs k (wSv w))" if "x \<in> set new" for x
    using that assms(2) by (auto simp: new log_ok_def)
  moreover have "?ls = task_logs k (wSv w) @ new" if "length ?ls < logCapPerTask"
    using split_sorted[OF ok(2), of ?n] h that by (auto simp: new log_history_def old_logs_def)
  moreover have "sorted_wrt (<) (map leId new)"
    unfolding new using ok(2) by (simp add: sorted_wrt_map sorted_wrt_filter)
  ultimately show ?thesis using ok(3) len by (auto simp: new)
qed

section \<open>A small service\<close>

definition demo_task :: "task_status \<Rightarrow> scan_task" where
  "demo_task st = \<lparr>tkId = ''t'', tkProject = ''p'', tkStatus = st, tkMode = SastOnly, tkError = [], tkRetry = 0,
     tkAgent = ''a'', tkCreatedBy = ''u'', tkUpdatedAt = 0, tkConfig = [], tkStages = []\<rparr>"

definition demo_service :: "task_status \<Rightarrow> service" where
  "demo_service st = \<lparr>svTasks = [(''t'', demo_task st)], svLogs = [], svLogSeq = 0, svLogIdem = [], svStageIdem = [],
     svPaths = [(''t'', ''/src'')], svConfigs = [], svContexts = [], svIncremental = [], svCancels = [], svResumes = [],
     svEvents = [], svUsage = []\<rparr>"

definition demo_world :: "task_status \<Rightarrow> task_world" where
  "demo_world st = \<lparr>wSv = demo_service st, wOrchs = [], wClosed = {}, wNextChan = 0\<rparr>"

definition demo_env :: task_env where
  "demo_env = \<lparr>teGraph = (\<lambda>_. Inl ''none''), teStorage = [], teRepo = [], teRetries = 2, teMarshal = (\<lambda>_. []), teSprint = (\<lambda>_. [])\<rparr>"

lemma demo_ok: "keyed_tasks (demo_service st)" "log_ok (demo_service st)" "map_of (svTasks (demo_service st)) ''t'' = Some (demo_task st)"
  by (auto simp: keyed_tasks_def log_ok_def task_logs_def demo_service_def demo_task_def)

theorem finished_tasks_keep_their_status_witness:
  "\<exists>t1. map_of (svTasks (wSv (run_calls demo_env [(5, CallCancel ''t''), (6, CallRetry ''t'')] (demo_world TS_COMPLETED)))) ''t'' = Some t1 \<and>
    tkStatus t1 = TS_COMPLETED"
proof -
  have "keyed_tasks (wSv (demo_world TS_COMPLETED))" "map_of (svTasks (wSv (demo_world TS_COMPLETED))) ''t'' = Some (demo_task TS_COMPLETED)"
    by (simp_all add: demo_world_def demo_ok)
  from finished_tasks_keep_their_status[OF this, of demo_env "[(5, CallCancel ''t''), (6, CallRetry ''t'')]"]
  show ?thesis by (auto simp: demo_task_def)
qed

theorem log_cursor_reads_only_new_witness:
  "sorted_wrt (<) (map leId (logsAfterLocked ''t'' 0 0 (wSv (run_calls demo_env [(5, CallCancel ''t'')] (demo_world TS_CREATED)))))"
proof -
  have "keyed_tasks (wSv (demo_world TS_CREATED))" "log_ok (wSv (demo_world TS_CREATED))" "svLogSeq (wSv (demo_world TS_CREATED)) = 0"
    by (simp_all add: demo_world_def demo_ok) (simp add: demo_service_def)
  from log_cursor_reads_only_new[OF this(1,2) refl refl, of "''t''" demo_env "[(5, CallCancel ''t'')]", unfolded this(3)]
  show ?thesis by blast
qed

end
