(* ===== verification/TaskLife.thy ===== *)
theory TaskLife imports Main Prelude GoText TaskFsm TaskState TaskRun TaskRules begin

text \<open>
  The life of a task on the service: how the goroutine of a task ends, what starting and resuming do to a task
  whose goroutine is gone or still alive, and which tasks the timeout scan ends.
\<close>

section \<open>A goroutine on its own\<close>

lemma transition_taken:
  assumes "task_step (tkStatus t) to"
  obtains s where "transitionLocked now to rpc t sv = Inr (t\<lparr>tkStatus := to, tkUpdatedAt := now\<rparr>, s)"
    "map_of (svTasks s) = (map_of (svTasks sv))(tkId t \<mapsto> t\<lparr>tkStatus := to, tkUpdatedAt := now\<rparr>)"
    "svCancels s = svCancels sv" "svResumes s = svResumes sv" "svPaths s = svPaths sv"
proof (rule that)
  show "transitionLocked now to rpc t sv = Inr (t\<lparr>tkStatus := to, tkUpdatedAt := now\<rparr>, snd (projr (transitionLocked now to rpc t sv)))"
    using assms by (simp add: transitionLocked_def task_step_simps Let_def)
qed (use assms in \<open>simp_all add: transitionLocked_def task_step_simps Let_def appendLogLocked_def put_task_def store_simps\<close>)

lemma steps [simp]:
  "task_step TS_RUNNING TS_COMPLETED" "task_step TS_RUNNING TS_FAILED" "task_step TS_RUNNING TS_PAUSED" "task_step TS_RUNNING TS_TIMEOUT"
  "task_step TS_FAILED TS_QUEUED" "task_step TS_FAILED TS_DEAD" "task_step TS_QUEUED TS_RUNNING" "task_step TS_CREATED TS_RUNNING"
  "task_step TS_PAUSED TS_RUNNING" "\<not> task_step TS_RUNNING TS_RUNNING"
  by (simp_all add: step_iff_lifecycle lifecycle_simps)

text \<open>Goroutine \<open>i\<close> is about to start an attempt on the running task \<open>k\<close>, which has had \<open>r\<close> retries.\<close>

definition solo_ready :: "nat \<Rightarrow> string \<Rightarrow> int \<Rightarrow> task_world \<Rightarrow> bool" where
  "solo_ready i k r w \<longleftrightarrow> i < length (wOrchs w) \<and> oPhase (wOrchs w ! i) = OReady \<and> \<not> oCancelled (wOrchs w ! i) \<and>
    rrTask (oReq (wOrchs w ! i)) = k \<and>
    (\<exists>t. map_of (svTasks (wSv w)) k = Some t \<and> tkId t = k \<and> tkStatus t = TS_RUNNING \<and> tkRetry t = r \<and>
       tkAgent t = rrAgent (oReq (wOrchs w ! i)))"

text \<open>Attempts of goroutine \<open>i\<close>, one for each result of \<open>Execute\<close>, until it can move no further.\<close>

fun solo_run :: "task_env \<Rightarrow> nat \<Rightarrow> (gotime \<times> orch_result) list \<Rightarrow> task_world \<Rightarrow> task_world" where
  "solo_run e i [] w = w"
| "solo_run e i ((now, res) # xs) w =
    (case orch_step (teMarshal e) (teSprint e) (teRetries e) now i False res w of
       None \<Rightarrow> w
     | Some w1 \<Rightarrow> (case orch_step (teMarshal e) (teSprint e) (teRetries e) now i False res w1 of
         None \<Rightarrow> w1
       | Some w2 \<Rightarrow> solo_run e i xs w2))"

text \<open>What the results of the attempts make of a task with \<open>n\<close> retries left.\<close>

fun verdict :: "nat \<Rightarrow> (gotime \<times> orch_result) list \<Rightarrow> task_status" where
  "verdict n [] = TS_RUNNING"
| "verdict n ((_, OrchOk _) # xs) = TS_COMPLETED"
| "verdict n ((_, OrchGraphPaused _) # xs) = TS_PAUSED"
| "verdict n ((_, OrchFailed _) # xs) = (case n of 0 \<Rightarrow> TS_DEAD | Suc m \<Rightarrow> verdict m xs)"

definition done_as :: "nat \<Rightarrow> string \<Rightarrow> task_status \<Rightarrow> task_world \<Rightarrow> bool" where
  "done_as i k st w \<longleftrightarrow> i < length (wOrchs w) \<and> oPhase (wOrchs w ! i) = OExited \<and>
    map_option tkStatus (map_of (svTasks (wSv w)) k) = Some st"

lemma exit_done:
  assumes "i < length (wOrchs w)" "map_option tkStatus (map_of (svTasks (wSv w)) k) = Some st"
  shows "done_as i k st (orch_exit i w)"
  using assms by (simp add: done_as_def orch_exit_def set_phase_def set_orch_def Let_def)

lemma done_stays: "done_as i k st w \<Longrightarrow> solo_run e i xs w = w"
  by (cases xs) (auto simp: done_as_def orch_step_def Let_def)

lemma table_put: "map_of (svTasks sv) = m \<Longrightarrow> map_of (svTasks (put_task t sv)) = m(tkId t \<mapsto> t)"
  by (simp add: frame_simps)

lemma store_table [simp]:
  "map_of (svTasks (snd (storeContextLocked m sp summary t sv))) =
    (map_of (svTasks sv))(tkId t \<mapsto> fst (storeContextLocked m sp summary t sv))"
  "tkStatus (fst (storeContextLocked m sp summary t sv)) = tkStatus t" "tkId (fst (storeContextLocked m sp summary t sv)) = tkId t"
  "svTasks (publish_task topic u sv) = svTasks sv"
  by (simp_all add: storeContextLocked_def Let_def frame_simps publish_task_def)

text \<open>The goroutine while \<open>Execute\<close> runs.\<close>

definition executing :: "nat \<Rightarrow> task_world \<Rightarrow> task_world" where
  "executing i w = set_orch i ((wOrchs w ! i)\<lparr>oPhase := OExecuting, oAttempt := Suc (oAttempt (wOrchs w ! i))\<rparr>) w"

lemma executing_fields [simp]:
  "wSv (executing i w) = wSv w" "length (wOrchs (executing i w)) = length (wOrchs w)"
  "i < length (wOrchs w) \<Longrightarrow> wOrchs (executing i w) ! i = (wOrchs w ! i)\<lparr>oPhase := OExecuting, oAttempt := Suc (oAttempt (wOrchs w ! i))\<rparr>"
  by (simp_all add: executing_def set_orch_def)

text \<open>An attempt: \<open>Execute\<close> starts and its result is collected.\<close>

lemma attempt_steps:
  assumes "solo_ready i k r w"
  shows "solo_run e i ((now, res) # xs) w =
    solo_run e i xs (collect_execute (teMarshal e) (teSprint e) (teRetries e) now i res (executing i w))"
proof -
  have i: "i < length (wOrchs w)" "oPhase (wOrchs w ! i) = OReady" "\<not> oCancelled (wOrchs w ! i)"
    using assms by (auto simp: solo_ready_def)
  have "orch_step m sp n now i False res w = Some (executing i w)" for m sp n
    using i by (simp add: orch_step_def Let_def executing_def)
  moreover have "orch_step m sp n now i False res (executing i w) = Some (collect_execute m sp n now i res (executing i w))" for m sp n
    using i by (simp add: orch_step_def Let_def)
  ultimately show ?thesis by simp
qed

lemma try_taken:
  assumes "task_step (tkStatus t) to"
  obtains s where "try_transition now to rpc (t, sv) = (t\<lparr>tkStatus := to, tkUpdatedAt := now\<rparr>, s)"
    "map_of (svTasks s) = (map_of (svTasks sv))(tkId t \<mapsto> t\<lparr>tkStatus := to, tkUpdatedAt := now\<rparr>)"
proof -
  obtain s where "transitionLocked now to rpc t sv = Inr (t\<lparr>tkStatus := to, tkUpdatedAt := now\<rparr>, s)"
    "map_of (svTasks s) = (map_of (svTasks sv))(tkId t \<mapsto> t\<lparr>tkStatus := to, tkUpdatedAt := now\<rparr>)"
    by (rule transition_taken[OF assms])
  then show thesis by (intro that[of s]) (simp_all add: try_transition_def)
qed

lemma attempt_completes:
  assumes "solo_ready i k r w"
  shows "done_as i k TS_COMPLETED (collect_execute m sp n now i (OrchOk summary) (executing i w))"
proof -
  let ?w = "executing i w"
  obtain t where t: "map_of (svTasks (wSv w)) k = Some t" "tkId t = k" "tkStatus t = TS_RUNNING" "tkAgent t = rrAgent (oReq (wOrchs w ! i))"
    and i: "i < length (wOrchs w)" "rrTask (oReq (wOrchs w ! i)) = k" using assms by (auto simp: solo_ready_def)
  obtain s where y: "try_transition now TS_COMPLETED ''complete'' (t, wSv w) = (t\<lparr>tkStatus := TS_COMPLETED, tkUpdatedAt := now\<rparr>, s)"
    by (rule try_taken[of t TS_COMPLETED now "''complete''" "wSv w"]) (use t in simp_all)
  obtain t2 s2 where z: "storeContextLocked m sp summary (t\<lparr>tkStatus := TS_COMPLETED, tkUpdatedAt := now\<rparr>) s = (t2, s2)" by fastforce
  have t2: "tkStatus t2 = TS_COMPLETED" "tkId t2 = k" using store_table(2,3)[of m sp summary "t\<lparr>tkStatus := TS_COMPLETED, tkUpdatedAt := now\<rparr>" s] z t(2) by simp_all
  show ?thesis using t i y z t2
    by (simp add: collect_execute_def settle_or_park_def settle_def Let_def, intro exit_done) (simp_all add: table_put[OF refl])
qed

lemma attempt_freezes:
  assumes "solo_ready i k r w"
  shows "done_as i k TS_PAUSED (collect_execute m sp n now i (OrchGraphPaused summary) (executing i w))"
proof -
  obtain t where t: "map_of (svTasks (wSv w)) k = Some t" "tkId t = k" "tkStatus t = TS_RUNNING"
    and i: "i < length (wOrchs w)" "rrTask (oReq (wOrchs w ! i)) = k" using assms by (auto simp: solo_ready_def)
  obtain s where y: "try_transition now TS_PAUSED ''graph-paused'' (t, wSv w) = (t\<lparr>tkStatus := TS_PAUSED, tkUpdatedAt := now\<rparr>, s)"
    by (rule try_taken[of t TS_PAUSED now "''graph-paused''" "wSv w"]) (use t in simp_all)
  obtain t2 s2 where z: "storeContextLocked m sp summary (t\<lparr>tkStatus := TS_PAUSED, tkUpdatedAt := now\<rparr>) s = (t2, s2)" by fastforce
  have "map_option tkStatus (map_of (svTasks s2) k) = Some TS_PAUSED"
    using store_table(1,2)[of m sp summary "t\<lparr>tkStatus := TS_PAUSED, tkUpdatedAt := now\<rparr>" s] z t(2) by simp
  then show ?thesis using t i y z
    by (simp add: collect_execute_def Let_def, intro exit_done) simp_all
qed

lemma board_keeps [simp]:
  "tkRetry (resetStagesLocked t) = tkRetry t" "tkAgent (resetStagesLocked t) = tkAgent t"
  "tkRetry (registerStagesLocked t) = tkRetry t" "tkAgent (registerStagesLocked t) = tkAgent t"
  "tkRetry (finalizeStagesLocked now err t) = tkRetry t" "tkAgent (finalizeStagesLocked now err t) = tkAgent t"
  by (simp_all add: resetStagesLocked_def registerStagesLocked_def finalizeStagesLocked_def)

lemma requeue_taken:
  assumes "tkStatus t = TS_FAILED"
  obtains s where "requeue now (t, sv) = Inr (t\<lparr>tkStatus := TS_RUNNING, tkUpdatedAt := now\<rparr>, s)"
proof -
  let ?q = "t\<lparr>tkStatus := TS_QUEUED, tkUpdatedAt := now\<rparr>"
  obtain s1 where 1: "transitionLocked now TS_QUEUED ''auto-retry'' t sv = Inr (?q, s1)"
    by (rule transition_taken[of t TS_QUEUED now "''auto-retry''" sv]) (use assms in simp_all)
  obtain s2 where "transitionLocked now TS_RUNNING ''start'' ?q s1 = Inr (?q\<lparr>tkStatus := TS_RUNNING, tkUpdatedAt := now\<rparr>, s2)"
    by (rule transition_taken[of ?q TS_RUNNING now "''start''" s1]) simp_all
  with 1 show thesis by (intro that[of s2]) (simp add: requeue_def)
qed

lemma attempt_fails:
  assumes "solo_ready i k r w"
  shows "n \<le> r \<Longrightarrow> done_as i k TS_DEAD (collect_execute m sp n now i (OrchFailed err) (executing i w))"
    "r < n \<Longrightarrow> 0 \<le> r \<Longrightarrow> n < 2 ^ 31 \<Longrightarrow> solo_ready i k (r + 1) (collect_execute m sp n now i (OrchFailed err) (executing i w))"
proof -
  let ?w = "executing i w"
  obtain t where t: "map_of (svTasks (wSv w)) k = Some t" "tkId t = k" "tkStatus t = TS_RUNNING" "tkRetry t = r"
      "tkAgent t = rrAgent (oReq (wOrchs w ! i))"
    and i: "i < length (wOrchs w)" "rrTask (oReq (wOrchs w ! i)) = k" "\<not> oCancelled (wOrchs w ! i)"
    using assms by (auto simp: solo_ready_def)
  let ?f = "t\<lparr>tkError := err, tkStatus := TS_FAILED, tkUpdatedAt := now\<rparr>"
  obtain s where y: "try_transition now TS_FAILED ''fail'' (t\<lparr>tkError := err\<rparr>, put_task (t\<lparr>tkError := err\<rparr>) (wSv w)) = (?f, s)"
    by (rule try_taken[of "t\<lparr>tkError := err\<rparr>" TS_FAILED now "''fail''" "put_task (t\<lparr>tkError := err\<rparr>) (wSv w)"]) (use t in simp_all)
  note go = collect_execute_def settle_or_park_def settle_def err_text_def Let_def
  obtain s2 where d: "try_transition now TS_DEAD ''retry-exhausted'' (?f, s) = (?f\<lparr>tkStatus := TS_DEAD, tkUpdatedAt := now\<rparr>, s2)"
    by (rule try_taken[of ?f TS_DEAD now "''retry-exhausted''" s]) simp_all
  show "done_as i k TS_DEAD (collect_execute m sp n now i (OrchFailed err) ?w)" if "n \<le> r"
    using t i y d that by (simp add: go, intro exit_done) (simp_all add: frame_simps)
  let ?u = "?f\<lparr>tkRetry := int32 (r + 1)\<rparr>"
  obtain s3 where q: "requeue now (?u, put_task ?u s) = Inr (?u\<lparr>tkStatus := TS_RUNNING, tkUpdatedAt := now\<rparr>, s3)"
    by (rule requeue_taken[of ?u now "put_task ?u s"]) simp_all
  show "solo_ready i k (r + 1) (collect_execute m sp n now i (OrchFailed err) ?w)" if "r < n" "0 \<le> r" "n < 2 ^ 31"
  proof -
    have "int32 (r + 1) = r + 1" using that by (simp add: int32_def)
    then show ?thesis using t i y q that
      by (simp add: go) (simp add: solo_ready_def set_phase_def set_orch_def frame_simps)
  qed
qed

text \<open>C17. The goroutine of a task ends when no one intervenes: whatever \<open>Execute\<close> returns, after at most one attempt
  more than the retries left it has returned, and the task is COMPLETED, PAUSED or DEAD as the first result
  that is not a retried failure says.\<close>

theorem orchestration_ends:
  assumes "solo_ready i k r w" "0 \<le> r" "r \<le> teRetries e" "teRetries e < 2 ^ 31" "nat (teRetries e - r) < length xs"
  shows "done_as i k (verdict (nat (teRetries e - r)) xs) (solo_run e i xs w)"
  using assms
proof (induction xs arbitrary: r w)
  case (Cons x xs)
  obtain now res where x: "x = (now, res)" by fastforce
  let ?next = "collect_execute (teMarshal e) (teSprint e) (teRetries e) now i res (executing i w)"
  have run: "solo_run e i (x # xs) w = solo_run e i xs ?next" using attempt_steps[OF Cons.prems(1)] x by simp
  show ?case
  proof (cases res)
    case (OrchOk summary)
    have "done_as i k TS_COMPLETED ?next" using attempt_completes[OF Cons.prems(1)] OrchOk by simp
    then show ?thesis using run x OrchOk by (simp add: done_stays)
  next
    case (OrchGraphPaused summary)
    have "done_as i k TS_PAUSED ?next" using attempt_freezes[OF Cons.prems(1)] OrchGraphPaused by simp
    then show ?thesis using run x OrchGraphPaused by (simp add: done_stays)
  next
    case (OrchFailed err)
    show ?thesis
    proof (cases "r = teRetries e")
      case True
      have "done_as i k TS_DEAD ?next" using attempt_fails(1)[OF Cons.prems(1)] OrchFailed True by simp
      then show ?thesis using run x OrchFailed True by (simp add: done_stays)
    next
      case False
      then have r: "r < teRetries e" using Cons.prems(3) by simp
      have "solo_ready i k (r + 1) ?next" using attempt_fails(2)[OF Cons.prems(1) r] Cons.prems OrchFailed by simp
      moreover have n: "nat (teRetries e - r) = Suc (nat (teRetries e - (r + 1)))" using r by simp
      ultimately show ?thesis using Cons.IH[of "r + 1" ?next] Cons.prems r x OrchFailed run by simp
    qed
  qed
qed simp

section \<open>Starting and resuming out of turn\<close>

definition live :: "string \<Rightarrow> orch \<Rightarrow> bool" where
  "live k x \<longleftrightarrow> rrTask (oReq x) = k \<and> oPhase x \<noteq> OExited"

definition plain_start :: "string \<Rightarrow> scan_task \<Rightarrow> service \<Rightarrow> bool" where
  "plain_start k t sv \<longleftrightarrow> map_of (svTasks sv) k = Some t \<and> tkId t = k \<and> cfg (tkConfig t) ''execution'' \<noteq> ''graph'' \<and>
    cfg (svPaths sv) k \<noteq> []"

lemma board_config [simp]:
  "tkConfig (resetStagesLocked t) = tkConfig t" "tkConfig (registerStagesLocked t) = tkConfig t"
  "svPaths (put_task u sv) = svPaths sv"
  by (simp_all add: resetStagesLocked_def registerStagesLocked_def put_task_def)

lemma start_accepted:
  assumes "plain_start k t (wSv w)" "task_step (tkStatus t) TS_RUNNING"
  obtains r s t1 w2 y where "start_begin g addr now k (wSv w) = (Inr (StartPending r False), s)"
    "start_finish addr repo now r False pl (w\<lparr>wSv := s\<rparr>) = (Inr t1, w2)" "tkStatus t1 = TS_RUNNING"
    "wOrchs w2 = wOrchs w @ [y]" "live k y" "map_of (svCancels (wSv w2)) k = Some (length (wOrchs w))"
    "map_of (svTasks (wSv w2)) k = Some t1" "tkId t1 = k"
proof -
  let ?t = "t\<lparr>tkStatus := TS_RUNNING, tkUpdatedAt := now\<rparr>"
  let ?b = "resetStagesLocked (registerStagesLocked ?t)"
  obtain s where s: "transitionLocked now TS_RUNNING ''start'' t (wSv w) = Inr (?t, s)" "svPaths s = svPaths (wSv w)"
    by (rule transition_taken[OF assms(2), of now "''start''" "wSv w"]) (rule that)
  let ?s = "put_task ?b s"
  have t: "map_of (svTasks (wSv w)) k = Some t" "tkId t = k" "cfg (tkConfig t) ''execution'' \<noteq> ''graph''" "cfg (svPaths (wSv w)) k \<noteq> []"
    using assms(1) by (auto simp: plain_start_def)
  let ?r = "\<lparr>rrTask = k, rrRequest = ''orch-'' @ k, rrAgent = tkAgent ?b, rrPath = cfg (svPaths ?s) k,
    rrPrepare = None, rrGraph = None, rrIncremental = False\<rparr>"
  have b: "start_begin g addr now k (wSv w) = (Inr (StartPending ?r False), ?s)"
    using t s by (simp add: start_begin_def Let_def)
  let ?q = "?r\<lparr>rrPrepare := None, rrPath := (if repo \<noteq> [] then repo else cfg (svPaths ?s) k)\<rparr>"
  have f: "start_finish addr repo now ?r False pl (w\<lparr>wSv := ?s\<rparr>) = spawn ?q ?b (w\<lparr>wSv := ?s\<rparr>)"
    using t s(2) by (simp add: start_finish_def frame_simps Let_def)
  let ?y = "\<lparr>oReq = ?q\<lparr>rrIncremental := (cfg (tkConfig ?b) ''incremental'' = ''true'')\<rparr>, oAttempt = 0, oPhase = OReady, oCancelled = False\<rparr>"
  have y: "live k ?y" by (simp add: live_def)
  show thesis
    by (rule that[OF b f[unfolded spawn_def Let_def] _ _ y]) (use t in \<open>simp_all add: store_simps frame_simps\<close>)
qed

text \<open>Starting a PAUSED task is accepted through the edge meant for resuming: a second goroutine runs the task
  beside the one that waits for the resume, and only the second can be cancelled, since its entry replaces
  the first one's.\<close>

theorem start_of_paused_task_doubles_it:
  assumes "plain_start k t (wSv w)" "tkStatus t = TS_PAUSED" "i < length (wOrchs w)" "live k (wOrchs w ! i)"
  shows "\<exists>r s t1 w2. start_begin g addr now k (wSv w) = (Inr (StartPending r False), s) \<and>
    start_finish addr repo now r False no_lookup (w\<lparr>wSv := s\<rparr>) = (Inr t1, w2) \<and>
    live k (wOrchs w2 ! i) \<and> live k (wOrchs w2 ! length (wOrchs w)) \<and> length (wOrchs w2) = Suc (length (wOrchs w)) \<and>
    oCancelled (wOrchs (snd (CancelScanTask now k w2)) ! i) = oCancelled (wOrchs w ! i) \<and>
    oCancelled (wOrchs (snd (CancelScanTask now k w2)) ! length (wOrchs w))"
proof -
  obtain r s t1 w2 y where st: "start_begin g addr now k (wSv w) = (Inr (StartPending r False), s)"
    "start_finish addr repo now r False no_lookup (w\<lparr>wSv := s\<rparr>) = (Inr t1, w2)" "tkStatus t1 = TS_RUNNING"
    "wOrchs w2 = wOrchs w @ [y]" "live k y" "map_of (svCancels (wSv w2)) k = Some (length (wOrchs w))"
    "map_of (svTasks (wSv w2)) k = Some t1" "tkId t1 = k"
    by (rule start_accepted[OF assms(1), of g addr now repo no_lookup]) (use assms(2) in simp, rule that)
  have "task_step (tkStatus t1) TS_CANCELLED" using st(3) by (simp add: step_iff_lifecycle lifecycle_simps)
  then obtain s2 where "transitionLocked now TS_CANCELLED ''cancel'' t1 (wSv w2) = Inr (t1\<lparr>tkStatus := TS_CANCELLED, tkUpdatedAt := now\<rparr>, s2)"
    "svCancels s2 = svCancels (wSv w2)"
    by (rule transition_taken[of t1 TS_CANCELLED now "''cancel''" "wSv w2"])
  then have "wOrchs (snd (CancelScanTask now k w2)) = (wOrchs w2)[length (wOrchs w) := y\<lparr>oCancelled := True\<rparr>]"
    using st by (simp add: CancelScanTask_def set_orch_def)
  then show ?thesis using st assms(3,4) by (simp add: nth_append)
qed

text \<open>C18. \<open>ResumeTask\<close> asks only whether the status may become RUNNING. On a task that no goroutine serves (never started,
  queued for a retry, or frozen as a graph, whose goroutine has returned) it reports success and leaves the
  task RUNNING with nothing that runs it; starting it is then refused.\<close>

theorem resume_strands_unserved_task:
  assumes "map_of (svTasks (wSv w)) k = Some t" "tkId t = k" "tkStatus t \<in> {TS_CREATED, TS_QUEUED, TS_PAUSED}"
    "\<forall>x \<in> set (wOrchs w). \<not> live k x"
  shows "\<exists>t1 w1. ResumeTask now k w = (Inr t1, w1) \<and> map_of (svTasks (wSv w1)) k = Some t1 \<and> tkStatus t1 = TS_RUNNING \<and>
    (\<forall>x \<in> set (wOrchs w1). \<not> live k x) \<and>
    start_begin g addr later k (wSv w1) = (Inl (FailedPrecondition, ''cannot start task in state TASK_STATUS_RUNNING''), wSv w1)"
proof -
  let ?t = "t\<lparr>tkStatus := TS_RUNNING, tkUpdatedAt := now\<rparr>"
  have "task_step (tkStatus t) TS_RUNNING" using assms(3) by auto
  then obtain s where s: "transitionLocked now TS_RUNNING ''resume'' t (wSv w) = Inr (?t, s)"
    "map_of (svTasks s) = (map_of (svTasks (wSv w)))(tkId t \<mapsto> ?t)"
    by (rule transition_taken[of t TS_RUNNING now "''resume''" "wSv w"])
  have refused: "start_begin g addr later k sv = (Inl (FailedPrecondition, ''cannot start task in state TASK_STATUS_RUNNING''), sv)"
    if "map_of (svTasks sv) k = Some ?t" for sv
    using that by (simp add: start_begin_def transitionLocked_def ValidateTransition_def can_iff_lifecycle lifecycle_simps)
  have "\<exists>w1. ResumeTask now k w = (Inr ?t, w1) \<and> svTasks (wSv w1) = svTasks s \<and> wOrchs w1 = wOrchs w"
    using assms(1) s(1) by (simp add: ResumeTask_def split: option.split)
  then obtain w1 where w1: "ResumeTask now k w = (Inr ?t, w1)" "svTasks (wSv w1) = svTasks s" "wOrchs w1 = wOrchs w" by blast
  have k: "map_of (svTasks (wSv w1)) k = Some ?t" using w1(2) s(2) assms(2) by simp
  show ?thesis using w1(1,3) k refused[OF k] assms(4) by simp
qed

section \<open>The timeout scan\<close>

lemma reconcile_tasks_exact:
  assumes "distinct (map tkId ts)" "\<forall>t \<in> set ts. map_of (svTasks sv) (tkId t) = Some t \<and> tkStatus t = TS_RUNNING"
  shows "fst (reconcile_tasks probe timeout now ts sv) = map tkId (filter (timed_out probe timeout now) ts) \<and>
    map_of (svTasks (snd (reconcile_tasks probe timeout now ts sv))) k =
      (case find (\<lambda>t. tkId t = k \<and> timed_out probe timeout now t) ts of
         Some t \<Rightarrow> Some (t\<lparr>tkStatus := TS_TIMEOUT, tkUpdatedAt := now\<rparr>)
       | None \<Rightarrow> map_of (svTasks sv) k)"
  using assms
proof (induction ts arbitrary: sv)
  case (Cons t ts)
  have t: "map_of (svTasks sv) (tkId t) = Some t" "tkStatus t = TS_RUNNING" using Cons.prems by auto
  show ?case
  proof (cases "timed_out probe timeout now t")
    case True
    let ?t = "t\<lparr>tkStatus := TS_TIMEOUT, tkUpdatedAt := now\<rparr>"
    obtain s where s: "transitionLocked now TS_TIMEOUT ''reconcile'' t sv = Inr (?t, s)"
      "map_of (svTasks s) = (map_of (svTasks sv))(tkId t \<mapsto> ?t)"
      by (rule transition_taken[of t TS_TIMEOUT now "''reconcile''" sv]) (use t in simp_all)
    have ne: "tkId u \<noteq> tkId t" if "u \<in> set ts" for u using Cons.prems(1) imageI[OF that, of tkId] by auto
    have "\<forall>u \<in> set ts. map_of (svTasks s) (tkId u) = Some u \<and> tkStatus u = TS_RUNNING"
    proof
      fix u assume u: "u \<in> set ts"
      show "map_of (svTasks s) (tkId u) = Some u \<and> tkStatus u = TS_RUNNING"
        using Cons.prems(2) u ne[OF u] by (simp add: s(2))
    qed
    then have "fst (reconcile_tasks probe timeout now ts s) = map tkId (filter (timed_out probe timeout now) ts) \<and>
      map_of (svTasks (snd (reconcile_tasks probe timeout now ts s))) k =
        (case find (\<lambda>t. tkId t = k \<and> timed_out probe timeout now t) ts of
           Some t \<Rightarrow> Some (t\<lparr>tkStatus := TS_TIMEOUT, tkUpdatedAt := now\<rparr>) | None \<Rightarrow> map_of (svTasks s) k)"
      using Cons.IH Cons.prems(1) by simp
    moreover have "find (\<lambda>t. tkId t = k \<and> timed_out probe timeout now t) ts = None" if "tkId t = k"
      using that ne by (auto simp: find_None_iff)
    ultimately show ?thesis using True t s by (auto simp: UpdateTaskStatus_def split: prod.split option.split)
  qed (use Cons in simp)
qed simp

lemma keyed_values: "keyed_tasks sv \<Longrightarrow> distinct (keys (svTasks sv)) \<Longrightarrow> t \<in> set (map snd (svTasks sv)) \<Longrightarrow> map_of (svTasks sv) (tkId t) = Some t"
  by (force simp: keyed_tasks_def)

lemma keyed_ids:
  assumes "keyed_tasks sv" "distinct (keys (svTasks sv))"
  shows "map tkId (map snd (svTasks sv)) = keys (svTasks sv)"
  using assms by (auto simp: keyed_tasks_def)

text \<open>C19. The timeout scan marks exactly the running tasks whose last sign of life, the later of their last change and
  their last interaction log entry, is older than the limit, reports them in order, and touches no other.\<close>

theorem reconcile_exact:
  assumes "keyed_tasks sv" "distinct (keys (svTasks sv))" "map_of (svTasks sv) k = Some t"
  shows "fst (reconcile probe timeout now sv) = map tkId (filter (timed_out probe timeout now) (GetRunningTasks sv)) \<and>
    map_of (svTasks (snd (reconcile probe timeout now sv))) k =
      Some (if tkStatus t = TS_RUNNING \<and> now - max (tkUpdatedAt t) (case probe of None \<Rightarrow> tkUpdatedAt t
          | Some f \<Rightarrow> (case f k of None \<Rightarrow> tkUpdatedAt t | Some ts \<Rightarrow> ts)) > timeout
        then t\<lparr>tkStatus := TS_TIMEOUT, tkUpdatedAt := now\<rparr> else t)"
proof -
  have run: "\<forall>u \<in> set (GetRunningTasks sv). map_of (svTasks sv) (tkId u) = Some u \<and> tkStatus u = TS_RUNNING"
    using keyed_values[OF assms(1,2)] by (auto simp: GetRunningTasks_def)
  have "distinct (map tkId (map snd (svTasks sv)))" unfolding keyed_ids[OF assms(1,2)] by (rule assms(2))
  then have d: "distinct (map tkId (GetRunningTasks sv))"
    unfolding GetRunningTasks_def by (rule distinct_map_filter)
  have k: "tkId t = k" using assms(1,3) by (simp add: keyed_tasks_def)
  have found: "find (\<lambda>u. tkId u = k \<and> timed_out probe timeout now u) (GetRunningTasks sv) =
    (if tkStatus t = TS_RUNNING \<and> timed_out probe timeout now t then Some t else None)"
  proof -
    have "u = t" if "u \<in> set (GetRunningTasks sv)" "tkId u = k" for u using run that assms(3) by auto
    moreover have "t \<in> set (GetRunningTasks sv)" if "tkStatus t = TS_RUNNING"
      using that map_of_SomeD[OF assms(3)] by (force simp: GetRunningTasks_def)
    ultimately show ?thesis using run k
      by (cases "find (\<lambda>u. tkId u = k \<and> timed_out probe timeout now u) (GetRunningTasks sv)")
        (auto simp: find_None_iff find_Some_iff dest: nth_mem)
  qed
  have "timed_out probe timeout now t \<longleftrightarrow> now - max (tkUpdatedAt t) (case probe of None \<Rightarrow> tkUpdatedAt t
      | Some f \<Rightarrow> (case f k of None \<Rightarrow> tkUpdatedAt t | Some ts \<Rightarrow> ts)) > timeout"
    using k by (simp add: timed_out_def last_activity_def max_def split: option.split)
  then show ?thesis using reconcile_tasks_exact[OF d run, of probe timeout now k] found assms(3)
    by (auto simp: reconcile_def)
qed

section \<open>Applied\<close>

definition demo_request :: run_request where
  "demo_request = \<lparr>rrTask = ''t'', rrRequest = ''orch-t'', rrAgent = ''a'', rrPath = ''/src'', rrPrepare = None, rrGraph = None,
     rrIncremental = False\<rparr>"

definition demo_orch :: "orch_phase \<Rightarrow> orch" where
  "demo_orch p = \<lparr>oReq = demo_request, oAttempt = 0, oPhase = p, oCancelled = False\<rparr>"

definition serving :: "task_status \<Rightarrow> orch_phase \<Rightarrow> task_world" where
  "serving st p = (demo_world st)\<lparr>wOrchs := [demo_orch p]\<rparr>"

lemma serving_fields [simp]: "wSv (serving st p) = demo_service st" "wOrchs (serving st p) = [demo_orch p]"
  by (simp_all add: serving_def demo_world_def)

theorem orchestration_ends_witness:
  "done_as 0 ''t'' TS_DEAD (solo_run demo_env 0 [(1, OrchFailed ''x''), (2, OrchFailed ''y''), (3, OrchFailed ''z'')]
     (serving TS_RUNNING OReady))"
proof -
  have "solo_ready 0 ''t'' 0 (serving TS_RUNNING OReady)"
    by (simp add: solo_ready_def demo_orch_def demo_request_def demo_ok) (simp add: demo_task_def)
  from orchestration_ends[OF this, of demo_env "[(1, OrchFailed ''x''), (2, OrchFailed ''y''), (3, OrchFailed ''z'')]"]
  show ?thesis by (simp add: demo_env_def)
qed

theorem start_of_paused_task_doubles_it_witness:
  "\<exists>r s t1 w2. start_begin (\<lambda>_. Inl []) [] 9 ''t'' (demo_service TS_PAUSED) = (Inr (StartPending r False), s) \<and>
    start_finish [] [] 9 r False no_lookup ((serving TS_PAUSED (OParked (OrchOk (\<lambda>_. None)) 0))\<lparr>wSv := s\<rparr>) = (Inr t1, w2) \<and>
    length (wOrchs w2) = 2"
proof -
  let ?w = "serving TS_PAUSED (OParked (OrchOk (\<lambda>_. None)) 0)"
  have "plain_start ''t'' (demo_task TS_PAUSED) (wSv ?w)"
    by (simp add: plain_start_def demo_ok) (simp add: demo_task_def demo_service_def cfg_def)
  moreover have "tkStatus (demo_task TS_PAUSED) = TS_PAUSED" "live ''t'' (wOrchs ?w ! 0)"
    by (simp_all add: demo_task_def live_def demo_orch_def demo_request_def)
  ultimately show ?thesis
    using start_of_paused_task_doubles_it[of "''t''" "demo_task TS_PAUSED" ?w 0 "\<lambda>_. Inl []" "[]" 9 "[]"] by auto
qed

text \<open>A graph run that was frozen: its goroutine has returned and the task is PAUSED.\<close>

theorem resume_strands_unserved_task_witness:
  "\<exists>t1 w1. ResumeTask 9 ''t'' (serving TS_PAUSED OExited) = (Inr t1, w1) \<and> tkStatus t1 = TS_RUNNING \<and>
    (\<forall>x \<in> set (wOrchs w1). \<not> live ''t'' x)"
proof -
  have "map_of (svTasks (wSv (serving TS_PAUSED OExited))) ''t'' = Some (demo_task TS_PAUSED)" "tkId (demo_task TS_PAUSED) = ''t''"
    "tkStatus (demo_task TS_PAUSED) \<in> {TS_CREATED, TS_QUEUED, TS_PAUSED}" "\<forall>x \<in> set (wOrchs (serving TS_PAUSED OExited)). \<not> live ''t'' x"
    by (simp_all add: demo_ok live_def demo_orch_def) (simp_all add: demo_task_def)
  from resume_strands_unserved_task[OF this, of 9] show ?thesis by blast
qed

theorem reconcile_exact_witness:
  "fst (reconcile None 10 11 (demo_service TS_RUNNING)) = [''t''] \<and>
   map_of (svTasks (snd (reconcile None 10 11 (demo_service TS_RUNNING)))) ''t'' =
     Some ((demo_task TS_RUNNING)\<lparr>tkStatus := TS_TIMEOUT, tkUpdatedAt := 11\<rparr>)"
proof -
  have "distinct (keys (svTasks (demo_service TS_RUNNING)))" by (simp add: demo_service_def)
  from reconcile_exact[OF demo_ok(1) this demo_ok(3), of None 10 11]
  have "fst (reconcile None 10 11 (demo_service TS_RUNNING)) = map tkId (filter (timed_out None 10 11) (GetRunningTasks (demo_service TS_RUNNING)))"
    "map_of (svTasks (snd (reconcile None 10 11 (demo_service TS_RUNNING)))) ''t'' =
      Some ((demo_task TS_RUNNING)\<lparr>tkStatus := TS_TIMEOUT, tkUpdatedAt := 11\<rparr>)"
    by (simp_all add: demo_task_def)
  moreover have "map tkId (filter (timed_out None 10 11) (GetRunningTasks (demo_service TS_RUNNING))) = [''t'']"
    by (simp add: demo_service_def demo_task_def GetRunningTasks_def timed_out_def last_activity_def)
  ultimately show ?thesis by simp
qed

end
