(* ===== verification/Orchestrator.thy ===== *)
theory Orchestrator imports Main Prelude GoText Findings TaskState TaskRun begin

text \<open>
  The execution of one attempt of a task (\<open>task-service/internal/orchestrator/orchestrator.go\<close>,
  \<open>incremental.go\<close>): the pipelines of the scan modes, the calls to the other services, the stage events
  and the compensation of a failed attempt.

  What the other services answer is a record of arguments; a call that is made and a stage event that is
  recorded are entries of a trace, in order. Two goroutines that run in parallel give two traces, and the
  argument \<open>anMix\<close> says how they interleave. The range over a Go map is the order in which the answer lists
  the tools. A nil slice is the empty list; the origin of the task, which is passed on unread, is left out.
\<close>

section \<open>Requests, answers and the trace\<close>

record inc_snapshot =
  incActive :: bool
  incBaseline :: string
  incChanged :: "string list"
  incDeleted :: "string list"
  incDiff :: string

record orch_request =
  rqTask :: string
  rqRequest :: string
  rqPath :: string
  rqMode :: scan_mode
  rqTools :: "string list"
  rqPrepare :: bool
  rqIncr :: "inc_snapshot option"
  rqGraph :: "string option"
  rqAgent :: string

datatype scan_status = ScanUnspecified | ScanRunning | ScanCompleted | ScanFailed | ScanTimeout | ScanCancelled

fun scan_status_String :: "scan_status \<Rightarrow> string" where
  "scan_status_String ScanUnspecified = ''SCAN_STATUS_UNSPECIFIED''"
| "scan_status_String ScanRunning = ''SCAN_STATUS_RUNNING''"
| "scan_status_String ScanCompleted = ''SCAN_STATUS_COMPLETED''"
| "scan_status_String ScanFailed = ''SCAN_STATUS_FAILED''"
| "scan_status_String ScanTimeout = ''SCAN_STATUS_TIMEOUT''"
| "scan_status_String ScanCancelled = ''SCAN_STATUS_CANCELLED''"

fun direction_String :: "verdict_direction \<Rightarrow> string" where
  "direction_String DirUnspecified = ''VERDICT_DIRECTION_UNSPECIFIED''"
| "direction_String DirTrue = ''VERDICT_DIRECTION_TRUE''"
| "direction_String DirFalse = ''VERDICT_DIRECTION_FALSE''"

record tool_result =
  trTool :: string
  trStatus :: scan_status
  trIds :: "string list"

record ai_answer =
  aiCount :: int
  aiVerified :: int
  aiFalse :: int
  aiFixes :: nat
  aiIds :: "string list"
  aiDegraded :: bool

record graph_answer =
  gaTotal :: int
  gaCompleted :: int
  gaFailed :: int
  gaRejected :: int
  gaOpen :: int
  gaPaused :: bool
  gaConverged :: bool

record verified_answer =
  vaId :: string
  vaDirection :: verdict_direction
  vaConfidence :: rat

record review_answer =
  raScore :: rat
  raConclusion :: string
  raReviews :: nat
  raOpinions :: "(string \<times> int) list"

record fusion_answer =
  faTotal :: int
  faRemoved :: int
  faAdded :: int
  faMerged :: int

record compare_answer =
  caSast :: int
  caAi :: int
  caBoth :: int
  caSastOnly :: int
  caAiOnly :: int
  caDisagreement :: int

record stats_answer =
  saVerdict :: "(string \<times> int) list"
  saSeverity :: "(string \<times> int) list"
  saCwe :: "(string \<times> int) list"

datatype delete_answer = DeleteOk | DeleteNotFound | DeleteError

datatype rpc =
    RpcInherit string string string "string list"
  | RpcAnalyze string string string
  | RpcScans string string string "string list" "string list"
  | RpcAi string string string scan_mode string "string list" "string list" string
  | RpcGraph string string string string string
  | RpcVerify string string "string list" string string
  | RpcMissed string string string string
  | RpcReview string string string "string list"
  | RpcFuse string string "string list" "string list"
  | RpcCompare string "string list" "string list"
  | RpcVerdict string "string list" verdict_direction rat
  | RpcReport string string
  | RpcStats string
  | RpcDelete string

text \<open>A stage event, a line that only reaches the log, a call.\<close>

datatype act = Stage string string | Logged string string | Call rpc

record answers =
  anDial :: "string \<Rightarrow> string option"
  anPrepare :: "string + string"
  anInherit :: "string + (int \<times> int \<times> int)"
  anAnalyze :: "string + (nat \<times> string)"
  anScans :: "string + tool_result list"
  anAi :: "string + ai_answer"
  anGraph :: "string + graph_answer"
  anVerify :: "string + verified_answer list"
  anMissed :: "string + string list"
  anReview :: "string + review_answer option"
  anFuse :: "string + fusion_answer"
  anCompare :: "string + compare_answer"
  anVerdict :: "verdict_direction \<Rightarrow> rat \<Rightarrow> string option"
  anReport :: "string + (string \<times> string)"
  anStats :: "string + stats_answer"
  anDelete :: "string \<Rightarrow> delete_answer"
  anFloat :: "rat \<Rightarrow> string"
  anMix :: "act list \<Rightarrow> act list \<Rightarrow> act list"

text \<open>The attempt so far: the trace, the collected finding ids and the summary.\<close>

record attempt =
  atTrace :: "act list"
  atIds :: "string list"
  atSum :: "(string \<times> json) list"

datatype mode_end = ModeDone | ModeFailed string | ModeFrozen

definition acts :: "act list \<Rightarrow> attempt \<Rightarrow> attempt" where
  "acts tr e = e\<lparr>atTrace := atTrace e @ tr\<rparr>"

definition sum_put :: "string \<Rightarrow> json \<Rightarrow> attempt \<Rightarrow> attempt" where
  "sum_put k v e = e\<lparr>atSum := AList.update k v (atSum e)\<rparr>"

definition collect :: "string list \<Rightarrow> attempt \<Rightarrow> attempt" where
  "collect ids e = e\<lparr>atIds := atIds e @ ids\<rparr>"

definition jint :: "int \<Rightarrow> json" where "jint i = JNum (of_int i)"

definition jnat :: "nat \<Rightarrow> json" where "jnat n = JNum (of_nat n)"

definition jids :: "string list \<Rightarrow> json" where "jids ids = JArr (map JStr ids)"

definition jcounts :: "(string \<times> int) list \<Rightarrow> json" where
  "jcounts m = JObj (map (\<lambda>(k, n). (k, jint n)) m)"

definition go_strings :: "string list \<Rightarrow> string" where
  "go_strings xs = ''['' @ join_with '' '' xs @ '']''"

text \<open>The distinct elements in order of first occurrence.\<close>

fun remdups_first :: "'a list \<Rightarrow> 'a list" where
  "remdups_first [] = []"
| "remdups_first (x # xs) = x # filter (\<lambda>y. y \<noteq> x) (remdups_first xs)"

section \<open>Calls to the other services\<close>

definition inc_active :: "orch_request \<Rightarrow> inc_snapshot option" where
  "inc_active r = (case rqIncr r of Some s \<Rightarrow> if incActive s then Some s else None | None \<Rightarrow> None)"

text \<open>The path and whether the call degraded.\<close>

definition analyzeCode :: "orch_request \<Rightarrow> answers \<Rightarrow> (string \<times> bool) \<times> act list" where
  "analyzeCode r a =
    (let start = [Stage ''analyze'' ''submitting AnalyzeCode'']
     in case anDial a ''runtime'' of
          Some err \<Rightarrow> (([], True), start @ [Logged ''analyze'' (''dial runtime failed (degraded): '' @ err), Stage ''done:analyze'' ''dial failed (degraded)''])
        | None \<Rightarrow>
            (let tr = start @ [Call (RpcAnalyze (rqRequest r @ ''-analyze'') (rqTask r) (rqPath r))]
             in case anAnalyze a of
                  Inl err \<Rightarrow> (([], True), tr @ [Stage ''analyze'' (''AnalyzeCode degraded: '' @ err),
                    Stage ''done:analyze'' ''degraded to AST semantics''])
                | Inr (files, path) \<Rightarrow> ((path, False), tr @ [Stage ''analyze'' (''AnalyzeCode ok files='' @ nat_digits files),
                    Stage ''done:analyze'' ''cpg ready''])))"

text \<open>The ids and whether every tool failed.\<close>

definition runMultipleScans :: "orch_request \<Rightarrow> answers \<Rightarrow> (string list \<times> bool) \<times> act list" where
  "runMultipleScans r a =
    (let start = [Stage ''scans'' (''submitting RunMultipleScans tools='' @ go_strings (rqTools r))]
     in case anDial a ''sast-adapter'' of
          Some err \<Rightarrow> (([], True), start @ [Logged ''scans'' (''dial sast-adapter failed: '' @ err)])
        | None \<Rightarrow>
            if map_option incChanged (inc_active r) = Some []
            then (([], False), start @ [Stage ''scans'' ((utf8 [229, 162, 158, 233, 135, 143, 233, 155,
                182, 229, 143, 152, 230, 155, 180, 239, 188, 154] @ ''SAST '' @ utf8 [233, 155, 182,
                232, 176, 131, 231, 148, 168, 239, 188, 136] @ ''findings '' @ utf8 [229, 133, 168,
                231, 187, 167, 230, 137, 191, 239, 188, 137])), Stage ''done:sast'' ''zero-change skip''])
            else
              (let tr = start @ [Call (RpcScans (rqRequest r @ ''-scans'') (rqTask r) (rqPath r) (rqTools r)
                     (case inc_active r of Some s \<Rightarrow> incChanged s | None \<Rightarrow> []))]
               in case anScans a of
                    Inl err \<Rightarrow> (([], True), tr @ [Logged ''scans'' (''RunMultipleScans failed: '' @ err)])
                  | Inr ts \<Rightarrow>
                      (let ids = concat (map trIds ts);
                           allFailed = (ts = [] \<or> (\<forall>t \<in> set ts. trStatus t = ScanFailed));
                           lines = map (\<lambda>t. Stage ''scans'' (''tool='' @ trTool t @ '' status='' @
                             scan_status_String (trStatus t) @ '' findings='' @ nat_digits (length (trIds t)))) ts
                       in ((ids, allFailed), tr @ lines @
                            (if allFailed then [] else [Stage ''done:sast''
                              (nat_digits (length ids) @ '' findings from '' @ nat_digits (length ts) @ '' tools'')])))))"

definition runAIAnalysis :: "orch_request \<Rightarrow> answers \<Rightarrow> (string + ai_answer) \<times> act list" where
  "runAIAnalysis r a = (case anDial a ''runtime'' of
     Some err \<Rightarrow> (Inl (''dial runtime: '' @ err), [])
   | None \<Rightarrow>
       (let tr = [Stage ''ai'' ''submitting RunAIAnalysis'',
            Call (RpcAi (rqRequest r @ ''-ai'') (rqTask r) (rqPath r) (rqMode r) (rqAgent r)
              (case inc_active r of Some s \<Rightarrow> incChanged s | None \<Rightarrow> [])
              (case inc_active r of Some s \<Rightarrow> incDeleted s | None \<Rightarrow> [])
              (case inc_active r of Some s \<Rightarrow> incDiff s | None \<Rightarrow> []))]
        in case anAi a of
             Inl err \<Rightarrow> (Inl (''RunAIAnalysis: '' @ err), tr)
           | Inr x \<Rightarrow> (Inr x, tr @
               (if aiDegraded x then [Stage ''ai'' ((''['' @ utf8 [233, 153, 141, 231, 186, 167] @
                   ''] RuleScan '' @ utf8 [229, 133, 156, 229, 186, 149, 239, 188, 136, 230, 178, 153,
                   231, 174, 177, 232, 183, 175, 229, 190, 132, 228, 184, 141, 229, 143, 175, 232, 190,
                   190, 239, 188, 137, 226, 128, 148, 226, 128, 148, 229, 143, 145, 231, 142, 176, 231,
                   148, 177, 229, 134, 133, 231, 189, 174, 232, 167, 132, 229, 136, 153, 229, 188, 149,
                   230, 147, 142, 228, 186, 167, 229, 135, 186, 239, 188, 140, 229, 133, 168, 233, 131,
                   168, 233, 156, 128, 228, 186, 186, 229, 183, 165, 229, 164, 141, 230, 160,
                   184]))] else []) @
               [Stage ''ai'' (''ai_findings='' @ int_digits (aiCount x) @ '' verified='' @ int_digits (aiVerified x) @
                  '' fp='' @ int_digits (aiFalse x) @ '' sug='' @ nat_digits (aiFixes x)),
                Stage ''done:ai'' ''RunAIAnalysis settled''])))"

definition verifySASTResults :: "orch_request \<Rightarrow> answers \<Rightarrow> string list \<Rightarrow> (string + verified_answer list) \<times> act list" where
  "verifySASTResults r a ids =
    (if ids = [] then (Inr [], [Stage ''verify'' ''no SAST findings to verify (degraded side), skipping 4a''])
     else case anDial a ''runtime'' of
       Some err \<Rightarrow> (Inl (''dial runtime: '' @ err), [])
     | None \<Rightarrow>
         (let tr = [Stage ''verify'' (''submitting '' @ nat_digits (length ids) @ '' findings for sandbox review''),
              Call (RpcVerify (rqRequest r @ ''-verify'') (rqTask r) ids (rqPath r) (rqAgent r))]
          in case anVerify a of
               Inl err \<Rightarrow> (Inl (''VerifySASTResults: '' @ err), tr)
             | Inr vs \<Rightarrow> (Inr vs, tr @ [Stage ''verify'' (nat_digits (length vs) @ '' findings verified'')])))"

definition searchMissedVulns :: "orch_request \<Rightarrow> answers \<Rightarrow> (string + string list) \<times> act list" where
  "searchMissedVulns r a = (case anDial a ''runtime'' of
     Some err \<Rightarrow> (Inl (''dial runtime: '' @ err), [])
   | None \<Rightarrow>
       (let tr = [Stage ''missed'' ''submitting full-project sandbox audit'', Call (RpcMissed (rqRequest r @ ''-missed'') (rqTask r) (rqPath r) (rqAgent r))]
        in case anMissed a of
             Inl err \<Rightarrow> (Inl (''SearchMissedVulns: '' @ err), tr)
           | Inr ids \<Rightarrow> (Inr ids, tr @ [Stage ''missed''
               (nat_digits (length ids) @ '' missed findings (source_tool=ai_agent)'')])))"

definition reviewSASTResults :: "orch_request \<Rightarrow> answers \<Rightarrow> string list \<Rightarrow> (string + review_answer option) \<times> act list" where
  "reviewSASTResults r a ids = (case anDial a ''runtime'' of
     Some err \<Rightarrow> (Inl (''dial runtime: '' @ err), [])
   | None \<Rightarrow>
       (let tr = [Stage ''review'' (''submitting '' @ nat_digits (length ids) @ '' findings for review''),
            Call (RpcReview (rqRequest r @ ''-review'') (rqTask r) (rqPath r) ids)]
        in case anReview a of
             Inl err \<Rightarrow> (Inl (''ReviewSASTResults: '' @ err), tr)
           | Inr rep \<Rightarrow> (Inr rep, tr @ [Stage ''review''
               (''reviews='' @ nat_digits (case rep of Some x \<Rightarrow> raReviews x | None \<Rightarrow> 0)), Stage ''done:review'' ''review settled''])))"

definition fuseResults :: "orch_request \<Rightarrow> answers \<Rightarrow> string list \<Rightarrow> string list \<Rightarrow> (string + fusion_answer) \<times> act list" where
  "fuseResults r a sastIDs aiIDs = (case anDial a ''sast-adapter'' of
     Some err \<Rightarrow> (Inl (''dial sast-adapter: '' @ err), [])
   | None \<Rightarrow>
       (let tr = [Stage ''fusion'' ''submitting FuseResults'', Call (RpcFuse (rqRequest r @ ''-fuse'') (rqTask r) sastIDs aiIDs)]
        in case anFuse a of
             Inl err \<Rightarrow> (Inl (''FuseResults: '' @ err), tr)
           | Inr x \<Rightarrow> (Inr x, tr @ [Stage ''done:fusion'' ''fusion settled''])))"

definition compareResults :: "orch_request \<Rightarrow> answers \<Rightarrow> string list \<Rightarrow> string list \<Rightarrow> (string + (string \<times> int) list) \<times> act list" where
  "compareResults r a sastIDs aiIDs = (case anDial a ''sast-adapter'' of
     Some err \<Rightarrow> (Inl (''dial sast-adapter: '' @ err), [])
   | None \<Rightarrow>
       (let tr = [Stage ''compare'' ''submitting CompareResults'', Call (RpcCompare (rqTask r) sastIDs aiIDs)]
        in case anCompare a of
             Inl err \<Rightarrow> (Inl (''CompareResults: '' @ err), tr)
           | Inr x \<Rightarrow> (Inr [(''sast_total'', caSast x), (''ai_total'', caAi x), (''both_found'', caBoth x),
                 (''sast_only'', caSastOnly x), (''ai_only'', caAiOnly x), (''disagreement'', caDisagreement x)],
               tr @ [Stage ''compare'' (''both='' @ int_digits (caBoth x) @ '' sast_only='' @ int_digits (caSastOnly x) @
                 '' ai_only='' @ int_digits (caAiOnly x) @ '' disagreement='' @ int_digits (caDisagreement x)),
                 Stage ''done:fusion'' ''comparison settled''])))"

text \<open>One call for each pair of direction and confidence, in order of first occurrence, until one fails.\<close>

definition verdict_groups :: "verified_answer list \<Rightarrow> ((verdict_direction \<times> rat) \<times> string list) list" where
  "verdict_groups vs = map (\<lambda>k. (k, map vaId (filter (\<lambda>v. (vaDirection v, vaConfidence v) = k) vs)))
     (remdups_first (map (\<lambda>v. (vaDirection v, vaConfidence v)) vs))"

fun update_groups :: "orch_request \<Rightarrow> answers \<Rightarrow> ((verdict_direction \<times> rat) \<times> string list) list \<Rightarrow> string option \<times> act list" where
  "update_groups r a [] = (None, [])"
| "update_groups r a (((v, c), ids) # gs) =
    (let call = Call (RpcVerdict (rqRequest r @ ''-verdict-'' @ direction_String v @ ''-'' @ anFloat a c) ids v c)
     in case anVerdict a v c of
          Some err \<Rightarrow> (Some err, [call])
        | None \<Rightarrow> (let (res, tr) = update_groups r a gs in (res, call # tr)))"

definition batchUpdateVerdict :: "orch_request \<Rightarrow> answers \<Rightarrow> verified_answer list \<Rightarrow> string option \<times> act list" where
  "batchUpdateVerdict r a vs =
    (if vs = [] then (None, [])
     else case anDial a ''result'' of
       Some err \<Rightarrow> (Some (''dial result-service: '' @ err), [])
     | None \<Rightarrow>
         (let gs = verdict_groups vs; (res, tr) = update_groups r a gs
          in (res, tr @ (if res = None then [Stage ''verdict'' (''updated in '' @ nat_digits (length gs) @ '' groups'')] else []))))"

definition generateReport :: "orch_request \<Rightarrow> answers \<Rightarrow> string \<Rightarrow> mode_end \<times> act list" where
  "generateReport r a stageName = (case anDial a ''result'' of
     Some err \<Rightarrow> (ModeFailed (''dial result-service: '' @ err), [])
   | None \<Rightarrow>
       (let tr = [Stage stageName ''submitting GenerateReport'', Call (RpcReport (rqRequest r @ ''-report'') (rqTask r))]
        in case anReport a of
             Inl err \<Rightarrow> (ModeDone, tr @ [Stage stageName (''GenerateReport degraded: '' @ err)])
           | Inr (rid, url) \<Rightarrow> (ModeDone, tr @ [Stage stageName (''report generated: '' @ rid @ '' url='' @ url),
               Stage ''done:report'' ''report settled''])))"

section \<open>The pipelines\<close>

definition finish_report :: "orch_request \<Rightarrow> answers \<Rightarrow> string \<Rightarrow> attempt \<Rightarrow> mode_end \<times> attempt" where
  "finish_report r a stageName e = (let (res, tr) = generateReport r a stageName in (res, acts tr e))"

definition fusion_summary :: "fusion_answer \<Rightarrow> attempt \<Rightarrow> attempt" where
  "fusion_summary x e = sum_put ''fusion_merged'' (jint (faMerged x)) (sum_put ''fusion_added_ai'' (jint (faAdded x))
     (sum_put ''fusion_removed_fp'' (jint (faRemoved x)) (sum_put ''fusion_total'' (jint (faTotal x)) e)))"

definition fuseAndSummarize :: "orch_request \<Rightarrow> answers \<Rightarrow> string list \<Rightarrow> string list \<Rightarrow> attempt \<Rightarrow> attempt" where
  "fuseAndSummarize r a sastIDs aiIDs e =
    (let (res, tr) = fuseResults r a sastIDs aiIDs; e1 = acts tr e
     in case res of
          Inl err \<Rightarrow> sum_put ''fusion_degraded'' (JBool True) (acts [Stage ''S7'' (''fusion degraded, raw results kept: '' @ err)] e1)
        | Inr x \<Rightarrow> fusion_summary x e1)"

definition sast_summary :: "string list \<Rightarrow> attempt \<Rightarrow> attempt" where
  "sast_summary ids e = collect ids (sum_put ''sast_findings'' (jnat (length ids)) (sum_put ''sast_finding_ids'' (jids ids) e))"

definition runModeSastOnly :: "orch_request \<Rightarrow> answers \<Rightarrow> attempt \<Rightarrow> mode_end \<times> attempt" where
  "runModeSastOnly r a e =
    (let ((ids, allFailed), tr) = runMultipleScans r a; e1 = acts tr e
     in if allFailed then (ModeFailed ((''stage RunMultipleScans produced no results ('' @ utf8 [230,
         168, 161, 229, 188, 143] @ ''A '' @ utf8 [231, 186, 175] @ ''SAST '' @ utf8 [229, 148, 175,
         228, 184, 128, 229, 134, 133, 229, 174, 185, 230, 157, 165, 230, 186, 144] @ '', ADR-182)'')), e1)
        else finish_report r a ''S9-report'' (fuseAndSummarize r a ids [] (sast_summary ids e1)))"

definition runModeA :: "orch_request \<Rightarrow> answers \<Rightarrow> attempt \<Rightarrow> mode_end \<times> attempt" where
  "runModeA r a e =
    (let ((path, _), tr) = analyzeCode r a; e1 = sum_put ''cpg_storage_path'' (JStr path) (acts tr e);
         (res, tr2) = runAIAnalysis r a; e2 = acts tr2 e1
     in case res of
          Inl err \<Rightarrow> (ModeFailed err, e2)
        | Inr x \<Rightarrow> finish_report r a ''S9-report'' (collect (aiIds x)
            (sum_put ''ai_finding_ids'' (jids (aiIds x)) (sum_put ''fix_suggestions'' (jnat (aiFixes x))
              (sum_put ''verified'' (jint (aiVerified x)) (sum_put ''ai_findings'' (jint (aiCount x)) e2))))))"

definition by_direction :: "verified_answer list \<Rightarrow> json" where
  "by_direction vs = JObj (map (\<lambda>d. (d, jnat (length (filter (\<lambda>v. direction_String (vaDirection v) = d) vs))))
     (remdups_first (map (direction_String \<circ> vaDirection) vs)))"

definition write_verdicts :: "orch_request \<Rightarrow> answers \<Rightarrow> verified_answer list \<Rightarrow> attempt \<Rightarrow> attempt" where
  "write_verdicts r a vs e =
    (let (res, tr) = batchUpdateVerdict r a vs; e1 = acts tr e
     in case res of
          Some err \<Rightarrow> acts [Stage ''S8'' (''BatchUpdateVerdict degraded: '' @ err)] e1
        | None \<Rightarrow> sum_put ''verdict_updated'' (jnat (length vs)) e1)"

definition runModeB :: "orch_request \<Rightarrow> answers \<Rightarrow> attempt \<Rightarrow> mode_end \<times> attempt" where
  "runModeB r a e =
    (let ((sastIDs, sastAllFailed), tr1) = runMultipleScans r a; ((cpgPath, cpgDegrade), tr2) = analyzeCode r a;
         e1 = acts (anMix a tr1 tr2) e
     in if sastAllFailed \<and> cpgDegrade
        then (ModeFailed ((''stage2 both branches failed: RunMultipleScans produced no results and AnalyzeCode degraded (04 '' @ utf8 [194, 167] @ ''2 S5)'')), e1)
        else
          (let e2 = (if sastAllFailed then sum_put ''sast_degraded'' (JBool True)
                       (acts [Stage ''S5'' ((''partial results: SAST side failed, continuing with CPG side (04 '' @ utf8 [194, 167] @ ''2 S5)''))] e1) else e1);
               e3 = (if cpgDegrade then sum_put ''cpg_degraded'' (JBool True) e2 else e2);
               e4 = sast_summary sastIDs (sum_put ''cpg_storage_path'' (JStr cpgPath)
                      (acts [Stage ''S5'' ''parallel join done (2a SAST + 2b CPG)''] e3));
               (vres, vtr) = verifySASTResults r a sastIDs; e5 = acts vtr e4
           in case vres of
                Inl err \<Rightarrow> (ModeFailed err, e5)
              | Inr vs \<Rightarrow>
                  (let e6 = sum_put ''verified_by_verdict'' (by_direction vs) e5;
                       (mres, mtr) = searchMissedVulns r a; e7 = acts mtr e6
                   in case mres of
                        Inl err \<Rightarrow> (ModeFailed err, e7)
                      | Inr missedIDs \<Rightarrow>
                          (let e8 = acts [Stage ''done:ai'' (''4a+4b settled: verified='' @ nat_digits (length vs) @
                                 '' missed='' @ nat_digits (length missedIDs))]
                                 (collect missedIDs (sum_put ''ai_finding_ids'' (jids missedIDs)
                                   (sum_put ''missed_findings'' (jnat (length missedIDs)) e7)));
                               e9 = write_verdicts r a vs e8;
                               (fres, ftr) = fuseResults r a sastIDs missedIDs; e10 = acts ftr e9;
                               e11 = (case fres of
                                        Inl err \<Rightarrow> acts [Stage ''S7'' (''fusion degraded, raw results kept: '' @ err)] e10
                                      | Inr x \<Rightarrow> fusion_summary x e10)
                           in finish_report r a ''S9-report'' e11))))"

definition runModeParallel :: "orch_request \<Rightarrow> answers \<Rightarrow> attempt \<Rightarrow> mode_end \<times> attempt" where
  "runModeParallel r a e =
    (let ((sastIDs, sastAllFailed), tr1) = runMultipleScans r a; (ares, tr2) = runAIAnalysis r a;
         e1 = acts (anMix a tr1 tr2) e;
         aiIDs = (case ares of Inr x \<Rightarrow> aiIds x | Inl _ \<Rightarrow> []); fixN = (case ares of Inr x \<Rightarrow> aiFixes x | Inl _ \<Rightarrow> 0);
         aiN = (case ares of Inr x \<Rightarrow> aiCount x | Inl _ \<Rightarrow> 0)
     in if sastAllFailed \<and> isl ares
        then (ModeFailed ((''parallel audit both sides failed: RunMultipleScans produced no results and RunAIAnalysis errored (04 '' @ utf8 [194, 167] @ ''2 S5)'')), e1)
        else
          (let e2 = (if sastAllFailed then sum_put ''sast_degraded'' (JBool True)
                       (acts [Stage ''S5'' ((''partial results: SAST side failed (04 '' @ utf8 [194,
                           167] @ ''2 S5)''))] e1) else e1);
               e3 = (case ares of
                       Inl err \<Rightarrow> sum_put ''ai_degraded'' (JBool True)
                         (acts [Stage ''S5'' (((''partial results: AI side failed (04 '' @ utf8 [194,
                             167] @ ''2 S5): '')) @ err)] e2)
                     | Inr _ \<Rightarrow> e2);
               e4 = collect aiIDs (collect sastIDs (sum_put ''fix_suggestions'' (jnat fixN) (sum_put ''ai_findings'' (jint aiN)
                      (sum_put ''sast_findings'' (jnat (length sastIDs)) (sum_put ''ai_finding_ids'' (jids aiIDs)
                        (sum_put ''sast_finding_ids'' (jids sastIDs) e3))))))
           in if rqMode r = ModeCompare
              then (let (cres, ctr) = compareResults r a sastIDs aiIDs; e5 = acts ctr e4
                    in case cres of
                         Inl err \<Rightarrow> (ModeFailed err, e5)
                       | Inr m \<Rightarrow> finish_report r a ''S9-report'' (sum_put ''comparison'' (jcounts m) e5))
              else finish_report r a ''S9-report'' (fuseAndSummarize r a sastIDs aiIDs e4)))"

definition runModeDEnhanced :: "orch_request \<Rightarrow> answers \<Rightarrow> attempt \<Rightarrow> mode_end \<times> attempt" where
  "runModeDEnhanced r a e =
    (let ((ids, allFailed), tr) = runMultipleScans r a; e1 = acts tr e
     in if allFailed then (ModeFailed ((''stage RunMultipleScans produced no results ('' @ utf8 [230,
         168, 161, 229, 188, 143] @ ''D AI'' @ utf8 [229, 162, 158, 229, 188, 186] @ ''SAST: SAST'' @
         utf8 [230, 137, 171, 230, 143, 143, 228, 184, 186, 229, 148, 175, 228, 184, 128, 229, 134,
         133, 229, 174, 185, 230, 157, 165, 230, 186, 144] @ '', ADR-186)'')), e1)
        else
          (let e2 = sast_summary ids e1; (vres, vtr) = verifySASTResults r a ids; e3 = acts vtr e2
           in case vres of
                Inl err \<Rightarrow> (ModeFailed err, e3)
              | Inr vs \<Rightarrow>
                  (let e4 = acts [Stage ''done:ai'' (''verify settled: verified='' @ nat_digits (length vs))]
                         (sum_put ''verified_by_verdict'' (by_direction vs) e3)
                   in finish_report r a ''S9-report'' (fuseAndSummarize r a ids [] (write_verdicts r a vs e4)))))"

definition runModeD :: "orch_request \<Rightarrow> answers \<Rightarrow> attempt \<Rightarrow> mode_end \<times> attempt" where
  "runModeD r a e =
    (let ((ids, allFailed), tr) = runMultipleScans r a; e1 = acts tr e
     in if allFailed then (ModeFailed ((''stage2 RunMultipleScans produced no results (04 '' @
         utf8 [194, 167] @ ''3.4 '' @ utf8 [233, 152, 182, 230, 174, 181] @ ''2'' @ utf8 [228, 184,
         186, 229, 148, 175, 228, 184, 128, 229, 134, 133, 229, 174, 185, 230, 157, 165, 230, 186,
         144] @ '')'')), e1)
        else
          (let e2 = sast_summary ids e1; (rres, rtr) = reviewSASTResults r a ids; e3 = acts rtr e2
           in case rres of
                Inl err \<Rightarrow> (ModeFailed err, e3)
              | Inr rep \<Rightarrow> finish_report r a ''S4-report''
                  (case rep of
                     None \<Rightarrow> e3
                   | Some x \<Rightarrow> sum_put ''review_by_opinion'' (jcounts (raOpinions x)) (sum_put ''review_count'' (jnat (raReviews x))
                       (sum_put ''review_conclusion'' (JStr (raConclusion x)) (sum_put ''review_quality_score'' (JNum (raScore x)) e3))))))"

definition runGraphTask :: "string \<Rightarrow> orch_request \<Rightarrow> answers \<Rightarrow> attempt \<Rightarrow> mode_end \<times> attempt" where
  "runGraphTask graph r a e = (case anDial a ''runtime'' of
     Some err \<Rightarrow> (ModeFailed (''dial runtime: '' @ err), e)
   | None \<Rightarrow>
       (let e1 = acts [Stage ''graph'' ''submitting RunGraphTask'', Call (RpcGraph (rqRequest r @ ''-graph'') (rqTask r) (rqPath r) graph (rqAgent r))] e
        in case anGraph a of
             Inl err \<Rightarrow> (ModeFailed (''RunGraphTask: '' @ err), e1)
           | Inr g \<Rightarrow>
               (let counts = '' completed='' @ int_digits (gaCompleted g) @ '' failed='' @ int_digits (gaFailed g) @
                      '' rejected='' @ int_digits (gaRejected g);
                    e2 = sum_put ''graph_nodes_rejected'' (jint (gaRejected g)) (sum_put ''graph_nodes_failed'' (jint (gaFailed g))
                      (sum_put ''graph_nodes_completed'' (jint (gaCompleted g)) (sum_put ''graph_nodes_total'' (jint (gaTotal g)) e1)))
                in if gaPaused g
                   then (ModeFrozen, sum_put ''graph_paused'' (JBool True)
                     (acts [Stage ''graph'' (((utf8 [229, 155, 190, 228, 187, 187, 229, 138, 161, 230,
                         140, 130, 232, 181, 183, 239, 188, 136] @ ''graph.paused '' @ utf8 [229, 174,
                         154, 230, 160, 188, 239, 188, 154] @ ''open '' @ utf8 [229, 156, 168, 233,
                         128, 148] @ '' '')) @ int_digits (gaOpen g) @ ((utf8 [239, 188, 137])))] e2))
                   else if \<not> gaConverged g
                   then (ModeFailed (''graph task ended unconverged: nodes='' @ int_digits (gaTotal g) @ counts), e2)
                   else (ModeDone, acts [Stage ''done:graph'' (''graph converged: nodes='' @ int_digits (gaTotal g) @ counts)] e2))))"

section \<open>One attempt\<close>

definition runIncrementalInherit :: "orch_request \<Rightarrow> answers \<Rightarrow> string option \<times> act list" where
  "runIncrementalInherit r a = (case inc_active r of
     None \<Rightarrow> (None, [])
   | Some s \<Rightarrow> (case anDial a ''result'' of
       Some err \<Rightarrow> (Some (''dial result-service for inherit: '' @ err), [])
     | None \<Rightarrow>
         (let call = Call (RpcInherit (rqTask r @ ''-inherit'') (incBaseline s) (rqTask r) (incChanged s @ incDeleted s))
          in case anInherit a of
               Inl err \<Rightarrow> (Some (''InheritFindings: '' @ err), [call])
             | Inr (inherited, skipped, failed) \<Rightarrow>
                 if failed > 0
                 then (Some (((''InheritFindings '' @ utf8 [233, 131, 168, 229, 136, 134, 229, 164,
                     177, 232, 180, 165, 239, 188, 154, 231, 187, 167, 230, 137, 191] @ '' '')) @
                     int_digits (int32 (inherited + failed)) @ (('' '' @ utf8 [230, 157, 161, 228, 184, 173] @
                     '' '')) @ int_digits failed @
                   (('' '' @ utf8 [230, 157, 161, 232, 144, 189, 229, 186, 147, 229, 164, 177, 232,
                       180, 165, 239, 188, 136] @ ''FailedCount='')) @ int_digits failed @ ((utf8 [239,
                       188, 137]))), [call])
                 else (None, [call, Stage ''incremental'' (((utf8 [229, 159, 186, 231, 186, 191] @
                     '' '')) @ incBaseline s @ ((utf8 [239, 188, 154, 231, 187, 167, 230, 137, 191] @
                     '' '')) @ int_digits inherited @
                   (('' '' @ utf8 [230, 157, 161, 239, 188, 136, 232, 183, 179, 232, 191, 135, 229,
                       143, 152, 230, 155, 180] @ ''/'' @ utf8 [229, 136, 160, 233, 153, 164, 230, 150,
                       135, 228, 187, 182] @ '' '')) @ int_digits skipped @ (('' '' @ utf8 [230, 157,
                       161, 239, 188, 137])))]))))"

definition run_mode :: "orch_request \<Rightarrow> answers \<Rightarrow> attempt \<Rightarrow> mode_end \<times> attempt" where
  "run_mode r a e =
    (case rqGraph r of Some graph \<Rightarrow> runGraphTask graph r a e
   | None \<Rightarrow> (case rqMode r of
       SastOnly \<Rightarrow> runModeSastOnly r a e
     | AiOnly \<Rightarrow> runModeA r a e
     | AiEnhancedSast \<Rightarrow> runModeDEnhanced r a e
     | Parallel \<Rightarrow> runModeParallel r a e
     | ModeCompare \<Rightarrow> runModeParallel r a e
     | TraditionalFirst \<Rightarrow> runModeB r a e
     | SastReview \<Rightarrow> runModeD r a e
     | ModeUnspecified \<Rightarrow> (ModeFailed ((''unsupported scan_mode: SCAN_MODE_UNSPECIFIED (ADR-186 '' @ utf8 [228, 186, 148, 230, 168, 161, 229, 188, 143] @ '')'')), e)))"

text \<open>The deletions one by one, whatever each answers; deleted and missed are counted.\<close>

fun delete_each :: "answers \<Rightarrow> string list \<Rightarrow> nat \<times> nat \<Rightarrow> act list \<times> nat \<times> nat" where
  "delete_each a [] n = ([], n)"
| "delete_each a (k # ks) (deleted, missed) =
    (let (tr, n) = delete_each a ks (if anDelete a k = DeleteError then (deleted, missed + 1) else (deleted + 1, missed))
     in (Call (RpcDelete k) # tr, n))"

definition compensateFindings :: "answers \<Rightarrow> string list \<Rightarrow> act list" where
  "compensateFindings a ids =
    (if ids = [] then []
     else case anDial a ''result'' of
       Some err \<Rightarrow> [Logged ''S8-compensate'' (''dial result-service failed, findings not rolled back: '' @ err)]
     | None \<Rightarrow>
         (let (tr, deleted, missed) = delete_each a ids (0, 0)
          in tr @ [Logged ''S8-compensate'' (''deleted='' @ nat_digits deleted @ '' missed='' @ nat_digits missed @
               '' of '' @ nat_digits (length ids))]))"

definition final_stats :: "orch_request \<Rightarrow> answers \<Rightarrow> attempt \<Rightarrow> attempt" where
  "final_stats r a e = (case anDial a ''result'' of
     Some _ \<Rightarrow> e
   | None \<Rightarrow>
       (let e1 = acts [Call (RpcStats (rqTask r))] e
        in case anStats a of
             Inl _ \<Rightarrow> e1
           | Inr s \<Rightarrow> sum_put ''stored_total'' (jint (int32 (sum_list (map snd (saVerdict s)))))
               (sum_put ''by_cwe'' (jcounts (saCwe s)) (sum_put ''by_severity'' (jcounts (saSeverity s))
                 (sum_put ''by_verdict'' (jcounts (saVerdict s)) e1)))))"

definition Orchestrate :: "orch_request \<Rightarrow> answers \<Rightarrow> mode_end \<times> attempt" where
  "Orchestrate r0 a =
    (let e0 = \<lparr>atTrace = [], atIds = [], atSum = []\<rparr>
     in case (if rqPrepare r0 then map_sum id (\<lambda>p. r0\<lparr>rqPath := p\<rparr>) (anPrepare a) else Inr r0) of
          Inl err \<Rightarrow> (ModeFailed (''prepare: '' @ err), e0)
        | Inr r \<Rightarrow>
            (let e1 = acts [Stage ''S1'' ''task accepted''] e0;
                 (ierr, itr) = runIncrementalInherit r a; e2 = acts itr e1
             in case ierr of
                  Some err \<Rightarrow> (ModeFailed err, acts (compensateFindings a (atIds e2)) e2)
                | None \<Rightarrow>
                    (let (res, e3) = run_mode r a e2
                     in if res \<noteq> ModeDone then (res, acts (compensateFindings a (atIds e3)) e3)
                        else (ModeDone, final_stats r a e3))))"

text \<open>What the goroutine of the task sees.\<close>

definition Execute_result :: "mode_end \<times> attempt \<Rightarrow> orch_result" where
  "Execute_result x = (case fst x of
     ModeDone \<Rightarrow> OrchOk (map_of (atSum (snd x)))
   | ModeFailed err \<Rightarrow> OrchFailed err
   | ModeFrozen \<Rightarrow> OrchGraphPaused (map_of (atSum (snd x))))"

end
