(* ===== verification/OrchRules.thy ===== *)
theory OrchRules imports Main "HOL-Library.Multiset" Prelude GoText Findings TaskState TaskRun Orchestrator begin

text \<open>
  The ids in the trace of an attempt: which ids the calls reported, which were deleted, and that the collected list is the
  difference at every point of every mode (\<open>owes\<close>).
\<close>

declare Let_def [simp]

section \<open>Ids in a trace\<close>

fun ids_of_tools :: "string + tool_result list \<Rightarrow> string list" where
  "ids_of_tools (Inl _) = []"
| "ids_of_tools (Inr ts) = concat (map trIds ts)"

fun reported_by :: "answers \<Rightarrow> act \<Rightarrow> string list" where
  "reported_by a (Call (RpcScans _ _ _ _ _)) = ids_of_tools (anScans a)"
| "reported_by a (Call (RpcAi _ _ _ _ _ _ _ _)) = (case anAi a of Inl _ \<Rightarrow> [] | Inr x \<Rightarrow> aiIds x)"
| "reported_by a (Call (RpcMissed _ _ _ _)) = (case anMissed a of Inl _ \<Rightarrow> [] | Inr ids \<Rightarrow> ids)"
| "reported_by a _ = []"

fun deleted_by :: "act \<Rightarrow> string list" where
  "deleted_by (Call (RpcDelete k)) = [k]"
| "deleted_by _ = []"

definition reported :: "answers \<Rightarrow> act list \<Rightarrow> string list" where
  "reported a tr = concat (map (reported_by a) tr)"

definition deleted :: "act list \<Rightarrow> string list" where
  "deleted tr = concat (map deleted_by tr)"

lemma ids_append [simp]:
  "reported a [] = []" "reported a (x # tr) = reported_by a x @ reported a tr"
  "reported a (tr @ tr') = reported a tr @ reported a tr'"
  "deleted [] = []" "deleted (x # tr) = deleted_by x @ deleted tr" "deleted (tr @ tr') = deleted tr @ deleted tr'"
  by (simp_all add: reported_def deleted_def)

lemma attempt_simps [simp]:
  "atTrace (acts tr e) = atTrace e @ tr" "atIds (acts tr e) = atIds e" "atSum (acts tr e) = atSum e"
  "atTrace (sum_put k v e) = atTrace e" "atIds (sum_put k v e) = atIds e"
  "atTrace (collect ids e) = atTrace e" "atIds (collect ids e) = atIds e @ ids"
  by (simp_all add: acts_def sum_put_def collect_def)

lemma stage_lines [simp]:
  "reported a (map (\<lambda>t. Stage k (f t)) ts) = []" "deleted (map (\<lambda>t. Stage k (f t)) ts) = []"
  by (induction ts) auto

lemma ids_of_scans:
  assumes "runMultipleScans r a = ((ids, allFailed), tr)"
  shows "reported a tr = ids" "deleted tr = []"
  using assms by (auto simp: runMultipleScans_def Let_def split: option.splits sum.splits if_splits)

lemma ids_of_ai:
  assumes "runAIAnalysis r a = (res, tr)"
  shows "reported a tr = (case res of Inl _ \<Rightarrow> [] | Inr x \<Rightarrow> aiIds x)" "deleted tr = []"
  using assms by (auto simp: runAIAnalysis_def Let_def split: option.splits sum.splits if_splits)

lemma ids_of_missed:
  assumes "searchMissedVulns r a = (res, tr)"
  shows "reported a tr = (case res of Inl _ \<Rightarrow> [] | Inr ids \<Rightarrow> ids)" "deleted tr = []"
  using assms by (auto simp: searchMissedVulns_def Let_def split: option.splits sum.splits)

definition quiet :: "answers \<Rightarrow> act list \<Rightarrow> bool" where
  "quiet a tr \<longleftrightarrow> reported a tr = [] \<and> deleted tr = []"

lemma quiet_update: "quiet a (snd (update_groups r a gs))"
  by (induction r a gs rule: update_groups.induct) (auto simp: quiet_def Let_def split: option.splits prod.splits)

lemma quiet_calls:
  "analyzeCode r a = (x1, tr) \<Longrightarrow> quiet a tr"
  "verifySASTResults r a ids = (x2, tr) \<Longrightarrow> quiet a tr"
  "reviewSASTResults r a ids = (x3, tr) \<Longrightarrow> quiet a tr"
  "fuseResults r a s1 s2 = (x4, tr) \<Longrightarrow> quiet a tr"
  "compareResults r a s1 s2 = (x5, tr) \<Longrightarrow> quiet a tr"
  "generateReport r a nm = (x6, tr) \<Longrightarrow> quiet a tr"
  "runIncrementalInherit r a = (x7, tr) \<Longrightarrow> quiet a tr"
  "batchUpdateVerdict r a vs = (x8, tr) \<Longrightarrow> quiet a tr"
proof -
  show "quiet a tr" if "analyzeCode r a = (x1, tr)"
    using that by (auto simp: quiet_def analyzeCode_def Let_def split: option.splits sum.splits)
  show "quiet a tr" if "verifySASTResults r a ids = (x2, tr)"
    using that by (auto simp: quiet_def verifySASTResults_def Let_def split: option.splits sum.splits if_splits)
  show "quiet a tr" if "reviewSASTResults r a ids = (x3, tr)"
    using that by (auto simp: quiet_def reviewSASTResults_def Let_def split: option.splits sum.splits)
  show "quiet a tr" if "fuseResults r a s1 s2 = (x4, tr)"
    using that by (auto simp: quiet_def fuseResults_def Let_def split: option.splits sum.splits)
  show "quiet a tr" if "compareResults r a s1 s2 = (x5, tr)"
    using that by (auto simp: quiet_def compareResults_def Let_def split: option.splits sum.splits)
  show "quiet a tr" if "generateReport r a nm = (x6, tr)"
    using that by (auto simp: quiet_def generateReport_def Let_def split: option.splits sum.splits)
  show "quiet a tr" if "runIncrementalInherit r a = (x7, tr)"
    using that by (auto simp: quiet_def runIncrementalInherit_def Let_def split: option.splits sum.splits if_splits)
  show "quiet a tr" if "batchUpdateVerdict r a vs = (x8, tr)"
  proof -
    have q: "quiet a t" if "update_groups r a gs = (x, t)" for gs x t
      using quiet_update[of a r gs] that by simp
    show ?thesis using that
      by (auto simp: quiet_def batchUpdateVerdict_def Let_def split: option.splits prod.splits if_splits
          dest!: q[unfolded quiet_def])
  qed
qed

section \<open>Roll-back\<close>

text \<open>A scanner that failed reports no ids; parallel traces are interleaved.\<close>

definition honest_tools :: "answers \<Rightarrow> bool" where
  "honest_tools a \<longleftrightarrow> (\<forall>ts. anScans a = Inr ts \<longrightarrow> (\<forall>t \<in> set ts. trStatus t = ScanFailed \<longrightarrow> trIds t = []))"

definition interleaves :: "answers \<Rightarrow> bool" where
  "interleaves a \<longleftrightarrow> (\<forall>x y. anMix a x y \<in> shuffles x y)"

lemma all_failed_no_ids:
  assumes "honest_tools a" "runMultipleScans r a = ((ids, True), tr)"
  shows "ids = []"
  using assms by (auto simp: honest_tools_def runMultipleScans_def Let_def split: option.splits sum.splits if_splits)

lemma mset_reported_mix:
  assumes "interleaves a"
  shows "mset (reported a (anMix a x y)) = mset (reported a x) + mset (reported a y)"
    "mset (deleted (anMix a x y)) = mset (deleted x) + mset (deleted y)"
proof -
  have "mset (anMix a x y) = mset x + mset y" using assms by (simp add: interleaves_def mset_shuffles)
  moreover have "mset (concat (map f xs)) = sum_mset (image_mset (mset \<circ> f) (mset xs))" for f :: "act \<Rightarrow> string list" and xs
    by (induction xs) auto
  ultimately show "mset (reported a (anMix a x y)) = mset (reported a x) + mset (reported a y)"
    "mset (deleted (anMix a x y)) = mset (deleted x) + mset (deleted y)"
    by (simp_all add: reported_def deleted_def)
qed

lemma deleted_mix:
  assumes "interleaves a" "deleted x = []" "deleted y = []"
  shows "deleted (anMix a x y) = []"
  using mset_reported_mix(2)[OF assms(1), of x y] assms(2,3) by simp

text \<open>Nothing is deleted yet, and what was reported is collected but for \<open>P\<close>.\<close>

definition owes :: "answers \<Rightarrow> string multiset \<Rightarrow> attempt \<Rightarrow> bool" where
  "owes a P e \<longleftrightarrow> deleted (atTrace e) = [] \<and> mset (reported a (atTrace e)) = mset (atIds e) + P"

lemma owes_simps [simp]:
  "owes a P (sum_put k v e) = owes a P e"
  "owes a P (collect ids e) = owes a (mset ids + P) e"
  "quiet a tr \<Longrightarrow> owes a P (acts tr e) = owes a P e"
  by (simp_all add: owes_def quiet_def ac_simps)

lemma quiet_stage [simp]: "quiet a [Stage k m]" by (simp add: quiet_def)

lemma owes_parts [simp]:
  "owes a P (fusion_summary x e) = owes a P e"
  "owes a P (fuseAndSummarize r a s1 s2 e) = owes a P e"
  "owes a P (write_verdicts r a vs e) = owes a P e"
  "owes a P (snd (finish_report r a nm e)) = owes a P e"
  "owes a P (sast_summary ids e) = owes a (mset ids + P) e"
proof -
  show f: "owes a P (fusion_summary x e) = owes a P e" for x e by (simp add: fusion_summary_def)
  show "owes a P (fuseAndSummarize r a s1 s2 e) = owes a P e"
    by (cases "fuseResults r a s1 s2") (auto simp: fuseAndSummarize_def f quiet_calls split: sum.split)
  show "owes a P (write_verdicts r a vs e) = owes a P e"
    by (cases "batchUpdateVerdict r a vs") (auto simp: write_verdicts_def quiet_calls split: option.split)
  show "owes a P (snd (finish_report r a nm e)) = owes a P e"
    by (cases "generateReport r a nm") (auto simp: finish_report_def quiet_calls)
  show "owes a P (sast_summary ids e) = owes a (mset ids + P) e" by (simp add: sast_summary_def)
qed

lemma owes_scans:
  assumes "runMultipleScans r a = ((ids, f), tr)" "owes a {#} e"
  shows "owes a (mset ids) (acts tr e)" "honest_tools a \<Longrightarrow> f \<Longrightarrow> owes a {#} (acts tr e)"
  using assms(2) ids_of_scans[OF assms(1)] all_failed_no_ids[of a r ids tr] assms(1) by (auto simp: owes_def)

lemma owes_ai:
  assumes "runAIAnalysis r a = (res, tr)" "owes a {#} e"
  shows "owes a (case res of Inl _ \<Rightarrow> {#} | Inr x \<Rightarrow> mset (aiIds x)) (acts tr e)"
  using assms(2) ids_of_ai[OF assms(1)] by (cases res) (auto simp: owes_def)

lemma owes_missed:
  assumes "searchMissedVulns r a = (res, tr)" "owes a {#} e"
  shows "owes a (case res of Inl _ \<Rightarrow> {#} | Inr ids \<Rightarrow> mset ids) (acts tr e)"
  using assms(2) ids_of_missed[OF assms(1)] by (cases res) (auto simp: owes_def)

lemma owes_mix:
  assumes "interleaves a" "deleted x = []" "deleted y = []" "owes a {#} e"
  shows "owes a (mset (reported a x) + mset (reported a y)) (acts (anMix a x y) e)"
  using assms(4) deleted_mix[OF assms(1-3)] mset_reported_mix(1)[OF assms(1), of x y] by (simp add: owes_def)

lemma owes_modeSast:
  assumes "owes a {#} e" "honest_tools a"
  shows "owes a {#} (snd (runModeSastOnly r a e))"
  using assms by (auto simp: runModeSastOnly_def owes_scans split: prod.split)

lemma owes_modeA:
  assumes "owes a {#} e"
  shows "owes a {#} (snd (runModeA r a e))"
proof -
  obtain path f tr where an: "analyzeCode r a = ((path, f), tr)" by (metis prod.exhaust)
  obtain res tr2 where ai: "runAIAnalysis r a = (res, tr2)" by (cases "runAIAnalysis r a")
  have "owes a {#} (sum_put ''cpg_storage_path'' (JStr path) (acts tr e))" using assms quiet_calls(1)[OF an] by simp
  from owes_ai[OF ai this] show ?thesis by (auto simp: runModeA_def an ai split: sum.split)
qed

lemma owes_modeD:
  assumes "owes a {#} e" "honest_tools a"
  shows "owes a {#} (snd (runModeD r a e))"
proof (cases "reviewSASTResults r a (fst (fst (runMultipleScans r a)))")
  case (Pair res tr)
  then show ?thesis using assms quiet_calls(3)[OF Pair]
    by (auto simp: runModeD_def owes_scans split: prod.split sum.split option.split)
qed

lemma owes_modeDEnhanced:
  assumes "owes a {#} e" "honest_tools a"
  shows "owes a {#} (snd (runModeDEnhanced r a e))"
proof (cases "verifySASTResults r a (fst (fst (runMultipleScans r a)))")
  case (Pair res tr)
  then show ?thesis using assms quiet_calls(2)[OF Pair]
    by (auto simp: runModeDEnhanced_def owes_scans split: prod.split sum.split)
qed

lemma owes_graph: "owes a {#} e \<Longrightarrow> owes a {#} (snd (runGraphTask g r a e))"
  by (auto simp: runGraphTask_def quiet_def owes_def split: option.split sum.split)

lemma owes_modeParallel:
  assumes "owes a {#} e" "honest_tools a" "interleaves a"
  shows "owes a {#} (snd (runModeParallel r a e))"
proof -
  obtain ids f tr1 where sc: "runMultipleScans r a = ((ids, f), tr1)" by (metis prod.exhaust)
  obtain res tr2 where ai: "runAIAnalysis r a = (res, tr2)" by (cases "runAIAnalysis r a")
  have m: "owes a (mset ids + (case res of Inl _ \<Rightarrow> {#} | Inr x \<Rightarrow> mset (aiIds x))) (acts (anMix a tr1 tr2) e)"
    using owes_mix[OF assms(3) _ _ assms(1), of tr1 tr2] ids_of_scans[OF sc] ids_of_ai[OF ai] by (cases res) auto
  have none: "f \<Longrightarrow> ids = []" using all_failed_no_ids[OF assms(2)] sc by auto
  have q: "compareResults r a x y = (res', tr) \<Longrightarrow> owes a P (acts tr e') = owes a P e'" for x y res' tr e' P
    by (simp add: quiet_calls)
  show ?thesis using m none
    by (cases res) (auto simp: runModeParallel_def sc ai q split: prod.split sum.split)
qed

lemma owes_modeB:
  assumes "owes a {#} e" "honest_tools a" "interleaves a"
  shows "owes a {#} (snd (runModeB r a e))"
proof -
  obtain ids f tr1 where sc: "runMultipleScans r a = ((ids, f), tr1)" by (metis prod.exhaust)
  obtain path g tr2 where an: "analyzeCode r a = ((path, g), tr2)" by (metis prod.exhaust)
  have m: "owes a (mset ids) (acts (anMix a tr1 tr2) e)"
    using owes_mix[OF assms(3) _ _ assms(1), of tr1 tr2] ids_of_scans[OF sc] quiet_calls(1)[OF an] by (auto simp: quiet_def)
  have none: "f \<Longrightarrow> ids = []" using all_failed_no_ids[OF assms(2)] sc by auto
  have q: "verifySASTResults r a x = (res', tr) \<Longrightarrow> owes a P (acts tr e') = owes a P e'"
    "fuseResults r a x y = (res'', tr) \<Longrightarrow> owes a P (acts tr e') = owes a P e'" for x y res' res'' tr e' P
    by (simp_all add: quiet_calls)
  obtain mres mtr where mi: "searchMissedVulns r a = (mres, mtr)" by (cases "searchMissedVulns r a")
  have ms: "owes a {#} (acts mtr e') = owes a {#} e'" if "mres = Inl err" for err e'
    using ids_of_missed[OF mi] that by (simp add: owes_def)
  have ms': "owes a (mset mids) (acts mtr e') = owes a {#} e'" if "mres = Inr mids" for mids e'
    using ids_of_missed[OF mi] that by (simp add: owes_def)
  have start: "owes a {#} (acts (anMix a tr1 tr2) e)" if f using m none[OF that] by simp
  show ?thesis
  proof (cases mres)
    case (Inl err)
    then show ?thesis using m start
      by (simp add: runModeB_def sc an q mi ms split: prod.split sum.split)
  next
    case (Inr mids)
    then show ?thesis using m start
      by (simp add: runModeB_def sc an q mi ms' split: prod.split sum.split)
  qed
qed

lemma owes_run_mode:
  assumes "owes a {#} e" "honest_tools a" "interleaves a"
  shows "owes a {#} (snd (run_mode r a e))"
  using assms owes_modeSast owes_modeA owes_modeD owes_modeDEnhanced owes_modeParallel owes_modeB owes_graph
  by (auto simp: run_mode_def split: option.split scan_mode.split)

lemma reported_Execute_calls:
  "reported a (compensateFindings a ids) = []" "reported a (snd (runIncrementalInherit r a)) = []"
  "deleted (snd (runIncrementalInherit r a)) = []"
  "anDial a ''result'' = None \<Longrightarrow> deleted (compensateFindings a ids) = ids"
proof -
  have e: "reported a (fst (delete_each a ids n)) = [] \<and> deleted (fst (delete_each a ids n)) = ids" for n
    by (induction a ids n rule: delete_each.induct) (auto split: prod.splits)
  show "reported a (compensateFindings a ids) = []"
    using e[of "(0, 0)"] by (auto simp: compensateFindings_def split: option.split prod.splits)
  show "anDial a ''result'' = None \<Longrightarrow> deleted (compensateFindings a ids) = ids"
    using e[of "(0, 0)"] by (auto simp: compensateFindings_def split: prod.splits)
  show "reported a (snd (runIncrementalInherit r a)) = []" "deleted (snd (runIncrementalInherit r a)) = []"
    using quiet_calls(7)[of r a] by (cases "runIncrementalInherit r a"; simp add: quiet_def)+
qed

lemma owes_start: "owes a {#} (acts (snd (runIncrementalInherit r a)) (acts [Stage k m] \<lparr>atTrace = [], atIds = [], atSum = []\<rparr>))"
  by (simp add: owes_def reported_Execute_calls)

lemma owes_stats [simp]: "owes a P (final_stats r a e) = owes a P e"
proof -
  have "quiet a [Call (RpcStats k)]" for k by (simp add: quiet_def)
  then show ?thesis by (simp add: final_stats_def split: option.split sum.split)
qed

text \<open>What an attempt is when it ends, without the compensation.\<close>

lemma Orchestrate_cases:
  fixes r0 :: orch_request
  obtains (prepare) err where "Orchestrate r0 a = (ModeFailed err, \<lparr>atTrace = [], atIds = [], atSum = []\<rparr>)"
  | (inherit) r err itr e where "runIncrementalInherit r a = (Some err, itr)"
      "e = acts itr (acts [Stage ''S1'' ''task accepted''] \<lparr>atTrace = [], atIds = [], atSum = []\<rparr>)"
      "Orchestrate r0 a = (ModeFailed err, acts (compensateFindings a (atIds e)) e)"
  | (failed) r itr e x e' where "runIncrementalInherit r a = (None, itr)" "\<exists>p. r = r0\<lparr>rqPath := p\<rparr>"
      "e = acts itr (acts [Stage ''S1'' ''task accepted''] \<lparr>atTrace = [], atIds = [], atSum = []\<rparr>)"
      "run_mode r a e = (x, e')" "x \<noteq> ModeDone" "Orchestrate r0 a = (x, acts (compensateFindings a (atIds e')) e')"
  | (finished) r itr e e' where "runIncrementalInherit r a = (None, itr)" "\<exists>p. r = r0\<lparr>rqPath := p\<rparr>"
      "e = acts itr (acts [Stage ''S1'' ''task accepted''] \<lparr>atTrace = [], atIds = [], atSum = []\<rparr>)"
      "run_mode r a e = (ModeDone, e')" "Orchestrate r0 a = (ModeDone, final_stats r a e')"
proof (cases "if rqPrepare r0 then map_sum id (\<lambda>p. r0\<lparr>rqPath := p\<rparr>) (anPrepare a) else Inr r0")
  case (Inl err)
  then show ?thesis by (intro prepare[of "''prepare: '' @ err"]) (simp add: Orchestrate_def)
next
  case (Inr r)
  then have r: "\<exists>p. r = r0\<lparr>rqPath := p\<rparr>"
    by (cases "anPrepare a") (auto split: if_splits intro: exI[of _ "rqPath r0"])
  let ?e = "acts (snd (runIncrementalInherit r a)) (acts [Stage ''S1'' ''task accepted''] \<lparr>atTrace = [], atIds = [], atSum = []\<rparr>)"
  obtain ierr itr where i: "runIncrementalInherit r a = (ierr, itr)" by (cases "runIncrementalInherit r a")
  obtain x e' where m: "run_mode r a ?e = (x, e')" by (cases "run_mode r a ?e")
  show ?thesis
  proof (cases ierr)
    case (Some err)
    then show ?thesis using i Inr by (intro inherit[OF _ refl, of r err itr]) (simp_all add: Orchestrate_def)
  next
    case None
    show ?thesis
    proof (cases "x = ModeDone")
      case True
      then show ?thesis using i m r Inr None by (intro finished[OF _ _ refl, of r itr e']) (simp_all add: Orchestrate_def)
    next
      case False
      then show ?thesis using i m r Inr None by (intro failed[OF _ _ refl, of r itr x e']) (simp_all add: Orchestrate_def)
    qed
  qed
qed

text \<open>C20. When the result service has an address, an attempt that fails has deleted exactly the findings its calls reported,
  each as often as it was reported, and one that succeeds none.\<close>

theorem attempt_rolls_back:
  assumes "honest_tools a" "interleaves a" "anDial a ''result'' = None"
  shows "mset (deleted (atTrace (snd (Orchestrate r a)))) =
    (if fst (Orchestrate r a) = ModeDone then {#} else mset (reported a (atTrace (snd (Orchestrate r a)))))"
proof (cases rule: Orchestrate_cases[of r a])
  case (inherit r' err itr e)
  then show ?thesis using owes_start[of a r'] assms(3) by (auto simp: owes_def reported_Execute_calls)
next
  case (failed r' itr e x e')
  then have "owes a {#} e" using owes_start[of a r'] by simp
  from owes_run_mode[OF this assms(1,2), of r'] failed assms(3) show ?thesis
    by (auto simp: owes_def reported_Execute_calls)
next
  case (finished r' itr e e')
  then have "owes a {#} e" using owes_start[of a r'] by simp
  from owes_run_mode[OF this assms(1,2), of r'] finished have "owes a {#} (final_stats r' a e')" by simp
  with finished show ?thesis by (simp add: owes_def)
qed simp

section \<open>Two attempts\<close>

definition demo_answers :: answers where
  "demo_answers = \<lparr>anDial = (\<lambda>_. None), anPrepare = Inr [], anInherit = Inr (0, 0, 0), anAnalyze = Inr (1, ''/cpg''),
     anScans = Inr [\<lparr>trTool = ''semgrep'', trStatus = ScanFailed, trIds = []\<rparr>],
     anAi = Inr \<lparr>aiCount = 1, aiVerified = 1, aiFalse = 0, aiFixes = 0, aiIds = [''f1''], aiDegraded = False\<rparr>,
     anGraph = Inr \<lparr>gaTotal = 1, gaCompleted = 1, gaFailed = 0, gaRejected = 0, gaOpen = 0, gaPaused = False, gaConverged = True\<rparr>,
     anVerify = Inr [], anMissed = Inr [], anReview = Inr None, anFuse = Inl ''no'', anCompare = Inl ''no'',
     anVerdict = (\<lambda>_ _. None), anReport = Inr (''r'', ''/r''), anStats = Inl ''no'', anDelete = (\<lambda>_. DeleteOk),
     anFloat = (\<lambda>_. []), anMix = (@)\<rparr>"

definition demo_request :: "scan_mode \<Rightarrow> string option \<Rightarrow> orch_request" where
  "demo_request m g = \<lparr>rqTask = ''t'', rqRequest = ''q'', rqPath = ''/src'', rqMode = m, rqTools = [''semgrep''],
     rqPrepare = False, rqIncr = None, rqGraph = g, rqAgent = ''a''\<rparr>"

lemma demo_mix: "interleaves demo_answers"
proof -
  have "x @ y \<in> shuffles x y" for x y :: "act list" by (induction x) (auto intro: Cons_in_shuffles_leftI)
  then show ?thesis by (simp add: interleaves_def demo_answers_def)
qed

lemma demo_success:
  "fst (Orchestrate (demo_request Parallel None) demo_answers) = ModeDone"
  "fst (Orchestrate (demo_request Parallel (Some [])) demo_answers) = ModeDone"
  "fst (Orchestrate (demo_request ModeCompare None) demo_answers) = ModeFailed ''CompareResults: no''"
  by code_simp+

theorem attempt_rolls_back_witness:
  "fst (Orchestrate (demo_request ModeCompare None) demo_answers) = ModeFailed ''CompareResults: no'' \<and>
    mset (deleted (atTrace (snd (Orchestrate (demo_request ModeCompare None) demo_answers)))) = {#''f1''#}"
proof -
  have "honest_tools demo_answers" "anDial demo_answers ''result'' = None" by (simp_all add: honest_tools_def demo_answers_def)
  from attempt_rolls_back[OF this(1) demo_mix this(2), of "demo_request ModeCompare None"]
  have "mset (deleted (atTrace (snd (Orchestrate (demo_request ModeCompare None) demo_answers)))) =
      mset (reported demo_answers (atTrace (snd (Orchestrate (demo_request ModeCompare None) demo_answers))))"
    by (simp only: demo_success(3)) simp
  moreover have "reported demo_answers (atTrace (snd (Orchestrate (demo_request ModeCompare None) demo_answers))) = [''f1'']"
    by code_simp
  ultimately show ?thesis by (simp add: demo_success(3))
qed

declare Let_def [simp del]

end
