(* ===== verification/OrchBoard.thy ===== *)
theory OrchBoard imports Main Prelude GoText Findings TaskState TaskRun Orchestrator OrchRules begin

text \<open>
  The stage events of an attempt (\<open>Orchestrator\<close>) on the stage board of its task (\<open>TaskState\<close>): which stages each
  call reports, the board as a product of independent stages (\<open>record_all_board\<close>), and what it shows at the end.
\<close>

declare Let_def [simp]

section \<open>The stages an attempt reports\<close>

definition event_stage :: "string \<Rightarrow> string" where
  "event_stage key = (if prefix ''done:'' key then trim_prefix ''done:'' key else stageEventStageID key)"

fun act_stage :: "act \<Rightarrow> string" where
  "act_stage (Stage key msg) = event_stage key"
| "act_stage _ = []"

definition stages_of :: "act list \<Rightarrow> string set" where
  "stages_of tr = act_stage ` set tr - {[]}"

lemma event_stage_keys [simp]:
  "event_stage ''S1'' = []" "event_stage ''S5'' = []" "event_stage ''S8'' = []" "event_stage ''verdict'' = []"
  "event_stage ''incremental'' = []"
  "event_stage ''scans'' = ''sast''" "event_stage ''done:sast'' = ''sast''"
  "event_stage ''analyze'' = ''analyze''" "event_stage ''done:analyze'' = ''analyze''"
  "event_stage ''ai'' = ''ai''" "event_stage ''done:ai'' = ''ai''" "event_stage ''verify'' = ''ai''" "event_stage ''missed'' = ''ai''"
  "event_stage ''review'' = ''review''" "event_stage ''done:review'' = ''review''"
  "event_stage ''S7'' = ''fusion''" "event_stage ''fusion'' = ''fusion''" "event_stage ''compare'' = ''fusion''"
  "event_stage ''done:fusion'' = ''fusion''"
  "event_stage ''S9-report'' = ''report''" "event_stage ''S4-report'' = ''report''" "event_stage ''done:report'' = ''report''"
  "event_stage ''graph'' = ''graph''" "event_stage ''done:graph'' = ''graph''"
  by code_simp+

lemma stages_of_simps [simp]:
  "stages_of [] = {}"
  "stages_of (x # tr) = (if act_stage x = [] then stages_of tr else insert (act_stage x) (stages_of tr))"
  "stages_of (tr @ tr') = stages_of tr \<union> stages_of tr'"
  by (auto simp: stages_of_def)

lemma stages_of_lines: "stages_of (map (\<lambda>t. Stage ''scans'' (f t)) ts) \<subseteq> {''sast''}"
  by (auto simp: stages_of_def)

lemma stages_scans: "runMultipleScans r a = (x, tr) \<Longrightarrow> stages_of tr = {''sast''}"
  by (auto dest: subsetD[OF stages_of_lines] simp: runMultipleScans_def split: option.splits sum.splits if_splits)

lemma stages_analyze: "analyzeCode r a = (x, tr) \<Longrightarrow> stages_of tr = {''analyze''}"
  by (auto simp: analyzeCode_def split: option.splits sum.splits)

lemma stages_ai: "runAIAnalysis r a = (x, tr) \<Longrightarrow> stages_of tr = (if anDial a ''runtime'' = None then {''ai''} else {})"
  by (auto simp: runAIAnalysis_def split: option.splits sum.splits if_splits)

lemma stages_verify:
  "verifySASTResults r a ids = (x, tr) \<Longrightarrow> stages_of tr = (if ids = [] \<or> anDial a ''runtime'' = None then {''ai''} else {})"
  by (auto simp: verifySASTResults_def split: option.splits sum.splits if_splits)

lemma stages_missed: "searchMissedVulns r a = (x, tr) \<Longrightarrow> stages_of tr = (if anDial a ''runtime'' = None then {''ai''} else {})"
  by (auto simp: searchMissedVulns_def split: option.splits sum.splits)

lemma stages_review:
  "reviewSASTResults r a ids = (x, tr) \<Longrightarrow> stages_of tr = (if anDial a ''runtime'' = None then {''review''} else {})"
  by (auto simp: reviewSASTResults_def split: option.splits sum.splits)

lemma stages_fuse:
  "fuseResults r a s1 s2 = (x, tr) \<Longrightarrow> stages_of tr = (if anDial a ''sast-adapter'' = None then {''fusion''} else {})"
  by (auto simp: fuseResults_def split: option.splits sum.splits)

lemma stages_compare:
  "compareResults r a s1 s2 = (x, tr) \<Longrightarrow> stages_of tr = (if anDial a ''sast-adapter'' = None then {''fusion''} else {})"
  by (auto simp: compareResults_def split: option.splits sum.splits)

lemma stages_inherit: "runIncrementalInherit r a = (x, tr) \<Longrightarrow> stages_of tr = {}"
  by (auto simp: runIncrementalInherit_def split: option.splits sum.splits if_splits)

lemma stages_updates: "stages_of (snd (update_groups r a gs)) = {}"
  by (induction r a gs rule: update_groups.induct) (auto split: option.splits prod.splits)

lemma stages_verdict: "batchUpdateVerdict r a vs = (x, tr) \<Longrightarrow> stages_of tr = {}"
  using stages_updates[of r a]
  by (auto simp: batchUpdateVerdict_def split: option.splits prod.splits if_splits)
    (metis snd_conv empty_iff)+

lemma stages_report:
  assumes "generateReport r a nm = (x, tr)" "event_stage nm = ''report''"
  shows "stages_of tr = (if anDial a ''result'' = None then {''report''} else {})" "x = ModeDone \<longleftrightarrow> anDial a ''result'' = None"
  using assms by (auto simp: generateReport_def split: option.splits sum.splits)

lemma stages_parts [simp]:
  "stages_of (atTrace (fusion_summary y e)) = stages_of (atTrace e)"
  "stages_of (atTrace (fuseAndSummarize r a s1 s2 e)) = insert ''fusion'' (stages_of (atTrace e))"
  "stages_of (atTrace (write_verdicts r a vs e)) = stages_of (atTrace e)"
  "stages_of (atTrace (sast_summary ids e)) = stages_of (atTrace e)"
  "stages_of (atTrace (final_stats r a e)) = stages_of (atTrace e)"
proof -
  show f: "stages_of (atTrace (fusion_summary y e)) = stages_of (atTrace e)" for y e by (simp add: fusion_summary_def)
  show "stages_of (atTrace (fuseAndSummarize r a s1 s2 e)) = insert ''fusion'' (stages_of (atTrace e))"
    using stages_fuse[of r a s1 s2] by (cases "fuseResults r a s1 s2")
      (auto simp: fuseAndSummarize_def f fuseResults_def split: sum.split option.splits)
  show "stages_of (atTrace (write_verdicts r a vs e)) = stages_of (atTrace e)"
    by (cases "batchUpdateVerdict r a vs") (auto simp: write_verdicts_def stages_verdict split: option.split)
  show "stages_of (atTrace (sast_summary ids e)) = stages_of (atTrace e)" by (simp add: sast_summary_def)
  show "stages_of (atTrace (final_stats r a e)) = stages_of (atTrace e)" by (simp add: final_stats_def split: option.split sum.split)
qed

lemma stages_finish:
  assumes "event_stage nm = ''report''"
  shows "stages_of (atTrace (snd (finish_report r a nm e))) =
      stages_of (atTrace e) \<union> (if anDial a ''result'' = None then {''report''} else {})"
    "fst (finish_report r a nm e) = ModeDone \<longleftrightarrow> anDial a ''result'' = None"
  using stages_report[OF _ assms, of r a] by (cases "generateReport r a nm"; auto simp: finish_report_def)+

lemma stages_mix: "interleaves a \<Longrightarrow> stages_of (anMix a x y) = stages_of x \<union> stages_of y"
  using set_shuffles[of "anMix a x y" x y] by (auto simp: interleaves_def stages_of_def)

text \<open>The stages that are on the board of a request.\<close>

definition planned :: "orch_request \<Rightarrow> string set" where
  "planned r = (if rqGraph r \<noteq> None then {''graph'', ''report''} else set (map fst (mode_stages (rqMode r))))"

definition reaches :: "string set \<Rightarrow> string set \<Rightarrow> mode_end \<times> attempt \<Rightarrow> bool" where
  "reaches B K x \<longleftrightarrow> stages_of (atTrace (snd x)) \<subseteq> B \<and> (fst x = ModeDone \<longrightarrow> K \<subseteq> stages_of (atTrace (snd x)))"

lemma reaches_fail: "reaches B K (ModeFailed err, e) \<longleftrightarrow> stages_of (atTrace e) \<subseteq> B"
  by (simp add: reaches_def)

lemma reaches_finish:
  assumes "event_stage nm = ''report''"
  shows "reaches B K (finish_report r a nm e) \<longleftrightarrow>
    (if anDial a ''result'' = None
     then insert ''report'' (stages_of (atTrace e)) \<subseteq> B \<and> K \<subseteq> insert ''report'' (stages_of (atTrace e))
     else stages_of (atTrace e) \<subseteq> B)"
  using stages_finish[OF assms, of r a e] by (auto simp: reaches_def)

lemma reaches_modeSast:
  assumes "stages_of (atTrace e) = {}" "K = {''sast'', ''fusion'', ''report''}"
  shows "reaches K K (runModeSastOnly r a e)"
  using assms by (auto simp: runModeSastOnly_def reaches_fail reaches_finish stages_scans split: prod.split)

lemma reaches_modeA:
  assumes "stages_of (atTrace e) = {}" "K = {''analyze'', ''ai'', ''report''}"
  shows "reaches K K (runModeA r a e)"
proof -
  obtain res tr2 where ai: "runAIAnalysis r a = (res, tr2)" by (cases "runAIAnalysis r a")
  have "\<exists>err. res = Inl err" if "anDial a ''runtime'' \<noteq> None" using ai that by (auto simp: runAIAnalysis_def)
  then show ?thesis using assms stages_ai[OF ai]
    by (auto simp: runModeA_def reaches_fail reaches_finish stages_analyze ai split: prod.split sum.split)
qed

lemma no_runtime_fails:
  assumes "anDial a ''runtime'' \<noteq> None"
  shows "runAIAnalysis r a = (x1, t1) \<Longrightarrow> \<exists>err. x1 = Inl err" "searchMissedVulns r a = (x2, t2) \<Longrightarrow> \<exists>err. x2 = Inl err"
    "reviewSASTResults r a ids = (x3, t3) \<Longrightarrow> \<exists>err. x3 = Inl err"
    "verifySASTResults r a ids = (x4, t4) \<Longrightarrow> ids \<noteq> [] \<Longrightarrow> \<exists>err. x4 = Inl err"
  using assms by (auto simp: runAIAnalysis_def searchMissedVulns_def reviewSASTResults_def verifySASTResults_def)

lemma reaches_modeD:
  assumes "stages_of (atTrace e) = {}" "K = {''sast'', ''review'', ''report''}"
  shows "reaches K K (runModeD r a e)"
proof -
  have "\<exists>err. x = Inl err" if "reviewSASTResults r a ids = (x, t)" "anDial a ''runtime'' \<noteq> None" for ids x t
    using no_runtime_fails(3) that by blast
  then show ?thesis using assms
    by (auto simp: runModeD_def reaches_fail reaches_finish stages_scans stages_review split: prod.split sum.split option.split)
qed

lemma reaches_modeDEnhanced:
  assumes "stages_of (atTrace e) = {}" "K = {''sast'', ''ai'', ''fusion'', ''report''}"
  shows "reaches K K (runModeDEnhanced r a e)"
  using assms by (auto simp: runModeDEnhanced_def reaches_fail reaches_finish stages_scans stages_verify split: prod.split sum.split)

lemma reaches_modeParallel:
  assumes "stages_of (atTrace e) = {}" "K = {''sast'', ''ai'', ''fusion'', ''report''}" "interleaves a"
    "L = (if anDial a ''runtime'' = None then K else K - {''ai''})"
  shows "reaches K L (runModeParallel r a e)"
proof -
  obtain ids f tr1 where sc: "runMultipleScans r a = ((ids, f), tr1)" by (metis prod.exhaust)
  obtain res tr2 where ai: "runAIAnalysis r a = (res, tr2)" by (cases "runAIAnalysis r a")
  have mix: "stages_of (anMix a tr1 tr2) = (if anDial a ''runtime'' = None then {''sast'', ''ai''} else {''sast''})"
    using stages_mix[OF assms(3), of tr1 tr2] stages_scans[OF sc] stages_ai[OF ai] by auto
  have sub: "stages_of (anMix a tr1 tr2) \<subseteq> {''sast'', ''ai''}" "L - {''fusion'', ''report''} \<subseteq> stages_of (anMix a tr1 tr2)"
    using assms(2,4) mix by auto
  have fin: "reaches K L (finish_report r a ''S9-report'' e')"
    if "insert ''fusion'' (stages_of (anMix a tr1 tr2)) = stages_of (atTrace e')" for e'
    using that sub assms(2) by (auto simp: reaches_finish)
  obtain cres ctr where co: "compareResults r a ids (case res of Inr x \<Rightarrow> aiIds x | Inl _ \<Rightarrow> []) = (cres, ctr)"
    by (cases "compareResults r a ids (case res of Inr x \<Rightarrow> aiIds x | Inl _ \<Rightarrow> [])")
  have cf: "insert ''fusion'' (stages_of ctr) = {''fusion''}" "cres = Inr y \<Longrightarrow> stages_of ctr = {''fusion''}" for y
    using stages_compare[OF co] co by (auto simp: compareResults_def split: option.splits sum.splits if_splits)
  have K: "stages_of (anMix a tr1 tr2) \<subseteq> K" "stages_of (anMix a tr1 tr2) \<union> stages_of ctr \<subseteq> K"
    using sub assms(2) cf(1) by auto
  show ?thesis
  proof (cases res)
    case (Inl err)
    then show ?thesis using assms(1) K co cf
      by (cases cres) (simp_all add: runModeParallel_def sc ai reaches_fail fin Un_commute)
  next
    case (Inr x)
    then show ?thesis using assms(1) K co cf
      by (cases cres) (simp_all add: runModeParallel_def sc ai reaches_fail fin Un_commute)
  qed
qed

lemma reaches_modeB:
  assumes "stages_of (atTrace e) = {}" "K = {''sast'', ''analyze'', ''ai'', ''fusion'', ''report''}" "interleaves a"
  shows "reaches K K (runModeB r a e)"
proof -
  obtain ids f tr1 where sc: "runMultipleScans r a = ((ids, f), tr1)" by (metis prod.exhaust)
  obtain path g tr2 where an: "analyzeCode r a = ((path, g), tr2)" by (metis prod.exhaust)
  obtain mres mtr where mi: "searchMissedVulns r a = (mres, mtr)" by (cases "searchMissedVulns r a")
  have mix: "stages_of (anMix a tr1 tr2) = {''sast'', ''analyze''}"
    using stages_mix[OF assms(3), of tr1 tr2] stages_scans[OF sc] stages_analyze[OF an] by auto
  obtain vres vtr where ve: "verifySASTResults r a ids = (vres, vtr)" by (cases "verifySASTResults r a ids")
  have v: "stages_of vtr \<subseteq> {''ai''}" "vres = Inr vs \<Longrightarrow> stages_of vtr = {''ai''}" for vs
    using stages_verify[OF ve] no_runtime_fails(4)[OF _ ve] by auto
  have m: "stages_of mtr \<subseteq> {''ai''}" using stages_missed[OF mi] by auto
  obtain fres ftr where fu: "fuseResults r a ids (case mres of Inr mids \<Rightarrow> mids | Inl _ \<Rightarrow> []) = (fres, ftr)"
    by (cases "fuseResults r a ids (case mres of Inr mids \<Rightarrow> mids | Inl _ \<Rightarrow> [])")
  have fs: "insert ''fusion'' (stages_of ftr) = {''fusion''}" "fres = Inr y \<Longrightarrow> stages_of ftr = {''fusion''}" for y
    using stages_fuse[OF fu] fu by (auto simp: fuseResults_def split: option.splits sum.splits if_splits)
  show ?thesis
  proof (cases vres)
    case (Inl err)
    then show ?thesis using assms(1,2) mix v by (auto simp: runModeB_def sc an ve reaches_fail split: prod.split)
  next
    case (Inr vs)
    note v' = Inr
    show ?thesis
    proof (cases mres)
      case (Inl err)
      then show ?thesis using assms(1,2) mix v m v' by (auto simp: runModeB_def sc an ve mi reaches_fail split: prod.split)
    next
      case (Inr mids)
      have fin: "reaches K K (finish_report r a ''S9-report'' e')"
        if "stages_of (atTrace e') = {''sast'', ''analyze'', ''ai'', ''fusion''}" for e'
        using that assms(2) by (simp add: reaches_finish)
      have mt: "stages_of mtr = {''ai''}" using stages_missed[OF mi] no_runtime_fails(2)[OF _ mi] Inr by (cases "anDial a ''runtime''") auto
      have vt: "stages_of vtr = {''ai''}" by (rule v(2)[OF v'])
      have ft: "stages_of ftr = {} \<or> stages_of ftr = {''fusion''}" using stages_fuse[OF fu] by auto
      have fg: "\<not> (f \<and> g) \<or> reaches K K (runModeB r a e)"
        using assms(1,2) mix by (simp add: runModeB_def sc an reaches_fail)
      have fu': "fuseResults r a ids mids = (fres, ftr)" using fu Inr by simp
      have eq: "insert ''fusion'' ({''sast'', ''analyze''} \<union> {''ai''}) = {''sast'', ''analyze'', ''ai'', ''fusion''}" by auto
      consider "f" "g" | y where "runModeB r a e = finish_report r a ''S9-report'' y"
          "stages_of (atTrace y) = insert ''fusion'' ({''sast'', ''analyze''} \<union> {''ai''})"
      proof (cases "f \<and> g")
        case False
        have "\<exists>y. runModeB r a e = finish_report r a ''S9-report'' y \<and>
          stages_of (atTrace y) = stages_of (anMix a tr1 tr2) \<union> stages_of vtr \<union> stages_of mtr \<union> {''ai''} \<union> stages_of ftr \<union>
             (case fres of Inl _ \<Rightarrow> {''fusion''} | Inr _ \<Rightarrow> {})"
          by (cases f; cases g; cases fres)
            (use False in \<open>simp_all add: runModeB_def sc an ve v' mi Inr fu'\<close>; rule exI, rule conjI, rule refl, simp add: assms(1) Un_assoc)+
        then obtain y where y: "runModeB r a e = finish_report r a ''S9-report'' y"
          and t: "stages_of (atTrace y) = stages_of (anMix a tr1 tr2) \<union> stages_of vtr \<union> stages_of mtr \<union> {''ai''} \<union> stages_of ftr \<union>
             (case fres of Inl _ \<Rightarrow> {''fusion''} | Inr _ \<Rightarrow> {})" by blast
        have "stages_of (atTrace y) = insert ''fusion'' ({''sast'', ''analyze''} \<union> {''ai''})"
          unfolding t mix vt mt using ft fs(2) by (cases fres) auto
        with y show ?thesis using that(2) by blast
      qed (use that in blast)
      then show ?thesis
      proof cases
        case 1
        then show ?thesis using fg by blast
      next
        case (2 y)
        then show ?thesis using fin eq by simp
      qed
    qed
  qed
qed

lemma reaches_graph:
  assumes "stages_of (atTrace e) = {}"
  shows "reaches {''graph''} {''graph''} (runGraphTask g r a e)"
  using assms by (auto simp: runGraphTask_def reaches_def split: option.split sum.split)

text \<open>No stage but the planned ones is reported, and a success has reported all that its mode plans.\<close>

lemma reaches_run_mode:
  assumes "stages_of (atTrace e) = {}" "interleaves a"
  shows "stages_of (atTrace (snd (run_mode r a e))) \<subseteq> planned r"
    "rqGraph r = None \<Longrightarrow> anDial a ''runtime'' = None \<Longrightarrow> fst (run_mode r a e) = ModeDone \<Longrightarrow>
      planned r \<subseteq> stages_of (atTrace (snd (run_mode r a e)))"
    "rqGraph r \<noteq> None \<Longrightarrow> ''report'' \<notin> stages_of (atTrace (snd (run_mode r a e)))"
proof -
  note R = reaches_modeSast[OF assms(1) refl, of r a] reaches_modeA[OF assms(1) refl, of r a]
    reaches_modeD[OF assms(1) refl, of r a] reaches_modeDEnhanced[OF assms(1) refl, of r a]
    reaches_modeParallel[OF assms(1) refl assms(2) refl, of r] reaches_modeB[OF assms(1) refl assms(2), of r]
  have g: "stages_of (atTrace (snd (runGraphTask g r a e))) \<subseteq> {''graph''}" for g
    using reaches_graph[OF assms(1), of g r a] by (simp add: reaches_def)
  show "stages_of (atTrace (snd (run_mode r a e))) \<subseteq> planned r"
  proof (cases "rqGraph r")
    case None
    then show ?thesis using R
      by (cases "rqMode r") (simp_all add: run_mode_def planned_def mode_stages_def reaches_def assms(1))
  next
    case (Some gr)
    then show ?thesis using g[of gr] by (auto simp: run_mode_def planned_def)
  qed
  show "planned r \<subseteq> stages_of (atTrace (snd (run_mode r a e)))"
    if "rqGraph r = None" "anDial a ''runtime'' = None" "fst (run_mode r a e) = ModeDone"
    using that R by (cases "rqMode r") (simp_all add: run_mode_def planned_def mode_stages_def reaches_def)
  show "''report'' \<notin> stages_of (atTrace (snd (run_mode r a e)))" if "rqGraph r \<noteq> None"
    using that g by (fastforce simp: run_mode_def)
qed

section \<open>The events on the board\<close>

text \<open>The recorder of the task is called for one event after the other, each at its own time.\<close>

fun record_all :: "(nat \<Rightarrow> gotime) \<Rightarrow> string \<Rightarrow> act list \<Rightarrow> service \<Rightarrow> service" where
  "record_all clock k [] sv = sv"
| "record_all clock k (Stage key msg # tr) sv = record_all (clock \<circ> Suc) k tr (stageRecorder (clock 0) k key msg sv)"
| "record_all clock k (x # tr) sv = record_all (clock \<circ> Suc) k tr sv"

text \<open>One stage on its own: the events that name it, and no others.\<close>

fun stage_event :: "gotime \<Rightarrow> act \<Rightarrow> task_stage \<Rightarrow> task_stage" where
  "stage_event now (Stage key msg) s =
    (if event_stage key \<noteq> tsId s then s
     else if prefix ''done:'' key then complete_one now msg s else record_event now msg s)"
| "stage_event now _ s = s"

fun stage_run :: "(nat \<Rightarrow> gotime) \<Rightarrow> act list \<Rightarrow> task_stage \<Rightarrow> task_stage" where
  "stage_run clock [] s = s"
| "stage_run clock (x # tr) s = stage_run (clock \<circ> Suc) tr (stage_event (clock 0) x s)"

lemma stage_event_id [simp]: "tsId (stage_event now x s) = tsId s"
  by (cases x) (auto simp: complete_one_def record_event_def)

lemma stage_event_comp: "tsId \<circ> stage_event now x = tsId"
  by (rule ext) simp

lemma stage_run_id [simp]: "tsId (stage_run clock tr s) = tsId s"
  by (induction tr arbitrary: clock s) auto

lemma insert_known:
  assumes "k \<in> tsId ` set ss" "distinct (map tsId ss)"
  shows "findOrInsertStageLocked k f ss = map (\<lambda>s. if tsId s = k then f s else s) ss"
  using assms
proof (induction ss)
  case (Cons s ss)
  have "map (\<lambda>s. if tsId s = k then f s else s) ss = ss" if "tsId s = k"
    using Cons.prems(2) that by (intro map_idI) (auto simp: image_iff)
  with Cons show ?case by auto
qed simp

lemma complete_known:
  assumes "distinct (map tsId ss)"
  shows "complete_first now k msg ss = map (\<lambda>s. if tsId s = k then complete_one now msg s else s) ss"
  using assms
proof (induction ss)
  case (Cons s ss)
  have "map (\<lambda>s. if tsId s = k then complete_one now msg s else s) ss = ss" if "tsId s = k"
    using Cons.prems that by (intro map_idI) (auto simp: image_iff)
  with Cons show ?case by auto
qed simp

lemma recorder_on_board:
  assumes "map_of (svTasks sv) k = Some t" "distinct (map tsId (tkStages t))" "[] \<notin> tsId ` set (tkStages t)"
    and "act_stage (Stage key msg) \<in> insert [] (tsId ` set (tkStages t))" "tkId t = k"
  shows "map_of (svTasks (stageRecorder now k key msg sv)) k =
    Some (t\<lparr>tkStages := map (stage_event now (Stage key msg)) (tkStages t)\<rparr>)"
proof (cases "prefix ''done:'' key")
  case True
  then show ?thesis using assms(1,2,5)
    by (simp add: stageRecorder_def completeStage_def put_task_def complete_known event_stage_def
        update_conv' eq_commute[of "trim_prefix _ _"])
next
  case False
  show ?thesis
  proof (cases "stageEventStageID key = []")
    case True
    then have "map (stage_event now (Stage key msg)) (tkStages t) = tkStages t"
      using False assms(3) by (intro map_idI) (auto simp: event_stage_def image_iff)
    then show ?thesis using True False assms(1) by (simp add: stageRecorder_def)
  next
    case ne: False
    then show ?thesis using False assms
      by (simp add: stageRecorder_def put_task_def insert_known event_stage_def
        update_conv' eq_commute[of "stageEventStageID _"])
  qed
qed

lemma record_all_board:
  assumes "map_of (svTasks sv) k = Some t" "tkId t = k" "distinct (map tsId (tkStages t))" "[] \<notin> tsId ` set (tkStages t)"
    and "stages_of tr \<subseteq> tsId ` set (tkStages t)"
  shows "map_of (svTasks (record_all clock k tr sv)) k = Some (t\<lparr>tkStages := map (stage_run clock tr) (tkStages t)\<rparr>)"
  using assms
proof (induction clock k tr sv arbitrary: t rule: record_all.induct)
  case (1 clock k sv)
  have "map (stage_run clock []) (tkStages t) = tkStages t" by (intro map_idI) simp
  with 1 show ?case by simp
next
  case (2 clock k key msg tr sv)
  let ?t = "t\<lparr>tkStages := map (stage_event (clock 0) (Stage key msg)) (tkStages t)\<rparr>"
  have ids: "tsId ` set (tkStages ?t) = tsId ` set (tkStages t)" "map tsId (tkStages ?t) = map tsId (tkStages t)"
    by (simp_all add: image_comp stage_event_comp del: stage_event.simps)
  have k: "act_stage (Stage key msg) \<in> insert [] (tsId ` set (tkStages t))" and tr: "stages_of tr \<subseteq> tsId ` set (tkStages t)"
    using 2(6) by (auto split: if_splits)
  have "map_of (svTasks (stageRecorder (clock 0) k key msg sv)) k = Some ?t"
    using recorder_on_board[OF 2(2) 2(4) 2(5) k 2(3)] .
  from 2(1)[OF this] show ?case using 2(3-5) tr ids by (simp add: comp_def del: stage_event.simps)
qed (auto simp: comp_def)

text \<open>A stage that has seen an event runs or is completed.\<close>

definition fresh_stage :: "task_stage \<Rightarrow> bool" where
  "fresh_stage s \<longleftrightarrow> tsStatus s = StPending \<and> tsStarted s = None"

definition begun_stage :: "task_stage \<Rightarrow> bool" where
  "begun_stage s \<longleftrightarrow> tsStatus s \<in> {StRunning, StCompleted} \<and> tsStarted s \<noteq> None"

lemma stage_event_begun: "begun_stage s \<Longrightarrow> begun_stage (stage_event now x s)"
  by (cases x) (auto simp: begun_stage_def complete_one_def record_event_def)

lemma stage_run_begun: "begun_stage s \<Longrightarrow> begun_stage (stage_run clock tr s)"
  by (induction tr arbitrary: clock s) (auto simp: stage_event_begun)

lemma stage_run_fresh:
  assumes "fresh_stage s" "tsId s \<noteq> []"
  shows "if tsId s \<in> stages_of tr then begun_stage (stage_run clock tr s) else stage_run clock tr s = s"
  using assms
proof (induction tr arbitrary: clock)
  case (Cons x tr)
  have hit: "begun_stage (stage_event now x s)" if "act_stage x = tsId s" for now
    using that Cons.prems by (cases x) (auto simp: begun_stage_def fresh_stage_def complete_one_def record_event_def)
  have miss: "stage_event now x s = s" if "act_stage x \<noteq> tsId s" for now
    using that by (cases x) auto
  show ?case
  proof (cases "act_stage x = tsId s")
    case True
    then show ?thesis using hit[OF True] Cons.prems(2) by (simp add: stage_run_begun)
  next
    case False
    then show ?thesis using Cons.IH[OF Cons.prems, of "clock \<circ> Suc"] miss[OF False] by simp
  qed
qed simp

lemma stages_of_Orchestrate:
  assumes "interleaves a"
  shows "stages_of (atTrace (snd (Orchestrate r a))) \<subseteq> planned r"
    "rqGraph r = None \<Longrightarrow> anDial a ''runtime'' = None \<Longrightarrow> fst (Orchestrate r a) = ModeDone \<Longrightarrow>
      stages_of (atTrace (snd (Orchestrate r a))) = planned r"
    "rqGraph r \<noteq> None \<Longrightarrow> ''report'' \<notin> stages_of (atTrace (snd (Orchestrate r a)))"
proof -
  have d: "stages_of (fst (delete_each a ids n)) = {}" for ids n
    by (induction a ids n rule: delete_each.induct) (auto split: prod.splits)
  have c: "stages_of (compensateFindings a ids) = {}" for ids
    using d[of ids "(0, 0)"] by (auto simp: compensateFindings_def split: option.split prod.splits)
  have st: "stages_of (atTrace (acts itr (acts [Stage ''S1'' ''task accepted''] \<lparr>atTrace = [], atIds = [], atSum = []\<rparr>))) = {}"
    if "runIncrementalInherit r' a = (x, itr)" for r' x itr
    using stages_inherit[OF that] by simp
  have pl: "planned (r\<lparr>rqPath := p\<rparr>) = planned r" for p by (simp add: planned_def)
  note R = reaches_run_mode[OF st assms]
  have *: "stages_of (atTrace (snd (Orchestrate r a))) \<subseteq> planned r \<and>
    (rqGraph r = None \<longrightarrow> anDial a ''runtime'' = None \<longrightarrow> fst (Orchestrate r a) = ModeDone \<longrightarrow>
      planned r \<subseteq> stages_of (atTrace (snd (Orchestrate r a)))) \<and>
    (rqGraph r \<noteq> None \<longrightarrow> ''report'' \<notin> stages_of (atTrace (snd (Orchestrate r a))))"
  proof (cases rule: Orchestrate_cases[of r a])
    case (inherit r' err itr e)
    then show ?thesis using st[OF inherit(1)] by (simp add: c)
  next
    case (failed r' itr e x e')
    obtain p where "r' = r\<lparr>rqPath := p\<rparr>" using failed(2) by blast
    then show ?thesis using R(1,3)[OF failed(1), of r'] failed(3-6) by (auto simp: c pl)
  next
    case (finished r' itr e e')
    obtain p where "r' = r\<lparr>rqPath := p\<rparr>" using finished(2) by blast
    then show ?thesis using R[OF finished(1), of r'] finished(3-5) by (auto simp: pl)
  qed simp
  show "stages_of (atTrace (snd (Orchestrate r a))) \<subseteq> planned r" using * by blast
  show "stages_of (atTrace (snd (Orchestrate r a))) = planned r"
    if "rqGraph r = None" "anDial a ''runtime'' = None" "fst (Orchestrate r a) = ModeDone" using * that by blast
  show "''report'' \<notin> stages_of (atTrace (snd (Orchestrate r a)))" if "rqGraph r \<noteq> None" using * that by blast
qed

section \<open>Attempts on a registered board\<close>

text \<open>The task of a request, with the stages the service registered for it.\<close>

definition registered :: "string \<Rightarrow> orch_request \<Rightarrow> service \<Rightarrow> scan_task \<Rightarrow> bool" where
  "registered k r sv t \<longleftrightarrow> (\<exists>t0. t = registerStagesLocked t0 \<and> tkStages t0 = [] \<and> tkId t0 = k \<and> tkMode t0 = rqMode r \<and>
     (cfg (tkConfig t0) ''execution'' = ''graph'' \<longleftrightarrow> rqGraph r \<noteq> None) \<and> map_of (svTasks sv) k = Some t)"

lemma registered_board:
  assumes "registered k r sv t"
  shows "map_of (svTasks sv) k = Some t" "tkId t = k" "tsId ` set (tkStages t) = planned r" "distinct (map tsId (tkStages t))"
    "[] \<notin> planned r" "\<forall>s \<in> set (tkStages t). fresh_stage s \<and> tsError s = []"
proof -
  let ?ks = "if rqGraph r \<noteq> None then [(''graph'', TyGraph), (''report'', TyReportGeneration)] else mode_stages (rqMode r)"
  have t: "map_of (svTasks sv) k = Some t" "tkId t = k" "tkStages t = map (\<lambda>(k, ty). blank_stage k ty) ?ks"
    using assms by (auto simp: registered_def registerStagesLocked_def)
  have ids: "map tsId (tkStages t) = map fst ?ks" unfolding t(3) by (simp add: blank_stage_def split_beta comp_def)
  show "map_of (svTasks sv) k = Some t" "tkId t = k" by (rule t)+
  have "tsId ` set (tkStages t) = set (map fst ?ks)" by (metis ids set_map)
  then show "tsId ` set (tkStages t) = planned r" by (simp add: planned_def)
  show "distinct (map tsId (tkStages t))" unfolding ids by (cases "rqMode r") (simp_all add: mode_stages_def)
  show "[] \<notin> planned r" by (cases "rqMode r") (simp_all add: mode_stages_def planned_def)
  show "\<forall>s \<in> set (tkStages t). fresh_stage s \<and> tsError s = []"
    unfolding t(3) by (auto simp: fresh_stage_def blank_stage_def)
qed

lemma stages_after:
  assumes "registered k r sv t" "interleaves a"
    and "map_of (svTasks (record_all clock k (atTrace (snd (Orchestrate r a))) sv)) k = Some t'"
  shows "tkStages t' = map (stage_run clock (atTrace (snd (Orchestrate r a)))) (tkStages t)"
  using record_all_board[OF registered_board(1,2,4)[OF assms(1)], of "atTrace (snd (Orchestrate r a))" clock]
    registered_board(3,5)[OF assms(1)] stages_of_Orchestrate(1)[OF assms(2), of r] assms(3) by auto

text \<open>C21. While an attempt runs, its stage events change the board its service registered for the task exactly as if each
  stage saw only the events that name it: no event adds a stage, and none is lost.\<close>

theorem attempt_runs_planned_stages:
  assumes "registered k r sv t" "interleaves a"
  shows "map_of (svTasks (record_all clock k (atTrace (snd (Orchestrate r a))) sv)) k =
    Some (t\<lparr>tkStages := map (stage_run clock (atTrace (snd (Orchestrate r a)))) (tkStages t)\<rparr>)"
  using registered_board[OF assms(1)] stages_of_Orchestrate(1)[OF assms(2), of r] by (intro record_all_board) auto

lemma registered_after:
  assumes "registered k r sv t" "interleaves a" "s \<in> set (tkStages t)"
  shows "if tsId s \<in> stages_of (atTrace (snd (Orchestrate r a)))
    then begun_stage (stage_run clock (atTrace (snd (Orchestrate r a))) s)
    else stage_run clock (atTrace (snd (Orchestrate r a))) s = s"
  using registered_board(3,5,6)[OF assms(1)] assms(3) by (intro stage_run_fresh) (auto simp: rev_image_eqI)

lemma stage_run_error: "tsError (stage_run clock tr s) = tsError s"
proof (induction tr arbitrary: clock s)
  case (Cons x tr)
  have "tsError (stage_event now x s) = tsError s" for now
    by (cases x) (auto simp: complete_one_def record_event_def)
  with Cons show ?case by simp
qed simp

text \<open>C22. A successful attempt that is not a graph has begun every stage of its board, when the runtime service has an
  address: none is left pending.\<close>

theorem success_begins_every_stage:
  assumes "registered k r sv t" "interleaves a" "rqGraph r = None" "anDial a ''runtime'' = None"
    and "fst (Orchestrate r a) = ModeDone" "s \<in> set (tkStages t)"
  shows "begun_stage (stage_run clock (atTrace (snd (Orchestrate r a))) s)"
  using registered_after[OF assms(1,2,6), of clock] registered_board(3)[OF assms(1)] assms(6)
    stages_of_Orchestrate(2)[OF assms(2-5)] by (auto simp: image_iff split: if_splits)

text \<open>C23. After a successful attempt the closed board shows every stage completed and without an error, whichever side
  of it failed: a scanner stage whose scanners all failed too.\<close>

theorem success_shows_all_completed:
  assumes "registered k r sv t" "interleaves a" "fst (Orchestrate r a) = ModeDone"
    and "map_of (svTasks (record_all clock k (atTrace (snd (Orchestrate r a))) sv)) k = Some t'"
    and "s \<in> set (tkStages (finalizeStagesLocked now None t'))"
  shows "tsStatus s = StCompleted \<and> tsError s = []"
proof -
  let ?tr = "atTrace (snd (Orchestrate r a))"
  have "tkStages t' = map (stage_run clock ?tr) (tkStages t)" by (rule stages_after[OF assms(1,2,4)])
  then obtain s0 where s0: "s0 \<in> set (tkStages t)" "s = finalize_stage now None (stage_run clock ?tr s0)"
    using assms(5) by (auto simp: finalizeStagesLocked_def)
  have "begun_stage (stage_run clock ?tr s0) \<or> stage_run clock ?tr s0 = s0"
    using registered_after[OF assms(1,2) s0(1), of clock] by (auto split: if_splits)
  then have "tsStatus (stage_run clock ?tr s0) \<in> {StPending, StRunning, StCompleted}"
    using registered_board(6)[OF assms(1)] s0(1) by (auto simp: begun_stage_def fresh_stage_def)
  then show ?thesis using stage_run_error[of clock ?tr s0] registered_board(6)[OF assms(1)] s0
    by (auto simp: finalize_stage_def)
qed

lemma graph_calls_no_report:
  assumes "rqGraph r \<noteq> None"
  shows "Call (RpcReport x y) \<notin> set (atTrace (snd (Orchestrate r a)))"
proof -
  have d: "Call (RpcReport x y) \<notin> set (fst (delete_each a ids n))" for ids n
    by (induction a ids n rule: delete_each.induct) (auto split: prod.splits)
  have c: "Call (RpcReport x y) \<notin> set (compensateFindings a ids)" for ids
    using d[of ids "(0, 0)"] by (cases "delete_each a ids (0, 0)") (auto simp: compensateFindings_def split: option.split prod.split)
  have i: "Call (RpcReport x y) \<notin> set (snd (runIncrementalInherit r' a))" for r'
    by (auto simp: runIncrementalInherit_def split: option.split sum.split)
  have g: "Call (RpcReport x y) \<notin> set (atTrace (snd (runGraphTask g r' a e)))" if "Call (RpcReport x y) \<notin> set (atTrace e)" for g r' e
    using that by (auto simp: runGraphTask_def split: option.split sum.split)
  have m: "Call (RpcReport x y) \<notin> set (atTrace (snd (run_mode r' a e)))"
    if "rqGraph r' \<noteq> None" "Call (RpcReport x y) \<notin> set (atTrace e)" for r' e
    using that g by (cases "rqGraph r'") (auto simp: run_mode_def)
  have f: "Call (RpcReport x y) \<notin> set (atTrace (final_stats r' a e))" if "Call (RpcReport x y) \<notin> set (atTrace e)" for r' e
    using that by (auto simp: final_stats_def split: option.split sum.split)
  show ?thesis
  proof (cases rule: Orchestrate_cases[of r a])
    case (inherit r' err itr e)
    then show ?thesis using i[of r'] by (simp add: c)
  next
    case (failed r' itr e z e')
    then have "Call (RpcReport x y) \<notin> set (atTrace (snd (run_mode r' a e)))"
      using i[of r'] assms by (intro m) auto
    then show ?thesis using failed by (simp add: c)
  next
    case (finished r' itr e e')
    then have "Call (RpcReport x y) \<notin> set (atTrace (snd (run_mode r' a e)))"
      using i[of r'] assms by (intro m) auto
    then show ?thesis using finished f by simp
  qed simp
qed

text \<open>An attempt on a graph never asks for a report, and the board registered for it still ends with a report stage that
  is completed, with the closing time as its start and its end.\<close>

theorem graph_report_stage_is_fictitious:
  assumes "registered k r sv t" "interleaves a" "rqGraph r \<noteq> None"
    and "map_of (svTasks (record_all clock k (atTrace (snd (Orchestrate r a))) sv)) k = Some t'"
  shows "Call (RpcReport x y) \<notin> set (atTrace (snd (Orchestrate r a))) \<and>
    (\<exists>s. s \<in> set (tkStages (finalizeStagesLocked now None t')) \<and> tsId s = ''report'' \<and>
      tsStatus s = StCompleted \<and> tsStarted s = Some now \<and> tsCompleted s = Some now)"
proof -
  have "''report'' \<in> planned r" using assms(3) by (simp add: planned_def)
  then obtain s0 where s0: "s0 \<in> set (tkStages t)" "tsId s0 = ''report''"
    using registered_board(3)[OF assms(1)] by (metis imageE)
  have keep: "stage_run clock (atTrace (snd (Orchestrate r a))) s0 = s0"
    using registered_after[OF assms(1,2) s0(1), of clock] stages_of_Orchestrate(3)[OF assms(2,3)] s0(2) by simp
  have "finalize_stage now None s0 \<in> set (tkStages (finalizeStagesLocked now None t'))"
    using stages_after[OF assms(1,2,4)] s0(1) keep by (auto simp: finalizeStagesLocked_def rev_image_eqI)
  then show ?thesis using graph_calls_no_report[OF assms(3)] registered_board(6)[OF assms(1)] s0
    by (intro conjI exI[of _ "finalize_stage now None s0"]) (auto simp: finalize_stage_def fresh_stage_def)
qed

section \<open>Attempts of a small service\<close>

definition board_task :: "scan_mode \<Rightarrow> string option \<Rightarrow> scan_task" where
  "board_task m g = registerStagesLocked \<lparr>tkId = ''t'', tkProject = ''p'', tkStatus = TS_RUNNING, tkMode = m, tkError = [],
     tkRetry = 0, tkAgent = ''a'', tkCreatedBy = ''u'', tkUpdatedAt = 0,
     tkConfig = (if g = None then [] else [(''execution'', ''graph'')]), tkStages = []\<rparr>"

definition board_service :: "scan_mode \<Rightarrow> string option \<Rightarrow> service" where
  "board_service m g = \<lparr>svTasks = [(''t'', board_task m g)], svLogs = [], svLogSeq = 0, svLogIdem = [], svStageIdem = [],
     svPaths = [], svConfigs = [], svContexts = [], svIncremental = [], svCancels = [], svResumes = [],
     svEvents = [], svUsage = []\<rparr>"

lemma demo_registered: "registered ''t'' (demo_request m g) (board_service m g) (board_task m g)"
  by (auto simp: registered_def board_service_def board_task_def demo_request_def cfg_def)

abbreviation demo_trace :: "scan_mode \<Rightarrow> string option \<Rightarrow> act list" where
  "demo_trace m g \<equiv> atTrace (snd (Orchestrate (demo_request m g) demo_answers))"

abbreviation demo_after :: "scan_mode \<Rightarrow> string option \<Rightarrow> scan_task" where
  "demo_after m g \<equiv> (board_task m g)\<lparr>tkStages := map (stage_run (\<lambda>_. 5) (demo_trace m g)) (tkStages (board_task m g))\<rparr>"

lemma demo_recorded:
  "map_of (svTasks (record_all (\<lambda>_. 5) ''t'' (demo_trace m g) (board_service m g))) ''t'' = Some (demo_after m g)"
  using registered_board[OF demo_registered] stages_of_Orchestrate(1)[OF demo_mix, of "demo_request m g"]
  by (intro record_all_board) auto

theorem attempt_runs_planned_stages_witness:
  "map_of (svTasks (record_all (\<lambda>_. 5) ''t'' (demo_trace Parallel None) (board_service Parallel None))) ''t'' =
    Some (demo_after Parallel None)"
  using attempt_runs_planned_stages[OF demo_registered demo_mix] .

lemma demo_in:
  "blank_stage ''sast'' TySastScan \<in> set (tkStages (board_task Parallel None))"
  by (simp add: board_task_def registerStagesLocked_def cfg_def mode_stages_def)

theorem success_begins_every_stage_witness:
  "begun_stage (stage_run (\<lambda>_. 5) (demo_trace Parallel None) (blank_stage ''sast'' TySastScan))"
  by (rule success_begins_every_stage[OF demo_registered demo_mix _ _ demo_success(1) demo_in])
    (simp_all add: demo_request_def demo_answers_def)

text \<open>Every scanner failed here, and the stage of the scanners ends completed.\<close>

theorem success_shows_all_completed_witness:
  "tsStatus (finalize_stage 9 None (stage_run (\<lambda>_. 5) (demo_trace Parallel None) (blank_stage ''sast'' TySastScan))) =
      StCompleted \<and>
    anScans demo_answers = Inr [\<lparr>trTool = ''semgrep'', trStatus = ScanFailed, trIds = []\<rparr>]"
proof -
  have "finalize_stage 9 None (stage_run (\<lambda>_. 5) (demo_trace Parallel None) (blank_stage ''sast'' TySastScan)) \<in>
      set (tkStages (finalizeStagesLocked 9 None (demo_after Parallel None)))"
    using demo_in by (auto simp: finalizeStagesLocked_def)
  from success_shows_all_completed[OF demo_registered demo_mix demo_success(1) demo_recorded this]
  show ?thesis by (simp add: demo_answers_def)
qed

theorem graph_report_stage_is_fictitious_witness:
  "fst (Orchestrate (demo_request Parallel (Some [])) demo_answers) = ModeDone \<and>
    Call (RpcReport ''q-report'' ''t'') \<notin> set (demo_trace Parallel (Some []))"
  using graph_report_stage_is_fictitious[where x = "''q-report''" and y = "''t''", OF demo_registered demo_mix _ demo_recorded,
      of Parallel "Some []"] demo_success(2) by (simp add: demo_request_def)

declare Let_def [simp del]

end
