(* ===== verification/ProjectStore.thy ===== *)
theory ProjectStore imports Main Prelude GoText TaskState begin

text \<open>
  The stores of the project service: the maps of one replica
  (\<open>project-service/internal/repo/memory.go\<close>, \<open>repo/invite.go\<close>) and the PostgreSQL tables all replicas
  share (\<open>repo/mirror_pg.go\<close>).

  A record is a value here, and a function that changes the record behind a pointer it got from a map stores the changed
  record. A statement on the database either fails and changes nothing or is done; whether it fails is an argument. A row
  of \<open>users\<close> and of \<open>invite_codes\<close> is the record its payload encodes, from which the other columns
  are taken.
\<close>

section \<open>Entities\<close>

datatype role = RoleUnspecified | RoleAdmin | RoleDeveloper | RoleViewer

datatype user_state = UsUnspecified | UsActive | UsInactive | UsLocked

record user =
  uId :: string
  uName :: string
  uEmail :: string
  uState :: user_state
  uCreated :: "gotime option"
  uRole :: role
  uMust :: bool

record user_rec =
  urUser :: user
  urPassword :: string

record invite =
  inId :: string
  inCode :: string
  inMax :: int
  inUsed :: int
  inExpires :: "gotime option"
  inState :: string
  inNote :: string
  inCreatedBy :: string
  inCreatedAt :: gotime
  inRevokedAt :: "gotime option"
  inLastBy :: string
  inLastAt :: "gotime option"
  inRole :: role

record project =
  pjId :: string
  pjName :: string
  pjRepo :: string
  pjBranch :: string
  pjMode :: scan_mode
  pjCreated :: "gotime option"
  pjTeam :: string

record project_config =
  pcProject :: string
  pcConfig :: "(string \<times> string) list"

record project_stats =
  ptProject :: string
  ptTasks :: int
  ptFindings :: int
  ptF1 :: rat

record member =
  mbProject :: string
  mbUser :: string
  mbRole :: string

section \<open>The maps of a replica\<close>

record project_store =
  msProjects :: "(string \<times> project) list"
  msConfigs :: "(string \<times> project_config) list"
  msStats :: "(string \<times> project_stats) list"
  msMembers :: "(string \<times> member) list"
  msUsers :: "(string \<times> user_rec) list"
  msInvites :: "(string \<times> invite) list"

definition empty_memory :: project_store where
  "empty_memory = \<lparr>msProjects = [], msConfigs = [], msStats = [], msMembers = [], msUsers = [], msInvites = []\<rparr>"

text \<open>The seeded administrator; \<open>hash\<close> is the bcrypt hash of its password.\<close>

definition NewProjectStore :: "gotime \<Rightarrow> string \<Rightarrow> bool \<Rightarrow> project_store" where
  "NewProjectStore now hash seedAdmin =
    (if \<not> seedAdmin then empty_memory
     else empty_memory\<lparr>msUsers := [(''user-001'',
       \<lparr>urUser = \<lparr>uId = ''user-001'', uName = ''admin'', uEmail = ''admin@codeaudit.local'', uState = UsActive,
          uCreated = Some now, uRole = RoleAdmin, uMust = False\<rparr>, urPassword = hash\<rparr>)]\<rparr>)"

definition put_project :: "project \<Rightarrow> project_store \<Rightarrow> project_store" where
  "put_project p m = m\<lparr>msProjects := AList.update (pjId p) p (msProjects m)\<rparr>"

definition UpsertProjectConfig :: "project_config \<Rightarrow> project_store \<Rightarrow> project_store" where
  "UpsertProjectConfig c m = m\<lparr>msConfigs := AList.update (pcProject c) c (msConfigs m)\<rparr>"

definition UpsertProjectStats :: "project_stats \<Rightarrow> project_store \<Rightarrow> project_store" where
  "UpsertProjectStats c m = m\<lparr>msStats := AList.update (ptProject c) c (msStats m)\<rparr>"

definition memberKey :: "string \<Rightarrow> string \<Rightarrow> string" where
  "memberKey projectID userID = projectID @ '':'' @ userID"

definition AddMember :: "member \<Rightarrow> project_store \<Rightarrow> project_store" where
  "AddMember b m = m\<lparr>msMembers := AList.update (memberKey (mbProject b) (mbUser b)) b (msMembers m)\<rparr>"

definition RemoveMember :: "string \<Rightarrow> string \<Rightarrow> project_store \<Rightarrow> project_store" where
  "RemoveMember projectID userID m = m\<lparr>msMembers := AList.delete (memberKey projectID userID) (msMembers m)\<rparr>"

text \<open>A key that begins with the project, a colon and at least one character more.\<close>

definition ListMembers :: "string \<Rightarrow> project_store \<Rightarrow> member list" where
  "ListMembers projectID m =
    map snd (filter (\<lambda>(k, b). length k > length (projectID @ '':'') \<and> prefix (projectID @ '':'') k) (msMembers m))"

definition DeleteProject :: "string \<Rightarrow> project_store \<Rightarrow> project_store" where
  "DeleteProject projectID m = m\<lparr>msProjects := AList.delete projectID (msProjects m),
     msConfigs := AList.delete projectID (msConfigs m), msStats := AList.delete projectID (msStats m),
     msMembers := filter (\<lambda>(k, b). \<not> (length k > length projectID \<and> prefix projectID k \<and> k ! length projectID = CHR '':''))
       (msMembers m)\<rparr>"

text \<open>\<open>time.Time\<close> of a missing timestamp.\<close>

definition as_time :: "gotime option \<Rightarrow> gotime" where
  "as_time t = (case t of Some x \<Rightarrow> x | None \<Rightarrow> 0)"

definition project_before :: "project \<Rightarrow> project \<Rightarrow> bool" where
  "project_before a b \<longleftrightarrow>
    (if as_time (pjCreated a) \<noteq> as_time (pjCreated b) then as_time (pjCreated a) < as_time (pjCreated b) else pjId a < pjId b)"

text \<open>\<open>sort.Slice\<close> with a strict order that leaves no two elements undecided.\<close>

fun insert_before :: "('a \<Rightarrow> 'a \<Rightarrow> bool) \<Rightarrow> 'a \<Rightarrow> 'a list \<Rightarrow> 'a list" where
  "insert_before lt x [] = [x]"
| "insert_before lt x (y # ys) = (if lt y x then y # insert_before lt x ys else x # y # ys)"

definition sort_slice :: "('a \<Rightarrow> 'a \<Rightarrow> bool) \<Rightarrow> 'a list \<Rightarrow> 'a list" where
  "sort_slice lt xs = foldr (insert_before lt) xs []"

definition ListProjects :: "project_store \<Rightarrow> project list" where
  "ListProjects m = sort_slice project_before (map snd (msProjects m))"

definition GetUser :: "string \<Rightarrow> project_store \<Rightarrow> user_rec option" where
  "GetUser userID m = map_of (msUsers m) userID"

definition GetUserByUsername :: "string \<Rightarrow> project_store \<Rightarrow> user_rec option" where
  "GetUserByUsername username m = find (\<lambda>r. uName (urUser r) = username) (map snd (msUsers m))"

definition UpdateUser_mem :: "user_rec \<Rightarrow> project_store \<Rightarrow> project_store" where
  "UpdateUser_mem r m = m\<lparr>msUsers := AList.update (uId (urUser r)) r (msUsers m)\<rparr>"

definition DeleteUser :: "string \<Rightarrow> project_store \<Rightarrow> project_store" where
  "DeleteUser userID m = m\<lparr>msUsers := AList.delete userID (msUsers m)\<rparr>"

definition CreateUser_mem :: "user_rec \<Rightarrow> project_store \<Rightarrow> bool \<times> project_store" where
  "CreateUser_mem r m =
    (if \<exists>u \<in> set (map snd (msUsers m)). uName (urUser u) = uName (urUser r) \<or> uEmail (urUser u) = uEmail (urUser r)
     then (False, m) else (True, UpdateUser_mem r m))"

definition ListUsers_mem :: "user_state \<Rightarrow> string \<Rightarrow> project_store \<Rightarrow> user_rec list" where
  "ListUsers_mem st usernameContains m =
    sort_slice (\<lambda>a b. uId (urUser a) < uId (urUser b))
      (filter (\<lambda>r. (st = UsUnspecified \<or> uState (urUser r) = st) \<and>
         (usernameContains = [] \<or> str_contains (uName (urUser r)) usernameContains)) (map snd (msUsers m)))"

definition rolePermissions :: "(string \<times> string list) list" where
  "rolePermissions =
    [(''admin'', [''project:create'', ''project:read'', ''project:update'', ''project:delete'', ''user:manage'']),
     (''developer'', [''project:read'', ''project:update'']), (''viewer'', [''project:read''])]"

definition GetUserPermissionList :: "string \<Rightarrow> project_store \<Rightarrow> string list" where
  "GetUserPermissionList userID m =
    (let perms = remdups (concat (map (\<lambda>b. if mbUser b = userID
           then (case map_of rolePermissions (mbRole b) of Some ps \<Rightarrow> ps | None \<Rightarrow> []) else []) (map snd (msMembers m))))
     in if perms = [] then [''project:read''] else perms)"

section \<open>Invitation codes of a replica\<close>

definition InviteUsable :: "invite \<Rightarrow> gotime \<Rightarrow> bool" where
  "InviteUsable c now \<longleftrightarrow> inState c = ''active'' \<and> \<not> (inMax c > 0 \<and> inUsed c \<ge> inMax c) \<and>
     (case inExpires c of None \<Rightarrow> True | Some t \<Rightarrow> t > now)"

definition InviteTerminal :: "invite \<Rightarrow> gotime \<Rightarrow> bool" where
  "InviteTerminal c now \<longleftrightarrow> \<not> InviteUsable c now"

definition PutInviteCode :: "invite \<Rightarrow> project_store \<Rightarrow> project_store" where
  "PutInviteCode c m = m\<lparr>msInvites := AList.update (inCode c) c (msInvites m)\<rparr>"

definition CreateInviteCode_mem :: "invite \<Rightarrow> project_store \<Rightarrow> bool \<times> project_store" where
  "CreateInviteCode_mem c m = (if map_of (msInvites m) (inCode c) \<noteq> None then (False, m) else (True, PutInviteCode c m))"

definition GetInviteCode :: "string \<Rightarrow> project_store \<Rightarrow> invite option" where
  "GetInviteCode code m = map_of (msInvites m) code"

definition GetInviteCodeByID :: "string \<Rightarrow> project_store \<Rightarrow> invite option" where
  "GetInviteCodeByID k m = find (\<lambda>c. inId c = k) (map snd (msInvites m))"

definition ListInviteCodes_mem :: "project_store \<Rightarrow> invite list" where
  "ListInviteCodes_mem m = sort_slice (\<lambda>a b. if inCreatedAt a \<noteq> inCreatedAt b then inCreatedAt a > inCreatedAt b else inId a > inId b)
     (map snd (msInvites m))"

definition UpdateInviteCode :: "invite \<Rightarrow> project_store \<Rightarrow> bool \<times> project_store" where
  "UpdateInviteCode c m = (if map_of (msInvites m) (inCode c) = None then (False, m) else (True, PutInviteCode c m))"

text \<open>The code with one use more, its counter an \<open>int32\<close>.\<close>

definition used_once :: "string \<Rightarrow> gotime \<Rightarrow> invite \<Rightarrow> invite" where
  "used_once userID now c = c\<lparr>inUsed := int32 (inUsed c + 1), inLastBy := userID, inLastAt := Some now\<rparr>"

definition ConsumeInviteCode_mem :: "string \<Rightarrow> string \<Rightarrow> gotime \<Rightarrow> project_store \<Rightarrow> bool \<times> project_store" where
  "ConsumeInviteCode_mem code userID now m = (case map_of (msInvites m) code of
     None \<Rightarrow> (False, m)
   | Some c \<Rightarrow> if \<not> InviteUsable c now then (False, m)
       else (True, m\<lparr>msInvites := AList.update code (used_once userID now c) (msInvites m)\<rparr>))"

definition DeleteInviteCode_mem :: "string \<Rightarrow> project_store \<Rightarrow> bool \<times> project_store" where
  "DeleteInviteCode_mem k m = (case find (\<lambda>(code, c). inId c = k) (msInvites m) of
     None \<Rightarrow> (False, m) | Some (code, c) \<Rightarrow> (True, m\<lparr>msInvites := AList.delete code (msInvites m)\<rparr>))"

section \<open>The tables\<close>

record pg =
  pgProjects :: "(string \<times> project) list"
  pgConfigs :: "(string \<times> project_config) list"
  pgStats :: "(string \<times> project_stats) list"
  pgMembers :: "((string \<times> string) \<times> member) list"
  pgUsers :: "(string \<times> user_rec) list"
  pgRevoked :: "(string \<times> gotime) list"
  pgEpochs :: "(string \<times> gotime) list"
  pgInvites :: "(string \<times> invite) list"

datatype pg_answer = PgOk | PgUnique | PgFail

definition pg_write :: "bool \<Rightarrow> (pg \<Rightarrow> pg) \<Rightarrow> pg \<Rightarrow> pg_answer \<times> pg" where
  "pg_write up f db = (if up then (PgOk, f db) else (PgFail, db))"

definition pg_read :: "bool \<Rightarrow> (pg \<Rightarrow> 'a) \<Rightarrow> pg \<Rightarrow> 'a option" where
  "pg_read up f db = (if up then Some (f db) else None)"

definition PG_UpsertProject :: "bool \<Rightarrow> project \<Rightarrow> pg \<Rightarrow> pg_answer \<times> pg" where
  "PG_UpsertProject up p = pg_write up (\<lambda>db. db\<lparr>pgProjects := AList.update (pjId p) p (pgProjects db)\<rparr>)"

definition PG_GetProject :: "bool \<Rightarrow> string \<Rightarrow> pg \<Rightarrow> project option option" where
  "PG_GetProject up k = pg_read up (\<lambda>db. map_of (pgProjects db) k)"

definition PG_DeleteProject :: "bool \<Rightarrow> string \<Rightarrow> pg \<Rightarrow> pg_answer \<times> pg" where
  "PG_DeleteProject up k = pg_write up (\<lambda>db. db\<lparr>pgProjects := AList.delete k (pgProjects db),
     pgConfigs := AList.delete k (pgConfigs db), pgStats := AList.delete k (pgStats db),
     pgMembers := filter (\<lambda>((p, u), b). p \<noteq> k) (pgMembers db)\<rparr>)"

definition PG_ListProjects :: "bool \<Rightarrow> pg \<Rightarrow> project list option" where
  "PG_ListProjects up = pg_read up (\<lambda>db. map snd (pgProjects db))"

definition PG_UpsertProjectConfig :: "bool \<Rightarrow> project_config \<Rightarrow> pg \<Rightarrow> pg_answer \<times> pg" where
  "PG_UpsertProjectConfig up c = pg_write up (\<lambda>db. db\<lparr>pgConfigs := AList.update (pcProject c) c (pgConfigs db)\<rparr>)"

definition PG_GetProjectConfig :: "bool \<Rightarrow> string \<Rightarrow> pg \<Rightarrow> project_config option option" where
  "PG_GetProjectConfig up k = pg_read up (\<lambda>db. map_of (pgConfigs db) k)"

definition PG_UpsertProjectStats :: "bool \<Rightarrow> project_stats \<Rightarrow> pg \<Rightarrow> pg_answer \<times> pg" where
  "PG_UpsertProjectStats up c = pg_write up (\<lambda>db. db\<lparr>pgStats := AList.update (ptProject c) c (pgStats db)\<rparr>)"

definition PG_GetProjectStats :: "bool \<Rightarrow> string \<Rightarrow> pg \<Rightarrow> project_stats option option" where
  "PG_GetProjectStats up k = pg_read up (\<lambda>db. map_of (pgStats db) k)"

definition PG_UpsertMember :: "bool \<Rightarrow> member \<Rightarrow> pg \<Rightarrow> pg_answer \<times> pg" where
  "PG_UpsertMember up b = pg_write up (\<lambda>db. db\<lparr>pgMembers := AList.update (mbProject b, mbUser b) b (pgMembers db)\<rparr>)"

definition PG_DeleteMember :: "bool \<Rightarrow> string \<Rightarrow> string \<Rightarrow> pg \<Rightarrow> pg_answer \<times> pg" where
  "PG_DeleteMember up p u = pg_write up (\<lambda>db. db\<lparr>pgMembers := AList.delete (p, u) (pgMembers db)\<rparr>)"

definition PG_ListMembers :: "bool \<Rightarrow> string \<Rightarrow> pg \<Rightarrow> member list option" where
  "PG_ListMembers up k = pg_read up (\<lambda>db. map snd (filter (\<lambda>((p, u), b). p = k) (pgMembers db)))"

definition PG_ListMembersForUser :: "bool \<Rightarrow> string \<Rightarrow> pg \<Rightarrow> member list option" where
  "PG_ListMembersForUser up k = pg_read up (\<lambda>db. map snd (filter (\<lambda>((p, u), b). u = k) (pgMembers db)))"

text \<open>The name and the address are unique over the rows of other users.\<close>

definition PG_UpsertUser :: "bool \<Rightarrow> user_rec \<Rightarrow> pg \<Rightarrow> pg_answer \<times> pg" where
  "PG_UpsertUser up r db =
    (if up \<and> (\<exists>(k, q) \<in> set (pgUsers db). k \<noteq> uId (urUser r) \<and>
         (uName (urUser q) = uName (urUser r) \<or> uEmail (urUser q) = uEmail (urUser r)))
     then (PgUnique, db)
     else pg_write up (\<lambda>db. db\<lparr>pgUsers := AList.update (uId (urUser r)) r (pgUsers db)\<rparr>) db)"

definition PG_GetUser :: "bool \<Rightarrow> string \<Rightarrow> pg \<Rightarrow> user_rec option option" where
  "PG_GetUser up k = pg_read up (\<lambda>db. map_of (pgUsers db) k)"

definition PG_GetUserByUsername :: "bool \<Rightarrow> string \<Rightarrow> pg \<Rightarrow> user_rec option option" where
  "PG_GetUserByUsername up n = pg_read up (\<lambda>db. find (\<lambda>r. uName (urUser r) = n) (map snd (pgUsers db)))"

text \<open>\<open>ON CONFLICT DO NOTHING\<close>.\<close>

definition PG_SaveRevokedToken :: "bool \<Rightarrow> string \<Rightarrow> gotime \<Rightarrow> pg \<Rightarrow> pg_answer \<times> pg" where
  "PG_SaveRevokedToken up tok at_time =
    pg_write up (\<lambda>db. if map_of (pgRevoked db) tok \<noteq> None then db else db\<lparr>pgRevoked := AList.update tok at_time (pgRevoked db)\<rparr>)"

definition PG_HydrateRevoked :: "bool \<Rightarrow> gotime \<Rightarrow> int \<Rightarrow> pg \<Rightarrow> (string \<times> gotime) list option" where
  "PG_HydrateRevoked up now window = pg_read up (\<lambda>db. filter (\<lambda>(tok, t). t > now - window) (pgRevoked db))"

definition PG_SaveSessionEpoch :: "bool \<Rightarrow> string \<Rightarrow> gotime \<Rightarrow> pg \<Rightarrow> pg_answer \<times> pg" where
  "PG_SaveSessionEpoch up u t = pg_write up (\<lambda>db. db\<lparr>pgEpochs := AList.update u t (pgEpochs db)\<rparr>)"

definition PG_HydrateEpochs :: "bool \<Rightarrow> pg \<Rightarrow> (string \<times> gotime) list option" where
  "PG_HydrateEpochs up = pg_read up pgEpochs"

definition PG_UpsertInviteCode :: "bool \<Rightarrow> invite \<Rightarrow> pg \<Rightarrow> pg_answer \<times> pg" where
  "PG_UpsertInviteCode up c = pg_write up (\<lambda>db. db\<lparr>pgInvites := AList.update (inCode c) c (pgInvites db)\<rparr>)"

definition PG_ListInviteCodes :: "bool \<Rightarrow> pg \<Rightarrow> invite list option" where
  "PG_ListInviteCodes up = pg_read up (\<lambda>db. map snd (pgInvites db))"

definition PG_GetInviteCode :: "bool \<Rightarrow> string \<Rightarrow> pg \<Rightarrow> invite option option" where
  "PG_GetInviteCode up code = pg_read up (\<lambda>db. map_of (pgInvites db) code)"

text \<open>The update of a consumption: it is done only where the row still has the counter that was read. It writes the payload
  and the counter; the limit and the end of a code never change, so the payload is the row.\<close>

definition consume_update :: "string \<Rightarrow> gotime \<Rightarrow> invite \<Rightarrow> invite \<Rightarrow> pg \<Rightarrow> nat \<times> pg" where
  "consume_update code now current nxt db = (case map_of (pgInvites db) code of
     None \<Rightarrow> (0, db)
   | Some row \<Rightarrow>
       if inUsed row = inUsed current \<and> inState row = ''active'' \<and> (inMax row = 0 \<or> inUsed row < inMax row) \<and>
          (case inExpires row of None \<Rightarrow> True | Some t \<Rightarrow> t > now)
       then (1, db\<lparr>pgInvites := AList.update code nxt (pgInvites db)\<rparr>)
       else (0, db))"

text \<open>The table when the row is read, and when it is written: other replicas may write in between.\<close>

definition PG_ConsumeInviteCode ::
  "bool \<Rightarrow> string \<Rightarrow> string \<Rightarrow> gotime \<Rightarrow> pg \<Rightarrow> pg \<Rightarrow> bool option \<times> pg" where
  "PG_ConsumeInviteCode up code userID now db0 db =
    (if \<not> up then (None, db)
     else case map_of (pgInvites db0) code of
       None \<Rightarrow> (Some False, db)
     | Some current \<Rightarrow>
         if \<not> InviteUsable current now then (Some False, db)
         else (let (n, db') = consume_update code now current (used_once userID now current) db in (Some (n = 1), db')))"

definition PG_DeleteInviteCode :: "bool \<Rightarrow> string \<Rightarrow> pg \<Rightarrow> pg_answer \<times> pg" where
  "PG_DeleteInviteCode up k = pg_write up (\<lambda>db. db\<lparr>pgInvites := filter (\<lambda>(code, c). inId c \<noteq> k) (pgInvites db)\<rparr>)"

end
