(* ===== verification/Accounts.thy ===== *)
theory Accounts imports Main Prelude GoText ProjectStore begin

text \<open>
  Accounts, sessions and invitations (\<open>project-service/internal/service/user.go\<close>,
  \<open>user_lifecycle.go\<close>, \<open>invite.go\<close>).

  Password hashing, the signing and parsing of tokens, random draws and fresh ids come from libraries: they are arguments
  (\<open>auth_env\<close>), as is whether a database statement succeeds. The mirror is the shared database, or none.
  A day added to a date is 24 hours (the service runs in UTC). A map range visits in list order.
\<close>

section \<open>Environment and state\<close>

record claims =
  clSub :: string
  clUsername :: "string option"
  clRole :: "string option"
  clExp :: int
  clIat :: "int option"
  clType :: string

record auth_env =
  aeHash :: "string \<Rightarrow> string + string"
  aeCompare :: "string \<Rightarrow> string \<Rightarrow> bool"
  aeSign :: "claims \<Rightarrow> string + string"
  aeParse :: "gotime \<Rightarrow> string \<Rightarrow> string + claims"
  aeUp :: "string \<Rightarrow> bool"
  aeDraw :: "nat \<Rightarrow> nat \<Rightarrow> nat option"
  aeId :: "nat \<Rightarrow> string"
  aeMode :: string
  aeCodes :: "string list"

record user_service =
  usStore :: project_store
  usRevoked :: "(string \<times> gotime) list"
  usEpochs :: "(string \<times> gotime) list"
  usMirror :: "pg option"

abbreviation on_store :: "(project_store \<Rightarrow> project_store) \<Rightarrow> user_service \<Rightarrow> user_service" where
  "on_store f s \<equiv> s\<lparr>usStore := f (usStore s)\<rparr>"

text \<open>A write to the mirror whose failure is only logged.\<close>

definition write_through :: "(pg \<Rightarrow> pg_answer \<times> pg) \<Rightarrow> user_service \<Rightarrow> user_service" where
  "write_through f s = (case usMirror s of None \<Rightarrow> s | Some db \<Rightarrow> s\<lparr>usMirror := Some (snd (f db))\<rparr>)"

definition accessTokenExpiry :: int where "accessTokenExpiry = 30 * ns_minute"

definition refreshTokenExpiry :: int where "refreshTokenExpiry = 7 * 24 * ns_hour"

fun role_String :: "role \<Rightarrow> string" where
  "role_String RoleUnspecified = ''ROLE_UNSPECIFIED''"
| "role_String RoleAdmin = ''ROLE_ADMIN''"
| "role_String RoleDeveloper = ''ROLE_DEVELOPER''"
| "role_String RoleViewer = ''ROLE_VIEWER''"

fun user_state_String :: "user_state \<Rightarrow> string" where
  "user_state_String UsUnspecified = ''USER_STATE_UNSPECIFIED''"
| "user_state_String UsActive = ''USER_STATE_ACTIVE''"
| "user_state_String UsInactive = ''USER_STATE_INACTIVE''"
| "user_state_String UsLocked = ''USER_STATE_LOCKED''"

text \<open>\<open>t.Unix()\<close> and \<open>time.Unix(s, 0)\<close>.\<close>

definition unix :: "gotime \<Rightarrow> int" where "unix t = t div ns_second"

definition from_unix :: "int \<Rightarrow> gotime" where "from_unix s = s * ns_second"

section \<open>Reading users\<close>

definition userByIDWithFallback :: "auth_env \<Rightarrow> string \<Rightarrow> user_service \<Rightarrow> user_rec option \<times> user_service" where
  "userByIDWithFallback v userID s = (case GetUser userID (usStore s) of
     Some r \<Rightarrow> (Some r, s)
   | None \<Rightarrow> (case usMirror s of
       None \<Rightarrow> (None, s)
     | Some db \<Rightarrow> (case PG_GetUser (aeUp v ''user-fallback'') userID db of
         Some (Some r) \<Rightarrow> (Some r, on_store (UpdateUser_mem r) s)
       | _ \<Rightarrow> (None, s))))"

definition userByUsernameWithFallback :: "auth_env \<Rightarrow> string \<Rightarrow> user_service \<Rightarrow> user_rec option \<times> user_service" where
  "userByUsernameWithFallback v username s = (case GetUserByUsername username (usStore s) of
     Some r \<Rightarrow> (Some r, s)
   | None \<Rightarrow> (case usMirror s of
       None \<Rightarrow> (None, s)
     | Some db \<Rightarrow> (case PG_GetUserByUsername (aeUp v ''user-fallback'') username db of
         Some (Some r) \<Rightarrow> (Some r, on_store (UpdateUser_mem r) s)
       | _ \<Rightarrow> (None, s))))"

section \<open>Sessions\<close>

record token_pair =
  tpAccess :: string
  tpRefresh :: string
  tpExpires :: int

definition access_claims :: "gotime \<Rightarrow> string \<Rightarrow> string \<Rightarrow> string \<Rightarrow> claims" where
  "access_claims now userID username rl = \<lparr>clSub = userID, clUsername = Some username, clRole = Some rl,
     clExp = unix (now + accessTokenExpiry), clIat = Some (unix now), clType = ''access''\<rparr>"

definition refresh_claims :: "gotime \<Rightarrow> string \<Rightarrow> claims" where
  "refresh_claims now userID = \<lparr>clSub = userID, clUsername = None, clRole = None,
     clExp = unix (now + refreshTokenExpiry), clIat = Some (unix now), clType = ''refresh''\<rparr>"

definition issueTokenPair :: "auth_env \<Rightarrow> gotime \<Rightarrow> string \<Rightarrow> string \<Rightarrow> string \<Rightarrow> string + token_pair" where
  "issueTokenPair v now userID username rl = (case aeSign v (access_claims now userID username rl) of
     Inl err \<Rightarrow> Inl (''failed to sign access token: '' @ err)
   | Inr a \<Rightarrow> (case aeSign v (refresh_claims now userID) of
       Inl err \<Rightarrow> Inl (''failed to sign refresh token: '' @ err)
     | Inr r \<Rightarrow> Inr \<lparr>tpAccess = a, tpRefresh = r, tpExpires = accessTokenExpiry div ns_second\<rparr>))"

definition Login :: "auth_env \<Rightarrow> gotime \<Rightarrow> string \<Rightarrow> string \<Rightarrow> user_service \<Rightarrow> (string + token_pair) \<times> user_service" where
  "Login v now username password s =
    (let (found, s1) = userByUsernameWithFallback v username s
     in case found of
          None \<Rightarrow> (Inl ''invalid username or password'', s1)
        | Some r \<Rightarrow>
            if \<not> aeCompare v (urPassword r) password then (Inl ''invalid username or password'', s1)
            else if uState (urUser r) \<noteq> UsActive
            then (Inl (''user account is not active (state='' @ user_state_String (uState (urUser r)) @ '')''), s1)
            else (issueTokenPair v now (uId (urUser r)) (uName (urUser r)) (role_String (uRole (urUser r))), s1))"

definition extractUserID :: "auth_env \<Rightarrow> gotime \<Rightarrow> string \<Rightarrow> string + string" where
  "extractUserID v now accessToken = (case aeParse v now accessToken of
     Inl err \<Rightarrow> Inl (''invalid access token: '' @ err)
   | Inr c \<Rightarrow> if clType c \<noteq> ''access'' then Inl ''token is not an access token'' else Inr (clSub c))"

definition sweep_older :: "gotime \<Rightarrow> int \<Rightarrow> (string \<times> gotime) list \<Rightarrow> (string \<times> gotime) list" where
  "sweep_older now age m = filter (\<lambda>(k, t). \<not> now - t > age) m"

definition Logout :: "auth_env \<Rightarrow> gotime \<Rightarrow> string \<Rightarrow> user_service \<Rightarrow> user_service" where
  "Logout v now accessToken s =
    (let s1 = s\<lparr>usRevoked := sweep_older now (24 * ns_hour) (AList.update accessToken now (usRevoked s))\<rparr>;
         s2 = write_through (PG_SaveRevokedToken (aeUp v ''revoked-token'') accessToken now) s1
     in case extractUserID v now accessToken of
          Inl _ \<Rightarrow> s2
        | Inr uid \<Rightarrow>
            (let s3 = write_through (PG_SaveSessionEpoch (aeUp v ''session-epoch'') uid now)
                   (s2\<lparr>usEpochs := AList.update uid now (usEpochs s2)\<rparr>)
             in s3\<lparr>usEpochs := sweep_older now (8 * 24 * ns_hour) (usEpochs s3)\<rparr>))"

definition invalidateSessions :: "auth_env \<Rightarrow> gotime \<Rightarrow> string \<Rightarrow> user_service \<Rightarrow> user_service" where
  "invalidateSessions v now userID s =
    write_through (PG_SaveSessionEpoch (aeUp v ''session-epoch'') userID now) (s\<lparr>usEpochs := AList.update userID now (usEpochs s)\<rparr>)"

definition sessionInvalidated :: "string \<Rightarrow> gotime \<Rightarrow> user_service \<Rightarrow> bool" where
  "sessionInvalidated userID iat s = (case map_of (usEpochs s) userID of Some epoch \<Rightarrow> iat < epoch | None \<Rightarrow> False)"

definition IsRevoked :: "string \<Rightarrow> user_service \<Rightarrow> bool" where
  "IsRevoked token s \<longleftrightarrow> map_of (usRevoked s) token \<noteq> None"

definition RefreshToken :: "auth_env \<Rightarrow> gotime \<Rightarrow> string \<Rightarrow> user_service \<Rightarrow> (string + token_pair) \<times> user_service" where
  "RefreshToken v now token s = (case aeParse v now token of
     Inl err \<Rightarrow> (Inl (''invalid refresh token: '' @ err), s)
   | Inr c \<Rightarrow>
       if clType c \<noteq> ''refresh'' then (Inl ''token is not a refresh token'', s)
       else (let (found, s1) = userByIDWithFallback v (clSub c) s
             in case found of
                  None \<Rightarrow> (Inl (''user not found: '' @ clSub c), s1)
                | Some r \<Rightarrow>
                    if (case clIat c of Some i \<Rightarrow> sessionInvalidated (clSub c) (from_unix i) s1 | None \<Rightarrow> False)
                    then (Inl ''session has been invalidated, please login again'', s1)
                    else (issueTokenPair v now (uId (urUser r)) (uName (urUser r)) (role_String (uRole (urUser r))), s1)))"

definition GetCurrentUser :: "auth_env \<Rightarrow> gotime \<Rightarrow> string \<Rightarrow> user_service \<Rightarrow> (string + user) \<times> user_service" where
  "GetCurrentUser v now accessToken s =
    (if IsRevoked accessToken s then (Inl ''token has been revoked'', s)
     else case extractUserID v now accessToken of
       Inl err \<Rightarrow> (Inl err, s)
     | Inr userID \<Rightarrow> (let (found, s1) = userByIDWithFallback v userID s
         in (case found of None \<Rightarrow> Inl (''user not found: '' @ userID) | Some r \<Rightarrow> Inr (urUser r), s1)))"

definition GetUser_svc :: "auth_env \<Rightarrow> string \<Rightarrow> user_service \<Rightarrow> user option \<times> user_service" where
  "GetUser_svc v userID s = (let (found, s1) = userByIDWithFallback v userID s in (map_option urUser found, s1))"

text \<open>What an update keeps of the stored user.\<close>

definition merged_user :: "user \<Rightarrow> user \<Rightarrow> user" where
  "merged_user old u = u\<lparr>uName := if uName u = [] then uName old else uName u, uEmail := if uEmail u = [] then uEmail old else uEmail u,
     uCreated := if uCreated u = None then uCreated old else uCreated u,
     uRole := if uRole u = RoleUnspecified then uRole old else uRole u,
     uState := if uState u = UsUnspecified then uState old else uState u, uMust := uMust old\<rparr>"

definition UpdateUser :: "auth_env \<Rightarrow> gotime \<Rightarrow> user \<Rightarrow> user_service \<Rightarrow> user option \<times> user_service" where
  "UpdateUser v now u s =
    (let (found, s1) = userByIDWithFallback v (uId u) s
     in case found of
          None \<Rightarrow> (None, s1)
        | Some r \<Rightarrow>
            (let u1 = merged_user (urUser r) u; r1 = r\<lparr>urUser := u1\<rparr>;
                 s2 = write_through (PG_UpsertUser (aeUp v ''user'') r1) (on_store (UpdateUser_mem r1) s1)
             in (Some u1, if uState u1 \<noteq> UsActive then invalidateSessions v now (uId u1) s2 else s2)))"

section \<open>Permissions\<close>

definition syncMembersForPermissions :: "auth_env \<Rightarrow> string \<Rightarrow> user_service \<Rightarrow> user_service" where
  "syncMembersForPermissions v userID s = (case usMirror s of
     None \<Rightarrow> s
   | Some db \<Rightarrow> (case PG_ListMembersForUser (aeUp v ''members-for-user'') userID db of
       None \<Rightarrow> s | Some bs \<Rightarrow> on_store (fold AddMember bs) s))"

definition ValidatePermission ::
  "auth_env \<Rightarrow> string \<Rightarrow> string \<Rightarrow> string \<Rightarrow> string \<Rightarrow> user_service \<Rightarrow> (bool \<times> string) \<times> user_service" where
  "ValidatePermission v userID resourceType resourceID action s =
    (let s1 = syncMembersForPermissions v userID s; needed = resourceType @ '':'' @ action
     in if needed \<in> set (GetUserPermissionList userID (usStore s1)) then ((True, []), s1)
        else ((False, ''user '' @ userID @ '' lacks permission '' @ action @ '' on '' @ resourceType @ ''/'' @ resourceID), s1))"

definition GetUserPermissions :: "auth_env \<Rightarrow> string \<Rightarrow> user_service \<Rightarrow> string list \<times> user_service" where
  "GetUserPermissions v userID s =
    (let s1 = syncMembersForPermissions v userID s in (GetUserPermissionList userID (usStore s1), s1))"

section \<open>Account policy\<close>

definition minPasswordLen :: nat where "minPasswordLen = 8"

definition maxPasswordLen :: nat where "maxPasswordLen = 64"

definition tempPasswordLen :: nat where "tempPasswordLen = 12"

definition is_letter :: "char \<Rightarrow> bool" where
  "is_letter c \<longleftrightarrow> (CHR ''a'' \<le> c \<and> c \<le> CHR ''z'') \<or> (CHR ''A'' \<le> c \<and> c \<le> CHR ''Z'')"

definition is_digit :: "char \<Rightarrow> bool" where
  "is_digit c \<longleftrightarrow> CHR ''0'' \<le> c \<and> c \<le> CHR ''9''"

definition usernameRe :: "string \<Rightarrow> bool" where
  "usernameRe u \<longleftrightarrow> 3 \<le> length u \<and> length u \<le> 32 \<and> list_all (\<lambda>c. is_letter c \<or> is_digit c \<or> c = CHR ''_'' \<or> c = CHR ''-'') u"

text \<open>\<open>\s\<close> of a regular expression: tab, line feed, form feed, carriage return, space.\<close>

definition re_space :: "char \<Rightarrow> bool" where
  "re_space c \<longleftrightarrow> of_char c \<in> {9 :: nat, 10, 12, 13, 32}"

definition emailRe :: "string \<Rightarrow> bool" where
  "emailRe e \<longleftrightarrow> list_all (\<lambda>c. \<not> re_space c) e \<and>
     (case split_on CHR ''@'' e of
        [l, d] \<Rightarrow> l \<noteq> [] \<and> list_ex (\<lambda>i. d ! i = CHR ''.'') [1..<length d - 1]
      | _ \<Rightarrow> False)"

definition validatePasswordStrength :: "string \<Rightarrow> grpc_error option" where
  "validatePasswordStrength password =
    (if length password < minPasswordLen \<or> length password > maxPasswordLen
     then Some (InvalidArgument, (''password length must be '') @ nat_digits minPasswordLen @ ''-'' @
         nat_digits maxPasswordLen @ ('' (07 '' @ utf8 [194, 167, 232, 180, 166, 229, 143, 183, 229,
         174, 137, 229, 133, 168] @ '')''))
     else if \<not> list_ex is_letter password \<or> \<not> list_ex is_digit password
     then Some (InvalidArgument, (''password must contain both letters and digits (07 '' @ utf8 [194,
         167, 232, 180, 166, 229, 143, 183, 229, 174, 137, 229, 133, 168] @ '')''))
     else None)"

definition validateNewUser :: "string \<Rightarrow> string \<Rightarrow> string \<Rightarrow> grpc_error option" where
  "validateNewUser username email password =
    (if \<not> usernameRe username then Some (InvalidArgument, (''username must match ^[a-zA-Z0-9_-]{3,32}$''))
     else if \<not> emailRe email then Some (InvalidArgument, ''email format invalid'')
     else validatePasswordStrength password)"

definition hashPassword :: "auth_env \<Rightarrow> string \<Rightarrow> grpc_error + string" where
  "hashPassword v password = (case aeHash v password of
     Inl err \<Rightarrow> Inl (Internal, ''hash password: '' @ err) | Inr h \<Rightarrow> Inr h)"

definition registrationMode :: "auth_env \<Rightarrow> string" where
  "registrationMode v = (if aeMode v = [] then ''invitation'' else aeMode v)"

definition inviteCodeValid :: "auth_env \<Rightarrow> string \<Rightarrow> bool" where
  "inviteCodeValid v code \<longleftrightarrow> list_ex (\<lambda>c. c \<noteq> [] \<and> c = code) (aeCodes v)"

text \<open>The drawn letters, or none when a draw fails.\<close>

definition randomFromAlphabet :: "(nat \<Rightarrow> nat option) \<Rightarrow> nat \<Rightarrow> string \<Rightarrow> string option" where
  "randomFromAlphabet draw n alphabet = those (map (\<lambda>i. map_option (nth alphabet) (draw i)) [0..<n])"

definition generateTempPassword :: "auth_env \<Rightarrow> nat \<Rightarrow> string option" where
  "generateTempPassword v n = randomFromAlphabet (aeDraw v 0) n ''abcdefghjkmnpqrstuvwxyzABCDEFGHJKMNPQRSTUVWXYZ23456789''"

definition newUserID :: "auth_env \<Rightarrow> string" where
  "newUserID v = ''user-'' @ aeId v 0"

section \<open>Invitations\<close>

definition inviteDefaultTTLDays :: int where "inviteDefaultTTLDays = 30"

definition inviteCodeChars :: nat where "inviteCodeChars = 10"

definition inviteRetryLimit :: nat where "inviteRetryLimit = 5"

definition inviteCodeAlphabet :: string where
  "inviteCodeAlphabet = ''0123456789ABCDEFGHJKMNPQRSTVWXYZ''"

definition generateInviteCode :: "auth_env \<Rightarrow> nat \<Rightarrow> string option" where
  "generateInviteCode v attempt =
    map_option (\<lambda>raw. ''CODEAUDIT-'' @ take 5 raw @ ''-'' @ drop 5 raw) (randomFromAlphabet (aeDraw v attempt) inviteCodeChars inviteCodeAlphabet)"

text \<open>The attempts that are left, counted from \<open>k\<close>; the record is complete but for the code and the id.\<close>

fun create_attempts ::
  "auth_env \<Rightarrow> invite \<Rightarrow> nat \<Rightarrow> nat \<Rightarrow> user_service \<Rightarrow> (grpc_error + invite) \<times> user_service" where
  "create_attempts v rec0 k 0 s = (Inl (Internal, ''invite code collision retry exhausted''), s)"
| "create_attempts v rec0 k (Suc n) s = (case generateInviteCode v k of
     None \<Rightarrow> (Inl (Internal, ''generate invite code: rand int''), s)
   | Some code \<Rightarrow>
       (let r = rec0\<lparr>inId := ''invite-'' @ aeId v k, inCode := code\<rparr>;
            (ok, m) = CreateInviteCode_mem r (usStore s); s1 = s\<lparr>usStore := m\<rparr>
        in if \<not> ok then create_attempts v rec0 (Suc k) n s
           else case usMirror s1 of
             None \<Rightarrow> (Inr r, s1)
           | Some db \<Rightarrow>
               (let (res, db') = PG_UpsertInviteCode (aeUp v ''invite-create'') r db; s2 = s1\<lparr>usMirror := Some db'\<rparr>
                in if res = PgUnique then create_attempts v rec0 (Suc k) n (on_store (snd \<circ> DeleteInviteCode_mem (inId r)) s2)
                   else (Inr r, s2))))"

definition CreateInviteCode ::
  "auth_env \<Rightarrow> gotime \<Rightarrow> int \<Rightarrow> bool \<Rightarrow> gotime option \<Rightarrow> bool \<Rightarrow> string \<Rightarrow> string \<Rightarrow> role \<Rightarrow> user_service \<Rightarrow>
    (grpc_error + invite) \<times> user_service" where
  "CreateInviteCode v now maxUses hasMaxUses expiresAt neverExpires nte createdBy rl s =
    (if maxUses < 0 then (Inl (InvalidArgument, ''max_uses must be >= 0 (0 = unlimited)''), s)
     else if rl = RoleAdmin
     then (Inl (InvalidArgument, ''invite role must be DEVELOPER or VIEWER (admin is created via admin console)''), s)
     else if neverExpires \<and> expiresAt \<noteq> None
     then (Inl (InvalidArgument, ''never_expires and expires_at are mutually exclusive''), s)
     else if \<not> neverExpires \<and> (case expiresAt of Some t \<Rightarrow> \<not> t > now | None \<Rightarrow> False)
     then (Inl (InvalidArgument, ''expires_at must be in the future''), s)
     else create_attempts v \<lparr>inId = [], inCode = [], inMax = (if hasMaxUses then maxUses else 1), inUsed = 0,
         inExpires = (if neverExpires then None else if expiresAt \<noteq> None then expiresAt
           else Some (now + inviteDefaultTTLDays * 24 * ns_hour)),
         inState = ''active'', inNote = nte, inCreatedBy = createdBy, inCreatedAt = now, inRevokedAt = None,
         inLastBy = [], inLastAt = None, inRole = (if rl = RoleViewer then RoleViewer else RoleDeveloper)\<rparr> 0 inviteRetryLimit s)"

definition ListInviteCodes :: "auth_env \<Rightarrow> gotime \<Rightarrow> bool \<Rightarrow> user_service \<Rightarrow> invite list \<times> string list" where
  "ListInviteCodes v now includeTerminal s =
    (filter (\<lambda>c. includeTerminal \<or> \<not> InviteTerminal c now) (ListInviteCodes_mem (usStore s)), filter (\<lambda>c. c \<noteq> []) (aeCodes v))"

definition inviteCodeByID :: "auth_env \<Rightarrow> string \<Rightarrow> user_service \<Rightarrow> invite option \<times> user_service" where
  "inviteCodeByID v k s = (case GetInviteCodeByID k (usStore s) of
     Some c \<Rightarrow> (Some c, s)
   | None \<Rightarrow> (case usMirror s of
       None \<Rightarrow> (None, s)
     | Some db \<Rightarrow> (case PG_ListInviteCodes (aeUp v ''invite-lookup'') db of
         None \<Rightarrow> (None, s)
       | Some cs \<Rightarrow> (case find (\<lambda>c. inId c = k) cs of
           None \<Rightarrow> (None, s) | Some c \<Rightarrow> (Some c, on_store (PutInviteCode c) s)))))"

definition RevokeInviteCode :: "auth_env \<Rightarrow> gotime \<Rightarrow> string \<Rightarrow> user_service \<Rightarrow> (grpc_error + invite) \<times> user_service" where
  "RevokeInviteCode v now k s =
    (let (found, s1) = inviteCodeByID v k s
     in case found of
          None \<Rightarrow> (Inl (NotFound, ''invite code '' @ k @ '' not found''), s1)
        | Some c \<Rightarrow>
            if inState c = ''revoked'' then (Inr c, s1)
            else (let c1 = c\<lparr>inState := ''revoked'', inRevokedAt := Some now\<rparr>
                  in (Inr c1, write_through (PG_UpsertInviteCode (aeUp v ''invite-revoke'') c1) (on_store (snd \<circ> UpdateInviteCode c1) s1))))"

definition DeleteInviteCode :: "auth_env \<Rightarrow> gotime \<Rightarrow> string \<Rightarrow> user_service \<Rightarrow> (grpc_error + unit) \<times> user_service" where
  "DeleteInviteCode v now k s =
    (let (found, s1) = inviteCodeByID v k s
     in case found of
          None \<Rightarrow> (Inl (NotFound, ''invite code '' @ k @ '' not found''), s1)
        | Some c \<Rightarrow>
            if \<not> InviteTerminal c now
            then (Inl (FailedPrecondition, ''active invite code must be revoked first (two-step guard)''), s1)
            else (Inr (), write_through (PG_DeleteInviteCode (aeUp v ''invite-delete'') k) (on_store (snd \<circ> DeleteInviteCode_mem k) s1)))"

definition inviteCodeLooksValid :: "auth_env \<Rightarrow> gotime \<Rightarrow> string \<Rightarrow> user_service \<Rightarrow> bool" where
  "inviteCodeLooksValid v now code s \<longleftrightarrow> code \<noteq> [] \<and>
     ((case GetInviteCode code (usStore s) of Some c \<Rightarrow> InviteUsable c now | None \<Rightarrow> False) \<or>
      (case usMirror s of
         None \<Rightarrow> False
       | Some db \<Rightarrow> (case PG_GetInviteCode (aeUp v ''invite-check'') code db of Some (Some c) \<Rightarrow> InviteUsable c now | _ \<Rightarrow> False)) \<or>
      inviteCodeValid v code)"

definition consume_local :: "auth_env \<Rightarrow> gotime \<Rightarrow> string \<Rightarrow> string \<Rightarrow> user_service \<Rightarrow> bool \<times> user_service" where
  "consume_local v now code userID s =
    (let (ok, m) = ConsumeInviteCode_mem code userID now (usStore s) in (ok \<or> inviteCodeValid v code, s\<lparr>usStore := m\<rparr>))"

definition consumeInviteCode :: "auth_env \<Rightarrow> gotime \<Rightarrow> string \<Rightarrow> string \<Rightarrow> user_service \<Rightarrow> bool \<times> user_service" where
  "consumeInviteCode v now code userID s =
    (if code = [] then (False, s)
     else case usMirror s of
       None \<Rightarrow> consume_local v now code userID s
     | Some db \<Rightarrow>
         (let (res, db') = PG_ConsumeInviteCode (aeUp v ''invite-consume'') code userID now db db; s1 = s\<lparr>usMirror := Some db'\<rparr>
          in if res = Some True
             then (True, (case PG_GetInviteCode (aeUp v ''invite-reread'') code db' of
                 Some (Some c) \<Rightarrow> on_store (PutInviteCode c) s1 | _ \<Rightarrow> s1))
             else consume_local v now code userID s1))"

definition inviteCodeRole :: "auth_env \<Rightarrow> string \<Rightarrow> user_service \<Rightarrow> role" where
  "inviteCodeRole v code s =
    (if code = [] then RoleDeveloper
     else (let remote = (case usMirror s of
                  None \<Rightarrow> None
                | Some db \<Rightarrow> (case PG_GetInviteCode (aeUp v ''invite-role'') code db of Some (Some c) \<Rightarrow> Some c | _ \<Rightarrow> None));
               found = (case remote of Some c \<Rightarrow> Some c | None \<Rightarrow> GetInviteCode code (usStore s))
           in case found of Some c \<Rightarrow> if inRole c = RoleViewer then RoleViewer else RoleDeveloper | None \<Rightarrow> RoleDeveloper))"

section \<open>Registration and passwords\<close>

definition mirrorCreateUser :: "auth_env \<Rightarrow> user_rec \<Rightarrow> user_service \<Rightarrow> grpc_error option \<times> user_service" where
  "mirrorCreateUser v r s = (case usMirror s of
     None \<Rightarrow> (None, s)
   | Some db \<Rightarrow>
       (let (res, db') = PG_UpsertUser (aeUp v ''user-create'') r db; s1 = s\<lparr>usMirror := Some db'\<rparr>
        in if res = PgUnique
           then (Some (AlreadyExists, ''username or email already exists''), on_store (DeleteUser (uId (urUser r))) s1)
           else (None, s1)))"

definition RegisterUser ::
  "auth_env \<Rightarrow> gotime \<Rightarrow> string \<Rightarrow> string \<Rightarrow> string \<Rightarrow> string \<Rightarrow> user_service \<Rightarrow> (grpc_error + user) \<times> user_service" where
  "RegisterUser v now username email password inviteCode s =
    (if registrationMode v = ''disabled'' then (Inl (FailedPrecondition, ''registration is disabled''), s)
     else if registrationMode v = ''invitation'' \<and> \<not> inviteCodeLooksValid v now inviteCode s
     then (Inl (FailedPrecondition, ''invalid or missing invite code''), s)
     else case validateNewUser username email password of
       Some err \<Rightarrow> (Inl err, s)
     | None \<Rightarrow> (case hashPassword v password of
         Inl err \<Rightarrow> (Inl err, s)
       | Inr h \<Rightarrow>
           (let r = \<lparr>urUser = \<lparr>uId = newUserID v, uName = username, uEmail = email, uState = UsActive, uCreated = None,
                  uRole = inviteCodeRole v inviteCode s, uMust = False\<rparr>, urPassword = h\<rparr>;
                (ok, m) = CreateUser_mem r (usStore s); s1 = s\<lparr>usStore := m\<rparr>
            in if \<not> ok then (Inl (AlreadyExists, ''username or email already exists''), s)
               else (let (used, s2) = (if registrationMode v = ''invitation''
                         then consumeInviteCode v now inviteCode (uId (urUser r)) s1 else (True, s1))
                     in if \<not> used
                        then (Inl (FailedPrecondition, ''invalid or missing invite code''), on_store (DeleteUser (uId (urUser r))) s2)
                        else (let (err, s3) = mirrorCreateUser v r s2
                              in case err of Some e \<Rightarrow> (Inl e, s3) | None \<Rightarrow> (Inr (urUser r), s3))))))"

definition CreateUser ::
  "auth_env \<Rightarrow> string \<Rightarrow> string \<Rightarrow> string \<Rightarrow> role \<Rightarrow> user_service \<Rightarrow> (grpc_error + user) \<times> user_service" where
  "CreateUser v username email password rl s = (case validateNewUser username email password of
     Some err \<Rightarrow> (Inl err, s)
   | None \<Rightarrow> (case hashPassword v password of
       Inl err \<Rightarrow> (Inl err, s)
     | Inr h \<Rightarrow>
         (let r = \<lparr>urUser = \<lparr>uId = newUserID v, uName = username, uEmail = email, uState = UsActive, uCreated = None,
                uRole = (if rl = RoleUnspecified then RoleDeveloper else rl), uMust = True\<rparr>, urPassword = h\<rparr>;
              (ok, m) = CreateUser_mem r (usStore s); s1 = s\<lparr>usStore := m\<rparr>
          in if \<not> ok then (Inl (AlreadyExists, ''username or email already exists''), s)
             else (let (err, s2) = mirrorCreateUser v r s1
                   in case err of Some e \<Rightarrow> (Inl e, s2) | None \<Rightarrow> (Inr (urUser r), s2)))))"

definition store_password :: "auth_env \<Rightarrow> gotime \<Rightarrow> user_rec \<Rightarrow> string \<Rightarrow> bool \<Rightarrow> user_service \<Rightarrow> user_service" where
  "store_password v now r h must s =
    (let r1 = r\<lparr>urPassword := h, urUser := (urUser r)\<lparr>uMust := must\<rparr>\<rparr>
     in write_through (PG_UpsertUser (aeUp v ''user-update'') r1) (on_store (UpdateUser_mem r1) s))"

definition ChangePassword ::
  "auth_env \<Rightarrow> gotime \<Rightarrow> string \<Rightarrow> string \<Rightarrow> string \<Rightarrow> user_service \<Rightarrow> grpc_error option \<times> user_service" where
  "ChangePassword v now userID oldPassword newPassword s =
    (let (found, s1) = userByIDWithFallback v userID s
     in case found of
          None \<Rightarrow> (Some (NotFound, ''user '' @ userID @ '' not found''), s1)
        | Some r \<Rightarrow>
            if \<not> aeCompare v (urPassword r) oldPassword then (Some (Unauthenticated, ''old password incorrect''), s1)
            else case validatePasswordStrength newPassword of
              Some err \<Rightarrow> (Some err, s1)
            | None \<Rightarrow> (case hashPassword v newPassword of
                Inl err \<Rightarrow> (Some err, s1)
              | Inr h \<Rightarrow> (None, invalidateSessions v now userID (store_password v now r h False s1))))"

definition ResetPassword :: "auth_env \<Rightarrow> gotime \<Rightarrow> string \<Rightarrow> user_service \<Rightarrow> (grpc_error + string) \<times> user_service" where
  "ResetPassword v now userID s =
    (let (found, s1) = userByIDWithFallback v userID s
     in case found of
          None \<Rightarrow> (Inl (NotFound, ''user '' @ userID @ '' not found''), s1)
        | Some r \<Rightarrow> (case generateTempPassword v tempPasswordLen of
            None \<Rightarrow> (Inl (Internal, ''generate temp password: rand int''), s1)
          | Some temp \<Rightarrow> (case hashPassword v temp of
              Inl err \<Rightarrow> (Inl err, s1)
            | Inr h \<Rightarrow> (Inr temp, invalidateSessions v now userID (store_password v now r h True s1)))))"

definition ListUsers :: "user_state \<Rightarrow> string \<Rightarrow> user_service \<Rightarrow> user_rec list" where
  "ListUsers st usernameContains s = ListUsers_mem st usernameContains (usStore s)"

section \<open>Assembly\<close>

definition NewUserService :: "project_store \<Rightarrow> user_service" where
  "NewUserService m = \<lparr>usStore = m, usRevoked = [], usEpochs = [], usMirror = None\<rparr>"

definition hydrateAuthState :: "auth_env \<Rightarrow> gotime \<Rightarrow> pg \<Rightarrow> user_service \<Rightarrow> user_service" where
  "hydrateAuthState v now db s =
    (let s1 = (case PG_HydrateRevoked (aeUp v ''hydrate-revoked'') now (24 * ns_hour) db of
                 None \<Rightarrow> s | Some ts \<Rightarrow> s\<lparr>usRevoked := fold (\<lambda>(k, t). AList.update k t) ts (usRevoked s)\<rparr>)
     in case PG_HydrateEpochs (aeUp v ''hydrate-epochs'') db of
          None \<Rightarrow> s1 | Some ts \<Rightarrow> s1\<lparr>usEpochs := fold (\<lambda>(k, t). AList.update k t) ts (usEpochs s1)\<rparr>)"

definition SetMirror :: "auth_env \<Rightarrow> gotime \<Rightarrow> pg \<Rightarrow> user_service \<Rightarrow> user_service" where
  "SetMirror v now db s = hydrateAuthState v now db (s\<lparr>usMirror := Some db\<rparr>)"

text \<open>The replay of the tables at start-up: users that are missing, and all codes.\<close>

definition replay_tables :: "auth_env \<Rightarrow> user_service \<Rightarrow> user_service" where
  "replay_tables v s = (case usMirror s of
     None \<Rightarrow> s
   | Some db \<Rightarrow>
       (let s1 = (if aeUp v ''list-users''
              then on_store (fold (\<lambda>r m. if GetUser (uId (urUser r)) m = None then UpdateUser_mem r m else m) (map snd (pgUsers db))) s
              else s)
        in case PG_ListInviteCodes (aeUp v ''list-invites'') db of
             None \<Rightarrow> s1 | Some cs \<Rightarrow> on_store (fold PutInviteCode cs) s1))"

end
