(* ===== verification/AccountRules.thy ===== *)
theory AccountRules imports Main Prelude GoText ProjectStore Accounts begin

text \<open>
  Calls of the user service and runs of them (\<open>auth_run\<close>), the locale of the laws every call keeps
  (\<open>account_law\<close>), how a call moves the session epochs, and how it uses the invitation codes.
\<close>

section \<open>Calls\<close>

datatype auth_call =
    CLogin string string
  | CLogout string
  | CRefresh string
  | CCurrent string
  | CGetUser string
  | CUpdate user
  | CPermission string string string string
  | CPermissions string
  | CRegister string string string string
  | CCreate string string string role
  | CChange string string string
  | CReset string
  | CInvite int bool "gotime option" bool string string role
  | CRevoke string
  | CDeleteInvite string

abbreviation succeeds :: "('e + 'a) \<times> 's \<Rightarrow> bool \<times> 's" where
  "succeeds x \<equiv> (\<not> isl (fst x), snd x)"

fun auth_step :: "auth_env \<Rightarrow> gotime \<Rightarrow> auth_call \<Rightarrow> user_service \<Rightarrow> bool \<times> user_service" where
  "auth_step v now (CLogin n p) s = succeeds (Login v now n p s)"
| "auth_step v now (CLogout tok) s = (True, Logout v now tok s)"
| "auth_step v now (CRefresh tok) s = succeeds (RefreshToken v now tok s)"
| "auth_step v now (CCurrent tok) s = succeeds (GetCurrentUser v now tok s)"
| "auth_step v now (CGetUser k) s = (let (r, s') = GetUser_svc v k s in (r \<noteq> None, s'))"
| "auth_step v now (CUpdate u) s = (let (r, s') = UpdateUser v now u s in (r \<noteq> None, s'))"
| "auth_step v now (CPermission u t r a) s = (let (x, s') = ValidatePermission v u t r a s in (fst x, s'))"
| "auth_step v now (CPermissions u) s = (True, snd (GetUserPermissions v u s))"
| "auth_step v now (CRegister n e p code) s = succeeds (RegisterUser v now n e p code s)"
| "auth_step v now (CCreate n e p rl) s = succeeds (CreateUser v n e p rl s)"
| "auth_step v now (CChange k p q) s = (let (r, s') = ChangePassword v now k p q s in (r = None, s'))"
| "auth_step v now (CReset k) s = succeeds (ResetPassword v now k s)"
| "auth_step v now (CInvite mx has ex never nt by rl) s = succeeds (CreateInviteCode v now mx has ex never nt by rl s)"
| "auth_step v now (CRevoke k) s = succeeds (RevokeInviteCode v now k s)"
| "auth_step v now (CDeleteInvite k) s = succeeds (DeleteInviteCode v now k s)"

fun auth_run :: "(auth_env \<times> gotime \<times> auth_call) list \<Rightarrow> user_service \<Rightarrow> bool list \<times> user_service" where
  "auth_run [] s = ([], s)"
| "auth_run ((v, now, call) # cs) s =
    (let (ok, s1) = auth_step v now call s; (oks, s2) = auth_run cs s1 in (ok # oks, s2))"

section \<open>Laws of the service\<close>

text \<open>A law that the allowed calls keep holds after every run of them.\<close>

locale account_law =
  fixes law :: "user_service \<Rightarrow> bool" and allowed :: "auth_call \<Rightarrow> bool"
  assumes step: "law s \<Longrightarrow> allowed call \<Longrightarrow> law (snd (auth_step v now call s))"
begin

lemma run: "law s \<Longrightarrow> \<forall>(v, now, call) \<in> set cs. allowed call \<Longrightarrow> law (snd (auth_run cs s))"
proof (induction cs arbitrary: s)
  case (Cons x cs)
  obtain v now call where x: "x = (v, now, call)" by (cases x)
  have "law (snd (auth_step v now call s))" by (rule step[OF Cons.prems(1)]) (use Cons.prems(2) x in auto)
  then show ?case using Cons.IH Cons.prems(2) by (simp add: x Let_def split_beta)
qed simp

end

section \<open>An example\<close>

text \<open>Hashes are the passwords, tokens are read from a list, draws and ids are given.\<close>

definition demo_auth :: "(string \<times> claims) list \<Rightarrow> string \<Rightarrow> auth_env" where
  "demo_auth toks n = \<lparr>aeHash = Inr, aeCompare = (=), aeSign = (\<lambda>c. Inr (clType c @ '' '' @ clSub c)),
     aeParse = (\<lambda>t tok. case map_of toks tok of Some c \<Rightarrow> if t < from_unix (clExp c) then Inr c else Inl ''expired'' | None \<Rightarrow> Inl ''bad''),
     aeUp = (\<lambda>what. True), aeDraw = (\<lambda>attempt i. Some 0), aeId = (\<lambda>i. n), aeMode = ''invitation'', aeCodes = []\<rparr>"

definition demo_code :: string where "demo_code = ''CODEAUDIT-00000-00000''"

definition demo_claims :: claims where "demo_claims = refresh_claims (from_unix 100) ''user-001''"

definition demo_tables :: pg where
  "demo_tables = \<lparr>pgProjects = [], pgConfigs = [], pgStats = [], pgMembers = [], pgUsers = [], pgRevoked = [], pgEpochs = [], pgInvites = []\<rparr>"

definition demo_accounts :: user_service where
  "demo_accounts = NewUserService (NewProjectStore (from_unix 0) ''secret12'' True)"

definition demo_calls :: "(auth_env \<times> gotime \<times> auth_call) list" where
  "demo_calls =
    [(demo_auth [] ''a'', from_unix 10, CInvite 1 True None False [] ''user-001'' RoleViewer),
     (demo_auth [] ''b'', from_unix 20, CRegister ''alice'' ''a@x.io'' ''passw0rd'' demo_code),
     (demo_auth [] ''c'', from_unix 30, CRegister ''bobby'' ''b@x.io'' ''passw0rd'' demo_code),
     (demo_auth [] ''d'', from_unix 200, CChange ''user-001'' ''secret12'' ''secret34'')]"

lemma demo_run: "fst (auth_run demo_calls demo_accounts) = [True, True, False, True]"
  by code_simp

section \<open>Sessions\<close>

lemma epochs_frame [simp]:
  "usEpochs (write_through f s) = usEpochs s" "usStore (write_through f s) = usStore s" "usRevoked (write_through f s) = usRevoked s"
  by (simp_all add: write_through_def split: option.split)

lemma fallback_epochs [simp]:
  "usEpochs (snd (userByIDWithFallback v k s)) = usEpochs s"
  "usEpochs (snd (userByUsernameWithFallback v k s)) = usEpochs s"
  "usEpochs (snd (inviteCodeByID v k s)) = usEpochs s"
  by (simp_all add: userByIDWithFallback_def userByUsernameWithFallback_def inviteCodeByID_def split: option.split)

lemma consume_epochs [simp]:
  "usEpochs (snd (consume_local v now code u s)) = usEpochs s" "usEpochs (snd (consumeInviteCode v now code u s)) = usEpochs s"
  by (simp_all add: consume_local_def consumeInviteCode_def Let_def split: prod.split option.split)

lemma create_epochs [simp]:
  "usEpochs (snd (create_attempts v r k n s)) = usEpochs s" "usEpochs (snd (mirrorCreateUser v u s)) = usEpochs s"
  by (induction v r k n s rule: create_attempts.induct)
    (auto simp: mirrorCreateUser_def Let_def split: prod.split option.split)

lemma sweep_lookup:
  assumes "distinct (keys m)"
  shows "map_of (sweep_older now age m) k = (case map_of m k of Some t \<Rightarrow> if now - t > age then None else Some t | None \<Rightarrow> None)"
  using assms
proof (induction m)
  case (Cons x m)
  obtain a t where x: "x = (a, t)" by (cases x)
  have "map_of m a = None" using Cons.prems x by (auto simp: map_of_eq_None_iff)
  then show ?case using Cons x by (auto simp: sweep_older_def)
qed (simp add: sweep_older_def)

lemma sweep_distinct: "distinct (keys m) \<Longrightarrow> distinct (keys (sweep_older now age m))"
  unfolding sweep_older_def by (rule distinct_map_filter)

lemma invalidate_epochs: "usEpochs (invalidateSessions v now u s) = AList.update u now (usEpochs s)"
  by (simp add: invalidateSessions_def)

lemma logout_epochs:
  "usEpochs (Logout v now tok s) = (case extractUserID v now tok of Inl _ \<Rightarrow> usEpochs s
     | Inr u \<Rightarrow> sweep_older now (8 * 24 * ns_hour) (AList.update u now (usEpochs s)))"
  by (simp add: Logout_def Let_def split: sum.split)

lemma store_password_epochs [simp]: "usEpochs (store_password v now r h must s) = usEpochs s"
  by (simp add: store_password_def Let_def)

text \<open>The table of epochs after a call: as it was, with one user set to now, or that and swept.\<close>

definition epochs_moved :: "gotime \<Rightarrow> user_service \<Rightarrow> user_service \<Rightarrow> bool" where
  "epochs_moved now s s' \<longleftrightarrow> usEpochs s' = usEpochs s \<or> (\<exists>u. usEpochs s' = AList.update u now (usEpochs s)) \<or>
     (\<exists>u. usEpochs s' = sweep_older now (8 * 24 * ns_hour) (AList.update u now (usEpochs s)))"

lemma moved_same: "usEpochs s' = usEpochs s \<Longrightarrow> epochs_moved now s s'"
  by (simp add: epochs_moved_def)

lemma moved_invalidate: "usEpochs s1 = usEpochs s \<Longrightarrow> epochs_moved now s (invalidateSessions v now u s1)"
  by (auto simp: epochs_moved_def invalidate_epochs)

lemma sync_epochs [simp]: "usEpochs (syncMembersForPermissions v u s) = usEpochs s"
  by (simp add: syncMembersForPermissions_def split: option.split)

lemma epochs_pairs:
  "userByIDWithFallback v k s = (f1, s1) \<Longrightarrow> usEpochs s1 = usEpochs s"
  "userByUsernameWithFallback v k s = (f1, s1) \<Longrightarrow> usEpochs s1 = usEpochs s"
  "inviteCodeByID v k s = (f2, s1) \<Longrightarrow> usEpochs s1 = usEpochs s"
  "consumeInviteCode v now k u s = (b, s1) \<Longrightarrow> usEpochs s1 = usEpochs s"
  "mirrorCreateUser v r s = (e, s1) \<Longrightarrow> usEpochs s1 = usEpochs s"
  using fallback_epochs[of v k s] consume_epochs(2)[of v now k u s] create_epochs(2)[of v r s] by auto

lemma step_epochs: "epochs_moved now s (snd (auth_step v now call s))"
proof (cases call)
  case (CLogout t)
  then show ?thesis by (auto simp: epochs_moved_def logout_epochs split: sum.split)
next
  case (CUpdate u)
  then show ?thesis
    by (auto simp: UpdateUser_def Let_def epochs_pairs intro!: moved_same moved_invalidate split: prod.split option.split)
next
  case (CChange k p q)
  then show ?thesis
    by (auto simp: ChangePassword_def Let_def epochs_pairs intro!: moved_same moved_invalidate
        split: prod.split option.split sum.split)
next
  case (CReset k)
  then show ?thesis
    by (auto simp: ResetPassword_def Let_def epochs_pairs intro!: moved_same moved_invalidate
        split: prod.split option.split sum.split)
next
  case (CRegister n e p code)
  then show ?thesis
    by (auto simp: RegisterUser_def Let_def epochs_pairs intro!: moved_same split: prod.split option.split sum.split if_splits
        dest!: epochs_pairs(4,5))
next
  case (CCreate n e p rl)
  then show ?thesis
    by (auto simp: CreateUser_def Let_def intro!: moved_same split: prod.split option.split sum.split dest!: epochs_pairs(5))
next
  case (CInvite mx hm ex nv nt who rl)
  then show ?thesis by (auto simp: CreateInviteCode_def intro: moved_same)
qed (auto simp: Login_def RefreshToken_def GetCurrentUser_def GetUser_svc_def ValidatePermission_def GetUserPermissions_def
  RevokeInviteCode_def DeleteInviteCode_def Let_def epochs_pairs intro!: moved_same split: prod.split option.split sum.split)

text \<open>Since \<open>n\<close> the epoch of \<open>u\<close> is at least \<open>n\<close>, or eight days have passed.\<close>

definition epoch_holds :: "gotime \<Rightarrow> string \<Rightarrow> gotime \<Rightarrow> user_service \<Rightarrow> bool" where
  "epoch_holds n u now s \<longleftrightarrow> distinct (keys (usEpochs s)) \<and>
     ((\<exists>t. map_of (usEpochs s) u = Some t \<and> n \<le> t) \<or> now > n + 8 * 24 * ns_hour)"

lemma epoch_holds_step:
  assumes "epoch_holds n u t s" "t \<le> now" "n \<le> now" "epochs_moved now s s'"
  shows "epoch_holds n u now s'"
proof -
  have d: "distinct (keys (usEpochs s))" using assms(1) by (simp add: epoch_holds_def)
  note du = distinct_update[OF d]
  consider "usEpochs s' = usEpochs s" | w where "usEpochs s' = AList.update w now (usEpochs s)"
    | w where "usEpochs s' = sweep_older now (8 * 24 * ns_hour) (AList.update w now (usEpochs s))"
    using assms(4) by (auto simp: epochs_moved_def)
  then show ?thesis
  proof cases
    case 1
    then show ?thesis using assms(1,2) by (auto simp: epoch_holds_def)
  next
    case (2 w)
    then show ?thesis using assms(1-3) du by (auto simp: epoch_holds_def store_simps)
  next
    case (3 w)
    have "distinct (keys (usEpochs s'))" unfolding 3 by (rule sweep_distinct[OF du])
    moreover have "map_of (usEpochs s') u = (case map_of (AList.update w now (usEpochs s)) u of
        Some t \<Rightarrow> if now - t > 8 * 24 * ns_hour then None else Some t | None \<Rightarrow> None)"
      unfolding 3 by (rule sweep_lookup[OF du])
    ultimately show ?thesis using assms(1-3)
      by (cases "u = w")
        (auto simp: epoch_holds_def store_simps simp del: map_of_eq_Some_iff split: option.splits if_splits)
  qed
qed

text \<open>Calls at times that do not go back, from \<open>t\<close> on.\<close>

fun in_time :: "gotime \<Rightarrow> (auth_env \<times> gotime \<times> auth_call) list \<Rightarrow> bool" where
  "in_time t [] \<longleftrightarrow> True"
| "in_time t ((v, now, call) # cs) \<longleftrightarrow> t \<le> now \<and> in_time now cs"

fun end_time :: "gotime \<Rightarrow> (auth_env \<times> gotime \<times> auth_call) list \<Rightarrow> gotime" where
  "end_time t [] = t"
| "end_time t ((v, now, call) # cs) = end_time now cs"

lemma epoch_holds_run:
  assumes "epoch_holds n u t s" "in_time t cs" "n \<le> t"
  shows "epoch_holds n u (end_time t cs) (snd (auth_run cs s))"
  using assms
proof (induction t cs arbitrary: s rule: in_time.induct)
  case (2 t v now call cs)
  have "epoch_holds n u now (snd (auth_step v now call s))"
    using epoch_holds_step[OF 2(2) _ _ step_epochs] 2(3,4) by simp
  with 2(1)[OF this] 2(3,4) show ?case by (simp add: Let_def split_beta)
qed simp

text \<open>The library reads a token as what was signed, and not after its end.\<close>

definition reads_as :: "auth_env \<Rightarrow> string \<Rightarrow> claims \<Rightarrow> bool" where
  "reads_as v tok c \<longleftrightarrow> (\<forall>t. case aeParse v t tok of Inl _ \<Rightarrow> True | Inr d \<Rightarrow> d = c \<and> t < from_unix (clExp c))"

lemma refresh_refused:
  assumes "reads_as v tok c" "map_of (usEpochs s) (clSub c) = Some n" "clIat c = Some i" "from_unix i < n"
  shows "isl (fst (RefreshToken v now tok s))"
proof (cases "aeParse v now tok")
  case (Inr d)
  then have "d = c" using assms(1) by (auto simp: reads_as_def split: sum.splits dest: spec[of _ now])
  moreover have "sessionInvalidated (clSub c) (from_unix i) s1" if "userByIDWithFallback v (clSub c) s = (f, s1)" for f s1
    using epochs_pairs(1)[OF that] assms(2,4) by (simp add: sessionInvalidated_def)
  ultimately show ?thesis using Inr assms(3) by (auto simp: RefreshToken_def Let_def split: prod.split option.split)
qed (simp add: RefreshToken_def)

text \<open>C25. Once the sessions of a user are invalidated, a refresh token issued in a second before that is refused for ever
  after, whatever calls are served meanwhile: the sweep of old epochs cannot bring it back to life. The token is signed for
  at most seven days, and time does not go back.\<close>

theorem old_session_stays_dead:
  assumes "map_of (usEpochs s) (clSub c) = Some n" "distinct (keys (usEpochs s))"
    and "clIat c = Some i" "from_unix i < n" "clExp c \<le> i + 7 * 24 * 3600" "reads_as v tok c"
    and "in_time n cs" "end_time n cs \<le> now"
  shows "isl (fst (RefreshToken v now tok (snd (auth_run cs s))))"
proof -
  have "epoch_holds n (clSub c) n s" using assms(1,2) by (auto simp: epoch_holds_def)
  from epoch_holds_run[OF this assms(7)] have h: "epoch_holds n (clSub c) (end_time n cs) (snd (auth_run cs s))" by simp
  then consider t where "map_of (usEpochs (snd (auth_run cs s))) (clSub c) = Some t" "n \<le> t"
    | "end_time n cs > n + 8 * 24 * ns_hour"
    by (auto simp: epoch_holds_def simp del: map_of_eq_Some_iff)
  then show ?thesis
  proof cases
    case (1 t)
    then show ?thesis using refresh_refused[OF assms(6) 1(1) assms(3)] assms(4) by simp
  next
    case 2
    have "from_unix (clExp c) \<le> from_unix i + 7 * 24 * ns_hour"
      using assms(5) by (simp add: from_unix_def ns_hour_def ns_minute_def ns_second_def)
    then have "from_unix (clExp c) \<le> now" using 2 assms(4,8) ns_pos(3) by linarith
    then have "isl (aeParse v now tok)" using assms(6)[unfolded reads_as_def, rule_format, of now] by (cases "aeParse v now tok") auto
    then show ?thesis by (cases "aeParse v now tok") (auto simp: RefreshToken_def)
  qed
qed

text \<open>The administrator, one day after a password change; a token of an hour before it.\<close>

definition demo_changed :: user_service where
  "demo_changed = demo_accounts\<lparr>usEpochs := [(''user-001'', from_unix 200)]\<rparr>"

theorem old_session_stays_dead_witness:
  "isl (fst (RefreshToken (demo_auth [(''tok'', demo_claims)] ''x'') (from_unix 400) ''tok''
     (snd (auth_run [(demo_auth [] ''e'', from_unix 300, CLogin ''admin'' ''secret12'')] demo_changed))))"
proof -
  have "reads_as (demo_auth [(''tok'', demo_claims)] ''x'') ''tok'' demo_claims" by (simp add: reads_as_def demo_auth_def)
  then show ?thesis
    by (intro old_session_stays_dead[where c = demo_claims and n = "from_unix 200" and i = 100])
      (simp_all add: demo_changed_def demo_claims_def refresh_claims_def from_unix_def unix_def refreshTokenExpiry_def
        ns_hour_def ns_minute_def ns_second_def)
qed

section \<open>Codes on one replica\<close>

text \<open>The service without a database, each code stored under itself.\<close>

definition codes_ok :: "user_service \<Rightarrow> bool" where
  "codes_ok s \<longleftrightarrow> usMirror s = None \<and> distinct (keys (msInvites (usStore s))) \<and>
     (\<forall>k c. map_of (msInvites (usStore s)) k = Some c \<longrightarrow> inCode c = k)"

text \<open>The code is still there, with \<open>n\<close> uses more.\<close>

definition code_kept :: "string \<Rightarrow> int \<Rightarrow> invite \<Rightarrow> user_service \<Rightarrow> bool" where
  "code_kept k n c s \<longleftrightarrow> codes_ok s \<and>
     (\<exists>c'. map_of (msInvites (usStore s)) k = Some c' \<and> inId c' = inId c \<and> inMax c' = inMax c \<and> inUsed c' = inUsed c + n \<and>
        inUsed c' \<le> inMax c)"

lemma code_kept_same:
  assumes "codes_ok s" "map_of (msInvites (usStore s)) k = Some c" "inUsed c \<le> inMax c"
    and "msInvites (usStore s') = msInvites (usStore s)" "usMirror s' = None"
  shows "code_kept k 0 c s'"
  using assms by (auto simp: code_kept_def codes_ok_def)

lemma codes_put:
  assumes "codes_ok s" "usMirror s' = None" "msInvites (usStore s') = AList.update (inCode c) c (msInvites (usStore s))"
  shows "codes_ok s'"
  using assms by (auto simp: codes_ok_def store_simps distinct_update simp del: map_of_eq_Some_iff split: if_splits)

lemma code_kept_put:
  assumes "codes_ok s" "map_of (msInvites (usStore s)) k = Some c" "inUsed c \<le> inMax c"
    and "usMirror s' = None" "msInvites (usStore s') = AList.update (inCode d) d (msInvites (usStore s))"
    and "inCode d = k \<Longrightarrow> inId d = inId c \<and> inMax d = inMax c \<and> inUsed d = inUsed c + n \<and> inUsed d \<le> inMax c"
    and "inCode d \<noteq> k \<Longrightarrow> n = 0"
  shows "code_kept k n c s'"
  using codes_put[OF assms(1,4,5)] assms(2-7)
  by (cases "inCode d = k") (auto simp: code_kept_def store_simps simp del: map_of_eq_Some_iff)

lemma find_mem: "find P xs = Some x \<Longrightarrow> x \<in> set xs \<and> P x"
  by (auto simp: find_Some_iff)

lemma find_code:
  assumes "codes_ok s" "find (\<lambda>c. inId c = k) (map snd (msInvites (usStore s))) = Some c"
  shows "map_of (msInvites (usStore s)) (inCode c) = Some c" "inId c = k"
proof -
  from find_mem[OF assms(2)] obtain x where x: "(x, c) \<in> set (msInvites (usStore s))" "inId c = k" by auto
  then have "map_of (msInvites (usStore s)) x = Some c" using assms(1) by (simp add: codes_ok_def)
  then show "map_of (msInvites (usStore s)) (inCode c) = Some c" using assms(1) unfolding codes_ok_def by metis
  show "inId c = k" by (rule x(2))
qed

lemma no_mirror:
  assumes "usMirror s = None"
  shows "userByIDWithFallback v k s = (GetUser k (usStore s), s)"
    "userByUsernameWithFallback v k s = (GetUserByUsername k (usStore s), s)"
    "inviteCodeByID v k s = (GetInviteCodeByID k (usStore s), s)"
    "mirrorCreateUser v r s = (None, s)" "write_through f s = s" "syncMembersForPermissions v k s = s"
  using assms by (simp_all add: userByIDWithFallback_def userByUsernameWithFallback_def inviteCodeByID_def
    mirrorCreateUser_def write_through_def syncMembersForPermissions_def split: option.split)

lemma invites_frame [simp]:
  "msInvites (UpdateUser_mem r m) = msInvites m" "msInvites (DeleteUser k m) = msInvites m"
  "msInvites (snd (CreateUser_mem r m)) = msInvites m"
  by (simp_all add: UpdateUser_mem_def DeleteUser_def CreateUser_mem_def)

lemma create_user_codes: "CreateUser_mem r m = (b, m') \<Longrightarrow> msInvites m' = msInvites m"
  using invites_frame(3)[of r m] by simp

lemma create_attempts_codes:
  assumes "codes_ok s" "map_of (msInvites (usStore s)) k = Some c" "inUsed c \<le> inMax c"
  shows "code_kept k 0 c (snd (create_attempts v r j n s))"
proof (induction n arbitrary: j)
  case 0
  then show ?case using assms by (simp add: code_kept_same codes_ok_def)
next
  case (Suc n)
  have m: "usMirror s = None" using assms(1) by (simp add: codes_ok_def)
  show ?case
  proof (cases "generateInviteCode v j")
    case None
    then show ?thesis using assms m by (simp add: code_kept_same)
  next
    case (Some code)
    let ?r = "r\<lparr>inId := ''invite-'' @ aeId v j, inCode := code\<rparr>"
    show ?thesis
    proof (cases "map_of (msInvites (usStore s)) code")
      case None
      then have "code \<noteq> k" using assms(2) by auto
      then show ?thesis using Some None assms m
        by (auto simp: CreateInviteCode_mem_def PutInviteCode_def Let_def intro!: code_kept_put[where d = ?r])
    qed (use Some Suc m in \<open>simp add: CreateInviteCode_mem_def Let_def\<close>)
  qed
qed

definition used_by :: "string \<Rightarrow> auth_call \<Rightarrow> bool \<Rightarrow> int" where
  "used_by k call ok = (case call of CRegister n e p code \<Rightarrow> if ok \<and> code = k then 1 else 0 | _ \<Rightarrow> 0)"

lemma consume_keeps:
  assumes "codes_ok s" "map_of (msInvites (usStore s)) k = Some c" "inUsed c \<le> inMax c" "0 < inMax c" "inMax c < 2 ^ 31" "0 \<le> inUsed c"
    and "k \<notin> set (aeCodes v)" "consumeInviteCode v now code u s = (ok, s')"
  shows "code_kept k (if ok \<and> code = k then 1 else 0) c s'" "usMirror s' = None"
proof -
  have m: "usMirror s = None" using assms(1) by (simp add: codes_ok_def)
  show "usMirror s' = None" using assms(8) m by (auto simp: consumeInviteCode_def consume_local_def Let_def split: if_splits prod.splits)
  show "code_kept k (if ok \<and> code = k then 1 else 0) c s'"
  proof (cases "code \<noteq> [] \<and> fst (ConsumeInviteCode_mem code u now (usStore s))")
    case True
    then obtain d where d: "map_of (msInvites (usStore s)) code = Some d" "InviteUsable d now"
      by (auto simp: ConsumeInviteCode_mem_def split: option.splits if_splits)
    have key: "inCode d = code" using assms(1) d(1) by (simp add: codes_ok_def)
    have s': "ok" "s' = on_store (\<lambda>m. m\<lparr>msInvites := AList.update code (used_once u now d) (msInvites m)\<rparr>) s"
      using True assms(8) d m by (auto simp: consumeInviteCode_def consume_local_def ConsumeInviteCode_mem_def Let_def)
    have more: "inUsed (used_once u now d) = inUsed d + 1 \<and> inUsed d < inMax d" if "code = k"
    proof -
      have "d = c" using d(1) assms(2) that by simp
      then have "inUsed d < inMax d" using d(2) assms(4) by (auto simp: InviteUsable_def)
      then show ?thesis using \<open>d = c\<close> assms(5,6) by (simp add: used_once_def int32_def)
    qed
    show ?thesis
      using code_kept_put[OF assms(1-3), of s' "used_once u now d" "if code = k then 1 else 0"] more s' key m d(1) assms(2)
      by (auto simp: used_once_def)
  next
    case False
    have "s' = s \<and> (ok \<longrightarrow> code \<in> set (aeCodes v))"
      using False assms(8) m
      by (auto simp: consumeInviteCode_def consume_local_def ConsumeInviteCode_mem_def inviteCodeValid_def list_ex_iff Let_def
          split: option.splits if_splits)
    then show ?thesis using code_kept_same[OF assms(1-3), of s] m assms(7) by auto
  qed
qed

lemma step_codes:
  assumes "codes_ok s" "map_of (msInvites (usStore s)) k = Some c" "inUsed c \<le> inMax c" "0 < inMax c" "inMax c < 2 ^ 31" "0 \<le> inUsed c"
    and "k \<notin> set (aeCodes v)" "registrationMode v = ''invitation''" "call \<noteq> CDeleteInvite (inId c)"
    and "auth_step v now call s = (ok, s')"
  shows "code_kept k (used_by k call ok) c s'"
proof -
  have m: "usMirror s = None" using assms(1) by (simp add: codes_ok_def)
  note same = code_kept_same[OF assms(1-3)]
  note n = no_mirror[OF m]
  show ?thesis
  proof (cases call)
    case (CRegister nm e p code)
    let ?r = "\<lambda>h. \<lparr>urUser = \<lparr>uId = newUserID v, uName = nm, uEmail = e, uState = UsActive, uCreated = None,
       uRole = inviteCodeRole v code s, uMust = False\<rparr>, urPassword = h\<rparr>"
    have key: "code_kept k (if \<not> isl (fst x) \<and> code = k then 1 else 0) c (snd x)" if x: "x = RegisterUser v now nm e p code s" for x
    proof (cases "inviteCodeLooksValid v now code s \<and> validateNewUser nm e p = None \<and>
        (\<exists>h. hashPassword v p = Inr h \<and> fst (CreateUser_mem (?r h) (usStore s)))")
      case False
      have "isl (fst x) \<and> snd x = s"
        unfolding x using False assms(8)
        by (auto simp: RegisterUser_def Let_def split: option.split sum.split prod.split)
      then show ?thesis using same[of s] m by simp
    next
      case True
      then obtain h where h: "hashPassword v p = Inr h" "fst (CreateUser_mem (?r h) (usStore s))" by blast
      let ?s1 = "s\<lparr>usStore := snd (CreateUser_mem (?r h) (usStore s))\<rparr>"
      obtain used s2 where co: "consumeInviteCode v now code (newUserID v) ?s1 = (used, s2)" by fastforce
      have s1: "codes_ok ?s1" "map_of (msInvites (usStore ?s1)) k = Some c" using assms(1,2) by (simp_all add: codes_ok_def)
      note ck = consume_keeps[OF s1 assms(3-7) co]
      have "x = (if used then (Inr (urUser (?r h)), s2)
          else (Inl (FailedPrecondition, ''invalid or missing invite code''), on_store (DeleteUser (newUserID v)) s2))"
        unfolding x using True h co assms(8) ck(2)
        by (auto simp: RegisterUser_def Let_def no_mirror split: prod.split)
      moreover have "code_kept k n c (on_store (DeleteUser u) s2) = code_kept k n c s2" for n u
        by (simp add: code_kept_def codes_ok_def)
      ultimately show ?thesis using ck(1) by auto
    qed
    show ?thesis using key[OF refl] assms(10) CRegister by (auto simp: used_by_def)
  next
    case (CInvite mx hm ex nv nt who rl)
    have "snd (auth_step v now call s) = s \<or> (\<exists>r. snd (auth_step v now call s) = snd (create_attempts v r 0 inviteRetryLimit s))"
      unfolding CInvite auth_step.simps CreateInviteCode_def by (auto simp del: create_attempts.simps)
    then show ?thesis using create_attempts_codes[OF assms(1-3)] same[of s] m assms(10) CInvite by (auto simp: used_by_def)
  next
    case (CRevoke j)
    show ?thesis
    proof (cases "GetInviteCodeByID j (usStore s)")
      case None
      then show ?thesis using assms(10) CRevoke same m by (auto simp: RevokeInviteCode_def n used_by_def)
    next
      case (Some d)
      have d: "map_of (msInvites (usStore s)) (inCode d) = Some d"
        using find_code(1)[OF assms(1)] Some by (simp add: GetInviteCodeByID_def)
      show ?thesis
      proof (cases "inState d = ''revoked''")
        case True
        then show ?thesis using assms(10) CRevoke Some same m by (auto simp: RevokeInviteCode_def n used_by_def)
      next
        case False
        then have s': "s' = on_store (PutInviteCode (d\<lparr>inState := ''revoked'', inRevokedAt := Some now\<rparr>)) s"
          using assms(10) CRevoke Some d m by (auto simp: RevokeInviteCode_def n no_mirror UpdateInviteCode_def Let_def)
        show ?thesis using assms(2,3) m d CRevoke unfolding s'
          by (intro code_kept_put[OF assms(1-3), where d = "d\<lparr>inState := ''revoked'', inRevokedAt := Some now\<rparr>"])
            (auto simp: PutInviteCode_def used_by_def)
      qed
    qed
  next
    case (CDeleteInvite j)
    then have j: "j \<noteq> inId c" using assms(9) by auto
    have del: "code_kept k 0 c (on_store (snd \<circ> DeleteInviteCode_mem j) s)"
    proof (cases "find (\<lambda>(code, c). inId c = j) (msInvites (usStore s))")
      case (Some x)
      then have x: "x \<in> set (msInvites (usStore s))" "inId (snd x) = j" using find_mem[OF Some] by auto
      then have "map_of (msInvites (usStore s)) (fst x) = Some (snd x)" using assms(1) by (simp add: codes_ok_def)
      then have "fst x \<noteq> k" using x(2) j assms(2) by auto
      then show ?thesis using Some assms(1-3) m
        by (cases x) (auto simp: DeleteInviteCode_mem_def code_kept_def codes_ok_def store_simps distinct_delete
          simp del: map_of_eq_Some_iff split: if_splits)
    qed (use same m in \<open>simp add: DeleteInviteCode_mem_def\<close>)
    have "s' = s \<or> s' = on_store (snd \<circ> DeleteInviteCode_mem j) s"
      using assms(10) CDeleteInvite m by (auto simp: DeleteInviteCode_def n no_mirror Let_def split: option.splits if_splits)
    then show ?thesis using del same[of s] m CDeleteInvite by (auto simp: used_by_def)
  qed (use assms(10) m in \<open>auto simp: Login_def Logout_def RefreshToken_def GetCurrentUser_def GetUser_svc_def UpdateUser_def
      invalidateSessions_def ValidatePermission_def GetUserPermissions_def CreateUser_def ChangePassword_def ResetPassword_def
      store_password_def Let_def n no_mirror used_by_def create_user_codes intro!: same
      split: option.splits sum.splits prod.splits if_splits\<close>)
qed

definition uses_of :: "string \<Rightarrow> auth_call \<Rightarrow> bool \<Rightarrow> nat" where
  "uses_of k call ok = (if ok \<and> (\<exists>n e p. call = CRegister n e p k) then 1 else 0)"

lemma used_by_uses: "used_by k call ok = int (uses_of k call ok)"
  by (cases call) (auto simp: used_by_def uses_of_def)

text \<open>On one replica without a database, an invitation code with a limit admits at most as many registrations as the
  limit leaves, as long as registration asks for invitations, the code is none of the configured ones and it is not
  deleted, whatever other calls are served in between. With a database it does not hold: \<open>invite_oversold\<close> in
  AccountReplicas.\<close>

theorem invite_uses_bounded:
  assumes "codes_ok s" "map_of (msInvites (usStore s)) k = Some c"
    and "0 < inMax c" "inMax c < 2 ^ 31" "0 \<le> inUsed c" "inUsed c \<le> inMax c"
    and "\<forall>(v, now, call) \<in> set cs. registrationMode v = ''invitation'' \<and> k \<notin> set (aeCodes v) \<and> call \<noteq> CDeleteInvite (inId c)"
  shows "int (sum_list (map (\<lambda>((v, now, call), ok). uses_of k call ok) (zip cs (fst (auth_run cs s))))) \<le> inMax c - inUsed c"
  using assms
proof (induction cs arbitrary: s c)
  case (Cons x cs)
  obtain v now call where x: "x = (v, now, call)" by (cases x)
  obtain ok s1 where st: "auth_step v now call s = (ok, s1)" by (cases "auth_step v now call s")
  have "code_kept k (used_by k call ok) c s1"
    using step_codes[OF Cons(2,3,7,4,5,6) _ _ _ st] Cons(8) x by auto
  then obtain c1 where c1: "codes_ok s1" "map_of (msInvites (usStore s1)) k = Some c1" "inId c1 = inId c" "inMax c1 = inMax c"
      "inUsed c1 = inUsed c + int (uses_of k call ok)" "inUsed c1 \<le> inMax c"
    by (auto simp: code_kept_def used_by_uses)
  have "int (sum_list (map (\<lambda>((v, now, call), ok). uses_of k call ok) (zip cs (fst (auth_run cs s1))))) \<le> inMax c1 - inUsed c1"
    using Cons.IH[OF c1(1,2)] Cons(4-6,8) c1(3-6) by auto
  then show ?case using c1(4,5) x st by (cases "auth_run cs s1") simp
qed simp

text \<open>The code after it was made.\<close>

definition demo_invited :: user_service where
  "demo_invited = snd (auth_run (take 1 demo_calls) demo_accounts)"

lemma demo_invites: "map (\<lambda>(k, c). (k, inId c, inCode c, inMax c, inUsed c)) (msInvites (usStore demo_invited)) =
    [(demo_code, ''invite-a'', demo_code, 1, 0)]" "usMirror demo_invited = None"
  by code_simp+

theorem invite_uses_bounded_witness:
  "int (sum_list (map (\<lambda>((v, now, call), ok). uses_of demo_code call ok)
     (zip (tl demo_calls) (fst (auth_run (tl demo_calls) demo_invited))))) \<le> 1"
proof -
  obtain c where c: "msInvites (usStore demo_invited) = [(demo_code, c)]" "inId c = ''invite-a''" "inCode c = demo_code" "inMax c = 1" "inUsed c = 0"
    using demo_invites(1) by (auto simp: map_eq_Cons_conv split: prod.splits)
  then have "codes_ok demo_invited" using demo_invites(2) by (simp add: codes_ok_def)
  from invite_uses_bounded[OF this, of demo_code c "tl demo_calls"] c show ?thesis
    by (simp add: demo_calls_def demo_auth_def registrationMode_def)
qed

end
