(* ===== verification/AccountStore.thy ===== *)
theory AccountStore imports Main Prelude GoText ProjectStore Accounts AccountRules begin

text \<open>
  What the stores of the user service keep: well-formed maps and tables, names that are unique until a user is updated, and what
  a permission check reads.
\<close>

section \<open>Well-formed stores\<close>

text \<open>Every record is stored under its own key, every code gives an ordinary role; in the maps and in the tables.\<close>

definition wf_users :: "(string \<times> user_rec) list \<Rightarrow> bool" where
  "wf_users us \<longleftrightarrow> distinct (keys us) \<and> (\<forall>(k, r) \<in> set us. uId (urUser r) = k)"

definition wf_codes :: "(string \<times> invite) list \<Rightarrow> bool" where
  "wf_codes cs \<longleftrightarrow> distinct (keys cs) \<and> (\<forall>(k, c) \<in> set cs. inCode c = k \<and> inRole c \<in> {RoleDeveloper, RoleViewer})"

definition wf_times :: "(string \<times> gotime) list \<Rightarrow> bool" where
  "wf_times ts \<longleftrightarrow> distinct (keys ts)"

definition wf_pg :: "pg \<Rightarrow> bool" where
  "wf_pg db \<longleftrightarrow> wf_users (pgUsers db) \<and> wf_codes (pgInvites db) \<and> wf_times (pgRevoked db) \<and> wf_times (pgEpochs db)"

definition wf_service :: "user_service \<Rightarrow> bool" where
  "wf_service s \<longleftrightarrow> wf_users (msUsers (usStore s)) \<and> wf_codes (msInvites (usStore s)) \<and> wf_times (usRevoked s) \<and> wf_times (usEpochs s) \<and>
     (case usMirror s of None \<Rightarrow> True | Some db \<Rightarrow> wf_pg db)"

lemma update_entries: "set (AList.update k x m) \<subseteq> insert (k, x) (set m)"
  by (induction m) auto

lemma delete_entries: "set (AList.delete k m) \<subseteq> set m"
  by (auto simp: AList.delete_eq)

lemma wf_put [simp]:
  "wf_users us \<Longrightarrow> wf_users (AList.update (uId (urUser r)) r us)"
  "wf_codes cs \<Longrightarrow> inRole c \<in> {RoleDeveloper, RoleViewer} \<Longrightarrow> inCode c = k \<Longrightarrow> wf_codes (AList.update k c cs)"
  "wf_times ts \<Longrightarrow> wf_times (AList.update u t ts)"
  "wf_users us \<Longrightarrow> wf_users (AList.delete u us)" "wf_codes cs \<Longrightarrow> wf_codes (AList.delete u cs)"
  "wf_times ts \<Longrightarrow> wf_times (sweep_older now age ts)"
  "wf_codes cs \<Longrightarrow> wf_codes (filter P cs)"
  using update_entries[of "uId (urUser r)" r us] update_entries[of k c cs] delete_entries[of u us] delete_entries[of u cs]
  by (auto simp: wf_users_def wf_codes_def wf_times_def distinct_update distinct_delete sweep_distinct distinct_map_filter)

lemma wf_statements [simp]:
  assumes "wf_pg db"
  shows "wf_pg (snd (PG_UpsertUser up r db))" "wf_pg (snd (PG_SaveRevokedToken up tok t db))"
    "wf_pg (snd (PG_SaveSessionEpoch up u t db))" "wf_pg (snd (PG_DeleteInviteCode up k db))"
    "inRole c \<in> {RoleDeveloper, RoleViewer} \<Longrightarrow> wf_pg (snd (PG_UpsertInviteCode up c db))"
  using assms by (auto simp: wf_pg_def PG_UpsertUser_def PG_SaveRevokedToken_def PG_SaveSessionEpoch_def PG_DeleteInviteCode_def
    PG_UpsertInviteCode_def pg_write_def)

lemma wf_lookup:
  assumes "wf_codes cs" "map_of cs k = Some c"
  shows "inCode c = k \<and> inRole c \<in> {RoleDeveloper, RoleViewer}"
  using map_of_SomeD[OF assms(2)] assms(1) by (auto simp: wf_codes_def)

lemma wf_consume [simp]:
  assumes "wf_pg db"
  shows "wf_pg (snd (PG_ConsumeInviteCode up code u now db db))"
proof (cases "map_of (pgInvites db) code")
  case (Some c)
  then have "inCode c = code \<and> inRole c \<in> {RoleDeveloper, RoleViewer}" using assms wf_lookup by (auto simp: wf_pg_def)
  then show ?thesis using assms Some
    by (auto simp: PG_ConsumeInviteCode_def consume_update_def used_once_def wf_pg_def Let_def split: prod.split option.split)
qed (use assms in \<open>simp add: PG_ConsumeInviteCode_def\<close>)

lemma wf_write_through:
  assumes "wf_service s" "\<And>db. wf_pg db \<Longrightarrow> wf_pg (snd (f db))"
  shows "wf_service (write_through f s)"
  using assms by (auto simp: wf_service_def write_through_def split: option.splits)

definition ordinary :: "invite \<Rightarrow> bool" where
  "ordinary c \<longleftrightarrow> inRole c \<in> {RoleDeveloper, RoleViewer}"

lemma wf_store [simp]:
  assumes "wf_service s"
  shows "wf_service (on_store (UpdateUser_mem r) s)" "wf_service (on_store (DeleteUser k) s)"
    "wf_service (on_store (snd \<circ> DeleteInviteCode_mem k) s)" "wf_service (on_store (fold AddMember bs) s)"
    "ordinary c \<Longrightarrow> wf_service (on_store (PutInviteCode c) s)"
    "ordinary c \<Longrightarrow> wf_service (on_store (snd \<circ> UpdateInviteCode c) s)"
    "wf_service (on_store (\<lambda>m. snd (CreateUser_mem r m)) s)"
    "wf_service (on_store (\<lambda>m. snd (ConsumeInviteCode_mem k u now m)) s)"
    "ordinary c \<Longrightarrow> wf_service (on_store (\<lambda>m. snd (CreateInviteCode_mem c m)) s)"
proof -
  have m: "msUsers (fold AddMember bs m) = msUsers m \<and> msInvites (fold AddMember bs m) = msInvites m" for m
    by (induction bs arbitrary: m) (auto simp: AddMember_def)
  show "wf_service (on_store (fold AddMember bs) s)" using assms m by (simp add: wf_service_def)
  show "wf_service (on_store (\<lambda>m. snd (ConsumeInviteCode_mem k u now m)) s)"
    using assms wf_lookup[of "msInvites (usStore s)" k]
    by (auto simp: wf_service_def ConsumeInviteCode_mem_def used_once_def split: option.split)
qed (use assms in \<open>auto simp: wf_service_def UpdateUser_mem_def DeleteUser_def DeleteInviteCode_mem_def PutInviteCode_def
    UpdateInviteCode_def CreateUser_mem_def CreateInviteCode_mem_def ordinary_def split: option.split prod.split\<close>)

lemma wf_stored [simp]:
  assumes "wf_service s" "usStore s = m"
  shows "wf_service (s\<lparr>usStore := UpdateUser_mem r m\<rparr>)" "wf_service (s\<lparr>usStore := DeleteUser k m\<rparr>)"
    "wf_service (s\<lparr>usStore := snd (DeleteInviteCode_mem k m)\<rparr>)"
    "ordinary c \<Longrightarrow> wf_service (s\<lparr>usStore := snd (UpdateInviteCode c m)\<rparr>)"
  using wf_store[OF assms(1)] assms(2) by (auto simp: o_def)

lemma wf_found:
  assumes "wf_codes cs" "find P (map snd cs) = Some c"
  shows "ordinary c"
  using find_mem[OF assms(2)] assms(1) by (auto simp: wf_codes_def ordinary_def)

lemma wf_fallback [simp]:
  assumes "wf_service s"
  shows "wf_service (snd (userByIDWithFallback v k s))" "wf_service (snd (userByUsernameWithFallback v k s))"
    "wf_service (syncMembersForPermissions v k s)"
  using wf_store[OF assms] assms
  by (auto simp: userByIDWithFallback_def userByUsernameWithFallback_def syncMembersForPermissions_def split: option.split)

lemma wf_code_lookup:
  assumes "wf_service s"
  shows "wf_service (snd (inviteCodeByID v k s)) \<and> (\<forall>c. fst (inviteCodeByID v k s) = Some c \<longrightarrow> ordinary c)"
proof -
  have "ordinary c" if "GetInviteCodeByID k (usStore s) = Some c" for c
    using that assms wf_found by (auto simp: GetInviteCodeByID_def wf_service_def)
  moreover have "ordinary c" if "usMirror s = Some db" "PG_ListInviteCodes up db = Some cs" "find (\<lambda>c. inId c = k) cs = Some c" for up db cs c
    using that assms wf_found[of "pgInvites db"]
    by (auto simp: wf_service_def wf_pg_def PG_ListInviteCodes_def pg_read_def split: if_splits)
  ultimately show ?thesis using assms wf_store(5)[OF assms]
    by (auto simp: inviteCodeByID_def split: option.split)
qed

lemma wf_pairs:
  assumes "wf_service s"
  shows "userByIDWithFallback v k s = (f1, s1) \<Longrightarrow> wf_service s1"
    "userByUsernameWithFallback v k s = (f1, s1) \<Longrightarrow> wf_service s1"
    "inviteCodeByID v k s = (f2, s1) \<Longrightarrow> wf_service s1" "inviteCodeByID v k s = (Some c, s1) \<Longrightarrow> ordinary c"
  using wf_fallback[OF assms, of v k] wf_code_lookup[OF assms, of v k] by auto

lemma wf_sessions [simp]:
  assumes "wf_service s"
  shows "wf_service (invalidateSessions v now u s)" "wf_service (Logout v now tok s)" "wf_service (store_password v now r h must s)"
proof -
  have e: "wf_service (x\<lparr>usEpochs := AList.update u now (usEpochs x)\<rparr>)" if "wf_service x" for x u using that by (simp add: wf_service_def)
  have sw: "wf_service (x\<lparr>usEpochs := sweep_older now a (usEpochs x)\<rparr>)" if "wf_service x" for x a using that by (simp add: wf_service_def)
  have rv: "wf_service (s\<lparr>usRevoked := sweep_older now (24 * ns_hour) (AList.update tok now (usRevoked s))\<rparr>)"
    using assms by (simp add: wf_service_def)
  show "wf_service (invalidateSessions v now u s)" unfolding invalidateSessions_def by (intro wf_write_through e assms) simp
  show "wf_service (store_password v now r h must s)" unfolding store_password_def Let_def
    by (intro wf_write_through) (simp_all add: assms)
  have x: "wf_service (write_through (PG_SaveRevokedToken up tok now)
      (s\<lparr>usRevoked := sweep_older now (24 * ns_hour) (AList.update tok now (usRevoked s))\<rparr>))" for up
    by (rule wf_write_through[OF rv]) simp
  show "wf_service (Logout v now tok s)"
  proof (cases "extractUserID v now tok")
    case (Inr u)
    show ?thesis unfolding Logout_def Let_def Inr sum.case by (intro sw wf_write_through e x) simp_all
  qed (use x in \<open>simp add: Logout_def Let_def\<close>)
qed

lemma wf_memory:
  "wf_service s \<Longrightarrow> CreateUser_mem r (usStore s) = (b, m) \<Longrightarrow> wf_service (s\<lparr>usStore := m\<rparr>)"
  "wf_service s \<Longrightarrow> ConsumeInviteCode_mem k u now (usStore s) = (b, m) \<Longrightarrow> wf_service (s\<lparr>usStore := m\<rparr>)"
  "wf_service s \<Longrightarrow> ordinary c \<Longrightarrow> CreateInviteCode_mem c (usStore s) = (b, m) \<Longrightarrow> wf_service (s\<lparr>usStore := m\<rparr>)"
  using wf_store(7)[of s r] wf_store(8)[of s k u now] wf_store(9)[of s c] by simp_all

lemma wf_table:
  "wf_service s \<Longrightarrow> usMirror s = Some db \<Longrightarrow> PG_UpsertUser up r db = (b, db') \<Longrightarrow> wf_service (s\<lparr>usMirror := Some db'\<rparr>)"
  "wf_service s \<Longrightarrow> usMirror s = Some db \<Longrightarrow> PG_ConsumeInviteCode up k u now db db = (b', db') \<Longrightarrow> wf_service (s\<lparr>usMirror := Some db'\<rparr>)"
  "wf_service s \<Longrightarrow> usMirror s = Some db \<Longrightarrow> ordinary c \<Longrightarrow> PG_UpsertInviteCode up c db = (b, db') \<Longrightarrow>
    wf_service (s\<lparr>usMirror := Some db'\<rparr>)"
  using wf_statements(1)[of db up r] wf_consume[of db up k u now] wf_statements(5)[of db c up]
  by (auto simp: wf_service_def ordinary_def)

lemma wf_consumed:
  assumes "wf_service s" "consumeInviteCode v now k u s = (b, s')"
  shows "wf_service s'"
proof -
  have loc: "wf_service (snd (consume_local v now k u x))" if "wf_service x" for x
    using that by (auto simp: consume_local_def Let_def wf_memory(2) split: prod.split)
  have read: "wf_service (case PG_GetInviteCode up k db of Some (Some c) \<Rightarrow> on_store (PutInviteCode c) x | _ \<Rightarrow> x)"
    if "wf_service x" "usMirror x = Some db" for x up db
    using that wf_lookup[of "pgInvites db" k]
    by (auto simp: PG_GetInviteCode_def pg_read_def wf_pg_def wf_service_def ordinary_def PutInviteCode_def split: option.split)
  show ?thesis
  proof (cases "k = [] \<or> usMirror s = None")
    case True
    then show ?thesis using assms loc[OF assms(1)] by (auto simp: consumeInviteCode_def split: if_splits)
  next
    case False
    then obtain db where db: "usMirror s = Some db" by auto
    obtain res db' where c: "PG_ConsumeInviteCode (aeUp v ''invite-consume'') k u now db db = (res, db')"
      by (cases "PG_ConsumeInviteCode (aeUp v ''invite-consume'') k u now db db")
    have "wf_service (s\<lparr>usMirror := Some db'\<rparr>)" by (rule wf_table(2)[OF assms(1) db c])
    from loc[OF this] read[OF this] show ?thesis using assms(2) False db c
      by (cases "res = Some True") (auto simp: consumeInviteCode_def Let_def)
  qed
qed

text \<open>An upsert never reports a row that is already there.\<close>

lemma upsert_never_collides: "fst (PG_UpsertInviteCode up c db) \<noteq> PgUnique"
  by (simp add: PG_UpsertInviteCode_def pg_write_def)

lemma wf_created:
  assumes "wf_service s" "ordinary r"
  shows "wf_service (snd (create_attempts v r k n s))"
  using assms
proof (induction v r k n s rule: create_attempts.induct)
  case (2 v rec0 k n s)
  show ?case
  proof (cases "generateInviteCode v k")
    case (Some code)
    define r where r: "r = rec0\<lparr>inId := ''invite-'' @ aeId v k, inCode := code\<rparr>"
    obtain ok m where cm: "CreateInviteCode_mem r (usStore s) = (ok, m)" by (cases "CreateInviteCode_mem r (usStore s)")
    define s1 where "s1 = s\<lparr>usStore := m\<rparr>"
    have o: "ordinary r" using 2(4) by (simp add: r ordinary_def)
    have w1: "wf_service s1" unfolding s1_def by (rule wf_memory(3)[OF 2(3) o cm])
    show ?thesis
    proof (cases ok)
      case False
      then show ?thesis using 2(1)[OF Some r refl cm[symmetric] s1_def] w1 2(3,4) Some cm[unfolded r]
        by (simp add: Let_def s1_def)
    next
      case True
      note ok = this
      show ?thesis
      proof (cases "usMirror s1")
        case None
        then show ?thesis using w1 Some cm[unfolded r] ok by (simp add: Let_def s1_def)
      next
        case db: (Some db)
        obtain res db' where up: "PG_UpsertInviteCode (aeUp v ''invite-create'') r db = (res, db')"
          by (cases "PG_UpsertInviteCode (aeUp v ''invite-create'') r db")
        have w2: "wf_service (s1\<lparr>usMirror := Some db'\<rparr>)" by (rule wf_table(3)[OF w1 db o up])
        show ?thesis
        proof (cases "res = PgUnique")
          case True
          then have "False" using up upsert_never_collides[of "aeUp v ''invite-create''" r db] by simp
          then show ?thesis ..
        qed (use w2 Some cm[unfolded r] ok db up[unfolded r] in \<open>simp add: s1_def Let_def\<close>)
      qed
    qed
  qed (use 2 in simp)
qed simp

lemma wf_users_created:
  assumes "wf_service s" "mirrorCreateUser v r s = (e, s')"
  shows "wf_service s'"
proof (cases "usMirror s")
  case (Some db)
  obtain res db' where up: "PG_UpsertUser (aeUp v ''user-create'') r db = (res, db')"
    by (cases "PG_UpsertUser (aeUp v ''user-create'') r db")
  show ?thesis using assms(2) wf_table(1)[OF assms(1) Some up] Some up
    by (auto simp: mirrorCreateUser_def Let_def split: if_splits)
qed (use assms in \<open>simp add: mirrorCreateUser_def\<close>)

lemma step_keeps_wf:
  assumes "wf_service s"
  shows "wf_service (snd (auth_step v now call s))"
proof (cases call)
  case (CUpdate u)
  then show ?thesis using assms
    by (auto simp: UpdateUser_def Let_def wf_pairs(1) intro!: wf_sessions wf_write_through wf_stored(1) split: prod.split option.split)
next
  case (CRegister n e p code)
  then show ?thesis using assms
    by (auto simp: RegisterUser_def Let_def split: prod.split option.split sum.split
      dest!: wf_memory(1)[OF assms] wf_consumed[rotated] wf_users_created[rotated])
next
  case (CCreate n e p rl)
  then show ?thesis using assms
    by (auto simp: CreateUser_def Let_def split: prod.split option.split sum.split
      dest!: wf_memory(1)[OF assms] wf_users_created[rotated])
next
  case (CInvite mx hm ex nv nt who rl)
  then show ?thesis using assms wf_created[OF assms]
    by (auto simp: CreateInviteCode_def ordinary_def)
next
  case (CRevoke k)
  then show ?thesis using assms wf_pairs(3,4)[OF assms]
    by (auto simp: RevokeInviteCode_def Let_def ordinary_def intro!: wf_write_through wf_stored(4) split: prod.split option.split)
next
  case (CDeleteInvite k)
  then show ?thesis using assms wf_pairs(3)[OF assms]
    by (auto simp: DeleteInviteCode_def Let_def intro!: wf_write_through wf_stored(3) split: prod.split option.split)
next
  case (CLogin n p)
  then show ?thesis using assms wf_pairs(2)[OF assms] by (auto simp: Login_def Let_def split: prod.split option.split)
next
  case (CRefresh tok)
  then show ?thesis using assms wf_pairs(1)[OF assms]
    by (auto simp: RefreshToken_def Let_def split: prod.split option.split sum.split)
next
  case (CCurrent tok)
  then show ?thesis using assms wf_pairs(1)[OF assms]
    by (auto simp: GetCurrentUser_def Let_def split: prod.split option.split sum.split)
next
  case (CGetUser k)
  then show ?thesis using assms wf_pairs(1)[OF assms] by (auto simp: GetUser_svc_def Let_def split: prod.split)
next
  case (CPermission u t r a)
  then show ?thesis using assms by (auto simp: ValidatePermission_def Let_def)
next
  case (CChange k p q)
  then show ?thesis using assms wf_pairs(1)[OF assms]
    by (auto simp: ChangePassword_def Let_def split: prod.split option.split sum.split)
next
  case (CReset k)
  then show ?thesis using assms wf_pairs(1)[OF assms]
    by (auto simp: ResetPassword_def Let_def split: prod.split option.split sum.split)
qed (use assms in \<open>auto simp: GetUserPermissions_def Let_def\<close>)

interpretation well_formed: account_law wf_service "\<lambda>call. True"
  by unfold_locales (rule step_keeps_wf)

text \<open>C26. Every call keeps the stores well formed: users are stored under their id and codes under their text, no key is there
  twice, no code gives the administrator's role, in the maps of the replica and in the tables.\<close>

theorem calls_keep_store_well_formed:
  assumes "wf_service s"
  shows "wf_service (snd (auth_run cs s))"
  by (rule well_formed.run[OF assms]) auto

theorem calls_keep_store_well_formed_witness: "wf_service (snd (auth_run demo_calls demo_accounts))"
  by (rule calls_keep_store_well_formed) code_simp

section \<open>Names on one replica\<close>

definition clash :: "user_rec \<Rightarrow> user_rec \<Rightarrow> bool" where
  "clash q r \<longleftrightarrow> uName (urUser q) = uName (urUser r) \<or> uEmail (urUser q) = uEmail (urUser r)"

definition names_apart :: "(string \<times> user_rec) list \<Rightarrow> bool" where
  "names_apart us \<longleftrightarrow> (\<forall>x \<in> set us. \<forall>y \<in> set us. clash (snd x) (snd y) \<longrightarrow> fst x = fst y)"

lemma names_apart_sub: "names_apart us \<Longrightarrow> set us' \<subseteq> set us \<Longrightarrow> names_apart us'"
  unfolding names_apart_def by blast

lemma names_apart_delete: "names_apart us \<Longrightarrow> names_apart (AList.delete k us)"
  by (rule names_apart_sub[OF _ delete_entries])

lemma names_apart_put:
  assumes "names_apart us" "\<And>x. x \<in> set us \<Longrightarrow> clash (snd x) r \<Longrightarrow> fst x = k"
  shows "names_apart (AList.update k r us)"
proof (rule names_apart_sub[where us = "(k, r) # us"])
  have "clash q p = clash p q" for q p by (auto simp: clash_def)
  then show "names_apart ((k, r) # us)" using assms unfolding names_apart_def by (metis (no_types, lifting) fst_conv set_ConsD snd_conv)
  show "set (AList.update k r us) \<subseteq> set ((k, r) # us)" using update_entries[of k r us] by simp
qed

definition names_ok :: "user_service \<Rightarrow> bool" where
  "names_ok s \<longleftrightarrow> usMirror s = None \<and> wf_service s \<and> names_apart (msUsers (usStore s))"

lemma names_users:
  assumes "names_ok s"
  shows "names_apart (AList.delete k (msUsers (usStore s)))"
    "map_of (msUsers (usStore s)) k = Some q \<Longrightarrow> uName (urUser r) = uName (urUser q) \<Longrightarrow> uEmail (urUser r) = uEmail (urUser q) \<Longrightarrow>
      names_apart (AList.update (uId (urUser q)) r (msUsers (usStore s)))"
    "CreateUser_mem r (usStore s) = (ok, m) \<Longrightarrow> names_apart (msUsers m)"
proof -
  have a: "names_apart (msUsers (usStore s))" using assms by (simp add: names_ok_def)
  show "names_apart (AList.delete k (msUsers (usStore s)))" by (rule names_apart_delete[OF a])
  show "names_apart (AList.update (uId (urUser q)) r (msUsers (usStore s)))"
    if m: "map_of (msUsers (usStore s)) k = Some q" and e: "uName (urUser r) = uName (urUser q)" "uEmail (urUser r) = uEmail (urUser q)"
  proof (rule names_apart_put[OF a])
    fix x assume x: "x \<in> set (msUsers (usStore s))" "clash (snd x) r"
    have q: "(k, q) \<in> set (msUsers (usStore s))" using m by (rule map_of_SomeD)
    then have "uId (urUser q) = k" using assms by (auto simp: names_ok_def wf_service_def wf_users_def)
    moreover have "clash (snd x) q" using x(2) e by (simp add: clash_def)
    ultimately show "fst x = uId (urUser q)" using a x(1) q unfolding names_apart_def by (metis fst_conv snd_conv)
  qed
  show "names_apart (msUsers m)" if c: "CreateUser_mem r (usStore s) = (ok, m)"
  proof (cases "\<exists>u \<in> set (map snd (msUsers (usStore s))). uName (urUser u) = uName (urUser r) \<or> uEmail (urUser u) = uEmail (urUser r)")
    case True
    then show ?thesis using c a unfolding CreateUser_mem_def by simp
  next
    case False
    then have "msUsers m = AList.update (uId (urUser r)) r (msUsers (usStore s))" using c by (auto simp: CreateUser_mem_def UpdateUser_mem_def)
    moreover have "names_apart (AList.update (uId (urUser r)) r (msUsers (usStore s)))"
      by (rule names_apart_put[OF a]) (use False in \<open>auto simp: clash_def\<close>)
    ultimately show ?thesis by simp
  qed
qed

lemma consume_local_users:
  "consume_local v now k u s = (b, s') \<Longrightarrow> usMirror s' = usMirror s \<and> msUsers (usStore s') = msUsers (usStore s)"
  by (auto simp: consume_local_def ConsumeInviteCode_mem_def Let_def split: option.splits if_splits)

lemma create_attempts_users:
  "usMirror s = None \<Longrightarrow> usMirror (snd (create_attempts v r k n s)) = None \<and> msUsers (usStore (snd (create_attempts v r k n s))) = msUsers (usStore s)"
  by (induction n arbitrary: k) (auto simp: Let_def CreateInviteCode_mem_def PutInviteCode_def split: option.split prod.split)

lemma registered_names:
  assumes "names_ok s" "auth_step v now (CRegister n e p code) s = (ok, s')"
  shows "usMirror s' = None \<and> names_apart (msUsers (usStore s'))"
proof -
  have m: "usMirror s = None" and a: "names_apart (msUsers (usStore s))" using assms(1) by (simp_all add: names_ok_def)
  have used: "usMirror s2 = None \<and> msUsers (usStore s2) = msUsers m"
    if "consumeInviteCode v now code k (s\<lparr>usStore := m\<rparr>) = (b, s2)" for k b s2 m
    using that m consume_local_users[of v now code k "s\<lparr>usStore := m\<rparr>"] by (auto simp: consumeInviteCode_def split: if_splits)
  show ?thesis using assms(2) m a names_users(3)[OF assms(1)]
    by (auto simp: RegisterUser_def Let_def mirrorCreateUser_def DeleteUser_def names_apart_delete
      split: prod.splits option.splits sum.splits if_splits dest!: used)
qed

lemma step_keeps_names:
  assumes "names_ok s" "\<forall>u. call \<noteq> CUpdate u"
  shows "names_ok (snd (auth_step v now call s))"
proof -
  have m: "usMirror s = None" and a: "names_apart (msUsers (usStore s))" and w: "wf_service s" using assms(1) by (simp_all add: names_ok_def)
  note n = no_mirror[OF m]
  have "usMirror (snd (auth_step v now call s)) = None \<and> names_apart (msUsers (usStore (snd (auth_step v now call s))))"
  proof (cases call)
    case (CRegister nm e p code)
    then show ?thesis using registered_names[OF assms(1), of v now nm e p code] by (cases "auth_step v now call s") simp
  next
    case (CCreate nm e p rl)
    then show ?thesis using names_users(3)[OF assms(1)] m a
      by (auto simp: CreateUser_def Let_def mirrorCreateUser_def split: prod.split option.split sum.split)
  next
    case (CInvite mx hm ex nv nt who rl)
    then show ?thesis using m a by (auto simp: CreateInviteCode_def create_attempts_users)
  next
    case (CChange k p q)
    then show ?thesis using m a names_users(2)[OF assms(1)]
      by (auto simp: ChangePassword_def n no_mirror store_password_def invalidateSessions_def UpdateUser_mem_def GetUser_def Let_def
        simp del: map_of_eq_Some_iff split: option.split sum.split)
  next
    case (CReset k)
    then show ?thesis using m a names_users(2)[OF assms(1)]
      by (auto simp: ResetPassword_def n no_mirror store_password_def invalidateSessions_def UpdateUser_mem_def GetUser_def Let_def
        simp del: map_of_eq_Some_iff split: option.split sum.split)
  qed (use assms(2) m a in \<open>auto simp: Login_def Logout_def RefreshToken_def GetCurrentUser_def GetUser_svc_def
      ValidatePermission_def GetUserPermissions_def RevokeInviteCode_def DeleteInviteCode_def UpdateInviteCode_def PutInviteCode_def
      DeleteInviteCode_mem_def n no_mirror Let_def split: option.split sum.split prod.split\<close>)
  then show ?thesis using step_keeps_wf[OF w] by (simp add: names_ok_def)
qed

interpretation named: account_law names_ok "\<lambda>call. \<forall>u. call \<noteq> CUpdate u"
  by unfold_locales (rule step_keeps_names)

text \<open>On one replica without a database no call but an update of a user lets two users share a name or an address.
  (With a database the rows of other replicas enter the maps too, about which nothing is said.)\<close>

theorem names_stay_unique:
  assumes "names_ok s" "\<forall>(v, now, call) \<in> set cs. \<forall>u. call \<noteq> CUpdate u"
  shows "names_ok (snd (auth_run cs s))"
  by (rule named.run[OF assms])

theorem names_stay_unique_witness: "names_ok (snd (auth_run demo_calls demo_accounts))"
proof (rule names_stay_unique)
  show "names_ok demo_accounts" by code_simp
qed (simp add: demo_calls_def)

text \<open>An update can give a user the name of another: it is done, and two users answer to one name.\<close>

theorem update_can_duplicate_name:
  assumes "usMirror s = None" "GetUser k1 (usStore s) = Some r1" "GetUser k2 (usStore s) = Some r2" "k1 \<noteq> k2"
    and "uId u = k2" "uName u = uName (urUser r1)" "uName u \<noteq> []" "UpdateUser v now u s = (res, s')"
  shows "res \<noteq> None \<and> (\<exists>q1 q2. GetUser k1 (usStore s') = Some q1 \<and> GetUser k2 (usStore s') = Some q2 \<and>
    uName (urUser q1) = uName (urUser q2))"
proof -
  have inv: "usStore (invalidateSessions v now u x) = usStore x" for u x by (simp add: invalidateSessions_def)
  show ?thesis using assms
    by (auto simp: UpdateUser_def no_mirror Let_def merged_user_def GetUser_def UpdateUser_mem_def store_simps inv
      split: if_splits)
qed

definition demo_two :: user_service where
  "demo_two = snd (auth_run (take 2 demo_calls) demo_accounts)"

lemma demo_two_users:
  "map (\<lambda>(k, r). (k, uId (urUser r), uName (urUser r))) (msUsers (usStore demo_two)) =
    [(''user-001'', ''user-001'', ''admin''), (''user-b'', ''user-b'', ''alice'')]" "usMirror demo_two = None"
  by code_simp+

definition demo_rename :: user where
  "demo_rename = \<lparr>uId = ''user-b'', uName = ''admin'', uEmail = [], uState = UsActive, uCreated = None, uRole = RoleViewer, uMust = False\<rparr>"

theorem update_can_duplicate_name_witness:
  "let (res, s') = UpdateUser (demo_auth [] ''x'') 0 demo_rename demo_two
   in res \<noteq> None \<and> (\<exists>q1 q2. GetUser ''user-001'' (usStore s') = Some q1 \<and> GetUser ''user-b'' (usStore s') = Some q2 \<and>
        uName (urUser q1) = uName (urUser q2))"
proof -
  obtain r1 r2 where r: "msUsers (usStore demo_two) = [(''user-001'', r1), (''user-b'', r2)]" "uName (urUser r1) = ''admin''"
    using demo_two_users(1) by (auto simp: map_eq_Cons_conv split: prod.splits)
  obtain res s' where c: "UpdateUser (demo_auth [] ''x'') 0 demo_rename demo_two = (res, s')"
    by (cases "UpdateUser (demo_auth [] ''x'') 0 demo_rename demo_two")
  show ?thesis unfolding c Let_def prod.case
    by (rule update_can_duplicate_name[of demo_two "''user-001''" r1 "''user-b''" r2, OF demo_two_users(2) _ _ _ _ _ _ c])
      (simp_all add: GetUser_def r demo_rename_def)
qed

section \<open>Permissions\<close>

text \<open>The permissions one membership gives.\<close>

definition member_perms :: "member \<Rightarrow> string list" where
  "member_perms b = (case map_of rolePermissions (mbRole b) of Some ps \<Rightarrow> ps | None \<Rightarrow> [])"

lemma permission_list:
  "p \<in> set (GetUserPermissionList u m) \<longleftrightarrow>
    (\<exists>b \<in> snd ` set (msMembers m). mbUser b = u \<and> p \<in> set (member_perms b)) \<or>
    (p = ''project:read'' \<and> (\<forall>b \<in> snd ` set (msMembers m). mbUser b = u \<longrightarrow> member_perms b = []))"
proof -
  let ?f = "\<lambda>b. if mbUser b = u then member_perms b else []"
  let ?bs = "map snd (msMembers m)"
  have one: "p \<in> set (concat (map ?f bs)) \<longleftrightarrow> (\<exists>b \<in> set bs. mbUser b = u \<and> p \<in> set (member_perms b))" for bs
    by (induction bs) auto
  have none: "concat (map ?f bs) = [] \<longleftrightarrow> (\<forall>b \<in> set bs. mbUser b = u \<longrightarrow> member_perms b = [])" for bs
    by (induction bs) auto
  have "p \<in> set (GetUserPermissionList u m) \<longleftrightarrow>
      (if concat (map ?f ?bs) = [] then p = ''project:read'' else p \<in> set (concat (map ?f ?bs)))"
    unfolding GetUserPermissionList_def Let_def member_perms_def by simp
  then show ?thesis unfolding one none set_map by auto
qed

text \<open>What a user may do does not depend on the resource: a permission check passes exactly when some membership of the
  user, in whatever project, carries the permission, or the permission is \<open>project:read\<close> and no membership carries any.\<close>

theorem permission_ignores_resource:
  "fst (fst (ValidatePermission v u resourceType resourceID action s)) \<longleftrightarrow>
    (let bs = filter (\<lambda>b. mbUser b = u) (map snd (msMembers (usStore (syncMembersForPermissions v u s))))
     in (\<exists>b \<in> set bs. resourceType @ '':'' @ action \<in> set (member_perms b)) \<or>
        (resourceType @ '':'' @ action = ''project:read'' \<and> (\<forall>b \<in> set bs. member_perms b = [])))"
  by (auto simp: ValidatePermission_def Let_def permission_list)

end
