(* ===== verification/AccountReplicas.thy ===== *)
theory AccountReplicas imports Main Prelude GoText ProjectStore Accounts AccountRules begin

text \<open>
  Several replicas of the user service over one database: what a call at one changes for the others. The epochs and the
  revoked tokens are read from the tables at start-up only, users and codes that are in memory are never read again.
\<close>

section \<open>Several replicas\<close>

text \<open>Replicas that share the database. A call is served by one of them.\<close>

record cluster =
  clReplicas :: "user_service list"
  clDb :: pg

definition replica :: "cluster \<Rightarrow> nat \<Rightarrow> user_service" where
  "replica cl i = (clReplicas cl ! i)\<lparr>usMirror := Some (clDb cl)\<rparr>"

definition at_replica :: "nat \<Rightarrow> auth_env \<Rightarrow> gotime \<Rightarrow> auth_call \<Rightarrow> cluster \<Rightarrow> bool \<times> cluster" where
  "at_replica i v now call cl =
    (let (ok, s) = auth_step v now call (replica cl i)
     in (ok, \<lparr>clReplicas = (clReplicas cl)[i := s], clDb = (case usMirror s of Some db \<Rightarrow> db | None \<Rightarrow> clDb cl)\<rparr>))"

fun cluster_run :: "(nat \<times> auth_env \<times> gotime \<times> auth_call) list \<Rightarrow> cluster \<Rightarrow> cluster" where
  "cluster_run [] cl = cl"
| "cluster_run ((i, v, now, call) # cs) cl = cluster_run cs (snd (at_replica i v now call cl))"

lemma cluster_run_other:
  assumes "\<forall>x \<in> set cs. fst x \<noteq> j"
  shows "\<exists>db. replica (cluster_run cs cl) j = (replica cl j)\<lparr>usMirror := Some db\<rparr>"
  using assms
proof (induction cs arbitrary: cl)
  case (Cons x cs)
  obtain i v now call where x: "x = (i, v, now, call)" by (cases x)
  have "\<exists>db. replica (snd (at_replica i v now call cl)) j = (replica cl j)\<lparr>usMirror := Some db\<rparr>"
    using Cons.prems x by (auto simp: replica_def at_replica_def Let_def split: prod.split)
  then obtain d1 where d1: "replica (snd (at_replica i v now call cl)) j = (replica cl j)\<lparr>usMirror := Some d1\<rparr>" by blast
  have "\<forall>x \<in> set cs. fst x \<noteq> j" using Cons.prems by simp
  from Cons.IH[OF this, of "snd (at_replica i v now call cl)"] obtain d2
    where d2: "replica (cluster_run cs (snd (at_replica i v now call cl))) j = (replica (snd (at_replica i v now call cl)) j)\<lparr>usMirror := Some d2\<rparr>"
    by blast
  have "replica (cluster_run (x # cs) cl) j = (replica cl j)\<lparr>usMirror := Some d2\<rparr>" unfolding x cluster_run.simps d2 d1 by simp
  then show ?case by blast
qed (auto simp: replica_def)

text \<open>A replica learns nothing of what others do: whatever calls other replicas serve, a log-out or a change of the password
  among them, a user it holds in memory logs in here with the password it holds, and a refresh token is judged as before.\<close>

theorem replica_learns_nothing:
  assumes "\<forall>x \<in> set cs. fst x \<noteq> j"
    and "aeParse v now tok = Inr c" "GetUser (clSub c) (usStore (replica cl j)) = Some r"
    and "GetUserByUsername username (usStore (replica cl j)) = Some q"
  shows "fst (RefreshToken v now tok (replica (cluster_run cs cl) j)) = fst (RefreshToken v now tok (replica cl j)) \<and>
    fst (Login v now username password (replica (cluster_run cs cl) j)) = fst (Login v now username password (replica cl j))"
proof -
  obtain db where db: "replica (cluster_run cs cl) j = (replica cl j)\<lparr>usMirror := Some db\<rparr>"
    using cluster_run_other[OF assms(1)] by blast
  have same: "sessionInvalidated u t ((replica cl j)\<lparr>usMirror := Some db\<rparr>) = sessionInvalidated u t (replica cl j)" for u t
    by (simp add: sessionInvalidated_def)
  show ?thesis using assms(2-4) unfolding db RefreshToken_def Login_def
    by (cases "clIat c") (simp_all add: userByIDWithFallback_def userByUsernameWithFallback_def same Let_def)
qed

text \<open>One code for one use, made at replica 1, used at replica 0, then at replica 1.\<close>

definition demo_cluster :: cluster where
  "demo_cluster = \<lparr>clReplicas = [demo_accounts, demo_accounts], clDb = demo_tables\<rparr>"

definition demo_spread :: "(nat \<times> auth_env \<times> gotime \<times> auth_call) list" where
  "demo_spread =
    [(1, demo_auth [] ''a'', from_unix 10, CInvite 1 True None False [] ''user-001'' RoleViewer),
     (0, demo_auth [] ''b'', from_unix 20, CRegister ''alice'' ''a@x.io'' ''passw0rd'' demo_code)]"

theorem replica_learns_nothing_witness:
  "let cl = cluster_run [(1, demo_auth [] ''x'', from_unix 200, CChange ''user-001'' ''secret12'' ''secret34'')] demo_cluster;
       v = demo_auth [(''tok'', demo_claims)] ''y''
   in fst (RefreshToken v (from_unix 300) ''tok'' (replica cl 0)) = fst (RefreshToken v (from_unix 300) ''tok'' (replica demo_cluster 0)) \<and>
      fst (Login v (from_unix 300) ''admin'' ''secret12'' (replica cl 0)) =
        fst (Login v (from_unix 300) ''admin'' ''secret12'' (replica demo_cluster 0)) \<and>
      \<not> isl (fst (Login v (from_unix 300) ''admin'' ''secret12'' (replica demo_cluster 0)))"
proof -
  have r: "GetUser (clSub demo_claims) (usStore (replica demo_cluster 0)) \<noteq> None"
      "GetUserByUsername ''admin'' (usStore (replica demo_cluster 0)) \<noteq> None"
      "\<not> isl (fst (Login (demo_auth [(''tok'', demo_claims)] ''y'') (from_unix 300) ''admin'' ''secret12'' (replica demo_cluster 0)))"
    by code_simp+
  have p: "aeParse (demo_auth [(''tok'', demo_claims)] ''y'') (from_unix 300) ''tok'' = Inr demo_claims" by code_simp
  show ?thesis using r replica_learns_nothing[OF _ p, of
      "[(1, demo_auth [] ''x'', from_unix 200, CChange ''user-001'' ''secret12'' ''secret34'')]" 0 demo_cluster _ "''admin''"]
    by (auto simp: Let_def)
qed

section \<open>A local copy and the table\<close>

text \<open>A copy of a code in a replica's memory outlives the table: when the table refuses the consumption because the code is
  used up, the replica consumes its own copy and the registration goes on.\<close>

theorem stale_copy_admits:
  assumes "usMirror s = Some db" "map_of (pgInvites db) code = Some row" "0 < inMax row" "inMax row \<le> inUsed row"
    and "map_of (msInvites (usStore s)) code = Some c" "InviteUsable c now" "code \<noteq> []"
  shows "fst (PG_ConsumeInviteCode up code u now db db) \<noteq> Some True \<and> fst (consumeInviteCode v now code u s)"
proof -
  have no: "\<not> InviteUsable row now" using assms(3,4) by (simp add: InviteUsable_def)
  show ?thesis using assms(1,2,5-7) no
    by (simp add: PG_ConsumeInviteCode_def consumeInviteCode_def consume_local_def ConsumeInviteCode_mem_def Let_def)
qed

theorem stale_copy_admits_witness:
  "let s = replica (cluster_run demo_spread demo_cluster) 1
   in fst (PG_ConsumeInviteCode True demo_code ''user-c'' (from_unix 30) (the (usMirror s)) (the (usMirror s))) \<noteq> Some True \<and>
      fst (consumeInviteCode (demo_auth [] ''c'') (from_unix 30) demo_code ''user-c'' s)"
proof -
  let ?s = "replica (cluster_run demo_spread demo_cluster) 1"
  have m: "usMirror ?s = Some (the (usMirror ?s))" by code_simp
  have t: "(case map_of (pgInvites (the (usMirror ?s))) demo_code of Some row \<Rightarrow> 0 < inMax row \<and> inMax row \<le> inUsed row | None \<Rightarrow> False)"
    by code_simp
  have c: "(case map_of (msInvites (usStore ?s)) demo_code of Some c \<Rightarrow> InviteUsable c (from_unix 30) | None \<Rightarrow> False)" by code_simp
  obtain row where row: "map_of (pgInvites (the (usMirror ?s))) demo_code = Some row" "0 < inMax row" "inMax row \<le> inUsed row"
    using t by (auto split: option.splits)
  obtain c where c: "map_of (msInvites (usStore ?s)) demo_code = Some c" "InviteUsable c (from_unix 30)" using c by (auto split: option.splits)
  show ?thesis unfolding Let_def by (rule stale_copy_admits[OF m row c]) (simp add: demo_code_def)
qed

text \<open>Both registrations with the code for one use are done.\<close>

lemma invite_oversold:
  "fst (at_replica 0 (demo_auth [] ''b'') (from_unix 20) (CRegister ''alice'' ''a@x.io'' ''passw0rd'' demo_code)
     (cluster_run (take 1 demo_spread) demo_cluster)) \<and>
   fst (at_replica 1 (demo_auth [] ''c'') (from_unix 30) (CRegister ''bobby'' ''b@x.io'' ''passw0rd'' demo_code)
     (cluster_run demo_spread demo_cluster)) \<and>
   map_option inMax (map_of (pgInvites (clDb (cluster_run demo_spread demo_cluster))) demo_code) = Some 1"
  by code_simp

end
