(* ===== verification/Projects.thy ===== *)
theory Projects imports Main Prelude GoText GraphState Idem TaskState ProjectStore Accounts begin

text \<open>
  Projects, their configuration, statistics and members (\<open>project-service/internal/service/project.go\<close>), and
  the RPC handlers of both services of a replica (\<open>internal/handler/project.go\<close>, \<open>handler/user.go\<close>).

  The two services share the maps and the mirror, so one record is the state of both; the handlers add the store of
  idempotency keys. Hashes of request bodies and the JSON of responses are arguments (\<open>wire\<close>). A check of a key and
  the save of its response are two steps with the call in between; a handler run alone is their composition.
\<close>

section \<open>Projects\<close>

definition new_project :: "auth_env \<Rightarrow> gotime \<Rightarrow> project \<Rightarrow> project" where
  "new_project v now p = p\<lparr>pjId := if pjId p = [] then ''proj-'' @ aeId v 0 else pjId p,
     pjCreated := if pjCreated p = None then Some now else pjCreated p\<rparr>"

definition Create :: "auth_env \<Rightarrow> gotime \<Rightarrow> project \<Rightarrow> user_service \<Rightarrow> project \<times> user_service" where
  "Create v now p s =
    (let q = new_project v now p; c = \<lparr>pcProject = pjId q, pcConfig = []\<rparr>;
         st = \<lparr>ptProject = pjId q, ptTasks = 0, ptFindings = 0, ptF1 = 0\<rparr>;
         s1 = on_store (UpsertProjectStats st \<circ> UpsertProjectConfig c \<circ> put_project q) s
     in (q, write_through (PG_UpsertProjectStats (aeUp v ''project-stats'') st)
              (write_through (PG_UpsertProjectConfig (aeUp v ''project-config'') c)
                (write_through (PG_UpsertProject (aeUp v ''project'') q) s1))))"

text \<open>Reading from the maps first, then from a table; what the table has is kept in the maps.\<close>

definition with_fallback ::
  "(project_store \<Rightarrow> 'a option) \<Rightarrow> (pg \<Rightarrow> 'a option option) \<Rightarrow> ('a \<Rightarrow> project_store \<Rightarrow> project_store) \<Rightarrow>
    user_service \<Rightarrow> 'a option \<times> user_service" where
  "with_fallback local remote keep s = (case local (usStore s) of
     Some x \<Rightarrow> (Some x, s)
   | None \<Rightarrow> (case usMirror s of
       None \<Rightarrow> (None, s)
     | Some db \<Rightarrow> (case remote db of Some (Some x) \<Rightarrow> (Some x, on_store (keep x) s) | _ \<Rightarrow> (None, s))))"

definition Get :: "auth_env \<Rightarrow> string \<Rightarrow> user_service \<Rightarrow> project option \<times> user_service" where
  "Get v k = with_fallback (\<lambda>m. map_of (msProjects m) k) (PG_GetProject (aeUp v ''project-fallback'') k) put_project"

definition Update :: "auth_env \<Rightarrow> project \<Rightarrow> user_service \<Rightarrow> project option \<times> user_service" where
  "Update v p s =
    (let (found, s1) = Get v (pjId p) s
     in if found = None then (None, s1)
        else (Some p, write_through (PG_UpsertProject (aeUp v ''project'') p) (on_store (put_project p) s1)))"

definition Delete :: "auth_env \<Rightarrow> string \<Rightarrow> user_service \<Rightarrow> bool \<times> user_service" where
  "Delete v k s =
    (let (found, s1) = Get v k s
     in if found = None then (False, s1)
        else (True, write_through (PG_DeleteProject (aeUp v ''project-delete'') k) (on_store (DeleteProject k) s1)))"

definition syncProjectsFromPG :: "auth_env \<Rightarrow> pg \<Rightarrow> user_service \<Rightarrow> user_service" where
  "syncProjectsFromPG v db s = (case PG_ListProjects (aeUp v ''projects-sync'') db of
     None \<Rightarrow> s
   | Some ps \<Rightarrow> on_store (fold (\<lambda>p m. if map_of (msProjects m) (pjId p) = None then put_project p m else m) ps) s)"

definition List :: "auth_env \<Rightarrow> user_service \<Rightarrow> project list \<times> user_service" where
  "List v s = (let s1 = (case usMirror s of None \<Rightarrow> s | Some db \<Rightarrow> syncProjectsFromPG v db s) in (ListProjects (usStore s1), s1))"

definition GetConfig :: "auth_env \<Rightarrow> string \<Rightarrow> user_service \<Rightarrow> project_config option \<times> user_service" where
  "GetConfig v k = with_fallback (\<lambda>m. map_of (msConfigs m) k) (PG_GetProjectConfig (aeUp v ''config-fallback'') k) UpsertProjectConfig"

definition UpdateConfig :: "auth_env \<Rightarrow> project_config \<Rightarrow> user_service \<Rightarrow> project_config \<times> user_service" where
  "UpdateConfig v c s = (c, write_through (PG_UpsertProjectConfig (aeUp v ''project-config'') c) (on_store (UpsertProjectConfig c) s))"

definition GetStats :: "auth_env \<Rightarrow> string \<Rightarrow> user_service \<Rightarrow> project_stats option \<times> user_service" where
  "GetStats v k = with_fallback (\<lambda>m. map_of (msStats m) k) (PG_GetProjectStats (aeUp v ''stats-fallback'') k) UpsertProjectStats"

definition AddMember_svc :: "auth_env \<Rightarrow> member \<Rightarrow> user_service \<Rightarrow> member \<times> user_service" where
  "AddMember_svc v b s = (b, write_through (PG_UpsertMember (aeUp v ''member'') b) (on_store (AddMember b) s))"

definition RemoveMember_svc :: "auth_env \<Rightarrow> string \<Rightarrow> string \<Rightarrow> user_service \<Rightarrow> user_service" where
  "RemoveMember_svc v p u s = write_through (PG_DeleteMember (aeUp v ''member-delete'') p u) (on_store (RemoveMember p u) s)"

definition ListMembers_svc :: "auth_env \<Rightarrow> string \<Rightarrow> user_service \<Rightarrow> member list \<times> user_service" where
  "ListMembers_svc v k s =
    (let s1 = (case usMirror s of
           None \<Rightarrow> s
         | Some db \<Rightarrow> (case PG_ListMembers (aeUp v ''members-sync'') k db of None \<Rightarrow> s | Some bs \<Rightarrow> on_store (fold AddMember bs) s))
     in (ListMembers k (usStore s1), s1))"

section \<open>Addresses of repositories\<close>

definition allowedRepoSchemes :: "string list" where
  "allowedRepoSchemes = [''http'', ''https'', ''ssh'', ''git'', ''file'']"

text \<open>The parts of \<open>net/url.Parse\<close> that decide the scheme. Whether an authority or a path after it is well formed is
  the argument \<open>rest_ok\<close>; no scheme is read from an address that is rejected.\<close>

definition ctl_byte :: "char \<Rightarrow> bool" where
  "ctl_byte c \<longleftrightarrow> byte c < 32 \<or> byte c = 127"

fun get_scheme :: "string \<Rightarrow> string \<Rightarrow> string \<Rightarrow> (string \<times> string) option" where
  "get_scheme whole seen [] = Some ([], whole)"
| "get_scheme whole seen (c # cs) =
    (if is_letter c then get_scheme whole (seen @ [c]) cs
     else if is_digit c \<or> c \<in> set ''+-.'' then (if seen = [] then Some ([], whole) else get_scheme whole (seen @ [c]) cs)
     else if c = CHR '':'' then (if seen = [] then None else Some (seen, cs))
     else Some ([], whole))"

definition lower_letter :: "char \<Rightarrow> char" where
  "lower_letter c = (if CHR ''A'' \<le> c \<and> c \<le> CHR ''Z'' then char_of (byte c + 32) else c)"

definition hex_byte :: "char \<Rightarrow> bool" where
  "hex_byte c \<longleftrightarrow> is_digit c \<or> (CHR ''a'' \<le> c \<and> c \<le> CHR ''f'') \<or> (CHR ''A'' \<le> c \<and> c \<le> CHR ''F'')"

fun escapes_ok :: "string \<Rightarrow> bool" where
  "escapes_ok [] \<longleftrightarrow> True"
| "escapes_ok (c # cs) \<longleftrightarrow>
    (if c = CHR ''%'' then length cs \<ge> 2 \<and> list_all hex_byte (take 2 cs) \<and> escapes_ok (drop 2 cs) else escapes_ok cs)"

definition before :: "char \<Rightarrow> string \<Rightarrow> string" where
  "before c s = takeWhile (\<lambda>x. x \<noteq> c) s"

definition url_scheme :: "(string \<Rightarrow> bool) \<Rightarrow> string \<Rightarrow> string option" where
  "url_scheme rest_ok raw =
    (let u = before (CHR ''#'') raw; frag = drop (Suc (length u)) raw
     in if list_ex ctl_byte u then None
        else case (if u = ''*'' then Some ([], ''/'') else get_scheme u [] u) of
          None \<Rightarrow> None
        | Some (sch, rest0) \<Rightarrow>
            (let rest = before (CHR ''?'') rest0; sch = map lower_letter sch;
                 parsed = (u = ''*'' \<or> (if \<not> prefix ''/'' rest
                    then sch \<noteq> [] \<or> (\<not> list_ex (\<lambda>c. c = CHR '':'') (before (CHR ''/'') rest) \<and> rest_ok rest)
                    else rest_ok rest))
             in if parsed \<and> escapes_ok frag then Some sch else None))"

definition validateRepoURL :: "(string \<Rightarrow> bool) \<Rightarrow> string \<Rightarrow> string \<Rightarrow> grpc_error option" where
  "validateRepoURL rest_ok repoURL branch =
    (if repoURL \<noteq> [] \<and> repoURL \<noteq> TrimSpace repoURL
     then Some (InvalidArgument, ''repo_url must not contain leading/trailing whitespace'')
     else if repoURL \<noteq> [] \<and> prefix ''-'' repoURL then Some (InvalidArgument, (''repo_url must not start with '' @ [CHR 0x27] @ ''-'' @ [CHR 0x27]))
     else case (if repoURL = [] then None else url_scheme rest_ok repoURL) of
       Some sch \<Rightarrow>
         if sch \<noteq> [] \<and> sch \<notin> set allowedRepoSchemes
         then Some (InvalidArgument, ''repo_url scheme '' @ go_quote sch @ '' not allowed (http/https/ssh/git/file)'')
         else if prefix ''-'' branch then Some (InvalidArgument, (''default_branch must not start with '' @ [CHR 0x27] @ ''-'' @ [CHR 0x27])) else None
     | None \<Rightarrow> if prefix ''-'' branch then Some (InvalidArgument, (''default_branch must not start with '' @ [CHR 0x27] @ ''-'' @ [CHR 0x27])) else None)"

section \<open>Lists\<close>

text \<open>A request for a page: its size and its cursor; an answer: the next cursor, whether there is more, and the total.\<close>

type_synonym page_request = "(int \<times> string) option"

type_synonym page_answer = "string \<times> bool \<times> int"

definition page_size :: "page_request \<Rightarrow> int" where
  "page_size pr = (case pr of Some (n, _) \<Rightarrow> if n > 0 then min n 100 else 20 | None \<Rightarrow> 20)"

text \<open>How a cursor is read: \<open>strconv.Atoi\<close>, or \<open>fmt.Sscanf\<close> with \<open>%d\<close>, which skips blanks and stops at
  the first byte that is no digit.\<close>

definition sscanf_d :: "string \<Rightarrow> int option" where
  "sscanf_d s =
    (let segs = rune_segs s; sp = takeWhile (is_space \<circ> fst) segs; body = concat (map snd (dropWhile (is_space \<circ> fst) segs));
         sign = takeWhile (\<lambda>c. c = CHR ''+'' \<or> c = CHR ''-'') (take 1 body);
         digits = takeWhile is_digit (drop (length sign) body)
     in if list_ex (\<lambda>(r, _). r = 10) sp then None else atoi (sign @ digits))"

definition cursor_offset :: "(string \<Rightarrow> int option) \<Rightarrow> page_request \<Rightarrow> nat option" where
  "cursor_offset read pr = (case pr of
     None \<Rightarrow> Some 0
   | Some (_, cur) \<Rightarrow> if cur = [] then Some 0 else (case read cur of Some n \<Rightarrow> if n < 0 then None else Some (nat n) | None \<Rightarrow> None))"

definition page_at :: "nat \<Rightarrow> int \<Rightarrow> 'a list \<Rightarrow> 'a list \<times> page_answer" where
  "page_at offset0 n xs =
    (let offset = min offset0 (length xs); stop = min (offset + nat n) (length xs); more = stop < length xs
     in (take (stop - offset) (drop offset xs), (if more then nat_digits stop else []), more, int32 (int (length xs))))"

definition paged :: "(string \<Rightarrow> int option) \<Rightarrow> page_request \<Rightarrow> 'a list \<Rightarrow> grpc_error + ('a list \<times> page_answer)" where
  "paged read pr xs = (case cursor_offset read pr of
     None \<Rightarrow> Inl (InvalidArgument, ''invalid cursor (03 '' @ utf8 [194, 167] @ ''5)'')
   | Some offset \<Rightarrow> Inr (page_at offset (page_size pr) xs))"

datatype filter_op = OpContains | OpEq | OpOther string

text \<open>The operator of the conditions is OR, or not; a condition is a field, an operator and a value.\<close>

type_synonym filter_request = "(bool \<times> (string \<times> filter_op \<times> string) list) option"

fun filter_op_String :: "filter_op \<Rightarrow> string" where
  "filter_op_String OpContains = ''FILTER_OPERATOR_CONTAINS''"
| "filter_op_String OpEq = ''FILTER_OPERATOR_EQ''"
| "filter_op_String (OpOther n) = n"

fun filter_conditions :: "(string \<times> filter_op \<times> string) list \<Rightarrow> string \<times> string \<Rightarrow> grpc_error + (string \<times> string)" where
  "filter_conditions [] r = Inr r"
| "filter_conditions ((fld, op, x) # cs) (nm, md) =
    (if fld = ''name'' \<and> op = OpContains then filter_conditions cs (x, md)
     else if fld = ''default_scan_mode'' \<and> op = OpEq then filter_conditions cs (nm, x)
     else Inl (InvalidArgument, ''unsupported filter (name CONTAINS / default_scan_mode EQ): '' @ fld @ '' '' @ filter_op_String op))"

definition projectFilterParams :: "filter_request \<Rightarrow> grpc_error + (string \<times> string)" where
  "projectFilterParams f = (case f of
     None \<Rightarrow> Inr ([], [])
   | Some (any_of, cs) \<Rightarrow> if any_of then Inl (InvalidArgument, ''filter operator OR unsupported (AND only)'') else filter_conditions cs ([], []))"

text \<open>The field and whether the order is ascending, if asked for.\<close>

type_synonym sort_request = "(string \<times> bool) option"

definition projectSortParams :: "sort_request \<Rightarrow> grpc_error + (string \<times> bool)" where
  "projectSortParams so = (case so of
     None \<Rightarrow> Inr (''created_at'', True)
   | Some (fld, ascending) \<Rightarrow>
       if fld = [] then Inr (''created_at'', True)
       else if fld = ''name'' \<or> fld = ''created_at'' then Inr (fld, \<not> ascending)
       else Inl (InvalidArgument, ''unsupported sort field: '' @ fld))"

fun scan_mode_String :: "scan_mode \<Rightarrow> string" where
  "scan_mode_String ModeUnspecified = ''SCAN_MODE_UNSPECIFIED''"
| "scan_mode_String SastOnly = ''SCAN_MODE_SAST_ONLY''"
| "scan_mode_String AiOnly = ''SCAN_MODE_AI_ONLY''"
| "scan_mode_String Parallel = ''SCAN_MODE_PARALLEL''"
| "scan_mode_String AiEnhancedSast = ''SCAN_MODE_AI_ENHANCED_SAST''"
| "scan_mode_String ModeCompare = ''SCAN_MODE_COMPARE''"
| "scan_mode_String TraditionalFirst = ''SCAN_MODE_TRADITIONAL_FIRST''"
| "scan_mode_String SastReview = ''SCAN_MODE_SAST_REVIEW''"

definition listed_before :: "string \<Rightarrow> bool \<Rightarrow> project \<Rightarrow> project \<Rightarrow> bool" where
  "listed_before field desc a b =
    (let lt = (if field = ''name'' then pjName a < pjName b else as_time (pjCreated a) < as_time (pjCreated b));
         gt = (if field = ''name'' then pjName b < pjName a else as_time (pjCreated b) < as_time (pjCreated a))
     in if lt then \<not> desc else if gt then desc else (pjId a < pjId b) = (\<not> desc))"

definition listed :: "filter_request \<Rightarrow> sort_request \<Rightarrow> project list \<Rightarrow> grpc_error + project list" where
  "listed f so all = (case projectFilterParams f of
     Inl e \<Rightarrow> Inl e
   | Inr (nm, md) \<Rightarrow> (case projectSortParams so of
       Inl e \<Rightarrow> Inl e
     | Inr (field, desc) \<Rightarrow> Inr (sort_slice (listed_before field desc)
         (filter (\<lambda>p. (nm = [] \<or> str_contains (pjName p) nm) \<and> (md = [] \<or> scan_mode_String (pjMode p) = md)) all))))"

definition ListProjects_rpc ::
  "auth_env \<Rightarrow> filter_request \<Rightarrow> sort_request \<Rightarrow> page_request \<Rightarrow> user_service \<Rightarrow>
    (grpc_error + (project list \<times> page_answer)) \<times> user_service" where
  "ListProjects_rpc v f so pr s =
    (let (all, s1) = List v s in (case listed f so all of Inl e \<Rightarrow> Inl e | Inr ps \<Rightarrow> paged atoi pr ps, s1))"

definition ListProjectMembers :: "auth_env \<Rightarrow> string \<Rightarrow> page_request \<Rightarrow> user_service \<Rightarrow> (grpc_error + (member list \<times> page_answer)) \<times> user_service" where
  "ListProjectMembers v k pr s = (let (bs, s1) = ListMembers_svc v k s in (paged atoi pr bs, s1))"

definition ListUsers_rpc :: "user_state \<Rightarrow> string \<Rightarrow> page_request \<Rightarrow> user_service \<Rightarrow> grpc_error + (user list \<times> page_answer)" where
  "ListUsers_rpc st nm pr s = paged sscanf_d pr (map urUser (ListUsers st nm s))"

definition ListInviteCodes_rpc ::
  "auth_env \<Rightarrow> gotime \<Rightarrow> bool \<Rightarrow> page_request \<Rightarrow> user_service \<Rightarrow> grpc_error + ((invite list \<times> page_answer) \<times> string list)" where
  "ListInviteCodes_rpc v now withTerminal pr s =
    (let (cs, config) = ListInviteCodes v now withTerminal s
     in case paged sscanf_d pr cs of Inl e \<Rightarrow> Inl e | Inr x \<Rightarrow> Inr (x, config))"

section \<open>Idempotent calls\<close>

record 'a codec =
  cdEnc :: "'a \<Rightarrow> string"
  cdDec :: "string \<Rightarrow> 'a option"

text \<open>Hashes of bodies, texts of times, and the JSON of responses.\<close>

record wire =
  wiBody :: "(string \<times> string) list \<Rightarrow> string"
  wiProjectBody :: "project \<Rightarrow> string"
  wiMemberBody :: "member \<Rightarrow> string"
  wiTime :: "gotime option \<Rightarrow> string"
  wiProject :: "project codec"
  wiMember :: "member codec"
  wiLogin :: "token_pair codec"
  wiUser :: "user codec"
  wiEmpty :: "unit codec"
  wiTemp :: "string codec"
  wiInvite :: "invite codec"

record project_server =
  srIdem :: "string proj_store"
  srSvc :: user_service

abbreviation with_svc :: "user_service \<Rightarrow> project_server \<Rightarrow> project_server" where
  "with_svc s h \<equiv> h\<lparr>srSvc := s\<rparr>"

text \<open>The request id, none without metadata; an error, a response to replay, or none: the call is to be made.\<close>

definition idem_begin :: "gotime \<Rightarrow> string option \<Rightarrow> string \<Rightarrow> 'a codec \<Rightarrow> project_server \<Rightarrow> (grpc_error + 'a) option \<times> project_server" where
  "idem_begin now rid body cd h = (case rid of
     None \<Rightarrow> (Some (Inl (InvalidArgument, ''metadata.request_id is required (03 '' @ utf8 [194, 167] @ ''2)'')), h)
   | Some k \<Rightarrow>
       if k = [] then (Some (Inl (InvalidArgument, ''metadata.request_id is required (03 '' @ utf8 [194, 167] @ ''2)'')), h)
       else (case idem_Check now k body (srIdem h) of
         ((_, Some err), i) \<Rightarrow> (Some (Inl (AlreadyExists, ''idempotency conflict: idempotency key '' @ err @ '' already used with a different body'')), h\<lparr>srIdem := i\<rparr>)
       | ((Some bytes, None), i) \<Rightarrow> (map_option Inr (cdDec cd bytes), h\<lparr>srIdem := i\<rparr>)
       | ((None, None), i) \<Rightarrow> (None, h\<lparr>srIdem := i\<rparr>)))"

definition idem_finish :: "gotime \<Rightarrow> string option \<Rightarrow> string \<Rightarrow> 'a codec \<Rightarrow> grpc_error + 'a \<Rightarrow> project_server \<Rightarrow> project_server" where
  "idem_finish now rid body cd res h = (case res of
     Inl _ \<Rightarrow> h | Inr x \<Rightarrow> h\<lparr>srIdem := idem_Save now (the rid) body (Some (cdEnc cd x)) (srIdem h)\<rparr>)"

definition withIdempotency ::
  "gotime \<Rightarrow> string option \<Rightarrow> string \<Rightarrow> 'a codec \<Rightarrow> (user_service \<Rightarrow> (grpc_error + 'a) \<times> user_service) \<Rightarrow> project_server \<Rightarrow>
    (grpc_error + 'a) \<times> project_server" where
  "withIdempotency now rid body cd exec h =
    (let (ans, h1) = idem_begin now rid body cd h
     in case ans of
          Some r \<Rightarrow> (r, h1)
        | None \<Rightarrow> (let (res, s) = exec (srSvc h1) in (res, idem_finish now rid body cd res (with_svc s h1))))"

section \<open>Handlers of projects\<close>

definition CreateProject ::
  "wire \<Rightarrow> (string \<Rightarrow> bool) \<Rightarrow> auth_env \<Rightarrow> gotime \<Rightarrow> string option \<Rightarrow> project option \<Rightarrow> project_server \<Rightarrow> (grpc_error + project) \<times> project_server" where
  "CreateProject w rest_ok v now rid req h = (case req of
     None \<Rightarrow> (Inl (InvalidArgument, (''project is required (wrapper shape: {'' @ [CHR 0x22] @ ''project'' @ [CHR 0x22] @ '':{'' @
        [CHR 0x22] @ ''name'' @ [CHR 0x22] @ '':...}})'')), h)
   | Some p \<Rightarrow>
       if TrimSpace (pjName p) = []
       then (Inl (InvalidArgument, (''project is required (wrapper shape: {'' @ [CHR 0x22] @ ''project'' @ [CHR 0x22] @ '':{'' @
          [CHR 0x22] @ ''name'' @ [CHR 0x22] @ '':...}})'')), h)
       else (case validateRepoURL rest_ok (pjRepo p) (pjBranch p) of
         Some err \<Rightarrow> (Inl err, h)
       | None \<Rightarrow> withIdempotency now rid (wiProjectBody w p) (wiProject w) (\<lambda>s. map_prod Inr id (Create v now p s)) h))"

definition on_svc :: "(user_service \<Rightarrow> 'a \<times> user_service) \<Rightarrow> project_server \<Rightarrow> 'a \<times> project_server" where
  "on_svc f h = (let (x, s) = f (srSvc h) in (x, with_svc s h))"

definition or_missing :: "string \<Rightarrow> 'a option \<times> 's \<Rightarrow> (grpc_error + 'a) \<times> 's" where
  "or_missing msg r = (case r of (None, s) \<Rightarrow> (Inl (NotFound, msg), s) | (Some x, s) \<Rightarrow> (Inr x, s))"

definition GetProject :: "auth_env \<Rightarrow> string \<Rightarrow> project_server \<Rightarrow> (grpc_error + project) \<times> project_server" where
  "GetProject v k h = or_missing (''project '' @ k @ '' not found'') (on_svc (Get v k) h)"

definition UpdateProject :: "(string \<Rightarrow> bool) \<Rightarrow> auth_env \<Rightarrow> project \<Rightarrow> project_server \<Rightarrow> (grpc_error + project) \<times> project_server" where
  "UpdateProject rest_ok v p h = (case validateRepoURL rest_ok (pjRepo p) (pjBranch p) of
     Some err \<Rightarrow> (Inl err, h)
   | None \<Rightarrow> or_missing (''project '' @ pjId p @ '' not found'') (on_svc (Update v p) h))"

definition DeleteProject_rpc :: "auth_env \<Rightarrow> string \<Rightarrow> project_server \<Rightarrow> (grpc_error + unit) \<times> project_server" where
  "DeleteProject_rpc v k h =
    (let (ok, h1) = on_svc (Delete v k) h in or_missing (''project '' @ k @ '' not found'') (if ok then Some () else None, h1))"

definition GetProjectConfig :: "auth_env \<Rightarrow> string \<Rightarrow> project_server \<Rightarrow> (grpc_error + project_config) \<times> project_server" where
  "GetProjectConfig v k h = or_missing (''config for project '' @ k @ '' not found'') (on_svc (GetConfig v k) h)"

definition UpdateProjectConfig :: "auth_env \<Rightarrow> project_config \<Rightarrow> project_server \<Rightarrow> (grpc_error + project_config) \<times> project_server" where
  "UpdateProjectConfig v c h =
    (let (found, h1) = on_svc (Get v (pcProject c)) h
     in if found = None then (Inl (NotFound, ''project '' @ pcProject c @ '' not found''), h1)
        else map_prod Inr id (on_svc (UpdateConfig v c) h1))"

definition GetProjectStats :: "auth_env \<Rightarrow> string \<Rightarrow> project_server \<Rightarrow> (grpc_error + project_stats) \<times> project_server" where
  "GetProjectStats v k h = or_missing (''stats for project '' @ k @ '' not found'') (on_svc (GetStats v k) h)"

definition AddProjectMember :: "wire \<Rightarrow> auth_env \<Rightarrow> gotime \<Rightarrow> string option \<Rightarrow> member \<Rightarrow> project_server \<Rightarrow> (grpc_error + member) \<times> project_server" where
  "AddProjectMember w v now rid b =
    withIdempotency now rid (wiMemberBody w b) (wiMember w) (\<lambda>s. map_prod Inr id (AddMember_svc v b s))"

definition RemoveProjectMember :: "auth_env \<Rightarrow> string \<Rightarrow> string \<Rightarrow> project_server \<Rightarrow> project_server" where
  "RemoveProjectMember v p u h = with_svc (RemoveMember_svc v p u (srSvc h)) h"

section \<open>Handlers of users\<close>

definition unauthenticated :: "string \<Rightarrow> string + 'a \<Rightarrow> grpc_error + 'a" where
  "unauthenticated msg r = (case r of Inl err \<Rightarrow> Inl (Unauthenticated, msg @ err) | Inr x \<Rightarrow> Inr x)"

definition Login_rpc :: "auth_env \<Rightarrow> gotime \<Rightarrow> string \<Rightarrow> string \<Rightarrow> project_server \<Rightarrow> (grpc_error + token_pair) \<times> project_server" where
  "Login_rpc v now n p h = map_prod (unauthenticated ''login failed: '') id (on_svc (Login v now n p) h)"

definition Logout_rpc :: "auth_env \<Rightarrow> gotime \<Rightarrow> string \<Rightarrow> project_server \<Rightarrow> (grpc_error + unit) \<times> project_server" where
  "Logout_rpc v now tok h =
    (if tok = [] then (Inl (InvalidArgument, ''access_token is required''), h) else (Inr (), with_svc (Logout v now tok (srSvc h)) h))"

definition RefreshToken_rpc :: "auth_env \<Rightarrow> gotime \<Rightarrow> string \<Rightarrow> project_server \<Rightarrow> (grpc_error + token_pair) \<times> project_server" where
  "RefreshToken_rpc v now tok h =
    (if tok = [] then (Inl (InvalidArgument, ''refresh_token is required''), h)
     else map_prod (unauthenticated ''refresh failed: '') id (on_svc (RefreshToken v now tok) h))"

definition GetCurrentUser_rpc :: "auth_env \<Rightarrow> gotime \<Rightarrow> string \<Rightarrow> project_server \<Rightarrow> (grpc_error + user) \<times> project_server" where
  "GetCurrentUser_rpc v now tok h =
    (if tok = [] then (Inl (InvalidArgument, ''access_token is required''), h)
     else map_prod (unauthenticated ''invalid token: '') id (on_svc (GetCurrentUser v now tok) h))"

definition GetUser_rpc :: "auth_env \<Rightarrow> string \<Rightarrow> project_server \<Rightarrow> (grpc_error + user) \<times> project_server" where
  "GetUser_rpc v k h = or_missing (''user '' @ k @ '' not found'') (on_svc (GetUser_svc v k) h)"

definition UpdateUser_rpc :: "auth_env \<Rightarrow> gotime \<Rightarrow> user \<Rightarrow> project_server \<Rightarrow> (grpc_error + user) \<times> project_server" where
  "UpdateUser_rpc v now u h = or_missing (''user '' @ uId u @ '' not found'') (on_svc (UpdateUser v now u) h)"

definition ValidatePermission_rpc :: "auth_env \<Rightarrow> string \<Rightarrow> string \<Rightarrow> string \<Rightarrow> string \<Rightarrow> project_server \<Rightarrow> (bool \<times> string) \<times> project_server" where
  "ValidatePermission_rpc v u t r a = on_svc (ValidatePermission v u t r a)"

definition GetUserPermissions_rpc :: "auth_env \<Rightarrow> string \<Rightarrow> project_server \<Rightarrow> string list \<times> project_server" where
  "GetUserPermissions_rpc v u = on_svc (GetUserPermissions v u)"

text \<open>A registration logs in.\<close>

definition register_and_login ::
  "auth_env \<Rightarrow> gotime \<Rightarrow> string \<Rightarrow> string \<Rightarrow> string \<Rightarrow> string \<Rightarrow> user_service \<Rightarrow> (grpc_error + token_pair) \<times> user_service" where
  "register_and_login v now n e p code s =
    (let (r, s1) = RegisterUser v now n e p code s
     in case r of
          Inl err \<Rightarrow> (Inl err, s1)
        | Inr u \<Rightarrow> (let (l, s2) = Login v now (uName u) p s1
            in (case l of Inl err \<Rightarrow> Inl (Internal, ''post-register login: '' @ err) | Inr t \<Rightarrow> Inr t, s2)))"

definition RegisterUser_rpc ::
  "wire \<Rightarrow> auth_env \<Rightarrow> gotime \<Rightarrow> string option \<Rightarrow> string \<Rightarrow> string \<Rightarrow> string \<Rightarrow> string \<Rightarrow> project_server \<Rightarrow>
    (grpc_error + token_pair) \<times> project_server" where
  "RegisterUser_rpc w v now rid n e p code =
    withIdempotency now rid (wiBody w [(''email'', e), (''invite_code'', code), (''password'', p), (''username'', n)]) (wiLogin w)
      (register_and_login v now n e p code)"

definition CreateUser_rpc ::
  "wire \<Rightarrow> auth_env \<Rightarrow> gotime \<Rightarrow> string option \<Rightarrow> string \<Rightarrow> string \<Rightarrow> string \<Rightarrow> role \<Rightarrow> project_server \<Rightarrow>
    (grpc_error + user) \<times> project_server" where
  "CreateUser_rpc w v now rid n e p rl =
    withIdempotency now rid (wiBody w [(''email'', e), (''password'', p), (''role'', role_String rl), (''username'', n)]) (wiUser w)
      (CreateUser v n e p rl)"

definition ChangePassword_rpc ::
  "wire \<Rightarrow> auth_env \<Rightarrow> gotime \<Rightarrow> string option \<Rightarrow> string \<Rightarrow> string \<Rightarrow> string \<Rightarrow> project_server \<Rightarrow> (grpc_error + unit) \<times> project_server" where
  "ChangePassword_rpc w v now rid u p q =
    withIdempotency now rid (wiBody w [(''new_password'', q), (''old_password'', p), (''user_id'', u)]) (wiEmpty w)
      (\<lambda>s. let (r, s1) = ChangePassword v now u p q s in (case r of Some err \<Rightarrow> Inl err | None \<Rightarrow> Inr (), s1))"

definition ResetPassword_rpc ::
  "wire \<Rightarrow> auth_env \<Rightarrow> gotime \<Rightarrow> string option \<Rightarrow> string \<Rightarrow> project_server \<Rightarrow> (grpc_error + string) \<times> project_server" where
  "ResetPassword_rpc w v now rid u = withIdempotency now rid (wiBody w [(''user_id'', u)]) (wiTemp w) (ResetPassword v now u)"

definition bool_text :: "bool \<Rightarrow> string" where
  "bool_text b = (if b then ''true'' else ''false'')"

definition CreateInviteCode_rpc ::
  "wire \<Rightarrow> auth_env \<Rightarrow> gotime \<Rightarrow> string option \<Rightarrow> int option \<Rightarrow> gotime option \<Rightarrow> bool \<Rightarrow> string \<Rightarrow> string \<Rightarrow> role \<Rightarrow> project_server \<Rightarrow>
    (grpc_error + invite) \<times> project_server" where
  "CreateInviteCode_rpc w v now rid mx ex never nte who rl =
    (let m = (case mx of None \<Rightarrow> 0 | Some n \<Rightarrow> n)
     in withIdempotency now rid
          (wiBody w [(''created_by'', who), (''expires_at'', wiTime w ex), (''has_max_uses'', bool_text (mx \<noteq> None)), (''max_uses'', int_digits m),
             (''never_expires'', bool_text never), (''note'', nte), (''role'', role_String rl)]) (wiInvite w)
          (CreateInviteCode v now m (mx \<noteq> None) ex never nte (if who = [] then ''admin'' else who) rl))"

definition RevokeInviteCode_rpc :: "wire \<Rightarrow> auth_env \<Rightarrow> gotime \<Rightarrow> string option \<Rightarrow> string \<Rightarrow> project_server \<Rightarrow> (grpc_error + invite) \<times> project_server" where
  "RevokeInviteCode_rpc w v now rid k = withIdempotency now rid (wiBody w [(''id'', k)]) (wiInvite w) (RevokeInviteCode v now k)"

definition DeleteInviteCode_rpc :: "wire \<Rightarrow> auth_env \<Rightarrow> gotime \<Rightarrow> string option \<Rightarrow> string \<Rightarrow> project_server \<Rightarrow> (grpc_error + unit) \<times> project_server" where
  "DeleteInviteCode_rpc w v now rid k = withIdempotency now rid (wiBody w [(''id'', k)]) (wiEmpty w) (DeleteInviteCode v now k)"

end
