(* ===== verification/ProjectRules.thy ===== *)
theory ProjectRules imports Main "HOL-Library.Multiset" Prelude GoText GraphState GraphInv Idem TaskState ProjectStore Accounts AccountRules Projects begin

text \<open>
  Rules of the project handlers: following the cursors of a list, what idempotency keys replay, the check of repository addresses,
  and what replicas and repeated creations do to projects.
\<close>

section \<open>Cursors\<close>

lemma atoi_nat_digits: "int k < 2 ^ 63 \<Longrightarrow> atoi (nat_digits k) = Some (int k)"
  by (rule atoi_digits) (simp_all add: nat_digits_all digits_val_nat_digits)

lemma digit_is_digit: "digit_val c \<noteq> None \<Longrightarrow> is_digit c"
  by (auto simp: digit_val_def is_digit_def Let_def less_eq_char_def split: if_splits)

lemma sscanf_nat_digits:
  assumes "int k < 2 ^ 63"
  shows "sscanf_d (nat_digits k) = Some (int k)"
proof -
  obtain c cs where s: "nat_digits k = c # cs" by (cases "nat_digits k") auto
  have d: "\<forall>x \<in> set (nat_digits k). is_digit x" using nat_digits_all digit_is_digit by blast
  have "digit_val c \<noteq> None" by (rule nat_digits_all[of c k]) (simp add: s)
  then have b: "48 \<le> (byte c :: nat)" "(byte c :: nat) \<le> 57" by (auto simp: digit_val_def Let_def split: if_splits)
  then have c: "\<not> is_space (byte c)" by (auto simp: is_space_def)
  have n: "c \<noteq> CHR ''+''" "c \<noteq> CHR ''-''" using b by auto
  have seg: "rune_segs (c # cs) = (byte c, [c]) # rune_segs cs" by (rule rune_segs_ascii) (use b in simp)
  have tw: "takeWhile is_digit cs = cs" "is_digit c" using d unfolding s by (auto simp: takeWhile_eq_all_conv)
  then show ?thesis using atoi_nat_digits[OF assms] c n
    by (simp add: sscanf_d_def Let_def seg rune_segs_concat s tw)
qed

text \<open>Asking for pages until there is no more, each with the cursor of the last.\<close>

fun walk :: "nat \<Rightarrow> (string \<Rightarrow> int option) \<Rightarrow> int \<Rightarrow> string \<Rightarrow> 'a list \<Rightarrow> 'a list option" where
  "walk 0 read n cur xs = None"
| "walk (Suc k) read n cur xs = (case paged read (Some (n, cur)) xs of
     Inl _ \<Rightarrow> None
   | Inr (ys, nxt, again, _) \<Rightarrow> if again then map_option ((@) ys) (walk k read n nxt xs) else Some ys)"

lemma page_size_pos: "0 < page_size pr"
  by (auto simp: page_size_def split: option.split)

lemma walk_from:
  assumes read: "\<And>j. j < length xs \<Longrightarrow> read (nat_digits j) = Some (int j)"
    and "cur = [] \<and> o0 = 0 \<or> cur = nat_digits o0 \<and> o0 < length xs" "length xs < o0 + k"
  shows "walk k read n cur xs = Some (drop o0 xs)"
  using assms(2,3)
proof (induction k arbitrary: cur o0)
  case (Suc k)
  let ?n = "nat (page_size (Some (n, cur)))"
  have n: "0 < ?n" using page_size_pos by simp
  have size: "page_size (Some (n, c)) = page_size (Some (n, cur))" for c by (simp add: page_size_def)
  have off: "cursor_offset read (Some (n, cur)) = Some o0" using Suc.prems(1) read by (auto simp: cursor_offset_def)
  have le: "o0 \<le> length xs" using Suc.prems(1) by auto
  show ?case
  proof (cases "o0 + ?n < length xs")
    case True
    have "walk k read n (nat_digits (o0 + ?n)) xs = Some (drop (o0 + ?n) xs)"
      by (rule Suc.IH) (use True Suc.prems(2) n in auto)
    moreover have "take ?n (drop o0 xs) @ drop (o0 + ?n) xs = drop o0 xs"
      by (metis add.commute append_take_drop_id drop_drop)
    ultimately show ?thesis using off le True by (simp add: paged_def page_at_def Let_def min_def)
  next
    case False
    then show ?thesis using off le by (simp add: paged_def page_at_def Let_def min_def)
  qed
qed (use assms in auto)

lemma walk_all:
  assumes "length xs < 2 ^ 63" "read = atoi \<or> read = sscanf_d" "length xs < k"
  shows "walk k read n [] xs = Some xs"
proof -
  have "walk k read n [] xs = Some (drop 0 xs)"
  proof (rule walk_from)
    fix j assume "j < length xs"
    then have "j < 2 ^ 63" using assms(1) by (rule less_trans)
    then have "int j < 2 ^ 63" by simp
    then show "read (nat_digits j) = Some (int j)" using assms(2) atoi_nat_digits sscanf_nat_digits by blast
  qed (use assms(3) in auto)
  then show ?thesis by simp
qed

section \<open>Listing\<close>

lemma insert_before_mset: "mset (insert_before lt x ys) = add_mset x (mset ys)"
  by (induction ys) auto

lemma sort_slice_mset: "mset (sort_slice lt xs) = mset xs"
  by (induction xs) (auto simp: sort_slice_def insert_before_mset)

text \<open>With an order that is transitive and decides every two elements that differ, the result is in order.\<close>

lemma insert_before_sorted:
  assumes "\<And>a b c. lt a b \<Longrightarrow> lt b c \<Longrightarrow> lt a c" "\<forall>y \<in> set ys. lt x y \<or> lt y x" "sorted_wrt lt ys"
  shows "sorted_wrt lt (insert_before lt x ys)"
  using assms(2,3)
proof (induction ys)
  case (Cons y ys)
  have s: "set (insert_before lt x zs) = insert x (set zs)" for zs by (induction zs) auto
  show ?case using Cons assms(1) by (auto simp: s)
qed simp

lemma sort_slice_sorted:
  assumes "\<And>a b c. lt a b \<Longrightarrow> lt b c \<Longrightarrow> lt a c" "\<And>a b. a \<in> set xs \<Longrightarrow> b \<in> set xs \<Longrightarrow> a \<noteq> b \<Longrightarrow> lt a b \<or> lt b a"
    and "distinct xs"
  shows "sorted_wrt lt (sort_slice lt xs)"
  using assms(2,3)
proof (induction xs)
  case (Cons x xs)
  have "set (sort_slice lt xs) = set xs" by (metis sort_slice_mset mset_eq_setD)
  moreover have "sorted_wrt lt (sort_slice lt xs)" using Cons by simp
  ultimately have "sorted_wrt lt (insert_before lt x (sort_slice lt xs))"
    using Cons.prems by (intro insert_before_sorted) (auto intro: assms(1))
  then show ?case by (simp add: sort_slice_def)
qed (simp add: sort_slice_def)

lemma listed_before_trans: "listed_before f d a b \<Longrightarrow> listed_before f d b c \<Longrightarrow> listed_before f d a c"
  by (cases d) (auto simp: listed_before_def Let_def split: if_splits)

lemma listed_before_total: "pjId a \<noteq> pjId b \<Longrightarrow> listed_before f d a b \<or> listed_before f d b a"
  by (cases d) (auto simp: listed_before_def Let_def)

lemma sync_present: "\<forall>p \<in> set ps. map_of (msProjects m) (pjId p) \<noteq> None \<Longrightarrow>
    fold (\<lambda>p m. if map_of (msProjects m) (pjId p) = None then put_project p m else m) ps m = m"
  by (induction ps) auto

lemma sync_makes_present:
  "map_of (msProjects m) k \<noteq> None \<or> k \<in> pjId ` set ps \<Longrightarrow>
    map_of (msProjects (fold (\<lambda>p m. if map_of (msProjects m) (pjId p) = None then put_project p m else m) ps m)) k \<noteq> None"
proof (induction ps arbitrary: m)
  case (Cons p ps)
  show ?case by (simp only: fold_simps) (rule Cons.IH, use Cons.prems in \<open>auto simp: put_project_def store_simps\<close>)
qed simp

lemma List_again: "List v (snd (List v s)) = List v s"
proof (cases "usMirror s")
  case (Some db)
  show ?thesis
  proof (cases "aeUp v ''projects-sync''")
    case True
    let ?f = "fold (\<lambda>p m. if map_of (msProjects m) (pjId p) = None then put_project p m else m) (map snd (pgProjects db))"
    have "?f (?f m) = ?f m" for m by (rule sync_present) (use sync_makes_present in blast)
    then show ?thesis using Some True by (simp add: List_def syncProjectsFromPG_def PG_ListProjects_def pg_read_def Let_def)
  qed (use Some in \<open>simp add: List_def syncProjectsFromPG_def PG_ListProjects_def pg_read_def Let_def\<close>)
qed (simp add: List_def Let_def)

text \<open>The projects a client sees that follows the cursors.\<close>

fun walk_projects ::
  "nat \<Rightarrow> auth_env \<Rightarrow> filter_request \<Rightarrow> sort_request \<Rightarrow> int \<Rightarrow> string \<Rightarrow> user_service \<Rightarrow> project list option" where
  "walk_projects 0 v f so n cur s = None"
| "walk_projects (Suc k) v f so n cur s = (case ListProjects_rpc v f so (Some (n, cur)) s of
     (Inl _, _) \<Rightarrow> None
   | (Inr (ps, nxt, again, _), s1) \<Rightarrow> if again then map_option ((@) ps) (walk_projects k v f so n nxt s1) else Some ps)"

lemma walk_projects_walk:
  assumes "listed f so (fst (List v s)) = Inr ps" "List v s' = List v s"
  shows "walk_projects k v f so n cur s' = walk k atoi n cur ps"
  using assms(2)
proof (induction k arbitrary: cur s')
  case (Suc k)
  have l: "ListProjects_rpc v f so (Some (n, c)) s' = (paged atoi (Some (n, c)) ps, snd (List v s))" for c
    using assms(1) Suc.prems by (simp add: ListProjects_rpc_def split_beta Let_def)
  have "List v (snd (List v s)) = List v s" by (rule List_again)
  from Suc.IH[OF this] show ?case by (auto simp: l split: sum.split prod.split)
qed simp

text \<open>C24. A client that follows the cursors of a project list, with pages of any size, sees every project the filter lets through
  exactly once, in the order asked for; as many pages as there are projects and one more are enough.\<close>

theorem paging_visits_every_project:
  assumes "projectFilterParams f = Inr (nm, md)" "projectSortParams so = Inr (field, desc)"
    and "ps = fst (List v s)" "distinct (map pjId ps)" "length ps < 2 ^ 31"
  shows "\<exists>qs. walk_projects (Suc (length ps)) v f so n [] s = Some qs \<and> sorted_wrt (listed_before field desc) qs \<and>
    mset qs = mset (filter (\<lambda>p. (nm = [] \<or> str_contains (pjName p) nm) \<and> (md = [] \<or> scan_mode_String (pjMode p) = md)) ps)"
proof -
  let ?fs = "filter (\<lambda>p. (nm = [] \<or> str_contains (pjName p) nm) \<and> (md = [] \<or> scan_mode_String (pjMode p) = md)) ps"
  let ?qs = "sort_slice (listed_before field desc) ?fs"
  have m: "mset ?qs = mset ?fs" by (rule sort_slice_mset)
  have d: "distinct ?fs" using assms(4) by (simp add: distinct_map)
  have "sorted_wrt (listed_before field desc) ?qs"
  proof (rule sort_slice_sorted[OF _ _ d])
    fix a b assume "a \<in> set ?fs" "b \<in> set ?fs" "a \<noteq> b"
    then have "pjId a \<noteq> pjId b" using assms(4) by (auto simp: distinct_map inj_on_def)
    then show "listed_before field desc a b \<or> listed_before field desc b a" by (rule listed_before_total)
  qed (rule listed_before_trans)
  moreover have w: "walk_projects (Suc (length ps)) v f so n [] s = walk (Suc (length ps)) atoi n [] ?qs"
    by (rule walk_projects_walk[OF _ refl]) (simp add: listed_def assms(1,2) assms(3)[symmetric])
  moreover have "walk (Suc (length ps)) atoi n [] ?qs = Some ?qs"
  proof (rule walk_all)
    have l: "length ?qs = length ?fs" by (rule mset_eq_length[OF m])
    have "length ?fs \<le> length ps" by (rule length_filter_le)
    then show "length ?qs < Suc (length ps)" using l by linarith
    then have "length ?qs \<le> length ps" by (rule Suc_leI[THEN Suc_le_mono[THEN iffD1]])
    then have "length ?qs < 2 ^ 31" using assms(5) by (rule le_less_trans)
    moreover have "(2 :: nat) ^ 31 < 2 ^ 63" by simp
    ultimately show "length ?qs < 2 ^ 63" by (rule less_trans)
  qed simp
  ultimately show ?thesis using m by (intro exI[of _ ?qs]) (simp only: simp_thms)
qed

definition demo_projects :: user_service where
  "demo_projects = snd (Create (demo_auth [] ''b'') 5 \<lparr>pjId = [], pjName = ''web'', pjRepo = [], pjBranch = [], pjMode = SastOnly, pjCreated = None, pjTeam = []\<rparr>
     (snd (Create (demo_auth [] ''a'') 3 \<lparr>pjId = [], pjName = ''app'', pjRepo = [], pjBranch = [], pjMode = AiOnly, pjCreated = None, pjTeam = []\<rparr>
       demo_accounts)))"

theorem paging_visits_every_project_witness:
  "\<exists>qs. walk_projects 3 (demo_auth [] ''c'') None None 1 [] demo_projects = Some qs \<and> sorted_wrt (listed_before ''created_at'' True) qs \<and>
    mset qs = mset (fst (List (demo_auth [] ''c'') demo_projects))"
proof -
  have l: "map pjId (fst (List (demo_auth [] ''c'') demo_projects)) = [''proj-a'', ''proj-b'']" by code_simp
  from arg_cong[OF l, of length] have "length (fst (List (demo_auth [] ''c'') demo_projects)) = 2" by simp
  then show ?thesis using paging_visits_every_project[of None "[]" "[]" None "''created_at''" True _ "demo_auth [] ''c''" demo_projects 1, OF _ _ refl] l
    by (simp add: projectFilterParams_def projectSortParams_def numeral_3_eq_3)
qed

section \<open>Addresses\<close>

text \<open>A control byte anywhere before the fragment of a repository address switches the check of its scheme off: the address is
  accepted although \<open>ext\<close> is not an allowed scheme.\<close>

theorem control_byte_skips_scheme_check:
  assumes "list_ex ctl_byte (before (CHR ''#'') url)" "TrimSpace url = url" "\<not> prefix ''-'' url" "\<not> prefix ''-'' branch"
  shows "validateRepoURL rest_ok url branch = None"
  using assms by (simp add: validateRepoURL_def url_scheme_def)

theorem control_byte_skips_scheme_check_witness:
  "validateRepoURL (\<lambda>rest. True) (''ext::sh'' @ [CHR 0x09, CHR ''x'']) ''main'' = None \<and>
   validateRepoURL (\<lambda>rest. True) ''ext::sh x'' ''main'' \<noteq> None"
proof -
  have "validateRepoURL (\<lambda>rest. True) (''ext::sh'' @ [CHR 0x09, CHR ''x'']) ''main'' = None"
  proof (rule control_byte_skips_scheme_check)
    show "list_ex ctl_byte (before (CHR ''#'') (''ext::sh'' @ [CHR 0x09, CHR ''x'']))" by (simp add: before_def ctl_byte_def)
    show "TrimSpace (''ext::sh'' @ [CHR 0x09, CHR ''x'']) = ''ext::sh'' @ [CHR 0x09, CHR ''x'']"
      by (simp add: TrimSpace_def rune_segs_ascii is_space_def)
  qed simp_all
  moreover have "validateRepoURL (\<lambda>rest. True) ''ext::sh x'' ''main'' \<noteq> None"
    by (simp add: validateRepoURL_def TrimSpace_def rune_segs_ascii is_space_def url_scheme_def before_def ctl_byte_def
      is_letter_def is_digit_def less_eq_char_def lower_letter_def allowedRepoSchemes_def Let_def)
  ultimately show ?thesis ..
qed

section \<open>Replays\<close>

lemma begin_new_saves:
  assumes "idem_begin now rid body cd h = (None, h1)"
  shows "\<exists>k. rid = Some k \<and> k \<noteq> [] \<and> srSvc h1 = srSvc h"
  using assms by (auto simp: idem_begin_def split: option.splits prod.splits if_splits)

lemma begin_after_save:
  assumes "proj_inv i" "k \<noteq> []" "srIdem h = idem_Save t k body (Some bytes) i" "now - t \<le> dedupWindow" "cdDec cd bytes = Some y"
  shows "idem_begin now (Some k) body cd h = (Some (Inr y), h)"
proof -
  have "fst (proj_chk now k body (srIdem h)) = IdemReplay bytes"
    using proj.replay_at_once[OF assms(1) _ assms(4), where k = k and h' = body and v = bytes and h = body] maxEntries_pos assms(3) by simp
  then have c: "idem_Check now k body (srIdem h) = ((Some bytes, None), srIdem h)"
    by (auto simp: proj_chk_def proj_answer_def idem_Check_def split: option.splits prod.splits if_splits)
  show ?thesis using assms(2,5) by (simp add: idem_begin_def c)
qed

lemma begin_inv:
  assumes "proj_inv (srIdem h)" "idem_begin now rid body cd h = (ans, h1)"
  shows "proj_inv (srIdem h1)"
proof -
  have "proj_inv (snd (idem_Check now k body (srIdem h)))" for k
    using proj.inv_chk[OF assms(1), of now k body] by (auto simp: proj_chk_def proj_answer_def split: prod.splits option.splits)
  moreover have "idem_Check now k body (srIdem h) = (r, i) \<Longrightarrow> proj_inv i" for k r i using calculation[of k] by simp
  ultimately show ?thesis using assms by (auto simp: idem_begin_def split: option.splits prod.splits if_splits)
qed

text \<open>Within the window a call with the key and the body of one that succeeded is answered from its response, whatever it was to do.\<close>

lemma repeated_call_changes_nothing:
  assumes "proj_inv (srIdem h)" "withIdempotency now rid body cd exec h = (Inr x, h1)" "fst (idem_begin now rid body cd h) = None"
    and "now2 - now \<le> dedupWindow" "cdDec cd2 (cdEnc cd x) = Some y"
  shows "withIdempotency now2 rid body cd2 exec2 h1 = (Inr y, h1)"
proof -
  obtain h0 where b: "idem_begin now rid body cd h = (None, h0)" using assms(3) by (cases "idem_begin now rid body cd h") simp
  obtain k where k: "rid = Some k" "k \<noteq> []" using begin_new_saves[OF b] by auto
  have i: "proj_inv (srIdem h0)" by (rule begin_inv[OF assms(1) b])
  have "srIdem h1 = idem_Save now k body (Some (cdEnc cd x)) (srIdem h0)"
    using assms(2) b k(1) by (auto simp: withIdempotency_def idem_finish_def Let_def split: prod.splits sum.splits)
  from begin_after_save[OF i k(2) this assms(4,5)] show ?thesis by (simp add: withIdempotency_def k(1))
qed

text \<open>A request id counts for all calls with the same body: a deletion of an invitation code with the request id that revoked it
  is answered as done, and nothing is deleted.\<close>

theorem delete_replays_revoke:
  assumes "proj_inv (srIdem h)" "fst (idem_begin now rid (wiBody w [(''id'', k)]) (wiInvite w) h) = None"
    and "RevokeInviteCode_rpc w v now rid k h = (Inr c, h1)" "now2 - now \<le> dedupWindow" "cdDec (wiEmpty w) (cdEnc (wiInvite w) c) = Some ()"
  shows "DeleteInviteCode_rpc w v2 now2 rid k h1 = (Inr (), h1)"
  using repeated_call_changes_nothing[OF assms(1) assms(3)[unfolded RevokeInviteCode_rpc_def] assms(2,4,5)]
  by (simp add: DeleteInviteCode_rpc_def)

text \<open>Objects are read as empty whatever they hold.\<close>

definition demo_wire :: wire where
  "demo_wire = \<lparr>wiBody = concat \<circ> map (\<lambda>(k, x). k @ ''='' @ x), wiProjectBody = pjName, wiMemberBody = mbUser, wiTime = (\<lambda>t. []),
     wiProject = \<lparr>cdEnc = pjName, cdDec = (\<lambda>s. None)\<rparr>, wiMember = \<lparr>cdEnc = mbUser, cdDec = (\<lambda>s. None)\<rparr>,
     wiLogin = \<lparr>cdEnc = tpAccess, cdDec = (\<lambda>s. None)\<rparr>, wiUser = \<lparr>cdEnc = uName, cdDec = (\<lambda>s. None)\<rparr>,
     wiEmpty = \<lparr>cdEnc = (\<lambda>u. ''{}''), cdDec = (\<lambda>s. Some ())\<rparr>, wiTemp = \<lparr>cdEnc = id, cdDec = Some\<rparr>, wiInvite = \<lparr>cdEnc = inCode, cdDec = (\<lambda>s. None)\<rparr>\<rparr>"

definition demo_server :: project_server where
  "demo_server = \<lparr>srIdem = new_proj_store, srSvc = snd (auth_run (take 1 demo_calls) demo_accounts)\<rparr>"

theorem delete_replays_revoke_witness:
  "let h1 = snd (RevokeInviteCode_rpc demo_wire (demo_auth [] ''x'') 7 (Some ''r'') ''invite-a'' demo_server)
   in DeleteInviteCode_rpc demo_wire (demo_auth [] ''x'') 8 (Some ''r'') ''invite-a'' h1 = (Inr (), h1) \<and>
      msInvites (usStore (srSvc h1)) \<noteq> []"
proof -
  let ?r = "RevokeInviteCode_rpc demo_wire (demo_auth [] ''x'') 7 (Some ''r'') ''invite-a'' demo_server"
  have ok: "\<not> isl (fst ?r)" and left: "msInvites (usStore (srSvc (snd ?r))) \<noteq> []" by code_simp+
  obtain c h1 where r: "?r = (Inr c, h1)" using ok by (cases ?r; cases "fst ?r") auto
  have i: "proj_inv (srIdem demo_server)"
    by (simp add: demo_server_def new_proj_store_def proj_inv_def fifo_inv_def proj_fifo_def)
  have "DeleteInviteCode_rpc demo_wire (demo_auth [] ''x'') 8 (Some ''r'') ''invite-a'' h1 = (Inr (), h1)"
    by (rule delete_replays_revoke[OF i _ r])
      (simp_all add: idem_begin_def idem_Check_def demo_server_def new_proj_store_def demo_wire_def dedupWindow_def ns_hour_def ns_minute_def ns_second_def)
  then show ?thesis using left by (simp add: r)
qed

section \<open>Created again, deleted elsewhere\<close>

text \<open>A creation with the id of a project that is there replaces it and empties its configuration.\<close>

lemma create_overwrites_existing:
  assumes "pjId p \<noteq> []" "map_of (msProjects (usStore s)) (pjId p) = Some q"
  shows "fst (GetConfig v (pjId p) (snd (Create v now p s))) = Some \<lparr>pcProject = pjId p, pcConfig = []\<rparr> \<and>
    fst (Get v (pjId p) (snd (Create v now p s))) = Some (new_project v now p)"
proof -
  have e: "usStore (write_through f x) = usStore x" for f x by (rule epochs_frame)
  show ?thesis using assms(1)
    by (simp add: Create_def GetConfig_def Get_def with_fallback_def Let_def e new_project_def put_project_def
      UpsertProjectConfig_def UpsertProjectStats_def store_simps)
qed

lemma sync_keeps: "map_of (msProjects m) k = Some q \<Longrightarrow>
    map_of (msProjects (fold (\<lambda>p m. if map_of (msProjects m) (pjId p) = None then put_project p m else m) ps m)) k = Some q"
proof (induction ps arbitrary: m)
  case (Cons p ps)
  show ?case by (simp only: fold_simps) (rule Cons.IH, use Cons.prems in \<open>auto simp: put_project_def store_simps simp del: map_of_eq_Some_iff\<close>)
qed simp

text \<open>A project that one replica deletes stays with every replica that has it in memory: it is returned and listed there, and an
  update there puts it back into the table.\<close>

theorem deleted_project_lives_on:
  assumes "usMirror s = Some db" "Delete v k s = (True, s1)" "usMirror s1 = Some db1"
    and "map_of (msProjects (usStore s2)) k = Some p" "pjId p = k" "aeUp v2 ''project''"
  shows "fst (Get v2 k (s2\<lparr>usMirror := Some db1\<rparr>)) = Some p \<and> p \<in> set (fst (List v2 (s2\<lparr>usMirror := Some db1\<rparr>))) \<and>
    map_option (\<lambda>d. map_of (pgProjects d) k) (usMirror (snd (Update v2 p (s2\<lparr>usMirror := Some db1\<rparr>)))) = Some (Some p)"
proof (intro conjI)
  let ?s = "s2\<lparr>usMirror := Some db1\<rparr>"
  show g: "fst (Get v2 k ?s) = Some p" using assms(4) by (simp add: Get_def with_fallback_def)
  have "map_of (msProjects (usStore (snd (List v2 ?s)))) k = Some p"
    using assms(4) sync_keeps[OF assms(4)] by (auto simp: List_def syncProjectsFromPG_def Let_def split: option.split)
  then have "p \<in> set (map snd (msProjects (usStore (snd (List v2 ?s)))))" by (force dest: map_of_SomeD)
  moreover have "set (sort_slice lt xs) = set xs" for lt :: "project \<Rightarrow> project \<Rightarrow> bool" and xs by (metis sort_slice_mset mset_eq_setD)
  ultimately show "p \<in> set (fst (List v2 ?s))" by (simp add: List_def ListProjects_def Let_def)
  show "map_option (\<lambda>d. map_of (pgProjects d) k) (usMirror (snd (Update v2 p ?s))) = Some (Some p)"
    using assms(4-6) by (simp add: Update_def Get_def with_fallback_def Let_def write_through_def PG_UpsertProject_def pg_write_def store_simps)
qed

definition demo_shared :: user_service where
  "demo_shared = snd (Create (demo_auth [] ''a'') 3
     \<lparr>pjId = [], pjName = ''app'', pjRepo = [], pjBranch = [], pjMode = AiOnly, pjCreated = None, pjTeam = []\<rparr>
     (demo_accounts\<lparr>usMirror := Some demo_tables\<rparr>))"

theorem deleted_project_lives_on_witness:
  "let v = demo_auth [] ''b''; s1 = snd (Delete v ''proj-a'' demo_shared); s2 = demo_shared\<lparr>usMirror := usMirror s1\<rparr>
   in map_option pgProjects (usMirror s1) = Some [] \<and> (\<exists>p. fst (Get v ''proj-a'' s2) = Some p \<and> p \<in> set (fst (List v s2)) \<and>
        map_option (\<lambda>d. map_of (pgProjects d) ''proj-a'') (usMirror (snd (Update v p s2))) = Some (Some p))"
proof -
  let ?v = "demo_auth [] ''b''" and ?s = demo_shared
  have e: "fst (Delete ?v ''proj-a'' ?s)" "map_option pgProjects (usMirror (snd (Delete ?v ''proj-a'' ?s))) = Some []"
    "usMirror ?s \<noteq> None" "map (\<lambda>(k, p). (k, pjId p)) (msProjects (usStore ?s)) = [(''proj-a'', ''proj-a'')]" "aeUp ?v ''project''"
    by code_simp+
  obtain db where db: "usMirror ?s = Some db" using e(3) by auto
  obtain db1 where db1: "usMirror (snd (Delete ?v ''proj-a'' ?s)) = Some db1" using e(2) by auto
  obtain p where p: "msProjects (usStore ?s) = [(''proj-a'', p)]" "pjId p = ''proj-a''"
    using e(4) by (auto simp: map_eq_Cons_conv split: prod.splits)
  have d: "Delete ?v ''proj-a'' ?s = (True, snd (Delete ?v ''proj-a'' ?s))" using e(1) by (cases "Delete ?v ''proj-a'' ?s") simp
  have "map_of (msProjects (usStore ?s)) ''proj-a'' = Some p" by (simp add: p(1))
  from deleted_project_lives_on[OF db d db1 this p(2) e(5)] show ?thesis unfolding Let_def db1 using e(2)[unfolded db1] by blast
qed

end
