(* ===== verification/ResultStore.thy ===== *)
theory ResultStore imports Main Prelude GoText Findings begin

text \<open>
  Where the result service keeps findings and feedback (\<open>result-service/internal/model\<close>,
  \<open>internal/repository\<close>): the interface both stores have, as a record of its operations
  (\<open>finding_repo\<close>), the store in memory, and the tables.

  A statement on the database fails or is done; whether it fails is an argument, beside what the columns do not take.
  Bytes order the ids of a table. Letters outside ASCII are their own upper and lower case. An entry of the insertion order
  is always in the map (\<open>mem_ok\<close>), so a range over the order meets no missing entry.
\<close>

section \<open>Model\<close>

record stored_finding =
  fdId :: string
  fdTask :: string
  fdTool :: string
  fdRule :: string
  fdCwe :: string
  fdTitle :: string
  fdSeverity :: string
  fdMessage :: string
  fdFile :: string
  fdLine :: int
  fdRaw :: string
  fdDirection :: string
  fdTier :: string
  fdReasoning :: string
  fdFix :: string
  fdPatch :: string
  fdGroup :: string
  fdMatched :: string
  fdUnique :: bool
  fdCreated :: gotime
  fdUpdated :: gotime
  fdRequest :: string
  fdInherited :: string

record feedback =
  fbId :: string
  fbFinding :: string
  fbType :: string
  fbComment :: string
  fbCreated :: gotime
  fbRequest :: string

record result_stats =
  rsTask :: string
  rsTotal :: int
  rsSeverity :: "(string \<times> int) list"
  rsCwe :: "(string \<times> int) list"
  rsVerdict :: "(string \<times> int) list"

text \<open>The filter of a list: task, direction, tier; an empty string does not filter.\<close>

type_synonym finding_filter = "string \<times> string \<times> string"

record 's finding_repo =
  frCreate :: "gotime \<Rightarrow> stored_finding \<Rightarrow> 's \<Rightarrow> string option \<times> 's"
  frGet :: "string \<Rightarrow> 's \<Rightarrow> string + stored_finding"
  frUpdate :: "gotime \<Rightarrow> stored_finding \<Rightarrow> 's \<Rightarrow> string option \<times> 's"
  frDelete :: "string \<Rightarrow> 's \<Rightarrow> string option \<times> 's"
  frList :: "string \<Rightarrow> nat \<Rightarrow> finding_filter \<Rightarrow> 's \<Rightarrow> string + (stored_finding list \<times> string)"
  frCount :: "finding_filter \<Rightarrow> 's \<Rightarrow> string + nat"
  frByRequest :: "string \<Rightarrow> string \<Rightarrow> 's \<Rightarrow> stored_finding option"
  frStats :: "string \<Rightarrow> 's \<Rightarrow> string + result_stats"
  frAddFeedback :: "feedback \<Rightarrow> 's \<Rightarrow> string option \<times> 's"
  frFeedback :: "string \<Rightarrow> 's \<Rightarrow> feedback option"

text \<open>A page of at most \<open>n\<close> of the rows that are left, one more having been looked for, and the cursor of the next.\<close>

definition page_of :: "nat \<Rightarrow> stored_finding list \<Rightarrow> stored_finding list \<times> string" where
  "page_of n rows = (let out = take (n + 1) rows in if length out > n then (take n out, fdId (out ! (n - 1))) else (out, []))"

section \<open>In memory\<close>

record mem_repo =
  mrFindings :: "(string \<times> stored_finding) list"
  mrFeedbacks :: "(string \<times> feedback) list"
  mrOrder :: "string list"

definition NewMemoryFindingRepository :: mem_repo where
  "NewMemoryFindingRepository = \<lparr>mrFindings = [], mrFeedbacks = [], mrOrder = []\<rparr>"

definition mem_Create :: "gotime \<Rightarrow> stored_finding \<Rightarrow> mem_repo \<Rightarrow> string option \<times> mem_repo" where
  "mem_Create now f s =
    (if map_of (mrFindings s) (fdId f) \<noteq> None then (None, s)
     else (None, s\<lparr>mrFindings := AList.update (fdId f)
         (f\<lparr>fdCreated := if fdCreated f = zero_time then now else fdCreated f, fdUpdated := now\<rparr>) (mrFindings s),
       mrOrder := mrOrder s @ [fdId f]\<rparr>))"

definition mem_GetByID :: "string \<Rightarrow> mem_repo \<Rightarrow> string + stored_finding" where
  "mem_GetByID k s = (case map_of (mrFindings s) k of None \<Rightarrow> Inl (''finding '' @ k @ '' not found'') | Some f \<Rightarrow> Inr f)"

definition mem_Update :: "gotime \<Rightarrow> stored_finding \<Rightarrow> mem_repo \<Rightarrow> string option \<times> mem_repo" where
  "mem_Update now f s =
    (if map_of (mrFindings s) (fdId f) = None then (Some (''finding '' @ fdId f @ '' not found''), s)
     else (None, s\<lparr>mrFindings := AList.update (fdId f) (f\<lparr>fdUpdated := now\<rparr>) (mrFindings s)\<rparr>))"

definition mem_Delete :: "string \<Rightarrow> mem_repo \<Rightarrow> string option \<times> mem_repo" where
  "mem_Delete k s =
    (if map_of (mrFindings s) k = None then (Some (''finding '' @ k @ '' not found''), s)
     else (None, s\<lparr>mrFindings := AList.delete k (mrFindings s), mrOrder := remove1 k (mrOrder s)\<rparr>))"

text \<open>\<open>strings.EqualFold\<close> and \<open>strings.ToUpper\<close>.\<close>

definition lower_ascii :: "char \<Rightarrow> char" where
  "lower_ascii c = (if CHR ''A'' \<le> c \<and> c \<le> CHR ''Z'' then char_of ((of_char c :: nat) + 32) else c)"

definition upper_ascii :: "char \<Rightarrow> char" where
  "upper_ascii c = (if CHR ''a'' \<le> c \<and> c \<le> CHR ''z'' then char_of ((of_char c :: nat) - 32) else c)"

definition equal_fold :: "string \<Rightarrow> string \<Rightarrow> bool" where
  "equal_fold a b \<longleftrightarrow> map lower_ascii a = map lower_ascii b"

definition mem_matches :: "finding_filter \<Rightarrow> stored_finding \<Rightarrow> bool" where
  "mem_matches q f = (case q of (task, dir, tier) \<Rightarrow>
     (task = [] \<or> fdTask f = task) \<and> (dir = [] \<or> equal_fold (fdDirection f) dir) \<and> (tier = [] \<or> equal_fold (fdTier f) tier))"

text \<open>The entries of an order, and the part of an order after an id that is in it.\<close>

definition entries :: "mem_repo \<Rightarrow> string list \<Rightarrow> stored_finding list" where
  "entries s ids = List.map_filter (map_of (mrFindings s)) ids"

definition order_after :: "string \<Rightarrow> string list \<Rightarrow> string list option" where
  "order_after k ids = (if k = [] then Some ids else case dropWhile (\<lambda>x. x \<noteq> k) ids of [] \<Rightarrow> None | _ # rest \<Rightarrow> Some rest)"

definition mem_List :: "string \<Rightarrow> nat \<Rightarrow> finding_filter \<Rightarrow> mem_repo \<Rightarrow> string + (stored_finding list \<times> string)" where
  "mem_List lastID n q s = (case order_after lastID (mrOrder s) of
     None \<Rightarrow> Inr ([], []) | Some ids \<Rightarrow> Inr (page_of n (filter (mem_matches q) (entries s ids))))"

definition mem_Count :: "finding_filter \<Rightarrow> mem_repo \<Rightarrow> string + nat" where
  "mem_Count q s = Inr (length (filter (mem_matches q) (entries s (mrOrder s))))"

definition mem_GetByRequestIDAndFindingID :: "string \<Rightarrow> string \<Rightarrow> mem_repo \<Rightarrow> stored_finding option" where
  "mem_GetByRequestIDAndFindingID rid k s = find (\<lambda>f. fdRequest f = rid \<and> fdId f = k) (entries s (mrOrder s))"

text \<open>One more in a counter of a map of \<open>int32\<close>.\<close>

definition count_up :: "string \<Rightarrow> (string \<times> int) list \<Rightarrow> (string \<times> int) list" where
  "count_up k m = AList.update k (int32 ((case map_of m k of Some n \<Rightarrow> n | None \<Rightarrow> 0) + 1)) m"

definition verdict_bucket :: "stored_finding \<Rightarrow> string" where
  "verdict_bucket f =
    (let d = map upper_ascii (fdDirection f); t = map upper_ascii (fdTier f)
     in if suffix ''_TRUE'' d \<and> suffix ''_DEFINITE'' t then ''TRUE_DEFINITE''
        else if suffix ''_FALSE'' d \<and> suffix ''_DEFINITE'' t then ''FALSE_DEFINITE'' else ''NEEDS_REVIEW'')"

definition count_finding :: "stored_finding \<Rightarrow> result_stats \<Rightarrow> result_stats" where
  "count_finding f st = st\<lparr>rsTotal := rsTotal st + 1, rsSeverity := count_up (map upper_ascii (fdSeverity f)) (rsSeverity st),
     rsVerdict := count_up (verdict_bucket f) (rsVerdict st), rsCwe := count_up (fdRule f) (rsCwe st)\<rparr>"

definition mem_GetStatsByTaskID :: "string \<Rightarrow> mem_repo \<Rightarrow> string + result_stats" where
  "mem_GetStatsByTaskID task s =
    Inr (fold count_finding (filter (\<lambda>f. fdTask f = task) (entries s (mrOrder s)))
      \<lparr>rsTask = task, rsTotal = 0, rsSeverity = [], rsCwe = [], rsVerdict = []\<rparr>)"

definition mem_CreateFeedback :: "feedback \<Rightarrow> mem_repo \<Rightarrow> string option \<times> mem_repo" where
  "mem_CreateFeedback fb s = (None, s\<lparr>mrFeedbacks := AList.update (fbId fb) fb (mrFeedbacks s)\<rparr>)"

definition mem_GetFeedbackByRequestID :: "string \<Rightarrow> mem_repo \<Rightarrow> feedback option" where
  "mem_GetFeedbackByRequestID rid s = find (\<lambda>fb. fbRequest fb = rid) (map snd (mrFeedbacks s))"

definition memory_findings :: "mem_repo finding_repo" where
  "memory_findings = \<lparr>frCreate = mem_Create, frGet = mem_GetByID, frUpdate = mem_Update, frDelete = mem_Delete, frList = mem_List,
     frCount = mem_Count, frByRequest = mem_GetByRequestIDAndFindingID, frStats = mem_GetStatsByTaskID,
     frAddFeedback = mem_CreateFeedback, frFeedback = mem_GetFeedbackByRequestID\<rparr>"

section \<open>The tables\<close>

record pg_repo =
  prFindings :: "(string \<times> stored_finding) list"
  prFeedbacks :: "(string \<times> feedback) list"

text \<open>What the columns take, in runes.\<close>

definition fits_columns :: "stored_finding \<Rightarrow> bool" where
  "fits_columns f \<longleftrightarrow> length (runes (fdId f)) \<le> 255 \<and> length (runes (fdTask f)) \<le> 255 \<and> length (runes (fdTool f)) \<le> 100 \<and>
     length (runes (fdRule f)) \<le> 100 \<and> length (runes (fdCwe f)) \<le> 32 \<and> length (runes (fdSeverity f)) \<le> 20 \<and>
     length (runes (fdDirection f)) \<le> 30 \<and> length (runes (fdTier f)) \<le> 30 \<and> length (runes (fdGroup f)) \<le> 100 \<and>
     length (runes (fdRequest f)) \<le> 255 \<and> length (runes (fdInherited f)) \<le> 255 \<and> - (2 ^ 31) \<le> fdLine f \<and> fdLine f < 2 ^ 31"

text \<open>The second unique key.\<close>

definition same_spot :: "stored_finding \<Rightarrow> stored_finding \<Rightarrow> bool" where
  "same_spot f g \<longleftrightarrow> fdTask f = fdTask g \<and> fdTool f = fdTool g \<and> fdRule f = fdRule g \<and> fdFile f = fdFile g \<and> fdLine f = fdLine g"

definition pg_Create :: "(string \<Rightarrow> string option) \<Rightarrow> stored_finding \<Rightarrow> pg_repo \<Rightarrow> string option \<times> pg_repo" where
  "pg_Create fails f s = (case fails ''create'' of
     Some err \<Rightarrow> (Some err, s)
   | None \<Rightarrow>
       if \<not> fits_columns f then (Some ''value too long'', s)
       else if map_of (prFindings s) (fdId f) \<noteq> None then (None, s)
       else if \<exists>g \<in> set (map snd (prFindings s)). same_spot f g then (Some ''duplicate key value violates unique constraint'', s)
       else (None, s\<lparr>prFindings := AList.update (fdId f) f (prFindings s)\<rparr>))"

definition pg_GetByID :: "(string \<Rightarrow> string option) \<Rightarrow> string \<Rightarrow> pg_repo \<Rightarrow> string + stored_finding" where
  "pg_GetByID fails k s = (case fails ''get'' of Some err \<Rightarrow> Inl err
     | None \<Rightarrow> (case map_of (prFindings s) k of None \<Rightarrow> Inl ''sql: no rows in result set'' | Some f \<Rightarrow> Inr f))"

text \<open>An update of no row is no error; the time of creation and the origin of an inherited row are not written.\<close>

definition pg_Update :: "(string \<Rightarrow> string option) \<Rightarrow> stored_finding \<Rightarrow> pg_repo \<Rightarrow> string option \<times> pg_repo" where
  "pg_Update fails f s = (case fails ''update'' of
     Some err \<Rightarrow> (Some err, s)
   | None \<Rightarrow> (case map_of (prFindings s) (fdId f) of
       None \<Rightarrow> (None, s)
     | Some old \<Rightarrow>
         let new = f\<lparr>fdCreated := fdCreated old, fdInherited := fdInherited old\<rparr>
         in if \<not> fits_columns new then (Some ''value too long'', s)
            else if \<exists>(k, g) \<in> set (prFindings s). k \<noteq> fdId f \<and> same_spot new g
            then (Some ''duplicate key value violates unique constraint'', s)
            else (None, s\<lparr>prFindings := AList.update (fdId f) new (prFindings s)\<rparr>)))"

text \<open>Feedback refers to its finding, which can then not be deleted.\<close>

definition pg_Delete :: "(string \<Rightarrow> string option) \<Rightarrow> string \<Rightarrow> pg_repo \<Rightarrow> string option \<times> pg_repo" where
  "pg_Delete fails k s = (case fails ''delete'' of
     Some err \<Rightarrow> (Some err, s)
   | None \<Rightarrow>
       if \<exists>fb \<in> set (map snd (prFeedbacks s)). fbFinding fb = k then (Some ''update or delete violates foreign key constraint'', s)
       else (None, s\<lparr>prFindings := AList.delete k (prFindings s)\<rparr>))"

definition pg_matches :: "finding_filter \<Rightarrow> stored_finding \<Rightarrow> bool" where
  "pg_matches q f = (case q of (task, dir, tier) \<Rightarrow>
     (task = [] \<or> fdTask f = task) \<and> (dir = [] \<or> fdDirection f = dir) \<and> (tier = [] \<or> fdTier f = tier))"

text \<open>The rows in the order of their ids.\<close>

definition rows_by_id :: "pg_repo \<Rightarrow> stored_finding list" where
  "rows_by_id s = map snd (sort_key fst (prFindings s))"

definition pg_List ::
  "(string \<Rightarrow> string option) \<Rightarrow> string \<Rightarrow> nat \<Rightarrow> finding_filter \<Rightarrow> pg_repo \<Rightarrow> string + (stored_finding list \<times> string)" where
  "pg_List fails lastID n q s = (case fails ''list'' of Some err \<Rightarrow> Inl err
     | None \<Rightarrow> Inr (page_of n (filter (\<lambda>f. (lastID = [] \<or> lastID < fdId f) \<and> pg_matches q f) (rows_by_id s))))"

definition pg_Count :: "(string \<Rightarrow> string option) \<Rightarrow> finding_filter \<Rightarrow> pg_repo \<Rightarrow> string + nat" where
  "pg_Count fails q s = (case fails ''count'' of Some err \<Rightarrow> Inl err | None \<Rightarrow> Inr (length (filter (pg_matches q) (rows_by_id s))))"

definition pg_GetByRequestIDAndFindingID :: "(string \<Rightarrow> string option) \<Rightarrow> string \<Rightarrow> string \<Rightarrow> pg_repo \<Rightarrow> stored_finding option" where
  "pg_GetByRequestIDAndFindingID fails rid k s =
    (if fails ''by-request'' \<noteq> None then None
     else case map_of (prFindings s) k of Some f \<Rightarrow> if fdRequest f = rid then Some f else None | None \<Rightarrow> None)"

definition group_counts :: "(stored_finding \<Rightarrow> string) \<Rightarrow> stored_finding list \<Rightarrow> (string \<times> int) list" where
  "group_counts key fs = map (\<lambda>k. (k, int32 (int (length (filter (\<lambda>f. key f = k) fs))))) (remdups (map key fs))"

definition pg_GetStatsByTaskID :: "(string \<Rightarrow> string option) \<Rightarrow> string \<Rightarrow> pg_repo \<Rightarrow> string + result_stats" where
  "pg_GetStatsByTaskID fails task s = (case fails ''stats'' of
     Some err \<Rightarrow> Inl err
   | None \<Rightarrow>
       (let fs = filter (\<lambda>f. fdTask f = task) (rows_by_id s);
            t = length (filter (\<lambda>f. fdDirection f = ''VERDICT_DIRECTION_TRUE'' \<and> fdTier f = ''VERDICT_TIER_DEFINITE'') fs);
            n = length (filter (\<lambda>f. fdDirection f = ''VERDICT_DIRECTION_FALSE'' \<and> fdTier f = ''VERDICT_TIER_DEFINITE'') fs)
        in Inr \<lparr>rsTask = [], rsTotal = int (length fs), rsSeverity = group_counts fdSeverity fs, rsCwe = group_counts fdRule fs,
             rsVerdict = [(''TRUE_DEFINITE'', int32 (int t)), (''FALSE_DEFINITE'', int32 (int n)),
               (''NEEDS_REVIEW'', int32 (int (length fs) - int t - int n))]\<rparr>))"

definition pg_CreateFeedback :: "(string \<Rightarrow> string option) \<Rightarrow> feedback \<Rightarrow> pg_repo \<Rightarrow> string option \<times> pg_repo" where
  "pg_CreateFeedback fails fb s = (case fails ''feedback'' of
     Some err \<Rightarrow> (Some err, s)
   | None \<Rightarrow>
       if map_of (prFeedbacks s) (fbId fb) \<noteq> None \<or> (\<exists>g \<in> set (map snd (prFeedbacks s)). fbRequest g = fbRequest fb)
       then (Some ''duplicate key value violates unique constraint'', s)
       else if map_of (prFindings s) (fbFinding fb) = None then (Some ''insert violates foreign key constraint'', s)
       else if length (runes (fbId fb)) > 255 \<or> length (runes (fbRequest fb)) > 255 then (Some ''value too long'', s)
       else (None, s\<lparr>prFeedbacks := AList.update (fbId fb) fb (prFeedbacks s)\<rparr>))"

definition pg_GetFeedbackByRequestID :: "(string \<Rightarrow> string option) \<Rightarrow> string \<Rightarrow> pg_repo \<Rightarrow> feedback option" where
  "pg_GetFeedbackByRequestID fails rid s =
    (if fails ''get-feedback'' \<noteq> None then None else find (\<lambda>fb. fbRequest fb = rid) (map snd (prFeedbacks s)))"

definition postgres_findings :: "(string \<Rightarrow> string option) \<Rightarrow> pg_repo finding_repo" where
  "postgres_findings fails = \<lparr>frCreate = (\<lambda>now. pg_Create fails), frGet = pg_GetByID fails, frUpdate = (\<lambda>now. pg_Update fails),
     frDelete = pg_Delete fails, frList = pg_List fails, frCount = pg_Count fails, frByRequest = pg_GetByRequestIDAndFindingID fails,
     frStats = pg_GetStatsByTaskID fails, frAddFeedback = pg_CreateFeedback fails, frFeedback = pg_GetFeedbackByRequestID fails\<rparr>"

end
