(* ===== verification/Results.thy ===== *)
theory Results imports Main "HOL-Library.Monad_Syntax" Prelude GoText GraphState Findings Orchestrator ResultStore begin

text \<open>
  The result service (\<open>result-service/internal/service/result_service.go\<close>, \<open>inherit_service.go\<close>) over
  either store, and the meaning of the two verdict axes (\<open>libs/common-go/verdict\<close>).

  Cursors of the RPCs wrap the id of the last row in JSON and base64; wrapping and unwrapping are an argument, as are the two
  page sizes of the configuration, the JSON of an export and what the file system and the storage service answer. A loop over
  the pages of a list that never ended would be none.
\<close>

section \<open>Verdicts\<close>

definition HasConclusion :: "verdict_direction \<Rightarrow> bool" where
  "HasConclusion d \<longleftrightarrow> d \<noteq> DirUnspecified"

definition NormalizeTier :: "verdict_direction \<Rightarrow> verdict_tier \<Rightarrow> verdict_tier" where
  "NormalizeTier d t = (if \<not> HasConclusion d then TierUnspecified else t)"

definition NeedsReview :: "verdict_direction \<Rightarrow> verdict_tier \<Rightarrow> bool" where
  "NeedsReview d t \<longleftrightarrow> \<not> HasConclusion d \<or> NormalizeTier d t = TierLikely"

definition IsConfirmedTrue :: "verdict_direction \<Rightarrow> verdict_tier \<Rightarrow> bool" where
  "IsConfirmedTrue d t \<longleftrightarrow> d = DirTrue \<and> NormalizeTier d t = TierDefinite"

definition IsConfirmedFalse :: "verdict_direction \<Rightarrow> verdict_tier \<Rightarrow> bool" where
  "IsConfirmedFalse d t \<longleftrightarrow> d = DirFalse \<and> NormalizeTier d t = TierDefinite"

fun tier_String :: "verdict_tier \<Rightarrow> string" where
  "tier_String TierUnspecified = ''VERDICT_TIER_UNSPECIFIED''"
| "tier_String TierDefinite = ''VERDICT_TIER_DEFINITE''"
| "tier_String TierLikely = ''VERDICT_TIER_LIKELY''"

fun severity_String :: "severity \<Rightarrow> string" where
  "severity_String SevUnspecified = ''SEVERITY_UNSPECIFIED''"
| "severity_String SevCritical = ''SEVERITY_CRITICAL''"
| "severity_String SevHigh = ''SEVERITY_HIGH''"
| "severity_String SevMedium = ''SEVERITY_MEDIUM''"
| "severity_String SevLow = ''SEVERITY_LOW''"
| "severity_String SevInfo = ''SEVERITY_INFO''"

text \<open>Names read back; another name is the zero value.\<close>

definition direction_value :: "string \<Rightarrow> verdict_direction" where
  "direction_value s = (if s = direction_String DirTrue then DirTrue else if s = direction_String DirFalse then DirFalse else DirUnspecified)"

definition tier_value :: "string \<Rightarrow> verdict_tier" where
  "tier_value s = (if s = tier_String TierDefinite then TierDefinite else if s = tier_String TierLikely then TierLikely else TierUnspecified)"

definition severity_value :: "string \<Rightarrow> severity" where
  "severity_value s =
    (case find (\<lambda>x. severity_String x = s) [SevCritical, SevHigh, SevMedium, SevLow, SevInfo] of Some x \<Rightarrow> x | None \<Rightarrow> SevUnspecified)"

section \<open>Messages\<close>

record finding_message =
  fmId :: string
  fmTask :: string
  fmTool :: string
  fmRule :: string
  fmRaw :: string
  fmFile :: string
  fmLine :: int
  fmCwe :: string
  fmTitle :: string
  fmDescription :: string
  fmSeverity :: severity
  fmDirection :: verdict_direction
  fmTier :: verdict_tier
  fmReasoning :: string
  fmFix :: string
  fmPatch :: string
  fmMatched :: "string list"
  fmUnique :: bool
  fmGroup :: string
  fmUpdated :: "gotime option"
  fmInherited :: string

definition splitCSV :: "string \<Rightarrow> string list" where
  "splitCSV s = (if TrimSpace s = [] then [] else split_on (CHR '','') s)"

definition modelToUnified :: "stored_finding \<Rightarrow> finding_message" where
  "modelToUnified f = \<lparr>fmId = fdId f, fmTask = fdTask f, fmTool = fdTool f, fmRule = fdRule f, fmRaw = fdRaw f, fmFile = fdFile f,
     fmLine = int32 (fdLine f), fmCwe = fdCwe f, fmTitle = fdTitle f, fmDescription = fdMessage f, fmSeverity = severity_value (fdSeverity f),
     fmDirection = direction_value (fdDirection f), fmTier = tier_value (fdTier f), fmReasoning = fdReasoning f, fmFix = fdFix f,
     fmPatch = fdPatch f, fmMatched = splitCSV (fdMatched f), fmUnique = fdUnique f, fmGroup = fdGroup f, fmUpdated = Some (fdUpdated f),
     fmInherited = fdInherited f\<rparr>"

text \<open>The row of a new finding.\<close>

definition new_finding :: "gotime \<Rightarrow> string \<Rightarrow> finding_message \<Rightarrow> stored_finding" where
  "new_finding now rid m = \<lparr>fdId = fmId m, fdTask = fmTask m, fdTool = fmTool m, fdRule = fmRule m, fdCwe = fmCwe m, fdTitle = fmTitle m,
     fdSeverity = severity_String (fmSeverity m), fdMessage = fmDescription m, fdFile = fmFile m, fdLine = fmLine m, fdRaw = fmRaw m,
     fdDirection = direction_String (fmDirection m), fdTier = tier_String (NormalizeTier (fmDirection m) (fmTier m)),
     fdReasoning = fmReasoning m, fdFix = fmFix m, fdPatch = fmPatch m, fdGroup = fmGroup m, fdMatched = join_with '','' (fmMatched m),
     fdUnique = fmUnique m, fdCreated = now, fdUpdated = now, fdRequest = rid, fdInherited = []\<rparr>"

definition no_request_key :: grpc_error where
  "no_request_key = (InvalidArgument, ''metadata.request_id is required'')"

text \<open>A request id that is there.\<close>

definition has_key :: "string option \<Rightarrow> bool" where
  "has_key rid \<longleftrightarrow> rid \<noteq> None \<and> rid \<noteq> Some []"

section \<open>Single findings\<close>

definition CreateFinding ::
  "'s finding_repo \<Rightarrow> gotime \<Rightarrow> string option \<Rightarrow> finding_message option \<Rightarrow> 's \<Rightarrow> (grpc_error + finding_message) \<times> 's" where
  "CreateFinding R now rid req s =
    (if \<not> has_key rid then (Inl no_request_key, s)
     else case req of
       None \<Rightarrow> (Inl (InvalidArgument, ''finding with id is required''), s)
     | Some m \<Rightarrow>
         if fmId m = [] then (Inl (InvalidArgument, ''finding with id is required''), s)
         else (case frByRequest R (the rid) (fmId m) s of
           Some f \<Rightarrow> (Inr (modelToUnified f), s)
         | None \<Rightarrow>
             (let f = new_finding now (the rid) m; (err, s1) = frCreate R now f s
              in case err of
                   Some e \<Rightarrow> (Inl (Internal, ''failed to create finding: '' @ e), s1)
                 | None \<Rightarrow> (Inr (modelToUnified (case frGet R (fdId f) s1 of Inr g \<Rightarrow> g | Inl _ \<Rightarrow> f)), s1))))"

definition GetFinding :: "'s finding_repo \<Rightarrow> string \<Rightarrow> 's \<Rightarrow> grpc_error + finding_message" where
  "GetFinding R k s =
    (if k = [] then Inl (InvalidArgument, ''finding_id is required'')
     else case frGet R k s of Inl e \<Rightarrow> Inl (NotFound, ''finding not found: '' @ e) | Inr f \<Rightarrow> Inr (modelToUnified f))"

definition updated_finding :: "gotime \<Rightarrow> finding_message \<Rightarrow> stored_finding \<Rightarrow> stored_finding" where
  "updated_finding now m f = f\<lparr>fdTool := fmTool m, fdRule := fmRule m, fdCwe := fmCwe m, fdTitle := fmTitle m,
     fdSeverity := severity_String (fmSeverity m), fdMessage := fmDescription m, fdFile := fmFile m, fdLine := fmLine m,
     fdDirection := direction_String (fmDirection m), fdTier := tier_String (NormalizeTier (fmDirection m) (fmTier m)), fdUpdated := now\<rparr>"

definition UpdateFinding ::
  "'s finding_repo \<Rightarrow> gotime \<Rightarrow> finding_message option \<Rightarrow> 's \<Rightarrow> (grpc_error + finding_message) \<times> 's" where
  "UpdateFinding R now req s = (case req of
     None \<Rightarrow> (Inl (InvalidArgument, ''finding with id is required''), s)
   | Some m \<Rightarrow>
       if fmId m = [] then (Inl (InvalidArgument, ''finding with id is required''), s)
       else (case frGet R (fmId m) s of
         Inl e \<Rightarrow> (Inl (NotFound, ''finding not found: '' @ e), s)
       | Inr f \<Rightarrow>
           (let g = updated_finding now m f; (err, s1) = frUpdate R now g s
            in (case err of Some e \<Rightarrow> Inl (Internal, ''failed to update finding: '' @ e) | None \<Rightarrow> Inr (modelToUnified g), s1))))"

definition DeleteFinding :: "'s finding_repo \<Rightarrow> string \<Rightarrow> 's \<Rightarrow> (grpc_error + unit) \<times> 's" where
  "DeleteFinding R k s =
    (if k = [] then (Inl (InvalidArgument, ''finding_id is required''), s)
     else let (err, s1) = frDelete R k s in (case err of Some e \<Rightarrow> Inl (Internal, ''failed to delete finding: '' @ e) | None \<Rightarrow> Inr (), s1))"

section \<open>Pages\<close>

definition clampPageSize :: "int \<Rightarrow> int \<Rightarrow> int \<Rightarrow> int" where
  "clampPageSize pageSize dflt mx = (if pageSize \<le> 0 then dflt else if pageSize > mx then mx else pageSize)"

text \<open>Wrapping a last id and a limit, and reading the last id back.\<close>

record cursor_codec =
  ccEnc :: "string \<Rightarrow> int \<Rightarrow> string"
  ccDec :: "string \<Rightarrow> string + string"

definition cursorFromLastID :: "cursor_codec \<Rightarrow> string \<Rightarrow> int \<Rightarrow> string" where
  "cursorFromLastID cc lastID limit = (if lastID = [] then [] else ccEnc cc lastID limit)"

record findings_page =
  fpFindings :: "finding_message list"
  fpNext :: string
  fpHasNext :: bool
  fpTotal :: int

definition list_page ::
  "'s finding_repo \<Rightarrow> cursor_codec \<Rightarrow> int \<Rightarrow> string \<Rightarrow> finding_filter \<Rightarrow> 's \<Rightarrow> grpc_error + findings_page" where
  "list_page R cc pageSize cursor q s = (case (if cursor = [] then Inr [] else ccDec cc cursor) of
     Inl e \<Rightarrow> Inl (InvalidArgument, e)
   | Inr lastID \<Rightarrow> (case frList R lastID (nat pageSize) q s of
       Inl e \<Rightarrow> Inl (Internal, ''failed to list findings: '' @ e)
     | Inr (fs, nxt) \<Rightarrow> (case frCount R q s of
         Inl e \<Rightarrow> Inl (Internal, ''failed to count findings: '' @ e)
       | Inr count \<Rightarrow> Inr \<lparr>fpFindings = map modelToUnified fs, fpNext = cursorFromLastID cc nxt pageSize, fpHasNext = (nxt \<noteq> []),
           fpTotal = int32 (int count)\<rparr>)))"

definition ListFindings ::
  "'s finding_repo \<Rightarrow> cursor_codec \<Rightarrow> int \<Rightarrow> int \<Rightarrow> string \<Rightarrow> int \<Rightarrow> string \<Rightarrow> 's \<Rightarrow> grpc_error + findings_page" where
  "ListFindings R cc dflt mx task pageSize cursor s = list_page R cc (clampPageSize pageSize dflt mx) cursor (task, [], []) s"

definition GetFindingsByVerdict ::
  "'s finding_repo \<Rightarrow> cursor_codec \<Rightarrow> int \<Rightarrow> int \<Rightarrow> verdict_direction \<Rightarrow> verdict_tier \<Rightarrow> int \<Rightarrow> string \<Rightarrow> 's \<Rightarrow> grpc_error + findings_page" where
  "GetFindingsByVerdict R cc dflt mx d t pageSize cursor s =
    (let n = (let p = (if pageSize \<le> 0 then dflt else pageSize) in if p > 100 then mx else p)
     in list_page R cc n cursor ([], if d = DirUnspecified then [] else direction_String d, if t = TierUnspecified then [] else tier_String t) s)"

definition GetTaskResultStats :: "'s finding_repo \<Rightarrow> string \<Rightarrow> 's \<Rightarrow> grpc_error + result_stats" where
  "GetTaskResultStats R task s =
    (if task = [] then Inl (InvalidArgument, ''task_id is required'')
     else case frStats R task s of Inl e \<Rightarrow> Inl (Internal, ''failed to get stats: '' @ e)
       | Inr st \<Rightarrow> Inr (st\<lparr>rsTask := task, rsTotal := int32 (rsTotal st)\<rparr>))"

section \<open>Batches\<close>

fun create_each ::
  "'s finding_repo \<Rightarrow> gotime \<Rightarrow> string \<Rightarrow> finding_message list \<Rightarrow> string list \<times> int \<Rightarrow> 's \<Rightarrow> (string list \<times> int) \<times> 's" where
  "create_each R now rid [] r s = (r, s)"
| "create_each R now rid (m # ms) (ids, failed) s = (case frByRequest R rid (fmId m) s of
     Some f \<Rightarrow> create_each R now rid ms (ids @ [fdId f], failed) s
   | None \<Rightarrow>
       (let (err, s1) = frCreate R now (new_finding now rid m) s
        in if err \<noteq> None then create_each R now rid ms (ids, int32 (failed + 1)) s1
           else create_each R now rid ms (ids @ [fmId m], failed) s1))"

definition BatchCreateFindings ::
  "'s finding_repo \<Rightarrow> gotime \<Rightarrow> string option \<Rightarrow> finding_message list \<Rightarrow> 's \<Rightarrow> (grpc_error + (string list \<times> int)) \<times> 's" where
  "BatchCreateFindings R now rid ms s =
    (if \<not> has_key rid then (Inl no_request_key, s)
     else let (r, s1) = create_each R now (the rid) ms ([], 0) s in (Inr r, s1))"

definition patch_field :: "string \<times> string \<Rightarrow> stored_finding \<Rightarrow> stored_finding" where
  "patch_field kv f = (case kv of (k, x) \<Rightarrow>
     if k = ''dedup_group'' then f\<lparr>fdGroup := x\<rparr>
     else if k = ''matched_findings'' then f\<lparr>fdMatched := x\<rparr>
     else if k = ''is_unique'' then f\<lparr>fdUnique := (x = ''true'')\<rparr>
     else if k = ''verdict_direction'' then f\<lparr>fdDirection := x\<rparr>
     else if k = ''verdict_tier'' then f\<lparr>fdTier := x\<rparr> else f)"

text \<open>The keys of a patch are those of a map: each once.\<close>

fun patch_each ::
  "'s finding_repo \<Rightarrow> gotime \<Rightarrow> string \<Rightarrow> (string \<times> string) list \<Rightarrow> string list \<Rightarrow> int \<times> string list \<Rightarrow> 's \<Rightarrow> (int \<times> string list) \<times> 's" where
  "patch_each R now rid patch [] r s = (r, s)"
| "patch_each R now rid patch (k # ks) (n, failed) s = (case frGet R k s of
     Inl _ \<Rightarrow> patch_each R now rid patch ks (n, failed @ [k]) s
   | Inr f \<Rightarrow>
       (let (err, s1) = frUpdate R now ((fold patch_field patch f)\<lparr>fdUpdated := now, fdRequest := rid\<rparr>) s
        in if err \<noteq> None then patch_each R now rid patch ks (n, failed @ [k]) s1
           else patch_each R now rid patch ks (int32 (n + 1), failed) s1))"

definition BatchUpdateFindings ::
  "'s finding_repo \<Rightarrow> gotime \<Rightarrow> string option \<Rightarrow> string list \<Rightarrow> (string \<times> string) list \<Rightarrow> 's \<Rightarrow> (grpc_error + (int \<times> string list)) \<times> 's" where
  "BatchUpdateFindings R now rid ids patch s =
    (if \<not> has_key rid then (Inl no_request_key, s)
     else if ids = [] then (Inl (InvalidArgument, ''finding_ids is required''), s)
     else if patch = [] then (Inl (InvalidArgument, ''patch_json is required''), s)
     else let (r, s1) = patch_each R now (the rid) patch ids (0, []) s in (Inr r, s1))"

text \<open>An event: the finding as it is now, its direction and tier before, and who changed it.\<close>

type_synonym verdict_event = "stored_finding \<times> string \<times> string \<times> string"

definition verdict_events :: "bool \<Rightarrow> string \<Rightarrow> stored_finding \<Rightarrow> stored_finding \<Rightarrow> verdict_event list" where
  "verdict_events producer who old f =
    (if producer \<and> (fdDirection old \<noteq> fdDirection f \<or> fdTier old \<noteq> fdTier f) then [(f, fdDirection old, fdTier old, who)] else [])"

definition judged :: "gotime \<Rightarrow> verdict_direction \<Rightarrow> stored_finding \<Rightarrow> stored_finding" where
  "judged now d f = f\<lparr>fdDirection := direction_String d, fdTier := tier_String TierDefinite, fdUpdated := now\<rparr>"

fun judge_each ::
  "'s finding_repo \<Rightarrow> bool \<Rightarrow> gotime \<Rightarrow> string \<Rightarrow> verdict_direction \<Rightarrow> string list \<Rightarrow> int \<times> verdict_event list \<Rightarrow> 's \<Rightarrow>
    (int \<times> verdict_event list) \<times> 's" where
  "judge_each R producer now rid d [] r s = (r, s)"
| "judge_each R producer now rid d (k # ks) (n, evs) s = (case frGet R k s of
     Inl _ \<Rightarrow> judge_each R producer now rid d ks (n, evs) s
   | Inr f \<Rightarrow>
       (let g = (judged now d f)\<lparr>fdRequest := rid\<rparr>; (err, s1) = frUpdate R now g s
        in if err \<noteq> None then judge_each R producer now rid d ks (n, evs) s1
           else judge_each R producer now rid d ks (int32 (n + 1), evs @ verdict_events producer ''batch'' f g) s1))"

definition BatchUpdateVerdict_rpc ::
  "'s finding_repo \<Rightarrow> bool \<Rightarrow> gotime \<Rightarrow> string option \<Rightarrow> string list \<Rightarrow> verdict_direction \<Rightarrow> 's \<Rightarrow>
    (grpc_error + int) \<times> verdict_event list \<times> 's" where
  "BatchUpdateVerdict_rpc R producer now rid ids d s =
    (if \<not> has_key rid then (Inl no_request_key, [], s)
     else let ((n, evs), s1) = judge_each R producer now (the rid) d ids (0, []) s in (Inr n, evs, s1))"

definition UpdateVerdict ::
  "'s finding_repo \<Rightarrow> bool \<Rightarrow> gotime \<Rightarrow> string \<Rightarrow> verdict_direction \<Rightarrow> string \<Rightarrow> 's \<Rightarrow> (grpc_error + finding_message) \<times> verdict_event list \<times> 's" where
  "UpdateVerdict R producer now k d reasoning s =
    (if k = [] then (Inl (InvalidArgument, ''finding_id is required''), [], s)
     else case frGet R k s of
       Inl e \<Rightarrow> (Inl (NotFound, ''finding not found: '' @ e), [], s)
     | Inr f \<Rightarrow>
         (let g = (judged now d f)\<lparr>fdReasoning := if reasoning = [] then fdReasoning f else reasoning\<rparr>; (err, s1) = frUpdate R now g s
          in case err of
               Some e \<Rightarrow> (Inl (Internal, ''failed to update verdict: '' @ e), [], s1)
             | None \<Rightarrow> (Inr (modelToUnified g), verdict_events producer ''rpc'' f g, s1)))"

definition SubmitFindingFeedback ::
  "'s finding_repo \<Rightarrow> gotime \<Rightarrow> string option \<Rightarrow> string \<Rightarrow> string \<Rightarrow> string \<Rightarrow> 's \<Rightarrow> (grpc_error + string) \<times> 's" where
  "SubmitFindingFeedback R now rid finding kind comment s =
    (if \<not> has_key rid then (Inl no_request_key, s)
     else if finding = [] then (Inl (InvalidArgument, ''finding_id is required''), s)
     else case frFeedback R (the rid) s of
       Some fb \<Rightarrow> (Inr (fbId fb), s)
     | None \<Rightarrow>
         (let fb = \<lparr>fbId = ''fb_'' @ finding @ ''_'' @ the rid, fbFinding = finding, fbType = kind, fbComment = comment, fbCreated = now,
                fbRequest = the rid\<rparr>; (err, s1) = frAddFeedback R fb s
          in (case err of Some e \<Rightarrow> Inl (Internal, ''failed to create feedback: '' @ e) | None \<Rightarrow> Inr (fbId fb), s1)))"

section \<open>All pages\<close>

partial_function (option) gather :: "(string \<Rightarrow> string + ('a list \<times> string)) \<Rightarrow> string \<Rightarrow> (string + 'a list) option" where
  "gather fetch cursor = (case fetch cursor of
     Inl e \<Rightarrow> Some (Inl e)
   | Inr (page, nxt) \<Rightarrow>
       if nxt = [] then Some (Inr page) else Option.bind (gather fetch nxt) (\<lambda>r. Some (map_sum id ((@) page) r)))"

definition id_rune :: "nat \<Rightarrow> bool" where
  "id_rune r \<longleftrightarrow> (97 \<le> r \<and> r \<le> 122) \<or> (65 \<le> r \<and> r \<le> 90) \<or> (48 \<le> r \<and> r \<le> 57) \<or> r = 45 \<or> r = 95 \<or> r = 46"

definition validateTaskIDForPath :: "(nat \<Rightarrow> string) \<Rightarrow> string \<Rightarrow> grpc_error option" where
  "validateTaskIDForPath quote_rune task =
    (if length task > 128 then Some (InvalidArgument, ''task_id too long'')
     else case find (\<lambda>r. \<not> id_rune r) (runes task) of
       Some r \<Rightarrow> Some (InvalidArgument, ''task_id contains illegal character '' @ quote_rune r)
     | None \<Rightarrow> if str_contains task ''..'' then Some (InvalidArgument, ''task_id must not contain '' @ [CHR 0x27] @ ''..'' @ [CHR 0x27]) else None)"

section \<open>Archiving and export\<close>

text \<open>The storage service, if its address is set: a path, a content type and the chunks of a file give an error, or an id and a path.\<close>

type_synonym storage_peer = "(string \<Rightarrow> string \<Rightarrow> string list \<Rightarrow> string + (string \<times> string)) option"

text \<open>The chunks that are sent: at least one, and none after the one that ends the data.\<close>

definition archiveChunk :: nat where "archiveChunk = 64 * 1024"

function archive_chunks :: "nat \<Rightarrow> string \<Rightarrow> string list" where
  "archive_chunks begun data =
    (let stop = (if begun + archiveChunk > length data then length data else begun + archiveChunk)
     in take (stop - begun) (drop begun data) # (if stop = length data then [] else archive_chunks stop data))"
  by pat_completeness auto
termination
  by (relation "measure (\<lambda>(begun, data). length data - begun)") (auto simp: archiveChunk_def split: if_splits)

declare archive_chunks.simps [simp del]

definition uploadToStorage :: "storage_peer \<Rightarrow> string \<Rightarrow> string \<Rightarrow> string \<Rightarrow> string + string" where
  "uploadToStorage peer path ctype data = (case peer of
     None \<Rightarrow> Inl ''storage addr not configured''
   | Some send \<Rightarrow> (case send path ctype (archive_chunks 0 data) of
       Inl e \<Rightarrow> Inl e
     | Inr (fid, stored) \<Rightarrow> if fid = [] then Inl ''storage returned empty file_id'' else Inr (''minio://'' @ stored)))"

text \<open>What the environment answers to an export: the directory, cleaned, or the error of finding it, errors of making it and of
  writing, and the storage service.\<close>

record export_env =
  exJson :: "stored_finding list \<Rightarrow> string + string"
  exDir :: "string + string"
  exMkdir :: "string option"
  exWrite :: "string option"
  exStorage :: storage_peer

text \<open>The address, and what is written to the file, if anything.\<close>

definition ExportFindings ::
  "'s finding_repo \<Rightarrow> (nat \<Rightarrow> string) \<Rightarrow> export_env \<Rightarrow> string \<Rightarrow> 's \<Rightarrow> ((grpc_error + string) \<times> string option) option" where
  "ExportFindings R quote_rune x task s =
    (if task = [] then Some (Inl (InvalidArgument, ''task_id is required''), None)
     else case validateTaskIDForPath quote_rune task of
       Some err \<Rightarrow> Some (Inl err, None)
     | None \<Rightarrow> Option.bind (gather (\<lambda>c. frList R c 100 (task, [], []) s) [])
         (\<lambda>r. Some (case r of
            Inl e \<Rightarrow> (Inl (Internal, ''failed to list findings: '' @ e), None)
          | Inr fs \<Rightarrow> (case exJson x fs of
              Inl e \<Rightarrow> (Inl (Internal, ''failed to marshal findings: '' @ e), None)
            | Inr text \<Rightarrow> (case exDir x of
                Inl e \<Rightarrow> (Inl (Internal, ''load global config: '' @ e), None)
              | Inr dir \<Rightarrow>
                  if exMkdir x \<noteq> None then (Inl (Internal, ''create export dir: '' @ the (exMkdir x)), None)
                  else if exWrite x \<noteq> None then (Inl (Internal, ''write export file: '' @ the (exWrite x)), None)
                  else (Inr (case uploadToStorage (exStorage x) (''exports/findings-'' @ task @ ''.json'') ''application/json'' text of
                      Inr u \<Rightarrow> u | Inl _ \<Rightarrow> ''file://'' @ dir @ ''/findings-'' @ task @ ''.json''), Some text))))))"

section \<open>Inheriting\<close>

definition path_step :: "string \<Rightarrow> string list \<Rightarrow> string list" where
  "path_step seg out = (if seg = [] \<or> seg = ''.'' then out else if seg = ''..'' then butlast out else out @ [seg])"

definition normalizeInheritPath :: "string \<Rightarrow> string" where
  "normalizeInheritPath p0 =
    (let p = trim_prefix ''./'' (map (\<lambda>c. if c = CHR 0x5C then CHR ''/'' else c) p0)
     in if p = [] \<or> p = ''.'' then p else join_with ''/'' (fold path_step (split_on (CHR ''/'') p) []))"

definition excludedBy :: "string \<Rightarrow> string list \<Rightarrow> bool" where
  "excludedBy path exclude =
    (if path = [] then False
     else if path \<in> set exclude then True
     else list_ex (\<lambda>p. p \<noteq> [] \<and> suffix (''/'' @ p) path \<and>
       (let pre = trim_suffix p path in pre = [] \<or> pre = ''/'' \<or> suffix ''/unpacked/'' pre)) exclude)"

definition inheritPageSize :: nat where "inheritPageSize = 500"

text \<open>What is counted: inherited, skipped, failed.\<close>

type_synonym inherit_counts = "int \<times> int \<times> int"

definition inherited_row :: "gotime \<Rightarrow> string \<Rightarrow> string \<Rightarrow> string \<Rightarrow> nat \<Rightarrow> stored_finding \<Rightarrow> stored_finding" where
  "inherited_row now rid base task n f = f\<lparr>fdId := task @ ''-inh-'' @ nat_digits n, fdTask := task, fdInherited := base, fdRequest := rid,
     fdCreated := now, fdUpdated := now\<rparr>"

fun inherit_rows ::
  "'s finding_repo \<Rightarrow> gotime \<Rightarrow> string \<Rightarrow> string \<Rightarrow> string \<Rightarrow> string list \<Rightarrow> stored_finding list \<Rightarrow> nat \<Rightarrow> inherit_counts \<Rightarrow> 's \<Rightarrow>
    nat \<times> inherit_counts \<times> 's" where
  "inherit_rows R now rid base task exclude [] n r s = (n, r, s)"
| "inherit_rows R now rid base task exclude (f # fs) n (inh, skipped, failed) s =
    (if excludedBy (normalizeInheritPath (fdFile f)) exclude
     then inherit_rows R now rid base task exclude fs n (inh, int32 (skipped + 1), failed) s
     else let n = n + 1; row = inherited_row now rid base task n f
          in if frByRequest R rid (fdId row) s \<noteq> None
             then inherit_rows R now rid base task exclude fs n (int32 (inh + 1), skipped, failed) s
             else let (err, s1) = frCreate R now row s
                  in if err \<noteq> None then inherit_rows R now rid base task exclude fs n (inh, skipped, int32 (failed + 1)) s1
                     else inherit_rows R now rid base task exclude fs n (int32 (inh + 1), skipped, failed) s1)"

partial_function (option) inherit_pages ::
  "'s finding_repo \<Rightarrow> gotime \<Rightarrow> string \<Rightarrow> string \<Rightarrow> string \<Rightarrow> string list \<Rightarrow> string \<Rightarrow> nat \<Rightarrow> inherit_counts \<Rightarrow> 's \<Rightarrow>
    ((grpc_error + inherit_counts) \<times> 's) option" where
  "inherit_pages R now rid base task exclude lastID n r s = (case frList R lastID inheritPageSize (base, [], []) s of
     Inl e \<Rightarrow> Some (Inl (Internal, ''list baseline findings: '' @ e), s)
   | Inr (fs, nxt) \<Rightarrow>
       (let (n1, r1, s1) = inherit_rows R now rid base task exclude fs n r s
        in if nxt = [] \<or> fs = [] then Some (Inr r1, s1) else inherit_pages R now rid base task exclude nxt n1 r1 s1))"

definition InheritFindings ::
  "'s finding_repo \<Rightarrow> gotime \<Rightarrow> string option \<Rightarrow> string \<Rightarrow> string \<Rightarrow> string list \<Rightarrow> 's \<Rightarrow> ((grpc_error + inherit_counts) \<times> 's) option" where
  "InheritFindings R now rid base task paths s =
    (if \<not> has_key rid then Some (Inl no_request_key, s)
     else if base = [] \<or> task = [] then Some (Inl (InvalidArgument, ''baseline_task_id and new_task_id are required''), s)
     else if base = task then Some (Inl (InvalidArgument, ''baseline_task_id must differ from new_task_id''), s)
     else inherit_pages R now (the rid) base task (filter (\<lambda>p. p \<noteq> []) (map normalizeInheritPath paths)) [] 0 (0, 0, 0) s)"

end
