(* ===== verification/ResultRules.thy ===== *)
theory ResultRules imports Main Prelude GoText Findings Orchestrator ResultStore Results begin

text \<open>
  The contract of a store of findings as the service uses it (locale \<open>listed_findings\<close>): its rows in a fixed order, pages of
  them, and creations that do not touch other tasks. Both stores keep it. What follows for the loops over pages.
\<close>

section \<open>The contract\<close>

text \<open>The cursor of a list, and the rows that are left.\<close>

definition stands_at :: "stored_finding list \<Rightarrow> string \<Rightarrow> stored_finding list \<Rightarrow> bool" where
  "stands_at rows c left \<longleftrightarrow> (c = [] \<and> left = rows) \<or> (\<exists>xs f. rows = xs @ f # left \<and> c = fdId f)"

lemma filter_split: "filter P ys = a @ b \<Longrightarrow> \<exists>xs zs. ys = xs @ zs \<and> filter P xs = a \<and> filter P zs = b"
proof (induction ys arbitrary: a)
  case (Cons y ys)
  show ?case
  proof (cases "P y \<and> a \<noteq> []")
    case True
    then obtain a' where "a = y # a'" "filter P ys = a' @ b" using Cons.prems by (cases a) auto
    then obtain xs zs where "ys = xs @ zs" "filter P xs = a'" "filter P zs = b" using Cons.IH by blast
    then have "y # ys = (y # xs) @ zs \<and> filter P (y # xs) = a \<and> filter P zs = b" using True \<open>a = y # a'\<close> by simp
    then show ?thesis by blast
  next
    case False
    show ?thesis
    proof (cases "P y")
      case True
      then have "y # ys = [] @ (y # ys) \<and> filter P [] = a \<and> filter P (y # ys) = b" using False Cons.prems by simp
      then show ?thesis by blast
    next
      case no: False
      then obtain xs zs where "ys = xs @ zs" "filter P xs = a" "filter P zs = b" using Cons by auto
      then have "y # ys = (y # xs) @ zs \<and> filter P (y # xs) = a \<and> filter P zs = b" using no by simp
      then show ?thesis by blast
    qed
  qed
qed simp

lemma page_last:
  assumes "page_of n (filter P ys) = (page, nxt)" "0 < n" "nxt \<noteq> []"
  obtains xs f zs where "ys = xs @ f # zs" "nxt = fdId f" "page = filter P (xs @ [f])" "P f"
proof -
  let ?o = "filter P ys"
  have len: "length ?o > n" using assms by (auto simp: page_of_def Let_def split: if_splits)
  have page: "page = take n ?o" and nxt: "nxt = fdId (?o ! (n - 1))"
    using assms(1,2) len by (auto simp: page_of_def Let_def)
  have split: "?o = take (n - 1) ?o @ ?o ! (n - 1) # drop n ?o"
    using len assms(2) id_take_nth_drop[of "n - 1" ?o] by simp
  obtain u v where uv: "ys = u @ v" "filter P u = take (n - 1) ?o" "filter P v = ?o ! (n - 1) # drop n ?o"
    using filter_split[OF split] by blast
  obtain w zs where v: "v = w @ ?o ! (n - 1) # zs" "\<forall>x \<in> set w. \<not> P x" "P (?o ! (n - 1))"
    using uv(3) unfolding filter_eq_Cons_iff by blast
  define xs where "xs = u @ w"
  have w: "filter P w = []" using v(2) by (simp add: filter_empty_conv)
  have y: "ys = xs @ ?o ! (n - 1) # zs" unfolding xs_def append_assoc v(1)[symmetric] by (rule uv(1))
  have xs: "filter P xs = take (n - 1) ?o" unfolding xs_def filter_append w append_Nil2 by (rule uv(2))
  show ?thesis
  proof
    show "ys = xs @ ?o ! (n - 1) # zs" by (rule y)
    have "take n ?o = take (n - 1) ?o @ [?o ! (n - 1)]"
      using len assms(2) take_Suc_conv_app_nth[of "n - 1" ?o] by simp
    then show "page = filter P (xs @ [?o ! (n - 1)])" unfolding filter_append xs page using v(3) by simp
  qed (rule nxt, rule v(3))
qed

lemma page_end:
  assumes "page_of n (filter P ys) = (page, [])" "0 < n" "[] \<notin> fdId ` set ys"
  shows "page = filter P ys"
proof (cases "length (filter P ys) > n")
  case True
  then have "filter P ys ! (n - 1) \<in> set (filter P ys)" using assms(2) by (intro nth_mem) simp
  then have "fdId (filter P ys ! (n - 1)) \<noteq> []" using assms(3) by force
  moreover have "fdId (take (n + 1) (filter P ys) ! (n - 1)) = []" using assms(1) True by (simp add: page_of_def Let_def split: if_splits)
  ultimately show ?thesis using assms(2) by simp
qed (use assms in \<open>simp add: page_of_def Let_def split: if_splits\<close>)

locale listed_findings =
  fixes R :: "'s finding_repo" and ok :: "'s \<Rightarrow> bool" and rows :: "'s \<Rightarrow> stored_finding list"
    and hit :: "finding_filter \<Rightarrow> stored_finding \<Rightarrow> bool"
  assumes ids: "ok s \<Longrightarrow> distinct (map fdId (rows s)) \<and> [] \<notin> fdId ` set (rows s)"
    and list_first: "ok s \<Longrightarrow> frList R [] n q s = Inr (page_of n (filter (hit q) (rows s)))"
    and list_next: "ok s \<Longrightarrow> rows s = xs @ f # ys \<Longrightarrow> frList R (fdId f) n q s = Inr (page_of n (filter (hit q) ys))"
    and hit_task: "hit (t, [], []) f \<longleftrightarrow> t = [] \<or> fdTask f = t"
    and created: "ok s \<Longrightarrow> fdId f \<noteq> [] \<Longrightarrow> frCreate R now f s = (err, s') \<Longrightarrow>
      ok s' \<and> (\<forall>q. \<not> hit q f \<longrightarrow> filter (hit q) (rows s') = filter (hit q) (rows s))"
begin

lemma list_at: "ok s \<Longrightarrow> stands_at (rows s) c ys \<Longrightarrow> frList R c n q s = Inr (page_of n (filter (hit q) ys))"
  unfolding stands_at_def by (elim disjE conjE exE) (simp_all only: list_first list_next)

lemma gather_from:
  assumes "ok s" "0 < n" "stands_at (rows s) c ys"
  shows "gather (\<lambda>c. frList R c n q s) c = Some (Inr (filter (hit q) ys))"
  using assms(3)
proof (induction "length ys" arbitrary: c ys rule: less_induct)
  case less
  obtain page nxt where p: "page_of n (filter (hit q) ys) = (page, nxt)" by (cases "page_of n (filter (hit q) ys)")
  have l: "frList R c n q s = Inr (page, nxt)" using list_at[OF assms(1) less.prems] p by simp
  have sub: "set ys \<subseteq> set (rows s)" using less.prems by (auto simp: stands_at_def)
  show ?case
  proof (cases "nxt = []")
    case True
    have "[] \<notin> fdId ` set ys" using ids[OF assms(1)] sub by blast
    then have "page = filter (hit q) ys" using page_end[of n "hit q" ys page] p True assms(2) by simp
    then show ?thesis by (subst gather.simps) (simp add: l True)
  next
    case False
    obtain xs f zs where y: "ys = xs @ f # zs" "nxt = fdId f" "page = filter (hit q) (xs @ [f])"
      by (rule page_last[OF p assms(2) False])
    have at: "stands_at (rows s) nxt zs" using less.prems y(1,2) unfolding stands_at_def by (metis append.assoc append_Cons)
    have "gather (\<lambda>c. frList R c n q s) nxt = Some (Inr (filter (hit q) zs))" by (rule less.hyps[OF _ at]) (simp add: y(1))
    then show ?thesis by (subst gather.simps) (simp add: l False y(1,3))
  qed
qed

lemma gather_all:
  assumes "ok s" "0 < n"
  shows "gather (\<lambda>c. frList R c n q s) [] = Some (Inr (filter (hit q) (rows s)))"
  by (rule gather_from[OF assms]) (simp add: stands_at_def)

text \<open>Copying to another task leaves the rows of the first as they are.\<close>

lemma inherit_rows_keeps:
  assumes "ok s" "base \<noteq> task" "base \<noteq> []" "task \<noteq> []" "inherit_rows R now rid base task exclude fs n r s = (n', r', s')"
  shows "ok s' \<and> filter (hit (base, [], [])) (rows s') = filter (hit (base, [], [])) (rows s)"
  using assms(1,5)
proof (induction fs arbitrary: n r s)
  case (Cons f fs)
  obtain i k e where r: "r = (i, k, e)" by (cases r)
  let ?row = "inherited_row now rid base task (n + 1) f"
  have nohit: "\<not> hit (base, [], []) ?row" using assms(2,3) by (simp add: hit_task inherited_row_def)
  obtain err s1 where c: "frCreate R now ?row s = (err, s1)" by (cases "frCreate R now ?row s")
  have s1: "ok s1 \<and> filter (hit (base, [], [])) (rows s1) = filter (hit (base, [], [])) (rows s)"
    using created[OF Cons.prems(1) _ c] nohit assms(4) by (auto simp: inherited_row_def)
  have next1: "inherit_rows R now rid base task exclude fs m x s1 = (n', r', s') \<Longrightarrow>
      ok s' \<and> filter (hit (base, [], [])) (rows s') = filter (hit (base, [], [])) (rows s)" for m x
    using Cons.IH[of s1 m x] s1 by simp
  show ?case using Cons.prems(2) Cons.IH[OF Cons.prems(1)] next1 c
    by (auto simp: r Let_def split: if_splits)
qed simp

lemma inherit_rows_append:
  "inherit_rows R now rid base task exclude (fs @ gs) n r s =
    (let (n1, r1, s1) = inherit_rows R now rid base task exclude fs n r s in inherit_rows R now rid base task exclude gs n1 r1 s1)"
  by (induction fs arbitrary: n r s) (auto simp: Let_def split: prod.split)

lemma filter_split_same:
  assumes "distinct (map fdId rs)" "rs = xs @ f # ys" "filter P rs = filter P (us @ f # vs)" "P f" "distinct (map fdId (us @ f # vs))"
  shows "filter P ys = filter P vs"
proof -
  have "filter P xs @ f # filter P ys = filter P us @ f # filter P vs" using assms(2,3,4) by simp
  moreover have "f \<notin> set (filter P xs)" "f \<notin> set (filter P ys)" using assms(1,2) by auto
  ultimately show ?thesis by (metis append_Cons_eq_iff)
qed

text \<open>The loop over pages is one pass over the rows of the baseline, although the pass writes to the store it reads.\<close>

lemma inherit_pages_from:
  assumes keys: "base \<noteq> task" "base \<noteq> []" "task \<noteq> []"
    and "ok s" "left = filter (hit (base, [], [])) ys" "stands_at (rows s) c ys"
  shows "inherit_pages R now rid base task exclude c n r s =
    Some (case inherit_rows R now rid base task exclude left n r s of (_, r', s') \<Rightarrow> (Inr r', s'))"
  using assms(4-6)
proof (induction "length left" arbitrary: left c ys n r s rule: less_induct)
  case less
  let ?H = "hit (base, [], [])"
  obtain page nxt where p: "page_of inheritPageSize (filter ?H ys) = (page, nxt)" by (cases "page_of inheritPageSize (filter ?H ys)")
  have l: "frList R c inheritPageSize (base, [], []) s = Inr (page, nxt)" using list_at[OF less.prems(1,3)] p by simp
  obtain n1 r1 s1 where rows: "inherit_rows R now rid base task exclude page n r s = (n1, r1, s1)" by (rule prod_cases3)
  show ?case
  proof (cases "nxt = []")
    case True
    have "set ys \<subseteq> set (rows s)" using less.prems(3) by (auto simp: stands_at_def)
    then have "[] \<notin> fdId ` set ys" using ids[OF less.prems(1)] by blast
    then have "page = left" using page_end[of inheritPageSize ?H ys page] p True less.prems(2) by (simp add: inheritPageSize_def)
    then show ?thesis using rows by (subst inherit_pages.simps) (simp add: l True)
  next
    case False
    obtain xs f zs where y: "ys = xs @ f # zs" "nxt = fdId f" "page = filter ?H (xs @ [f])" "?H f"
      by (rule page_last[OF p _ False]) (simp add: inheritPageSize_def)
    have left: "left = page @ filter ?H zs" using less.prems(2) y(1,3,4) by simp
    have s1: "ok s1" "filter ?H (rows s1) = filter ?H (rows s)"
      using inherit_rows_keeps[OF less.prems(1) keys rows] by blast+
    obtain pre where pre: "rows s = pre @ f # zs"
      using less.prems(3) y(1) unfolding stands_at_def by (metis append.assoc append_Cons)
    then have "f \<in> set (filter ?H (rows s1))" using s1(2) y(4) by simp
    then obtain us vs where at: "rows s1 = us @ f # vs" by (auto simp: in_set_conv_decomp)
    have rest: "filter ?H zs = filter ?H vs"
    proof (rule filter_split_same[where f = f and rs = "rows s" and xs = pre and us = us])
      show "filter ?H (rows s) = filter ?H (us @ f # vs)" using s1(2) at by simp
    qed (use ids[OF less.prems(1)] ids[OF s1(1)] at y(4) pre in simp_all)
    have "inherit_pages R now rid base task exclude nxt n1 r1 s1 =
        Some (case inherit_rows R now rid base task exclude (filter ?H zs) n1 r1 s1 of (_, r', s') \<Rightarrow> (Inr r', s'))"
      by (rule less.hyps[OF _ s1(1) rest]) (use left y(3,4) at y(2) in \<open>auto simp: stands_at_def\<close>)
    moreover have "page \<noteq> []" using y(3,4) by simp
    ultimately show ?thesis using rows left by (subst inherit_pages.simps) (simp add: l False inherit_rows_append)
  qed
qed

lemma inherit_pages_all:
  assumes "base \<noteq> task" "base \<noteq> []" "task \<noteq> []" "ok s"
  shows "inherit_pages R now rid base task exclude [] n r s =
    Some (case inherit_rows R now rid base task exclude (filter (hit (base, [], [])) (rows s)) n r s of (_, r', s') \<Rightarrow> (Inr r', s'))"
  by (rule inherit_pages_from[OF assms refl]) (simp add: stands_at_def)

end

section \<open>The store in memory keeps it\<close>

definition mem_ok :: "mem_repo \<Rightarrow> bool" where
  "mem_ok s \<longleftrightarrow> distinct (map fst (mrFindings s)) \<and> distinct (mrOrder s) \<and> set (mrOrder s) = fst ` set (mrFindings s) \<and>
     (\<forall>(k, f) \<in> set (mrFindings s). fdId f = k \<and> k \<noteq> [])"

definition mem_rows :: "mem_repo \<Rightarrow> stored_finding list" where
  "mem_rows s = entries s (mrOrder s)"

lemma mem_row:
  assumes "mem_ok s" "k \<in> set (mrOrder s)"
  obtains f where "map_of (mrFindings s) k = Some f" "fdId f = k" "k \<noteq> []"
proof -
  have "k \<in> fst ` set (mrFindings s)" using assms by (simp add: mem_ok_def)
  then obtain f where "map_of (mrFindings s) k = Some f" by (cases "map_of (mrFindings s) k") (auto simp: map_of_eq_None_iff)
  then show ?thesis using that assms(1) map_of_SomeD[of "mrFindings s" k f] unfolding mem_ok_def by fast
qed

lemma entries_ids: "mem_ok s \<Longrightarrow> set ids \<subseteq> set (mrOrder s) \<Longrightarrow> map fdId (entries s ids) = ids"
proof (induction ids)
  case (Cons k ids)
  obtain f where "map_of (mrFindings s) k = Some f" "fdId f = k" by (rule mem_row[OF Cons.prems(1), of k]) (use Cons.prems(2) in auto)
  then show ?case using Cons by (simp add: entries_def List.map_filter_simps)
qed (simp add: entries_def List.map_filter_simps)

lemma entries_append: "entries s (xs @ ys) = entries s xs @ entries s ys"
  by (simp add: entries_def List.map_filter_def)

lemma mem_rows_split:
  assumes "mem_ok s" "mem_rows s = xs @ f # ys"
  shows "order_after (fdId f) (mrOrder s) = Some (map fdId ys)" "entries s (map fdId ys) = ys"
proof -
  have o: "mrOrder s = map fdId xs @ fdId f # map fdId ys"
    using entries_ids[OF assms(1) subset_refl] assms(2) by (simp add: mem_rows_def)
  have "distinct (mrOrder s)" using assms(1) by (simp add: mem_ok_def)
  then have "fdId f \<notin> set (map fdId xs)" unfolding o by simp
  then have d: "\<forall>x \<in> set (map fdId xs). x \<noteq> fdId f" by metis
  have "fdId f \<noteq> []" by (rule mem_row[OF assms(1), of "fdId f"]) (use o in auto)
  moreover have "dropWhile (\<lambda>x. x \<noteq> fdId f) (mrOrder s) = fdId f # map fdId ys"
    unfolding o by (subst dropWhile_append2) (use d in blast, simp)
  ultimately show "order_after (fdId f) (mrOrder s) = Some (map fdId ys)" by (simp add: order_after_def)
  have "entries s (map fdId (xs @ [f])) @ entries s (map fdId ys) = (xs @ [f]) @ ys"
    using assms(2) o by (simp add: mem_rows_def entries_append[symmetric])
  moreover have "map fdId (entries s (map fdId ys)) = map fdId ys" by (rule entries_ids[OF assms(1)]) (auto simp: o)
  then have "length (entries s (map fdId ys)) = length ys" by (rule map_eq_imp_length_eq)
  ultimately show "entries s (map fdId ys) = ys" by (metis append_eq_append_conv)
qed

lemma update_new: "k \<notin> fst ` set m \<Longrightarrow> AList.update k v m = m @ [(k, v)]"
  by (induction m) auto

lemma mem_Create_ok:
  assumes "mem_ok s" "fdId f \<noteq> []" "mem_Create now f s = (err, s')"
  shows "mem_ok s' \<and> (s' = s \<or> (\<exists>c. mem_rows s' = mem_rows s @ [f\<lparr>fdCreated := c, fdUpdated := now\<rparr>]))"
proof (cases "map_of (mrFindings s) (fdId f)")
  case None
  then have new: "fdId f \<notin> fst ` set (mrFindings s)" by (simp add: map_of_eq_None_iff)
  let ?g = "f\<lparr>fdCreated := if fdCreated f = zero_time then now else fdCreated f, fdUpdated := now\<rparr>"
  have s': "mrFindings s' = AList.update (fdId f) ?g (mrFindings s)" "mrOrder s' = mrOrder s @ [fdId f]"
    using assms(3) None by (auto simp: mem_Create_def)
  have "mrFindings s' = mrFindings s @ [(fdId f, ?g)]" unfolding s' by (rule update_new[OF new])
  then have ok: "mem_ok s'" using assms(1,2) new by (auto simp: mem_ok_def s'(2))
  have "map_of (mrFindings s') k = map_of (mrFindings s) k" if "k \<in> set (mrOrder s)" for k
  proof -
    have "set (mrOrder s) = fst ` set (mrFindings s)" using assms(1) by (simp add: mem_ok_def)
    then have "k \<noteq> fdId f" using that new by metis
    then show ?thesis by (simp add: s' update_conv')
  qed
  then have "entries s' (mrOrder s) = entries s (mrOrder s)"
    unfolding entries_def List.map_filter_def by (simp cong: map_cong filter_cong)
  then have "mem_rows s' = mem_rows s @ [?g]"
    by (simp add: mem_rows_def s'(2) entries_append) (simp add: entries_def s'(1) update_conv' List.map_filter_simps)
  then show ?thesis using ok by blast
qed (use assms in \<open>simp add: mem_Create_def\<close>)

interpretation mem_findings: listed_findings memory_findings mem_ok mem_rows mem_matches
proof unfold_locales
  fix s assume ok: "mem_ok s"
  have "map fdId (mem_rows s) = mrOrder s" using entries_ids[OF ok subset_refl] by (simp add: mem_rows_def)
  moreover from this have "fdId ` set (mem_rows s) = set (mrOrder s)" by (metis list.set_map)
  moreover have "[] \<notin> set (mrOrder s)" using ok by (auto simp: mem_ok_def)
  ultimately show "distinct (map fdId (mem_rows s)) \<and> [] \<notin> fdId ` set (mem_rows s)" using ok by (simp add: mem_ok_def)
next
  fix s n q assume "mem_ok s"
  show "frList memory_findings [] n q s = Inr (page_of n (filter (mem_matches q) (mem_rows s)))"
    by (simp add: memory_findings_def mem_List_def order_after_def mem_rows_def)
next
  fix s xs f ys n q assume "mem_ok s" "mem_rows s = xs @ f # ys"
  then show "frList memory_findings (fdId f) n q s = Inr (page_of n (filter (mem_matches q) ys))"
    using mem_rows_split[of s xs f ys] by (simp add: memory_findings_def mem_List_def)
next
  fix t f show "mem_matches (t, [], []) f \<longleftrightarrow> t = [] \<or> fdTask f = t" by (simp add: mem_matches_def)
next
  fix s f now err s' assume "mem_ok s" "fdId f \<noteq> []" "frCreate memory_findings now f s = (err, s')"
  then show "mem_ok s' \<and> (\<forall>q. \<not> mem_matches q f \<longrightarrow> filter (mem_matches q) (mem_rows s') = filter (mem_matches q) (mem_rows s))"
    using mem_Create_ok[of s f now err s'] by (auto simp: memory_findings_def mem_matches_def)
qed

section \<open>The tables keep it\<close>

definition pg_ok :: "pg_repo \<Rightarrow> bool" where
  "pg_ok s \<longleftrightarrow> distinct (map fst (prFindings s)) \<and> (\<forall>(k, f) \<in> set (prFindings s). fdId f = k \<and> k \<noteq> [])"

lemma pg_sorted:
  assumes "pg_ok s"
  shows "sorted (map fdId (rows_by_id s)) \<and> distinct (map fdId (rows_by_id s)) \<and> [] \<notin> fdId ` set (rows_by_id s)"
proof -
  have "map fdId (rows_by_id s) = map fst (sort_key fst (prFindings s))"
    unfolding rows_by_id_def map_map by (rule map_cong) (use assms in \<open>auto simp: pg_ok_def\<close>)
  moreover have "fdId ` set (rows_by_id s) = fst ` set (prFindings s)" using calculation by (metis list.set_map set_sort)
  ultimately show ?thesis using assms by (force simp: pg_ok_def distinct_map)
qed

lemma filter_by_id: "filter P (rows_by_id s) = map snd (sort_key fst (filter (P \<circ> snd) (prFindings s)))"
  by (simp add: rows_by_id_def filter_map filter_sort)

lemma pg_Create_cases:
  assumes "pg_Create fails f s = (err, s')"
  obtains "s' = s" | "fdId f \<notin> fst ` set (prFindings s)" "prFindings s' = AList.update (fdId f) f (prFindings s)"
proof (cases "s' = s")
  case False
  then have "map_of (prFindings s) (fdId f) = None" "prFindings s' = AList.update (fdId f) f (prFindings s)"
    using assms unfolding pg_Create_def by (cases "fails ''create''"; simp split: if_splits; fastforce)+
  then show ?thesis using that(2) by (simp add: map_of_eq_None_iff)
qed (rule that(1))

interpretation pg_findings: listed_findings "postgres_findings (\<lambda>op. if op = ''list'' then None else e op)" pg_ok rows_by_id pg_matches
  for e :: "string \<Rightarrow> string option"
proof unfold_locales
  fix s assume "pg_ok s"
  then show "distinct (map fdId (rows_by_id s)) \<and> [] \<notin> fdId ` set (rows_by_id s)" using pg_sorted by blast
next
  fix s n q assume "pg_ok s"
  show "frList (postgres_findings (\<lambda>op. if op = ''list'' then None else e op)) [] n q s = Inr (page_of n (filter (pg_matches q) (rows_by_id s)))"
    by (simp add: postgres_findings_def pg_List_def)
next
  fix s xs f ys n q assume ok: "pg_ok s" and rows: "rows_by_id s = xs @ f # ys"
  have "fdId f \<noteq> []" using pg_sorted[OF ok] rows by auto
  moreover have "\<forall>g \<in> set xs. \<not> fdId f < fdId g" using pg_sorted[OF ok] rows by (auto simp: sorted_append)
  moreover have "\<forall>g \<in> set ys. fdId f < fdId g" using pg_sorted[OF ok] rows by (force simp: sorted_append order_less_le)
  ultimately have "filter (\<lambda>g. (fdId f = [] \<or> fdId f < fdId g) \<and> pg_matches q g) (rows_by_id s) = filter (pg_matches q) ys"
    by (auto simp: rows filter_empty_conv intro: filter_cong)
  then show "frList (postgres_findings (\<lambda>op. if op = ''list'' then None else e op)) (fdId f) n q s = Inr (page_of n (filter (pg_matches q) ys))"
    by (simp add: postgres_findings_def pg_List_def)
next
  fix t f show "pg_matches (t, [], []) f \<longleftrightarrow> t = [] \<or> fdTask f = t" by (simp add: pg_matches_def)
next
  fix s f now err s' assume ok: "pg_ok s" "fdId f \<noteq> []"
    and "frCreate (postgres_findings (\<lambda>op. if op = ''list'' then None else e op)) now f s = (err, s')"
  then have "pg_Create (\<lambda>op. if op = ''list'' then None else e op) f s = (err, s')" by (simp add: postgres_findings_def)
  then consider "s' = s" | "fdId f \<notin> fst ` set (prFindings s)" "prFindings s' = AList.update (fdId f) f (prFindings s)"
    by (rule pg_Create_cases)
  then show "pg_ok s' \<and> (\<forall>q. \<not> pg_matches q f \<longrightarrow> filter (pg_matches q) (rows_by_id s') = filter (pg_matches q) (rows_by_id s))"
  proof cases
    case 2
    have new: "prFindings s' = prFindings s @ [(fdId f, f)]" unfolding 2(2) by (rule update_new[OF 2(1)])
    have "pg_ok s'" using ok 2(1) by (auto simp: pg_ok_def new)
    then show ?thesis by (simp add: filter_by_id new)
  qed (use ok in simp)
qed

end
