(* ===== verification/ResultProps.thy ===== *)
theory ResultProps imports Main Prelude GoText Findings GraphInv Orchestrator ResultStore Results ResultRules begin

text \<open>
  What the result service promises: an inheritance copies each finding of the baseline once and ends, an export holds every
  finding of its task, the first write of an id wins; and where the two stores or the two verdict axes part ways.
\<close>

lemma int32_add1: "int32 (int32 a + 1) = int32 (a + 1)"
  unfolding int32_def by (rule arg_cong[where f = "\<lambda>x. x - 2 ^ 31"]) (simp add: mod_simps)

lemma int32_idem [simp]: "int32 (int32 a) = int32 a"
  unfolding int32_def by simp

lemma nat_digits_inj: "nat_digits a = nat_digits b \<longleftrightarrow> a = b"
  by (metis digits_val_nat_digits option.inject)

section \<open>Inheriting\<close>

text \<open>Every row of the baseline is counted once, whatever becomes of it.\<close>

lemma inherit_rows_counts:
  "inherit_rows R now rid base task exclude fs n (int32 a, int32 b, int32 c) s = (n', r', s') \<Longrightarrow>
   \<exists>x y z. r' = (int32 x, int32 y, int32 z) \<and> x + y + z = a + b + c + int (length fs)"
proof (induction fs arbitrary: n a b c s)
  case Nil
  then show ?case by auto
next
  case (Cons f fs)
  let ?row = "inherited_row now rid base task (n + 1) f"
  consider (skip) "excludedBy (normalizeInheritPath (fdFile f)) exclude"
    | (known) "\<not> excludedBy (normalizeInheritPath (fdFile f)) exclude" "frByRequest R rid (fdId ?row) s \<noteq> None"
    | (made) err s1 where "\<not> excludedBy (normalizeInheritPath (fdFile f)) exclude" "frByRequest R rid (fdId ?row) s = None"
        "frCreate R now ?row s = (err, s1)"
    by (cases "frCreate R now ?row s") blast
  then show ?case
  proof cases
    case skip
    then show ?thesis using Cons.prems Cons.IH[of n a "b + 1" c s] by (simp add: int32_add1 add.assoc add.left_commute)
  next
    case known
    then show ?thesis using Cons.prems Cons.IH[of "n + 1" "a + 1" b c s] by (simp add: Let_def int32_add1 add.assoc add.left_commute)
  next
    case made
    then show ?thesis using Cons.prems Cons.IH[of "n + 1" "a + 1" b c s1] Cons.IH[of "n + 1" a b "c + 1" s1]
      by (cases "err = None") (simp_all add: Let_def int32_add1 add.assoc add.left_commute)
  qed
qed

lemma int32_zero: "int32 0 = 0"
  by (simp add: int32_def)

text \<open>C27. An inheritance ends, whatever other statement on the table fails: it counts each finding of the baseline once, as
  inherited, skipped or failed, and leaves the baseline as it was, although it writes into the table it pages through.\<close>

theorem inherit_accounts_for_every_row:
  assumes "pg_ok s" "rid \<noteq> []" "base \<noteq> task" "base \<noteq> []" "task \<noteq> []"
    and "fails = (\<lambda>op. if op = ''list'' then None else e op)"
  shows "\<exists>x y z s'. InheritFindings (postgres_findings fails) now (Some rid) base task paths s =
      Some (Inr (int32 x, int32 y, int32 z), s') \<and>
    x + y + z = int (length (filter (\<lambda>f. fdTask f = base) (rows_by_id s))) \<and>
    filter (\<lambda>f. fdTask f = base) (rows_by_id s') = filter (\<lambda>f. fdTask f = base) (rows_by_id s)"
proof -
  let ?R = "postgres_findings (\<lambda>op. if op = ''list'' then None else e op)"
  let ?ex = "filter (\<lambda>p. p \<noteq> []) (map normalizeInheritPath paths)"
  have h: "pg_matches (base, [], []) = (\<lambda>f. fdTask f = base)" using assms(4) by (auto simp: pg_matches_def)
  obtain n' r' s' where run: "inherit_rows ?R now rid base task ?ex (filter (\<lambda>f. fdTask f = base) (rows_by_id s)) 0 (0, 0, 0) s = (n', r', s')"
    by (rule prod_cases3)
  have "InheritFindings ?R now (Some rid) base task paths s = Some (Inr r', s')"
    using pg_findings.inherit_pages_all[OF assms(3-5,1), of e now rid ?ex 0 "(0, 0, 0)"] assms(2-5) run
    by (simp add: InheritFindings_def has_key_def h)
  moreover obtain x y z where "r' = (int32 x, int32 y, int32 z)" "x + y + z = int (length (filter (\<lambda>f. fdTask f = base) (rows_by_id s)))"
    using inherit_rows_counts[of ?R now rid base task ?ex "filter (\<lambda>f. fdTask f = base) (rows_by_id s)" 0 0 0 0 s n' r' s',
        unfolded int32_zero, OF run] by auto
  moreover have "filter (\<lambda>f. fdTask f = base) (rows_by_id s') = filter (\<lambda>f. fdTask f = base) (rows_by_id s)"
    using pg_findings.inherit_rows_keeps[OF assms(1,3-5) run] by (simp add: h)
  ultimately show ?thesis unfolding assms(6) by blast
qed

definition sample_row :: "string \<Rightarrow> string \<Rightarrow> string \<Rightarrow> stored_finding" where
  "sample_row k task file = \<lparr>fdId = k, fdTask = task, fdTool = ''t'', fdRule = ''r'', fdCwe = [], fdTitle = [], fdSeverity = [], fdMessage = [],
     fdFile = file, fdLine = 1, fdRaw = [], fdDirection = [], fdTier = [], fdReasoning = [], fdFix = [], fdPatch = [], fdGroup = [],
     fdMatched = [], fdUnique = False, fdCreated = 1, fdUpdated = 1, fdRequest = [], fdInherited = []\<rparr>"

theorem inherit_accounts_for_every_row_witness:
  "\<exists>x y z s'. InheritFindings (postgres_findings (\<lambda>op. if op = ''list'' then None else Some ''down'')) 7 (Some ''r'') ''t1'' ''t2'' []
      \<lparr>prFindings = [(''a'', sample_row ''a'' ''t1'' ''x.c'')], prFeedbacks = []\<rparr> = Some (Inr (int32 x, int32 y, int32 z), s') \<and> x + y + z = 1"
proof -
  let ?s = "\<lparr>prFindings = [(''a'', sample_row ''a'' ''t1'' ''x.c'')], prFeedbacks = []\<rparr>"
  have ok: "pg_ok ?s" by (simp add: pg_ok_def sample_row_def)
  have rows: "length (filter (\<lambda>f. fdTask f = ''t1'') (rows_by_id ?s)) = 1" by (simp add: rows_by_id_def sample_row_def)
  show ?thesis using inherit_accounts_for_every_row[OF ok, of "''r''" "''t1''" "''t2''" _ "\<lambda>_. Some ''down''" 7 "[]"] rows by auto
qed

text \<open>In memory, with ids that are free: the copies, numbered in the order of the rows.\<close>

fun numbered :: "gotime \<Rightarrow> string \<Rightarrow> string \<Rightarrow> string \<Rightarrow> nat \<Rightarrow> stored_finding list \<Rightarrow> stored_finding list" where
  "numbered now rid base task n [] = []"
| "numbered now rid base task n (f # fs) = inherited_row now rid base task (n + 1) f # numbered now rid base task (n + 1) fs"

definition inherits :: "string list \<Rightarrow> stored_finding \<Rightarrow> bool" where
  "inherits paths f \<longleftrightarrow> \<not> excludedBy (normalizeInheritPath (fdFile f)) (filter (\<lambda>p. p \<noteq> []) (map normalizeInheritPath paths))"

lemma mem_Create_fresh:
  assumes "mem_ok s" "fdId f \<noteq> []" "fdId f \<notin> set (mrOrder s)" "fdCreated f = now" "fdUpdated f = now"
  obtains s1 where "mem_Create now f s = (None, s1)" "mem_ok s1" "mem_rows s1 = mem_rows s @ [f]" "mrOrder s1 = mrOrder s @ [fdId f]"
proof -
  obtain err s1 where c: "mem_Create now f s = (err, s1)" by (cases "mem_Create now f s")
  have none: "map_of (mrFindings s) (fdId f) = None" using assms(1,3) by (simp add: mem_ok_def map_of_eq_None_iff)
  have same: "f\<lparr>fdCreated := if fdCreated f = zero_time then now else fdCreated f, fdUpdated := now\<rparr> = f" using assms(4,5) by (cases f) simp
  have o: "err = None" "mrOrder s1 = mrOrder s @ [fdId f]" "mrFindings s1 = AList.update (fdId f) f (mrFindings s)"
    using c unfolding mem_Create_def same none by auto
  have m: "map_of (mrFindings s1) k = map_of (mrFindings s) k" if "k \<in> set (mrOrder s)" for k
  proof -
    have "k \<noteq> fdId f" using that assms(3) by blast
    then show ?thesis by (simp add: o(3) update_conv')
  qed
  have "entries s1 (mrOrder s) = entries s (mrOrder s)" unfolding entries_def List.map_filter_def using m by (simp cong: map_cong filter_cong)
  then have "mem_rows s1 = mem_rows s @ [f]"
    by (simp add: mem_rows_def o(2) entries_append) (simp add: entries_def o(3) update_conv' List.map_filter_simps)
  then show ?thesis using that c o mem_Create_ok[OF assms(1,2) c] by blast
qed

lemma no_request_match:
  assumes "mem_ok s" "k \<notin> set (mrOrder s)"
  shows "mem_GetByRequestIDAndFindingID rid k s = None"
proof -
  have "fdId ` set (entries s (mrOrder s)) = set (mrOrder s)" using entries_ids[OF assms(1) subset_refl] by (metis list.set_map)
  then show ?thesis using assms(2) by (fastforce simp: mem_GetByRequestIDAndFindingID_def find_None_iff)
qed

lemma mem_inherit_rows:
  assumes "task \<noteq> []"
  shows "mem_ok s \<Longrightarrow> \<forall>m > n. task @ ''-inh-'' @ nat_digits m \<notin> set (mrOrder s) \<Longrightarrow>
    \<exists>s'. inherit_rows memory_findings now rid base task (filter (\<lambda>p. p \<noteq> []) (map normalizeInheritPath paths)) fs n (int32 a, int32 b, 0) s =
      (n + length (filter (inherits paths) fs), (int32 (a + int (length (filter (inherits paths) fs))),
        int32 (b + int (length (filter (\<lambda>f. \<not> inherits paths f) fs))), 0), s') \<and>
    mem_rows s' = mem_rows s @ numbered now rid base task n (filter (inherits paths) fs)"
proof (induction fs arbitrary: n a b s)
  case (Cons f fs)
  show ?case
  proof (cases "inherits paths f")
    case False
    then show ?thesis using Cons.IH[OF Cons.prems, of a "b + 1"] by (auto simp: inherits_def int32_add1 add.assoc)
  next
    case True
    let ?row = "inherited_row now rid base task (n + 1) f"
    have row: "fdId ?row = task @ ''-inh-'' @ nat_digits (n + 1)" "fdId ?row \<noteq> []" "fdCreated ?row = now" "fdUpdated ?row = now"
      using assms by (simp_all add: inherited_row_def)
    have free: "fdId ?row \<notin> set (mrOrder s)" using Cons.prems(2) row(1) by auto
    obtain s1 where s1: "mem_Create now ?row s = (None, s1)" "mem_ok s1" "mem_rows s1 = mem_rows s @ [?row]"
        "mrOrder s1 = mrOrder s @ [fdId ?row]"
      by (rule mem_Create_fresh[OF Cons.prems(1) row(2) free row(3,4)])
    have "\<forall>m > n + 1. task @ ''-inh-'' @ nat_digits m \<notin> set (mrOrder s1)"
      using Cons.prems(2) unfolding s1(4) row(1) by (auto simp: nat_digits_inj)
    then obtain s' where "inherit_rows memory_findings now rid base task (filter (\<lambda>p. p \<noteq> []) (map normalizeInheritPath paths)) fs (n + 1)
        (int32 (a + 1), int32 b, 0) s1 = (n + 1 + length (filter (inherits paths) fs), (int32 (a + 1 + int (length (filter (inherits paths) fs))),
          int32 (b + int (length (filter (\<lambda>f. \<not> inherits paths f) fs))), 0), s')"
        "mem_rows s' = mem_rows s1 @ numbered now rid base task (n + 1) (filter (inherits paths) fs)"
      using Cons.IH[OF s1(2), of "n + 1" "a + 1" b] by blast
    moreover have "frByRequest memory_findings rid (fdId ?row) s = None" "frCreate memory_findings now ?row s = (None, s1)"
      using no_request_match[OF Cons.prems(1) free] s1(1) by (simp_all add: memory_findings_def)
    moreover have "\<not> excludedBy (normalizeInheritPath (fdFile f)) (filter (\<lambda>p. p \<noteq> []) (map normalizeInheritPath paths))"
      using True by (simp add: inherits_def)
    ultimately show ?thesis using True s1(3) by (simp add: Let_def int32_add1 add.assoc)
  qed
qed simp

text \<open>C28. In memory, with ids that are free, an inheritance adds exactly a copy of each baseline finding whose path is not
  excluded, in order and numbered from one, and answers with their number and the number of the excluded.\<close>

theorem inherit_copies_baseline:
  assumes "mem_ok s" "rid \<noteq> []" "base \<noteq> task" "base \<noteq> []" "task \<noteq> []"
    and "\<forall>m. task @ ''-inh-'' @ nat_digits m \<notin> set (mrOrder s)"
    and "rows = filter (\<lambda>f. fdTask f = base) (mem_rows s)"
  shows "\<exists>s'. InheritFindings memory_findings now (Some rid) base task paths s =
      Some (Inr (int32 (int (length (filter (inherits paths) rows))), int32 (int (length (filter (\<lambda>f. \<not> inherits paths f) rows))), 0), s') \<and>
    mem_rows s' = mem_rows s @ numbered now rid base task 0 (filter (inherits paths) rows)"
proof -
  let ?ex = "filter (\<lambda>p. p \<noteq> []) (map normalizeInheritPath paths)"
  have h: "mem_matches (base, [], []) = (\<lambda>f. fdTask f = base)" using assms(4) by (auto simp: mem_matches_def)
  obtain s' where "inherit_rows memory_findings now rid base task ?ex rows 0 (0, 0, 0) s =
      (length (filter (inherits paths) rows), (int32 (int (length (filter (inherits paths) rows))),
        int32 (int (length (filter (\<lambda>f. \<not> inherits paths f) rows))), 0), s')"
      "mem_rows s' = mem_rows s @ numbered now rid base task 0 (filter (inherits paths) rows)"
    using mem_inherit_rows[OF assms(5,1), of 0 now rid base paths rows 0 0] assms(6) by (auto simp: int32_zero)
  then show ?thesis using mem_findings.inherit_pages_all[OF assms(3-5,1), of now rid ?ex 0 "(0, 0, 0)"] assms(2-5,7)
    by (auto simp: InheritFindings_def has_key_def h)
qed

lemma sample_inherits: "inherits [''./src/b.c''] (sample_row ''a'' ''t1'' ''src/a.c'')" "\<not> inherits [''./src/b.c''] (sample_row ''b'' ''t1'' ''src/b.c'')"
  by code_simp+

theorem inherit_copies_baseline_witness:
  "\<exists>s'. InheritFindings memory_findings 7 (Some ''r'') ''t1'' ''t2'' [''./src/b.c'']
      \<lparr>mrFindings = [(''a'', sample_row ''a'' ''t1'' ''src/a.c''), (''b'', sample_row ''b'' ''t1'' ''src/b.c'')], mrFeedbacks = [],
        mrOrder = [''a'', ''b'']\<rparr> = Some (Inr (1, 1, 0), s') \<and>
    mem_rows s' = [sample_row ''a'' ''t1'' ''src/a.c'', sample_row ''b'' ''t1'' ''src/b.c'',
      inherited_row 7 ''r'' ''t1'' ''t2'' 1 (sample_row ''a'' ''t1'' ''src/a.c'')]"
proof -
  let ?s = "\<lparr>mrFindings = [(''a'', sample_row ''a'' ''t1'' ''src/a.c''), (''b'', sample_row ''b'' ''t1'' ''src/b.c'')], mrFeedbacks = [],
        mrOrder = [''a'', ''b'']\<rparr>"
  have ok: "mem_ok ?s" by (auto simp: mem_ok_def sample_row_def)
  have free: "\<forall>m. ''t2'' @ ''-inh-'' @ nat_digits m \<notin> set (mrOrder ?s)" by simp
  have rows: "mem_rows ?s = [sample_row ''a'' ''t1'' ''src/a.c'', sample_row ''b'' ''t1'' ''src/b.c'']"
    by (simp add: mem_rows_def entries_def List.map_filter_simps)
  have mine: "[sample_row ''a'' ''t1'' ''src/a.c'', sample_row ''b'' ''t1'' ''src/b.c''] = filter (\<lambda>f. fdTask f = ''t1'') (mem_rows ?s)"
    unfolding rows by (simp add: sample_row_def)
  have "int32 1 = 1" by (simp add: int32_def)
  then show ?thesis using inherit_copies_baseline[OF ok _ _ _ _ free mine, of "''r''" 7 "[''./src/b.c'']"] rows by (simp add: sample_inherits)
qed

section \<open>Export\<close>

theorem export_holds_every_finding:
  assumes "mem_ok s" "task \<noteq> []" "validateTaskIDForPath quote_rune task = None"
    and "exJson x (filter (\<lambda>f. fdTask f = task) (mem_rows s)) = Inr text"
    and "exDir x = Inr dir" "exMkdir x = None" "exWrite x = None"
  shows "\<exists>u. ExportFindings memory_findings quote_rune x task s = Some (Inr u, Some text)"
proof -
  have h: "mem_matches (task, [], []) = (\<lambda>f. fdTask f = task)" using assms(2) by (auto simp: mem_matches_def)
  have "gather (\<lambda>c. frList memory_findings c 100 (task, [], []) s) [] = Some (Inr (filter (\<lambda>f. fdTask f = task) (mem_rows s)))"
    using mem_findings.gather_all[OF assms(1), of 100 "(task, [], [])"] by (simp add: h)
  then show ?thesis using assms(2-7) by (simp add: ExportFindings_def)
qed

section \<open>Where the code parts from its contract\<close>

text \<open>The store in memory looks the cursor of a list up in its order: once that row is gone, the list is at its end.\<close>

lemma order_after_removed:
  assumes "k \<noteq> []" "distinct ks"
  shows "order_after k (remove1 k ks) = None"
proof -
  have "k \<notin> set (remove1 k ks)" using assms(2) by simp
  then have none: "dropWhile (\<lambda>x. x \<noteq> k) (remove1 k ks) = []" unfolding dropWhile_eq_Nil_conv by metis
  show ?thesis using assms(1) by (simp add: order_after_def none del: dropWhile_eq_Nil_conv)
qed

theorem deleted_cursor_ends_the_list:
  assumes "mem_ok s" "mem_rows s = xs @ f # ys"
  shows "frList memory_findings (fdId f) n q (snd (frDelete memory_findings (fdId f) s)) = Inr ([], [])"
proof -
  have "mrOrder s = map fdId (xs @ f # ys)" using entries_ids[OF assms(1) subset_refl] assms(2) by (simp add: mem_rows_def)
  then have k: "fdId f \<in> set (mrOrder s)" by simp
  obtain g where "map_of (mrFindings s) (fdId f) = Some g" "fdId f \<noteq> []" by (rule mem_row[OF assms(1) k])
  moreover have "distinct (mrOrder s)" using assms(1) by (simp add: mem_ok_def)
  ultimately show ?thesis by (simp add: memory_findings_def mem_Delete_def mem_List_def order_after_removed)
qed

text \<open>An unspecified verdict takes the conclusion back, but stores a definite tier; created findings never have that pair.\<close>

definition tier_normal :: "stored_finding \<Rightarrow> bool" where
  "tier_normal f \<longleftrightarrow> (direction_value (fdDirection f) = DirUnspecified \<longrightarrow> tier_value (fdTier f) = TierUnspecified)"

lemma direction_roundtrip [simp]: "direction_value (direction_String d) = d"
  by (cases d) (simp_all add: direction_value_def)

lemma tier_roundtrip [simp]: "tier_value (tier_String t) = t"
  by (cases t) (simp_all add: tier_value_def)

lemma unspecified_names [simp]:
  "tier_value ''VERDICT_TIER_UNSPECIFIED'' = TierUnspecified" "direction_value ''VERDICT_DIRECTION_UNSPECIFIED'' = DirUnspecified"
  "tier_value ''VERDICT_TIER_DEFINITE'' = TierDefinite"
  by (simp_all add: tier_value_def direction_value_def)

lemma new_finding_tier_normal: "tier_normal (new_finding now rid m)"
  by (simp add: tier_normal_def new_finding_def NormalizeTier_def HasConclusion_def)

lemma updated_finding_tier_normal: "tier_normal (updated_finding now m f)"
  by (simp add: tier_normal_def updated_finding_def NormalizeTier_def HasConclusion_def)

theorem verdict_reset_stays_definite:
  assumes "k \<noteq> []" "map_of (mrFindings s) k = Some f" "fdId f = k"
  shows "\<exists>g. map_of (mrFindings (snd (snd (UpdateVerdict memory_findings producer now k DirUnspecified why s)))) k = Some g \<and> \<not> tier_normal g"
  using assms
  by (simp add: UpdateVerdict_def memory_findings_def mem_GetByID_def mem_Update_def judged_def update_conv' tier_normal_def Let_def)

end
