(* ===== verification/Reports.thy ===== *)
theory Reports imports Main "HOL-Library.Monad_Syntax" Prelude GoText GraphState Findings Orchestrator Projects
  ResultStore Results begin

text \<open>
  Reports of the result service (\<open>internal/service/report_service.go\<close>) over the two stores of reports
  (\<open>internal/repository/memory_report_repository.go\<close>, \<open>report_repository.go\<close>).

  The store in memory follows its insertion order through a map; an id without an entry is a nil pointer, and using it is a
  panic: \<open>None\<close> below. A recovering interceptor turns a panic of an RPC into an error.
  A statement on the database fails or is done; whether it fails is an argument, beside what the columns and keys do not take.
\<close>

section \<open>Model\<close>

record report =
  rpId :: string
  rpTask :: string
  rpTemplate :: string
  rpFormat :: string
  rpUrl :: string
  rpStatus :: string
  rpContent :: string
  rpError :: string
  rpCreated :: gotime
  rpUpdated :: gotime
  rpCompleted :: "gotime option"
  rpRequest :: string

record report_template =
  ttId :: string
  ttName :: string
  ttDescription :: string

record report_query =
  qyOffset :: nat
  qyLimit :: nat
  qyTask :: string
  qyFormat :: string
  qySortBy :: string
  qyDesc :: bool

record 's report_repo =
  rrCreate :: "gotime \<Rightarrow> report \<Rightarrow> 's \<Rightarrow> string option \<times> 's"
  rrGet :: "string \<Rightarrow> 's \<Rightarrow> string + report"
  rrByRequest :: "string \<Rightarrow> 's \<Rightarrow> report option option"
  rrList :: "report_query \<Rightarrow> 's \<Rightarrow> (string + (report option list \<times> nat)) option"
  rrTemplates :: "nat \<Rightarrow> 's \<Rightarrow> string + report_template list"
  rrTemplate :: "string \<Rightarrow> 's \<Rightarrow> string + report_template"
  rrUpdate :: "gotime \<Rightarrow> report \<Rightarrow> 's \<Rightarrow> string option \<times> 's"
  rrDelete :: "string \<Rightarrow> 's \<Rightarrow> string option \<times> 's"

text \<open>The order of a list: by a key, then by id, both in the same direction.\<close>

definition report_less :: "string \<Rightarrow> report \<Rightarrow> report \<Rightarrow> bool" where
  "report_less by_key a b =
    (if by_key = ''task_id'' then rpTask a < rpTask b else if by_key = ''format'' then rpFormat a < rpFormat b
     else if by_key = ''generated_at'' then rpCreated a < rpCreated b else rpId a < rpId b)"

definition report_before :: "string \<Rightarrow> bool \<Rightarrow> report \<Rightarrow> report \<Rightarrow> bool" where
  "report_before by_key desc a b =
    (if report_less by_key a b then \<not> desc else if report_less by_key b a then desc else (rpId a < rpId b) = (\<not> desc))"

fun insert_report :: "(report \<Rightarrow> report \<Rightarrow> bool) \<Rightarrow> report \<Rightarrow> report list \<Rightarrow> report list" where
  "insert_report lt r [] = [r]"
| "insert_report lt r (x # xs) = (if lt r x then r # x # xs else x # insert_report lt r xs)"

definition sort_reports :: "string \<Rightarrow> bool \<Rightarrow> report list \<Rightarrow> report list" where
  "sort_reports by_key desc rs = foldr (insert_report (report_before by_key desc)) rs []"

section \<open>In memory\<close>

record mem_reports =
  mpReports :: "(string \<times> report) list"
  mpOrder :: "string list"

definition NewMemoryReportRepository :: mem_reports where
  "NewMemoryReportRepository = \<lparr>mpReports = [], mpOrder = []\<rparr>"

definition mem_DeleteReport :: "string \<Rightarrow> mem_reports \<Rightarrow> string option \<times> mem_reports" where
  "mem_DeleteReport k s = (None, s\<lparr>mpReports := AList.delete k (mpReports s)\<rparr>)"

definition mem_CreateReport :: "gotime \<Rightarrow> report \<Rightarrow> mem_reports \<Rightarrow> string option \<times> mem_reports" where
  "mem_CreateReport now r s =
    (if map_of (mpReports s) (rpId r) \<noteq> None then (Some (''report '' @ rpId r @ '' already exists''), s)
     else (None, s\<lparr>mpReports := AList.update (rpId r) (r\<lparr>rpCreated := if rpCreated r = zero_time then now else rpCreated r\<rparr>) (mpReports s),
       mpOrder := mpOrder s @ [rpId r]\<rparr>))"

definition mem_UpdateReport :: "gotime \<Rightarrow> report \<Rightarrow> mem_reports \<Rightarrow> string option \<times> mem_reports" where
  "mem_UpdateReport now r s =
    (if map_of (mpReports s) (rpId r) = None then (Some (''report '' @ rpId r @ '' not found''), s)
     else (None, s\<lparr>mpReports := AList.update (rpId r) r (mpReports s)\<rparr>))"

definition mem_GetReportByID :: "string \<Rightarrow> mem_reports \<Rightarrow> string + report" where
  "mem_GetReportByID k s = (case map_of (mpReports s) k of None \<Rightarrow> Inl (''report '' @ k @ '' not found'') | Some r \<Rightarrow> Inr r)"

text \<open>The first report of an order with a request id; none when a nil pointer is met before.\<close>

fun first_of_request :: "(string \<Rightarrow> report option) \<Rightarrow> string \<Rightarrow> string list \<Rightarrow> report option option" where
  "first_of_request get rid [] = Some None"
| "first_of_request get rid (k # ks) = (case get k of
     None \<Rightarrow> None | Some r \<Rightarrow> if rpRequest r = rid then Some (Some r) else first_of_request get rid ks)"

definition mem_GetReportByRequestID :: "string \<Rightarrow> mem_reports \<Rightarrow> report option option" where
  "mem_GetReportByRequestID rid s = first_of_request (map_of (mpReports s)) rid (mpOrder s)"

definition report_slice :: "nat \<Rightarrow> nat \<Rightarrow> 'a list \<Rightarrow> 'a list" where
  "report_slice off0 n xs = (let off = min off0 (length xs); stop = min (off + n) (length xs) in take (stop - off) (drop off xs))"

text \<open>A nil pointer is used by a filter and by every comparison; the only entry of a list that is not filtered is not looked at.\<close>

definition mem_ListReports :: "report_query \<Rightarrow> mem_reports \<Rightarrow> (string + (report option list \<times> nat)) option" where
  "mem_ListReports q s =
    (let found = map (map_of (mpReports s)) (mpOrder s)
     in if None \<in> set found
        then (if qyTask q = [] \<and> qyFormat q = [] \<and> length found = 1 then Some (Inr (report_slice (qyOffset q) (qyLimit q) found, 1)) else None)
        else let kept = filter (\<lambda>r. (qyTask q = [] \<or> equal_fold (rpTask r) (qyTask q)) \<and> (qyFormat q = [] \<or> rpFormat r = qyFormat q)) (map the found)
          in Some (Inr (map Some (report_slice (qyOffset q) (qyLimit q) (sort_reports (qySortBy q) (qyDesc q) kept)), length kept)))"

definition builtinTemplates :: "report_template list" where
  "builtinTemplates =
    [\<lparr>ttId = ''tpl-summary'', ttName = (utf8 [232, 158, 141, 229, 144, 136, 229, 174, 161, 232,
        174, 161, 230, 145, 152, 232, 166, 129]), ttDescription = (utf8 [232, 158, 141, 229, 144, 136,
        230, 138, 165, 229, 145, 138, 230, 168, 161, 230, 157, 191, 239, 188, 154, 231, 187, 159, 232,
        174, 161] @ ''+'' @ utf8 [232, 175, 175, 230, 138, 165] @ ''+AI'' @ utf8 [231, 139, 172, 230,
        156, 137, 229, 143, 145, 231, 142, 176])\<rparr>,
     \<lparr>ttId = ''tpl-comparison'', ttName = (utf8 [229, 175, 185, 230, 175, 148, 230, 138, 165,
         229, 145, 138]), ttDescription = (utf8 [230, 168, 161, 229, 188, 143] @ ''C'' @ utf8 [229,
         155, 155, 232, 177, 161, 233, 153, 144, 229, 175, 185, 230, 175, 148, 230, 168, 161, 230, 157,
         191, 239, 188, 136] @ ''04 '' @ utf8 [194, 167] @ ''3.3'' @ utf8 [239, 188, 137])\<rparr>,
     \<lparr>ttId = ''tpl-review'', ttName = (utf8 [229, 174, 161, 230, 160, 184, 230, 138, 165, 229,
         145, 138]), ttDescription = (utf8 [230, 168, 161, 229, 188, 143] @ ''D'' @ utf8 [230, 149,
         180, 228, 189, 147, 232, 175, 132, 228, 188, 176] @ ''+'' @ utf8 [233, 128, 144, 230, 157,
         161, 229, 174, 161, 230, 160, 184, 230, 168, 161, 230, 157, 191, 239, 188, 136] @ ''04 '' @
         utf8 [194, 167] @ ''3.4'' @ utf8 [239, 188, 137])\<rparr>]"

definition mem_ListTemplates :: "nat \<Rightarrow> mem_reports \<Rightarrow> string + report_template list" where
  "mem_ListTemplates n s =
    Inr (take (if n = 0 \<or> n > length builtinTemplates then length builtinTemplates else n) builtinTemplates)"

definition mem_GetTemplateByID :: "string \<Rightarrow> mem_reports \<Rightarrow> string + report_template" where
  "mem_GetTemplateByID k s =
    (case find (\<lambda>t. ttId t = k) builtinTemplates of Some t \<Rightarrow> Inr t | None \<Rightarrow> Inl (''template '' @ k @ '' not found''))"

definition memory_reports :: "mem_reports report_repo" where
  "memory_reports = \<lparr>rrCreate = mem_CreateReport, rrGet = mem_GetReportByID, rrByRequest = mem_GetReportByRequestID,
     rrList = mem_ListReports, rrTemplates = mem_ListTemplates, rrTemplate = mem_GetTemplateByID, rrUpdate = mem_UpdateReport,
     rrDelete = mem_DeleteReport\<rparr>"

section \<open>The table\<close>

type_synonym pg_reports = "(string \<times> report) list"

definition pg_DeleteReport :: "(string \<Rightarrow> string option) \<Rightarrow> string \<Rightarrow> pg_reports \<Rightarrow> string option \<times> pg_reports" where
  "pg_DeleteReport fails k s = (case fails ''delete'' of Some e \<Rightarrow> (Some e, s) | None \<Rightarrow> (None, AList.delete k s))"

definition fits_report_columns :: "report \<Rightarrow> bool" where
  "fits_report_columns r \<longleftrightarrow> length (runes (rpId r)) \<le> 255 \<and> length (runes (rpTask r)) \<le> 255 \<and> length (runes (rpTemplate r)) \<le> 100 \<and>
     length (runes (rpFormat r)) \<le> 50 \<and> length (runes (rpStatus r)) \<le> 20 \<and> length (runes (rpRequest r)) \<le> 255"

definition pg_CreateReport :: "(string \<Rightarrow> string option) \<Rightarrow> report \<Rightarrow> pg_reports \<Rightarrow> string option \<times> pg_reports" where
  "pg_CreateReport fails r s = (case fails ''create'' of
     Some e \<Rightarrow> (Some e, s)
   | None \<Rightarrow>
       if \<not> fits_report_columns r then (Some ''value too long'', s)
       else if map_of s (rpId r) \<noteq> None \<or> (\<exists>x \<in> set (map snd s). rpRequest x = rpRequest r)
       then (Some ''duplicate key value violates unique constraint'', s)
       else (None, AList.update (rpId r) r s))"

definition pg_UpdateReport :: "(string \<Rightarrow> string option) \<Rightarrow> gotime \<Rightarrow> report \<Rightarrow> pg_reports \<Rightarrow> string option \<times> pg_reports" where
  "pg_UpdateReport fails now r s = (case fails ''update'' of
     Some e \<Rightarrow> (Some e, s)
   | None \<Rightarrow> (None, case map_of s (rpId r) of
       None \<Rightarrow> s | Some old \<Rightarrow> AList.update (rpId r) (old\<lparr>rpUrl := rpUrl r, rpUpdated := now\<rparr>) s))"

definition no_rows :: string where "no_rows = ''sql: no rows in result set''"

definition pg_GetReportByID :: "(string \<Rightarrow> string option) \<Rightarrow> string \<Rightarrow> pg_reports \<Rightarrow> string + report" where
  "pg_GetReportByID fails k s = (case fails ''get'' of
     Some e \<Rightarrow> Inl e | None \<Rightarrow> (case map_of s k of None \<Rightarrow> Inl no_rows | Some r \<Rightarrow> Inr r))"

definition pg_GetReportByRequestID :: "(string \<Rightarrow> string option) \<Rightarrow> string \<Rightarrow> pg_reports \<Rightarrow> report option option" where
  "pg_GetReportByRequestID fails rid s =
    Some (if fails ''by-request'' \<noteq> None then None else find (\<lambda>r. rpRequest r = rid) (map snd s))"

definition reportSortColumns :: "string list" where
  "reportSortColumns = [''report_id'', ''task_id'', ''format'', ''generated_at'']"

definition pg_ListReports :: "(string \<Rightarrow> string option) \<Rightarrow> report_query \<Rightarrow> pg_reports \<Rightarrow> (string + (report option list \<times> nat)) option" where
  "pg_ListReports fails q s = Some
    (if qySortBy q \<notin> set reportSortColumns then Inl (''invalid sort field: '' @ qySortBy q)
     else case fails ''list'' of
       Some e \<Rightarrow> Inl e
     | None \<Rightarrow>
         (let kept = filter (\<lambda>r. (qyTask q = [] \<or> rpTask r = qyTask q) \<and> (qyFormat q = [] \<or> rpFormat r = qyFormat q)) (map snd s)
          in Inr (map Some (report_slice (qyOffset q) (qyLimit q) (sort_reports (qySortBy q) (qyDesc q) kept)), length kept)))"

text \<open>The templates the tables are made with, in the order of their names; nothing writes others.\<close>

definition default_templates :: "report_template list" where
  "default_templates =
    [\<lparr>ttId = ''tpl_default'', ttName = ''Default Report'', ttDescription = ''Standard audit report template''\<rparr>,
     \<lparr>ttId = ''tpl_detailed'', ttName = ''Detailed Technical'', ttDescription = ''Comprehensive technical report''\<rparr>,
     \<lparr>ttId = ''tpl_executive'', ttName = ''Executive Summary'', ttDescription = ''High-level summary for management''\<rparr>]"

definition pg_ListTemplates :: "(string \<Rightarrow> string option) \<Rightarrow> nat \<Rightarrow> pg_reports \<Rightarrow> string + report_template list" where
  "pg_ListTemplates fails n s = (case fails ''templates'' of Some e \<Rightarrow> Inl e | None \<Rightarrow> Inr (take n default_templates))"

definition pg_GetTemplateByID :: "(string \<Rightarrow> string option) \<Rightarrow> string \<Rightarrow> pg_reports \<Rightarrow> string + report_template" where
  "pg_GetTemplateByID fails k s = (case fails ''template'' of
     Some e \<Rightarrow> Inl e | None \<Rightarrow> (case find (\<lambda>t. ttId t = k) default_templates of None \<Rightarrow> Inl no_rows | Some t \<Rightarrow> Inr t))"

definition postgres_reports :: "(string \<Rightarrow> string option) \<Rightarrow> pg_reports report_repo" where
  "postgres_reports fails = \<lparr>rrCreate = (\<lambda>now. pg_CreateReport fails), rrGet = pg_GetReportByID fails,
     rrByRequest = pg_GetReportByRequestID fails, rrList = pg_ListReports fails, rrTemplates = pg_ListTemplates fails,
     rrTemplate = pg_GetTemplateByID fails, rrUpdate = pg_UpdateReport fails, rrDelete = pg_DeleteReport fails\<rparr>"

end
