(* ===== verification/ReportService.thy ===== *)
theory ReportService imports Main "HOL-Library.Monad_Syntax" Prelude GoText GraphState Findings Orchestrator
  Projects ResultStore Results Reports begin

text \<open>
  The report service (\<open>internal/service/report_service.go\<close>), what it does for a completed task
  (\<open>event_consumer.go\<close>), and the page it renders.

  The JSON of a report, the text of a time, the code in a JSON text and the storage service are arguments. A panic is \<open>None\<close> as a
  result; a loop over pages that never ended would be no result at all.
\<close>

section \<open>Content\<close>

record report_item =
  riId :: string
  riRule :: string
  riCwe :: string
  riSeverity :: string
  riFile :: string
  riLine :: int
  riDirection :: string
  riTier :: string
  riTitle :: string
  riRaw :: string

definition report_item_of :: "stored_finding \<Rightarrow> report_item" where
  "report_item_of f = \<lparr>riId = fdId f, riRule = fdRule f, riCwe = fdCwe f, riSeverity = fdSeverity f, riFile = fdFile f, riLine = fdLine f,
     riDirection = fdDirection f, riTier = fdTier f, riTitle = fdMessage f, riRaw = fdRaw f\<rparr>"

record report_summary =
  suTotal :: nat
  suTrue :: nat
  suFalse :: nat
  suOpen :: nat

definition count_item :: "stored_finding \<Rightarrow> report_summary \<Rightarrow> report_summary" where
  "count_item f su0 =
    (let su = su0\<lparr>suTotal := suTotal su0 + 1\<rparr>; d = direction_value (fdDirection f); t = tier_value (fdTier f)
     in if IsConfirmedTrue d t then su\<lparr>suTrue := suTrue su + 1\<rparr>
        else if IsConfirmedFalse d t then su\<lparr>suFalse := suFalse su + 1\<rparr> else su\<lparr>suOpen := suOpen su + 1\<rparr>)"

definition summary_of :: "stored_finding list \<Rightarrow> report_summary" where
  "summary_of fs = fold count_item fs \<lparr>suTotal = 0, suTrue = 0, suFalse = 0, suOpen = 0\<rparr>"

record report_payload =
  pyTask :: string
  pyTemplate :: string
  pyGenerated :: string
  pySummary :: report_summary
  pyItems :: "report_item list"

section \<open>The page\<close>

definition esc_char :: "char \<Rightarrow> string" where
  "esc_char c = (if c = CHR ''&'' then ''&amp;'' else if c = CHR ''<'' then ''&lt;'' else if c = CHR ''>'' then ''&gt;''
     else if c = CHR 0x22 then ''&#34;'' else if c = CHR 0x27 then ''&#39;'' else [c])"

definition htmlEsc :: "string \<Rightarrow> string" where
  "htmlEsc s = concat (map esc_char s)"

definition verdictLabelZh :: "string \<Rightarrow> string \<Rightarrow> string" where
  "verdictLabelZh direction tier =
    (if suffix ''_TRUE'' direction \<and> suffix ''_DEFINITE'' tier then (utf8 [231, 161, 174, 232,
        174, 164, 228, 184, 186, 231, 156, 159])
     else if suffix ''_FALSE'' direction \<and> suffix ''_DEFINITE'' tier then (utf8 [232, 175, 175,
         230, 138, 165])
     else if suffix ''_TRUE'' direction then (utf8 [229, 143, 175, 232, 131, 189, 228, 184, 186, 231,
         156, 159])
     else if suffix ''_FALSE'' direction then (utf8 [229, 143, 175, 232, 131, 189, 232, 175, 175, 230,
         138, 165]) else (utf8 [230, 156, 170, 229, 136, 164, 229, 174, 154]))"

text \<open>The code of a JSON object, if there is any; else the text as it is.\<close>

definition snippetOf :: "(string \<Rightarrow> string option) \<Rightarrow> report_item \<Rightarrow> string" where
  "snippetOf code it =
    (if riRaw it = [] then (utf8 [226, 128,
        148]) else case code (riRaw it) of Some c \<Rightarrow> if c = [] then riRaw it else c | None \<Rightarrow> riRaw it)"

text \<open>A double quote.\<close>

abbreviation dq :: string where "dq \<equiv> [CHR 0x22]"

definition page_style :: string where
  "page_style = ''body{font-family:system-ui,sans-serif;margin:24px;color:#1a2233}'' @
     ''table{border-collapse:collapse;width:100%;font-size:14px}'' @
     ''td,th{border:1px solid #d7dce6;padding:6px 10px;text-align:left;vertical-align:top}'' @
     ''th{background:#f0f3f9}pre{background:#0b1021;color:#d6e2ff;padding:8px;border-radius:4px;overflow-x:auto;font-size:12px}'' @
     ''.sev-CRITICAL,.sev-HIGH{color:#c0392b;font-weight:600}.sev-MEDIUM{color:#d68910}.sev-LOW{color:#7d8a99}''"

definition page_head :: string where
  "page_head = ''<!doctype html><html lang='' @ dq @ ''zh-CN'' @ dq @ ''><head><meta charset='' @ dq @ ''utf-8'' @ dq @ ''>'' @
     ''<title>'' @ (''CodeAudit '' @ utf8 [229, 174, 161, 232, 174, 161, 230, 138, 165, 229, 145,
         138]) @ ''</title><style>'' @ page_style @ ''</style></head><body>''"

definition render_row :: "(string \<Rightarrow> string option) \<Rightarrow> report_item \<Rightarrow> string" where
  "render_row code it = ''<tr>'' @
     ''<td class='' @ dq @ ''sev-'' @ htmlEsc (riSeverity it) @ dq @ ''>'' @ htmlEsc (riSeverity it) @ ''</td>'' @
     ''<td>'' @ htmlEsc (riCwe it) @ ''</td>'' @
     ''<td>'' @ htmlEsc (riRule it) @ ''</td>'' @
     ''<td>'' @ htmlEsc (riFile it) @ '':'' @ int_digits (riLine it) @ ''</td>'' @
     ''<td>'' @ htmlEsc (verdictLabelZh (riDirection it) (riTier it)) @ ''</td>'' @
     ''<td>'' @ htmlEsc (riTitle it) @ ''</td>'' @
     ''<td><pre>'' @ htmlEsc (snippetOf code it) @ ''</pre></td>'' @ ''</tr>''"

definition table_head :: string where
  "table_head = ''<table><tr><th>'' @ (utf8 [228, 184, 165, 233, 135, 141, 231, 186, 167]) @
      ''</th><th>CWE</th><th>'' @ (utf8 [232, 167, 132, 229, 136, 153]) @ ''</th><th>'' @ (utf8 [228,
      189, 141, 231, 189, 174]) @ ''</th><th>'' @ (utf8 [231, 187, 147, 232, 174, 186]) @
     ''</th><th>'' @ (utf8 [230, 160, 135, 233, 162, 152] @ ''/'' @ utf8 [232, 175, 180, 230, 152,
         142]) @ ''</th><th>'' @ (utf8 [228, 187, 163, 231, 160, 129, 228, 184, 138, 228, 184, 139,
         230, 150, 135]) @ ''</th></tr>''"

definition render_summary :: "report_summary \<Rightarrow> string" where
  "render_summary su = ''<li>'' @ (utf8 [229, 143, 145, 231, 142, 176, 230, 128, 187, 230, 149, 176,
      239, 188, 154]) @ nat_digits (suTotal su) @ ''</li><li>'' @ (utf8 [231, 161, 174, 232, 174, 164,
      228, 184, 186, 231, 156, 159, 239, 188, 154]) @ nat_digits (suTrue su) @
     ''</li><li>'' @ (utf8 [232, 175, 175, 230, 138, 165, 239, 188, 154]) @ nat_digits (suFalse su) @
         ''</li><li>'' @ (utf8 [230, 156, 170, 229, 164, 141, 230, 160, 184, 239, 188, 154]) @
         nat_digits (suOpen su) @ ''</li>''"

definition renderHTMLReport :: "(string \<Rightarrow> string option) \<Rightarrow> report_payload \<Rightarrow> string" where
  "renderHTMLReport code p = page_head @
     ''<h1>'' @ (''CodeAudit '' @ utf8 [229, 174, 161, 232, 174, 161, 230, 138, 165, 229, 145, 138] @
         '' '' @ utf8 [226, 128, 148] @ '' '' @ utf8 [228, 187, 187, 229, 138, 161] @ '' '') @
         htmlEsc (pyTask p) @ ''</h1>'' @
     ''<p>'' @ (utf8 [231, 148, 159, 230, 136, 144, 230, 151, 182, 233, 151, 180, 239, 188, 154]) @
         htmlEsc (pyGenerated p) @ ('' '' @ utf8 [239, 189, 156] @ '' '' @ utf8 [230, 168, 161, 230,
         157, 191, 239, 188, 154]) @ htmlEsc (pyTemplate p) @ ''</p>'' @
     ''<h2>'' @ (utf8 [230, 145, 152, 232, 166, 129]) @ ''</h2><ul>'' @ render_summary (pySummary p) @
         ''</ul><h2>'' @ (utf8 [229, 143, 145, 231, 142, 176, 230, 152, 142, 231, 187, 134]) @ ''</h2>'' @
     (if pyItems p = [] then ''<p>'' @ (utf8 [230, 156, 172, 228, 187, 187, 229, 138, 161, 230, 151,
         160, 229, 143, 145, 231, 142, 176, 227, 128, 130]) @ ''</p>'' else []) @
     table_head @ concat (map (render_row code) (pyItems p)) @ ''</table></body></html>''"

section \<open>Generating\<close>

text \<open>The findings, if a store of them is set: a task and a cursor give a page of a hundred; the JSON of a payload; the RFC 3339 text
  of a time; the code in a JSON text; and the storage service, if its address is set: a path and the chunks of a file give an error or
  the path it is stored at.\<close>

record report_env =
  reFindings :: "(string \<Rightarrow> string \<Rightarrow> string + (stored_finding list \<times> string)) option"
  reJson :: "report_payload \<Rightarrow> string + string"
  reTime :: "gotime \<Rightarrow> string"
  reCode :: "string \<Rightarrow> string option"
  reUpload :: "(string \<Rightarrow> string list \<Rightarrow> string + string) option"

definition report_text :: "report_env \<Rightarrow> gotime \<Rightarrow> string \<Rightarrow> string \<Rightarrow> stored_finding list \<Rightarrow> string + string" where
  "report_text x now task template fs =
    (let p = \<lparr>pyTask = task, pyTemplate = template, pyGenerated = reTime x now, pySummary = summary_of fs, pyItems = map report_item_of fs\<rparr>
     in if template = ''html'' then Inr (renderHTMLReport (reCode x) p)
        else case reJson x p of Inl e \<Rightarrow> Inl (''marshal report content: '' @ e) | Inr t \<Rightarrow> Inr t)"

definition generateReportContent :: "report_env \<Rightarrow> gotime \<Rightarrow> string \<Rightarrow> string \<Rightarrow> (string + string) option" where
  "generateReportContent x now task template = (case reFindings x of
     None \<Rightarrow> Some (report_text x now task template [])
   | Some fetch \<Rightarrow> Option.bind (gather (fetch task) [])
       (\<lambda>r. Some (case r of Inl e \<Rightarrow> Inl (''aggregate findings for report: '' @ e) | Inr fs \<Rightarrow> report_text x now task template fs)))"

definition uploadChunkSize :: nat where "uploadChunkSize = 64 * 1024"

function upload_chunks :: "nat \<Rightarrow> nat \<Rightarrow> string \<Rightarrow> string list" where
  "upload_chunks begun i data =
    (if begun < length data \<or> i = 0
     then (let stop = (if begun + uploadChunkSize > length data then length data else begun + uploadChunkSize)
           in take (stop - begun) (drop begun data) # (if begun \<ge> length data then [] else upload_chunks stop (i + 1) data))
     else [])"
  by pat_completeness auto
termination
  by (relation "measure (\<lambda>(begun, i, data). length data - begun)") (auto simp: uploadChunkSize_def split: if_splits)

declare upload_chunks.simps [simp del]

definition uploadReportToStorage :: "(string \<Rightarrow> string list \<Rightarrow> string + string) \<Rightarrow> report \<Rightarrow> string + string" where
  "uploadReportToStorage send r = (case send (''reports/'' @ rpId r @ ''.json'') (upload_chunks 0 0 (rpContent r)) of
     Inl e \<Rightarrow> Inl e | Inr path \<Rightarrow> Inr (''minio://'' @ path))"

datatype report_format = RfUnspecified | RfPdf | RfHtml | RfJson | RfCsv | RfOther int

fun report_format_String :: "report_format \<Rightarrow> string" where
  "report_format_String RfUnspecified = ''REPORT_FORMAT_UNSPECIFIED''"
| "report_format_String RfPdf = ''REPORT_FORMAT_PDF''"
| "report_format_String RfHtml = ''REPORT_FORMAT_HTML''"
| "report_format_String RfJson = ''REPORT_FORMAT_JSON''"
| "report_format_String RfCsv = ''REPORT_FORMAT_CSV''"
| "report_format_String (RfOther n) = int_digits n"

definition report_format_value :: "string \<Rightarrow> report_format" where
  "report_format_value s =
    (case find (\<lambda>f. report_format_String f = s) [RfPdf, RfHtml, RfJson, RfCsv] of Some f \<Rightarrow> f | None \<Rightarrow> RfUnspecified)"

record report_request =
  rtTask :: string
  rtTemplate :: string
  rtFormat :: report_format

definition template_of :: "report_request \<Rightarrow> string" where
  "template_of rq = (if rtTemplate rq = [] \<and> rtFormat rq = RfHtml then ''html'' else rtTemplate rq)"

definition new_report :: "gotime \<Rightarrow> string \<Rightarrow> report_request \<Rightarrow> report" where
  "new_report now rid rq = \<lparr>rpId = ''report_'' @ rtTask rq @ ''_'' @ rid, rpTask = rtTask rq, rpTemplate = template_of rq,
     rpFormat = report_format_String (rtFormat rq), rpUrl = [], rpStatus = ''GENERATING'', rpContent = [], rpError = [],
     rpCreated = now, rpUpdated = now, rpCompleted = None, rpRequest = rid\<rparr>"

text \<open>Archiving a saved report: its failures leave the saved copy.\<close>

definition archive_report :: "'s report_repo \<Rightarrow> report_env \<Rightarrow> gotime \<Rightarrow> report \<Rightarrow> 's \<Rightarrow> 's" where
  "archive_report R x now r s = (case reUpload x of
     None \<Rightarrow> s
   | Some send \<Rightarrow> (case uploadReportToStorage send r of Inl _ \<Rightarrow> s | Inr u \<Rightarrow> snd (rrUpdate R now (r\<lparr>rpUrl := u\<rparr>) s)))"

text \<open>What is saved for the outcome of the generation, and what is answered.\<close>

definition save_report ::
  "'s report_repo \<Rightarrow> report_env \<Rightarrow> gotime \<Rightarrow> report \<Rightarrow> string + string \<Rightarrow> 's \<Rightarrow> (grpc_error + string) \<times> 's" where
  "save_report R x now r content s = (case content of
     Inl e \<Rightarrow> (case rrCreate R now (r\<lparr>rpStatus := ''FAILED'', rpError := e\<rparr>) s of
       (Some err, s1) \<Rightarrow> (Inl (Internal, ''failed to save report: '' @ err), s1)
     | (None, s1) \<Rightarrow> (Inl (FailedPrecondition,
         ''report content generation failed (report_id='' @ rpId r @ '', retry reuses same id): '' @ e), s1))
   | Inr t \<Rightarrow>
       (let done_r = r\<lparr>rpContent := t, rpStatus := ''COMPLETED'', rpCompleted := Some now\<rparr>
        in case rrCreate R now done_r s of
             (Some err, s1) \<Rightarrow> (Inl (Internal, ''failed to save report: '' @ err), s1)
           | (None, s1) \<Rightarrow> (Inr (rpId r), archive_report R x now done_r s1)))"

definition build_report ::
  "'s report_repo \<Rightarrow> report_env \<Rightarrow> gotime \<Rightarrow> string \<Rightarrow> report_request \<Rightarrow> 's \<Rightarrow> ((grpc_error + string) option \<times> 's) option" where
  "build_report R x now rid rq s = Option.bind (generateReportContent x now (rtTask rq) (template_of rq))
     (\<lambda>content. Some (let (a, s1) = save_report R x now (new_report now rid rq) content s in (Some a, s1)))"

definition GenerateReport ::
  "'s report_repo \<Rightarrow> report_env \<Rightarrow> gotime \<Rightarrow> string option \<Rightarrow> report_request \<Rightarrow> 's \<Rightarrow> ((grpc_error + string) option \<times> 's) option" where
  "GenerateReport R x now rid rq s =
    (if \<not> has_key rid then Some (Some (Inl no_request_key), s)
     else if rtTask rq = [] then Some (Some (Inl (InvalidArgument, ''task_id is required'')), s)
     else case rrByRequest R (the rid) s of
       None \<Rightarrow> Some (None, s)
     | Some None \<Rightarrow> build_report R x now (the rid) rq s
     | Some (Some old) \<Rightarrow>
         if rpStatus old \<noteq> ''FAILED''
         then Some (Some (if rpTask old \<noteq> rtTask rq
                then Inl (AlreadyExists, ''request_id '' @ the rid @
                    ('' already used for a different task (03 '' @ utf8 [194, 167] @ ''2)''))
                else Inr (rpId old)), s)
         else (case rrDelete R (rpId old) s of
           (Some e, s1) \<Rightarrow> Some (Some (Inl (Internal, ''failed to clear FAILED report '' @ rpId old @ '': '' @ e)), s1)
         | (None, s1) \<Rightarrow> build_report R x now (the rid) rq s1))"

text \<open>The interceptor makes an error of a panic.\<close>

definition recovered :: "(grpc_error + 'a) option \<Rightarrow> grpc_error + 'a" where
  "recovered a = (case a of Some r \<Rightarrow> r
   | None \<Rightarrow> Inl (Internal, ''internal panic: runtime error: invalid memory address or nil pointer dereference''))"

section \<open>A completed task\<close>

text \<open>The event of a task asks for its report under a key made of the task. Nothing recovers here: a panic ends the process.\<close>

definition HandleTaskCompleted ::
  "'s report_repo \<Rightarrow> report_env \<Rightarrow> gotime \<Rightarrow> string \<Rightarrow> 's \<Rightarrow> ((grpc_error + string) option \<times> 's) option" where
  "HandleTaskCompleted R x now task s =
    GenerateReport R x now (Some (''kafka_'' @ task)) \<lparr>rtTask = task, rtTemplate = ''standard'', rtFormat = RfUnspecified\<rparr> s"

text \<open>A message: its headers and its value, and how the value is read as an event: an error or the task. The answer is the error
  that is logged, if any.\<close>

definition processMessage ::
  "'s report_repo \<Rightarrow> report_env \<Rightarrow> gotime \<Rightarrow> (string \<Rightarrow> string + string) \<Rightarrow> (string \<times> string) list \<times> string \<Rightarrow> 's \<Rightarrow>
    (string option option \<times> 's) option" where
  "processMessage R x now read msg s = (case msg of (headers, data) \<Rightarrow>
     let kind = (case map_of headers ''event_type'' of Some k \<Rightarrow> k | None \<Rightarrow> [])
     in if kind \<noteq> ''task.completed'' then Some (Some None, s)
        else (case read data of
          Inl e \<Rightarrow> Some (Some (Some (''failed to unmarshal task.completed event: '' @ e)), s)
        | Inr task \<Rightarrow> Option.bind (HandleTaskCompleted R x now task s)
            (\<lambda>(a, s1). Some (map_option (\<lambda>r. case r of Inl (_, e) \<Rightarrow> Some e | Inr _ \<Rightarrow> None) a, s1))))"

section \<open>Reading\<close>

record report_message =
  rmId :: string
  rmTask :: string
  rmFormat :: report_format
  rmUrl :: string
  rmGenerated :: gotime

definition reportURL :: "report \<Rightarrow> string" where
  "reportURL r = (if rpUrl r \<noteq> [] then rpUrl r else ''report://'' @ rpId r)"

definition report_to_proto :: "report \<Rightarrow> report_message" where
  "report_to_proto r = \<lparr>rmId = rpId r, rmTask = rpTask r, rmFormat = report_format_value (rpFormat r), rmUrl = reportURL r,
     rmGenerated = rpCreated r\<rparr>"

definition GetReport :: "'s report_repo \<Rightarrow> string \<Rightarrow> 's \<Rightarrow> grpc_error + report_message" where
  "GetReport R k s =
    (if k = [] then Inl (InvalidArgument, ''report_id is required'')
     else case rrGet R k s of Inl e \<Rightarrow> Inl (NotFound, ''report not found: '' @ e) | Inr r \<Rightarrow> Inr (report_to_proto r))"

definition reportSortParams :: "sort_request \<Rightarrow> grpc_error + (string \<times> bool)" where
  "reportSortParams so = (case so of
     None \<Rightarrow> Inr (''report_id'', True)
   | Some (fld, ascending) \<Rightarrow>
       if fld = [] then Inr (''report_id'', True)
       else if fld \<in> set [''report_id'', ''task_id'', ''format'', ''generated_at''] then Inr (fld, \<not> ascending)
       else Inl (InvalidArgument, ''unsupported sort field: '' @ fld))"

fun report_conditions :: "(string \<times> filter_op \<times> string) list \<Rightarrow> string \<Rightarrow> grpc_error + string" where
  "report_conditions [] r = Inr r"
| "report_conditions ((fld, op, x) # cs) r =
    (if fld \<noteq> ''format'' \<or> op \<noteq> OpEq
     then Inl (InvalidArgument, ''unsupported filter (only format EQ): '' @ fld @ '' '' @ filter_op_String op)
     else report_conditions cs x)"

definition reportFormatFilter :: "filter_request \<Rightarrow> grpc_error + string" where
  "reportFormatFilter f = (case f of
     None \<Rightarrow> Inr []
   | Some (any_of, cs) \<Rightarrow> if any_of then Inl (InvalidArgument, ''filter operator OR unsupported (AND only)'') else report_conditions cs [])"

text \<open>The reports of a page, the next cursor, whether there is more, and the total.\<close>

definition ListReports ::
  "'s report_repo \<Rightarrow> page_request \<Rightarrow> string \<Rightarrow> sort_request \<Rightarrow> filter_request \<Rightarrow> 's \<Rightarrow>
    (grpc_error + (report_message list \<times> page_answer)) option" where
  "ListReports R pr task so f s = (case cursor_offset atoi pr of
     None \<Rightarrow> Some (Inl (InvalidArgument, (''invalid cursor (03 '' @ utf8 [194, 167] @ ''5)'')))
   | Some offset \<Rightarrow> (case reportSortParams so of
       Inl e \<Rightarrow> Some (Inl e)
     | Inr (by_key, desc) \<Rightarrow> (case reportFormatFilter f of
         Inl e \<Rightarrow> Some (Inl e)
       | Inr fmt \<Rightarrow> (case rrList R \<lparr>qyOffset = offset, qyLimit = nat (page_size pr), qyTask = task, qyFormat = fmt, qySortBy = by_key,
             qyDesc = desc\<rparr> s of
           None \<Rightarrow> None
         | Some (Inl e) \<Rightarrow> Some (Inl (Internal, ''failed to list reports: '' @ e))
         | Some (Inr (rs, found)) \<Rightarrow>
             if None \<in> set rs then None
             else let nxt = wrap64 (int offset + page_size pr); more = nxt < int found
               in Some (Inr (map (report_to_proto \<circ> the) rs, (if more then int_digits nxt else [], more, int32 (int found))))))))"

definition ListTemplates :: "'s report_repo \<Rightarrow> page_request \<Rightarrow> 's \<Rightarrow> grpc_error + report_template list" where
  "ListTemplates R pr s = (case rrTemplates R (nat (page_size pr)) s of
     Inl e \<Rightarrow> Inl (Internal, ''failed to list templates: '' @ e) | Inr ts \<Rightarrow> Inr ts)"

definition GetTemplate :: "'s report_repo \<Rightarrow> string \<Rightarrow> 's \<Rightarrow> grpc_error + report_template" where
  "GetTemplate R k s =
    (if k = [] then Inl (InvalidArgument, ''template_id is required'')
     else case rrTemplate R k s of Inl e \<Rightarrow> Inl (NotFound, ''template not found: '' @ e) | Inr t \<Rightarrow> Inr t)"

definition downloadChunk :: nat where "downloadChunk = 1024 * 1024"

function download_chunks :: "nat \<Rightarrow> string \<Rightarrow> string list" where
  "download_chunks i content =
    (if i < length content
     then (let stop = (if i + downloadChunk > length content then length content else i + downloadChunk)
           in take (stop - i) (drop i content) # download_chunks (i + downloadChunk) content)
     else [])"
  by pat_completeness auto
termination by (relation "measure (\<lambda>(i, content). length content - i)") (auto simp: downloadChunk_def)

declare download_chunks.simps [simp del]

text \<open>The chunks that are sent up to the first that fails.\<close>

definition DownloadReport :: "'s report_repo \<Rightarrow> (nat \<Rightarrow> string option) \<Rightarrow> string \<Rightarrow> 's \<Rightarrow> string list \<times> grpc_error option" where
  "DownloadReport R send_fails k s =
    (if k = [] then ([], Some (InvalidArgument, ''report_id is required''))
     else case rrGet R k s of
       Inl e \<Rightarrow> ([], Some (NotFound, ''report not found: '' @ e))
     | Inr r \<Rightarrow>
         if rpStatus r \<noteq> ''COMPLETED'' then ([], Some (FailedPrecondition, ''report is not completed, status: '' @ rpStatus r))
         else let chunks = download_chunks 0 (rpContent r)
           in case find (\<lambda>i. send_fails i \<noteq> None) [0..<length chunks] of
                Some i \<Rightarrow> (take i chunks, Some (Internal, ''failed to send chunk: '' @ the (send_fails i)))
              | None \<Rightarrow> (chunks, None))"

end
