(* ===== verification/ReportRules.thy ===== *)
theory ReportRules imports Main Prelude GoText GraphState GraphInv Findings Orchestrator Projects ProjectRules
  ResultStore Results ResultRules ResultProps Reports ReportService begin

text \<open>
  What the report service promises: its page carries no markup of the code it shows, a download is the content in pieces, the
  summary adds up and counts every finding of the task, a request key answers once; and what a retry for another task leaves behind.
\<close>

section \<open>Pieces\<close>

lemma download_chunks_concat: "concat (download_chunks i c) = drop i c"
proof (induction i c rule: download_chunks.induct)
  case (1 i c)
  let ?e = "if i + downloadChunk > length c then length c else i + downloadChunk"
  show ?case
  proof (cases "i < length c")
    case True
    have "concat (download_chunks i c) = take (?e - i) (drop i c) @ drop (i + downloadChunk) c"
      by (subst download_chunks.simps) (simp add: True Let_def 1[OF True refl])
    also have "drop (i + downloadChunk) c = drop ?e c" by simp
    also have "take (?e - i) (drop i c) @ drop ?e c = drop i c"
    proof -
      have "drop ?e c = drop (?e - i) (drop i c)" using True by simp
      then show ?thesis by (simp del: drop_drop)
    qed
    finally show ?thesis .
  qed (subst download_chunks.simps, simp)
qed

lemma download_chunks_bound: "p \<in> set (download_chunks i c) \<Longrightarrow> length p \<le> downloadChunk"
proof (induction i c rule: download_chunks.induct)
  case (1 i c)
  show ?case
  proof (cases "i < length c")
    case True
    then show ?thesis using 1(2) 1(1)[OF True refl] by (subst (asm) download_chunks.simps) (auto simp: Let_def split: if_splits)
  qed (use 1(2) in \<open>subst (asm) download_chunks.simps, simp\<close>)
qed

text \<open>C30. A download of a report that was saved under a new id is its content, cut into pieces of at most a megabyte.\<close>

theorem download_gives_saved_content:
  assumes "map_of (mpReports s) (rpId r) = None" "rpId r \<noteq> []" "\<And>i. send_fails i = None"
  shows "\<exists>chunks. DownloadReport memory_reports send_fails (rpId r)
      (snd (save_report memory_reports (x\<lparr>reUpload := None\<rparr>) now r (Inr t) s)) = (chunks, None) \<and>
    concat chunks = t \<and> (\<forall>c \<in> set chunks. length c \<le> 1048576)"
proof -
  let ?s = "snd (save_report memory_reports (x\<lparr>reUpload := None\<rparr>) now r (Inr t) s)"
  have "\<exists>q. map_of (mpReports ?s) (rpId r) = Some q \<and> rpStatus q = ''COMPLETED'' \<and> rpContent q = t"
    using assms(1) by (simp add: save_report_def memory_reports_def mem_CreateReport_def archive_report_def update_conv' Let_def)
  moreover have none: "find (\<lambda>i. False) ns = None" for ns :: "nat list" by (simp add: find_None_iff)
  ultimately obtain q where "rrGet memory_reports (rpId r) ?s = Inr q" "rpStatus q = ''COMPLETED''" "rpContent q = t"
    by (auto simp: memory_reports_def mem_GetReportByID_def)
  then have "DownloadReport memory_reports send_fails (rpId r) ?s = (download_chunks 0 t, None)"
    using assms(2,3) none by (simp add: DownloadReport_def Let_def)
  then show ?thesis using download_chunks_concat[of 0 t] download_chunks_bound[of _ 0 t] by (auto simp: downloadChunk_def)
qed

definition sample_report :: "string \<Rightarrow> string \<Rightarrow> string \<Rightarrow> string \<Rightarrow> report" where
  "sample_report k task status rid = \<lparr>rpId = k, rpTask = task, rpTemplate = ''standard'', rpFormat = ''REPORT_FORMAT_UNSPECIFIED'', rpUrl = [],
     rpStatus = status, rpContent = [], rpError = [], rpCreated = 1, rpUpdated = 1, rpCompleted = None, rpRequest = rid\<rparr>"

definition sample_env :: report_env where
  "sample_env = \<lparr>reFindings = None, reJson = (\<lambda>p. Inr ''{}''), reTime = (\<lambda>t. ''now''), reCode = (\<lambda>s. None), reUpload = None\<rparr>"

theorem download_gives_saved_content_witness:
  "\<exists>chunks. DownloadReport memory_reports (\<lambda>i. None) ''r1''
      (snd (save_report memory_reports sample_env 7 (sample_report ''r1'' ''t'' ''GENERATING'' ''q'') (Inr ''text'') NewMemoryReportRepository)) =
      (chunks, None) \<and> concat chunks = ''text''"
proof -
  have "sample_env\<lparr>reUpload := None\<rparr> = sample_env" by (simp add: sample_env_def)
  then show ?thesis
    using download_gives_saved_content[of NewMemoryReportRepository "sample_report ''r1'' ''t'' ''GENERATING'' ''q''" "\<lambda>i. None" sample_env 7 "''text''"]
    by (auto simp: NewMemoryReportRepository_def sample_report_def)
qed

text \<open>The archive gets the same bytes.\<close>

lemma upload_chunks_concat: "concat (upload_chunks b i c) = drop b c"
proof (induction b i c rule: upload_chunks.induct)
  case (1 b i c)
  let ?e = "if b + uploadChunkSize > length c then length c else b + uploadChunkSize"
  show ?case
  proof (cases "b < length c")
    case True
    have "concat (upload_chunks b i c) = take (?e - b) (drop b c) @ drop ?e c"
      using 1[of ?e] True by (subst upload_chunks.simps) (simp add: Let_def)
    also have "drop ?e c = drop (?e - b) (drop b c)" using True by simp
    finally show ?thesis by (simp del: drop_drop)
  qed (subst upload_chunks.simps, simp add: Let_def)
qed

section \<open>The page\<close>

text \<open>What makes markup, and the shape of a page: its markup alone.\<close>

definition markup :: "char \<Rightarrow> bool" where
  "markup c \<longleftrightarrow> c = CHR ''<'' \<or> c = CHR ''>'' \<or> c = CHR 0x22 \<or> c = CHR 0x27"

lemma htmlEsc_no_markup [simp]: "filter markup (htmlEsc s) = []"
proof -
  have "c \<in> set (esc_char a) \<Longrightarrow> \<not> markup c" for a c by (auto simp: esc_char_def markup_def split: if_splits)
  then show ?thesis by (auto simp: htmlEsc_def filter_empty_conv)
qed

lemma nat_digits_no_markup [simp]: "filter markup (nat_digits n) = []"
  using nat_digits_all[of _ n] by (force simp: filter_empty_conv markup_def digit_val_def Let_def)

lemma int_digits_no_markup [simp]: "filter markup (int_digits i) = []"
  by (simp add: int_digits_def markup_def)

lemma row_shape: "filter markup (render_row code it) = filter markup (render_row code' it')"
  unfolding render_row_def filter_append htmlEsc_no_markup int_digits_no_markup by (rule refl)

lemma rows_shape:
  "length its = length its' \<Longrightarrow> filter markup (concat (map (render_row code) its)) = filter markup (concat (map (render_row code') its'))"
  by (induction its its' rule: list_induct2) (use row_shape in auto)

text \<open>C29. The tags and quotes of a report page depend on the number of its findings only: no text of a finding, a task or a
  piece of scanned code adds markup to the page.\<close>

theorem page_shape_is_fixed:
  assumes "length (pyItems p) = length (pyItems p')"
  shows "filter markup (renderHTMLReport code p) = filter markup (renderHTMLReport code' p')"
proof -
  have "pyItems p = [] \<longleftrightarrow> pyItems p' = []" using assms by (metis length_0_conv)
  then show ?thesis
    unfolding renderHTMLReport_def render_summary_def filter_append htmlEsc_no_markup nat_digits_no_markup rows_shape[OF assms, of code code']
    by (simp only:)
qed

definition sample_item :: "string \<Rightarrow> report_item" where
  "sample_item title = \<lparr>riId = [], riRule = [], riCwe = [], riSeverity = [], riFile = [], riLine = 1, riDirection = [], riTier = [],
     riTitle = title, riRaw = []\<rparr>"

definition sample_payload :: "string \<Rightarrow> report_payload" where
  "sample_payload title = \<lparr>pyTask = ''t'', pyTemplate = ''html'', pyGenerated = ''now'',
     pySummary = \<lparr>suTotal = 1, suTrue = 0, suFalse = 0, suOpen = 1\<rparr>, pyItems = [sample_item title]\<rparr>"

theorem page_shape_is_fixed_witness:
  "filter markup (renderHTMLReport (\<lambda>s. None) (sample_payload ''<script>'')) = filter markup (renderHTMLReport (\<lambda>s. None) (sample_payload ''x''))"
  by (rule page_shape_is_fixed) (simp add: sample_payload_def)

section \<open>Content\<close>

lemma summary_fold:
  "su = fold count_item fs su0 \<Longrightarrow> suTotal su0 = suTrue su0 + suFalse su0 + suOpen su0 \<Longrightarrow>
    suTotal su = suTotal su0 + length fs \<and> suTotal su = suTrue su + suFalse su + suOpen su"
proof (induction fs arbitrary: su0)
  case (Cons f fs)
  have "suTotal (count_item f su0) = suTotal su0 + 1"
    "suTotal (count_item f su0) = suTrue (count_item f su0) + suFalse (count_item f su0) + suOpen (count_item f su0)"
    using Cons.prems(2) by (simp_all add: count_item_def Let_def)
  then show ?case using Cons.IH[of "count_item f su0"] Cons.prems(1) by simp
qed simp

lemma summary_adds_up: "suTotal (summary_of fs) = length fs \<and> length fs = suTrue (summary_of fs) + suFalse (summary_of fs) + suOpen (summary_of fs)"
  using summary_fold[OF summary_of_def, of fs] by simp

text \<open>C31. The content of a report is made of all findings of its task in the table, however many pages they fill, and its three
  counts add up to their number.\<close>

theorem report_covers_every_finding:
  assumes "pg_ok s" "task \<noteq> []" "fails ''list'' = None"
    and "reFindings x = Some (\<lambda>t c. frList (postgres_findings fails) c 100 (t, [], []) s)"
    and "rows = filter (\<lambda>f. fdTask f = task) (rows_by_id s)"
  shows "generateReportContent x now task template = Some (report_text x now task template rows) \<and>
    length rows = suTrue (summary_of rows) + suFalse (summary_of rows) + suOpen (summary_of rows)"
proof -
  have f: "(\<lambda>op. if op = ''list'' then None else fails op) = fails" using assms(3) by auto
  have "pg_matches (task, [], []) = (\<lambda>f. fdTask f = task)" using assms(2) by (auto simp: pg_matches_def)
  then have "gather (\<lambda>c. frList (postgres_findings fails) c 100 (task, [], []) s) [] = Some (Inr rows)"
    using pg_findings.gather_all[OF assms(1), of 100 fails "(task, [], [])"] unfolding f by (simp add: assms(5))
  then show ?thesis using summary_adds_up[of rows] by (simp add: generateReportContent_def assms(4))
qed

theorem report_covers_every_finding_witness:
  "generateReportContent (sample_env\<lparr>reFindings := Some (\<lambda>t c. frList (postgres_findings (\<lambda>op. None)) c 100 (t, [], [])
      \<lparr>prFindings = [(''a'', sample_row ''a'' ''t1'' ''x.c'')], prFeedbacks = []\<rparr>)\<rparr>) 7 ''t1'' ''standard'' = Some (Inr ''{}'')"
proof -
  let ?s = "\<lparr>prFindings = [(''a'', sample_row ''a'' ''t1'' ''x.c'')], prFeedbacks = []\<rparr>"
  let ?x = "sample_env\<lparr>reFindings := Some (\<lambda>t c. frList (postgres_findings (\<lambda>op. None)) c 100 (t, [], []) ?s)\<rparr>"
  have ok: "pg_ok ?s" by (simp add: pg_ok_def sample_row_def)
  have "generateReportContent ?x 7 ''t1'' ''standard'' = Some (report_text ?x 7 ''t1'' ''standard'' (filter (\<lambda>f. fdTask f = ''t1'') (rows_by_id ?s)))"
    using report_covers_every_finding[OF ok, of "''t1''" "\<lambda>op. None" ?x _ 7 "''standard''"] by simp
  then show ?thesis by (simp add: report_text_def sample_env_def Let_def)
qed

section \<open>Request keys\<close>

text \<open>Every id of the order is in the map, under its own key.\<close>

definition reports_ok :: "mem_reports \<Rightarrow> bool" where
  "reports_ok s \<longleftrightarrow> (\<forall>k \<in> set (mpOrder s). map_of (mpReports s) k \<noteq> None) \<and> (\<forall>k r. map_of (mpReports s) k = Some r \<longrightarrow> rpId r = k)"

lemma first_of_request_found:
  "first_of_request get rid ks = Some (Some r) \<Longrightarrow> \<exists>k \<in> set ks. get k = Some r \<and> rpRequest r = rid"
  by (induction ks) (auto split: option.splits if_splits)

lemma first_of_request_nil:
  "k \<in> set ks \<Longrightarrow> get k = None \<Longrightarrow> \<forall>k r. get k = Some r \<longrightarrow> rpRequest r \<noteq> rid \<Longrightarrow> first_of_request get rid ks = None"
  by (induction ks) (auto split: option.splits)

lemma first_of_request_append:
  "first_of_request get rid ks = Some None \<Longrightarrow> get k = Some r \<Longrightarrow> rpRequest r = rid \<Longrightarrow> first_of_request get rid (ks @ [k]) = Some (Some r)"
  by (induction ks) (auto split: option.splits if_splits)

lemma first_of_request_cong: "(\<And>k. k \<in> set ks \<Longrightarrow> get k = get' k) \<Longrightarrow> first_of_request get rid ks = first_of_request get' rid ks"
  by (induction ks) (auto split: option.splits)

definition saved :: "gotime \<Rightarrow> string \<Rightarrow> report_request \<Rightarrow> string \<Rightarrow> report" where
  "saved now rid rq t = (new_report now rid rq)\<lparr>rpContent := t, rpStatus := ''COMPLETED'', rpCompleted := Some now\<rparr>"

lemma saved_simps [simp]: "rpId (saved now rid rq t) = ''report_'' @ rtTask rq @ ''_'' @ rid" "rpRequest (saved now rid rq t) = rid"
  "rpStatus (saved now rid rq t) = ''COMPLETED''" "rpTask (saved now rid rq t) = rtTask rq"
  by (simp_all add: saved_def new_report_def)

lemma build_report_success:
  assumes "build_report memory_reports x now rid rq s = Some (Some (Inr k), s')" "reUpload x = None"
  obtains t where "k = ''report_'' @ rtTask rq @ ''_'' @ rid" "mem_CreateReport now (saved now rid rq t) s = (None, s')"
proof -
  obtain content where "fst (save_report memory_reports x now (new_report now rid rq) content s) = Inr k"
      "snd (save_report memory_reports x now (new_report now rid rq) content s) = s'"
    using assms(1) by (auto simp: build_report_def bind_eq_Some_conv case_prod_beta)
  then have c: "save_report memory_reports x now (new_report now rid rq) content s = (Inr k, s')" by (simp add: prod_eq_iff)
  obtain t where t: "content = Inr t" using c by (cases content) (auto simp: save_report_def split: prod.split_asm option.split_asm)
  obtain err s1 where "mem_CreateReport now (saved now rid rq t) s = (err, s1)" by (cases "mem_CreateReport now (saved now rid rq t) s")
  then show ?thesis using that[of t] c assms(2) unfolding t
    by (cases err) (auto simp: save_report_def memory_reports_def saved_def archive_report_def new_report_def)
qed

lemma mem_CreateReport_success:
  assumes "mem_CreateReport now r s = (None, s')"
  obtains c where "mpOrder s' = mpOrder s @ [rpId r]" "mpReports s' = AList.update (rpId r) (r\<lparr>rpCreated := c\<rparr>) (mpReports s)"
    "map_of (mpReports s) (rpId r) = None"
proof (cases "rpCreated r = zero_time")
  case True
  then show ?thesis using assms that[of now] by (auto simp: mem_CreateReport_def split: if_splits)
next
  case False
  moreover have "r\<lparr>rpCreated := rpCreated r\<rparr> = r" by simp
  ultimately show ?thesis using assms that[of "rpCreated r"] by (auto simp: mem_CreateReport_def split: if_splits)
qed

lemma first_of_request_none_defined: "first_of_request get rid ks = Some None \<Longrightarrow> k \<in> set ks \<Longrightarrow> get k \<noteq> None"
  by (induction ks) (auto split: option.splits if_splits)

text \<open>After a report was generated in memory, without an archive, under a new key, an immediate retry of the key answers with it and
  changes nothing, and the key is refused for another task. (A failed report is another matter: see below.)\<close>

theorem report_key_replays:
  assumes "rid \<noteq> []" "rtTask rq \<noteq> []" "mem_GetReportByRequestID rid s = Some None" "reUpload x = None"
    and "GenerateReport memory_reports x now (Some rid) rq s = Some (Some (Inr k), s')"
  shows "GenerateReport memory_reports x' now' (Some rid) rq s' = Some (Some (Inr k), s') \<and>
    (rtTask rq' \<noteq> [] \<longrightarrow> rtTask rq' \<noteq> rtTask rq \<longrightarrow>
      (\<exists>e. GenerateReport memory_reports x' now' (Some rid) rq' s' = Some (Some (Inl (AlreadyExists, e)), s')))"
proof -
  have "build_report memory_reports x now rid rq s = Some (Some (Inr k), s')"
    using assms(1-3,5) by (simp add: GenerateReport_def has_key_def memory_reports_def)
  then obtain t where t: "k = ''report_'' @ rtTask rq @ ''_'' @ rid" "mem_CreateReport now (saved now rid rq t) s = (None, s')"
    by (rule build_report_success[OF _ assms(4)])
  obtain c where o: "mpOrder s' = mpOrder s @ [k]" "mpReports s' = AList.update k ((saved now rid rq t)\<lparr>rpCreated := c\<rparr>) (mpReports s)"
      "map_of (mpReports s) k = None"
    using mem_CreateReport_success[OF t(2)] unfolding t(1) saved_simps by blast
  define q where "q = (saved now rid rq t)\<lparr>rpCreated := c\<rparr>"
  have q: "rpRequest q = rid" "rpStatus q = ''COMPLETED''" "rpTask q = rtTask rq" "rpId q = k" by (simp_all add: q_def t(1))
  have n: "k \<notin> set (mpOrder s)"
    using assms(3) o(3) first_of_request_none_defined[of "map_of (mpReports s)" rid "mpOrder s" k] by (auto simp: mem_GetReportByRequestID_def)
  have "first_of_request (map_of (mpReports s')) rid (mpOrder s) = first_of_request (map_of (mpReports s)) rid (mpOrder s)"
    by (rule first_of_request_cong) (use n in \<open>auto simp: o(2) update_conv'\<close>)
  then have "first_of_request (map_of (mpReports s')) rid (mpOrder s) = Some None" using assms(3) by (simp add: mem_GetReportByRequestID_def)
  moreover have "map_of (mpReports s') k = Some q" by (simp add: o(2) update_conv' q_def)
  ultimately have "mem_GetReportByRequestID rid s' = Some (Some q)"
    using first_of_request_append[of "map_of (mpReports s')" rid "mpOrder s" k q] q(1) o(1) by (simp add: mem_GetReportByRequestID_def)
  then show ?thesis using assms(1,2) q(2-4) by (simp add: GenerateReport_def has_key_def memory_reports_def)
qed

lemma sample_content: "generateReportContent sample_env now task ''standard'' = Some (Inr ''{}'')"
  by (simp add: generateReportContent_def sample_env_def report_text_def Let_def)

definition sample_request :: "string \<Rightarrow> report_request" where
  "sample_request task = \<lparr>rtTask = task, rtTemplate = ''standard'', rtFormat = RfUnspecified\<rparr>"

lemma sample_build:
  "map_of (mpReports s) (''report_'' @ task @ ''_'' @ rid) = None \<Longrightarrow>
    \<exists>s'. build_report memory_reports sample_env now rid (sample_request task) s = Some (Some (Inr (''report_'' @ task @ ''_'' @ rid)), s')"
  by (simp add: build_report_def sample_content sample_request_def template_of_def save_report_def memory_reports_def mem_CreateReport_def
      new_report_def Let_def)

theorem report_key_replays_witness:
  "\<exists>s'. GenerateReport memory_reports sample_env 9 (Some ''q'') (sample_request ''t1'') s' = Some (Some (Inr ''report_t1_q''), s') \<and>
    (\<exists>e. GenerateReport memory_reports sample_env 9 (Some ''q'') (sample_request ''t2'') s' = Some (Some (Inl (AlreadyExists, e)), s'))"
proof -
  have none: "mem_GetReportByRequestID ''q'' NewMemoryReportRepository = Some None"
    by (simp add: mem_GetReportByRequestID_def NewMemoryReportRepository_def)
  obtain s' where "build_report memory_reports sample_env 7 ''q'' (sample_request ''t1'') NewMemoryReportRepository = Some (Some (Inr ''report_t1_q''), s')"
    using sample_build[of NewMemoryReportRepository "''t1''" "''q''" 7] by (auto simp: NewMemoryReportRepository_def)
  then have "GenerateReport memory_reports sample_env 7 (Some ''q'') (sample_request ''t1'') NewMemoryReportRepository = Some (Some (Inr ''report_t1_q''), s')"
    using none by (simp add: GenerateReport_def has_key_def memory_reports_def sample_request_def)
  then show ?thesis
    using report_key_replays[OF _ _ none, of "sample_request ''t1''" sample_env 7 "''report_t1_q''" s' sample_env 9 "sample_request ''t2''"]
    by (auto simp: sample_request_def sample_env_def)
qed

text \<open>C32. A retry of a failed report under its key for another task removes the failed row, but not its id: from then on a
  list of the store in memory, and a report under any new key, is a panic.\<close>

theorem retry_for_another_task_poisons:
  assumes "rid \<noteq> []" "rtTask rq \<noteq> []" "reports_ok s" "mem_GetReportByRequestID rid s = Some (Some old)" "rpStatus old = ''FAILED''"
    and "rpId old \<noteq> ''report_'' @ rtTask rq @ ''_'' @ rid"
    and "GenerateReport memory_reports x now (Some rid) rq s = Some (Some (Inr k), s')" "reUpload x = None"
    and "rid' \<noteq> []" "rid' \<noteq> rid" "rtTask rq' \<noteq> []" "\<forall>k r. map_of (mpReports s) k = Some r \<longrightarrow> rpRequest r \<noteq> rid'"
  shows "ListReports memory_reports None [] None None s' = None \<and> GenerateReport memory_reports x' now' (Some rid') rq' s' = Some (None, s')"
proof -
  let ?s = "s\<lparr>mpReports := AList.delete (rpId old) (mpReports s)\<rparr>"
  have "build_report memory_reports x now rid rq ?s = Some (Some (Inr k), s')"
    using assms(1,2,4,5,7) by (simp add: GenerateReport_def has_key_def memory_reports_def mem_DeleteReport_def)
  then obtain t where t: "k = ''report_'' @ rtTask rq @ ''_'' @ rid" "mem_CreateReport now (saved now rid rq t) ?s = (None, s')"
    by (rule build_report_success[OF _ assms(8)])
  obtain c where "mpOrder s' = mpOrder ?s @ [k]" "mpReports s' = AList.update k ((saved now rid rq t)\<lparr>rpCreated := c\<rparr>) (mpReports ?s)"
    using mem_CreateReport_success[OF t(2)] unfolding t(1) saved_simps by blast
  moreover define q where "q = (saved now rid rq t)\<lparr>rpCreated := c\<rparr>"
  ultimately have q: "mpOrder s' = mpOrder s @ [k]" "mpReports s' = AList.update k q (AList.delete (rpId old) (mpReports s))" "rpRequest q = rid"
    by simp_all
  have old: "rpId old \<in> set (mpOrder s)"
    using first_of_request_found[of "map_of (mpReports s)" rid "mpOrder s" old] assms(3,4)
    by (auto simp: mem_GetReportByRequestID_def reports_ok_def)
  have gone: "map_of (mpReports s') (rpId old) = None" using assms(6) by (simp add: q(2) update_conv' delete_conv' t(1))
  have none: "None \<in> set (map (map_of (mpReports s')) (mpOrder s'))" using old gone unfolding q(1) by force
  have two: "length (mpOrder s') \<noteq> 1" using old unfolding q(1) by (cases "mpOrder s") auto
  have "mem_ListReports qq s' = None" for qq using none two by (simp add: mem_ListReports_def Let_def)
  then have "ListReports memory_reports None [] None None s' = None"
    by (simp add: ListReports_def cursor_offset_def reportSortParams_def reportFormatFilter_def memory_reports_def)
  moreover have other: "\<forall>k r. map_of (mpReports s') k = Some r \<longrightarrow> rpRequest r \<noteq> rid'"
    using assms(10,12) q(3) by (auto simp: q(2) update_conv' delete_conv')
  have "mem_GetReportByRequestID rid' s' = None" unfolding mem_GetReportByRequestID_def
    by (rule first_of_request_nil[of "rpId old"]) (use old gone other in \<open>auto simp: q(1)\<close>)
  then have "GenerateReport memory_reports x' now' (Some rid') rq' s' = Some (None, s')"
    using assms(9,11) by (simp add: GenerateReport_def has_key_def memory_reports_def)
  ultimately show ?thesis ..
qed

theorem retry_for_another_task_poisons_witness:
  "\<exists>s'. ListReports memory_reports None [] None None s' = None \<and>
    GenerateReport memory_reports sample_env 9 (Some ''new'') (sample_request ''t3'') s' = Some (None, s')"
proof -
  let ?old = "sample_report ''report_t1_q'' ''t1'' ''FAILED'' ''q''"
  let ?s = "\<lparr>mpReports = [(''report_t1_q'', ?old)], mpOrder = [''report_t1_q'']\<rparr>"
  have ok: "reports_ok ?s" by (simp add: reports_ok_def sample_report_def)
  have found: "mem_GetReportByRequestID ''q'' ?s = Some (Some ?old)" by (simp add: mem_GetReportByRequestID_def sample_report_def)
  obtain s' where "build_report memory_reports sample_env 7 ''q'' (sample_request ''t2'') (?s\<lparr>mpReports := []\<rparr>) = Some (Some (Inr ''report_t2_q''), s')"
    using sample_build[of "?s\<lparr>mpReports := []\<rparr>" "''t2''" "''q''" 7] by auto
  then have run: "GenerateReport memory_reports sample_env 7 (Some ''q'') (sample_request ''t2'') ?s = Some (Some (Inr ''report_t2_q''), s')"
    using found by (simp add: GenerateReport_def has_key_def memory_reports_def mem_DeleteReport_def sample_request_def sample_report_def)
  have other: "\<forall>k r. map_of (mpReports ?s) k = Some r \<longrightarrow> rpRequest r \<noteq> ''new''" by (simp add: sample_report_def)
  have "ListReports memory_reports None [] None None s' = None \<and>
      GenerateReport memory_reports sample_env 9 (Some ''new'') (sample_request ''t3'') s' = Some (None, s')"
    by (rule retry_for_another_task_poisons[OF _ _ ok found _ _ run _ _ _ _ other])
      (simp_all add: sample_request_def sample_env_def sample_report_def)
  then show ?thesis by blast
qed

text \<open>The next cursor of a list is reckoned in 64 bits: past the largest there is more, at a cursor that is then refused.\<close>

lemma atoi_minus: "int m \<le> 2 ^ 63 \<Longrightarrow> atoi (CHR ''-'' # nat_digits m) = Some (- int m)"
  by (simp add: atoi_def digits_val_nat_digits Let_def)

theorem list_cursor_wraps:
  assumes "int k < 2 ^ 63" "2 ^ 63 \<le> int k + 20"
    and "rrList R \<lparr>qyOffset = k, qyLimit = 20, qyTask = [], qyFormat = [], qySortBy = ''report_id'', qyDesc = True\<rparr> s = Some (Inr ([], n))"
  shows "\<exists>nxt e. ListReports R (Some (20, nat_digits k)) [] None None s = Some (Inr ([], (nxt, True, int32 (int n)))) \<and>
    ListReports R (Some (20, nxt)) [] None None s = Some (Inl (InvalidArgument, e))"
proof -
  have off: "cursor_offset atoi (Some (20, nat_digits k)) = Some k"
    using atoi_nat_digits[OF assms(1)] by (simp add: cursor_offset_def)
  have nxt: "wrap64 (int k + 20) = int k + 20 - 2 ^ 64"
    using assms(1,2) unfolding wrap64_def by (subst mod_pos_geq) (simp_all)
  have size: "page_size (Some (20, c)) = 20" "nat 20 = 20" for c by (simp_all add: page_size_def)
  have neg: "int k + 20 - 2 ^ 64 < 0" using assms(1) by simp
  then have more: "int k + 20 - 2 ^ 64 < int n" by linarith
  have "int_digits (int k + 20 - 2 ^ 64) = CHR ''-'' # nat_digits (nat (2 ^ 64 - int k - 20))"
    using neg by (simp add: int_digits_def)
  then have "cursor_offset atoi (Some (20, int_digits (int k + 20 - 2 ^ 64))) = None"
    using atoi_minus[of "nat (2 ^ 64 - int k - 20)"] assms(1,2) by (simp add: cursor_offset_def)
  then have "\<exists>e. ListReports R (Some (20, int_digits (int k + 20 - 2 ^ 64))) [] None None s = Some (Inl (InvalidArgument, e))"
    by (simp add: ListReports_def)
  moreover have "ListReports R (Some (20, nat_digits k)) [] None None s =
      Some (Inr ([], (int_digits (int k + 20 - 2 ^ 64), True, int32 (int n))))"
    using more by (simp only: ListReports_def off size reportSortParams_def reportFormatFilter_def option.case sum.case prod.case assms(3) nxt Let_def)
      (simp only: list.set list.map if_True if_False empty_iff simp_thms)
  ultimately show ?thesis by blast
qed

end
