(* ===== verification/Packs.thy ===== *)
theory Packs imports Main Prelude GoText GraphState ProjectStore begin

text \<open>
  Workload packs (\<open>task-service/internal/pack/pack.go\<close>): the declaration of how a kind of workload runs, and its
  validation, which names the field it refuses.

  YAML and JSON are arguments. For the comparison with a list of ASCII words it is enough that lower case keeps letters outside
  ASCII outside ASCII, save the two that have an ASCII lower case.
\<close>

section \<open>The declaration\<close>

record graph_constraints =
  gcMaxNodes :: int
  gcAllowedTypes :: "string list"
  gcMaxPlannerReplans :: int
  gcMaxAttemptsPerNode :: int

record graph_timeouts =
  gtPlanner :: int
  gtExecutor :: int
  gtVerifier :: int

record graph_section =
  gsSeedIntents :: "string list"
  gsConstraints :: graph_constraints
  gsTimeouts :: graph_timeouts

record seeds_spec =
  sdBriefRenderer :: string
  sdRenderTarget :: string
  sdTemplateRef :: string

record results_spec =
  reSchemaRef :: string
  reParser :: string

record timeouts_spec =
  toPerTurn :: string
  toTaskTotal :: string

record pack_spec =
  psImage :: string
  psDialect :: string
  psProfile :: string
  psSeeds :: seeds_spec
  psResults :: results_spec
  psTimeouts :: timeouts_spec
  psConstraintsSchema :: "string list"
  psExecution :: string
  psGraph :: graph_section

record workload_pack =
  wpAPIVersion :: string
  wpKind :: string
  wpName :: string
  wpDescription :: string
  wpSpec :: pack_spec

definition GraphNodeTypes :: "string list" where
  "GraphNodeTypes = [''planner'', ''executor'', ''verifier'']"

text \<open>The known references. A missing table of ids accepts any.\<close>

record pack_refs =
  rfDialects :: "string list"
  rfParsers :: "string list"
  rfRenderers :: "string list"
  rfTargets :: "string list"
  rfProfiles :: "string list"
  rfTemplateIDs :: "string list option"
  rfSchemaRefs :: "string list option"

definition DefaultRefs :: pack_refs where
  "DefaultRefs = \<lparr>rfDialects = [''dsh-sse'', ''acp-stdio'', ''maka-runtime-host'', ''mock-stdio''],
     rfParsers = [''codeaudit-submit'', ''text-final''], rfRenderers = [''baton-brief''],
     rfTargets = [''task-card-prefix'', ''initial-prompt''], rfProfiles = [''restricted'', ''targeted''],
     rfTemplateIDs = Some [''assignmentTemplate'', ''patchPhaseTemplate''],
     rfSchemaRefs = Some [''findings/submit_findings'', ''findings/submit_patches'']\<rparr>"

section \<open>Names and references\<close>

definition lower_alnum :: "char \<Rightarrow> bool" where
  "lower_alnum c \<longleftrightarrow> (CHR ''a'' \<le> c \<and> c \<le> CHR ''z'') \<or> (CHR ''0'' \<le> c \<and> c \<le> CHR ''9'')"

definition nameRe :: "string \<Rightarrow> bool" where
  "nameRe s \<longleftrightarrow> s \<noteq> [] \<and> length s \<le> 63 \<and> lower_alnum (hd s) \<and> lower_alnum (last s) \<and> list_all (\<lambda>c. lower_alnum c \<or> c = CHR ''-'') s"

definition constraintRe :: "string \<Rightarrow> bool" where
  "constraintRe s \<longleftrightarrow> 2 \<le> length s \<and> length s \<le> 63 \<and> CHR ''a'' \<le> hd s \<and> hd s \<le> CHR ''z'' \<and>
     list_all (\<lambda>c. lower_alnum c \<or> c = CHR ''_'') (tl s)"

definition floatTags :: "string list" where
  "floatTags = [''latest'', ''stable'', ''head'', ''main'', ''master'', ''dev'', ''next'', ''frozen-draft'']"

definition lower_rune :: "nat \<Rightarrow> nat" where
  "lower_rune r = (if 65 \<le> r \<and> r \<le> 90 then r + 32 else if r = 0x130 then 105 else if r = 0x212A then 107 else r)"

definition ToLower :: "string \<Rightarrow> string" where
  "ToLower s = string_of_runes (map lower_rune (runes s))"

definition anchoredRef :: "string \<Rightarrow> string \<Rightarrow> string list option \<Rightarrow> string option" where
  "anchoredRef field ref ids = (case str_last_index ref ''@'' of
     None \<Rightarrow> Some (field @ '': '' @ go_quote ref @ ('' '' @ utf8 [233, 157, 158, 233, 148,
         154, 229, 174, 154, 229, 188, 149, 231, 148, 168, 239, 188, 136, 233, 161, 187] @
         '' <id>@<version>'' @ utf8 [239, 188, 140, 231, 166, 129, 230, 181, 174, 229, 138, 168, 239,
         188, 137]))
   | Some i \<Rightarrow>
       if i = 0 \<or> i + 1 = length ref then Some (field @ '': '' @ go_quote ref @ ('' '' @ utf8 [233,
           157, 158, 233, 148, 154, 229, 174, 154, 229, 188, 149, 231, 148, 168, 239, 188, 136, 233,
           161, 187] @ '' <id>@<version>'' @ utf8 [239, 188, 140, 231, 166, 129, 230, 181, 174, 229,
           138, 168, 239, 188, 137]))
       else let k = take i ref; ver = drop (i + 1) ref
         in if ToLower ver \<in> set floatTags
            then Some (field @ '': '' @ go_quote ref @ ('' '' @ utf8 [231, 137, 136, 230, 156, 172,
                230, 174, 181] @ '' '') @ go_quote ver @
              ('' '' @ utf8 [230, 152, 175, 230, 181, 174, 229, 138, 168, 229, 188, 149, 231, 148, 168,
                  239, 188, 136, 231, 166, 129] @ '' latest/stable/head '' @ utf8 [231, 173, 137, 239,
                  188, 155, 229, 175, 185, 233, 189, 144, 229, 143, 145, 229, 184, 131, 231, 186, 170,
                  229, 190, 139, 228, 184, 128, 228, 184, 170] @ '' sha '' @ utf8 [229, 143, 170, 230,
                  158, 132, 229, 187, 186, 228, 184, 128, 230, 172, 161, 239, 188, 137]))
            else (case ids of
              Some known \<Rightarrow> if k \<notin> set known then Some (field @ ('': '' @ utf8 [229,
                  188, 149, 231, 148, 168] @ '' id '') @ go_quote k @ ('' '' @ utf8 [228, 184, 141,
                  229, 156, 168, 230, 179, 168, 229, 134, 140, 232, 161, 168])) else None
            | None \<Rightarrow> None))"

section \<open>Validation\<close>

definition constraints_zero :: "graph_constraints \<Rightarrow> bool" where
  "constraints_zero c \<longleftrightarrow> gcMaxNodes c = 0 \<and> gcAllowedTypes c = [] \<and> gcMaxPlannerReplans c = 0 \<and> gcMaxAttemptsPerNode c = 0"

definition timeouts_zero :: "graph_timeouts \<Rightarrow> bool" where
  "timeouts_zero t \<longleftrightarrow> gtPlanner t = 0 \<and> gtExecutor t = 0 \<and> gtVerifier t = 0"

definition graph_zero :: "graph_section \<Rightarrow> bool" where
  "graph_zero g \<longleftrightarrow> gsSeedIntents g = [] \<and> constraints_zero (gsConstraints g) \<and> timeouts_zero (gsTimeouts g)"

text \<open>The first of a list of checks that fails.\<close>

fun first_error :: "(bool \<times> string) list \<Rightarrow> string option" where
  "first_error [] = None"
| "first_error ((bad, e) # cs) = (if bad then Some e else first_error cs)"

definition graph_validate :: "graph_section \<Rightarrow> string option" where
  "graph_validate g =
    (let c = gsConstraints g; t = gsTimeouts g
     in first_error (
       map (\<lambda>(i, s). (TrimSpace s = [], ''spec.graph.seed_intents['' @ nat_digits i @
           ('']: '' @ utf8 [228, 184, 141, 229, 143, 175, 228, 184, 186, 231, 169, 186, 228, 184,
           178]))) (enumerate 0 (gsSeedIntents g))
       @ [(gcMaxNodes c < 0, ''spec.graph.constraints.max_nodes: '' @ int_digits (gcMaxNodes c) @
           ('' '' @ utf8 [228, 184, 141, 229, 144, 136, 230, 179, 149, 239, 188, 136] @ ''0='' @
           utf8 [231, 188, 186, 231, 156, 129] @ '' 24'' @ utf8 [239, 188, 140, 232, 180, 159, 229,
           128, 188, 230, 139, 146, 232, 189, 189, 239, 188, 137]))]
       @ map (\<lambda>t. (t \<notin> set GraphNodeTypes, ''spec.graph.constraints.allowed_types: '' @ go_quote t @
            ('' '' @ utf8 [228, 184, 141, 229, 156, 168, 231, 177, 187, 229, 158, 139, 232, 161, 168,
                239, 188, 136] @ ''planner|executor|verifier'' @ utf8 [239, 188, 137]))) (gcAllowedTypes c)
       @ [(gcMaxPlannerReplans c < 0, ''spec.graph.constraints.max_planner_replans: '' @ int_digits (gcMaxPlannerReplans c) @
            ('' '' @ utf8 [228, 184, 141, 229, 144, 136, 230, 179, 149, 239, 188, 136] @ ''0='' @
                utf8 [231, 188, 186, 231, 156, 129] @ '' 5'' @ utf8 [239, 188, 140, 232, 180, 159, 229,
                128, 188, 230, 139, 146, 232, 189, 189, 239, 188, 137])),
          (gcMaxAttemptsPerNode c < 0, ''spec.graph.constraints.max_attempts_per_node: '' @ int_digits (gcMaxAttemptsPerNode c) @
            ('' '' @ utf8 [228, 184, 141, 229, 144, 136, 230, 179, 149, 239, 188, 136] @ ''0='' @
                utf8 [231, 188, 186, 231, 156, 129] @ '' 2'' @ utf8 [239, 188, 140, 232, 180, 159, 229,
                128, 188, 230, 139, 146, 232, 189, 189, 239, 188, 137])),
          (gtPlanner t < 0 \<or> gtExecutor t < 0 \<or> gtVerifier t < 0, (''spec.graph.timeouts: '' @
              utf8 [232, 180, 159, 229, 128, 188, 228, 184, 141, 229, 144, 136, 230, 179, 149, 239,
              188, 136] @ ''0='' @ utf8 [231, 188, 186, 231, 156, 129, 230, 161, 163] @
              '' 180|900|300 '' @ utf8 [231, 167, 146, 239, 188, 137]))]))"

fun schema_error :: "string list \<Rightarrow> string list \<Rightarrow> string option" where
  "schema_error seen [] = None"
| "schema_error seen (c # cs) =
    (if \<not> constraintRe c then Some ((''spec.constraints_schema: '' @ utf8 [231, 186, 166, 230,
        157, 159, 233, 148, 174] @ '' '') @ go_quote c @ ('' '' @ utf8 [228, 184, 141, 229, 144, 136] @
        '' [a-z][a-z0-9_] '' @ utf8 [232, 167, 132, 230, 160, 188]))
     else if c \<in> set seen then Some ((''spec.constraints_schema: '' @ utf8 [231, 186, 166, 230,
         157, 159, 233, 148, 174] @ '' '') @ go_quote c @ ('' '' @ utf8 [233, 135, 141, 229, 164, 141]))
     else schema_error (c # seen) cs)"

definition or_else :: "string option \<Rightarrow> string option \<Rightarrow> string option" where
  "or_else a b = (case a of Some e \<Rightarrow> Some e | None \<Rightarrow> b)"

definition execution_error :: "pack_spec \<Rightarrow> string option" where
  "execution_error s =
    (if psExecution s = [] \<or> psExecution s = ''session''
     then (if graph_zero (psGraph s) then None
           else Some (''spec.graph: execution '' @ utf8 [233, 157, 158] @ '' graph '' @ utf8 [230, 151,
               182] @ '' graph '' @ utf8 [230, 174, 181, 229, 191, 133, 233, 161, 187, 228, 184, 186,
               233, 155, 182, 229, 128, 188, 239, 188, 136, 233, 152, 178, 233, 131, 168, 229, 136,
               134, 229, 186, 148, 231, 148, 168] @ ''/'' @ utf8 [229, 189, 162, 230, 128, 129, 231,
               159, 155, 231, 155, 190, 239, 188, 140] @ ''D1'' @ utf8 [239, 188, 137]))
     else if psExecution s = ''graph'' then graph_validate (psGraph s)
     else Some (''spec.execution: '' @ go_quote (psExecution s) @ ('' '' @ utf8 [228, 184, 141, 229,
         156, 168, 230, 158, 154, 228, 184, 190, 239, 188, 136] @ ''session|graph'' @ utf8 [239, 188,
         137])))"

definition Validate :: "pack_refs option \<Rightarrow> workload_pack \<Rightarrow> string option" where
  "Validate given p =
    (let refs = (case given of None \<Rightarrow> DefaultRefs | Some r \<Rightarrow> r); s = wpSpec p; sd = psSeeds s; rs = psResults s
     in or_else (first_error
         [(wpAPIVersion p \<noteq> ''codeaudit.pack/v0'', ''apiVersion: '' @
             go_quote (wpAPIVersion p) @ ('' '' @ utf8 [228, 184, 141, 229, 143, 151, 230, 148, 175,
             230, 140, 129, 239, 188, 136, 229, 189, 147, 229, 137, 141] @ '' codeaudit.pack/v0'' @
             utf8 [239, 188, 137])),
          (wpKind p \<noteq> ''WorkloadPack'', ''kind: '' @ go_quote (wpKind p) @ ('' '' @ utf8 [228,
              184, 141, 229, 143, 151, 230, 148, 175, 230, 140, 129, 239, 188, 136, 229, 189, 147, 229,
              137, 141] @ '' WorkloadPack'' @ utf8 [239, 188, 137])),
          (\<not> nameRe (wpName p), ''name: '' @ go_quote (wpName p) @ ('' '' @ utf8 [228, 184, 141,
              229, 144, 136] @ '' DNS-1123 '' @ utf8 [233, 163, 142, 230, 160, 188])),
          (TrimSpace (wpDescription p) = [], (''description: '' @ utf8 [228, 184, 141, 229, 143, 175,
              228, 184, 186, 231, 169, 186, 239, 188, 136] @ ''pack '' @ utf8 [230, 152, 175, 229, 185,
              179, 229, 143, 176, 232, 181, 132, 230, 186, 144, 229, 175, 185, 232, 177, 161, 239, 188,
              140, 233, 161, 187, 229, 143, 175, 232, 175, 187, 231, 154, 132, 231, 148, 168, 233, 128,
              148, 232, 175, 180, 230, 152, 142, 239, 188, 137])),
          (TrimSpace (psImage s) = [], (''spec.image: '' @ utf8 [228, 184, 141, 229, 143, 175, 228,
              184, 186, 231, 169, 186, 239, 188, 136, 230, 178, 153, 231, 174, 177, 233, 149, 156, 229,
              131, 143, 229, 188, 149, 231, 148, 168, 239, 188, 137])),
          (psDialect s \<notin> set (rfDialects refs), ''spec.dialect: '' @ go_quote (psDialect s) @
             ('' '' @ utf8 [228, 184, 141, 229, 156, 168, 230, 150, 185, 232, 168, 128, 230, 179, 168,
                 229, 134, 140, 232, 161, 168, 239, 188, 136, 229, 188, 149, 231, 148, 168, 229, 136,
                 135, 231, 137, 135] @ '' 1 descriptor '' @ utf8 [230, 150, 185, 232, 168, 128, 233,
                 157, 162, 239, 188, 137])),
          (psProfile s \<notin> set (rfProfiles refs), ''spec.network.profile: '' @ go_quote (psProfile s) @
             ('' '' @ utf8 [228, 184, 141, 229, 156, 168, 230, 161, 163, 228, 189, 141, 232, 161, 168,
                 239, 188, 136] @ ''restricted|targeted'' @ utf8 [239, 188, 137])),
          (sdBriefRenderer sd \<notin> set (rfRenderers refs), ''spec.seeds.brief_renderer: '' @ go_quote (sdBriefRenderer sd) @
             ('' '' @ utf8 [228, 184, 141, 229, 156, 168, 230, 184, 178, 230, 159, 147, 229, 153, 168,
                 230, 179, 168, 229, 134, 140, 232, 161, 168])),
          (sdRenderTarget sd \<notin> set (rfTargets refs), ''spec.seeds.render_target: '' @ go_quote (sdRenderTarget sd) @
             ('' '' @ utf8 [228, 184, 141, 229, 156, 168, 230, 179, 168, 229, 134, 140, 232, 161, 168,
                 239, 188, 136] @ ''task-card-prefix/initial-prompt'' @ utf8 [239, 188, 137]))])
       (or_else (anchoredRef ''spec.seeds.template_ref'' (sdTemplateRef sd) (rfTemplateIDs refs))
       (or_else (anchoredRef ''spec.results.schema_ref'' (reSchemaRef rs) (rfSchemaRefs refs))
       (or_else (first_error
         [(reParser rs \<notin> set (rfParsers refs), ''spec.results.parser: '' @
             go_quote (reParser rs) @ ('' '' @ utf8 [228, 184, 141, 229, 156, 168, 232, 167, 163, 230,
             158, 144, 229, 153, 168, 230, 179, 168, 229, 134, 140, 232, 161, 168])),
          (TrimSpace (toPerTurn (psTimeouts s)) = [] \<or> TrimSpace (toTaskTotal (psTimeouts s)) = [],
             (''spec.timeouts: per_turn/task_total '' @ utf8 [230, 161, 163, 228, 189, 141, 229, 188,
                 149, 231, 148, 168, 228, 184, 141, 229, 143, 175, 228, 184, 186, 231, 169, 186]))])
       (or_else (schema_error [] (psConstraintsSchema s)) (execution_error s))))))"

section \<open>Loading\<close>

text \<open>The strict YAML of a pack, the JSON of a specification with its reader, a SHA-256 in hexadecimal, and the YAML of a pack.\<close>

record pack_codec =
  pcYaml :: "string \<Rightarrow> string + workload_pack"
  pcJson :: "pack_spec \<Rightarrow> string + string"
  pcSpec :: "string \<Rightarrow> string + pack_spec"
  pcSha :: "string \<Rightarrow> string"
  pcText :: "workload_pack \<Rightarrow> string + string"

definition SpecHash :: "pack_codec \<Rightarrow> workload_pack \<Rightarrow> string + string" where
  "SpecHash cd p = (case pcJson cd (wpSpec p) of Inl e \<Rightarrow> Inl (''spec marshal: '' @ e) | Inr t \<Rightarrow> Inr (pcSha cd t))"

definition Parse :: "pack_codec \<Rightarrow> pack_refs option \<Rightarrow> string \<Rightarrow> string + workload_pack" where
  "Parse cd refs data = (case pcYaml cd data of
     Inl e \<Rightarrow> Inl ((''pack '' @ utf8 [232, 167, 163, 230, 158, 144] @ '': '') @ e)
   | Inr p \<Rightarrow> (case Validate refs p of Some e \<Rightarrow> Inl e | None \<Rightarrow> Inr p))"

text \<open>The entries of a directory: a name, whether it is a directory, and what reading it gives.\<close>

fun load_entries ::
  "pack_codec \<Rightarrow> pack_refs option \<Rightarrow> (string \<times> bool \<times> (string + string)) list \<Rightarrow> workload_pack list \<Rightarrow> string + workload_pack list" where
  "load_entries cd refs [] out = Inr out"
| "load_entries cd refs ((fname, dir, content) # es) out =
    (if dir \<or> \<not> suffix ''.yaml'' fname then load_entries cd refs es out
     else case content of
       Inl e \<Rightarrow> Inl (''read '' @ fname @ '': '' @ e)
     | Inr data \<Rightarrow> (case Parse cd refs data of
         Inl e \<Rightarrow> Inl (fname @ '': '' @ e)
       | Inr p \<Rightarrow>
           if wpName p \<in> set (map wpName out) then Inl (fname @ '': pack name '' @
               go_quote (wpName p) @ ('' '' @ utf8 [233, 135, 141, 229, 164, 141]))
           else load_entries cd refs es (out @ [p])))"

definition LoadDir :: "pack_codec \<Rightarrow> pack_refs option \<Rightarrow> string + (string \<times> bool \<times> (string + string)) list \<Rightarrow> string + workload_pack list" where
  "LoadDir cd refs dir = (case dir of Inl e \<Rightarrow> Inl (''packs dir: '' @ e) | Inr es \<Rightarrow> load_entries cd refs es [])"

end
