(* ===== verification/PackRegistry.thy ===== *)
theory PackRegistry imports Main Prelude GoText GraphState ProjectStore Packs begin

text \<open>
  The registry of pack revisions (\<open>task-service/internal/pack/registry.go\<close>), its tables, the start-up that fills it
  (\<open>task_service.go\<close>), and the calls that administer it (\<open>internal/service/orchestration_admin.go\<close>).

  A call of the registry holds its lock throughout and is one function of the state; an update looks a name up before it
  registers. The index by hash is written and never read, and left out. A statement on the tables fails or is done; a row
  holds what its columns keep of a revision: the text a JSONB column makes of it and its time in microseconds, both arguments.
\<close>

section \<open>State\<close>

record revision =
  rvName :: string
  rvRevision :: int
  rvSpecHash :: string
  rvSpecJSON :: string
  rvDescription :: string
  rvCreatedBy :: string
  rvCreatedAt :: gotime

definition rv_ID :: "revision \<Rightarrow> string" where
  "rv_ID r = rvName r @ ''@'' @ int_digits (rvRevision r)"

text \<open>Revisions by name, marks of names that are out of use, whether a mirror and a hook for the marks are set; the two tables.\<close>

record registry =
  rgByName :: "(string \<times> revision list) list"
  rgDeprecated :: "string list"
  rgMirror :: bool
  rgHook :: bool
  rgRows :: "revision list"
  rgMarks :: "string list"

definition NewRegistry :: "revision list \<Rightarrow> string list \<Rightarrow> registry" where
  "NewRegistry rows marks = \<lparr>rgByName = [], rgDeprecated = [], rgMirror = False, rgHook = False, rgRows = rows, rgMarks = marks\<rparr>"

definition revisions :: "registry \<Rightarrow> string \<Rightarrow> revision list" where
  "revisions g name = (case map_of (rgByName g) name of Some rs \<Rightarrow> rs | None \<Rightarrow> [])"

definition with_revisions :: "string \<Rightarrow> revision list \<Rightarrow> registry \<Rightarrow> registry" where
  "with_revisions name rs g = g\<lparr>rgByName := AList.update name rs (rgByName g)\<rparr>"

section \<open>Tables\<close>

record mirror_env =
  meFails :: "string \<Rightarrow> string option"
  meJsonb :: "string \<Rightarrow> string"
  meMicros :: "gotime \<Rightarrow> gotime"

definition same_row :: "revision \<Rightarrow> revision \<Rightarrow> bool" where
  "same_row a b \<longleftrightarrow> rvName a = rvName b \<and> rvRevision a = rvRevision b"

text \<open>The row of a revision.\<close>

definition stored_row :: "mirror_env \<Rightarrow> revision \<Rightarrow> revision" where
  "stored_row me r = r\<lparr>rvSpecJSON := meJsonb me (rvSpecJSON r), rvCreatedAt := meMicros me (rvCreatedAt r)\<rparr>"

definition Upsert :: "mirror_env \<Rightarrow> revision \<Rightarrow> registry \<Rightarrow> string option \<times> registry" where
  "Upsert me r g = (case meFails me ''upsert'' of
     Some e \<Rightarrow> (Some e, g)
   | None \<Rightarrow> (None, g\<lparr>rgRows :=
       if \<exists>x \<in> set (rgRows g). same_row x r
       then map (\<lambda>x. if same_row x r
              then x\<lparr>rvSpecHash := rvSpecHash r, rvSpecJSON := meJsonb me (rvSpecJSON r), rvDescription := rvDescription r\<rparr> else x) (rgRows g)
       else rgRows g @ [stored_row me r]\<rparr>))"

text \<open>The rows by name and revision.\<close>

definition row_before :: "revision \<Rightarrow> revision \<Rightarrow> bool" where
  "row_before a b \<longleftrightarrow> rvName a < rvName b \<or> (rvName a = rvName b \<and> rvRevision a \<le> rvRevision b)"

fun insert_row :: "revision \<Rightarrow> revision list \<Rightarrow> revision list" where
  "insert_row r [] = [r]"
| "insert_row r (x # xs) = (if row_before r x then r # x # xs else x # insert_row r xs)"

definition ListAll :: "mirror_env \<Rightarrow> registry \<Rightarrow> string + revision list" where
  "ListAll me g = (case meFails me ''list'' of Some e \<Rightarrow> Inl e | None \<Rightarrow> Inr (foldr insert_row (rgRows g) []))"

definition mirror_SetDeprecated :: "mirror_env \<Rightarrow> string \<Rightarrow> bool \<Rightarrow> registry \<Rightarrow> string option \<times> registry" where
  "mirror_SetDeprecated me name dep g = (case meFails me ''mark'' of
     Some e \<Rightarrow> (Some e, g)
   | None \<Rightarrow> (None, g\<lparr>rgMarks := if dep then List.insert name (rgMarks g) else removeAll name (rgMarks g)\<rparr>))"

definition ListDeprecated :: "mirror_env \<Rightarrow> registry \<Rightarrow> string + string list" where
  "ListDeprecated me g = (case meFails me ''marks'' of Some e \<Rightarrow> Inl e | None \<Rightarrow> Inr (rgMarks g))"

section \<open>The registry\<close>

definition hook :: "mirror_env \<Rightarrow> string \<Rightarrow> bool \<Rightarrow> registry \<Rightarrow> registry" where
  "hook me name dep g = (if rgHook g then snd (mirror_SetDeprecated me name dep g) else g)"

definition SetDeprecated :: "mirror_env \<Rightarrow> string \<Rightarrow> bool \<Rightarrow> registry \<Rightarrow> registry" where
  "SetDeprecated me name dep g =
    hook me name dep (g\<lparr>rgDeprecated := if dep then List.insert name (rgDeprecated g) else removeAll name (rgDeprecated g)\<rparr>)"

definition IsDeprecated :: "registry \<Rightarrow> string \<Rightarrow> bool" where
  "IsDeprecated g name \<longleftrightarrow> name \<in> set (rgDeprecated g)"

definition LatestAll :: "registry \<Rightarrow> (string \<times> revision) list" where
  "LatestAll g = List.map_filter (\<lambda>(name, rs). if rs = [] then None else Some (name, last rs)) (rgByName g)"

definition History :: "registry \<Rightarrow> string \<Rightarrow> revision list" where
  "History g name = revisions g name"

definition SetPackMirror :: "mirror_env \<Rightarrow> registry \<Rightarrow> string option \<times> registry" where
  "SetPackMirror me g = (case ListAll me g of
     Inl e \<Rightarrow> (Some e, g)
   | Inr rows \<Rightarrow>
       (let g1 = fold (\<lambda>r h. with_revisions (rvName r) (revisions h (rvName r) @ [r]) h) rows g;
            g2 = (case ListDeprecated me g1 of
              Inl _ \<Rightarrow> g1 | Inr names \<Rightarrow> g1\<lparr>rgDeprecated := fold List.insert names (rgDeprecated g1)\<rparr>)
        in (None, g2\<lparr>rgMirror := True\<rparr>)))"

datatype register_error = PackExists | RegisterFailed string

text \<open>One revision more, in the table first; a new revision brings its name back into use.\<close>

definition append_revision :: "mirror_env \<Rightarrow> revision \<Rightarrow> registry \<Rightarrow> (register_error + (revision \<times> bool)) \<times> registry" where
  "append_revision me rv g = (case (if rgMirror g then Upsert me rv g else (None, g)) of
     (Some e, g1) \<Rightarrow> (Inl (RegisterFailed (''pack revision persist: '' @ e)), g1)
   | (None, g1) \<Rightarrow>
       (let g2 = with_revisions (rvName rv) (revisions g1 (rvName rv) @ [rv]) g1
        in (Inr (rv, False), hook me (rvName rv) False (g2\<lparr>rgDeprecated := removeAll (rvName rv) (rgDeprecated g2)\<rparr>))))"

text \<open>The specification, its hash and its text are those of a pack that was checked.\<close>

definition registerLocked ::
  "pack_codec \<Rightarrow> mirror_env \<Rightarrow> gotime \<Rightarrow> workload_pack \<Rightarrow> string \<Rightarrow> bool \<Rightarrow> registry \<Rightarrow> (register_error + (revision \<times> bool)) \<times> registry" where
  "registerLocked cd me now p createdBy ifAbsent g = (case SpecHash cd p of
     Inl e \<Rightarrow> (Inl (RegisterFailed e), g)
   | Inr hash \<Rightarrow> (case pcJson cd (wpSpec p) of
       Inl e \<Rightarrow> (Inl (RegisterFailed e), g)
     | Inr text \<Rightarrow>
         (let latest = revisions g (wpName p)
          in if ifAbsent \<and> latest \<noteq> [] then (Inl PackExists, g)
             else if latest \<noteq> [] \<and> rvSpecHash (last latest) = hash
             then (if rvDescription (last latest) \<noteq> wpDescription p
                   then let fresh = (last latest)\<lparr>rvDescription := wpDescription p\<rparr>; g1 = with_revisions (wpName p) (butlast latest @ [fresh]) g
                     in (Inr (fresh, True), if rgMirror g1 then snd (Upsert me fresh g1) else g1)
                   else (Inr (last latest, True), g))
             else append_revision me \<lparr>rvName = wpName p, rvRevision = int (length latest) + 1, rvSpecHash = hash, rvSpecJSON = text,
                    rvDescription = wpDescription p, rvCreatedBy = createdBy, rvCreatedAt = now\<rparr> g)))"

definition Register :: "pack_codec \<Rightarrow> mirror_env \<Rightarrow> gotime \<Rightarrow> workload_pack \<Rightarrow> string \<Rightarrow> registry \<Rightarrow> (register_error + (revision \<times> bool)) \<times> registry" where
  "Register cd me now p createdBy g = registerLocked cd me now p createdBy False g"

definition RegisterIfAbsent :: "pack_codec \<Rightarrow> mirror_env \<Rightarrow> gotime \<Rightarrow> workload_pack \<Rightarrow> string \<Rightarrow> registry \<Rightarrow> (register_error + (revision \<times> bool)) \<times> registry" where
  "RegisterIfAbsent cd me now p createdBy g = registerLocked cd me now p createdBy True g"

definition registry_names :: "registry \<Rightarrow> string" where
  "registry_names g = (case sort (map fst (rgByName g)) of [] \<Rightarrow> (utf8 [239, 188, 136, 230,
      151, 160, 239, 188, 137]) | ns \<Rightarrow> join_with '', '' ns)"

definition PinLatest :: "string \<Rightarrow> registry \<Rightarrow> string + revision" where
  "PinLatest name g =
    (if revisions g name = [] then Inl ((utf8 [230, 156, 170, 231, 159, 165] @ '' pack '') @
        go_quote name @ (utf8 [239, 188, 136, 229, 183, 178, 230, 179, 168, 229, 134, 140] @ '': '') @
        registry_names g @ (utf8 [239, 188, 137]))
     else Inr (last (revisions g name)))"

text \<open>The number of a reference, reckoned in 64 bits.\<close>

fun rev_number :: "nat list \<Rightarrow> int \<Rightarrow> int option" where
  "rev_number [] n = Some n"
| "rev_number (r # rs) n = (if r < 48 \<or> r > 57 then None else rev_number rs (wrap64 (wrap64 (n * 10) + int (r - 48))))"

definition Lookup :: "string \<Rightarrow> registry \<Rightarrow> string + revision" where
  "Lookup k g = (case str_last_index k ''@'' of
     None \<Rightarrow> Inl ((utf8 [228, 191, 174, 232, 174, 162, 229, 188, 149, 231, 148, 168] @
         '' '') @ go_quote k @ ('' '' @ utf8 [233, 157, 158] @ '' name@revision '' @ utf8 [229, 189,
         162, 230, 128, 129]))
   | Some pos \<Rightarrow>
       if pos = 0 \<or> pos + 1 = length k then Inl ((utf8 [228, 191, 174, 232, 174, 162, 229, 188, 149,
           231, 148, 168] @ '' '') @ go_quote k @ ('' '' @ utf8 [233, 157, 158] @ '' name@revision '' @
           utf8 [229, 189, 162, 230, 128, 129]))
       else let name = take pos k
         in case rev_number (runes (drop (pos + 1) k)) 0 of
              None \<Rightarrow> Inl ((utf8 [228, 191, 174, 232, 174, 162, 229, 188, 149, 231, 148,
                  168] @ '' '') @ go_quote k @ ('' '' @ utf8 [231, 137, 136, 230, 156, 172, 230, 174,
                  181, 233, 157, 158, 230, 149, 176, 229, 173, 151]))
            | Some n \<Rightarrow>
                if n < 1 \<or> n > int (length (revisions g name))
                then Inl ((utf8 [228, 191, 174, 232, 174, 162] @ '' '') @ go_quote k @ ('' '' @
                    utf8 [228, 184, 141, 229, 156, 168, 230, 179, 168, 229, 134, 140, 232, 161, 168,
                    239, 188, 136] @ ''pack '') @ go_quote name @ ('' '' @ utf8 [229, 133, 177] @
                    '' '') @ nat_digits (length (revisions g name)) @ ('' '' @ utf8 [228, 191, 174,
                    232, 174, 162, 239, 188, 137]))
                else Inr (revisions g name ! nat (n - 1)))"

section \<open>Start-up\<close>

text \<open>What stops the start is a panic, with its text. No hook for the marks is set.\<close>

fun register_builtins ::
  "pack_codec \<Rightarrow> mirror_env \<Rightarrow> gotime \<Rightarrow> workload_pack list \<Rightarrow> string list \<Rightarrow> registry \<Rightarrow> string + (string list \<times> registry)" where
  "register_builtins cd me now [] builtin g = Inr (builtin, g)"
| "register_builtins cd me now (p # ps) builtin g = (case Register cd me now p ''platform'' g of
     (Inl PackExists, _) \<Rightarrow> Inl ''task-service packs''
   | (Inl (RegisterFailed e), _) \<Rightarrow> Inl (''task-service packs: '' @ e @ '' (ADR-245)'')
   | (Inr _, g1) \<Rightarrow> register_builtins cd me now ps (builtin @ [wpName p]) g1)"

definition load_packs ::
  "pack_codec \<Rightarrow> mirror_env \<Rightarrow> gotime \<Rightarrow> bool \<Rightarrow> (string + (string \<times> bool \<times> (string + string)) list) option \<Rightarrow> registry \<Rightarrow>
    string + (string list \<times> registry)" where
  "load_packs cd me now database dir g0 =
    (let g = NewRegistry (rgRows g0) (rgMarks g0)
     in case dir of
          None \<Rightarrow> Inr ([], g)
        | Some d \<Rightarrow> (case (if database then SetPackMirror me g else (None, g)) of
            (Some e, _) \<Rightarrow> Inl (''task-service pack mirror hydrate: '' @ e @ '' (ADR-245)'')
          | (None, g1) \<Rightarrow> (case LoadDir cd None d of
              Inl e \<Rightarrow> Inl (''task-service packs: '' @ e @ '' (ADR-245, U6)'')
            | Inr ps \<Rightarrow> register_builtins cd me now ps [] g1)))"

section \<open>Administration\<close>

definition orchestrationMaxYAML :: nat where "orchestrationMaxYAML = 64 * 1024"

definition orchestrationPackOf :: "pack_codec \<Rightarrow> string \<Rightarrow> string \<Rightarrow> string + workload_pack" where
  "orchestrationPackOf cd name yaml = (case pcYaml cd yaml of
     Inl e \<Rightarrow> Inl ((''spec_yaml '' @ utf8 [232, 167, 163, 230, 158, 144, 229, 164, 177, 232,
         180, 165] @ '': '') @ e)
   | Inr p \<Rightarrow>
       if wpName p \<noteq> [] \<and> wpName p \<noteq> name
       then Inl ((''spec_yaml '' @ utf8 [229, 134, 133] @ '' name '') @ go_quote (wpName p) @ ('' '' @
           utf8 [228, 184, 142, 232, 175, 183, 230, 177, 130] @ '' name '') @ go_quote name @ ('' '' @
           utf8 [228, 184, 141, 228, 184, 128, 232, 135, 180]))
       else let q = p\<lparr>wpName := name\<rparr> in (case Validate None q of Some e \<Rightarrow> Inl e | None \<Rightarrow> Inr q))"

record orchestration_revision =
  orRevision :: int
  orSpecHash :: string
  orCreatedBy :: string
  orCreatedAt :: gotime

record orchestration_info =
  oiName :: string
  oiLatest :: int
  oiSpecYaml :: string
  oiSpecHash :: string
  oiExecution :: string
  oiDescription :: string
  oiDeprecated :: bool
  oiReadonly :: bool
  oiUpdatedAt :: gotime
  oiHistory :: "orchestration_revision list"

text \<open>An error that is no status.\<close>

abbreviation plain_error :: "string \<Rightarrow> grpc_error" where "plain_error e \<equiv> (Unknown, e)"

definition history_entry :: "revision \<Rightarrow> orchestration_revision" where
  "history_entry h = \<lparr>orRevision = int32 (rvRevision h), orSpecHash = rvSpecHash h, orCreatedBy = rvCreatedBy h, orCreatedAt = rvCreatedAt h\<rparr>"

definition orchestrationInfoOf ::
  "pack_codec \<Rightarrow> string list \<Rightarrow> string \<Rightarrow> revision \<Rightarrow> bool \<Rightarrow> registry \<Rightarrow> grpc_error + orchestration_info" where
  "orchestrationInfoOf cd builtin name rv includeHistory g = (case pcSpec cd (rvSpecJSON rv) of
     Inl e \<Rightarrow> Inl (plain_error ((''spec_json '' @ utf8 [232, 167, 163, 230, 158, 144, 229,
         164, 177, 232, 180, 165] @ '': '') @ e))
   | Inr sp \<Rightarrow> (case pcText cd \<lparr>wpAPIVersion = ''codeaudit.pack/v0'', wpKind = ''WorkloadPack'', wpName = name,
         wpDescription = rvDescription rv, wpSpec = sp\<rparr> of
       Inl e \<Rightarrow> Inl (plain_error ((''spec_yaml '' @ utf8 [229, 186, 143, 229, 136, 151, 229,
           140, 150] @ '': '') @ e))
     | Inr y \<Rightarrow> Inr \<lparr>oiName = name, oiLatest = int32 (rvRevision rv), oiSpecYaml = y, oiSpecHash = rvSpecHash rv,
         oiExecution = psExecution sp, oiDescription = rvDescription rv, oiDeprecated = IsDeprecated g name,
         oiReadonly = (name \<in> set builtin), oiUpdatedAt = rvCreatedAt rv,
         oiHistory = (if includeHistory then map history_entry (History g name) else [])\<rparr>))"

fun infos_of ::
  "pack_codec \<Rightarrow> string list \<Rightarrow> bool \<Rightarrow> bool \<Rightarrow> registry \<Rightarrow> string list \<Rightarrow> orchestration_info list \<Rightarrow> grpc_error + orchestration_info list" where
  "infos_of cd builtin withDeprecated includeHistory g [] out = Inr out"
| "infos_of cd builtin withDeprecated includeHistory g (n # ns) out =
    (if IsDeprecated g n \<and> \<not> withDeprecated then infos_of cd builtin withDeprecated includeHistory g ns out
     else case orchestrationInfoOf cd builtin n (last (revisions g n)) includeHistory g of
       Inl e \<Rightarrow> Inl e
     | Inr i \<Rightarrow> infos_of cd builtin withDeprecated includeHistory g ns (out @ [i]))"

definition ListOrchestrations :: "pack_codec \<Rightarrow> string list \<Rightarrow> bool \<Rightarrow> bool \<Rightarrow> registry \<Rightarrow> grpc_error + orchestration_info list" where
  "ListOrchestrations cd builtin withDeprecated includeHistory g =
    infos_of cd builtin withDeprecated includeHistory g (sort (map fst (LatestAll g))) []"

text \<open>The checks of a name and a text, and the pack they make.\<close>

definition admitted_pack :: "pack_codec \<Rightarrow> string \<Rightarrow> string \<Rightarrow> grpc_error + workload_pack" where
  "admitted_pack cd name yaml =
    (if name = [] \<or> yaml = [] then Inl (InvalidArgument, (''name '' @ utf8 [228, 184, 142] @
        '' spec_yaml '' @ utf8 [229, 191, 133, 229, 161, 171]))
     else if length yaml > orchestrationMaxYAML then Inl (InvalidArgument, (''spec_yaml '' @ utf8 [232,
         182, 133, 233, 153, 144, 239, 188, 136] @ ''>65536 '' @ utf8 [229, 173, 151, 232, 138, 130,
         239, 188, 137]))
     else case orchestrationPackOf cd name yaml of Inl e \<Rightarrow> Inl (InvalidArgument, e) | Inr p \<Rightarrow> Inr p)"

definition CreateOrchestration ::
  "pack_codec \<Rightarrow> mirror_env \<Rightarrow> gotime \<Rightarrow> string list \<Rightarrow> string \<Rightarrow> string \<Rightarrow> string \<Rightarrow> registry \<Rightarrow> (grpc_error + orchestration_info) \<times> registry" where
  "CreateOrchestration cd me now builtin who name yaml g = (case admitted_pack cd name yaml of
     Inl e \<Rightarrow> (Inl e, g)
   | Inr p \<Rightarrow>
       if name \<in> set builtin then (Inl (AlreadyExists, (utf8 [231, 188, 150, 230, 142, 146] @
           '' '') @ go_quote name @ ('' '' @ utf8 [228, 184, 186, 229, 134, 133, 231, 189, 174, 229,
           143, 170, 232, 175, 187, 231, 155, 174, 229, 189, 149, 226, 128, 148, 226, 128, 148, 228,
           184, 141, 229, 143, 175, 229, 144, 140, 229, 144, 141, 230, 150, 176, 229, 187, 186])), g)
       else (case RegisterIfAbsent cd me now p who g of
         (Inl PackExists, g1) \<Rightarrow> (Inl (AlreadyExists, (utf8 [231, 188, 150, 230, 142, 146] @
             '' '') @ go_quote name @ ('' '' @ utf8 [229, 183, 178, 229, 173, 152, 229, 156, 168, 226,
             128, 148, 226, 128, 148, 229, 143, 152, 230, 155, 180, 232, 181, 176, 230, 155, 180, 230,
             150, 176, 230, 142, 165, 229, 143, 163, 239, 188, 136] @ ''append '' @ utf8 [230, 150,
             176, 228, 191, 174, 232, 174, 162, 239, 188, 137])), g1)
       | (Inl (RegisterFailed e), g1) \<Rightarrow> (Inl (Internal, (''pack '' @ utf8 [230, 179, 168,
           229, 134, 140] @ '': '') @ e), g1)
       | (Inr (rv, _), g1) \<Rightarrow> (orchestrationInfoOf cd builtin name rv True g1, g1)))"

definition UpdateOrchestration ::
  "pack_codec \<Rightarrow> mirror_env \<Rightarrow> gotime \<Rightarrow> string list \<Rightarrow> string \<Rightarrow> string \<Rightarrow> string \<Rightarrow> registry \<Rightarrow> (grpc_error + orchestration_info) \<times> registry" where
  "UpdateOrchestration cd me now builtin who name yaml g = (case admitted_pack cd name yaml of
     Inl e \<Rightarrow> (Inl e, g)
   | Inr p \<Rightarrow>
       if name \<in> set builtin
       then (Inl (FailedPrecondition, (utf8 [231, 188, 150, 230, 142, 146] @ '' '') @ go_quote name @
         ('' '' @ utf8 [228, 184, 186, 229, 134, 133, 231, 189, 174, 229, 143, 170, 232, 175, 187, 231,
             155, 174, 229, 189, 149, 226, 128, 148, 226, 128, 148, 228, 184, 141, 229, 143, 175, 228,
             191, 174, 230, 148, 185, 239, 188, 136, 229, 134, 133, 231, 189, 174, 229, 174, 136, 229,
             141, 171, 229, 133, 136, 228, 186, 142, 229, 173, 152, 229, 156, 168, 230, 128, 167, 239,
             188, 154, 229, 134, 133, 231, 189, 174, 229, 144, 140, 230, 151, 182, 230, 179, 168, 229,
             134, 140, 229, 156, 168] @ '' Registry'' @ utf8 [239, 188, 137])), g)
       else if revisions g name = [] then (Inl (NotFound, (utf8 [231, 188, 150, 230, 142, 146] @
           '' '') @ go_quote name @ ('' '' @ utf8 [228, 184, 141, 229, 173, 152, 229, 156, 168, 239,
           188, 136, 230, 150, 176, 229, 187, 186, 232, 181, 176, 229, 136, 155, 229, 187, 186, 230,
           142, 165, 229, 143, 163, 239, 188, 137])), g)
       else (case Register cd me now p who g of
         (Inl PackExists, g1) \<Rightarrow> (Inl (Internal, (''pack '' @ utf8 [230, 179, 168, 229, 134,
             140] @ '': pack '' @ utf8 [229, 183, 178, 229, 173, 152, 229, 156, 168])), g1)
       | (Inl (RegisterFailed e), g1) \<Rightarrow> (Inl (Internal, (''pack '' @ utf8 [230, 179, 168,
           229, 134, 140] @ '': '') @ e), g1)
       | (Inr (rv, _), g1) \<Rightarrow> (orchestrationInfoOf cd builtin name rv True g1, g1)))"

definition DeprecateOrchestration ::
  "pack_codec \<Rightarrow> mirror_env \<Rightarrow> string list \<Rightarrow> string \<Rightarrow> bool \<Rightarrow> registry \<Rightarrow> (grpc_error + orchestration_info) \<times> registry" where
  "DeprecateOrchestration cd me builtin name undo g =
    (if name = [] then (Inl (InvalidArgument, (''name '' @ utf8 [229, 191, 133, 229, 161, 171])), g)
     else if revisions g name = [] then (Inl (NotFound, (utf8 [231, 188, 150, 230, 142, 146] @ '' '') @
         go_quote name @ ('' '' @ utf8 [228, 184, 141, 229, 173, 152, 229, 156, 168])), g)
     else if name \<in> set builtin then (Inl (FailedPrecondition, (utf8 [231, 188, 150, 230, 142,
         146] @ '' '') @ go_quote name @ ('' '' @ utf8 [228, 184, 186, 229, 134, 133, 231, 189, 174,
         229, 143, 170, 232, 175, 187, 231, 155, 174, 229, 189, 149, 226, 128, 148, 226, 128, 148, 228,
         184, 141, 229, 143, 175, 229, 129, 156, 231, 148, 168])), g)
     else let g1 = SetDeprecated me name (\<not> undo) g in (orchestrationInfoOf cd builtin name (last (revisions g name)) True g1, g1))"

end
