(* ===== verification/PackRules.thy ===== *)
theory PackRules imports Main Prelude GoText GraphState GraphInv ProjectStore Packs PackRegistry begin

text \<open>
  What the registry of packs promises: which packs are accepted, that a revision a task is pinned to stays what it was, and that
  a restart restores the revisions as the columns of their table keep them; and what a restart forgets.
\<close>

section \<open>Which packs are accepted\<close>

lemma last_index_Some:
  "str_last_index s [c] = Some i \<longleftrightarrow> i < length s \<and> s ! i = c \<and> c \<notin> set (drop (Suc i) s)"
proof (induction s arbitrary: i)
  case (Cons x xs)
  have none: "str_last_index xs [c] = None \<longleftrightarrow> c \<notin> set xs"
  proof (induction xs)
    case (Cons y ys)
    then show ?case by (auto split: option.splits)
  qed simp
  show ?case
  proof (cases "str_last_index xs [c]")
    case None
    then show ?thesis using none by (cases i) (auto dest: nth_mem)
  next
    case (Some j)
    then show ?thesis using Cons.IH[of j] Cons.IH[of "i - 1"] by (cases i) (auto dest: in_set_dropD)
  qed
qed simp

text \<open>A reference to a version: an id that is known and a version that is no moving tag.\<close>

text \<open>The names and keys of the two regular expressions, letter by letter.\<close>

definition az :: string where "az = ''abcdefghijklmnopqrstuvwxyz''"
definition az09 :: string where "az09 = az @ ''0123456789''"

definition well_named :: "string \<Rightarrow> bool" where
  "well_named s \<longleftrightarrow> (\<exists>a. s = [a] \<and> a \<in> set az09) \<or>
     (\<exists>a w b. s = a # w @ [b] \<and> length w \<le> 61 \<and> a \<in> set az09 \<and> b \<in> set az09 \<and> set w \<subseteq> set (az09 @ ''-''))"

definition well_keyed :: "string \<Rightarrow> bool" where
  "well_keyed s \<longleftrightarrow> (\<exists>a w. s = a # w \<and> 1 \<le> length w \<and> length w \<le> 62 \<and> a \<in> set az \<and> set w \<subseteq> set (az09 @ ''_''))"

lemma lower_letters: "(CHR ''a'' \<le> c \<and> c \<le> CHR ''z'') = (c \<in> set az)" "lower_alnum c = (c \<in> set az09)"
proof -
  have "\<forall>c. (CHR ''a'' \<le> c \<and> c \<le> CHR ''z'') = (c \<in> set az)" by code_simp
  then show "(CHR ''a'' \<le> c \<and> c \<le> CHR ''z'') = (c \<in> set az)" by blast
  have "\<forall>c. lower_alnum c = (c \<in> set az09)" by code_simp
  then show "lower_alnum c = (c \<in> set az09)" by blast
qed

lemma nameRe_letters: "nameRe s = well_named s"
proof (cases s)
  case (Cons a t)
  show ?thesis
  proof (cases "t = []")
    case True
    then show ?thesis using Cons by (auto simp: nameRe_def well_named_def lower_letters)
  next
    case False
    then obtain w b where t: "t = w @ [b]" by (metis rev_exhaust)
    show ?thesis unfolding Cons t by (auto simp: nameRe_def well_named_def lower_letters list_all_iff)
  qed
qed (simp add: nameRe_def well_named_def)

lemma constraintRe_letters: "constraintRe s = well_keyed s"
  using lower_letters(1)[of "hd s"] by (cases s) (auto simp: constraintRe_def well_keyed_def lower_letters(2) list_all_iff)

text \<open>A reference to something known, pinned to a version that is no moving tag in any case.\<close>

definition anchored :: "string list option \<Rightarrow> string \<Rightarrow> bool" where
  "anchored ids ref \<longleftrightarrow> (\<exists>k ver. ref = k @ CHR ''@'' # ver \<and> k \<noteq> [] \<and> ver \<noteq> [] \<and> CHR ''@'' \<notin> set ver \<and>
     (\<forall>tag \<in> {''latest'', ''stable'', ''head'', ''main'', ''master'', ''dev'', ''next'', ''frozen-draft''}. ToLower ver \<noteq> tag) \<and>
     (case ids of None \<Rightarrow> True | Some known \<Rightarrow> k \<in> set known))"

lemma float_tags: "v \<notin> set floatTags \<longleftrightarrow>
    (\<forall>tag \<in> {''latest'', ''stable'', ''head'', ''main'', ''master'', ''dev'', ''next'', ''frozen-draft''}. v \<noteq> tag)"
  by (simp add: floatTags_def)

lemma anchoredRef_None: "anchoredRef field ref ids = None \<longleftrightarrow> anchored ids ref"
proof
  assume a: "anchoredRef field ref ids = None"
  then obtain i where i: "str_last_index ref ''@'' = Some i" by (cases "str_last_index ref ''@''") (auto simp: anchoredRef_def)
  then have s: "i < length ref" "ref ! i = CHR ''@''" "CHR ''@'' \<notin> set (drop (Suc i) ref)" unfolding last_index_Some by blast+
  have "ref = take i ref @ CHR ''@'' # drop (Suc i) ref" using id_take_nth_drop[OF s(1)] s(2) by simp
  moreover have "take i ref \<noteq> []" "drop (Suc i) ref \<noteq> []" using a i s(1) by (auto simp: anchoredRef_def split: if_splits)
  moreover have "ToLower (drop (Suc i) ref) \<notin> set floatTags \<and> (case ids of None \<Rightarrow> True | Some known \<Rightarrow> take i ref \<in> set known)"
    using a i by (auto simp: anchoredRef_def Let_def split: if_splits option.splits)
  ultimately show "anchored ids ref" unfolding anchored_def float_tags[symmetric] using s(3) by blast
next
  assume "anchored ids ref"
  then obtain k ver where r: "ref = k @ CHR ''@'' # ver" "k \<noteq> []" "ver \<noteq> []" "CHR ''@'' \<notin> set ver" "ToLower ver \<notin> set floatTags"
    "case ids of None \<Rightarrow> True | Some known \<Rightarrow> k \<in> set known" unfolding anchored_def float_tags[symmetric] by blast
  have "str_last_index ref ''@'' = Some (length k)" unfolding last_index_Some using r(1,4) by simp
  then show "anchoredRef field ref ids = None" using r by (auto simp: anchoredRef_def Let_def split: option.splits)
qed

lemma first_error_None: "first_error cs = None \<longleftrightarrow> (\<forall>(bad, e) \<in> set cs. \<not> bad)"
  by (induction cs rule: first_error.induct) auto

lemma first_error_append: "first_error (as @ bs) = or_else (first_error as) (first_error bs)"
  by (induction as rule: first_error.induct) (auto simp: or_else_def)

lemma or_else_None: "or_else a b = None \<longleftrightarrow> a = None \<and> b = None"
  by (cases a) (simp_all add: or_else_def)

lemma schema_error_None:
  "schema_error seen cs = None \<longleftrightarrow> distinct cs \<and> set cs \<inter> set seen = {} \<and> (\<forall>c \<in> set cs. constraintRe c)"
  by (induction cs arbitrary: seen) auto

definition graph_valid :: "graph_section \<Rightarrow> bool" where
  "graph_valid g \<longleftrightarrow> (\<forall>s \<in> set (gsSeedIntents g). TrimSpace s \<noteq> []) \<and> set (gcAllowedTypes (gsConstraints g)) \<subseteq> {''planner'', ''executor'', ''verifier''} \<and>
     0 \<le> gcMaxNodes (gsConstraints g) \<and> 0 \<le> gcMaxPlannerReplans (gsConstraints g) \<and> 0 \<le> gcMaxAttemptsPerNode (gsConstraints g) \<and>
     0 \<le> gtPlanner (gsTimeouts g) \<and> 0 \<le> gtExecutor (gsTimeouts g) \<and> 0 \<le> gtVerifier (gsTimeouts g)"

lemma graph_validate_None: "graph_validate g = None \<longleftrightarrow> graph_valid g"
proof -
  have seeds: "(\<forall>(bad, e) \<in> set (map (\<lambda>(i, s). (TrimSpace s = [], msg i)) (enumerate 0 xs)). \<not> bad) \<longleftrightarrow> (\<forall>s \<in> set xs. TrimSpace s \<noteq> [])"
    for msg :: "nat \<Rightarrow> string" and xs
  proof -
    have "set xs = snd ` set (enumerate 0 xs)" by (metis map_snd_enumerate list.set_map)
    then show ?thesis by (auto simp: case_prod_beta)
  qed
  have types: "(\<forall>(bad, e) \<in> set (map (\<lambda>t. (t \<notin> set GraphNodeTypes, msg t)) xs). \<not> bad) \<longleftrightarrow> set xs \<subseteq> set GraphNodeTypes"
    for msg :: "string \<Rightarrow> string" and xs by auto
  have known: "set GraphNodeTypes = {''planner'', ''executor'', ''verifier''}" by (auto simp: GraphNodeTypes_def)
  show ?thesis unfolding graph_validate_def Let_def first_error_append or_else_None
    unfolding first_error_None seeds types graph_valid_def known[symmetric] by auto
qed

text \<open>What a pack may refer to when no tables are given.\<close>

definition known_tables :: "pack_refs option \<Rightarrow> pack_refs" where
  "known_tables given = (case given of Some r \<Rightarrow> r | None \<Rightarrow>
     \<lparr>rfDialects = [''dsh-sse'', ''acp-stdio'', ''maka-runtime-host'', ''mock-stdio''],
      rfParsers = [''codeaudit-submit'', ''text-final''], rfRenderers = [''baton-brief''],
      rfTargets = [''task-card-prefix'', ''initial-prompt''], rfProfiles = [''restricted'', ''targeted''],
      rfTemplateIDs = Some [''assignmentTemplate'', ''patchPhaseTemplate''],
      rfSchemaRefs = Some [''findings/submit_findings'', ''findings/submit_patches'']\<rparr>)"

definition no_graph :: graph_section where
  "no_graph = \<lparr>gsSeedIntents = [],
     gsConstraints = \<lparr>gcMaxNodes = 0, gcAllowedTypes = [], gcMaxPlannerReplans = 0, gcMaxAttemptsPerNode = 0\<rparr>,
     gsTimeouts = \<lparr>gtPlanner = 0, gtExecutor = 0, gtVerifier = 0\<rparr>\<rparr>"

lemma graph_zero_none: "graph_zero g = (g = no_graph)"
  by (cases g; cases "gsConstraints g"; cases "gsTimeouts g")
    (auto simp: graph_zero_def constraints_zero_def timeouts_zero_def no_graph_def)

definition pack_valid :: "pack_refs \<Rightarrow> workload_pack \<Rightarrow> bool" where
  "pack_valid refs p \<longleftrightarrow> (let s = wpSpec p in
     wpAPIVersion p = ''codeaudit.pack/v0'' \<and> wpKind p = ''WorkloadPack'' \<and> well_named (wpName p) \<and> TrimSpace (wpDescription p) \<noteq> [] \<and>
     TrimSpace (psImage s) \<noteq> [] \<and> psDialect s \<in> set (rfDialects refs) \<and> psProfile s \<in> set (rfProfiles refs) \<and>
     sdBriefRenderer (psSeeds s) \<in> set (rfRenderers refs) \<and> sdRenderTarget (psSeeds s) \<in> set (rfTargets refs) \<and>
     anchored (rfTemplateIDs refs) (sdTemplateRef (psSeeds s)) \<and> anchored (rfSchemaRefs refs) (reSchemaRef (psResults s)) \<and>
     reParser (psResults s) \<in> set (rfParsers refs) \<and>
     TrimSpace (toPerTurn (psTimeouts s)) \<noteq> [] \<and> TrimSpace (toTaskTotal (psTimeouts s)) \<noteq> [] \<and>
     distinct (psConstraintsSchema s) \<and> (\<forall>c \<in> set (psConstraintsSchema s). well_keyed c) \<and>
     (if psExecution s = ''graph'' then graph_valid (psGraph s) else psExecution s \<in> {[], ''session''} \<and> psGraph s = no_graph))"

text \<open>C33. A pack is accepted if and only if it is well formed: its name is a label of 1 to 63 letters, digits and inner hyphens and
  its keys are 2 to 63 letters, digits and underscores after a letter, none twice; what it refers to is in the tables (those of the
  platform when none are given), the two references at a version after the last at-sign that is none of the eight moving tags
  in any case; and only a graph execution has a graph section, one without negative numbers, blank seeds or unknown types.\<close>

theorem validation_exact: "Validate given p = None \<longleftrightarrow> pack_valid (known_tables given) p"
proof -
  have e: "execution_error s = None \<longleftrightarrow>
      (if psExecution s = ''graph'' then graph_valid (psGraph s) else psExecution s \<in> {[], ''session''} \<and> psGraph s = no_graph)" for s
    by (auto simp: execution_error_def graph_validate_None graph_zero_none)
  have t: "(case given of None \<Rightarrow> DefaultRefs | Some r \<Rightarrow> r) = known_tables given"
    by (cases given) (simp_all add: known_tables_def DefaultRefs_def)
  show ?thesis
    unfolding Validate_def t Let_def or_else_None first_error_None anchoredRef_None schema_error_None e pack_valid_def
      nameRe_letters constraintRe_letters
    by (simp only: list.set ball_simps prod.case set_empty empty_iff Int_empty_right not_not simp_thms conj_assoc de_Morgan_disj)
qed

section \<open>Revisions stay\<close>

definition registry_wf :: "registry \<Rightarrow> bool" where
  "registry_wf g \<longleftrightarrow> (\<forall>name i. i < length (revisions g name) \<longrightarrow> rvName (revisions g name ! i) = name \<and> rvRevision (revisions g name ! i) = int i + 1)"

text \<open>The calls of a registry, each with its environment.\<close>

datatype pack_call = CallRegister mirror_env gotime workload_pack string bool | CallMark mirror_env string bool

fun pack_do :: "pack_codec \<Rightarrow> pack_call \<Rightarrow> registry \<Rightarrow> registry" where
  "pack_do cd (CallRegister me now p who ifAbsent) g = snd (registerLocked cd me now p who ifAbsent g)"
| "pack_do cd (CallMark me name dep) g = SetDeprecated me name dep g"

definition pack_run :: "pack_codec \<Rightarrow> pack_call list \<Rightarrow> registry \<Rightarrow> registry" where
  "pack_run cd cs g = fold (pack_do cd) cs g"

text \<open>A revision but for its description.\<close>

definition core :: "revision \<Rightarrow> revision" where
  "core r = r\<lparr>rvDescription := []\<rparr>"

lemma revisions_with [simp]: "revisions (with_revisions n rs g) m = (if m = n then rs else revisions g m)"
  by (simp add: revisions_def with_revisions_def update_conv')

lemma revisions_cong: "rgByName g = rgByName h \<Longrightarrow> revisions g n = revisions h n"
  by (simp add: revisions_def)

lemma Upsert_frame [simp]: "rgByName (snd (Upsert me r g)) = rgByName g" "rgMirror (snd (Upsert me r g)) = rgMirror g"
  "rgHook (snd (Upsert me r g)) = rgHook g" "rgMarks (snd (Upsert me r g)) = rgMarks g"
  by (simp_all add: Upsert_def split: option.split)

lemma hook_frame [simp]: "rgByName (hook me n d g) = rgByName g" "rgRows (hook me n d g) = rgRows g" "rgMirror (hook me n d g) = rgMirror g"
  "rgHook (hook me n d g) = rgHook g"
  by (simp_all add: hook_def mirror_SetDeprecated_def split: option.split)

lemma SetDeprecated_frame [simp]: "rgByName (SetDeprecated me n d g) = rgByName g" "rgRows (SetDeprecated me n d g) = rgRows g"
  "rgMirror (SetDeprecated me n d g) = rgMirror g" "rgHook (SetDeprecated me n d g) = rgHook g"
  by (simp_all add: SetDeprecated_def)

text \<open>What a registration does to the revisions: nothing, a new description of the last, or one more.\<close>

lemma register_cases:
  assumes "registerLocked cd me now p who ab g = (a, g')"
  obtains (same) "g' = g"
  | (redescribed) rs r where "revisions g (wpName p) = rs @ [r]"
      "g' = (let g1 = with_revisions (wpName p) (rs @ [r\<lparr>rvDescription := wpDescription p\<rparr>]) g
             in if rgMirror g1 then snd (Upsert me (r\<lparr>rvDescription := wpDescription p\<rparr>) g1) else g1)"
  | (added) rv g1 where "rvName rv = wpName p" "rvRevision rv = int (length (revisions g (wpName p))) + 1"
      "(if rgMirror g then Upsert me rv g else (None, g)) = (None, g1)"
      "rgByName g' = rgByName (with_revisions (wpName p) (revisions g (wpName p) @ [rv]) g1)" "rgRows g' = rgRows g1" "rgMirror g' = rgMirror g1"
proof -
  consider "\<exists>e. SpecHash cd p = Inl e \<or> pcJson cd (wpSpec p) = Inl e" | hash js where "SpecHash cd p = Inr hash" "pcJson cd (wpSpec p) = Inr js"
    by (cases "SpecHash cd p"; cases "pcJson cd (wpSpec p)") auto
  then show ?thesis
  proof cases
    case 1
    then show ?thesis using assms same by (auto simp: registerLocked_def split: sum.splits)
  next
    case (2 hash js)
    let ?l = "revisions g (wpName p)"
    let ?rv = "\<lparr>rvName = wpName p, rvRevision = int (length ?l) + 1, rvSpecHash = hash, rvSpecJSON = js,
                     rvDescription = wpDescription p, rvCreatedBy = who, rvCreatedAt = now\<rparr>"
    show ?thesis
    proof (cases "(ab \<and> ?l \<noteq> []) \<or> (?l \<noteq> [] \<and> rvSpecHash (last ?l) = hash)")
      case hit: True
      then have ne: "?l = butlast ?l @ [last ?l]" by auto
      show ?thesis
      proof (cases "ab \<and> ?l \<noteq> [] \<or> rvDescription (last ?l) = wpDescription p")
        case True
        then show ?thesis using assms 2 hit same by (auto simp: registerLocked_def Let_def split: if_splits)
      next
        case False
        then show ?thesis using assms 2 hit by (intro redescribed[OF ne]) (auto simp: registerLocked_def Let_def)
      qed
    next
      case False
      then have ap: "append_revision me ?rv g = (a, g')" using assms 2 by (auto simp: registerLocked_def Let_def)
      obtain err g1 where u: "(if rgMirror g then Upsert me ?rv g else (None, g)) = (err, g1)" by (rule prod.exhaust)
      have g1: "rgByName g1 = rgByName g" "rgMirror g1 = rgMirror g" using arg_cong[OF u, of snd] by (auto split: if_splits)
      show ?thesis
      proof (cases err)
        case None
        show ?thesis
          by (rule added[of ?rv g1])
            (use ap u None g1 revisions_cong[OF g1(1)] in \<open>auto simp: append_revision_def Let_def with_revisions_def\<close>)
      next
        case (Some e)
        then have "g' = g1" using ap u by (simp add: append_revision_def)
        moreover have "g1 = g" using u Some by (auto simp: Upsert_def split: option.splits if_splits)
        ultimately show ?thesis using same by simp
      qed
    qed
  qed
qed

lemma SetDeprecated_revisions [simp]: "revisions (SetDeprecated me n d g) m = revisions g m"
  by (rule revisions_cong) simp

lemma register_revisions:
  assumes "registerLocked cd me now p who ab g = (a, g')"
  shows "revisions g' = revisions g \<or>
    (\<exists>rs r. revisions g (wpName p) = rs @ [r] \<and> revisions g' = (revisions g)(wpName p := rs @ [r\<lparr>rvDescription := wpDescription p\<rparr>])) \<or>
    (\<exists>r. rvName r = wpName p \<and> rvRevision r = int (length (revisions g (wpName p))) + 1 \<and>
      revisions g' = (revisions g)(wpName p := revisions g (wpName p) @ [r]))"
  using assms
proof (cases rule: register_cases)
  case (redescribed rs r)
  have "revisions g' = revisions (with_revisions (wpName p) (rs @ [r\<lparr>rvDescription := wpDescription p\<rparr>]) g)"
    by (rule ext, rule revisions_cong) (simp add: redescribed(2) Let_def)
  then have "revisions g' = (revisions g)(wpName p := rs @ [r\<lparr>rvDescription := wpDescription p\<rparr>])" by (auto simp: fun_eq_iff)
  then show ?thesis using redescribed(1) by blast
next
  case (added rv g1)
  have g1: "rgByName g1 = rgByName g" using added(3) Upsert_frame(1)[of me rv g] by (cases "rgMirror g") auto
  have "revisions g' = revisions (with_revisions (wpName p) (revisions g (wpName p) @ [rv]) g1)"
    by (rule ext, rule revisions_cong) (simp add: added(4))
  then have "revisions g' = (revisions g)(wpName p := revisions g (wpName p) @ [rv])" using revisions_cong[OF g1] by (auto simp: fun_eq_iff)
  then show ?thesis using added(1,2) by blast
qed simp

lemma pack_do_revisions:
  assumes "registry_wf g"
  shows "registry_wf (pack_do cd c g) \<and> (\<exists>more. map core (revisions (pack_do cd c g) n) = map core (revisions g n) @ more)"
proof (cases c)
  case (CallRegister me now p who ab)
  obtain a g' where r: "registerLocked cd me now p who ab g = (a, g')" by (cases "registerLocked cd me now p who ab g")
  have d: "pack_do cd c g = g'" using CallRegister r by simp
  consider "revisions g' = revisions g"
    | rs x where "revisions g (wpName p) = rs @ [x]" "revisions g' = (revisions g)(wpName p := rs @ [x\<lparr>rvDescription := wpDescription p\<rparr>])"
    | x where "rvName x = wpName p" "rvRevision x = int (length (revisions g (wpName p))) + 1"
        "revisions g' = (revisions g)(wpName p := revisions g (wpName p) @ [x])"
    using register_revisions[OF r] by blast
  then have "registry_wf g' \<and> (\<exists>more. map core (revisions g' n) = map core (revisions g n) @ more)"
  proof cases
    case 1
    then show ?thesis using assms by (simp add: registry_wf_def)
  next
    case (2 rs x)
    have "rvName x = wpName p \<and> rvRevision x = int (length rs) + 1"
      using assms 2(1) unfolding registry_wf_def by (metis length_append_singleton lessI nth_append_length)
    moreover have "i < length rs \<Longrightarrow> rvName (rs ! i) = wpName p \<and> rvRevision (rs ! i) = int i + 1" for i
      using assms 2(1) unfolding registry_wf_def by (metis length_append_singleton less_SucI nth_append)
    ultimately show ?thesis using assms 2 by (auto simp: registry_wf_def nth_append less_Suc_eq core_def)
  next
    case (3 x)
    then show ?thesis using assms by (auto simp: registry_wf_def nth_append less_Suc_eq)
  qed
  then show ?thesis unfolding d .
qed (use assms in \<open>simp add: registry_wf_def\<close>)

lemma pack_run_revisions:
  "registry_wf g \<Longrightarrow> registry_wf (pack_run cd cs g) \<and> (\<exists>more. map core (revisions (pack_run cd cs g) n) = map core (revisions g n) @ more)"
proof (induction cs arbitrary: g)
  case (Cons c cs)
  obtain m1 where m1: "registry_wf (pack_do cd c g)" "map core (revisions (pack_do cd c g) n) = map core (revisions g n) @ m1"
    using pack_do_revisions[OF Cons.prems] by blast
  obtain m2 where "registry_wf (pack_run cd cs (pack_do cd c g))"
      "map core (revisions (pack_run cd cs (pack_do cd c g)) n) = map core (revisions (pack_do cd c g) n) @ m2"
    using Cons.IH[OF m1(1)] by blast
  then show ?case using m1(2) by (auto simp: pack_run_def)
qed (simp add: pack_run_def)

text \<open>The number in a reference.\<close>

lemma rev_number_digits:
  "(\<And>c. c \<in> set s \<Longrightarrow> digit_val c \<noteq> None) \<Longrightarrow> digits_val n s = Some v \<Longrightarrow> int v < 2 ^ 63 \<Longrightarrow>
    rev_number (map byte s) (int n) = Some (int v) \<and> n \<le> v"
proof (induction s arbitrary: n)
  case (Cons c s)
  obtain d where d: "digit_val c = Some d" using Cons.prems(1)[of c] by auto
  then have b: "48 \<le> (byte c :: nat)" "(byte c :: nat) \<le> 57" "d = byte c - 48" by (auto simp: digit_val_def Let_def split: if_splits)
  have ih: "rev_number (map byte s) (int (10 * n + d)) = Some (int v) \<and> 10 * n + d \<le> v"
    by (rule Cons.IH) (use Cons.prems d in auto)
  have w: "wrap64 x = x" if "0 \<le> x" "x < 2 ^ 63" for x using that by (simp add: wrap64_def)
  have "wrap64 (int n * 10) = int n * 10" by (rule w) (use ih Cons.prems(3) in linarith)+
  moreover have "wrap64 (int n * 10 + int d) = int n * 10 + int d" by (rule w) (use ih Cons.prems(3) in linarith)+
  moreover have "rev_number (map byte (c # s)) (int n) = rev_number (map byte s) (wrap64 (wrap64 (int n * 10) + int d))"
    unfolding b(3) using b(1,2) by simp
  moreover have "int n * 10 + int d = int (10 * n + d)" by simp
  ultimately show ?case using ih by auto
qed simp

lemma runes_ascii: "(\<And>c. c \<in> set s \<Longrightarrow> byte c < (128 :: nat)) \<Longrightarrow> runes s = map byte s"
proof (induction s)
  case (Cons c s)
  have "rune_segs (c # s) = (byte c, [c]) # rune_segs s" by (rule rune_segs_ascii) (use Cons.prems[of c] in simp)
  then show ?case using Cons by (simp add: runes_def)
qed (simp add: runes_def)

lemma rev_number_nat: "int k < 2 ^ 63 \<Longrightarrow> rev_number (runes (nat_digits k)) 0 = Some (int k)"
proof -
  assume k: "int k < 2 ^ 63"
  have "byte c < (128 :: nat)" if "c \<in> set (nat_digits k)" for c
    using nat_digits_all[OF that] by (auto simp: digit_val_def Let_def split: if_splits)
  then have "runes (nat_digits k) = map byte (nat_digits k)" by (rule runes_ascii)
  moreover have "rev_number (map byte (nat_digits k)) (int 0) = Some (int k)"
    using rev_number_digits[of "nat_digits k" 0 k] nat_digits_all[of _ k] digits_val_nat_digits[of k] k by blast
  ultimately show ?thesis by simp
qed

lemma Lookup_ID:
  assumes "name \<noteq> []" "0 < k" "int k < 2 ^ 63"
  shows "Lookup (name @ ''@'' @ int_digits (int k)) g =
    (if k \<le> length (revisions g name) then Inr (revisions g name ! (k - 1)) else Lookup (name @ ''@'' @ int_digits (int k)) g)"
proof -
  have d: "int_digits (int k) = nat_digits k" by (simp add: int_digits_def)
  have "CHR ''@'' \<notin> set (nat_digits k)" using nat_digits_all[of "CHR ''@''" k] by (auto simp: digit_val_def)
  then have "str_last_index (name @ ''@'' @ nat_digits k) ''@'' = Some (length name)" unfolding last_index_Some by simp
  then show ?thesis unfolding d using assms rev_number_nat[OF assms(3)]
    by (auto simp: Lookup_def Let_def nat_diff_distrib)
qed

text \<open>C34. The revision a task is pinned to at its creation stays: whatever is registered or marked afterwards, its reference finds the
  same revision, of which at most the description has changed.\<close>

theorem pinned_revision_stays:
  assumes "registry_wf g" "name \<noteq> []" "PinLatest name g = Inr r" "rvRevision r < 2 ^ 63"
  shows "\<exists>r'. Lookup (rv_ID r) (pack_run cd calls g) = Inr r' \<and> core r' = core r"
proof -
  let ?rs = "revisions g name" and ?ss = "revisions (pack_run cd calls g) name"
  have ne: "?rs \<noteq> []" and r: "r = last ?rs" using assms(3) by (auto simp: PinLatest_def split: if_splits)
  then have "rvName (?rs ! (length ?rs - 1)) = name \<and> rvRevision (?rs ! (length ?rs - 1)) = int (length ?rs - 1) + 1"
    using assms(1) unfolding registry_wf_def by (metis One_nat_def diff_less length_greater_0_conv zero_less_one)
  moreover have "int (length ?rs - 1) + 1 = int (length ?rs)" using ne by (cases ?rs) auto
  ultimately have id: "rvName r = name" "rvRevision r = int (length ?rs)" using ne by (simp_all add: r last_conv_nth)
  obtain more where m: "map core ?ss = map core ?rs @ more" using pack_run_revisions[OF assms(1)] by blast
  then have len: "length ?rs \<le> length ?ss" by (metis length_append length_map le_add1)
  have "Lookup (rv_ID r) (pack_run cd calls g) = Inr (?ss ! (length ?rs - 1))"
    using Lookup_ID[OF assms(2), of "length ?rs" "pack_run cd calls g"] ne len assms(4) unfolding rv_ID_def id by simp
  moreover have "core (?ss ! (length ?rs - 1)) = core r"
  proof -
    have "length ?rs - 1 < length ?rs" using ne by simp
    then have "map core ?ss ! (length ?rs - 1) = map core ?rs ! (length ?rs - 1)" unfolding m by (simp add: nth_append)
    then show ?thesis using ne len \<open>length ?rs - 1 < length ?rs\<close> by (simp add: r last_conv_nth)
  qed
  ultimately show ?thesis by blast
qed

section \<open>A restart\<close>

text \<open>Environments whose columns keep the same of a revision.\<close>

definition same_columns :: "mirror_env \<Rightarrow> mirror_env \<Rightarrow> bool" where
  "same_columns me m \<longleftrightarrow> meJsonb m = meJsonb me \<and> meMicros m = meMicros me"

lemma stored_same: "same_columns me m \<Longrightarrow> stored_row m r = stored_row me r"
  by (simp add: same_columns_def stored_row_def)

text \<open>The rows of the table are the revisions as their columns keep them, but for descriptions.\<close>

definition rows_match :: "mirror_env \<Rightarrow> registry \<Rightarrow> bool" where
  "rows_match me g \<longleftrightarrow>
    (\<forall>name. map core (filter (\<lambda>r. rvName r = name) (rgRows g)) = map (core \<circ> stored_row me) (revisions g name))"

lemma stored_simps [simp]: "rvName (stored_row me r) = rvName r" "rvRevision (stored_row me r) = rvRevision r"
  "rvSpecHash (stored_row me r) = rvSpecHash r" "rvSpecJSON (stored_row me r) = meJsonb me (rvSpecJSON r)"
  by (simp_all add: stored_row_def)

lemma core_stored: "core (stored_row me (core r)) = core (stored_row me r)"
  by (simp add: core_def stored_row_def)

lemma core_stored_cong: "core a = core b \<Longrightarrow> core (stored_row me a) = core (stored_row me b)"
  by (metis core_stored)

lemma core_simps [simp]: "rvName (core r) = rvName r" "rvRevision (core r) = rvRevision r" "rvSpecHash (core r) = rvSpecHash r"
  "rvSpecJSON (core r) = rvSpecJSON r" "core (r\<lparr>rvDescription := d\<rparr>) = core r"
  by (simp_all add: core_def)

lemma row_before_core [simp]: "row_before (core a) (core b) = row_before a b"
  by (simp add: row_before_def)

text \<open>A row is a revision at its number.\<close>

lemma row_is_revision:
  assumes "registry_wf g" "rows_match me g" "x \<in> set (rgRows g)"
  obtains i where "i < length (revisions g (rvName x))" "core x = core (stored_row me (revisions g (rvName x) ! i))" "rvRevision x = int i + 1"
proof -
  let ?l = "filter (\<lambda>r. rvName r = rvName x) (rgRows g)" and ?rs = "revisions g (rvName x)"
  have m: "map core ?l = map (core \<circ> stored_row me) ?rs" using assms(2) by (simp add: rows_match_def)
  have "x \<in> set ?l" using assms(3) by simp
  then obtain i where i: "i < length ?l" "?l ! i = x" by (metis in_set_conv_nth)
  have len: "length ?l = length ?rs" using m by (rule map_eq_imp_length_eq)
  have c: "core x = core (stored_row me (?rs ! i))" using m i len by (metis comp_apply nth_map)
  have "rvRevision (?rs ! i) = int i + 1" using assms(1) i(1) len by (simp add: registry_wf_def)
  then have "rvRevision x = int i + 1" using arg_cong[OF c, of rvRevision] by simp
  then show ?thesis using that i(1) len c by simp
qed

lemma Upsert_known:
  assumes "registry_wf g" "rows_match me g" "revisions g n = rs @ [x]" "rvName r = n" "core r = core x" "same_columns me m"
  shows "map core (rgRows (snd (Upsert m r g))) = map core (rgRows g) \<or> (\<forall>y \<in> set (rgRows g). \<not> same_row y r)"
proof (cases "meFails m ''upsert'' = None \<and> (\<exists>y \<in> set (rgRows g). same_row y r)")
  case True
  let ?f = "\<lambda>y. if same_row y r then y\<lparr>rvSpecHash := rvSpecHash r, rvSpecJSON := meJsonb m (rvSpecJSON r), rvDescription := rvDescription r\<rparr> else y"
  have "core (?f y) = core y" if y: "y \<in> set (rgRows g)" for y
  proof (cases "same_row y r")
    case True
    obtain i where i: "i < length (revisions g (rvName y))" "core y = core (stored_row me (revisions g (rvName y) ! i))" "rvRevision y = int i + 1"
      by (rule row_is_revision[OF assms(1,2) y])
    have n: "rvName y = n" using True assms(4) by (simp add: same_row_def)
    have "rvRevision x = int (length rs) + 1"
      using assms(1,3) unfolding registry_wf_def by (metis length_append_singleton lessI nth_append_length)
    moreover have "rvRevision r = rvRevision x" using arg_cong[OF assms(5), of rvRevision] by simp
    ultimately have "i = length rs" using True i(3) by (simp add: same_row_def)
    then have "core y = core (stored_row me x)" using i(2) assms(3) n by simp
    then have c: "core y = core (stored_row me r)" using core_stored_cong[OF assms(5)] by simp
    have "rvSpecHash y = rvSpecHash r" "rvSpecJSON y = meJsonb m (rvSpecJSON r)"
      using arg_cong[OF c, of rvSpecHash] arg_cong[OF c, of rvSpecJSON] assms(6) by (simp_all add: same_columns_def)
    then have "y\<lparr>rvSpecHash := rvSpecHash r, rvSpecJSON := meJsonb m (rvSpecJSON r), rvDescription := rvDescription r\<rparr> = y\<lparr>rvDescription := rvDescription r\<rparr>"
      by (cases y) simp
    then show ?thesis using True by simp
  qed simp
  then show ?thesis using True by (auto simp: Upsert_def)
qed (auto simp: Upsert_def split: option.splits)

fun call_env :: "pack_call \<Rightarrow> mirror_env" where
  "call_env (CallRegister me now p who ifAbsent) = me"
| "call_env (CallMark me name dep) = me"

lemma rows_match_step:
  assumes "registry_wf g" "rows_match me g" "rgMirror g" "same_columns me (call_env c)"
  shows "rows_match me (pack_do cd c g) \<and> rgMirror (pack_do cd c g)"
proof (cases c)
  case (CallRegister m now p who ab)
  have col: "same_columns me m" using assms(4) CallRegister by simp
  obtain a g' where r: "registerLocked cd m now p who ab g = (a, g')" by (cases "registerLocked cd m now p who ab g")
  from r have "rows_match me g' \<and> rgMirror g'"
  proof (cases rule: register_cases)
    case (redescribed rs x)
    let ?x = "x\<lparr>rvDescription := wpDescription p\<rparr>"
    let ?g1 = "with_revisions (wpName p) (rs @ [?x]) g"
    have m1: "rgMirror ?g1" "rgRows ?g1 = rgRows g" using assms(3) by (simp_all add: with_revisions_def)
    have rv: "map core (revisions ?g1 n) = map core (revisions g n)" for n using redescribed(1) by simp
    have xn: "rvName ?x = wpName p"
      using assms(1) redescribed(1) unfolding registry_wf_def
      by (metis length_append_singleton lessI nth_append_length revision.select_convs(1) revision.surjective revision.update_convs(5))
    have wf1: "registry_wf ?g1"
    proof -
      have "length (revisions ?g1 n) = length (revisions g n)" for n using map_eq_imp_length_eq[OF rv[of n]] .
      moreover have "i < length (revisions g n) \<Longrightarrow> core (revisions ?g1 n ! i) = core (revisions g n ! i)" for n i
        using rv[of n] by (metis calculation nth_map)
      ultimately show ?thesis using assms(1) unfolding registry_wf_def by (metis core_simps(1,2))
    qed
    have st: "map (core \<circ> stored_row me) (revisions ?g1 n) = map (core \<circ> stored_row me) (revisions g n)" for n
      using arg_cong[OF rv[of n], of "map (core \<circ> stored_row me)"] by (simp add: comp_def core_stored del: revisions_with)
    have match1: "rows_match me ?g1" using assms(2) by (simp add: rows_match_def m1 st del: revisions_with)
    have g': "g' = snd (Upsert m ?x ?g1)" using redescribed(2) m1(1) by (simp add: Let_def)
    have "\<exists>y \<in> set (rgRows g). same_row y ?x"
    proof -
      have "core (stored_row me x) \<in> set (map core (filter (\<lambda>r. rvName r = wpName p) (rgRows g)))"
        using assms(2) redescribed(1) by (simp add: rows_match_def)
      then obtain y where y: "y \<in> set (rgRows g)" "core (stored_row me x) = core y" by auto
      have "rvName y = rvName x" "rvRevision y = rvRevision x"
        using arg_cong[OF y(2), of rvName] arg_cong[OF y(2), of rvRevision] by simp_all
      then show ?thesis using y(1) by (auto simp: same_row_def)
    qed
    then have rows: "map core (rgRows g') = map core (rgRows g)"
      using Upsert_known[OF wf1 match1, of "wpName p" rs ?x ?x m] xn g' m1(2) col by auto
    have fm: "map core (filter (\<lambda>r. rvName r = n) xs) = filter (\<lambda>r. rvName r = n) (map core xs)" for n xs by (induction xs) auto
    have "rows_match me g'" unfolding rows_match_def
    proof
      fix n
      have "map core (filter (\<lambda>r. rvName r = n) (rgRows g')) = map core (filter (\<lambda>r. rvName r = n) (rgRows ?g1))"
        unfolding fm rows m1(2) ..
      also have "\<dots> = map (core \<circ> stored_row me) (revisions ?g1 n)" using match1 unfolding rows_match_def by blast
      also have "revisions ?g1 n = revisions g' n" unfolding g' by (rule revisions_cong[OF Upsert_frame(1), symmetric])
      finally show "map core (filter (\<lambda>r. rvName r = n) (rgRows g')) = map (core \<circ> stored_row me) (revisions g' n)" .
    qed
    then show ?thesis using match1 m1 g' by simp
  next
    case (added rv g1)
    have "\<not> same_row y rv" if "y \<in> set (rgRows g)" for y
      by (rule row_is_revision[OF assms(1,2) that]) (use added(1,2) in \<open>auto simp: same_row_def\<close>)
    then have rows: "rgRows g1 = rgRows g @ [stored_row me rv]" and m: "rgMirror g1 = rgMirror g" "rgByName g1 = rgByName g"
      using added(3) assms(3) stored_same[OF col] by (auto simp: Upsert_def split: option.splits if_splits)
    have "revisions g' n = (if n = wpName p then revisions g (wpName p) @ [rv] else revisions g n)" for n
      using revisions_cong[OF added(4), of n] revisions_cong[OF m(2)] by simp
    then show ?thesis using assms(2,3) added(1,5,6) m(1) by (auto simp: rows_match_def rows)
  qed (use assms in simp)
  then show ?thesis using CallRegister r by simp
qed (use assms in \<open>simp add: rows_match_def\<close>)

text \<open>A registry in step with its table.\<close>

definition in_step :: "mirror_env \<Rightarrow> registry \<Rightarrow> bool" where
  "in_step me g \<longleftrightarrow> registry_wf g \<and> rows_match me g \<and> rgMirror g"

lemma in_step_run: "in_step me g \<Longrightarrow> \<forall>c \<in> set cs. same_columns me (call_env c) \<Longrightarrow> in_step me (pack_run cd cs g)"
proof (induction cs arbitrary: g)
  case (Cons c cs)
  then have "in_step me (pack_do cd c g)"
    using pack_do_revisions[of g cd c] rows_match_step[of g me c cd] by (simp add: in_step_def)
  then show ?case using Cons by (simp add: pack_run_def)
qed (simp add: pack_run_def)

text \<open>Reading back sorts by name and number, and keeps the order of each name.\<close>

lemma insert_row_sorted: "sorted_wrt row_before xs \<Longrightarrow> sorted_wrt row_before (insert_row r xs)"
proof (induction xs)
  case (Cons x xs)
  have trans: "row_before a b \<Longrightarrow> row_before b c \<Longrightarrow> row_before a c" for a b c by (auto simp: row_before_def)
  have set: "set (insert_row r ys) = insert r (set ys)" for ys by (induction ys) auto
  have "\<not> row_before r x \<Longrightarrow> row_before x r" by (auto simp: row_before_def)
  then show ?case using Cons trans by (auto simp: set)
qed simp

lemma insert_row_filter:
  "sorted_wrt row_before xs \<Longrightarrow> filter (\<lambda>x. rvName x = n) (insert_row r xs) =
    (if rvName r = n then insert_row r (filter (\<lambda>x. rvName x = n) xs) else filter (\<lambda>x. rvName x = n) xs)"
proof (induction xs)
  case (Cons x xs)
  let ?f = "filter (\<lambda>x. rvName x = n)"
  have ih: "?f (insert_row r xs) = (if rvName r = n then insert_row r (?f xs) else ?f xs)" using Cons by simp
  show ?case
  proof (cases "row_before r x")
    case True
    have "y \<in> set xs \<Longrightarrow> row_before x y" for y using Cons.prems by simp
    then have "y \<in> set xs \<Longrightarrow> rvName y = n \<Longrightarrow> rvName r = n \<Longrightarrow> row_before r y" for y
      using True unfolding row_before_def by fastforce
    then have front: "rvName r = n \<Longrightarrow> insert_row r (?f xs) = r # ?f xs" by (cases "?f xs") (auto simp: filter_eq_Cons_iff)
    show ?thesis using True front by simp
  next
    case False
    then show ?thesis by (simp add: ih)
  qed
qed simp

lemma sort_rows_filter:
  assumes "sorted_wrt row_before (filter (\<lambda>x. rvName x = n) rows)"
  shows "filter (\<lambda>x. rvName x = n) (foldr insert_row rows []) = filter (\<lambda>x. rvName x = n) rows"
proof -
  have s: "sorted_wrt row_before (foldr insert_row ys [])" for ys by (induction ys) (simp_all add: insert_row_sorted)
  have "sorted_wrt row_before (filter (\<lambda>x. rvName x = n) ys) \<Longrightarrow>
      filter (\<lambda>x. rvName x = n) (foldr insert_row ys []) = filter (\<lambda>x. rvName x = n) ys" for ys
  proof (induction ys)
    case (Cons y ys)
    have "rvName y = n \<Longrightarrow> insert_row y (filter (\<lambda>x. rvName x = n) ys) = y # filter (\<lambda>x. rvName x = n) ys"
      using Cons.prems by (cases "filter (\<lambda>x. rvName x = n) ys") auto
    then show ?case using Cons insert_row_filter[OF s] by (auto split: if_splits)
  qed simp
  then show ?thesis using assms by blast
qed

lemma replay_rows: "rgRows (fold (\<lambda>r h. with_revisions (rvName r) (revisions h (rvName r) @ [r]) h) rows g) = rgRows g"
  by (induction rows arbitrary: g) (auto simp: with_revisions_def)

lemma replay_revisions:
  "revisions (fold (\<lambda>r h. with_revisions (rvName r) (revisions h (rvName r) @ [r]) h) rows g) n = revisions g n @ filter (\<lambda>r. rvName r = n) rows"
  by (induction rows arbitrary: g) auto

lemma start_restores:
  assumes step: "in_step me g" and load: "SetPackMirror m (NewRegistry (rgRows g) marks) = (None, h)"
    and stable: "\<forall>t. meJsonb me (meJsonb me t) = meJsonb me t" "\<forall>t. meMicros me (meMicros me t) = meMicros me t"
  shows "in_step me h \<and> (\<forall>name. map core (revisions h name) = map (core \<circ> stored_row me) (revisions g name))"
proof -
  have wf: "registry_wf g" and match: "rows_match me g" using step by (simp_all add: in_step_def)
  have m: "map core (filter (\<lambda>x. rvName x = n) (rgRows g)) = map (core \<circ> stored_row me) (revisions g n)" for n
    using match by (simp add: rows_match_def)
  have sorted: "sorted_wrt row_before (filter (\<lambda>x. rvName x = n) (rgRows g))" for n
  proof -
    have rb: "row_before (stored_row me a) (stored_row me b) = row_before a b" for a b by (simp add: row_before_def)
    have "sorted_wrt row_before (revisions g n)" using wf by (auto simp: sorted_wrt_iff_nth_less registry_wf_def row_before_def)
    then have "sorted_wrt row_before (map (core \<circ> stored_row me) (revisions g n))" by (simp add: sorted_wrt_map rb)
    then show ?thesis unfolding m[symmetric] by (simp add: sorted_wrt_map)
  qed
  have h: "rgByName h = rgByName (fold (\<lambda>r h. with_revisions (rvName r) (revisions h (rvName r) @ [r]) h)
        (foldr insert_row (rgRows g) []) (NewRegistry (rgRows g) marks))"
      "rgMirror h" "rgRows h = rgRows g"
    using load by (auto simp: SetPackMirror_def ListAll_def NewRegistry_def Let_def replay_rows split: sum.splits option.splits)
  have rev: "map core (revisions h n) = map (core \<circ> stored_row me) (revisions g n)" for n
  proof -
    have "revisions h n = filter (\<lambda>r. rvName r = n) (foldr insert_row (rgRows g) [])"
      using revisions_cong[OF h(1)] by (simp add: replay_revisions) (simp add: NewRegistry_def revisions_def)
    then show ?thesis by (simp add: sort_rows_filter[OF sorted] m)
  qed
  have len: "length (revisions h n) = length (revisions g n)" for n using map_eq_imp_length_eq[OF rev[of n]] .
  have nth: "core (revisions h n ! i) = core (stored_row me (revisions g n ! i))" if "i < length (revisions g n)" for n i
    using rev[of n] that len[of n] by (metis comp_apply nth_map)
  have "registry_wf h" unfolding registry_wf_def
  proof (intro allI impI)
    fix n i assume i: "i < length (revisions h n)"
    show "rvName (revisions h n ! i) = n \<and> rvRevision (revisions h n ! i) = int i + 1"
      using arg_cong[OF nth[of i n], of rvName] arg_cong[OF nth[of i n], of rvRevision] i len[of n] wf
      by (simp add: registry_wf_def)
  qed
  moreover have "rows_match me h" unfolding rows_match_def
  proof
    fix n
    have twice: "stored_row me (stored_row me r) = stored_row me r" for r using stable by (simp add: stored_row_def)
    have "map (core \<circ> stored_row me) (revisions h n) = map (\<lambda>x. core (stored_row me x)) (map core (revisions h n))"
      by (simp add: core_stored comp_def)
    also have "\<dots> = map (core \<circ> stored_row me) (revisions g n)" unfolding rev by (simp add: core_stored twice comp_def)
    finally show "map core (filter (\<lambda>r. rvName r = n) (rgRows h)) = map (core \<circ> stored_row me) (revisions h n)"
      using m[of n] h(3) by simp
  qed
  ultimately show ?thesis using rev h(2) by (simp add: in_step_def)
qed

text \<open>The start-up registers the packs of its directory: calls like any other.\<close>

lemma builtins_are_calls:
  "register_builtins cd m now ps b g = Inr (b', h) \<Longrightarrow> \<exists>cs. h = pack_run cd cs g \<and> (\<forall>c \<in> set cs. call_env c = m)"
proof (induction ps arbitrary: b g)
  case (Cons p ps)
  obtain a g1 where r: "registerLocked cd m now p ''platform'' False g = (a, g1)" by (rule prod.exhaust)
  have "register_builtins cd m now ps (b @ [wpName p]) g1 = Inr (b', h)"
    using Cons.prems r by (cases a) (auto simp: Register_def split: register_error.splits prod.splits)
  then obtain cs where cs: "h = pack_run cd cs g1" "\<forall>c \<in> set cs. call_env c = m" using Cons.IH by blast
  have "h = pack_run cd (CallRegister m now p ''platform'' False # cs) g" using cs(1) r by (simp add: pack_run_def)
  then show ?case using cs(2) by (metis call_env.simps(1) set_ConsD)
qed (auto simp: pack_run_def intro: exI[of _ "[]"])

text \<open>C35. A restart keeps the revisions. Take a service with a database and a directory of packs whose table only it writes, in step with that table. After any
  calls, a start that succeeds is in step with the table again and has, under every name, the same revisions in the same order as
  the columns keep them (but for descriptions), and after them only what the packs of the directory added. The columns are taken to keep
  what they once kept: a JSONB text and a time of microseconds are read and written unchanged. A write that fails leaves no gap and no stranger.\<close>

theorem restart_restores_revisions:
  assumes "in_step me g" "\<forall>c \<in> set calls. same_columns me (call_env c)" "same_columns me m"
    and "\<forall>t. meJsonb me (meJsonb me t) = meJsonb me t" "\<forall>t. meMicros me (meMicros me t) = meMicros me t"
    and "load_packs cd m now True (Some d) (pack_run cd calls g) = Inr (b, h)"
  shows "in_step me h \<and> (\<forall>name. \<exists>more.
    map core (revisions h name) = map (core \<circ> stored_row me) (revisions (pack_run cd calls g) name) @ more)"
proof -
  let ?g = "pack_run cd calls g"
  obtain err h1 where m: "SetPackMirror m (NewRegistry (rgRows ?g) (rgMarks ?g)) = (err, h1)" by (rule prod.exhaust)
  have e: "err = None" using assms(6) m by (cases err) (simp_all add: load_packs_def Let_def)
  obtain ps where "register_builtins cd m now ps [] h1 = Inr (b, h)"
    using assms(6) m e by (auto simp: load_packs_def Let_def split: sum.splits)
  then obtain cs where cs: "h = pack_run cd cs h1" "\<forall>c \<in> set cs. call_env c = m" using builtins_are_calls by blast
  note s = start_restores[OF in_step_run[OF assms(1,2)] m[unfolded e] assms(4,5)]
  have "in_step me h" unfolding cs(1) using s cs(2) assms(3) by (intro in_step_run) auto
  then show ?thesis using s pack_run_revisions[of h1 cd cs] cs(1) by (metis in_step_def)
qed

text \<open>The first start, on empty tables, is in step.\<close>

lemma first_start_in_step:
  assumes "load_packs cd me now True (Some d) g0 = Inr (b, h)" "rgRows g0 = []"
  shows "in_step me h"
proof -
  obtain err h1 where m: "SetPackMirror me (NewRegistry (rgRows g0) (rgMarks g0)) = (err, h1)" by (rule prod.exhaust)
  have e: "err = None" using assms(1) m by (cases err) (simp_all add: load_packs_def Let_def)
  obtain ps where "register_builtins cd me now ps [] h1 = Inr (b, h)"
    using assms(1) m e by (auto simp: load_packs_def Let_def split: sum.splits)
  then obtain cs where cs: "h = pack_run cd cs h1" "\<forall>c \<in> set cs. call_env c = me" using builtins_are_calls by blast
  have "in_step me h1"
    using m e assms(2) by (auto simp: SetPackMirror_def ListAll_def NewRegistry_def Let_def in_step_def registry_wf_def rows_match_def
        revisions_def split: sum.splits option.splits)
  then show ?thesis unfolding cs(1) using cs(2) by (intro in_step_run) (auto simp: same_columns_def)
qed

text \<open>No hook is set by the code: marks are kept in memory only.\<close>

lemma with_revisions_frame [simp]: "rgDeprecated (with_revisions n rs g) = rgDeprecated g" "rgMarks (with_revisions n rs g) = rgMarks g"
  "rgHook (with_revisions n rs g) = rgHook g" "rgMirror (with_revisions n rs g) = rgMirror g" "rgRows (with_revisions n rs g) = rgRows g"
  by (simp_all add: with_revisions_def)

lemma Upsert_deprecated [simp]: "rgDeprecated (snd (Upsert me r g)) = rgDeprecated g"
  by (simp add: Upsert_def split: option.split)

definition unmarked :: "registry \<Rightarrow> registry \<Rightarrow> bool" where
  "unmarked g g' \<longleftrightarrow> rgHook g' = rgHook g \<and> rgMarks g' = rgMarks g \<and> set (rgDeprecated g') \<subseteq> set (rgDeprecated g)"

lemma append_unmarked:
  assumes "\<not> rgHook g"
  shows "unmarked g (snd (append_revision me rv g))"
proof -
  obtain err g1 where u: "(if rgMirror g then Upsert me rv g else (None, g)) = (err, g1)" by (rule prod.exhaust)
  have "rgHook g1 = rgHook g" "rgMarks g1 = rgMarks g" "rgDeprecated g1 = rgDeprecated g"
    using arg_cong[OF u, of snd] by (auto split: if_splits)
  then show ?thesis using u assms by (cases err) (auto simp: append_revision_def unmarked_def hook_def Let_def)
qed

lemma register_unmarked:
  assumes "\<not> rgHook g"
  shows "unmarked g (snd (registerLocked cd me now p who ab g))"
proof -
  have refl: "unmarked h h" for h by (simp add: unmarked_def)
  show ?thesis unfolding registerLocked_def Let_def
    using append_unmarked[OF assms] refl by (simp add: unmarked_def split: sum.split)
qed

lemma run_marks: "\<not> rgHook g \<Longrightarrow> rgMarks (pack_run cd cs g) = rgMarks g"
proof (induction cs arbitrary: g)
  case (Cons c cs)
  have "\<not> rgHook (pack_do cd c g) \<and> rgMarks (pack_do cd c g) = rgMarks g"
  proof (cases c)
    case (CallRegister me now p who ab)
    then show ?thesis using register_unmarked[OF Cons.prems, of cd me now p who ab] Cons.prems by (simp add: unmarked_def)
  next
    case (CallMark me n dep)
    then show ?thesis using Cons.prems by (simp add: SetDeprecated_def hook_def)
  qed
  then show ?case using Cons.IH[of "pack_do cd c g"] by (simp add: pack_run_def)
qed (simp add: pack_run_def)

lemma builtins_unmarked:
  "register_builtins cd me now ps b g = Inr (b', g') \<Longrightarrow> \<not> rgHook g \<Longrightarrow> unmarked g g'"
proof (induction ps arbitrary: b g)
  case (Cons p ps)
  obtain a g1 where r: "registerLocked cd me now p ''platform'' False g = (a, g1)" by (rule prod.exhaust)
  have u: "unmarked g g1" using register_unmarked[OF Cons.prems(2), of cd me now p "''platform''" False] r by simp
  have "register_builtins cd me now ps (b @ [wpName p]) g1 = Inr (b', g')"
    using Cons.prems(1) r by (cases a) (auto simp: Register_def split: register_error.splits prod.splits)
  then have "unmarked g1 g'" using Cons.IH u Cons.prems(2) by (simp add: unmarked_def)
  then show ?case using u by (auto simp: unmarked_def)
qed (simp add: unmarked_def)

lemma replay_frame: "rgDeprecated (fold (\<lambda>r h. with_revisions (rvName r) (revisions h (rvName r) @ [r]) h) rows g) = rgDeprecated g"
  "rgMarks (fold (\<lambda>r h. with_revisions (rvName r) (revisions h (rvName r) @ [r]) h) rows g) = rgMarks g"
  "rgHook (fold (\<lambda>r h. with_revisions (rvName r) (revisions h (rvName r) @ [r]) h) rows g) = rgHook g"
  by (induction rows arbitrary: g) auto

lemma load_unmarked:
  assumes "load_packs cd me now db dir g0 = Inr (b, g)" "rgMarks g0 = []"
  shows "\<not> rgHook g \<and> rgMarks g = [] \<and> rgDeprecated g = []"
proof -
  let ?g = "NewRegistry (rgRows g0) (rgMarks g0)"
  have n: "rgHook ?g = False" "rgMarks ?g = []" "rgDeprecated ?g = []" using assms(2) by (simp_all add: NewRegistry_def)
  show ?thesis
  proof (cases dir)
    case None
    then show ?thesis using assms n by (auto simp: load_packs_def Let_def NewRegistry_def)
  next
    case (Some d)
    obtain err g1 where m: "(if db then SetPackMirror me ?g else (None, ?g)) = (err, g1)" by (rule prod.exhaust)
    have g1: "rgHook g1 = False" "rgMarks g1 = []" "rgDeprecated g1 = []" if "err = None"
      using m that n by (auto simp: SetPackMirror_def ListDeprecated_def Let_def replay_frame split: if_splits sum.splits option.splits)
    have e: "err = None" using assms(1) m Some by (cases err) (simp_all add: load_packs_def Let_def)
    obtain ps where "register_builtins cd me now ps [] g1 = Inr (b, g)"
      using assms(1) m Some e by (auto simp: load_packs_def Let_def split: sum.splits)
    then have "unmarked g1 g" by (rule builtins_unmarked) (simp add: g1[OF e])
    then show ?thesis using g1[OF e] by (simp add: unmarked_def)
  qed
qed

text \<open>C36. The code sets no hook for the marks: whatever was taken out of use since a start, after the next start nothing is.\<close>

theorem restart_forgets_marks:
  assumes "load_packs cd me now db dir g0 = Inr (b, g)" "rgMarks g0 = []"
    and "load_packs cd me' now' db' dir' (pack_run cd calls g) = Inr (b', h)"
  shows "\<not> IsDeprecated h name"
proof -
  have "rgMarks (pack_run cd calls g) = []" using run_marks load_unmarked[OF assms(1,2)] by metis
  then show ?thesis using load_unmarked[OF assms(3)] by (simp add: IsDeprecated_def)
qed

section \<open>Samples\<close>

definition sample_pack :: "string \<Rightarrow> workload_pack" where
  "sample_pack name = \<lparr>wpAPIVersion = ''codeaudit.pack/v0'', wpKind = ''WorkloadPack'', wpName = name, wpDescription = ''d'',
     wpSpec = \<lparr>psImage = ''i'', psDialect = ''dsh-sse'', psProfile = ''restricted'',
       psSeeds = \<lparr>sdBriefRenderer = ''baton-brief'', sdRenderTarget = ''initial-prompt'', sdTemplateRef = ''assignmentTemplate@frozen''\<rparr>,
       psResults = \<lparr>reSchemaRef = ''findings/submit_findings@v1'', reParser = ''text-final''\<rparr>,
       psTimeouts = \<lparr>toPerTurn = ''p'', toTaskTotal = ''t''\<rparr>, psConstraintsSchema = [], psExecution = [],
       psGraph = \<lparr>gsSeedIntents = [], gsConstraints = \<lparr>gcMaxNodes = 0, gcAllowedTypes = [], gcMaxPlannerReplans = 0, gcMaxAttemptsPerNode = 0\<rparr>,
         gsTimeouts = \<lparr>gtPlanner = 0, gtExecutor = 0, gtVerifier = 0\<rparr>\<rparr>\<rparr>\<rparr>"

definition sample_codec :: pack_codec where
  "sample_codec = \<lparr>pcYaml = (\<lambda>y. Inr (sample_pack y)), pcJson = (\<lambda>s. Inr ''{}''), pcSpec = (\<lambda>t. Inr (wpSpec (sample_pack []))),
     pcSha = (\<lambda>t. ''h''), pcText = (\<lambda>p. Inr ''y'')\<rparr>"

definition sample_mirror :: mirror_env where
  "sample_mirror = \<lparr>meFails = (\<lambda>op. None), meJsonb = (\<lambda>t. if t = ''{}'' then ''{ }'' else t), meMicros = (\<lambda>t. 1000 * (t div 1000))\<rparr>"

definition sample_start :: registry where
  "sample_start = (NewRegistry [] [])\<lparr>rgMirror := True\<rparr>"

definition sample_registry :: registry where
  "sample_registry = pack_run sample_codec [CallRegister sample_mirror 7 (sample_pack ''demo'') ''u'' True] sample_start"

definition sample_again :: pack_call where
  "sample_again = CallRegister sample_mirror 9 ((sample_pack ''demo'')\<lparr>wpDescription := ''new''\<rparr>) ''v'' False"

lemma sample_start_ok: "registry_wf sample_start"
  by (simp_all add: registry_wf_def NewRegistry_def revisions_def sample_start_def)

lemma sample_revisions: "revisions sample_registry ''demo'' = [\<lparr>rvName = ''demo'', rvRevision = 1, rvSpecHash = ''h'', rvSpecJSON = ''{}'',
    rvDescription = ''d'', rvCreatedBy = ''u'', rvCreatedAt = 7\<rparr>]"
  by (simp add: sample_registry_def sample_start_def pack_run_def registerLocked_def SpecHash_def sample_codec_def sample_pack_def NewRegistry_def
      revisions_def append_revision_def Upsert_def sample_mirror_def with_revisions_def hook_def Let_def)

theorem pinned_revision_stays_witness:
  "\<exists>r r'. PinLatest ''demo'' sample_registry = Inr r \<and> Lookup (rv_ID r) (pack_run sample_codec [sample_again] sample_registry) = Inr r' \<and>
    core r' = core r"
proof -
  have wf: "registry_wf sample_registry" unfolding sample_registry_def using pack_run_revisions[OF sample_start_ok] by blast
  obtain r where r: "PinLatest ''demo'' sample_registry = Inr r" "rvRevision r = 1" by (simp add: PinLatest_def sample_revisions)
  show ?thesis using pinned_revision_stays[OF wf _ r(1), of sample_codec "[sample_again]"] r by auto
qed

definition sample_load :: "registry \<Rightarrow> string + (string list \<times> registry)" where
  "sample_load g = load_packs sample_codec sample_mirror 7 True (Some (Inr [])) g"

definition sample_calls :: "pack_call list" where
  "sample_calls = [CallRegister sample_mirror 7 (sample_pack ''demo'') ''u'' True, CallMark sample_mirror ''demo'' True]"

lemma sample_loads: "sample_load (NewRegistry [] []) = Inr ([], sample_start)"
  by (simp add: sample_load_def load_packs_def LoadDir_def SetPackMirror_def ListAll_def ListDeprecated_def sample_mirror_def NewRegistry_def
      sample_start_def Let_def)

lemma sample_run: "pack_run sample_codec sample_calls sample_start = sample_registry\<lparr>rgDeprecated := [''demo'']\<rparr>"
  by (simp add: sample_calls_def sample_registry_def pack_run_def SetDeprecated_def hook_def sample_start_def NewRegistry_def registerLocked_def
      SpecHash_def sample_codec_def sample_pack_def revisions_def append_revision_def Upsert_def sample_mirror_def with_revisions_def Let_def)

theorem restart_restores_revisions_witness:
  "\<exists>b h more. sample_load (pack_run sample_codec [sample_again, sample_again] sample_start) = Inr (b, h) \<and>
    map core (revisions h ''demo'') =
      map (core \<circ> stored_row sample_mirror) (revisions (pack_run sample_codec [sample_again, sample_again] sample_start) ''demo'') @ more"
proof -
  let ?g = "pack_run sample_codec [sample_again, sample_again] sample_start"
  have start: "in_step sample_mirror sample_start"
    by (rule first_start_in_step[OF sample_loads[unfolded sample_load_def]]) (simp add: NewRegistry_def)
  have "\<exists>b h. sample_load ?g = Inr (b, h)"
    by (simp add: sample_load_def load_packs_def LoadDir_def SetPackMirror_def ListAll_def ListDeprecated_def sample_mirror_def Let_def)
  then obtain b h where h: "sample_load ?g = Inr (b, h)" by blast
  have "\<forall>c \<in> set [sample_again, sample_again]. same_columns sample_mirror (call_env c)" "same_columns sample_mirror sample_mirror"
    by (simp_all add: same_columns_def sample_again_def)
  moreover have "\<forall>t. meJsonb sample_mirror (meJsonb sample_mirror t) = meJsonb sample_mirror t"
      "\<forall>t. meMicros sample_mirror (meMicros sample_mirror t) = meMicros sample_mirror t"
    by (simp_all add: sample_mirror_def)
  ultimately show ?thesis using restart_restores_revisions[OF start _ _ _ _ h[unfolded sample_load_def]] h by blast
qed

theorem restart_forgets_marks_witness:
  "IsDeprecated (pack_run sample_codec sample_calls sample_start) ''demo'' \<and>
   (\<exists>b h. sample_load (pack_run sample_codec sample_calls sample_start) = Inr (b, h) \<and> \<not> IsDeprecated h ''demo'')"
proof -
  have "\<exists>b h. sample_load (pack_run sample_codec sample_calls sample_start) = Inr (b, h)"
    by (simp add: sample_load_def load_packs_def LoadDir_def SetPackMirror_def ListAll_def ListDeprecated_def sample_mirror_def Let_def)
  then obtain b h where h: "sample_load (pack_run sample_codec sample_calls sample_start) = Inr (b, h)" by blast
  have "\<not> IsDeprecated h ''demo''"
    by (rule restart_forgets_marks[OF sample_loads[unfolded sample_load_def] _ h[unfolded sample_load_def]]) (simp add: NewRegistry_def)
  then show ?thesis using h by (simp add: sample_run IsDeprecated_def)
qed

end
