(* ===== verification/GatewayCore.thy ===== *)
theory GatewayCore imports Main Prelude GoText GraphState Packs begin

text \<open>
  The gateway's requests, answers and calls
  (\<open>gateway-service/internal/handler/transcode.go\<close>, \<open>authz.go\<close>).

  A handler is a program (\<open>prog\<close>) that ends with an answer, sends a call to a backend service
  and goes on with its reply, revokes a token or asks for a task link to be written. \<open>play\<close> plays
  it against \<open>backends\<close>, whose replies may depend on all that was sent before, and lists what the
  handler did.

  A protobuf message is the list of its set fields (\<open>msg\<close>): an enum is its number, an unset field
  has its zero value. Reading a message from JSON, writing it as JSON and random bytes are libraries, hence
  arguments (\<open>gw_env\<close>); so is which connections are configured. Deadlines show as replies with
  the code DeadlineExceeded. Requests carry what \<open>net/http\<close> parsed of them; an int is 64 bits wide.
\<close>

section \<open>Messages and calls\<close>

type_synonym msg = "(string \<times> json) list"

definition str_field :: "string \<Rightarrow> msg \<Rightarrow> string" where
  "str_field k m = jstr (map_of m) k"

definition sub_field :: "string \<Rightarrow> msg \<Rightarrow> msg" where
  "sub_field k m = (case map_of m k of Some (JObj q) \<Rightarrow> q | _ \<Rightarrow> [])"

definition has_sub :: "string \<Rightarrow> msg \<Rightarrow> bool" where
  "has_sub k m = (case map_of m k of Some (JObj _) \<Rightarrow> True | _ \<Rightarrow> False)"

definition set_str :: "string \<Rightarrow> string \<Rightarrow> msg \<Rightarrow> msg" where
  "set_str k v m = AList.update k (JStr v) m"

definition set_sub :: "string \<Rightarrow> (msg \<Rightarrow> msg) \<Rightarrow> msg \<Rightarrow> msg" where
  "set_sub k f m = AList.update k (JObj (f (sub_field k m))) m"

definition list_field :: "string \<Rightarrow> msg \<Rightarrow> json list" where
  "list_field k m = jarr (map_of m) k"

fun as_msg :: "json \<Rightarrow> msg" where
  "as_msg (JObj q) = q"
| "as_msg _ = []"

definition msg_list :: "string \<Rightarrow> msg \<Rightarrow> msg list" where
  "msg_list k m = map as_msg (list_field k m)"

datatype backend = ProjectConn | TaskConn | ResultConn | StorageConn | AdapterConn | RuntimeConn

record grpc_call =
  rpConn :: backend
  rpMethod :: string
  rpReq :: msg
  rpMeta :: "(string \<times> string) list"

type_synonym chunks = "string list \<times> grpc_error option"

datatype event =
    Sent grpc_call "grpc_error + msg"
  | Streamed grpc_call "grpc_error + chunks"
  | RevokedToken string
  | LinkTask string string

record backends =
  beCall :: "event list \<Rightarrow> grpc_call \<Rightarrow> grpc_error + msg"
  beStream :: "event list \<Rightarrow> grpc_call \<Rightarrow> grpc_error + chunks"

section \<open>Answers and handlers\<close>

datatype http_resp =
    ErrorBody nat string
  | PlainError nat string
  | JsonBody string
  | JsonValue nat json
  | RawObject "(string \<times> string) list"
  | FileBody string string
  | RedirectTo string
  | TooManyRequests
  | ToWatch string
  | ToSourceFile string
  | ToUpload
  | Aborted_by_panic

datatype prog =
    Done http_resp
  | Call grpc_call "grpc_error + msg \<Rightarrow> prog"
  | OpenStream grpc_call "grpc_error + chunks \<Rightarrow> prog"
  | RevokeToken string prog
  | WriteLink string string prog

primrec play :: "backends \<Rightarrow> prog \<Rightarrow> event list \<Rightarrow> http_resp \<times> event list" where
  "play b (Done a) h = (a, h)"
| "play b (Call r k) h = play b (k (beCall b h r)) (h @ [Sent r (beCall b h r)])"
| "play b (OpenStream r k) h = play b (k (beStream b h r)) (h @ [Streamed r (beStream b h r)])"
| "play b (RevokeToken t p) h = play b p (h @ [RevokedToken t])"
| "play b (WriteLink t d p) h = play b p (h @ [LinkTask t d])"

text \<open>The calls of a record of events.\<close>

fun call_of :: "event \<Rightarrow> grpc_call list" where
  "call_of (Sent r _) = [r]"
| "call_of (Streamed r _) = [r]"
| "call_of _ = []"

definition calls :: "event list \<Rightarrow> grpc_call list" where
  "calls h = concat (map call_of h)"

record gw_env =
  geConfigured :: "backend \<Rightarrow> bool"
  geDecode :: "string \<Rightarrow> string \<Rightarrow> string + msg"
  geDecodeFields :: "string \<Rightarrow> (string \<times> string) list \<Rightarrow> string + msg"
  geMarshal :: "msg \<Rightarrow> string + string"
  geRandom :: "nat \<Rightarrow> nat list"

record http_req =
  hrMethod :: string
  hrPath :: string
  hrQuery :: "(string \<times> string list) list"
  hrAuth :: string
  hrUpgrade :: string
  hrForwarded :: string
  hrRemote :: string
  hrBody :: string
  hrBodyErr :: "string option"
  hrUser :: "string option"
  hrRole :: "string option"

text \<open>\<open>r.URL.Query().Get(k)\<close>.\<close>

definition qget :: "http_req \<Rightarrow> string \<Rightarrow> string" where
  "qget r k = (case map_of (hrQuery r) k of Some (v # _) \<Rightarrow> v | _ \<Rightarrow> [])"

section \<open>Paths, errors, bodies\<close>

definition trim_slashes :: "string \<Rightarrow> string" where
  "trim_slashes p = rev (dropWhile ((=) (CHR ''/'')) (rev (dropWhile ((=) (CHR ''/'')) p)))"

definition splitPath :: "string \<Rightarrow> string list" where
  "splitPath p = (let q = trim_slashes p in if q = [] then [] else split_on (CHR ''/'') q)"

fun grpcToHTTP :: "grpc_code \<Rightarrow> nat" where
  "grpcToHTTP InvalidArgument = 400"
| "grpcToHTTP NotFound = 404"
| "grpcToHTTP AlreadyExists = 409"
| "grpcToHTTP FailedPrecondition = 409"
| "grpcToHTTP Aborted = 409"
| "grpcToHTTP PermissionDenied = 403"
| "grpcToHTTP Unauthenticated = 401"
| "grpcToHTTP Unimplemented = 501"
| "grpcToHTTP Unavailable = 503"
| "grpcToHTTP DeadlineExceeded = 504"
| "grpcToHTTP _ = 500"

fun code_String :: "grpc_code \<Rightarrow> string" where
  "code_String InvalidArgument = ''InvalidArgument''"
| "code_String NotFound = ''NotFound''"
| "code_String AlreadyExists = ''AlreadyExists''"
| "code_String FailedPrecondition = ''FailedPrecondition''"
| "code_String PermissionDenied = ''PermissionDenied''"
| "code_String Unauthenticated = ''Unauthenticated''"
| "code_String ResourceExhausted = ''ResourceExhausted''"
| "code_String Unimplemented = ''Unimplemented''"
| "code_String Unavailable = ''Unavailable''"
| "code_String DeadlineExceeded = ''DeadlineExceeded''"
| "code_String Aborted = ''Aborted''"
| "code_String Internal = ''Internal''"
| "code_String Unknown = ''Unknown''"

definition rpc_error :: "grpc_error \<Rightarrow> http_resp" where
  "rpc_error e = ErrorBody (grpcToHTTP (fst e)) (code_String (fst e) @ '': '' @ snd e)"

text \<open>\<open>http.MaxBytesReader\<close>: one mebibyte.\<close>

definition maxBody :: nat where "maxBody = 1048576"

definition read_body :: "http_req \<Rightarrow> string + string" where
  "read_body r =
    (if maxBody < length (hrBody r) then Inl ''http: request body too large''
     else case hrBodyErr r of Some e \<Rightarrow> Inl e | None \<Rightarrow> Inr (hrBody r))"

text \<open>An empty body leaves the message as it was; any other resets it.\<close>

definition decodeBody :: "gw_env \<Rightarrow> http_req \<Rightarrow> string \<Rightarrow> msg \<Rightarrow> string + msg" where
  "decodeBody v r ty m = (case read_body r of
     Inl e \<Rightarrow> Inl (''read body: '' @ e)
   | Inr b \<Rightarrow> if b = [] then Inr m else (case geDecode v ty b of
        Inl e \<Rightarrow> Inl (''invalid JSON body: '' @ e)
      | Inr m' \<Rightarrow> Inr m'))"

text \<open>A handler that reads its body first.\<close>

definition with_body :: "gw_env \<Rightarrow> http_req \<Rightarrow> string \<Rightarrow> msg \<Rightarrow> (msg \<Rightarrow> prog) \<Rightarrow> prog" where
  "with_body v r ty m k = (case decodeBody v r ty m of Inl e \<Rightarrow> Done (ErrorBody 400 e) | Inr m' \<Rightarrow> k m')"

definition newRequestID :: "gw_env \<Rightarrow> nat \<Rightarrow> string" where
  "newRequestID v i = ''gw-'' @ concat (map hex2 (geRandom v i))"

definition metadata :: "string \<Rightarrow> json" where
  "metadata i = JObj [(''request_id'', JStr i)]"

definition set_metadata :: "string \<Rightarrow> msg \<Rightarrow> msg" where
  "set_metadata i m = AList.update ''metadata'' (metadata i) m"

section \<open>Calls\<close>

definition respond :: "gw_env \<Rightarrow> msg \<Rightarrow> prog" where
  "respond v m = (case geMarshal v m of
     Inl e \<Rightarrow> Done (ErrorBody 500 (''response marshal: '' @ e)) | Inr b \<Rightarrow> Done (JsonBody b))"

definition invoke :: "gw_env \<Rightarrow> grpc_call \<Rightarrow> (msg \<Rightarrow> prog) \<Rightarrow> prog" where
  "invoke v c k =
    (if \<not> geConfigured v (rpConn c) then Done (ErrorBody 503 ''backend connection not configured'')
     else Call c (\<lambda>x. case x of Inl e \<Rightarrow> Done (rpc_error e) | Inr m \<Rightarrow> k m))"

definition call :: "gw_env \<Rightarrow> grpc_call \<Rightarrow> prog" where
  "call v c = invoke v c (respond v)"

text \<open>A client used without a look at its connection: a call on a nil connection panics.\<close>

definition direct :: "gw_env \<Rightarrow> grpc_call \<Rightarrow> (grpc_error + msg \<Rightarrow> prog) \<Rightarrow> prog" where
  "direct v c k = (if geConfigured v (rpConn c) then Call c k else Done Aborted_by_panic)"

definition request :: "backend \<Rightarrow> string \<Rightarrow> msg \<Rightarrow> grpc_call" where
  "request s m q = \<lparr>rpConn = s, rpMethod = m, rpReq = q, rpMeta = []\<rparr>"

section \<open>Query parameters\<close>

text \<open>The scanner of \<open>encoding/json\<close>.\<close>

datatype json_top = InKey | InValue | InArray

datatype json_state =
    BeginValue | BeginValueOrEmpty | BeginKeyOrEmpty | BeginKey | EndValue | EndTop
  | InString | InEscape | InHex nat | NumNeg | NumZero | NumDigits | NumDot | NumFrac | NumExp | NumSign | NumPower
  | InWord string

definition json_space :: "nat \<Rightarrow> bool" where
  "json_space b \<longleftrightarrow> b \<in> {9, 10, 13, 32}"

definition json_digit :: "nat \<Rightarrow> bool" where
  "json_digit b \<longleftrightarrow> 48 \<le> b \<and> b \<le> 57"

definition maxNestingDepth :: nat where "maxNestingDepth = 10000"

definition json_push :: "json_top \<Rightarrow> json_state \<Rightarrow> json_top list \<Rightarrow> (json_state \<times> json_top list) option" where
  "json_push t s st = (if length st < maxNestingDepth then Some (s, t # st) else None)"

definition json_pop :: "json_top list \<Rightarrow> (json_state \<times> json_top list) option" where
  "json_pop st = (case st of [] \<Rightarrow> None | _ # st' \<Rightarrow> Some (if st' = [] then EndTop else EndValue, st'))"

definition json_end :: "nat \<Rightarrow> json_top list \<Rightarrow> (json_state \<times> json_top list) option" where
  "json_end b st = (case st of
     [] \<Rightarrow> if json_space b then Some (EndTop, []) else None
   | t # st' \<Rightarrow>
       if json_space b then Some (EndValue, st)
       else (case t of
         InKey \<Rightarrow> if b = 58 then Some (BeginValue, InValue # st') else None
       | InValue \<Rightarrow> if b = 44 then Some (BeginKey, InKey # st') else if b = 125 then json_pop st else None
       | InArray \<Rightarrow> if b = 44 then Some (BeginValue, st) else if b = 93 then json_pop st else None))"

definition json_begin :: "nat \<Rightarrow> json_top list \<Rightarrow> (json_state \<times> json_top list) option" where
  "json_begin b st =
    (if json_space b then Some (BeginValue, st)
     else if b = 123 then json_push InKey BeginKeyOrEmpty st
     else if b = 91 then json_push InArray BeginValueOrEmpty st
     else if b = 34 then Some (InString, st)
     else if b = 45 then Some (NumNeg, st)
     else if b = 48 then Some (NumZero, st)
     else if json_digit b then Some (NumDigits, st)
     else if b = 116 then Some (InWord ''rue'', st)
     else if b = 102 then Some (InWord ''alse'', st)
     else if b = 110 then Some (InWord ''ull'', st)
     else None)"

definition json_key :: "nat \<Rightarrow> json_top list \<Rightarrow> (json_state \<times> json_top list) option" where
  "json_key b st = (if json_space b then Some (BeginKey, st) else if b = 34 then Some (InString, st) else None)"

fun json_step :: "nat \<Rightarrow> json_state \<times> json_top list \<Rightarrow> (json_state \<times> json_top list) option" where
  "json_step b (BeginValue, st) = json_begin b st"
| "json_step b (BeginValueOrEmpty, st) =
    (if json_space b then Some (BeginValueOrEmpty, st) else if b = 93 then json_end b st else json_begin b st)"
| "json_step b (BeginKeyOrEmpty, st) =
    (if json_space b then Some (BeginKeyOrEmpty, st) else if b = 125 then json_end b (InValue # tl st) else json_key b st)"
| "json_step b (BeginKey, st) = json_key b st"
| "json_step b (EndValue, st) = json_end b st"
| "json_step b (EndTop, st) = (if json_space b then Some (EndTop, st) else None)"
| "json_step b (InString, st) =
    (if b = 34 then Some (EndValue, st) else if b = 92 then Some (InEscape, st) else if b < 32 then None
     else Some (InString, st))"
| "json_step b (InEscape, st) =
    (if b \<in> {98, 102, 110, 114, 116, 92, 47, 34} then Some (InString, st)
     else if b = 117 then Some (InHex 3, st) else None)"
| "json_step b (InHex n, st) =
    (if json_digit b \<or> (97 \<le> b \<and> b \<le> 102) \<or> (65 \<le> b \<and> b \<le> 70)
     then Some (if n = 0 then InString else InHex (n - 1), st) else None)"
| "json_step b (NumNeg, st) =
    (if b = 48 then Some (NumZero, st) else if json_digit b then Some (NumDigits, st) else None)"
| "json_step b (NumDigits, st) =
    (if json_digit b then Some (NumDigits, st) else if b = 46 then Some (NumDot, st)
     else if b = 101 \<or> b = 69 then Some (NumExp, st) else json_end b st)"
| "json_step b (NumZero, st) =
    (if b = 46 then Some (NumDot, st) else if b = 101 \<or> b = 69 then Some (NumExp, st) else json_end b st)"
| "json_step b (NumDot, st) = (if json_digit b then Some (NumFrac, st) else None)"
| "json_step b (NumFrac, st) =
    (if json_digit b then Some (NumFrac, st) else if b = 101 \<or> b = 69 then Some (NumExp, st) else json_end b st)"
| "json_step b (NumExp, st) =
    (if b = 43 \<or> b = 45 then Some (NumSign, st) else if json_digit b then Some (NumPower, st) else None)"
| "json_step b (NumSign, st) = (if json_digit b then Some (NumPower, st) else None)"
| "json_step b (NumPower, st) = (if json_digit b then Some (NumPower, st) else json_end b st)"
| "json_step b (InWord w, st) =
    (case w of [] \<Rightarrow> None
     | c # w' \<Rightarrow> if b = byte c then Some (if w' = [] then EndValue else InWord w', st) else None)"

fun json_scan :: "string \<Rightarrow> json_state \<times> json_top list \<Rightarrow> (json_state \<times> json_top list) option" where
  "json_scan [] s = Some s"
| "json_scan (c # cs) s = (case json_step (byte c) s of None \<Rightarrow> None | Some s' \<Rightarrow> json_scan cs s')"

text \<open>\<open>json.Valid\<close>: a blank after the text must find the value complete.\<close>

definition json_valid :: "string \<Rightarrow> bool" where
  "json_valid s = (case json_scan (s @ '' '') (BeginValue, []) of Some (EndTop, _) \<Rightarrow> True | _ \<Rightarrow> False)"

text \<open>\<open>json.Marshal\<close> of a string.\<close>

definition json_escape :: "nat \<Rightarrow> string \<Rightarrow> string" where
  "json_escape r seg =
    (if r = 34 then [CHR 0x5C, CHR 0x22] else if r = 92 then [CHR 0x5C, CHR 0x5C]
     else if r = 8 then [CHR 0x5C, CHR ''b''] else if r = 12 then [CHR 0x5C, CHR ''f'']
     else if r = 10 then [CHR 0x5C, CHR ''n''] else if r = 13 then [CHR 0x5C, CHR ''r'']
     else if r = 9 then [CHR 0x5C, CHR ''t'']
     else if r < 32 \<or> r \<in> {38, 60, 62} then CHR 0x5C # ''u00'' @ hex2 r
     else if r = 65533 \<and> length seg = 1 then CHR 0x5C # ''ufffd''
     else if r = 8232 then CHR 0x5C # ''u2028'' else if r = 8233 then CHR 0x5C # ''u2029''
     else seg)"

definition json_quote :: "string \<Rightarrow> string" where
  "json_quote s = CHR 0x22 # concat (map (\<lambda>(r, seg). json_escape r seg) (rune_segs s)) @ [CHR 0x22]"

definition query_value :: "string \<Rightarrow> string" where
  "query_value raw = (if json_valid raw then raw else json_quote raw)"

fun query_fields :: "http_req \<Rightarrow> string list \<Rightarrow> (string \<times> string) list" where
  "query_fields r [] = []"
| "query_fields r (f # fs) = (case map_of (hrQuery r) f of
     Some (raw # _) \<Rightarrow> (f, query_value raw) # query_fields r fs
   | _ \<Rightarrow> query_fields r fs)"

definition decodeQuery :: "gw_env \<Rightarrow> http_req \<Rightarrow> string \<Rightarrow> string list \<Rightarrow> string + msg" where
  "decodeQuery v r ty fs = (let q = query_fields r fs in if q = [] then Inr [] else geDecodeFields v ty q)"

definition with_query :: "gw_env \<Rightarrow> http_req \<Rightarrow> string \<Rightarrow> string list \<Rightarrow> (msg \<Rightarrow> prog) \<Rightarrow> prog" where
  "with_query v r ty fs k = (case decodeQuery v r ty fs of Inl e \<Rightarrow> Done (ErrorBody 400 e) | Inr m \<Rightarrow> k m)"

section \<open>Who may\<close>

definition callerID :: "http_req \<Rightarrow> string" where
  "callerID r = (case hrUser r of Some u \<Rightarrow> u | None \<Rightarrow> [])"

definition denyAuthz :: prog where
  "denyAuthz = Done (ErrorBody 403 ''resource owner or admin required'')"

definition isAdmin :: "http_req \<Rightarrow> bool" where
  "isAdmin r \<longleftrightarrow> hrRole r = Some ''ROLE_ADMIN''"

definition requireAdmin :: "http_req \<Rightarrow> prog \<Rightarrow> prog" where
  "requireAdmin r k = (if isAdmin r then k else Done (ErrorBody 403 ''admin role required''))"

definition adminOrSelf :: "http_req \<Rightarrow> string \<Rightarrow> prog \<Rightarrow> prog" where
  "adminOrSelf r userID k =
    (if isAdmin r then k
     else if callerID r \<noteq> [] \<and> callerID r = userID then k
     else Done (ErrorBody 403 ''admin role or self required''))"

definition isOperator :: "http_req \<Rightarrow> bool" where
  "isOperator r \<longleftrightarrow> hrRole r = Some ''ROLE_DEVELOPER'' \<or> hrRole r = Some ''ROLE_ADMIN''"

definition requireOperator :: "http_req \<Rightarrow> prog \<Rightarrow> prog" where
  "requireOperator r k =
    (if isOperator r then k else Done (ErrorBody 403 ''operator role (developer or admin) required''))"

definition canAccessTask :: "gw_env \<Rightarrow> http_req \<Rightarrow> string \<Rightarrow> prog \<Rightarrow> prog" where
  "canAccessTask v r taskID k =
    (if isAdmin r then k
     else if callerID r = [] then denyAuthz
     else direct v (request TaskConn ''TaskService/GetScanTask'' [(''task_id'', JStr taskID)]) (\<lambda>x. case x of
         Inl e \<Rightarrow> if fst e = NotFound then Done (ErrorBody 404 (''task not found: '' @ taskID)) else denyAuthz
       | Inr m \<Rightarrow> if str_field ''created_by'' m \<noteq> callerID r then denyAuthz else k))"

definition canAccessTaskViaFinding :: "gw_env \<Rightarrow> http_req \<Rightarrow> string \<Rightarrow> prog \<Rightarrow> prog" where
  "canAccessTaskViaFinding v r findingID k =
    (if isAdmin r then k
     else direct v (request ResultConn ''ResultService/GetFinding'' [(''finding_id'', JStr findingID)]) (\<lambda>x. case x of
         Inl e \<Rightarrow> if fst e = NotFound then Done (ErrorBody 404 (''finding not found: '' @ findingID)) else denyAuthz
       | Inr m \<Rightarrow> canAccessTask v r (str_field ''task_id'' (sub_field ''finding'' m)) k))"

definition canAccessTaskViaReport :: "gw_env \<Rightarrow> http_req \<Rightarrow> string \<Rightarrow> prog \<Rightarrow> prog" where
  "canAccessTaskViaReport v r reportID k =
    (if isAdmin r then k
     else direct v (request ResultConn ''ReportService/GetReport'' [(''report_id'', JStr reportID)]) (\<lambda>x. case x of
         Inl e \<Rightarrow> if fst e = NotFound then Done (ErrorBody 404 (''report not found: '' @ reportID)) else denyAuthz
       | Inr m \<Rightarrow> canAccessTask v r (str_field ''task_id'' m) k))"

fun batch_items :: "gw_env \<Rightarrow> http_req \<Rightarrow> string set \<Rightarrow> string list \<Rightarrow> prog \<Rightarrow> prog" where
  "batch_items v r seen [] k = k"
| "batch_items v r seen (i # is) k =
    (if i = [] \<or> i \<in> seen then batch_items v r seen is k
     else canAccessTaskViaFinding v r i (batch_items v r (insert i seen) is k))"

definition canBatchVerdict :: "gw_env \<Rightarrow> http_req \<Rightarrow> string list \<Rightarrow> prog \<Rightarrow> prog" where
  "canBatchVerdict v r ids k = (if isAdmin r then k else batch_items v r {} ids k)"

end
