(* ===== verification/Gateway.thy ===== *)
theory Gateway imports Main GatewayCore begin

text \<open>
  The routes of the gateway: every handler of \<open>gateway-service/internal/handler/transcode.go\<close> and
  \<open>orchestrations.go\<close>, with \<open>parseNodeCursors\<close> of \<open>taskwatch.go\<close>
  and \<open>writeTaskLink\<close> of \<open>sourcefile.go\<close>.

  A handler tests the routes in the order of its switch. The snapshot's four reads, which play side by side, are
  sent in the order of the source. The upload, the watch and the source file are answers that name who goes on.
\<close>

section \<open>Small parts\<close>

definition writeTaskLink :: "(string \<Rightarrow> string option) \<Rightarrow> string \<Rightarrow> string \<Rightarrow> string \<Rightarrow> prog \<Rightarrow> prog" where
  "writeTaskLink absPath uploadsDir taskID projectPath k =
    (if projectPath = [] \<or> uploadsDir = [] then k
     else case absPath uploadsDir of None \<Rightarrow> k
     | Some up \<Rightarrow> (case absPath projectPath of None \<Rightarrow> k
        | Some d \<Rightarrow> if d \<noteq> up \<and> \<not> prefix (up @ ''/'') d then k else WriteLink taskID d k))"

text \<open>Go on after an answer was written.\<close>

primrec after :: "prog \<Rightarrow> (http_resp \<Rightarrow> prog) \<Rightarrow> prog" where
  "after (Done a) f = f a"
| "after (Call r k) f = Call r (\<lambda>x. after (k x) f)"
| "after (OpenStream r k) f = OpenStream r (\<lambda>x. after (k x) f)"
| "after (RevokeToken t p) f = RevokeToken t (after p f)"
| "after (WriteLink t d p) f = WriteLink t d (after p f)"

record gw_paths =
  gpAbs :: "string \<Rightarrow> string option"
  gpUploads :: string

definition node_cursor :: "string \<Rightarrow> (string \<times> int) option" where
  "node_cursor raw =
    (let p = TrimSpace raw in case str_last_index p '':'' of None \<Rightarrow> None
     | Some i \<Rightarrow> if i = 0 \<or> i + 1 = length p then None
        else case atoi (drop (i + 1) p) of None \<Rightarrow> None | Some n \<Rightarrow> if n < 0 then None else Some (take i p, n))"

fun put_cursors :: "string list \<Rightarrow> (string \<times> int) list \<Rightarrow> (string \<times> int) list" where
  "put_cursors [] m = m"
| "put_cursors (p # ps) m = put_cursors ps (case node_cursor p of None \<Rightarrow> m | Some (n, c) \<Rightarrow> AList.update n c m)"

definition parseNodeCursors :: "string list \<Rightarrow> (string \<times> int) list" where
  "parseNodeCursors vals = put_cursors (concat (map (split_on (CHR '','')) vals)) []"

definition cursors_json :: "(string \<times> int) list \<Rightarrow> json" where
  "cursors_json m = JObj (map (\<lambda>(n, c). (n, JNum (of_int c))) m)"

definition json_int :: "int \<Rightarrow> json" where "json_int i = JNum (of_int i)"

text \<open>\<open>strconv.ParseInt\<close> of a query parameter, when it reads at least \<open>low\<close>.\<close>

definition query_int :: "http_req \<Rightarrow> string \<Rightarrow> int \<Rightarrow> int option" where
  "query_int r k low =
    (if qget r k = [] then None else case atoi (qget r k) of None \<Rightarrow> None | Some n \<Rightarrow> if low \<le> n then Some n else None)"

definition opt_field :: "string \<Rightarrow> json option \<Rightarrow> msg" where
  "opt_field k x = (case x of None \<Rightarrow> [] | Some j \<Rightarrow> [(k, j)])"

definition task_msg :: "string \<Rightarrow> msg" where "task_msg i = [(''task_id'', JStr i)]"

section \<open>Authentication routes\<close>

definition login :: "gw_env \<Rightarrow> http_req \<Rightarrow> prog" where
  "login v r = with_body v r ''LoginRequest'' [] (\<lambda>q. call v (request ProjectConn ''UserService/Login'' q))"

definition registerUser :: "gw_env \<Rightarrow> http_req \<Rightarrow> prog" where
  "registerUser v r = with_body v r ''RegisterUserRequest'' [] (\<lambda>q.
     call v (request ProjectConn ''UserService/RegisterUser'' (set_metadata (newRequestID v 0) q)))"

definition registrationPolicy :: "gw_env \<Rightarrow> prog" where
  "registrationPolicy v = call v (request ProjectConn ''UserService/GetRegistrationPolicy'' [])"

definition refresh :: "gw_env \<Rightarrow> http_req \<Rightarrow> prog" where
  "refresh v r = with_body v r ''RefreshTokenRequest'' [] (\<lambda>q. call v (request ProjectConn ''UserService/RefreshToken'' q))"

definition logout :: "gw_env \<Rightarrow> http_req \<Rightarrow> prog" where
  "logout v r = with_body v r ''LogoutRequest'' [] (\<lambda>q.
     let go = call v (request ProjectConn ''UserService/Logout'' q)
     in if str_field ''access_token'' q \<noteq> [] then RevokeToken (str_field ''access_token'' q) go else go)"

section \<open>Projects\<close>

definition creator_member :: "gw_env \<Rightarrow> string \<Rightarrow> string \<Rightarrow> grpc_call" where
  "creator_member v pid uid = request ProjectConn ''ProjectService/AddProjectMember''
     [(''metadata'', metadata (newRequestID v 1)),
      (''member'', JObj [(''project_id'', JStr pid), (''user_id'', JStr uid), (''role'', JStr ''developer'')])]"

definition createProject :: "gw_env \<Rightarrow> http_req \<Rightarrow> prog" where
  "createProject v r = with_body v r ''CreateProjectRequest'' [] (\<lambda>q. requireOperator r
     (invoke v (request ProjectConn ''ProjectService/CreateProject'' (set_metadata (newRequestID v 0) q)) (\<lambda>m.
        if callerID r \<noteq> [] then direct v (creator_member v (str_field ''project_id'' m) (callerID r)) (\<lambda>_. respond v m)
        else respond v m)))"

definition updateProject :: "gw_env \<Rightarrow> http_req \<Rightarrow> string \<Rightarrow> prog" where
  "updateProject v r pid = requireOperator r (with_body v r ''UpdateProjectRequest'' [] (\<lambda>q.
     call v (request ProjectConn ''ProjectService/UpdateProject''
       (if has_sub ''project'' q then set_sub ''project'' (set_str ''project_id'' pid) q else q))))"

definition projects :: "gw_env \<Rightarrow> http_req \<Rightarrow> string list \<Rightarrow> prog" where
  "projects v r rest =
    (let n = length rest; m = hrMethod r; i = rest ! 0 in
     if n = 0 \<and> m = ''POST'' then createProject v r
     else if n = 0 \<and> m = ''GET'' then
       with_query v r ''ListProjectsRequest'' [''pagination'', ''filter'', ''sort'']
         (\<lambda>q. call v (request ProjectConn ''ProjectService/ListProjects'' q))
     else if n = 1 \<and> m = ''GET'' then call v (request ProjectConn ''ProjectService/GetProject'' [(''project_id'', JStr i)])
     else if n = 1 \<and> m = ''PUT'' then updateProject v r i
     else if n = 1 \<and> m = ''DELETE'' then
       requireAdmin r (call v (request ProjectConn ''ProjectService/DeleteProject'' [(''project_id'', JStr i)]))
     else if n = 2 \<and> rest ! 1 = ''config'' \<and> m = ''GET'' then
       call v (request ProjectConn ''ProjectService/GetProjectConfig'' [(''project_id'', JStr i)])
     else if n = 2 \<and> rest ! 1 = ''config'' \<and> m = ''PUT'' then
       requireOperator r (with_body v r ''UpdateProjectConfigRequest'' []
         (\<lambda>q. call v (request ProjectConn ''ProjectService/UpdateProjectConfig'' q)))
     else Done (ErrorBody 404 ''unknown projects route''))"

section \<open>Tasks\<close>

definition createTask :: "gw_env \<Rightarrow> gw_paths \<Rightarrow> http_req \<Rightarrow> prog" where
  "createTask v ps r = with_body v r ''CreateScanTaskRequest'' [] (\<lambda>q.
     let k = newRequestID v 0;
         q1 = set_metadata k q;
         q2 = (if callerID r \<noteq> [] then set_str ''created_by'' (callerID r) q1 else q1)
     in after (call v (request TaskConn ''TaskService/CreateScanTask'' q2))
          (\<lambda>a. writeTaskLink (gpAbs ps) (gpUploads ps) k (str_field ''project_path'' (sub_field ''config'' q2)) (Done a)))"

definition task_read :: "gw_env \<Rightarrow> string \<Rightarrow> string \<Rightarrow> prog" where
  "task_read v m i = call v (request TaskConn (''TaskService/'' @ m) (task_msg i))"

definition taskLogs :: "gw_env \<Rightarrow> http_req \<Rightarrow> string \<Rightarrow> prog" where
  "taskLogs v r i = call v (request TaskConn ''TaskService/GetTaskLogs'' (task_msg i @
     (if qget r ''after_log_id'' \<noteq> [] then [(''after_log_id'', JStr (qget r ''after_log_id''))] else []) @
     opt_field ''limit'' (map_option (json_int \<circ> int32) (query_int r ''limit'' 1))))"

definition aiLog :: "gw_env \<Rightarrow> http_req \<Rightarrow> string \<Rightarrow> prog" where
  "aiLog v r i = call v (request RuntimeConn ''RuntimeService/GetAIInteractionLog'' (task_msg i @
     opt_field ''cursor'' (map_option json_int (query_int r ''cursor'' 0)) @
     opt_field ''max_bytes'' (map_option (json_int \<circ> int32) (query_int r ''max_bytes'' 1))))"

text \<open>A human operation on a node of the task's graph.\<close>

definition node_ids :: "gw_env \<Rightarrow> string \<Rightarrow> string \<Rightarrow> msg \<Rightarrow> msg" where
  "node_ids v i node q = set_metadata (newRequestID v 0) (set_str ''node_id'' node (set_str ''task_id'' i q))"

definition node_operation :: "gw_env \<Rightarrow> http_req \<Rightarrow> string \<Rightarrow> string \<Rightarrow> string \<Rightarrow> prog" where
  "node_operation v r oper i node = requireOperator r (with_body v r (oper @ ''Request'') []
     (\<lambda>q. call v (request RuntimeConn (''RuntimeService/'' @ oper) (node_ids v i node q))))"

definition node_release :: "gw_env \<Rightarrow> http_req \<Rightarrow> string \<Rightarrow> string \<Rightarrow> prog" where
  "node_release v r i node =
    requireOperator r (call v (request RuntimeConn ''RuntimeService/ReleaseGraphNode'' (node_ids v i node [])))"

text \<open>An enum field that is unset or 0 is unspecified; JSON is number 3.\<close>

definition enum_unspecified :: "string \<Rightarrow> msg \<Rightarrow> bool" where
  "enum_unspecified k m = (case map_of m k of Some (JNum n) \<Rightarrow> n = 0 | _ \<Rightarrow> True)"

definition taskReport :: "gw_env \<Rightarrow> http_req \<Rightarrow> string \<Rightarrow> prog" where
  "taskReport v r i = requireOperator r (with_body v r ''GenerateReportRequest'' [] (\<lambda>q.
     let q1 = set_str ''task_id'' i (set_metadata (newRequestID v 0) q)
     in call v (request ResultConn ''ReportService/GenerateReport''
          (if enum_unspecified ''format'' q1 then AList.update ''format'' (json_int 3) q1 else q1))))"

definition action_method :: "string \<Rightarrow> string option" where
  "action_method a = map_of [(''start'', ''StartTask''), (''cancel'', ''CancelScanTask''), (''retry'', ''RetryScanTask''),
     (''pause'', ''PauseTask''), (''resume'', ''ResumeTask''), (''agent'', ''SetTaskAgent''), (''complete'', ''CompleteTask'')] a"

definition setTaskAgent :: "gw_env \<Rightarrow> http_req \<Rightarrow> string \<Rightarrow> prog" where
  "setTaskAgent v r i =
    (if \<not> geConfigured v TaskConn then Done (ErrorBody 503 ''backend connection not configured'')
     else case decodeBody v r ''SetTaskAgentRequest'' (task_msg i) of
       Inl e \<Rightarrow> Done (rpc_error (InvalidArgument, e))
     | Inr q \<Rightarrow> call v (request TaskConn ''TaskService/SetTaskAgent'' (set_str ''task_id'' i q)))"

definition taskAction :: "gw_env \<Rightarrow> http_req \<Rightarrow> string \<Rightarrow> string \<Rightarrow> prog" where
  "taskAction v r i a = (case action_method a of
     None \<Rightarrow> Done (ErrorBody 404 (''unknown task action '' @ a))
   | Some m \<Rightarrow> requireOperator r
       (if m = ''SetTaskAgent'' then setTaskAgent v r i
        else if m = ''PauseTask'' then
          call v (request TaskConn ''TaskService/PauseTask'' (task_msg i @ [(''agent'', JStr (qget r ''agent''))]))
        else task_read v m i))"

definition raw_message :: "gw_env \<Rightarrow> msg \<Rightarrow> string" where
  "raw_message v m = (case geMarshal v m of Inl _ \<Rightarrow> ''null'' | Inr b \<Rightarrow> b)"

definition empty_logs :: string where
  "empty_logs = CHR ''{'' # json_quote ''logs'' @ '':[]}''"

definition empty_ai :: string where
  "empty_ai = CHR ''{'' # json_quote ''chunk'' @ '':'' @ json_quote [] @ '','' @ json_quote ''next_cursor'' @ '':'' @ json_quote ''0'' @
     '','' @ json_quote ''complete'' @ '':true,'' @ json_quote ''total_bytes'' @ '':'' @ json_quote ''0'' @ ''}''"

definition raw_or :: "gw_env \<Rightarrow> string \<Rightarrow> grpc_error + msg \<Rightarrow> string" where
  "raw_or v d x = (case x of Inl _ \<Rightarrow> d | Inr m \<Rightarrow> raw_message v m)"

definition snapshot_ai :: "http_req \<Rightarrow> string \<Rightarrow> grpc_call" where
  "snapshot_ai r i = request RuntimeConn ''RuntimeService/GetAIInteractionLog'' (task_msg i @
     [(''cursor'', json_int (case query_int r ''ai_cursor'' 0 of None \<Rightarrow> 0 | Some n \<Rightarrow> n)),
      (''node_cursors'', cursors_json (parseNodeCursors (case map_of (hrQuery r) ''node_cursor'' of None \<Rightarrow> [] | Some vs \<Rightarrow> vs)))])"

definition snapshot_answer :: "grpc_error + msg \<Rightarrow> gw_env \<Rightarrow> string \<Rightarrow> string \<Rightarrow> string \<Rightarrow> prog" where
  "snapshot_answer task v prg logs ai = (case task of
     Inl e \<Rightarrow> Done (rpc_error e)
   | Inr m \<Rightarrow> Done (RawObject [(''ai'', ai), (''logs'', logs), (''progress'', prg), (''task'', raw_message v m)]))"

definition taskSnapshot :: "gw_env \<Rightarrow> http_req \<Rightarrow> string \<Rightarrow> prog" where
  "taskSnapshot v r i =
    direct v (request TaskConn ''TaskService/GetScanTask'' (task_msg i)) (\<lambda>task.
    direct v (request TaskConn ''TaskService/GetTaskProgress'' (task_msg i)) (\<lambda>prg.
    direct v (request TaskConn ''TaskService/GetTaskLogs'' (task_msg i @ [(''limit'', json_int 500)] @
      (if qget r ''logs_after'' \<noteq> [] then [(''after_log_id'', JStr (qget r ''logs_after''))] else []))) (\<lambda>logs.
    let answer = (\<lambda>ai. snapshot_answer task v (raw_or v ''null'' prg) (raw_or v empty_logs logs) ai)
    in if \<not> geConfigured v RuntimeConn then answer empty_ai
       else Call (snapshot_ai r i) (\<lambda>ai. answer (raw_or v empty_ai ai)))))"

text \<open>The reads below a task.\<close>

definition task_get :: "gw_env \<Rightarrow> http_req \<Rightarrow> string \<Rightarrow> string \<Rightarrow> prog option" where
  "task_get v r i what =
    (if what = ''progress'' then Some (task_read v ''GetTaskProgress'' i)
     else if what = ''logs'' then Some (taskLogs v r i)
     else if what = ''usage'' then Some (task_read v ''GetTaskUsage'' i)
     else if what = ''stats'' then Some (call v (request ResultConn ''ResultService/GetTaskResultStats'' (task_msg i)))
     else if what = ''graph'' then Some (task_read v ''GetTaskGraph'' i)
     else if what = ''snapshot'' then Some (taskSnapshot v r i)
     else if what = ''ws'' then Some (Done (ToWatch i))
     else if what = ''ai-log'' then Some (aiLog v r i)
     else if what = ''source-file'' then Some (Done (ToSourceFile i))
     else if what = ''context'' then Some (task_read v ''GetTaskContext'' i)
     else if what = ''metrics'' then Some (call v (request AdapterConn ''SASTFusionService/CalculateMetrics'' (task_msg i)))
     else if what = ''comparison-report''
       then Some (call v (request AdapterConn ''SASTFusionService/GenerateComparisonReport'' (task_msg i)))
     else None)"

definition tasks :: "gw_env \<Rightarrow> gw_paths \<Rightarrow> http_req \<Rightarrow> string list \<Rightarrow> prog" where
  "tasks v ps r rest =
    (let n = length rest; m = hrMethod r; i = rest ! 0;
         node = (n = 5 \<and> rest ! 1 = ''graph'' \<and> rest ! 2 = ''nodes'') in
     if n = 0 \<and> m = ''POST'' then createTask v ps r
     else if n = 0 \<and> m = ''GET'' then
       with_query v r ''ListScanTasksRequest'' [''pagination'', ''project_id'', ''filter'']
         (\<lambda>q. call v (request TaskConn ''TaskService/ListScanTasks'' q))
     else if n = 1 \<and> m = ''GET'' then task_read v ''GetScanTask'' i
     else if n = 2 \<and> m = ''GET'' then
       (case task_get v r i (rest ! 1) of Some p \<Rightarrow> p | None \<Rightarrow> Done (ErrorBody 404 ''unknown tasks route''))
     else if node \<and> m = ''POST'' \<and> rest ! 4 = ''message'' then node_operation v r ''InjectGraphNodeMessage'' i (rest ! 3)
     else if node \<and> m = ''POST'' \<and> rest ! 4 = ''reopen'' then node_operation v r ''ReopenGraphNode'' i (rest ! 3)
     else if node \<and> m = ''POST'' \<and> rest ! 4 = ''claim'' then node_operation v r ''ClaimGraphNode'' i (rest ! 3)
     else if node \<and> m = ''DELETE'' \<and> rest ! 4 = ''claim'' then node_release v r i (rest ! 3)
     else if n = 2 \<and> m = ''POST'' \<and> rest ! 1 = ''report'' then taskReport v r i
     else if n = 2 \<and> m = ''POST'' then taskAction v r i (rest ! 1)
     else Done (ErrorBody 404 ''unknown tasks route''))"

section \<open>Findings\<close>

definition updateVerdict :: "gw_env \<Rightarrow> http_req \<Rightarrow> string \<Rightarrow> prog" where
  "updateVerdict v r i = canAccessTaskViaFinding v r i (with_body v r ''UpdateVerdictRequest'' []
     (\<lambda>q. call v (request ResultConn ''ResultService/UpdateVerdict'' (set_str ''finding_id'' i q))))"

definition findings :: "gw_env \<Rightarrow> http_req \<Rightarrow> string list \<Rightarrow> prog" where
  "findings v r rest =
    (let n = length rest; m = hrMethod r in
     if n = 0 \<and> m = ''GET'' then
       with_query v r ''ListFindingsRequest'' [''task_id'', ''pagination'', ''filter'', ''sort'']
         (\<lambda>q. call v (request ResultConn ''ResultService/ListFindings'' q))
     else if n = 1 \<and> m = ''GET'' then
       call v (request ResultConn ''ResultService/GetFinding'' [(''finding_id'', JStr (rest ! 0))])
     else if n = 2 \<and> rest ! 1 = ''verdict'' \<and> m = ''PUT'' then updateVerdict v r (rest ! 0)
     else Done (ErrorBody 404 ''unknown findings route''))"

definition finding_ids :: "msg \<Rightarrow> string list" where
  "finding_ids q = only_strings (list_field ''finding_ids'' q)"

definition verdictBatch :: "gw_env \<Rightarrow> http_req \<Rightarrow> prog" where
  "verdictBatch v r = with_body v r ''BatchUpdateVerdictRequest'' [] (\<lambda>q0.
     let q = set_metadata (newRequestID v 0) q0
     in canBatchVerdict v r (finding_ids q) (call v (request ResultConn ''ResultService/BatchUpdateVerdict'' q)))"

end
