(* ===== verification/GatewayRoutes.thy ===== *)
theory GatewayRoutes imports Main Gateway begin

text \<open>
  The remaining routes of \<open>gateway-service/internal/handler\<close> (users, reports, tools, inference,
  agents, workspaces, notifications, invitations, orchestrations) and the dispatch \<open>serveHTTP\<close>.
\<close>

section \<open>Users\<close>

definition bearerToken :: "http_req \<Rightarrow> string" where
  "bearerToken r =
    (let h = hrAuth r
     in if 7 < length h \<and> map lower_rune (map byte (take 7 h)) = map byte ''bearer '' then TrimSpace (drop 7 h) else [])"

definition changePassword :: "gw_env \<Rightarrow> http_req \<Rightarrow> prog" where
  "changePassword v r = with_body v r ''ChangePasswordRequest'' [] (\<lambda>q.
     call v (request ProjectConn ''UserService/ChangePassword''
       (set_str ''user_id'' (callerID r) (set_metadata (newRequestID v 0) q))))"

text \<open>What a user who is no administrator may change of himself: the address of his mail.\<close>

definition own_profile :: "string \<Rightarrow> msg \<Rightarrow> msg" where
  "own_profile i u = AList.update ''state'' (json_int 0) (set_str ''username'' []
     (AList.update ''role'' (json_int 0) (set_str ''user_id'' i u)))"

definition user_update :: "http_req \<Rightarrow> string \<Rightarrow> msg \<Rightarrow> msg" where
  "user_update r i q =
    (if \<not> isAdmin r \<and> has_sub ''user'' q then set_sub ''user'' (own_profile i) q
     else if has_sub ''user'' q \<and> str_field ''user_id'' (sub_field ''user'' q) = []
       then set_sub ''user'' (set_str ''user_id'' i) q
     else q)"

definition updateUser :: "gw_env \<Rightarrow> http_req \<Rightarrow> string \<Rightarrow> prog" where
  "updateUser v r i = adminOrSelf r i (with_body v r ''UpdateUserRequest'' []
     (\<lambda>q. call v (request ProjectConn ''UserService/UpdateUser'' (user_update r i q))))"

definition user_msg :: "string \<Rightarrow> msg" where "user_msg i = [(''user_id'', JStr i)]"

definition users :: "gw_env \<Rightarrow> http_req \<Rightarrow> string list \<Rightarrow> prog" where
  "users v r rest =
    (let n = length rest; m = hrMethod r; i = rest ! 0 in
     if n = 1 \<and> i = ''me'' \<and> m = ''GET'' then
       call v (request ProjectConn ''UserService/GetCurrentUser'' [(''access_token'', JStr (bearerToken r))])
     else if n = 2 \<and> rest ! 1 = ''permissions'' \<and> m = ''GET'' then
       adminOrSelf r i (call v (request ProjectConn ''UserService/GetUserPermissions'' (user_msg i)))
     else if n = 2 \<and> rest ! 1 = ''password'' \<and> m = ''POST'' then changePassword v r
     else if n = 2 \<and> rest ! 1 = ''password:reset'' \<and> m = ''POST'' then
       requireAdmin r (call v (request ProjectConn ''UserService/ResetPassword'' (set_metadata (newRequestID v 0) (user_msg i))))
     else if n = 0 \<and> m = ''GET'' then
       requireAdmin r (with_query v r ''ListUsersRequest'' [''pagination'', ''state'', ''username_contains'']
         (\<lambda>q. call v (request ProjectConn ''UserService/ListUsers'' q)))
     else if n = 0 \<and> m = ''POST'' then
       requireAdmin r (with_body v r ''CreateUserRequest'' []
         (\<lambda>q. call v (request ProjectConn ''UserService/CreateUser'' (set_metadata (newRequestID v 0) q))))
     else if n = 1 \<and> m = ''GET'' then
       adminOrSelf r i (call v (request ProjectConn ''UserService/GetUser'' (user_msg i)))
     else if n = 1 \<and> m = ''PUT'' then updateUser v r i
     else Done (ErrorBody 404 ''unknown users route''))"

section \<open>Reports and tools\<close>

text \<open>A stream that breaks off truncates the file: its head is already sent.\<close>

definition downloadReport :: "gw_env \<Rightarrow> string \<Rightarrow> prog" where
  "downloadReport v i =
    (if \<not> geConfigured v ResultConn then Done (ErrorBody 503 ''backend connection not configured'')
     else OpenStream (request ResultConn ''ReportService/DownloadReport'' [(''report_id'', JStr i)]) (\<lambda>x. case x of
         Inl e \<Rightarrow> Done (rpc_error e)
       | Inr (ds, _) \<Rightarrow> Done (FileBody (''attachment; filename='' @ go_quote (i @ ''.bin'')) (concat ds))))"

definition reports :: "gw_env \<Rightarrow> http_req \<Rightarrow> string list \<Rightarrow> prog" where
  "reports v r rest =
    (let n = length rest; m = hrMethod r in
     if n = 0 \<and> m = ''GET'' then
       with_query v r ''ListReportsRequest'' [''task_id'', ''pagination'', ''filter'', ''sort'']
         (\<lambda>q. call v (request ResultConn ''ReportService/ListReports'' q))
     else if n = 1 \<and> m = ''GET'' then
       call v (request ResultConn ''ReportService/GetReport'' [(''report_id'', JStr (rest ! 0))])
     else if n = 2 \<and> rest ! 1 = ''download'' \<and> m = ''GET'' then downloadReport v (rest ! 0)
     else Done (ErrorBody 404 ''unknown reports route''))"

text \<open>A repeated field without elements is a nil slice.\<close>

definition slice_json :: "json list \<Rightarrow> json" where
  "slice_json xs = (if xs = [] then JNull else JArr xs)"

definition bool_field :: "string \<Rightarrow> msg \<Rightarrow> bool" where
  "bool_field k m \<longleftrightarrow> map_of m k = Some (JBool True)"

definition tool_entry :: "msg \<Rightarrow> grpc_error + msg \<Rightarrow> json" where
  "tool_entry tool x = JObj ([(''tool_id'', JStr (str_field ''tool_id'' tool)), (''name'', JStr (str_field ''name'' tool)),
      (''supported_languages'', slice_json (list_field ''supported_languages'' tool)),
      (''output_format'', JStr (str_field ''output_format'' tool))] @
     (case x of
        Inl e \<Rightarrow> [(''valid'', JBool False), (''errors'', JArr [JStr (snd e)])]
      | Inr m \<Rightarrow> [(''valid'', JBool (bool_field ''valid'' m)), (''errors'', slice_json (list_field ''errors'' m))]))"

fun tool_checks :: "msg list \<Rightarrow> json list \<Rightarrow> prog" where
  "tool_checks [] out = Done (JsonValue 200 (JObj [(''tools'', JArr out)]))"
| "tool_checks (t # ts) out =
    Call (request AdapterConn ''SASTAdapterService/ValidateToolConfig'' [(''tool_id'', JStr (str_field ''tool_id'' t))])
      (\<lambda>x. tool_checks ts (out @ [tool_entry t x]))"

definition tools :: "gw_env \<Rightarrow> http_req \<Rightarrow> string list \<Rightarrow> prog" where
  "tools v r rest =
    (if rest \<noteq> [] \<or> hrMethod r \<noteq> ''GET'' then Done (ErrorBody 404 ''use GET /v1/tools'')
     else direct v (request AdapterConn ''SASTAdapterService/ListAvailableTools'' []) (\<lambda>x. case x of
         Inl e \<Rightarrow> Done (rpc_error e)
       | Inr m \<Rightarrow> tool_checks (msg_list ''tools'' m) []))"

section \<open>Inference, agents, workspaces\<close>

definition in_workspace :: "http_req \<Rightarrow> msg \<Rightarrow> msg" where
  "in_workspace r q = (if qget r ''workspace'' \<noteq> [] then set_str ''workspace'' (qget r ''workspace'') q else q)"

definition runtime_call :: "gw_env \<Rightarrow> string \<Rightarrow> msg \<Rightarrow> prog" where
  "runtime_call v m q = call v (request RuntimeConn (''RuntimeService/'' @ m) q)"

definition inference :: "gw_env \<Rightarrow> http_req \<Rightarrow> string list \<Rightarrow> prog" where
  "inference v r rest =
    (let n = length rest; m = hrMethod r; h = rest ! 0; ws = (''workspace'', JStr (qget r ''workspace''));
         named = [(''name'', JStr (rest ! 1)), ws] in
     if n = 1 \<and> h = ''providers'' \<and> m = ''GET'' then runtime_call v ''ListInferenceProviders'' [ws]
     else if n = 1 \<and> h = ''providers'' \<and> m = ''POST'' then
       with_body v r ''UpsertInferenceProviderRequest'' []
         (\<lambda>q. runtime_call v ''UpsertInferenceProvider'' (set_metadata (newRequestID v 0) (in_workspace r q)))
     else if n = 2 \<and> h = ''providers'' \<and> m = ''GET'' then runtime_call v ''GetInferenceProvider'' named
     else if n = 2 \<and> h = ''providers'' \<and> m = ''PUT'' then
       with_body v r ''UpsertInferenceProviderRequest'' []
         (\<lambda>q. runtime_call v ''UpsertInferenceProvider''
            (set_metadata (newRequestID v 0) (in_workspace r (set_str ''name'' (rest ! 1) q))))
     else if n = 2 \<and> h = ''providers'' \<and> m = ''DELETE'' then
       runtime_call v ''DeleteInferenceProvider'' (set_metadata (newRequestID v 0) named)
     else if n = 1 \<and> h = ''route'' \<and> m = ''GET'' then runtime_call v ''GetInferenceRoute'' [ws]
     else if n = 1 \<and> h = ''route'' \<and> m = ''PUT'' then
       with_body v r ''SetInferenceRouteRequest'' []
         (\<lambda>q. runtime_call v ''SetInferenceRoute'' (set_metadata (newRequestID v 0) (in_workspace r q)))
     else Done (ErrorBody 404 (''use GET|POST /v1/inference/providers, GET|PUT|DELETE /v1/inference/providers/{name}, '' @
       ''GET|PUT /v1/inference/route'')))"

definition agents :: "gw_env \<Rightarrow> http_req \<Rightarrow> string list \<Rightarrow> prog" where
  "agents v r rest =
    (if hrMethod r = ''GET'' \<and> rest = [] then runtime_call v ''ListAgents'' []
     else Done (ErrorBody 404 ''use GET /v1/agents''))"

text \<open>A parameter that must be a number from 0 on; 0 when it is missing.\<close>

definition query_nat :: "http_req \<Rightarrow> string \<Rightarrow> int option" where
  "query_nat r k =
    (if qget r k = [] then Some 0 else case atoi (qget r k) of None \<Rightarrow> None | Some n \<Rightarrow> if n < 0 then None else Some n)"

definition not_a_number :: "string \<Rightarrow> prog" where
  "not_a_number k = Done (ErrorBody 400 (''query '' @ [CHR 0x27] @ k @ [CHR 0x27] @ '' must be a non-negative integer''))"

definition workspaces :: "gw_env \<Rightarrow> http_req \<Rightarrow> string list \<Rightarrow> prog" where
  "workspaces v r rest =
    (let n = length rest; m = hrMethod r in
     if n = 0 \<and> m = ''POST'' then
       with_body v r ''CreateWorkspaceRequest'' []
         (\<lambda>q. runtime_call v ''CreateWorkspace'' (set_metadata (newRequestID v 0) q))
     else if n = 1 \<and> m = ''DELETE'' then
       runtime_call v ''DeleteWorkspace'' (set_metadata (newRequestID v 0) [(''name'', JStr (rest ! 0))])
     else if n = 0 \<and> m = ''GET'' then
       (case query_nat r ''limit'' of None \<Rightarrow> not_a_number ''limit''
        | Some l \<Rightarrow> (case query_nat r ''offset'' of None \<Rightarrow> not_a_number ''offset''
           | Some f \<Rightarrow> runtime_call v ''ListWorkspaces'' [(''limit'', json_int (int32 l)), (''offset'', json_int (int32 f))]))
     else Done (ErrorBody 404 ''use GET/POST /v1/workspaces, DELETE /v1/workspaces/{name}''))"

section \<open>Notifications and invitations\<close>

definition list_own :: "http_req \<Rightarrow> bool \<Rightarrow> grpc_call" where
  "list_own r unread = request StorageConn ''NotificationService/ListNotifications''
     ((''user_id'', JStr (callerID r)) # (if unread then [(''unread_only'', JBool True)] else []))"

definition mark_read :: "string \<Rightarrow> grpc_call" where
  "mark_read i = request StorageConn ''NotificationService/MarkNotificationRead'' [(''notification_id'', JStr i)]"

definition notification_ids :: "msg \<Rightarrow> string list" where
  "notification_ids m = map (str_field ''notification_id'') (msg_list ''notifications'' m)"

definition readOne :: "gw_env \<Rightarrow> http_req \<Rightarrow> string \<Rightarrow> prog" where
  "readOne v r i = direct v (list_own r False) (\<lambda>x. case x of
     Inl e \<Rightarrow> Done (ErrorBody 502 (''ownership check failed: rpc error: code = '' @ code_String (fst e) @ '' desc = '' @ snd e))
   | Inr m \<Rightarrow> if i \<in> set (notification_ids m) then call v (mark_read i)
              else Done (ErrorBody 404 ''notification not found''))"

fun mark_all :: "string list \<Rightarrow> int \<Rightarrow> prog" where
  "mark_all [] marked = Done (JsonValue 200 (JObj [(''marked'', json_int marked)]))"
| "mark_all (i # is) marked =
    Call (mark_read i) (\<lambda>x. mark_all is (case x of Inl _ \<Rightarrow> marked | Inr _ \<Rightarrow> marked + 1))"

definition readAll :: "gw_env \<Rightarrow> http_req \<Rightarrow> prog" where
  "readAll v r = direct v (list_own r True) (\<lambda>x. case x of
     Inl e \<Rightarrow> Done (ErrorBody 502 (''list unread failed: rpc error: code = '' @ code_String (fst e) @ '' desc = '' @ snd e))
   | Inr m \<Rightarrow> mark_all (notification_ids m) 0)"

definition notification_routes :: "gw_env \<Rightarrow> http_req \<Rightarrow> string list \<Rightarrow> prog" where
  "notification_routes v r rest =
    (let n = length rest; m = hrMethod r in
     if n = 0 \<and> m = ''GET'' then call v (list_own r (qget r ''unread_only'' = ''true''))
     else if n = 2 \<and> rest ! 1 = ''read'' \<and> m = ''POST'' then readOne v r (rest ! 0)
     else if n = 1 \<and> rest ! 0 = ''read-all'' \<and> m = ''POST'' then readAll v r
     else Done (ErrorBody 404
       ''use GET /v1/notifications, POST /v1/notifications/read-all, POST /v1/notifications/{id}/read''))"

definition invites :: "gw_env \<Rightarrow> http_req \<Rightarrow> string list \<Rightarrow> prog" where
  "invites v r rest =
    (let n = length rest; m = hrMethod r; key = set_metadata (newRequestID v 0) in
     if n = 0 \<and> m = ''GET'' then
       with_query v r ''ListInviteCodesRequest'' [''pagination'', ''include_terminal'']
         (\<lambda>q. call v (request ProjectConn ''UserService/ListInviteCodes'' q))
     else if n = 0 \<and> m = ''POST'' then
       with_body v r ''CreateInviteCodeRequest'' []
         (\<lambda>q. call v (request ProjectConn ''UserService/CreateInviteCode'' (set_str ''created_by'' (callerID r) (key q))))
     else if n = 2 \<and> rest ! 1 = ''revoke'' \<and> m = ''POST'' then
       call v (request ProjectConn ''UserService/RevokeInviteCode'' (key [(''id'', JStr (rest ! 0))]))
     else if n = 1 \<and> m = ''DELETE'' then
       call v (request ProjectConn ''UserService/DeleteInviteCode'' (key [(''id'', JStr (rest ! 0))]))
     else Done (ErrorBody 404 (''invites: GET /v1/invites | POST /v1/invites | '' @
       ''POST /v1/invites/{id}/revoke | DELETE /v1/invites/{id}'')))"

section \<open>Orchestrations\<close>

definition callerCtx :: "http_req \<Rightarrow> grpc_call \<Rightarrow> grpc_call" where
  "callerCtx r c = (if callerID r \<noteq> [] then c\<lparr>rpMeta := rpMeta c @ [(''x-user-id'', callerID r)]\<rparr> else c)"

definition orchestrations :: "gw_env \<Rightarrow> http_req \<Rightarrow> string list \<Rightarrow> prog" where
  "orchestrations v r rest =
    (let n = length rest; m = hrMethod r; i = rest ! 0 in
     if n = 0 \<and> m = ''GET'' then
       call v (request TaskConn ''TaskService/ListOrchestrations''
         [(''include_deprecated'', JBool (qget r ''include_deprecated'' = ''true'')),
          (''include_history'', JBool (qget r ''include_history'' = ''true''))])
     else if n = 0 \<and> m = ''POST'' then
       (if \<not> isAdmin r then denyAuthz
        else with_body v r ''CreateOrchestrationRequest'' []
          (\<lambda>q. call v (callerCtx r (request TaskConn ''TaskService/CreateOrchestration'' q))))
     else if n = 1 \<and> m = ''PUT'' then
       (if \<not> isAdmin r then denyAuthz
        else with_body v r ''UpdateOrchestrationRequest'' [(''name'', JStr i)]
          (\<lambda>q. call v (callerCtx r (request TaskConn ''TaskService/UpdateOrchestration'' (set_str ''name'' i q)))))
     else if n = 1 \<and> m = ''DELETE'' then
       (if \<not> isAdmin r then denyAuthz
        else call v (request TaskConn ''TaskService/DeprecateOrchestration''
          [(''name'', JStr i), (''unde_precate'', JBool (qget r ''unde_precate'' = ''true''))]))
     else Done (ErrorBody 404
       ''unknown orchestrations endpoint (GET/POST /v1/orchestrations, PUT/DELETE /v1/orchestrations/{name})''))"

section \<open>Dispatch\<close>

definition auth_routes :: "gw_env \<Rightarrow> http_req \<Rightarrow> string list \<Rightarrow> prog" where
  "auth_routes v r rest =
    (if hrMethod r = ''GET'' \<and> rest = [''registration-policy''] then registrationPolicy v
     else if hrMethod r \<noteq> ''POST'' \<or> length rest \<noteq> 1 then
       Done (ErrorBody 405 (''auth endpoints are POST /v1/auth/{login|register|refresh|logout}; '' @
         ''GET /v1/auth/registration-policy''))
     else if rest = [''login''] then login v r
     else if rest = [''register''] then registerUser v r
     else if rest = [''refresh''] then refresh v r
     else if rest = [''logout''] then logout v r
     else Done (ErrorBody 404 ''unknown auth endpoint''))"

definition serveHTTP :: "gw_env \<Rightarrow> gw_paths \<Rightarrow> http_req \<Rightarrow> prog" where
  "serveHTTP v ps r =
    (let segs = splitPath (hrPath r); rest = drop 2 segs; dom = segs ! 1 in
     if length segs < 2 \<or> segs ! 0 \<noteq> ''v1'' then Done (ErrorBody 404 ''unknown route'')
     else if dom = ''auth'' then auth_routes v r rest
     else if dom = ''users'' then users v r rest
     else if dom = ''projects'' then projects v r rest
     else if dom = ''tasks'' then tasks v ps r rest
     else if dom = ''agents'' then agents v r rest
     else if dom = ''orchestrations'' then orchestrations v r rest
     else if dom = ''findings'' then
       (if rest = [''verdict:batch''] \<and> hrMethod r = ''POST'' then verdictBatch v r else findings v r rest)
     else if dom = ''reports'' then reports v r rest
     else if dom = ''tools'' then tools v r rest
     else if dom = ''notifications'' then notification_routes v r rest
     else if dom = ''inference'' then requireAdmin r (inference v r rest)
     else if dom = ''workspaces'' then requireAdmin r (workspaces v r rest)
     else if dom = ''invites'' then requireAdmin r (invites v r rest)
     else Done (ErrorBody 501 (''route /v1/'' @ dom @
       '' is not mapped to internal gRPC by gateway (03 '' @ utf8 [194, 167] @ ''1.1); use gRPC directly'')))"

end
