(* ===== verification/GatewayAuth.thy ===== *)
theory GatewayAuth imports Main GatewayRoutes begin

text \<open>
  What a request passes before a handler sees it: the token bucket
  (\<open>gateway-service/internal/middleware/ratelimit.go\<close>), the revoked tokens
  (\<open>accessrevocation.go\<close>), the check of the token (\<open>jwt.go\<close>), the health probe
  (\<open>handler/health.go\<close>) and the order in which \<open>cmd/main.go\<close> chains them.

  A bucket holds a rational number of tokens (the code: a \<open>float64\<close>). A request reads the clock once.
  The parser of tokens is the argument \<open>parse\<close>: \<open>None\<close> for a token whose signature, method or
  times the JWT library refuses. A range over a map visits in list order.
\<close>

section \<open>Token buckets\<close>

record token_bucket =
  tbTokens :: rat
  tbMax :: rat
  tbRefill :: rat
  tbLast :: gotime

definition newTokenBucket :: "rat \<Rightarrow> rat \<Rightarrow> gotime \<Rightarrow> token_bucket" where
  "newTokenBucket maxTokens refillRate now = \<lparr>tbTokens = maxTokens, tbMax = maxTokens, tbRefill = refillRate, tbLast = now\<rparr>"

definition seconds :: "int \<Rightarrow> rat" where
  "seconds d = of_int d / of_int ns_second"

definition refilled :: "gotime \<Rightarrow> token_bucket \<Rightarrow> rat" where
  "refilled now tb = min (tbMax tb) (tbTokens tb + seconds (now - tbLast tb) * tbRefill tb)"

definition allow :: "gotime \<Rightarrow> token_bucket \<Rightarrow> bool \<times> token_bucket" where
  "allow now tb =
    (let t = refilled now tb
     in if 1 \<le> t then (True, tb\<lparr>tbTokens := t - 1, tbLast := now\<rparr>)
        else (False, tb\<lparr>tbTokens := t, tbLast := now\<rparr>))"

type_synonym rate_limiter = "(string \<times> token_bucket) list"

definition getBucket :: "int \<Rightarrow> gotime \<Rightarrow> string \<Rightarrow> rate_limiter \<Rightarrow> token_bucket \<times> rate_limiter" where
  "getBucket perMinute now key rl = (case map_of rl key of
     Some tb \<Rightarrow> (tb, rl)
   | None \<Rightarrow> let tb = newTokenBucket (of_int perMinute) (of_int perMinute / 60) now in (tb, AList.update key tb rl))"

definition cleanup :: "gotime \<Rightarrow> rate_limiter \<Rightarrow> rate_limiter" where
  "cleanup now rl = filter (\<lambda>(k, tb). \<not> 10 * ns_minute < now - tbLast tb) rl"

text \<open>\<open>net.SplitHostPort\<close>: the host, without its brackets, before the last colon.\<close>

definition split_host :: "string \<Rightarrow> string option" where
  "split_host s = (case str_last_index s '':'' of None \<Rightarrow> None
     | Some i \<Rightarrow>
        let h = take i s; p = drop (i + 1) s
        in if s \<noteq> [] \<and> hd s = CHR ''['' then
             (case str_index s '']'' of None \<Rightarrow> None
              | Some e \<Rightarrow> if e + 1 = i \<and> CHR ''['' \<notin> set (drop 1 (take e s)) \<and> CHR ''['' \<notin> set (drop (e + 1) s) \<and>
                                CHR '']'' \<notin> set (drop (e + 1) s)
                          then Some (drop 1 (take e s)) else None)
           else if CHR '':'' \<in> set h \<or> CHR ''['' \<in> set s \<or> CHR '']'' \<in> set s then None else Some h)"

definition getClientIP :: "bool \<Rightarrow> http_req \<Rightarrow> string" where
  "getClientIP trustXFF r =
    (let last_hop = TrimSpace (last (split_on (CHR '','') (hrForwarded r)))
     in if trustXFF \<and> hrForwarded r \<noteq> [] \<and> last_hop \<noteq> [] then last_hop
        else case split_host (hrRemote r) of None \<Rightarrow> hrRemote r | Some h \<Rightarrow> h)"

definition rate_key :: "bool \<Rightarrow> http_req \<Rightarrow> string" where
  "rate_key trustXFF r = (if callerID r \<noteq> [] then ''user:'' @ callerID r else getClientIP trustXFF r)"

definition rate_limit :: "int \<Rightarrow> gotime \<Rightarrow> string \<Rightarrow> rate_limiter \<Rightarrow> bool \<times> rate_limiter" where
  "rate_limit perMinute now key rl =
    (let (tb, rl1) = getBucket perMinute now key rl; (ok, tb') = allow now tb in (ok, AList.update key tb' rl1))"

section \<open>Revoked tokens\<close>

type_synonym revocations = "(string \<times> gotime) list"

definition accessRevocationTTL :: int where "accessRevocationTTL = 30 * ns_minute"

definition RevokeAccess :: "gotime \<Rightarrow> string \<Rightarrow> revocations \<Rightarrow> revocations" where
  "RevokeAccess now tok m = filter (\<lambda>(t, since). \<not> accessRevocationTTL < now - since) (AList.update tok now m)"

definition AccessRevoked :: "gotime \<Rightarrow> string \<Rightarrow> revocations \<Rightarrow> bool \<times> revocations" where
  "AccessRevoked now tok m = (case map_of m tok of
     None \<Rightarrow> (False, m)
   | Some since \<Rightarrow> if accessRevocationTTL < now - since then (False, AList.delete tok m) else (True, m))"

section \<open>The token of a request\<close>

record jwt_claims =
  jcUserID :: string
  jcRole :: string
  jcType :: string
  jcSubject :: string
  jcExpires :: "gotime option"

definition quoted :: "string \<Rightarrow> string" where
  "quoted s = CHR 0x22 # s @ [CHR 0x22]"

definition unauthorized :: "string \<Rightarrow> http_resp" where
  "unauthorized e = PlainError 401 (CHR ''{'' # quoted ''error'' @ '': '' @ quoted e @ ''}'')"

text \<open>\<open>strings.EqualFold\<close> with a text in ASCII: besides case, the Kelvin sign and the long s.\<close>

definition fold_rune :: "nat \<Rightarrow> nat" where
  "fold_rune r = (if 65 \<le> r \<and> r \<le> 90 then r + 32 else if r = 8490 then 107 else if r = 383 then 115 else r)"

definition folds_to :: "string \<Rightarrow> string \<Rightarrow> bool" where
  "folds_to s t \<longleftrightarrow> map fold_rune (runes s) = map fold_rune (runes t)"

definition auth_header :: "http_req \<Rightarrow> string" where
  "auth_header r =
    (if hrAuth r = [] \<and> folds_to (hrUpgrade r) ''websocket'' \<and> qget r ''token'' \<noteq> []
     then ''Bearer '' @ qget r ''token'' else hrAuth r)"

definition bearer_of :: "string \<Rightarrow> string option" where
  "bearer_of h = (case str_index h '' '' of None \<Rightarrow> None
     | Some i \<Rightarrow> if ToLower (take i h) = ''bearer'' then Some (drop (i + 1) h) else None)"

definition check_claims :: "gotime \<Rightarrow> jwt_claims \<Rightarrow> string option" where
  "check_claims now c =
    (if jcType c \<noteq> ''access'' then Some ''invalid token type''
     else case jcExpires c of Some e \<Rightarrow> if e < now then Some ''token expired'' else None | None \<Rightarrow> None)"

definition signed_in :: "jwt_claims \<Rightarrow> http_req \<Rightarrow> http_req" where
  "signed_in c r = r\<lparr>hrUser := Some (if jcUserID c = [] then jcSubject c else jcUserID c), hrRole := Some (jcRole c)\<rparr>"

definition JWTMiddleware ::
    "(gotime \<Rightarrow> string \<Rightarrow> jwt_claims option) \<Rightarrow> gotime \<Rightarrow> http_req \<Rightarrow> revocations \<Rightarrow> (http_resp + http_req) \<times> revocations" where
  "JWTMiddleware parse now r m =
    (if auth_header r = [] then (Inl (unauthorized ''missing authorization header''), m)
     else case bearer_of (auth_header r) of
       None \<Rightarrow> (Inl (unauthorized ''invalid authorization format, expected: Bearer <token>''), m)
     | Some tok \<Rightarrow>
         let (gone, m') = AccessRevoked now tok m
         in if gone then (Inl (unauthorized ''token has been revoked''), m')
            else case parse now tok of
              None \<Rightarrow> (Inl (unauthorized ''invalid or expired token''), m')
            | Some c \<Rightarrow> (case check_claims now c of
                Some e \<Rightarrow> (Inl (unauthorized e), m')
              | None \<Rightarrow> (Inr (signed_in c r), m')))"

section \<open>Health\<close>

definition health_deps :: "(string \<times> backend) list" where
  "health_deps = [(''project'', ProjectConn), (''task'', TaskConn), (''result'', ResultConn),
     (''storage'', StorageConn), (''sast-adapter'', AdapterConn), (''runtime'', RuntimeConn)]"

text \<open>The answer of a probe: number 1 is SERVING.\<close>

definition health_status_String :: "msg \<Rightarrow> string" where
  "health_status_String m = (case map_of m ''status'' of
     Some (JNum n) \<Rightarrow> if n = 1 then ''SERVING'' else if n = 2 then ''NOT_SERVING'' else if n = 3 then ''SERVICE_UNKNOWN''
       else if n = 0 then ''UNKNOWN'' else int_digits (trunc_rat n)
   | _ \<Rightarrow> ''UNKNOWN'')"

definition probe_result :: "grpc_error + msg \<Rightarrow> string" where
  "probe_result x = (case x of
     Inl e \<Rightarrow> ''unreachable: rpc error: code = '' @ code_String (fst e) @ '' desc = '' @ snd e
   | Inr m \<Rightarrow> if health_status_String m \<noteq> ''SERVING'' then ''not-serving: '' @ health_status_String m else ''ok'')"

definition health_answer :: "(string \<times> string) list \<Rightarrow> http_resp" where
  "health_answer res =
    (let good = list_all (\<lambda>(n, s). s = ''ok'') res
     in JsonValue (if good then 200 else 503)
          (JObj [(''status'', JStr (if good then ''ok'' else ''degraded'')), (''service'', JStr ''gateway-service''),
                 (''deps'', JObj (map (\<lambda>(n, s). (n, JStr s)) res))]))"

fun probes :: "gw_env \<Rightarrow> (string \<times> backend) list \<Rightarrow> (string \<times> string) list \<Rightarrow> prog" where
  "probes v [] res = Done (health_answer res)"
| "probes v ((n, c) # ds) res =
    (if \<not> geConfigured v c then probes v ds (res @ [(n, ''not-configured'')])
     else Call (request c ''Health/Check'' []) (\<lambda>x. probes v ds (res @ [(n, probe_result x)])))"

definition HealthHandler :: "gw_env \<Rightarrow> http_req \<Rightarrow> prog" where
  "HealthHandler v r =
    (if hrMethod r \<noteq> ''GET''
     then Done (PlainError 405 (CHR ''{'' # quoted ''error'' @ '': '' @ quoted ''method not allowed'' @ ''}''))
     else probes v health_deps [])"

section \<open>The chain\<close>

record gateway_state =
  gsRevoked :: revocations
  gsAuthLimiter :: rate_limiter
  gsLimiter :: rate_limiter

record gateway_conf =
  gcEnv :: gw_env
  gcPaths :: gw_paths
  gcParse :: "gotime \<Rightarrow> string \<Rightarrow> jwt_claims option"
  gcTrustProxy :: bool
  gcPerMinute :: int

text \<open>\<open>http.ServeMux\<close>: a path that is not clean is redirected, except for CONNECT; \<open>/v1\<close> alone is
  sent to the subtree.\<close>

fun clean_step :: "string list \<Rightarrow> string \<Rightarrow> string list" where
  "clean_step acc s =
    (if s = [] \<or> s = ''.'' then acc else if s = ''..'' then butlast acc else acc @ [s])"

definition clean_path :: "string \<Rightarrow> string" where
  "clean_path p =
    (let segs = foldl clean_step [] (split_on (CHR ''/'') p); np = ''/'' @ join_with ''/'' segs
     in if segs \<noteq> [] \<and> p \<noteq> [] \<and> last p = CHR ''/'' then np @ ''/'' else np)"

definition mux :: "http_req \<Rightarrow> prog \<Rightarrow> prog \<Rightarrow> prog" where
  "mux r below other =
    (if hrMethod r \<noteq> ''CONNECT'' \<and> clean_path (hrPath r) \<noteq> hrPath r then Done (RedirectTo (clean_path (hrPath r)))
     else if prefix ''/v1/'' (hrPath r) then below
     else if hrPath r = ''/v1'' then Done (RedirectTo ''/v1/'')
     else other)"

definition not_found :: prog where
  "not_found = Done (PlainError 404 ''404 page not found'')"

definition api_mux :: "gateway_conf \<Rightarrow> http_req \<Rightarrow> prog" where
  "api_mux cf r = mux r (if hrPath r = ''/v1/uploads/archive'' then Done ToUpload
     else serveHTTP (gcEnv cf) (gcPaths cf) r) not_found"

definition auth_mux :: "gateway_conf \<Rightarrow> http_req \<Rightarrow> prog" where
  "auth_mux cf r = mux r (serveHTTP (gcEnv cf) (gcPaths cf) r) not_found"

definition authLimited :: "gateway_conf \<Rightarrow> gotime \<Rightarrow> http_req \<Rightarrow> gateway_state \<Rightarrow> prog \<times> gateway_state" where
  "authLimited cf now r st =
    (let (ok, rl) = rate_limit (gcPerMinute cf) now (rate_key (gcTrustProxy cf) r) (gsAuthLimiter st)
     in (if ok then auth_mux cf r else Done TooManyRequests, st\<lparr>gsAuthLimiter := rl\<rparr>))"

definition protected_chain :: "gateway_conf \<Rightarrow> gotime \<Rightarrow> http_req \<Rightarrow> gateway_state \<Rightarrow> prog \<times> gateway_state" where
  "protected_chain cf now r st = (case JWTMiddleware (gcParse cf) now r (gsRevoked st) of
     (Inl e, m) \<Rightarrow> (Done e, st\<lparr>gsRevoked := m\<rparr>)
   | (Inr r', m) \<Rightarrow>
       let (ok, rl) = rate_limit (gcPerMinute cf) now (rate_key (gcTrustProxy cf) r') (gsLimiter st)
       in (if ok then api_mux cf r' else Done TooManyRequests, st\<lparr>gsRevoked := m, gsLimiter := rl\<rparr>))"

text \<open>A request as it arrives carries no identity.\<close>

definition root :: "gateway_conf \<Rightarrow> gotime \<Rightarrow> http_req \<Rightarrow> gateway_state \<Rightarrow> prog \<times> gateway_state" where
  "root cf now r0 st =
    (let r = r0\<lparr>hrUser := None, hrRole := None\<rparr>
     in if hrPath r = ''/health'' then (HealthHandler (gcEnv cf) r, st)
        else if prefix ''/v1/auth/'' (hrPath r) then authLimited cf now r st
        else protected_chain cf now r st)"

fun revoke_events :: "gotime \<Rightarrow> event list \<Rightarrow> revocations \<Rightarrow> revocations" where
  "revoke_events now [] m = m"
| "revoke_events now (RevokedToken t # es) m = revoke_events now es (RevokeAccess now t m)"
| "revoke_events now (_ # es) m = revoke_events now es m"

text \<open>One request from end to end: its answer, what was sent, and the gateway after it.\<close>

definition serve :: "backends \<Rightarrow> gateway_conf \<Rightarrow> gotime \<Rightarrow> http_req \<Rightarrow> gateway_state \<Rightarrow> http_resp \<times> event list \<times> gateway_state" where
  "serve b cf now r st =
    (let (p, st1) = root cf now r st; (a, h) = play b p []
     in (a, h, st1\<lparr>gsRevoked := revoke_events now h (gsRevoked st1)\<rparr>))"

end
