(* ===== verification/GatewayRules.thy ===== *)
theory GatewayRules imports Main GatewayAuth begin

text \<open>
  Who reaches what through the gateway. A policy says which calls may follow which events; \<open>guarded\<close>
  says that a handler keeps to a policy whatever the backends answer. The locale \<open>call_policy\<close> collects what
  holds under every policy that leaves the reads of the audit data free; its interpretations are the access matrix
  (\<open>permitted\<close>) and the rule that a call names what its path names (\<open>names_path\<close>).
\<close>

named_theorems guards \<open>how the building blocks of handlers keep to a policy\<close>

section \<open>Keeping to a policy\<close>

type_synonym policy = "event list \<Rightarrow> grpc_call \<Rightarrow> bool"

primrec guarded :: "policy \<Rightarrow> prog \<Rightarrow> event list \<Rightarrow> bool" where
  "guarded ok (Done a) h = True"
| "guarded ok (Call c k) h = (ok h c \<and> (\<forall>x. guarded ok (k x) (h @ [Sent c x])))"
| "guarded ok (OpenStream c k) h = (ok h c \<and> (\<forall>x. guarded ok (k x) (h @ [Streamed c x])))"
| "guarded ok (RevokeToken t p) h = guarded ok p (h @ [RevokedToken t])"
| "guarded ok (WriteLink t d p) h = guarded ok p (h @ [LinkTask t d])"

lemma play_extends: "prefix h (snd (play b p h))"
proof (induction p arbitrary: h)
  case (Call c k)
  then show ?case by (metis append_prefixD play.simps(2) rangeI)
next
  case (OpenStream c k)
  then show ?case by (metis append_prefixD play.simps(3) rangeI)
qed (simp_all, (metis append_prefixD)+)

text \<open>Every call of a guarded handler keeps to the policy at the moment it is sent.\<close>

lemma guarded_play:
  "guarded ok p h \<Longrightarrow> snd (play b p h) = pre @ e # post \<Longrightarrow> length h \<le> length pre \<Longrightarrow> c \<in> set (call_of e) \<Longrightarrow> ok pre c"
proof (induction p arbitrary: h)
  case (Done a)
  then show ?case by simp
next
  case (Call r k)
  define x where "x = beCall b h r"
  have t: "snd (play b (k x) (h @ [Sent r x])) = pre @ e # post" using Call.prems(2) by (simp add: x_def)
  show ?case
  proof (cases "length pre = length h")
    case True
    have "prefix (h @ [Sent r x]) (pre @ e # post)" using play_extends[of "h @ [Sent r x]" b "k x"] t by simp
    then have "pre = h \<and> e = Sent r x" using True by (auto simp: prefix_def)
    then show ?thesis using Call.prems by simp
  next
    case False
    then show ?thesis using Call.IH[of "k x" "h @ [Sent r x]"] Call.prems t by simp
  qed
next
  case (OpenStream r k)
  define x where "x = beStream b h r"
  have t: "snd (play b (k x) (h @ [Streamed r x])) = pre @ e # post" using OpenStream.prems(2) by (simp add: x_def)
  show ?case
  proof (cases "length pre = length h")
    case True
    have "prefix (h @ [Streamed r x]) (pre @ e # post)" using play_extends[of "h @ [Streamed r x]" b "k x"] t by simp
    then have "pre = h \<and> e = Streamed r x" using True by (auto simp: prefix_def)
    then show ?thesis using OpenStream.prems by simp
  next
    case False
    then show ?thesis using OpenStream.IH[of "k x" "h @ [Streamed r x]"] OpenStream.prems t by simp
  qed
next
  case (RevokeToken t p)
  then have "pre \<noteq> h \<or> e = RevokedToken t"
    using play_extends[of "h @ [RevokedToken t]" b p] by (auto simp: prefix_def)
  then show ?case using RevokeToken play_extends[of "h @ [RevokedToken t]" b p]
    by (cases "length pre = length h") (auto simp: prefix_def)
next
  case (WriteLink t d p)
  then show ?case using play_extends[of "h @ [LinkTask t d]" b p]
    by (cases "length pre = length h") (auto simp: prefix_def)
qed

lemma guarded_calls:
  assumes "guarded ok p []" "c \<in> set (calls (snd (play b p [])))"
  shows "\<exists>pre e post. snd (play b p []) = pre @ e # post \<and> c \<in> set (call_of e) \<and> ok pre c"
proof -
  obtain e where e: "e \<in> set (snd (play b p []))" "c \<in> set (call_of e)" using assms(2) by (auto simp: calls_def)
  then obtain pre post where s: "snd (play b p []) = pre @ e # post" by (meson split_list)
  show ?thesis using guarded_play[OF assms(1) s _ e(2)] s e(2) by auto
qed

lemma guarded_mono: "guarded ok p h \<Longrightarrow> (\<And>h c. ok h c \<Longrightarrow> ok' h c) \<Longrightarrow> guarded ok' p h"
  by (induction p arbitrary: h) auto

section \<open>Building blocks\<close>

lemma guarded_respond [guards]: "guarded ok (respond v m) h"
  by (simp add: respond_def split: sum.split)

lemma guarded_invoke [guards]:
  "ok h c \<Longrightarrow> (\<And>m. guarded ok (k m) (h @ [Sent c (Inr m)])) \<Longrightarrow> guarded ok (invoke v c k) h"
  by (auto simp: invoke_def split: sum.split)

lemma guarded_call [guards]: "ok h c \<Longrightarrow> guarded ok (call v c) h"
  by (simp add: call_def guarded_invoke guarded_respond)

lemma guarded_direct [guards]:
  "ok h c \<Longrightarrow> (\<And>x. guarded ok (k x) (h @ [Sent c x])) \<Longrightarrow> guarded ok (direct v c k) h"
  by (simp add: direct_def)

lemma guarded_body [guards]: "(\<And>q. guarded ok (k q) h) \<Longrightarrow> guarded ok (with_body v r ty m k) h"
  by (simp add: with_body_def split: sum.split)

lemma guarded_query [guards]: "(\<And>q. guarded ok (k q) h) \<Longrightarrow> guarded ok (with_query v r ty fs k) h"
  by (simp add: with_query_def split: sum.split)

lemma guarded_admin [guards]: "(isAdmin r \<Longrightarrow> guarded ok k h) \<Longrightarrow> guarded ok (requireAdmin r k) h"
  by (simp add: requireAdmin_def)

lemma guarded_operator [guards]: "(isOperator r \<Longrightarrow> guarded ok k h) \<Longrightarrow> guarded ok (requireOperator r k) h"
  by (simp add: requireOperator_def)

lemma guarded_self [guards]:
  "(isAdmin r \<or> callerID r \<noteq> [] \<and> callerID r = i \<Longrightarrow> guarded ok k h) \<Longrightarrow> guarded ok (adminOrSelf r i k) h"
  by (auto simp: adminOrSelf_def)

lemma guarded_deny [guards]: "guarded ok denyAuthz h"
  by (simp add: denyAuthz_def)

lemma guarded_after [guards]:
  "guarded ok p h \<Longrightarrow> (\<And>a h. guarded ok (f a) h) \<Longrightarrow> guarded ok (after p f) h"
  by (induction p arbitrary: h) auto

lemma guarded_link [guards]: "(\<And>h. guarded ok k h) \<Longrightarrow> guarded ok (writeTaskLink ab up i d k) h"
  by (simp add: writeTaskLink_def split: option.split)

section \<open>Ownership\<close>

definition reads_task :: "string \<Rightarrow> grpc_call" where
  "reads_task i = request TaskConn ''TaskService/GetScanTask'' [(''task_id'', JStr i)]"

definition reads_finding :: "string \<Rightarrow> grpc_call" where
  "reads_finding i = request ResultConn ''ResultService/GetFinding'' [(''finding_id'', JStr i)]"

text \<open>The caller is an administrator, or the backends have said that the task is his.\<close>

definition owns_task :: "http_req \<Rightarrow> event list \<Rightarrow> string \<Rightarrow> bool" where
  "owns_task r h i \<longleftrightarrow> callerID r \<noteq> [] \<and>
     (\<exists>m. Sent (reads_task i) (Inr m) \<in> set h \<and> str_field ''created_by'' m = callerID r)"

definition owns_finding :: "http_req \<Rightarrow> event list \<Rightarrow> string \<Rightarrow> bool" where
  "owns_finding r h f \<longleftrightarrow>
     (\<exists>m. Sent (reads_finding f) (Inr m) \<in> set h \<and> owns_task r h (str_field ''task_id'' (sub_field ''finding'' m)))"

lemma owns_mono: "owns_task r h i \<Longrightarrow> set h \<subseteq> set h' \<Longrightarrow> owns_task r h' i"
  "owns_finding r h f \<Longrightarrow> set h \<subseteq> set h' \<Longrightarrow> owns_finding r h' f"
  by (auto simp: owns_task_def owns_finding_def)

lemma guarded_task:
  assumes "\<And>h i. ok h (reads_task i)" "\<And>h'. set h \<subseteq> set h' \<Longrightarrow> isAdmin r \<or> owns_task r h' i \<Longrightarrow> guarded ok k h'"
  shows "guarded ok (canAccessTask v r i k) h"
proof -
  have "guarded ok k (h @ [Sent (reads_task i) (Inr m)])" if "str_field ''created_by'' m = callerID r" "callerID r \<noteq> []" for m
    using that by (intro assms(2)) (auto simp: owns_task_def)
  moreover have "isAdmin r \<Longrightarrow> guarded ok k h" using assms(2)[of h] by simp
  ultimately show ?thesis using assms(1)[of h i]
    by (auto simp: canAccessTask_def reads_task_def direct_def denyAuthz_def split: sum.split)
qed

lemma guarded_finding:
  assumes "\<And>h i. ok h (reads_task i)" "\<And>h i. ok h (reads_finding i)"
    and "\<And>h'. set h \<subseteq> set h' \<Longrightarrow> isAdmin r \<or> owns_finding r h' f \<Longrightarrow> guarded ok k h'"
  shows "guarded ok (canAccessTaskViaFinding v r f k) h"
proof -
  have "guarded ok (canAccessTask v r (str_field ''task_id'' (sub_field ''finding'' m)) k) (h @ [Sent (reads_finding f) (Inr m)])" for m
  proof (rule guarded_task, rule assms(1))
    fix h' assume s: "set (h @ [Sent (reads_finding f) (Inr m)]) \<subseteq> set h'"
      and "isAdmin r \<or> owns_task r h' (str_field ''task_id'' (sub_field ''finding'' m))"
    then have "isAdmin r \<or> owns_finding r h' f" by (auto simp: owns_finding_def)
    then show "guarded ok k h'" using s by (intro assms(3)) auto
  qed
  moreover have "isAdmin r \<Longrightarrow> guarded ok k h" using assms(3)[of h] by simp
  ultimately show ?thesis using assms(2)[of h f]
    by (auto simp: canAccessTaskViaFinding_def reads_finding_def direct_def denyAuthz_def split: sum.split)
qed

lemma guarded_batch_items:
  assumes "\<And>h i. ok h (reads_task i)" "\<And>h i. ok h (reads_finding i)" "\<not> isAdmin r"
    and "\<And>h'. set h \<subseteq> set h' \<Longrightarrow> \<forall>f \<in> set ids. f = [] \<or> f \<in> seen \<or> owns_finding r h' f \<Longrightarrow> guarded ok k h'"
  shows "guarded ok (batch_items v r seen ids k) h"
  using assms(4)
proof (induction ids arbitrary: h seen)
  case Nil
  then show ?case by simp
next
  case (Cons i js)
  show ?case
  proof (cases "i = [] \<or> i \<in> seen")
    case True
    then show ?thesis using Cons by auto
  next
    case False
    have "guarded ok (canAccessTaskViaFinding v r i (batch_items v r (insert i seen) js k)) h"
    proof (rule guarded_finding, rule assms(1), rule assms(2))
      fix h1 assume h1: "set h \<subseteq> set h1" "isAdmin r \<or> owns_finding r h1 i"
      show "guarded ok (batch_items v r (insert i seen) js k) h1"
      proof (rule Cons.IH)
        fix h2 assume h2: "set h1 \<subseteq> set h2" "\<forall>f \<in> set js. f = [] \<or> f \<in> insert i seen \<or> owns_finding r h2 f"
        moreover have "owns_finding r h2 i" using h1(2) h2(1) assms(3) owns_mono(2) by blast
        ultimately show "guarded ok k h2" using h1(1) by (intro Cons.prems) auto
      qed
    qed
    then show ?thesis using False by simp
  qed
qed

lemma guarded_batch:
  assumes "\<And>h i. ok h (reads_task i)" "\<And>h i. ok h (reads_finding i)"
    and "\<And>h'. set h \<subseteq> set h' \<Longrightarrow> isAdmin r \<or> (\<forall>f \<in> set ids. f = [] \<or> owns_finding r h' f) \<Longrightarrow> guarded ok k h'"
  shows "guarded ok (canBatchVerdict v r ids k) h"
proof (cases "isAdmin r")
  case True
  then show ?thesis using assms(3)[of h] by (simp add: canBatchVerdict_def)
next
  case False
  have "guarded ok (batch_items v r {} ids k) h"
    by (rule guarded_batch_items, rule assms(1), rule assms(2), rule False) (auto intro: assms(3))
  then show ?thesis using False by (simp add: canBatchVerdict_def)
qed

end
