(* ===== verification/GatewayAccess.thy ===== *)
theory GatewayAccess imports Main GatewayRules begin

text \<open>
  The access matrix of the gateway: one rule for every call it can send, and the proof that every route keeps to it.
\<close>

datatype access_rule =
    Anyone | AnyUser | Operators | Admins | OwnUser | OwnProfile | OwnPassword | OwnNotices | ListedNotice
  | OwnTask | OwnFinding | OwnFindings | Nobody

definition access_table :: "(string \<times> access_rule) list" where
  "access_table =
    map (\<lambda>m. (''UserService/'' @ m, Anyone)) [''Login'', ''RegisterUser'', ''RefreshToken'', ''Logout'', ''GetRegistrationPolicy''] @
    map (\<lambda>m. (''TaskService/'' @ m, AnyUser)) [''GetScanTask'', ''GetTaskProgress'', ''GetTaskLogs'', ''GetTaskUsage'',
      ''GetTaskGraph'', ''GetTaskContext'', ''ListScanTasks'', ''ListOrchestrations''] @
    map (\<lambda>m. (''ProjectService/'' @ m, AnyUser)) [''ListProjects'', ''GetProject'', ''GetProjectConfig''] @
    map (\<lambda>m. (''ResultService/'' @ m, AnyUser)) [''GetFinding'', ''ListFindings'', ''GetTaskResultStats''] @
    map (\<lambda>m. (''ReportService/'' @ m, AnyUser)) [''GetReport'', ''ListReports'', ''DownloadReport''] @
    [(''RuntimeService/GetAIInteractionLog'', AnyUser), (''RuntimeService/ListAgents'', AnyUser),
     (''SASTFusionService/CalculateMetrics'', AnyUser), (''SASTFusionService/GenerateComparisonReport'', AnyUser),
     (''SASTAdapterService/ListAvailableTools'', AnyUser), (''SASTAdapterService/ValidateToolConfig'', AnyUser),
     (''UserService/GetCurrentUser'', AnyUser)] @
    map (\<lambda>m. (''TaskService/'' @ m, Operators)) [''StartTask'', ''CancelScanTask'', ''RetryScanTask'', ''PauseTask'',
      ''ResumeTask'', ''SetTaskAgent'', ''CompleteTask''] @
    map (\<lambda>m. (''ProjectService/'' @ m, Operators)) [''CreateProject'', ''AddProjectMember'', ''UpdateProject'', ''UpdateProjectConfig''] @
    map (\<lambda>m. (''RuntimeService/'' @ m, Operators)) [''InjectGraphNodeMessage'', ''ReopenGraphNode'', ''ClaimGraphNode'', ''ReleaseGraphNode''] @
    [(''ReportService/GenerateReport'', Operators)] @
    map (\<lambda>m. (''RuntimeService/'' @ m, Admins)) [''ListInferenceProviders'', ''GetInferenceProvider'', ''UpsertInferenceProvider'',
      ''DeleteInferenceProvider'', ''GetInferenceRoute'', ''SetInferenceRoute'', ''CreateWorkspace'', ''DeleteWorkspace'', ''ListWorkspaces''] @
    map (\<lambda>m. (''UserService/'' @ m, Admins)) [''ResetPassword'', ''ListUsers'', ''CreateUser'', ''ListInviteCodes'',
      ''CreateInviteCode'', ''RevokeInviteCode'', ''DeleteInviteCode''] @
    map (\<lambda>m. (''TaskService/'' @ m, Admins)) [''CreateOrchestration'', ''UpdateOrchestration'', ''DeprecateOrchestration''] @
    [(''ProjectService/DeleteProject'', Admins),
     (''UserService/GetUser'', OwnUser), (''UserService/GetUserPermissions'', OwnUser), (''UserService/UpdateUser'', OwnProfile),
     (''UserService/ChangePassword'', OwnPassword), (''NotificationService/ListNotifications'', OwnNotices),
     (''NotificationService/MarkNotificationRead'', ListedNotice), (''TaskService/CreateScanTask'', OwnTask),
     (''ResultService/UpdateVerdict'', OwnFinding), (''ResultService/BatchUpdateVerdict'', OwnFindings)]"

definition rule_of :: "string \<Rightarrow> access_rule" where
  "rule_of m = (case map_of access_table m of Some x \<Rightarrow> x | None \<Rightarrow> Nobody)"

text \<open>What an update of a profile may carry for a caller who is no administrator.\<close>

definition profile_ok :: "string \<Rightarrow> msg \<Rightarrow> bool" where
  "profile_ok me q \<longleftrightarrow> (has_sub ''user'' q \<longrightarrow>
     (let u = sub_field ''user'' q in str_field ''user_id'' u = me \<and> enum_unspecified ''role'' u \<and>
        enum_unspecified ''state'' u \<and> str_field ''username'' u = []))"

definition listed_for :: "http_req \<Rightarrow> event list \<Rightarrow> string \<Rightarrow> bool" where
  "listed_for r h i \<longleftrightarrow> (\<exists>m u. Sent (list_own r u) (Inr m) \<in> set h \<and> i \<in> set (notification_ids m))"

definition permitted :: "http_req \<Rightarrow> policy" where
  "permitted r h c = (let q = rpReq c; me = callerID r in case rule_of (rpMethod c) of
     Anyone \<Rightarrow> True
   | AnyUser \<Rightarrow> True
   | Operators \<Rightarrow> isOperator r
   | Admins \<Rightarrow> isAdmin r
   | OwnUser \<Rightarrow> isAdmin r \<or> me \<noteq> [] \<and> str_field ''user_id'' q = me
   | OwnProfile \<Rightarrow> isAdmin r \<or> me \<noteq> [] \<and> profile_ok me q
   | OwnPassword \<Rightarrow> str_field ''user_id'' q = me
   | OwnNotices \<Rightarrow> str_field ''user_id'' q = me
   | ListedNotice \<Rightarrow> listed_for r h (str_field ''notification_id'' q)
   | OwnTask \<Rightarrow> me \<noteq> [] \<longrightarrow> str_field ''created_by'' q = me
   | OwnFinding \<Rightarrow> isAdmin r \<or> owns_finding r h (str_field ''finding_id'' q)
   | OwnFindings \<Rightarrow> isAdmin r \<or> (\<forall>f \<in> set (finding_ids q). f = [] \<or> owns_finding r h f)
   | Nobody \<Rightarrow> False)"

lemma rule_simps [simp]:
  "rule_of ''UserService/Login'' = Anyone" "rule_of ''UserService/RegisterUser'' = Anyone"
  "rule_of ''UserService/RefreshToken'' = Anyone" "rule_of ''UserService/Logout'' = Anyone"
  "rule_of ''UserService/GetRegistrationPolicy'' = Anyone"
  "rule_of ''TaskService/GetScanTask'' = AnyUser" "rule_of ''TaskService/GetTaskProgress'' = AnyUser"
  "rule_of ''TaskService/GetTaskLogs'' = AnyUser" "rule_of ''TaskService/GetTaskUsage'' = AnyUser"
  "rule_of ''TaskService/GetTaskGraph'' = AnyUser" "rule_of ''TaskService/GetTaskContext'' = AnyUser"
  "rule_of ''TaskService/ListScanTasks'' = AnyUser" "rule_of ''TaskService/ListOrchestrations'' = AnyUser"
  "rule_of ''ProjectService/ListProjects'' = AnyUser" "rule_of ''ProjectService/GetProject'' = AnyUser"
  "rule_of ''ProjectService/GetProjectConfig'' = AnyUser" "rule_of ''ResultService/GetFinding'' = AnyUser"
  "rule_of ''ResultService/ListFindings'' = AnyUser" "rule_of ''ResultService/GetTaskResultStats'' = AnyUser"
  "rule_of ''ReportService/GetReport'' = AnyUser" "rule_of ''ReportService/ListReports'' = AnyUser"
  "rule_of ''ReportService/DownloadReport'' = AnyUser" "rule_of ''RuntimeService/GetAIInteractionLog'' = AnyUser"
  "rule_of ''RuntimeService/ListAgents'' = AnyUser" "rule_of ''SASTFusionService/CalculateMetrics'' = AnyUser"
  "rule_of ''SASTFusionService/GenerateComparisonReport'' = AnyUser"
  "rule_of ''SASTAdapterService/ListAvailableTools'' = AnyUser" "rule_of ''SASTAdapterService/ValidateToolConfig'' = AnyUser"
  "rule_of ''UserService/GetCurrentUser'' = AnyUser"
  by code_simp+

lemma operator_rules [simp]:
  "rule_of ''TaskService/StartTask'' = Operators" "rule_of ''TaskService/CancelScanTask'' = Operators"
  "rule_of ''TaskService/RetryScanTask'' = Operators" "rule_of ''TaskService/PauseTask'' = Operators"
  "rule_of ''TaskService/ResumeTask'' = Operators" "rule_of ''TaskService/SetTaskAgent'' = Operators"
  "rule_of ''TaskService/CompleteTask'' = Operators" "rule_of ''ProjectService/CreateProject'' = Operators"
  "rule_of ''ProjectService/AddProjectMember'' = Operators" "rule_of ''ProjectService/UpdateProject'' = Operators"
  "rule_of ''ProjectService/UpdateProjectConfig'' = Operators" "rule_of ''RuntimeService/InjectGraphNodeMessage'' = Operators"
  "rule_of ''RuntimeService/ReopenGraphNode'' = Operators" "rule_of ''RuntimeService/ClaimGraphNode'' = Operators"
  "rule_of ''RuntimeService/ReleaseGraphNode'' = Operators" "rule_of ''ReportService/GenerateReport'' = Operators"
  by code_simp+

lemma admin_rules [simp]:
  "rule_of ''RuntimeService/ListInferenceProviders'' = Admins" "rule_of ''RuntimeService/GetInferenceProvider'' = Admins"
  "rule_of ''RuntimeService/UpsertInferenceProvider'' = Admins" "rule_of ''RuntimeService/DeleteInferenceProvider'' = Admins"
  "rule_of ''RuntimeService/GetInferenceRoute'' = Admins" "rule_of ''RuntimeService/SetInferenceRoute'' = Admins"
  "rule_of ''RuntimeService/CreateWorkspace'' = Admins" "rule_of ''RuntimeService/DeleteWorkspace'' = Admins"
  "rule_of ''RuntimeService/ListWorkspaces'' = Admins" "rule_of ''UserService/ResetPassword'' = Admins"
  "rule_of ''UserService/ListUsers'' = Admins" "rule_of ''UserService/CreateUser'' = Admins"
  "rule_of ''UserService/ListInviteCodes'' = Admins" "rule_of ''UserService/CreateInviteCode'' = Admins"
  "rule_of ''UserService/RevokeInviteCode'' = Admins" "rule_of ''UserService/DeleteInviteCode'' = Admins"
  "rule_of ''TaskService/CreateOrchestration'' = Admins" "rule_of ''TaskService/UpdateOrchestration'' = Admins"
  "rule_of ''TaskService/DeprecateOrchestration'' = Admins" "rule_of ''ProjectService/DeleteProject'' = Admins"
  by code_simp+

lemma own_rules [simp]:
  "rule_of ''UserService/GetUser'' = OwnUser" "rule_of ''UserService/GetUserPermissions'' = OwnUser"
  "rule_of ''UserService/UpdateUser'' = OwnProfile" "rule_of ''UserService/ChangePassword'' = OwnPassword"
  "rule_of ''NotificationService/ListNotifications'' = OwnNotices"
  "rule_of ''NotificationService/MarkNotificationRead'' = ListedNotice"
  "rule_of ''TaskService/CreateScanTask'' = OwnTask" "rule_of ''ResultService/UpdateVerdict'' = OwnFinding"
  "rule_of ''ResultService/BatchUpdateVerdict'' = OwnFindings"
  by code_simp+

lemma request_sel [simp]: "rpMethod (request s m q) = m" "rpReq (request s m q) = q" "rpConn (request s m q) = s"
  "rpMeta (request s m q) = []"
  by (simp_all add: request_def)

lemma str_field_set [simp]: "str_field k (set_str k v m) = v"
  "k \<noteq> k' \<Longrightarrow> str_field k (set_str k' v m) = str_field k m"
  "k \<noteq> k' \<Longrightarrow> str_field k (AList.update k' j m) = str_field k m"
  "str_field k ((k, JStr s) # m) = s"
  by (simp_all add: str_field_def set_str_def jstr_def update_conv')

lemma open_calls_permitted: "rule_of (rpMethod c) \<in> {Anyone, AnyUser} \<Longrightarrow> permitted r h c"
  by (auto simp: permitted_def Let_def)

section \<open>Routes that only read\<close>

locale call_policy =
  fixes ok :: policy
  assumes free: "rule_of (rpMethod c) = AnyUser \<Longrightarrow> ok h c"
begin

lemma free_request: "rule_of m = AnyUser \<Longrightarrow> ok h (request s m q)"
  by (rule free) simp

lemma guarded_call_free: "rule_of m = AnyUser \<Longrightarrow> guarded ok (call v (request s m q)) h"
  by (rule guarded_call, rule free_request)

lemma guarded_checks: "guarded ok (tool_checks ts out) h"
  by (induction ts arbitrary: out h) (simp_all add: free_request)

lemma guarded_tools: "guarded ok (tools v r rest) h"
  by (auto simp: tools_def intro!: guarded_direct free_request guarded_checks split: sum.split)

lemma guarded_download: "guarded ok (downloadReport v i) h"
  by (auto simp: downloadReport_def intro: free_request split: sum.split)

lemma guarded_reports: "guarded ok (reports v r rest) h"
  by (auto simp: reports_def Let_def intro!: guarded_call_free guarded_query guarded_download)

lemma guarded_agents: "guarded ok (agents v r rest) h"
  by (auto simp: agents_def runtime_call_def intro!: guarded_call_free)

lemma guarded_snapshot: "guarded ok (taskSnapshot v r i) h"
  by (auto simp: taskSnapshot_def snapshot_ai_def snapshot_answer_def Let_def
      intro!: guarded_direct free_request split: sum.split)

lemma guarded_task_get: "task_get v r i what = Some p \<Longrightarrow> guarded ok p h"
  by (auto simp: task_get_def task_read_def taskLogs_def aiLog_def intro!: guarded_call_free guarded_snapshot
      split: if_splits)

lemma guarded_owned: "ok h (reads_task i)" "ok h (reads_finding i)"
  by (auto simp: reads_task_def reads_finding_def intro!: free_request)

end

interpretation matrix: call_policy "permitted r" for r
  by unfold_locales (rule open_calls_permitted, simp)

end
