(* ===== verification/GatewayMatrix.thy ===== *)
theory GatewayMatrix imports Main GatewayAccess begin

text \<open>
  Every route keeps to the access matrix, and calls name what the path names.
\<close>

section \<open>Each route keeps to the matrix\<close>

lemma permitted_by_rule:
  "rule_of m = Anyone \<or> rule_of m = AnyUser \<or> rule_of m = Operators \<and> isOperator r \<or> rule_of m = Admins \<and> isAdmin r
     \<Longrightarrow> permitted r h (request s m q)"
  by (auto simp: permitted_def Let_def)

lemma permitted_ctx [simp]: "permitted r h (callerCtx r' c) = permitted r h c"
  by (simp add: permitted_def callerCtx_def)

lemma admin_operator [simp]: "isAdmin r \<Longrightarrow> isOperator r"
  by (simp add: isAdmin_def isOperator_def)

lemma guarded_if: "guarded ok p h \<Longrightarrow> guarded ok q h \<Longrightarrow> guarded ok (if b then p else q) h"
  by simp

lemma guarded_not_admin:
  "(isAdmin r \<Longrightarrow> guarded ok p h) \<Longrightarrow> guarded ok (if \<not> isAdmin r then denyAuthz else p) h"
  by (simp add: denyAuthz_def)

lemma guarded_done: "guarded ok (Done a) h"
  by simp

lemmas route_guards = guarded_if guarded_done guarded_call guarded_query guarded_body guarded_admin guarded_operator guarded_self guarded_deny
  permitted_by_rule

lemma matrix_auth: "guarded (permitted r) (auth_routes v r rest) h"
  unfolding auth_routes_def login_def registerUser_def refresh_def logout_def registrationPolicy_def Let_def
  by (intro route_guards; simp add: permitted_by_rule guarded_call)

lemma matrix_projects: "guarded (permitted r) (projects v r rest) h"
  unfolding projects_def createProject_def updateProject_def creator_member_def Let_def
  by (intro route_guards guarded_invoke guarded_direct guarded_respond; simp)

lemma matrix_create_task: "guarded (permitted r) (createTask v ps r) h"
  by (auto simp: createTask_def Let_def permitted_def intro!: guarded_body guarded_after guarded_call guarded_link)

lemma action_methods:
  "action_method a = Some m \<Longrightarrow> m \<in> {''StartTask'', ''CancelScanTask'', ''RetryScanTask'', ''PauseTask'', ''ResumeTask'',
     ''SetTaskAgent'', ''CompleteTask''}"
  unfolding action_method_def by (drule map_of_SomeD) auto

lemma matrix_action: "guarded (permitted r) (taskAction v r i a) h"
proof (cases "action_method a")
  case None
  then show ?thesis by (simp add: taskAction_def)
next
  case (Some m)
  then have "rule_of (''TaskService/'' @ m) = Operators" using action_methods[OF Some] by auto
  then show ?thesis using Some
    by (auto simp: taskAction_def setTaskAgent_def task_read_def intro!: route_guards split: sum.split)
qed

lemma matrix_tasks: "guarded (permitted r) (tasks v ps r rest) h"
proof -
  have "guarded (permitted r) (case task_get v r i w of Some p \<Rightarrow> p | None \<Rightarrow> Done a) h" for i w a
    by (simp add: matrix.guarded_task_get split: option.split)
  then show ?thesis
    unfolding tasks_def task_read_def node_operation_def node_release_def taskReport_def Let_def
    by (intro route_guards matrix_create_task matrix_action; simp)
qed

lemma matrix_verdict: "guarded (permitted r) (updateVerdict v r i) h"
proof -
  have "guarded (permitted r) (with_body v r ty m (\<lambda>q. call v (request s ''ResultService/UpdateVerdict'' (set_str ''finding_id'' i q)))) h'"
    if "isAdmin r \<or> owns_finding r h' i" for h' ty m s
    using that by (intro guarded_body guarded_call) (simp add: permitted_def)
  then show ?thesis unfolding updateVerdict_def
    by (intro guarded_finding matrix.guarded_owned) blast
qed

lemma finding_ids_metadata [simp]: "finding_ids (set_metadata i q) = finding_ids q"
  by (simp add: finding_ids_def list_field_def set_metadata_def jarr_def update_conv')

lemma matrix_batch: "guarded (permitted r) (verdictBatch v r) h"
  unfolding verdictBatch_def Let_def
  by (intro guarded_body guarded_batch matrix.guarded_owned guarded_call) (simp add: permitted_def)

lemma matrix_findings: "guarded (permitted r) (findings v r rest) h"
  unfolding findings_def Let_def by (intro route_guards matrix_verdict; simp)

lemma profile_ok_own: "profile_ok i (set_sub ''user'' (own_profile i) q)"
  by (simp add: profile_ok_def set_sub_def own_profile_def sub_field_def set_str_def str_field_def jstr_def update_conv'
      enum_unspecified_def json_int_def Let_def)

lemma matrix_update_user: "guarded (permitted r) (updateUser v r i) h"
proof -
  have "permitted r h (request ProjectConn ''UserService/UpdateUser'' (user_update r i q))"
    if "isAdmin r \<or> callerID r \<noteq> [] \<and> callerID r = i" for q
    using that by (auto simp: permitted_def user_update_def profile_ok_own Let_def) (simp add: profile_ok_def)
  then show ?thesis by (auto simp: updateUser_def intro!: guarded_self guarded_body guarded_call)
qed

lemma matrix_own:
  "rule_of m = OwnUser \<Longrightarrow> isAdmin r \<or> callerID r \<noteq> [] \<and> callerID r = i \<Longrightarrow>
     guarded (permitted r) (call v (request ProjectConn m (user_msg i))) h"
  by (intro guarded_call) (auto simp: permitted_def user_msg_def)

lemma matrix_password: "guarded (permitted r) (changePassword v r) h"
  by (auto simp: changePassword_def permitted_def intro!: guarded_body guarded_call)

lemma matrix_users: "guarded (permitted r) (users v r rest) h"
  unfolding users_def Let_def
  by (intro matrix_own matrix_password matrix_update_user guarded_if guarded_done guarded_self guarded_admin; (intro route_guards)?; simp)

lemma matrix_inference: "isAdmin r \<Longrightarrow> guarded (permitted r) (inference v r rest) h"
  unfolding inference_def runtime_call_def Let_def by (intro route_guards; simp)

lemma matrix_workspaces: "isAdmin r \<Longrightarrow> guarded (permitted r) (workspaces v r rest) h"
  unfolding workspaces_def runtime_call_def not_a_number_def Let_def
  by (intro route_guards; simp add: guarded_call permitted_by_rule split: option.split)

lemma matrix_invites: "isAdmin r \<Longrightarrow> guarded (permitted r) (invites v r rest) h"
  unfolding invites_def Let_def by (intro route_guards; simp)

lemma matrix_orchestrations: "guarded (permitted r) (orchestrations v r rest) h"
  unfolding orchestrations_def Let_def
  by (intro guarded_not_admin guarded_if guarded_done guarded_call guarded_body; simp add: permitted_by_rule)

lemma matrix_mark_all:
  assumes "\<forall>i \<in> set is. listed_for r h i"
  shows "guarded (permitted r) (mark_all is n) h"
  using assms
proof (induction "is" arbitrary: n h)
  case (Cons i js)
  have "listed_for r (h @ [e]) j" if "j \<in> set js" for j e using Cons.prems that by (auto simp: listed_for_def)
  then show ?case using Cons by (simp add: permitted_def mark_read_def str_field_def jstr_def)
qed simp

lemma matrix_list: "permitted r h (list_own r u)"
  by (simp add: permitted_def list_own_def)

lemma matrix_notifications: "guarded (permitted r) (notification_routes v r rest) h"
proof -
  have "permitted r (h @ [Sent (list_own r u) (Inr m)]) (mark_read i)" if "i \<in> set (notification_ids m)" for i m u
    using that by (auto simp: permitted_def mark_read_def listed_for_def str_field_def jstr_def)
  moreover have "guarded (permitted r) (mark_all (notification_ids m) 0) (h @ [Sent (list_own r True) (Inr m)])" for m
    by (rule matrix_mark_all) (auto simp: listed_for_def)
  ultimately show ?thesis
    unfolding notification_routes_def readOne_def readAll_def Let_def
    by (intro guarded_if guarded_done guarded_call guarded_direct matrix_list; simp add: guarded_call split: sum.split)
qed

lemma matrix_serve: "guarded (permitted r) (serveHTTP v ps r) h"
  unfolding serveHTTP_def Let_def
  by (intro guarded_if guarded_done guarded_admin matrix_auth matrix_users matrix_projects matrix_tasks
      matrix.guarded_agents matrix_orchestrations matrix_batch matrix_findings matrix.guarded_reports matrix.guarded_tools
      matrix_notifications matrix_inference matrix_workspaces matrix_invites)

section \<open>A call names what its path names\<close>

text \<open>The fields of a call that must repeat a segment of the path.\<close>

definition path_table :: "(string \<times> (string \<times> nat) list) list" where
  "path_table =
    map (\<lambda>m. (''TaskService/'' @ m, [(''task_id'', 2)])) [''StartTask'', ''CancelScanTask'', ''RetryScanTask'', ''PauseTask'',
      ''ResumeTask'', ''SetTaskAgent'', ''CompleteTask''] @
    map (\<lambda>m. (''RuntimeService/'' @ m, [(''task_id'', 2), (''node_id'', 5)]))
      [''InjectGraphNodeMessage'', ''ReopenGraphNode'', ''ClaimGraphNode'', ''ReleaseGraphNode''] @
    [(''ReportService/GenerateReport'', [(''task_id'', 2)]), (''ResultService/UpdateVerdict'', [(''finding_id'', 2)]),
     (''ProjectService/DeleteProject'', [(''project_id'', 2)]), (''UserService/ResetPassword'', [(''user_id'', 2)]),
     (''UserService/GetUser'', [(''user_id'', 2)]), (''UserService/GetUserPermissions'', [(''user_id'', 2)]),
     (''RuntimeService/GetInferenceProvider'', [(''name'', 3)]), (''RuntimeService/DeleteInferenceProvider'', [(''name'', 3)]),
     (''RuntimeService/DeleteWorkspace'', [(''name'', 2)]), (''UserService/RevokeInviteCode'', [(''id'', 2)]),
     (''UserService/DeleteInviteCode'', [(''id'', 2)]), (''TaskService/UpdateOrchestration'', [(''name'', 2)]),
     (''TaskService/DeprecateOrchestration'', [(''name'', 2)])]"

definition path_fields :: "string \<Rightarrow> (string \<times> nat) list" where
  "path_fields m = (case map_of path_table m of Some fs \<Rightarrow> fs | None \<Rightarrow> [])"

definition names_path :: "string list \<Rightarrow> policy" where
  "names_path segs h c \<longleftrightarrow>
     list_all (\<lambda>(f, n). str_field f (rpReq c) = segs ! n) (path_fields (rpMethod c)) \<and>
     (rpMethod c = ''ProjectService/UpdateProject'' \<and> has_sub ''project'' (rpReq c) \<longrightarrow>
        str_field ''project_id'' (sub_field ''project'' (rpReq c)) = segs ! 2)"

lemma path_fields_simps [simp]:
  "path_fields ''UserService/Login'' = []" "path_fields ''UserService/RegisterUser'' = []"
  "path_fields ''UserService/RefreshToken'' = []" "path_fields ''UserService/Logout'' = []"
  "path_fields ''UserService/GetRegistrationPolicy'' = []" "path_fields ''ProjectService/CreateProject'' = []"
  "path_fields ''ProjectService/AddProjectMember'' = []" "path_fields ''ProjectService/UpdateProject'' = []"
  "path_fields ''ProjectService/UpdateProjectConfig'' = []" "path_fields ''TaskService/CreateScanTask'' = []"
  "path_fields ''ResultService/BatchUpdateVerdict'' = []" "path_fields ''UserService/ChangePassword'' = []"
  "path_fields ''UserService/UpdateUser'' = []" "path_fields ''UserService/ListUsers'' = []"
  "path_fields ''UserService/CreateUser'' = []" "path_fields ''UserService/ListInviteCodes'' = []"
  "path_fields ''UserService/CreateInviteCode'' = []" "path_fields ''RuntimeService/ListInferenceProviders'' = []"
  "path_fields ''RuntimeService/UpsertInferenceProvider'' = []" "path_fields ''RuntimeService/GetInferenceRoute'' = []"
  "path_fields ''RuntimeService/SetInferenceRoute'' = []" "path_fields ''RuntimeService/CreateWorkspace'' = []"
  "path_fields ''RuntimeService/ListWorkspaces'' = []" "path_fields ''NotificationService/ListNotifications'' = []"
  "path_fields ''NotificationService/MarkNotificationRead'' = []" "path_fields ''TaskService/CreateOrchestration'' = []"
  by code_simp+

lemma named_fields_simps [simp]:
  "path_fields ''TaskService/StartTask'' = [(''task_id'', 2)]" "path_fields ''TaskService/CancelScanTask'' = [(''task_id'', 2)]"
  "path_fields ''TaskService/RetryScanTask'' = [(''task_id'', 2)]" "path_fields ''TaskService/PauseTask'' = [(''task_id'', 2)]"
  "path_fields ''TaskService/ResumeTask'' = [(''task_id'', 2)]" "path_fields ''TaskService/SetTaskAgent'' = [(''task_id'', 2)]"
  "path_fields ''TaskService/CompleteTask'' = [(''task_id'', 2)]"
  "path_fields ''RuntimeService/InjectGraphNodeMessage'' = [(''task_id'', 2), (''node_id'', 5)]"
  "path_fields ''RuntimeService/ReopenGraphNode'' = [(''task_id'', 2), (''node_id'', 5)]"
  "path_fields ''RuntimeService/ClaimGraphNode'' = [(''task_id'', 2), (''node_id'', 5)]"
  "path_fields ''RuntimeService/ReleaseGraphNode'' = [(''task_id'', 2), (''node_id'', 5)]"
  "path_fields ''ReportService/GenerateReport'' = [(''task_id'', 2)]" "path_fields ''ResultService/UpdateVerdict'' = [(''finding_id'', 2)]"
  "path_fields ''ProjectService/DeleteProject'' = [(''project_id'', 2)]" "path_fields ''UserService/ResetPassword'' = [(''user_id'', 2)]"
  "path_fields ''UserService/GetUser'' = [(''user_id'', 2)]" "path_fields ''UserService/GetUserPermissions'' = [(''user_id'', 2)]"
  "path_fields ''RuntimeService/GetInferenceProvider'' = [(''name'', 3)]"
  "path_fields ''RuntimeService/DeleteInferenceProvider'' = [(''name'', 3)]"
  "path_fields ''RuntimeService/DeleteWorkspace'' = [(''name'', 2)]" "path_fields ''UserService/RevokeInviteCode'' = [(''id'', 2)]"
  "path_fields ''UserService/DeleteInviteCode'' = [(''id'', 2)]" "path_fields ''TaskService/UpdateOrchestration'' = [(''name'', 2)]"
  "path_fields ''TaskService/DeprecateOrchestration'' = [(''name'', 2)]"
  by code_simp+

lemma free_calls_name_nothing: "rule_of m = AnyUser \<Longrightarrow> path_fields m = [] \<and> m \<noteq> ''ProjectService/UpdateProject''"
proof -
  assume a: "rule_of m = AnyUser"
  have "list_all (\<lambda>(m, fs). rule_of m \<noteq> AnyUser) path_table" by code_simp
  then have "map_of path_table m = None" using a by (cases "map_of path_table m") (auto simp: list_all_iff dest: map_of_SomeD)
  then show ?thesis using a by (auto simp: path_fields_def)
qed

interpretation paths: call_policy "names_path segs" for segs
  by unfold_locales (auto simp: names_path_def dest: free_calls_name_nothing)

lemma names_nothing:
  "path_fields m = [] \<Longrightarrow> m \<noteq> ''ProjectService/UpdateProject'' \<Longrightarrow> names_path segs h (request s m q)"
  by (simp add: names_path_def)

lemma names_path_ctx [simp]: "names_path segs h (callerCtx r c) = names_path segs h c"
  by (simp add: names_path_def callerCtx_def)

lemma set_str_update [simp]: "str_field k (set_metadata i m) = str_field k m" if "k \<noteq> ''metadata''"
  using that by (simp add: str_field_def set_metadata_def jstr_def update_conv')

lemma sub_field_set [simp]: "sub_field k (set_sub k f m) = f (sub_field k m)"
  by (simp add: sub_field_def set_sub_def update_conv')

lemma names_node: "m \<in> {''InjectGraphNodeMessage'', ''ReopenGraphNode'', ''ClaimGraphNode'', ''ReleaseGraphNode''} \<Longrightarrow>
    names_path segs h (request s (''RuntimeService/'' @ m) (node_ids v (segs ! 2) (segs ! 5) q))"
  by (auto simp: names_path_def node_ids_def)

lemma free_fields [simp]: "rule_of m = AnyUser \<Longrightarrow> path_fields m = []"
  by (simp add: free_calls_name_nothing)

lemma names_request: "names_path segs h (request s m q) \<longleftrightarrow>
     list_all (\<lambda>(f, n). str_field f q = segs ! n) (path_fields m) \<and>
     (m = ''ProjectService/UpdateProject'' \<and> has_sub ''project'' q \<longrightarrow> str_field ''project_id'' (sub_field ''project'' q) = segs ! 2)"
  by (simp add: names_path_def)

lemma owns_names: "names_path segs h (request s m q)" if "rule_of m = AnyUser"
  using paths.free_request[OF that] .

lemmas path_guards = guarded_if guarded_done guarded_not_admin guarded_call guarded_query guarded_body guarded_admin
  guarded_operator guarded_self guarded_deny guarded_respond

lemma paths_auth: "guarded (names_path segs) (auth_routes v r rest) h"
  unfolding auth_routes_def login_def registerUser_def refresh_def logout_def registrationPolicy_def Let_def
  by (intro path_guards; simp add: guarded_call names_nothing)

lemma paths_projects: "2 \<le> length segs \<Longrightarrow> guarded (names_path segs) (projects v r (drop 2 segs)) h"
  unfolding projects_def createProject_def updateProject_def creator_member_def Let_def
  by (intro path_guards guarded_invoke guarded_direct; simp add: names_nothing names_request)

lemma paths_create_task: "guarded (names_path segs) (createTask v ps r) h"
  by (auto simp: createTask_def Let_def names_nothing intro!: guarded_body guarded_after guarded_call guarded_link)

lemma paths_action: "i = segs ! 2 \<Longrightarrow> guarded (names_path segs) (taskAction v r i a) h"
proof (cases "action_method a")
  case None
  then show ?thesis by (simp add: taskAction_def)
next
  case (Some m)
  moreover assume "i = segs ! 2"
  moreover have "path_fields (''TaskService/'' @ m) = [(''task_id'', 2)]" using action_methods[OF Some] by auto
  ultimately show ?thesis
    by (auto simp: taskAction_def setTaskAgent_def task_read_def names_request task_msg_def str_field_def jstr_def
        set_str_def update_conv' intro!: path_guards split: sum.split)
qed

lemma paths_tasks: "2 \<le> length segs \<Longrightarrow> guarded (names_path segs) (tasks v ps r (drop 2 segs)) h"
proof -
  assume l: "2 \<le> length segs"
  have get: "guarded (names_path segs) (case task_get v r i w of Some p \<Rightarrow> p | None \<Rightarrow> Done a) h" for i w a
    by (simp add: paths.guarded_task_get split: option.split)
  have oper: "guarded (names_path segs) (node_operation v r m (segs ! 2) (segs ! 5)) h"
    if "m \<in> {''InjectGraphNodeMessage'', ''ReopenGraphNode'', ''ClaimGraphNode''}" for m
    unfolding node_operation_def by (intro path_guards names_node) (use that in auto)
  have rel: "guarded (names_path segs) (node_release v r (segs ! 2) (segs ! 5)) h"
    unfolding node_release_def by (intro path_guards) (simp add: names_request node_ids_def)
  have rep: "guarded (names_path segs) (taskReport v r (segs ! 2)) h"
    unfolding taskReport_def Let_def by (intro path_guards) (simp add: names_request)
  show ?thesis using l
    unfolding tasks_def Let_def
    by (intro path_guards paths_create_task paths_action; simp add: get oper rel rep task_read_def guarded_call owns_names)
qed

lemma paths_findings: "2 \<le> length segs \<Longrightarrow> guarded (names_path segs) (findings v r (drop 2 segs)) h"
  unfolding findings_def updateVerdict_def Let_def
  by (intro path_guards guarded_finding paths.guarded_owned; simp add: owns_names names_request)

lemma paths_batch: "guarded (names_path segs) (verdictBatch v r) h"
  unfolding verdictBatch_def Let_def
  by (intro path_guards guarded_batch paths.guarded_owned; simp add: names_nothing)

lemma paths_users: "2 \<le> length segs \<Longrightarrow> guarded (names_path segs) (users v r (drop 2 segs)) h"
  unfolding users_def updateUser_def changePassword_def Let_def
  by (intro path_guards; simp add: names_nothing names_request user_msg_def)

lemma paths_inference: "2 \<le> length segs \<Longrightarrow> guarded (names_path segs) (inference v r (drop 2 segs)) h"
  unfolding inference_def runtime_call_def Let_def
  by (intro path_guards; simp add: names_nothing names_request)

lemma paths_workspaces: "2 \<le> length segs \<Longrightarrow> guarded (names_path segs) (workspaces v r (drop 2 segs)) h"
  unfolding workspaces_def runtime_call_def not_a_number_def Let_def
  by (intro path_guards; simp add: names_nothing guarded_call names_request split: option.split)

lemma paths_invites: "2 \<le> length segs \<Longrightarrow> guarded (names_path segs) (invites v r (drop 2 segs)) h"
  unfolding invites_def Let_def
  by (intro path_guards; simp add: names_nothing names_request)

lemma paths_orchestrations: "2 \<le> length segs \<Longrightarrow> guarded (names_path segs) (orchestrations v r (drop 2 segs)) h"
  unfolding orchestrations_def Let_def
  by (intro path_guards; simp add: names_nothing names_request)

lemma paths_mark_all: "guarded (names_path segs) (mark_all is n) h"
  by (induction "is" arbitrary: n h) (simp_all add: mark_read_def names_nothing)

lemma paths_notifications: "guarded (names_path segs) (notification_routes v r rest) h"
  unfolding notification_routes_def readOne_def readAll_def Let_def
  by (intro path_guards guarded_direct; simp add: list_own_def mark_read_def names_nothing guarded_call paths_mark_all split: sum.split)

lemma paths_serve: "guarded (names_path (splitPath (hrPath r))) (serveHTTP v ps r) h"
proof -
  define segs where "segs = splitPath (hrPath r)"
  show ?thesis
  proof (cases "length segs < 2")
    case False
    then show ?thesis
      unfolding serveHTTP_def Let_def segs_def[symmetric]
      by (intro guarded_if guarded_done guarded_admin paths_auth paths_users paths_projects paths_tasks
          paths.guarded_agents paths_orchestrations paths_batch paths_findings paths.guarded_reports paths.guarded_tools
          paths_notifications paths_inference paths_workspaces paths_invites; simp)
  qed (simp add: serveHTTP_def segs_def)
qed

section \<open>A gateway with fixed backends\<close>

definition gate_env :: gw_env where
  "gate_env = \<lparr>geConfigured = (\<lambda>_. True),
     geDecode = (\<lambda>_ _. Inr [(''finding_id'', JStr ''f9''), (''finding_ids'', JArr [JStr ''f1''])]),
     geDecodeFields = (\<lambda>_ _. Inr []), geMarshal = (\<lambda>_. Inr ''{}''), geRandom = (\<lambda>_. [])\<rparr>"

definition gate_paths :: gw_paths where
  "gate_paths = \<lparr>gpAbs = Some, gpUploads = []\<rparr>"

text \<open>Finding f1 belongs to task t1, which u1 created.\<close>

definition demo_answer :: "grpc_call \<Rightarrow> grpc_error + msg" where
  "demo_answer c =
    (if rpMethod c = ''ResultService/GetFinding'' then Inr [(''finding'', JObj [(''task_id'', JStr ''t1'')])]
     else if rpMethod c = ''TaskService/GetScanTask'' then Inr [(''created_by'', JStr ''u1'')] else Inr [])"

definition demo_backends :: backends where
  "demo_backends = \<lparr>beCall = (\<lambda>_. demo_answer), beStream = (\<lambda>_ _. Inr ([], None))\<rparr>"

definition gate_request :: "string \<Rightarrow> string \<Rightarrow> string \<Rightarrow> string \<Rightarrow> http_req" where
  "gate_request m p u role = \<lparr>hrMethod = m, hrPath = p, hrQuery = [], hrAuth = ''Bearer tok'', hrUpgrade = [], hrForwarded = [],
     hrRemote = [], hrBody = ''{}'', hrBodyErr = None, hrUser = Some u, hrRole = Some role\<rparr>"

definition demo_verdict :: "string \<Rightarrow> http_req" where
  "demo_verdict u = gate_request ''PUT'' ''/v1/findings/f1/verdict'' u ''ROLE_DEVELOPER''"

definition demo_write :: grpc_call where
  "demo_write = request ResultConn ''ResultService/UpdateVerdict''
     [(''finding_id'', JStr ''f1''), (''finding_ids'', JArr [JStr ''f1''])]"

lemma demo_path: "splitPath ''/v1/findings/f1/verdict'' = [''v1'', ''findings'', ''f1'', ''verdict'']"
  by code_simp

lemma demo_play:
  "u \<noteq> [] \<Longrightarrow> calls (snd (play demo_backends (serveHTTP gate_env gate_paths (demo_verdict u)) [])) =
     [reads_finding ''f1'', reads_task ''t1''] @ (if u = ''u1'' then [demo_write] else [])"
  by (simp add: serveHTTP_def demo_verdict_def gate_request_def demo_path findings_def updateVerdict_def canAccessTaskViaFinding_def
      canAccessTask_def direct_def gate_env_def demo_backends_def demo_answer_def isAdmin_def callerID_def denyAuthz_def
      with_body_def decodeBody_def read_body_def maxBody_def call_def invoke_def respond_def calls_def reads_finding_def
      reads_task_def demo_write_def sub_field_def str_field_def jstr_def set_str_def Let_def)

lemma demo_owner_writes:
  "demo_write \<in> set (calls (snd (play demo_backends (serveHTTP gate_env gate_paths (demo_verdict ''u1'')) [])))"
  by (simp add: demo_play)

text \<open>Least privilege: whatever request reaches the routes, and whatever the backends answer, every call the gateway
  sends is one that the access matrix allows the caller at that moment. An administrator's call needs the role of an
  administrator and an operator's call that of a developer or administrator; a user reads and changes only his own
  account and never his own role; a notification is marked only after the backend listed it as his; a verdict, one by
  one or in a batch, is written only after the backends said that the finding's task is the caller's.\<close>

theorem every_call_is_permitted:
  assumes "c \<in> set (calls (snd (play b (serveHTTP v ps r) [])))"
  shows "\<exists>pre e post. snd (play b (serveHTTP v ps r) []) = pre @ e # post \<and> c \<in> set (call_of e) \<and> permitted r pre c"
  using guarded_calls[OF matrix_serve assms] .

theorem every_call_is_permitted_witness:
  "\<exists>pre e post. snd (play demo_backends (serveHTTP gate_env gate_paths (demo_verdict ''u1'')) []) = pre @ e # post \<and>
     demo_write \<in> set (call_of e) \<and> permitted (demo_verdict ''u1'') pre demo_write"
  using every_call_is_permitted[OF demo_owner_writes] .

text \<open>C38. A call names the object its path names. Whatever ids the body of a request carries: an action on a task, an
  operation on a node of its graph, a report, a verdict, the deletion or the update of a project, the reset of a password, the
  reading of an account, a provider, a workspace, an invitation or an orchestration goes to the task, node, finding,
  project, account, name or code that stands in the path, which is what the access checks looked at.\<close>

theorem call_names_its_path:
  assumes "c \<in> set (calls (snd (play b (serveHTTP v ps r) [])))"
  shows "names_path (splitPath (hrPath r)) [] c"
  using guarded_calls[OF paths_serve assms] by (auto simp: names_path_def)

theorem call_names_its_path_witness:
  "names_path [''v1'', ''findings'', ''f1'', ''verdict''] [] demo_write"
proof -
  have "splitPath (hrPath (demo_verdict ''u1'')) = [''v1'', ''findings'', ''f1'', ''verdict'']" by code_simp
  then show ?thesis using call_names_its_path[OF demo_owner_writes] by simp
qed

section \<open>Batches of verdicts\<close>

text \<open>The caller may write a verdict for a finding, going by answers that do not change.\<close>

definition grants :: "(grpc_call \<Rightarrow> grpc_error + msg) \<Rightarrow> gw_env \<Rightarrow> http_req \<Rightarrow> string \<Rightarrow> bool" where
  "grants ans v r f \<longleftrightarrow> isAdmin r \<or> callerID r \<noteq> [] \<and> geConfigured v ResultConn \<and> geConfigured v TaskConn \<and>
     (case ans (reads_finding f) of Inl _ \<Rightarrow> False
      | Inr m \<Rightarrow> (case ans (reads_task (str_field ''task_id'' (sub_field ''finding'' m))) of Inl _ \<Rightarrow> False
         | Inr t \<Rightarrow> str_field ''created_by'' t = callerID r))"

definition sends :: "string \<Rightarrow> backends \<Rightarrow> prog \<Rightarrow> event list \<Rightarrow> bool" where
  "sends m b p h \<longleftrightarrow> m \<in> rpMethod ` set (calls (snd (play b p h)))"

definition asked :: "string \<Rightarrow> event list \<Rightarrow> bool" where
  "asked m h \<longleftrightarrow> m \<in> rpMethod ` set (calls h)"

lemma sends_simps [simp]:
  "sends m b (Done a) h = asked m h"
  "sends m b (Call c k) h = sends m b (k (beCall b h c)) (h @ [Sent c (beCall b h c)])"
  "asked m (h @ h') = (asked m h \<or> asked m h')"
  "asked m (Sent c x # h) = (rpMethod c = m \<or> asked m h)"
  "asked m [] = False"
  by (auto simp: sends_def asked_def calls_def)

lemma sends_gate:
  assumes "\<And>h c. beCall b h c = ans c" "\<And>h. sends m b k h = (asked m h \<or> good)" "m \<noteq> ''ResultService/GetFinding''"
    "m \<noteq> ''TaskService/GetScanTask''"
  shows "sends m b (canAccessTaskViaFinding v r f k) h = (asked m h \<or> grants ans v r f \<and> good)"
  using assms
  by (auto simp: canAccessTaskViaFinding_def canAccessTask_def grants_def direct_def denyAuthz_def reads_finding_def
      reads_task_def split: sum.split)

lemma sends_batch:
  assumes "\<And>h c. beCall b h c = ans c" "\<And>h. sends m b k h = (asked m h \<or> good)" "m \<noteq> ''ResultService/GetFinding''"
    "m \<noteq> ''TaskService/GetScanTask''" "\<forall>f \<in> seen. grants ans v r f"
  shows "sends m b (batch_items v r seen ids k) h = (asked m h \<or> (\<forall>f \<in> set ids. f = [] \<or> grants ans v r f) \<and> good)"
  using assms(5)
proof (induction ids arbitrary: seen h)
  case Nil
  then show ?case using assms(2) by simp
next
  case (Cons i js)
  let ?all = "\<forall>f \<in> set js. f = [] \<or> grants ans v r f"
  show ?case
  proof (cases "i = [] \<or> i \<in> seen")
    case True
    then show ?thesis using Cons by auto
  next
    case False
    show ?thesis
    proof (cases "grants ans v r i")
      case True
      have "sends m b (batch_items v r (insert i seen) js k) h' = (asked m h' \<or> ?all \<and> good)" for h'
        using True Cons by simp
      then have "sends m b (canAccessTaskViaFinding v r i (batch_items v r (insert i seen) js k)) h =
          (asked m h \<or> grants ans v r i \<and> ?all \<and> good)"
        by (rule sends_gate[OF assms(1) _ assms(3,4)])
      then show ?thesis using False by simp
    next
      case no: False
      define k' where "k' = batch_items v r (insert i seen) js k"
      have "sends m b (canAccessTaskViaFinding v r i k') h = asked m h" using no assms(1,3,4)
        by (auto simp: canAccessTaskViaFinding_def canAccessTask_def grants_def direct_def denyAuthz_def reads_finding_def
            reads_task_def split: sum.split)
      then show ?thesis using False no by (simp add: k'_def)
    qed
  qed
qed

lemma sends_call: "sends m b (call v c) h = (asked m h \<or> geConfigured v (rpConn c) \<and> rpMethod c = m)"
  by (auto simp: call_def invoke_def respond_def split: sum.split)

text \<open>A batch is as strict as its parts. Against backends whose answers do not change meanwhile, the gateway passes on a
  batch of verdicts exactly when it would pass on the verdict of every finding in it one by one, and otherwise
  nothing of it: no batch goes around the check of a single verdict, and no check is stricter for a batch.\<close>

theorem batch_as_strict_as_parts:
  assumes "\<And>h c. beCall b h c = ans c" "geConfigured v ResultConn"
    "decodeBody v r ''BatchUpdateVerdictRequest'' [] = Inr q" "decodeBody v r' ''UpdateVerdictRequest'' [] = Inr q'"
    "hrUser r' = hrUser r" "hrRole r' = hrRole r"
  shows "sends ''ResultService/BatchUpdateVerdict'' b (verdictBatch v r) [] \<longleftrightarrow>
    (\<forall>f \<in> set (finding_ids q). f = [] \<or> sends ''ResultService/UpdateVerdict'' b (updateVerdict v r' f) [])"
proof -
  have same: "grants ans v r' f = grants ans v r f" for f
    using assms(5,6) unfolding grants_def isAdmin_def callerID_def by (simp only:)
  have one: "sends ''ResultService/UpdateVerdict'' b (updateVerdict v r' f) [] = grants ans v r f" for f
    unfolding updateVerdict_def with_body_def assms(4) sum.case
    by (subst sends_gate[where ans = ans and good = True]) (simp_all add: assms(1,2) sends_call same)
  have many: "sends ''ResultService/BatchUpdateVerdict'' b (batch_items v r {} (finding_ids q)
      (call v (request ResultConn ''ResultService/BatchUpdateVerdict'' x))) [] =
      (\<forall>f \<in> set (finding_ids q). f = [] \<or> grants ans v r f)" for x
    by (subst sends_batch[where ans = ans and good = True]) (simp_all add: assms(1,2) sends_call)
  have "sends ''ResultService/BatchUpdateVerdict'' b (verdictBatch v r) [] = (\<forall>f \<in> set (finding_ids q). f = [] \<or> grants ans v r f)"
  proof (cases "isAdmin r")
    case True
    then show ?thesis using assms(2)
      by (simp add: verdictBatch_def with_body_def assms(3) canBatchVerdict_def sends_call grants_def Let_def)
  next
    case False
    then show ?thesis using many by (simp add: verdictBatch_def with_body_def assms(3) canBatchVerdict_def Let_def)
  qed
  then show ?thesis by (simp add: one)
qed

theorem batch_as_strict_as_parts_witness:
  "sends ''ResultService/BatchUpdateVerdict'' demo_backends
     (verdictBatch gate_env (gate_request ''POST'' ''/v1/findings/verdict:batch'' ''u1'' ''ROLE_DEVELOPER'')) []"
proof -
  let ?r = "gate_request ''POST'' ''/v1/findings/verdict:batch'' ''u1'' ''ROLE_DEVELOPER''"
  let ?q = "[(''finding_id'', JStr ''f9''), (''finding_ids'', JArr [JStr ''f1''])]"
  have d: "decodeBody gate_env ?r ''BatchUpdateVerdictRequest'' [] = Inr ?q"
    "decodeBody gate_env (demo_verdict ''u1'') ''UpdateVerdictRequest'' [] = Inr ?q"
    by (simp_all add: decodeBody_def read_body_def maxBody_def demo_verdict_def gate_request_def gate_env_def)
  have same: "hrUser (demo_verdict ''u1'') = hrUser ?r" "hrRole (demo_verdict ''u1'') = hrRole ?r" "geConfigured gate_env ResultConn"
    by code_simp+
  have "serveHTTP gate_env gate_paths (demo_verdict ''u1'') = updateVerdict gate_env (demo_verdict ''u1'') ''f1''"
    by (simp add: serveHTTP_def demo_verdict_def gate_request_def demo_path findings_def Let_def)
  then have "sends ''ResultService/UpdateVerdict'' demo_backends (updateVerdict gate_env (demo_verdict ''u1'') ''f1'') []"
    using demo_play[of "''u1''"] by (simp add: sends_def demo_write_def)
  moreover have "finding_ids ?q = [''f1'']" by code_simp
  moreover have "beCall demo_backends h c = demo_answer c" for h c by (simp add: demo_backends_def)
  ultimately show ?thesis using batch_as_strict_as_parts[OF _ same(3) d same(1,2), of demo_backends demo_answer] by simp
qed

section \<open>Viewers\<close>

text \<open>A viewer creates tasks, and then judges them. ADR-257 keeps a viewer to reading; but the creation of a task asks for
  no role, and it puts the viewer down as the creator, whom the check of verdicts then takes for the owner.\<close>

theorem viewer_creates_and_judges:
  assumes "hrRole r = Some ''ROLE_VIEWER''" "hrUser r = Some u" "u \<noteq> []" "hrMethod r = ''POST''" "hrPath r = ''/v1/tasks''"
    "geConfigured v TaskConn" "geConfigured v ResultConn" "decodeBody v r ''CreateScanTaskRequest'' [] = Inr q"
    "ans (reads_finding f) = Inr m" "ans (reads_task (str_field ''task_id'' (sub_field ''finding'' m))) = Inr t"
    "str_field ''created_by'' t = u"
  shows "(\<exists>c. calls (snd (play b (serveHTTP v ps r) [])) = [c] \<and> rpMethod c = ''TaskService/CreateScanTask'' \<and>
           str_field ''created_by'' (rpReq c) = u) \<and> grants ans v r f"
proof -
  have c: "callerID r = u" using assms(2) by (simp add: callerID_def)
  have seg: "splitPath (hrPath r) = [''v1'', ''tasks'']" unfolding assms(5) by code_simp
  have link: "calls (snd (play b (writeTaskLink ab up i d (Done a)) h)) = calls h" for ab up i d a h
    by (simp add: writeTaskLink_def calls_def split: option.split)
  have one: "calls [Sent c x] = [c]" for c x by (simp add: calls_def)
  have "\<exists>c. calls (snd (play b (createTask v ps r) [])) = [c] \<and> rpMethod c = ''TaskService/CreateScanTask'' \<and>
           str_field ''created_by'' (rpReq c) = u"
    using assms(3,6)
    by (simp add: createTask_def with_body_def assms(8) c call_def invoke_def respond_def link one Let_def split: sum.split)
  then have "\<exists>c. calls (snd (play b (serveHTTP v ps r) [])) = [c] \<and> rpMethod c = ''TaskService/CreateScanTask'' \<and>
           str_field ''created_by'' (rpReq c) = u"
    using assms(4) seg by (simp add: serveHTTP_def tasks_def Let_def)
  then show ?thesis using assms(3,6,7,9,10,11) c by (simp add: grants_def)
qed

theorem viewer_creates_and_judges_witness:
  "(\<exists>c. calls (snd (play demo_backends (serveHTTP gate_env gate_paths (gate_request ''POST'' ''/v1/tasks'' ''u1'' ''ROLE_VIEWER'')) [])) = [c] \<and>
     rpMethod c = ''TaskService/CreateScanTask'' \<and> str_field ''created_by'' (rpReq c) = ''u1'') \<and>
   grants demo_answer gate_env (gate_request ''POST'' ''/v1/tasks'' ''u1'' ''ROLE_VIEWER'') ''f1''"
  by (rule viewer_creates_and_judges[where q = "[(''finding_id'', JStr ''f9''), (''finding_ids'', JArr [JStr ''f1''])]" and
        m = "[(''finding'', JObj [(''task_id'', JStr ''t1'')])]" and t = "[(''created_by'', JStr ''u1'')]"])
    (simp_all add: gate_request_def gate_env_def decodeBody_def read_body_def maxBody_def demo_answer_def reads_finding_def
      reads_task_def str_field_def jstr_def)

end
