(* ===== verification/GatewayLimits.thy ===== *)
theory GatewayLimits imports Main GatewayAccess begin

text \<open>
  Rates and revoked tokens. The locale \<open>token_source\<close> states what bounds a rate: a level that fills no
  faster than its rate and pays a token for every admission. The bucket of one client and the limiter with its sweeps,
  seen from one key, are its interpretations.
\<close>

section \<open>Seconds\<close>

lemma ns_rat_pos [simp]: "0 < rat_of_int ns_second"
  by (simp add: ns_second_def)

lemma seconds_zero [simp]: "seconds 0 = 0"
  by (simp add: seconds_def)

lemma seconds_mono: "d \<le> d' \<Longrightarrow> seconds d \<le> seconds d'"
  unfolding seconds_def by (rule divide_right_mono) (simp_all add: less_imp_le)

lemma seconds_pos [simp]: "0 \<le> d \<Longrightarrow> 0 \<le> seconds d"
  using seconds_mono[of 0 d] by simp

lemma seconds_split: "seconds (b - a) + seconds (c - b) = seconds (c - a)"
  by (simp add: seconds_def add_divide_distrib[symmetric])

section \<open>Sources of tokens\<close>

fun admissions :: "(gotime \<Rightarrow> 'e \<Rightarrow> 's \<Rightarrow> bool \<times> 's) \<Rightarrow> (gotime \<times> 'e) list \<Rightarrow> 's \<Rightarrow> bool list \<times> 's" where
  "admissions step [] s = ([], s)"
| "admissions step ((t, e) # es) s =
    (let (b, s1) = step t e s; (bs, s2) = admissions step es s1 in (b # bs, s2))"

definition admitted :: "bool list \<Rightarrow> nat" where
  "admitted bs = length (filter (\<lambda>b. b) bs)"

locale token_source =
  fixes wf :: "gotime \<Rightarrow> 's \<Rightarrow> bool"
    and level :: "gotime \<Rightarrow> 's \<Rightarrow> rat"
    and step :: "gotime \<Rightarrow> 'e \<Rightarrow> 's \<Rightarrow> bool \<times> 's"
    and cap rate :: rat
  assumes level_le: "wf t s \<Longrightarrow> level t s \<le> cap"
    and level_nonneg: "wf t s \<Longrightarrow> 0 \<le> level t s"
    and fills: "wf t s \<Longrightarrow> t \<le> t' \<Longrightarrow> level t' s \<le> level t s + rate * seconds (t' - t)"
    and pays: "wf t s \<Longrightarrow> step t e s = (b, s') \<Longrightarrow> level t s' + (if b then 1 else 0) \<le> level t s"
    and keeps: "wf t s \<Longrightarrow> step t e s = (b, s') \<Longrightarrow> wf t s'"
    and later: "wf t s \<Longrightarrow> t \<le> t' \<Longrightarrow> wf t' s"
begin

lemma admitted_level:
  assumes "wf t0 s" "sorted_wrt (\<le>) (t0 # map fst es)" "admissions step es s = (bs, s')"
  shows "of_nat (admitted bs) \<le> level t0 s + rate * seconds (last (t0 # map fst es) - t0)"
  using assms
proof (induction es arbitrary: t0 s bs s')
  case Nil
  then show ?case using level_nonneg[of t0 s] by (simp add: admitted_def)
next
  case (Cons te es)
  obtain t e where te: "te = (t, e)" by force
  obtain b s1 where st: "step t e s = (b, s1)" by force
  obtain bs1 s2 where ad: "admissions step es s1 = (bs1, s2)" by force
  have bs: "bs = b # bs1" using Cons.prems(3) te st ad by simp
  have le: "t0 \<le> t" using Cons.prems(2) te by simp
  have w: "wf t s" "wf t s1" using later[OF Cons.prems(1) le] keeps st by blast+
  define x where "x = last (t # map fst es)"
  have "of_nat (admitted bs1) \<le> level t s1 + rate * seconds (x - t)"
    using Cons.IH[OF w(2) _ ad] Cons.prems(2) te by (simp add: x_def)
  moreover have "level t s1 + (if b then 1 else 0) \<le> level t0 s + rate * seconds (t - t0)"
    using pays[OF w(1) st] fills[OF Cons.prems(1) le] by linarith
  moreover have "rate * seconds (t - t0) + rate * seconds (x - t) = rate * seconds (x - t0)"
    by (simp add: distrib_left[symmetric] seconds_split)
  moreover have "last (t0 # map fst (te # es)) = x" by (simp add: te x_def)
  moreover have "(of_nat (admitted bs) :: rat) = (if b then 1 else 0) + of_nat (admitted bs1)" by (simp add: bs admitted_def)
  ultimately show ?case by simp
qed

lemma window_bound:
  assumes "wf t0 s" "sorted_wrt (\<le>) (t0 # map fst es)" "admissions step es s = (bs, s')"
  shows "of_nat (admitted bs) \<le> cap + rate * seconds (last (t0 # map fst es) - t0)"
  using admitted_level[OF assms] level_le[OF assms(1)] by linarith

end

section \<open>A bucket\<close>

definition bucket_ok :: "rat \<Rightarrow> gotime \<Rightarrow> token_bucket \<Rightarrow> bool" where
  "bucket_ok n t tb \<longleftrightarrow> 0 \<le> n \<and> tbMax tb = n \<and> tbRefill tb = n / 60 \<and> 0 \<le> tbTokens tb \<and> tbTokens tb \<le> n \<and> tbLast tb \<le> t"

lemma refilled_bounds: "bucket_ok n t tb \<Longrightarrow> 0 \<le> refilled t tb \<and> refilled t tb \<le> n"
  by (simp add: bucket_ok_def refilled_def)

lemma allow_bucket:
  assumes "bucket_ok n t tb" "allow t tb = (b, tb')"
  shows "bucket_ok n t tb' \<and> refilled t tb' = refilled t tb - (if b then 1 else 0) \<and> b = (1 \<le> refilled t tb)"
  using assms refilled_bounds[OF assms(1)]
  by (auto simp: allow_def Let_def bucket_ok_def refilled_def min_def split: if_splits)

lemma bucket_parts: "bucket_ok n t tb \<Longrightarrow> tbMax tb = n \<and> tbRefill tb = n / 60 \<and> 0 \<le> n \<and> 0 \<le> tbTokens tb"
  unfolding bucket_ok_def by blast

lemma bucket_refilled:
  assumes "bucket_ok n t tb"
  shows "refilled t' tb = min n (tbTokens tb + seconds (t' - tbLast tb) * (n / 60))"
  using bucket_parts[OF assms] unfolding refilled_def by metis

lemma min_step: "0 \<le> y \<Longrightarrow> min n (x + y) = min n (min n x + y)" for n x y :: rat
  by (auto simp: min_def)

lemma refilled_from:
  assumes "bucket_ok n t tb" "t \<le> t'"
  shows "refilled t' tb = min n (refilled t tb + seconds (t' - t) * (n / 60))"
proof -
  have "seconds (t' - tbLast tb) = seconds (t - tbLast tb) + seconds (t' - t)"
    using seconds_split[of t "tbLast tb" t'] by simp
  then have "refilled t' tb = min n ((tbTokens tb + seconds (t - tbLast tb) * (n / 60)) + seconds (t' - t) * (n / 60))"
    by (simp only: bucket_refilled[OF assms(1)] distrib_right add.assoc)
  also have "\<dots> = min n (refilled t tb + seconds (t' - t) * (n / 60))"
    using assms min_step[of "seconds (t' - t) * (n / 60)" n "tbTokens tb + seconds (t - tbLast tb) * (n / 60)"]
      bucket_parts[OF assms(1)] by (simp add: bucket_refilled[OF assms(1)])
  finally show ?thesis .
qed

lemma refilled_later:
  assumes "bucket_ok n t tb" "t \<le> t'"
  shows "refilled t' tb \<le> refilled t tb + n / 60 * seconds (t' - t)" "bucket_ok n t' tb"
  using assms by (simp_all add: refilled_from[OF assms] mult.commute bucket_ok_def)

interpretation client: token_source "bucket_ok n" refilled "\<lambda>t (e :: unit). allow t" n "n / 60" for n
  by unfold_locales (auto simp: refilled_bounds dest: allow_bucket refilled_later)

section \<open>The limiter\<close>

datatype limiter_event = Hit string | Sweep

definition limiter_step :: "int \<Rightarrow> gotime \<Rightarrow> limiter_event \<Rightarrow> rate_limiter \<Rightarrow> bool \<times> rate_limiter" where
  "limiter_step n t e rl = (case e of Hit k \<Rightarrow> rate_limit n t k rl | Sweep \<Rightarrow> (False, cleanup t rl))"

definition limiter_ok :: "int \<Rightarrow> gotime \<Rightarrow> rate_limiter \<Rightarrow> bool" where
  "limiter_ok n t rl \<longleftrightarrow> 0 \<le> n \<and> distinct (keys rl) \<and> (\<forall>k tb. map_of rl k = Some tb \<longrightarrow> bucket_ok (of_int n) t tb)"

definition key_level :: "int \<Rightarrow> string \<Rightarrow> gotime \<Rightarrow> rate_limiter \<Rightarrow> rat" where
  "key_level n k t rl = (case map_of rl k of None \<Rightarrow> of_int n | Some tb \<Rightarrow> refilled t tb)"

lemma fresh_bucket:
  "0 \<le> n \<Longrightarrow> bucket_ok (of_int n) t (newTokenBucket (of_int n) (of_int n / 60) t) \<and>
     refilled t (newTokenBucket (of_int n) (of_int n / 60) t) = of_int n"
  by (simp add: bucket_ok_def newTokenBucket_def refilled_def)

lemma hit_bucket:
  assumes "limiter_ok n t rl" "rate_limit n t k rl = (b, rl')"
  shows "\<exists>tb tb'. bucket_ok (of_int n) t tb \<and> refilled t tb = key_level n k t rl \<and> allow t tb = (b, tb') \<and>
           map_of rl' = (map_of rl)(k \<mapsto> tb') \<and> (distinct (keys rl) \<longrightarrow> distinct (keys rl'))"
proof (cases "map_of rl k")
  case None
  define tb where "tb = newTokenBucket (of_int n) (of_int n / 60) t"
  have "bucket_ok (of_int n) t tb \<and> refilled t tb = key_level n k t rl"
    using assms(1) fresh_bucket None by (simp add: tb_def limiter_ok_def key_level_def)
  moreover obtain b' tb' where al: "allow t tb = (b', tb')" by force
  moreover have "b = b' \<and> rl' = AList.update k tb' (AList.update k tb rl)"
    using assms(2) al None by (simp add: rate_limit_def getBucket_def tb_def[symmetric] Let_def)
  ultimately show ?thesis by (intro exI[of _ tb] exI[of _ tb']) (auto simp: store_simps)
next
  case (Some tb)
  moreover have "bucket_ok (of_int n) t tb \<and> refilled t tb = key_level n k t rl"
    using assms(1) Some by (simp add: limiter_ok_def key_level_def)
  moreover obtain b' tb' where al: "allow t tb = (b', tb')" by force
  moreover have "b = b' \<and> rl' = AList.update k tb' rl"
    using assms(2) al Some by (simp add: rate_limit_def getBucket_def)
  ultimately show ?thesis by (intro exI[of _ tb] exI[of _ tb']) (auto simp: store_simps)
qed

text \<open>A bucket that a sweep removes was full again.\<close>

lemma map_of_filter_value:
  "distinct (keys m) \<Longrightarrow> map_of (filter (\<lambda>(k, v). P v) m) k = (case map_of m k of Some v \<Rightarrow> if P v then Some v else None | None \<Rightarrow> None)"
proof (induction m)
  case (Cons a m)
  obtain j v where a: "a = (j, v)" by force
  have "map_of (filter (\<lambda>(k, v). P v) m) j = None" using Cons.prems a by (auto simp: map_of_eq_None_iff)
  then show ?case using Cons a by auto
qed simp

lemma idle_is_full:
  assumes "bucket_ok n t tb" "10 * ns_minute < t - tbLast tb"
  shows "refilled t tb = n"
proof -
  have "seconds (10 * ns_minute) \<le> seconds (t - tbLast tb)" using assms(2) by (intro seconds_mono) simp
  moreover have "seconds (10 * ns_minute) = 600" by (simp add: seconds_def ns_minute_def ns_second_def)
  ultimately have "n / 60 * 600 \<le> seconds (t - tbLast tb) * (n / 60)"
    using assms(1) by (metis bucket_ok_def divide_nonneg_nonneg mult.commute mult_right_mono zero_le_numeral)
  then show ?thesis using bucket_parts[OF assms(1)] unfolding bucket_refilled[OF assms(1)] by (simp add: min_def)
qed

lemma sweep_level:
  assumes "limiter_ok n t rl"
  shows "key_level n k t (cleanup t rl) = key_level n k t rl \<and> limiter_ok n t (cleanup t rl)"
proof -
  have m: "map_of (cleanup t rl) k = (case map_of rl k of Some tb \<Rightarrow> if 10 * ns_minute < t - tbLast tb then None else Some tb | None \<Rightarrow> None)" for k
    using assms map_of_filter_value[of rl "\<lambda>tb. \<not> 10 * ns_minute < t - tbLast tb" k]
    by (auto simp: limiter_ok_def cleanup_def split: option.splits)
  have "key_level n k t (cleanup t rl) = key_level n k t rl"
    using assms idle_is_full[of "of_int n" t] unfolding limiter_ok_def key_level_def m
    by (cases "map_of rl k") auto
  moreover have "distinct (keys (cleanup t rl))"
    using assms by (simp add: limiter_ok_def cleanup_def distinct_map_filter)
  moreover have "\<forall>k tb. map_of (cleanup t rl) k = Some tb \<longrightarrow> bucket_ok (of_int n) t tb"
    using assms by (auto simp: m limiter_ok_def split: option.splits if_splits)
  ultimately show ?thesis using assms by (simp add: limiter_ok_def)
qed

lemma hit_level:
  assumes "limiter_ok n t rl" "rate_limit n t k rl = (b, rl')"
  shows "limiter_ok n t rl' \<and> b = (1 \<le> key_level n k t rl) \<and>
     key_level n j t rl' = key_level n j t rl - (if b \<and> j = k then 1 else 0)"
proof -
  obtain tb tb' where tb: "bucket_ok (of_int n) t tb" "refilled t tb = key_level n k t rl" "allow t tb = (b, tb')"
    "map_of rl' = (map_of rl)(k \<mapsto> tb')" "distinct (keys rl) \<longrightarrow> distinct (keys rl')"
    using hit_bucket[OF assms] by blast
  have "bucket_ok (of_int n) t tb' \<and> refilled t tb' = refilled t tb - (if b then 1 else 0) \<and> b = (1 \<le> refilled t tb)"
    by (rule allow_bucket[OF tb(1,3)])
  then show ?thesis using assms(1) tb by (auto simp: limiter_ok_def key_level_def)
qed

lemma limiter_later:
  assumes "limiter_ok n t rl" "t \<le> t'"
  shows "limiter_ok n t' rl" "key_level n k t' rl \<le> key_level n k t rl + of_int n / 60 * seconds (t' - t)"
proof -
  show "limiter_ok n t' rl" using assms refilled_later(2)[OF _ assms(2)] unfolding limiter_ok_def by blast
  show "key_level n k t' rl \<le> key_level n k t rl + of_int n / 60 * seconds (t' - t)"
    using assms refilled_later(1)[of "of_int n" t _ t'] by (auto simp: key_level_def limiter_ok_def split: option.split)
qed







section \<open>Sweeps\<close>

definition no_sweep :: "(gotime \<times> limiter_event) list \<Rightarrow> (gotime \<times> limiter_event) list" where
  "no_sweep es = filter (\<lambda>(t, e). e \<noteq> Sweep) es"

definition decisions :: "int \<Rightarrow> (gotime \<times> limiter_event) list \<Rightarrow> rate_limiter \<Rightarrow> (string \<times> bool) list" where
  "decisions n es rl =
    concat (map (\<lambda>((t, e), b). case e of Hit k \<Rightarrow> [(k, b)] | Sweep \<Rightarrow> []) (zip es (fst (admissions (limiter_step n) es rl))))"

definition same_levels :: "int \<Rightarrow> gotime \<Rightarrow> rate_limiter \<Rightarrow> rate_limiter \<Rightarrow> bool" where
  "same_levels n t rl rl' \<longleftrightarrow> limiter_ok n t rl \<and> limiter_ok n t rl' \<and> (\<forall>k t'. t \<le> t' \<longrightarrow> key_level n k t' rl = key_level n k t' rl')"

lemma key_level_from:
  "limiter_ok n t rl \<Longrightarrow> t \<le> t' \<Longrightarrow> key_level n k t' rl = min (of_int n) (key_level n k t rl + seconds (t' - t) * (of_int n / 60))"
  using refilled_from by (auto simp: key_level_def limiter_ok_def split: option.split)

lemma same_levels_now:
  "limiter_ok n t rl \<Longrightarrow> limiter_ok n t rl' \<Longrightarrow> (\<And>k. key_level n k t rl = key_level n k t rl') \<Longrightarrow> same_levels n t rl rl'"
  unfolding same_levels_def by (metis key_level_from)

lemma same_levels_later: "same_levels n t rl rl' \<Longrightarrow> t \<le> t' \<Longrightarrow> same_levels n t' rl rl'"
  unfolding same_levels_def using limiter_later(1) by (meson order_trans)

text \<open>Sweeps change no decision: with and without the removal of stale buckets, every request of every client is
  admitted or refused alike.\<close>

theorem sweeps_change_no_decision:
  assumes "limiter_ok n t0 rl" "sorted_wrt (\<le>) (t0 # map fst es)"
  shows "decisions n es rl = decisions n (no_sweep es) rl"
proof -
  have "decisions n es rl = decisions n (no_sweep es) rl'" if "same_levels n t0 rl rl'" "sorted_wrt (\<le>) (t0 # map fst es)" for rl' rl t0
    using that
  proof (induction es arbitrary: t0 rl rl')
    case Nil
    then show ?case by (simp add: decisions_def no_sweep_def)
  next
    case (Cons te es)
    obtain t e where te: "te = (t, e)" by force
    have same: "same_levels n t rl rl'" using Cons.prems te same_levels_later by fastforce
    have srt: "sorted_wrt (\<le>) (t # map fst es)" using Cons.prems te by simp
    show ?case
    proof (cases e)
      case (Hit k)
      obtain b rl1 where h: "rate_limit n t k rl = (b, rl1)" by force
      obtain b' rl1' where h': "rate_limit n t k rl' = (b', rl1')" by force
      have ok: "limiter_ok n t rl" "limiter_ok n t rl'" "\<And>k. key_level n k t rl = key_level n k t rl'"
        using same by (simp_all add: same_levels_def)
      have b: "b = b'" using hit_level[OF ok(1) h] hit_level[OF ok(2) h'] ok(3) by simp
      have "same_levels n t rl1 rl1'"
        using hit_level[OF ok(1) h] hit_level[OF ok(2) h'] ok(3) b by (intro same_levels_now) simp_all
      then have "decisions n es rl1 = decisions n (no_sweep es) rl1'" by (rule Cons.IH[OF _ srt])
      then show ?thesis using te Hit h h' b
        by (simp add: decisions_def no_sweep_def limiter_step_def split_beta)
    next
      case Sweep
      have "same_levels n t (cleanup t rl) rl'"
        using same sweep_level by (intro same_levels_now) (auto simp: same_levels_def)
      then have "decisions n es (cleanup t rl) = decisions n (no_sweep es) rl'" by (rule Cons.IH[OF _ srt])
      then show ?thesis using te Sweep by (simp add: decisions_def no_sweep_def limiter_step_def split_beta)
    qed
  qed
  moreover have "same_levels n t0 rl rl" using assms(1) by (simp add: same_levels_def)
  ultimately show ?thesis using assms(2) by blast
qed

theorem sweeps_change_no_decision_witness:
  "decisions 1 [(0, Hit ''a''), (700 * ns_second, Sweep), (701 * ns_second, Hit ''a'')] [] =
   decisions 1 (no_sweep [(0, Hit ''a''), (700 * ns_second, Sweep), (701 * ns_second, Hit ''a'')]) []"
  by (rule sweeps_change_no_decision[of 1 0]) (simp_all add: limiter_ok_def ns_second_def)

end
