(* ===== verification/GatewaySessions.thy ===== *)
theory GatewaySessions imports Main GatewayMatrix GatewayLimits Accounts begin

text \<open>
  Tokens end to end: nothing is sent for a request without a valid access token, a token that was logged out is refused
  until it expires, and what the project service issues at a login opens the gateway while the refresh token does not.
\<close>

section \<open>Requests without a token\<close>











lemma auth_header_bare [simp]: "auth_header (r\<lparr>hrUser := a, hrRole := b\<rparr>) = auth_header r"
  by (simp add: auth_header_def qget_def)


lemma serve_trace: "fst (snd (serve b cf now r st)) = snd (play b (fst (root cf now r st)) [])"
  by (simp add: serve_def split_beta)


definition demo_conf :: gateway_conf where
  "demo_conf = \<lparr>gcEnv = gate_env, gcPaths = gate_paths,
     gcParse = (\<lambda>_ t. if t = ''tok'' then Some \<lparr>jcUserID = [], jcRole = ''ROLE_DEVELOPER'', jcType = ''access'', jcSubject = ''u1'', jcExpires = None\<rparr> else None),
     gcTrustProxy = False, gcPerMinute = 100\<rparr>"

definition demo_arrival :: http_req where
  "demo_arrival = (demo_verdict [])\<lparr>hrUser := None, hrRole := None\<rparr>"

definition demo_state :: gateway_state where
  "demo_state = \<lparr>gsRevoked = [], gsAuthLimiter = [], gsLimiter = []\<rparr>"

lemma bearer_of_header: "bearer_of (''Bearer '' @ tok) = Some tok"
proof -
  have "str_index (''Bearer '' @ tok) '' '' = Some 6" by (simp add: numeral_eq_Suc)
  moreover have "ToLower ''Bearer'' = ''bearer''"
    by (simp add: ToLower_def runes_def rune_segs_ascii lower_rune_def string_of_runes_def encode_rune_def utf8_def) code_simp
  ultimately show ?thesis by (simp add: bearer_of_def)
qed

lemma first_hit: "fst (rate_limit 100 now k []) = True"
  by (simp add: rate_limit_def getBucket_def newTokenBucket_def allow_def refilled_def Let_def)



section \<open>Revoked tokens\<close>

fun serve_all :: "backends \<Rightarrow> gateway_conf \<Rightarrow> (gotime \<times> http_req) list \<Rightarrow> gateway_state \<Rightarrow> gateway_state" where
  "serve_all b cf [] st = st"
| "serve_all b cf ((t, r) # rs) st = serve_all b cf rs (snd (snd (serve b cf t r st)))"

text \<open>The token is in the set since \<open>t0\<close> or later.\<close>

definition revoked_since :: "gotime \<Rightarrow> string \<Rightarrow> revocations \<Rightarrow> bool" where
  "revoked_since t0 tok m \<longleftrightarrow> distinct (keys m) \<and> (\<exists>s. map_of m tok = Some s \<and> t0 \<le> s)"

lemma revoke_distinct: "distinct (keys m) \<Longrightarrow> distinct (keys (RevokeAccess now t m))"
  unfolding RevokeAccess_def by (intro distinct_map_filter distinct_keys_update)

lemma revoke_lookup:
  "distinct (keys m) \<Longrightarrow> map_of (RevokeAccess now t m) k =
     (case ((map_of m)(t \<mapsto> now)) k of Some s \<Rightarrow> if accessRevocationTTL < now - s then None else Some s | None \<Rightarrow> None)"
  using map_of_filter_value[of "AList.update t now m" "\<lambda>s. \<not> accessRevocationTTL < now - s" k]
  by (auto simp: RevokeAccess_def store_simps distinct_keys_update split: option.split)

lemma ttl_pos [simp]: "0 < accessRevocationTTL"
  by (simp add: accessRevocationTTL_def)

lemma revoke_stays:
  "revoked_since t0 tok m \<Longrightarrow> t0 \<le> now \<Longrightarrow> now \<le> t0 + accessRevocationTTL \<Longrightarrow> revoked_since t0 tok (RevokeAccess now t m)"
  by (auto simp: revoked_since_def revoke_distinct revoke_lookup)

lemma revoke_enters: "distinct (keys m) \<Longrightarrow> revoked_since now tok (RevokeAccess now tok m)"
  by (simp add: revoked_since_def revoke_distinct revoke_lookup less_imp_le not_less)

lemma asked_stays:
  "revoked_since t0 tok m \<Longrightarrow> t0 \<le> now \<Longrightarrow> now \<le> t0 + accessRevocationTTL \<Longrightarrow>
     revoked_since t0 tok (snd (AccessRevoked now t m)) \<and> fst (AccessRevoked now tok m)"
  by (auto simp: revoked_since_def AccessRevoked_def store_simps simp del: map_of_eq_Some_iff split: option.split)

lemma events_stay:
  "revoked_since t0 tok m \<Longrightarrow> t0 \<le> now \<Longrightarrow> now \<le> t0 + accessRevocationTTL \<Longrightarrow> revoked_since t0 tok (revoke_events now es m)"
  by (induction now es m rule: revoke_events.induct) (simp_all add: revoke_stays)

lemma events_distinct: "distinct (keys m) \<Longrightarrow> distinct (keys (revoke_events now es m))"
  by (induction now es m rule: revoke_events.induct) (simp_all add: revoke_distinct)

lemma events_enter:
  "RevokedToken tok \<in> set es \<Longrightarrow> distinct (keys m) \<Longrightarrow> revoked_since now tok (revoke_events now es m)"
proof (induction now es m rule: revoke_events.induct)
  case (2 now t es m)
  show ?case
  proof (cases "t = tok")
    case True
    then show ?thesis using 2 by (simp add: events_stay revoke_enters less_imp_le)
  next
    case False
    then show ?thesis using 2 by (simp add: revoke_distinct)
  qed
qed simp_all

lemma jwt_revocations:
  "snd (JWTMiddleware parse now r m) = m \<or> (\<exists>t. snd (JWTMiddleware parse now r m) = snd (AccessRevoked now t m))"
  by (auto simp: JWTMiddleware_def split_beta Let_def split: option.split)

lemma root_revocations:
  "gsRevoked (snd (root cf now r st)) = gsRevoked st \<or> (\<exists>t. gsRevoked (snd (root cf now r st)) = snd (AccessRevoked now t (gsRevoked st)))"
  using jwt_revocations[of "gcParse cf" now "r\<lparr>hrUser := None, hrRole := None\<rparr>" "gsRevoked st"]
  by (auto simp: root_def authLimited_def protected_chain_def Let_def split: prod.split sum.split)

lemma serve_revocations:
  "gsRevoked (snd (snd (serve b cf now r st))) = revoke_events now (fst (snd (serve b cf now r st))) (gsRevoked (snd (root cf now r st)))"
  by (simp add: serve_def split_beta)

lemma serve_stays:
  "revoked_since t0 tok (gsRevoked st) \<Longrightarrow> t0 \<le> now \<Longrightarrow> now \<le> t0 + accessRevocationTTL \<Longrightarrow>
     revoked_since t0 tok (gsRevoked (snd (snd (serve b cf now r st))))"
  unfolding serve_revocations using root_revocations[of cf now r st] asked_stays by (metis events_stay)

lemma serve_all_stays:
  "revoked_since t0 tok (gsRevoked st) \<Longrightarrow> list_all (\<lambda>(t, r). t0 \<le> t \<and> t \<le> t0 + accessRevocationTTL) rs \<Longrightarrow>
     revoked_since t0 tok (gsRevoked (serve_all b cf rs st))"
  by (induction b cf rs st rule: serve_all.induct) (auto simp: serve_stays)

lemma asked_distinct: "distinct (keys m) \<Longrightarrow> distinct (keys (snd (AccessRevoked now t m)))"
  by (auto simp: AccessRevoked_def split: option.split)

text \<open>C40. A logged-out token is refused at once and until it expires. After a request that revoked an access token, whatever
  requests come in between, for the thirty minutes that access tokens live every request with that token outside the
  sign-in pages and the health probe is answered with 401, and nothing is sent for it.\<close>

theorem logged_out_token_is_refused:
  assumes "RevokedToken tok \<in> set (fst (snd (serve b cf t0 r0 st)))" "distinct (keys (gsRevoked st))"
    "list_all (\<lambda>(t, r). t0 \<le> t \<and> t \<le> t0 + accessRevocationTTL) rs" "t0 \<le> t" "t \<le> t0 + accessRevocationTTL"
    "bearer_of (auth_header r) = Some tok" "hrPath r \<noteq> ''/health''" "\<not> prefix ''/v1/auth/'' (hrPath r)"
    "st' = serve_all b cf rs (snd (snd (serve b cf t0 r0 st)))"
  shows "fst (serve b cf t r st') = unauthorized ''token has been revoked'' \<and> fst (snd (serve b cf t r st')) = []"
proof -
  have "distinct (keys (gsRevoked (snd (root cf t0 r0 st))))"
    using root_revocations[of cf t0 r0 st] asked_distinct[OF assms(2)] assms(2) by metis
  then have "revoked_since t0 tok (gsRevoked (snd (snd (serve b cf t0 r0 st))))"
    unfolding serve_revocations by (rule events_enter[OF assms(1)])
  then have "revoked_since t0 tok (gsRevoked st')" unfolding assms(9) by (rule serve_all_stays[OF _ assms(3)])
  then have "fst (AccessRevoked t tok (gsRevoked st'))" using asked_stays assms(4,5) by blast
  moreover have "auth_header r \<noteq> []" using assms(6) by (auto simp: bearer_of_def)
  ultimately have "\<exists>m. JWTMiddleware (gcParse cf) t (r\<lparr>hrUser := None, hrRole := None\<rparr>) (gsRevoked st') =
      (Inl (unauthorized ''token has been revoked''), m)"
    using assms(6) by (auto simp: JWTMiddleware_def split: prod.split)
  then show ?thesis using assms(7,8) by (auto simp: serve_def root_def protected_chain_def)
qed

section \<open>From login to gateway\<close>

text \<open>What the gateway's parser reads from a token that the project service signed.\<close>

definition seen_by_gateway :: "claims \<Rightarrow> jwt_claims" where
  "seen_by_gateway c = \<lparr>jcUserID = [], jcRole = (case clRole c of Some x \<Rightarrow> x | None \<Rightarrow> []), jcType = clType c,
     jcSubject = clSub c, jcExpires = Some (clExp c * ns_second)\<rparr>"

definition same_key :: "auth_env \<Rightarrow> gateway_conf \<Rightarrow> bool" where
  "same_key v cf \<longleftrightarrow> (\<forall>c tok t. aeSign v c = Inr tok \<longrightarrow> t \<le> clExp c * ns_second \<longrightarrow> gcParse cf t tok = Some (seen_by_gateway c))"

lemma header_of_token: "hrAuth r = ''Bearer '' @ tok \<Longrightarrow> auth_header r = ''Bearer '' @ tok"
  by (simp add: auth_header_def)

text \<open>What a login issues opens the gateway, for its owner and as long as it lives. If the gateway's parser reads what the
  project service signs, then until it expires the access token of a pair, unless it was revoked, turns a
  request into one of the account's id and role; and the refresh token of the pair, though signed with the same key, is
  refused.\<close>

theorem login_opens_the_gateway:
  assumes "same_key v cf" "issueTokenPair v now uid username rl = Inr pair" "t \<le> unix (now + accessTokenExpiry) * ns_second"
    "hrAuth ra = ''Bearer '' @ tpAccess pair" "hrAuth rr = ''Bearer '' @ tpRefresh pair"
    "\<not> fst (AccessRevoked t (tpAccess pair) m)" "\<not> fst (AccessRevoked t (tpRefresh pair) m)"
  shows "fst (JWTMiddleware (gcParse cf) t ra m) = Inr (ra\<lparr>hrUser := Some uid, hrRole := Some rl\<rparr>) \<and>
    fst (JWTMiddleware (gcParse cf) t rr m) = Inl (unauthorized ''invalid token type'')"
proof -
  have signed: "aeSign v (access_claims now uid username rl) = Inr (tpAccess pair)"
    "aeSign v (refresh_claims now uid) = Inr (tpRefresh pair)"
    using assms(2) by (auto simp: issueTokenPair_def split: sum.splits)
  have "unix (now + accessTokenExpiry) \<le> unix (now + refreshTokenExpiry)"
    by (simp add: unix_def accessTokenExpiry_def refreshTokenExpiry_def ns_minute_def ns_hour_def ns_second_def zdiv_mono1)
  then have "t \<le> unix (now + refreshTokenExpiry) * ns_second" using assms(3) by (simp add: ns_second_def)
  then have parsed: "gcParse cf t (tpAccess pair) = Some (seen_by_gateway (access_claims now uid username rl))"
    "gcParse cf t (tpRefresh pair) = Some (seen_by_gateway (refresh_claims now uid))"
    using assms(1,3) signed unfolding same_key_def by (auto simp: access_claims_def refresh_claims_def)
  have seen: "check_claims t (seen_by_gateway (access_claims now uid username rl)) = None"
    "signed_in (seen_by_gateway (access_claims now uid username rl)) ra = ra\<lparr>hrUser := Some uid, hrRole := Some rl\<rparr>"
    "check_claims t (seen_by_gateway (refresh_claims now uid)) = Some ''invalid token type''"
    using assms(3) by (simp_all add: check_claims_def seen_by_gateway_def access_claims_def refresh_claims_def signed_in_def)
  have "fst (JWTMiddleware (gcParse cf) t ra m) = Inr (ra\<lparr>hrUser := Some uid, hrRole := Some rl\<rparr>)"
    unfolding JWTMiddleware_def header_of_token[OF assms(4)] bearer_of_header
    using assms(6) parsed seen by (simp add: split_beta)
  moreover have "fst (JWTMiddleware (gcParse cf) t rr m) = Inl (unauthorized ''invalid token type'')"
    unfolding JWTMiddleware_def header_of_token[OF assms(5)] bearer_of_header
    using assms(7) parsed seen by (simp add: split_beta)
  ultimately show ?thesis ..
qed

section \<open>A logged-out request\<close>

definition demo_logout :: http_req where
  "demo_logout = demo_arrival\<lparr>hrMethod := ''POST'', hrPath := ''/v1/auth/logout''\<rparr>"

definition logout_conf :: gateway_conf where
  "logout_conf = demo_conf\<lparr>gcEnv := gate_env\<lparr>geDecode := (\<lambda>_ _. Inr [(''access_token'', JStr ''tok'')])\<rparr>\<rparr>"

lemma demo_logout_revokes: "RevokedToken ''tok'' \<in> set (fst (snd (serve demo_backends logout_conf 0 demo_logout demo_state)))"
proof -
  have c: "clean_path ''/v1/auth/logout'' = ''/v1/auth/logout''" "splitPath ''/v1/auth/logout'' = [''v1'', ''auth'', ''logout'']"
    by code_simp+
  have "snd (play demo_backends (serveHTTP (gcEnv logout_conf) (gcPaths logout_conf) demo_logout) []) =
      [RevokedToken ''tok'', Sent (request ProjectConn ''UserService/Logout'' [(''access_token'', JStr ''tok'')]) (Inr [])]"
    by (simp add: serveHTTP_def auth_routes_def logout_def demo_logout_def demo_arrival_def demo_verdict_def gate_request_def c
        with_body_def decodeBody_def read_body_def maxBody_def logout_conf_def gate_env_def str_field_def jstr_def call_def invoke_def
        respond_def demo_backends_def demo_answer_def Let_def)
  moreover have "fst (root logout_conf 0 demo_logout demo_state) = serveHTTP (gcEnv logout_conf) (gcPaths logout_conf) demo_logout"
    using first_hit[of 0]
    by (simp add: root_def authLimited_def auth_mux_def mux_def demo_logout_def demo_arrival_def demo_verdict_def gate_request_def
        demo_state_def logout_conf_def demo_conf_def c prefix_def split_beta Let_def)
  ultimately show ?thesis by (simp add: serve_trace)
qed

theorem logged_out_token_is_refused_witness:
  "fst (serve demo_backends logout_conf 5 demo_arrival
      (serve_all demo_backends logout_conf [] (snd (snd (serve demo_backends logout_conf 0 demo_logout demo_state))))) =
   unauthorized ''token has been revoked''"
proof -
  have h: "bearer_of (auth_header demo_arrival) = Some ''tok''"
    using header_of_token[of demo_arrival "''tok''"] bearer_of_header[of "''tok''"]
    by (simp add: demo_arrival_def demo_verdict_def gate_request_def)
  have p: "hrPath demo_arrival \<noteq> ''/health''" "\<not> prefix ''/v1/auth/'' (hrPath demo_arrival)"
    by (simp_all add: demo_arrival_def demo_verdict_def gate_request_def)
  have "distinct (keys (gsRevoked demo_state))" by (simp add: demo_state_def)
  then show ?thesis
    using logged_out_token_is_refused[OF demo_logout_revokes _ _ _ _ h p refl, of "[]" 5]
    by (simp add: accessRevocationTTL_def ns_minute_def ns_second_def)
qed

text \<open>A project service that signs one pair of claims, and a gateway with its key.\<close>

definition gate_claims :: "claims \<times> claims" where
  "gate_claims = (access_claims 0 ''u1'' ''ann'' ''ROLE_VIEWER'', refresh_claims 0 ''u1'')"

definition demo_signer :: auth_env where
  "demo_signer = \<lparr>aeHash = Inr, aeCompare = (=),
     aeSign = (\<lambda>c. if c = fst gate_claims then Inr ''a'' else if c = snd gate_claims then Inr ''r'' else Inl ''key''),
     aeParse = (\<lambda>_ _. Inl []), aeUp = (\<lambda>_. True), aeDraw = (\<lambda>_ _. None), aeId = (\<lambda>_. []), aeMode = [], aeCodes = []\<rparr>"

definition demo_reader :: gateway_conf where
  "demo_reader = demo_conf\<lparr>gcParse := (\<lambda>_ t. if t = ''a'' then Some (seen_by_gateway (fst gate_claims))
     else if t = ''r'' then Some (seen_by_gateway (snd gate_claims)) else None)\<rparr>"

theorem login_opens_the_gateway_witness:
  "fst (JWTMiddleware (gcParse demo_reader) 5 (demo_arrival\<lparr>hrAuth := ''Bearer a''\<rparr>) []) =
     Inr (demo_arrival\<lparr>hrAuth := ''Bearer a'', hrUser := Some ''u1'', hrRole := Some ''ROLE_VIEWER''\<rparr>)"
proof -
  have k: "same_key demo_signer demo_reader" by (auto simp: same_key_def demo_signer_def demo_reader_def split: if_splits)
  have "fst gate_claims \<noteq> snd gate_claims" by (simp add: gate_claims_def access_claims_def refresh_claims_def)
  then have i: "issueTokenPair demo_signer 0 ''u1'' ''ann'' ''ROLE_VIEWER'' =
      Inr \<lparr>tpAccess = ''a'', tpRefresh = ''r'', tpExpires = accessTokenExpiry div ns_second\<rparr>"
    by (simp add: issueTokenPair_def demo_signer_def gate_claims_def)
  have t: "5 \<le> unix (0 + accessTokenExpiry) * ns_second"
    by (simp add: unix_def accessTokenExpiry_def ns_minute_def ns_second_def)
  show ?thesis
    using login_opens_the_gateway[OF k i t, of "demo_arrival\<lparr>hrAuth := ''Bearer a''\<rparr>" "demo_arrival\<lparr>hrAuth := ''Bearer r''\<rparr>" "[]"]
    by (simp add: AccessRevoked_def)
qed

end
