(* ===== verification/Spec2Isabelle.thy ===== *)
theory Spec2Isabelle imports Main Prelude GoText TaskFsm GraphState GraphInv GraphOps GraphRun GraphSim GraphDemo
  GraphRefine GraphWindows GraphView Idem RuntimeIdem Storage Findings Fusion VerifyDedup Pause TaskState TaskRun TaskRules TaskLife
  Orchestrator OrchRules OrchBoard ProjectStore Accounts AccountRules AccountStore AccountReplicas
  Projects ProjectRules ResultStore Results ResultRules ResultProps Reports ReportService ReportRules
  Packs PackRegistry PackRules
  GatewayCore Gateway GatewayRoutes GatewayAuth GatewayRules GatewayAccess GatewayMatrix GatewayLimits GatewaySessions
begin

text \<open>
  Verification library of the code audit engine.

  The program. The engine runs security audits as tasks. The task service
  (\<open>src/engine/services/task-service\<close>) owns the tasks: it creates and starts them, runs one
  orchestration goroutine for each, retries, pauses, resumes, cancels and times them out. The runtime
  service (\<open>runtime-service\<close>) runs the agents: a graph task is a growing graph of planner, executor and
  verifier turns whose only persistent state is an event log. The SAST adapter
  (\<open>sast-adapter-service\<close>) runs scanners and fuses their findings with the agents'. The storage service
  (\<open>storage-service\<close>) keeps uploaded archives and notifications, the project and result services keep
  projects and findings, and the gateway speaks HTTP to the outside. Services call each other over gRPC and
  write RPCs carry idempotency keys.

  Theories and the code they model, in order of import (paths below \<open>src/engine/services\<close>):

  \<^item> Prelude, GoText: time, byte strings, decoded JSON, keyed stores, gRPC errors; the parts of Go's
    \<open>strings\<close>, \<open>unicode/utf8\<close> and \<open>strconv\<close> that the code calls.
  \<^item> TaskFsm: \<open>task-service/internal/statemachine\<close>, the transition table and its queries, against the
    lifecycle of a task as an inductive relation.
  \<^item> GraphState: \<open>runtime-service/internal/sandbox/graph_state.go\<close> and the vocabulary of \<open>graph_events.go\<close>:
    node table, fold of one event, replay of a log with orphan recovery. GraphInv: its invariant, recovery, the
    dispatchable wave, torn lines.
  \<^item> GraphOps, GraphRun: \<open>graph.go\<close> and \<open>graph_inject.go\<close>: specification, planner declarations, prompts,
    and the main loop as a step relation cut where the lock is free, interleaved with human operations.
    GraphSim: every live operation does to the live table what its log line does on replay. GraphDemo: one run,
    evaluated. GraphRefine: the invariant of whole runs. GraphWindows: runs in which a human operation changes
    the node, writes its event and folds it in three windows; the replay of the log, the node cap, and the race
    that breaks a log.
  \<^item> GraphView: \<open>task-service/internal/service/graph_view.go\<close>, the second reader of the same log, and its
    agreement with the first.
  \<^item> Idem: the contract of an idempotency store (locale \<open>idem_store\<close>), instantiated by the store of
    \<open>project-service/internal/idempotency\<close> here, that of \<open>runtime-service/internal/service/idem_store.go\<close>
    in RuntimeIdem (with \<open>RunGraphTask\<close> around it), and that of \<open>storage-service/internal/repo/memory.go\<close>
    in Storage (with files, chunked upload and download, notifications and their Kafka events).
  \<^item> Findings, Fusion: \<open>sast-adapter-service/internal/fusion\<close>, five stages over a heap of findings.
    VerifyDedup: \<open>runtime-service/internal/service/verify_dedup.go\<close>, grouping before verification.
  \<^item> Pause: \<open>runtime-service/internal/sandbox/pause.go\<close>, gates with wake channels and the wait as a step
    relation.
  \<^item> TaskState, TaskRun: \<open>task-service/internal/service/task_service.go\<close>, \<open>task_logs.go\<close> and
    \<open>internal/reconciler\<close>: the task table, stage board and log; starting in two critical sections, the
    goroutine of a task as a state machine of its blocking points, cancelling, resuming, the timeout scan.
    TaskRules: the contract of a service invariant (locale \<open>task_invariant\<close>) and its preservation by every call
    and every goroutine step, with two instances (status history, execution log). TaskLife: how goroutines end,
    starting and resuming out of turn, the timeout scan.
  \<^item> Orchestrator: \<open>task-service/internal/orchestrator\<close>, one attempt of a task: the pipelines of the
    scan modes as functions that return their result, the calls they made with the stages they report, and the
    findings collected, over arguments for what the services answer. OrchRules: what a failed attempt takes back.
    OrchBoard: the events of an attempt on the stage board of TaskState.
  \<^item> ProjectStore: \<open>project-service/internal/repo\<close>, the maps of a replica and the tables all replicas
    share. Accounts: \<open>internal/service/user.go\<close>, \<open>user_lifecycle.go\<close>, \<open>invite.go\<close>, sessions,
    users, permissions, invitation codes. AccountRules: calls and runs of them, the contract of a law of the
    service (locale \<open>account_law\<close>), session epochs, uses of codes. AccountStore: two such laws and what a
    permission check reads. AccountReplicas: several replicas over one database.
  \<^item> Projects: \<open>internal/service/project.go\<close> and the handlers of both services
    (\<open>internal/handler\<close>), with lists, cursors and idempotency keys from Idem. ProjectRules: following
    cursors, replays, repository addresses, deletions at one replica.
  \<^item> ResultStore: \<open>result-service/internal/model\<close>, \<open>internal/repository\<close>, the stores of findings in memory and as
    tables behind one interface. Results: \<open>internal/service/result_service.go\<close>, \<open>inherit_service.go\<close> and
    \<open>libs/common-go/verdict\<close> over either. ResultRules: the contract of a listed store (locale
    \<open>listed_findings\<close>), kept by both, and the loops over its pages. ResultProps: inheritance, export.
  \<^item> Reports, ReportService: the two stores of reports and \<open>internal/service/report_service.go\<close>, with the page it
    renders and \<open>event_consumer.go\<close>. ReportRules: markup, downloads, counts, request keys.
  \<^item> Packs: \<open>task-service/internal/pack/pack.go\<close>, the declaration of a workload and its validation. PackRegistry:
    \<open>registry.go\<close>, the revisions with their tables, start-up, and \<open>internal/service/orchestration_admin.go\<close>.
    PackRules: which packs are accepted, pinned revisions, restarts.
  \<^item> GatewayCore, Gateway, GatewayRoutes: \<open>gateway-service/internal/handler\<close>, every route as a program that sends
    calls and goes on with their replies, played against arbitrary backends. GatewayAuth:
    \<open>internal/middleware\<close>, token buckets, revoked tokens, the check of a token, the health probe, and the chain of
    \<open>cmd/main.go\<close>. GatewayRules: policies a handler keeps to (locale \<open>call_policy\<close>). GatewayAccess, GatewayMatrix:
    the access matrix, one rule for each call, and what every route keeps of it. GatewayLimits: the contract of a
    source of tokens (locale \<open>token_source\<close>), the rate of a client, revocation. GatewaySessions: tokens of
    Accounts at the gateway.

  Conventions. A Go struct is a record with the source's fields, an error an \<open>Inl\<close> or an option, a map an
  association list (ranges over a Go map have no order, and no theorem depends on it), a shared pointer an
  address of a heap where aliasing matters (Fusion) and the table entry elsewhere. A body that holds its lock
  throughout is one function of the state; code that releases it is cut there and composed by a step relation or
  by a sequence of calls, so that every interleaving is covered. Clock readings, random bytes, digests, JSON
  decoders and what an agent answers are arguments about which nothing is assumed unless a theorem says so.
  \<open>int32\<close> and \<open>int64\<close> counters wrap; line numbers are 32-bit words. Texts outside ASCII are UTF-8 bytes.

  What the lemmas show. A graph run that starts with no running node in its log, whose humans release only
  what humans hold, and whose human operations are not overtaken between their windows, can be rebuilt from its
  log whenever no operation is pending; line numbers never skip and node ids never repeat. A graph that starts within its
  cap stays within it, whatever humans do; the web view agrees with the engine's fold. No interleaving of calls,
  goroutines and scans takes a task off its transition table, loses a task, or moves a finished one. A goroutine left
  alone ends after at most one attempt more than its retries. Polling the execution log neither repeats nor loses
  entries. Idempotency keys replay only the same body. Uploads come back as they went in. The result of fusion and
  the verification groups are determined by their inputs. A failed attempt deletes what it stored and nothing
  else, and its events touch only stages of the board. An ended session stays ended on its replica, every
  call keeps the stores well formed, and following the cursors of a list shows each project once. An inheritance
  copies each finding of its baseline that is not excluded and ends, a report counts every finding of its
  task, carries no markup of theirs and comes back whole. A pinned revision of a pack stays, and a
  restart brings every revision back but for its mark and description. At the gateway nothing is sent for a request without
  a valid token, a call names what the path names, a client is admitted at no more than its rate, and a token that
  was logged out is refused. The theorems of kind error state behaviour that contradicts what the code means
  to do: a resume that strands a claimed node, a human release that makes a log unreadable (of a node a wave
  holds, or overtaken by a wave between its windows), a confirmed finding that fusion drops, a second outcome that is not
  announced, pauses that do not hold, a paused task started twice, a task resumed with nothing to run it, stages
  shown completed that failed or never ran, sessions and passwords that other replicas go on accepting, an invitation
  used twice, a deletion that is answered and not done, a store of reports that panics after a retry, packs
  that a restart brings back into use.

  Bounds. No modelled loop has fuel: every function is total (structural, or with a measure), loops that can run for
  ever are step relations. A client that follows cursors (ProjectRules) is given one page more than there are
  entries, which is proved to be enough.

  Not modelled: gRPC and HTTP plumbing, PostgreSQL, Redis, MinIO and Kafka adapters, containers and the
  protocols spoken to an agent process, git and archives, generated code, configuration and mains. Not
  modelled yet: creation and listing of tasks, incremental scans, the gateway's web sockets, source
  files and uploads, scanner parsers, patch checks, the baton archive. Inside modelled
  files, log printing and usage totals are left out. The task service is modelled in its in-memory profile. The
  dispatch of one graph node by the serial loop is one step although parts of it run without the lock. The
  laws of invitation codes and unique names are about one replica without a database; AccountReplicas shows how
  they fail with one.
\<close>

end
